(* ===== verification/Wire_Prelude.thy ===== *)
theory Wire_Prelude
  imports Main "HOL-Library.Word"
begin

text \<open>
  What every component shares: the byte and integer types, the error values, the result
  type with its bind, the reader model, and the generic lemmas on lists and words.

  Go returns a value and an error. A call that fails is \<open>Inl e\<close>, a call that succeeds is
  \<open>Inr v\<close>. The sentinel that \<open>errors.Is\<close> would find is kept, with the sizes a
  \<open>SizeError\<close> carries and the path a \<open>PathError\<close> adds; the text of the message is not.

  An \<open>io.Reader\<close> over bytes that end in EOF (a \<open>bytes.Reader\<close>, or a connection the peer
  has closed) is the list of the bytes it still holds.
\<close>

section \<open>Types\<close>

type_synonym byte = "8 word"
type_synonym bytes = "8 word list"
type_synonym i32 = "32 word"
type_synonym i64 = "64 word"

text \<open>
  The sentinel errors of wire/java/errors.go, limits.go, session.go, stream_errors.go,
  chunk.go, capture/format.go, history, middleware, router, replay, login and packages io and
  context.
\<close>

datatype wire_error =
    EOF
  | UnexpectedEOF
  | ShortWrite
  | TransportError
  | ErrLimitExceeded
  | ErrInvalidFrame
  | EmptyFrame
  | ErrInvalidLimits
  | ErrVarIntTooLong
  | ErrVarLongTooLong
  | SizeError string int int
  | ErrFrameTooLarge
  | ErrNegativeLength
  | ErrTrailingBytes
  | ErrValueOutOfRange
  | ErrInvalidNBT
  | ErrDuplicateNBTKey
  | ErrRecursionLimit
  | ErrInvalidUUID
  | ErrInvalidUsername
  | ErrInvalidSharedSecret
  | ErrVerifyTokenMismatch
  | ErrWrongBufferMode
  | ErrInvalidCompression
  | ErrDecompressedTooLarge
  | ErrCompressionPolicy
  | ErrEncryptionOverrun
  | ErrEncryptionEnabled
  | ErrEncryptionUnavailable
  | ErrInvalidStream
  | ErrStreamClosed
  | ErrColumn
  | ErrSection
  | ErrInvalidLegacyStatus
  | ErrNotACapture
  | ErrUnsupportedFormat
  | ErrTruncated
  | ErrCorruptRecord
  | ErrRecordTooLarge
  | ErrUndisclosedSecret
  | ErrInvalidCapture
  | ErrEndOfCapture
  | ErrInvalidRing
  | ErrInvalidChain
  | ErrInvalidRouter
  | ErrUnknownPacket
  | ErrRunning
  | ErrHandler wire_error
  | ErrCanceled
  | ErrInvalidPlayer
  | ErrUnknownProtocol
  | ErrRedactedRecord
  | ErrReplayFailed wire_error
  | ErrInvalidLoginField
  | ErrUnexpectedLoginPacket
  | ErrLoginDisconnected
  | ErrInvalidAuthenticator
  | ErrAuthenticationRejected
  | ErrUnsupportedProtocol
  | ErrStreamNotStarted
  | ErrStreamStarted
  | ErrStreamClosing
  | ErrMalformedInbound
  | ErrAmbiguousWrite
  | ErrObservation
  | ErrInvalidTransport
  | PathError string wire_error
  | HandlerError
  | ErrInvalidServerKey
  | CryptoError
  | ErrSession
  | FieldError string

type_synonym 'a result = "wire_error + 'a"

section \<open>The result type\<close>

named_theorems result_simps \<open>what a bind that returns says about its parts\<close>

definition bindR :: "'a result \<Rightarrow> ('a \<Rightarrow> 'b result) \<Rightarrow> 'b result" where
  "bindR m f = (case m of Inl e \<Rightarrow> Inl e | Inr v \<Rightarrow> f v)"

lemma bindR_simps [simp]:
  "bindR (Inl e) f = Inl e"
  "bindR (Inr v) f = f v"
  by (simp_all add: bindR_def)

lemma bindR_Inr_iff [result_simps]:
  "bindR m f = Inr y \<longleftrightarrow> (\<exists>x. m = Inr x \<and> f x = Inr y)"
  by (cases m) auto

lemma bindR_Inl_iff:
  "bindR m f = Inl e \<longleftrightarrow> m = Inl e \<or> (\<exists>x. m = Inr x \<and> f x = Inl e)"
  by (cases m) auto

lemma bindR_split:
  "P (bindR m f) \<longleftrightarrow> (\<forall>e. m = Inl e \<longrightarrow> P (Inl e)) \<and> (\<forall>v. m = Inr v \<longrightarrow> P (f v))"
  by (cases m) auto

lemma bindR_cong [fundef_cong]:
  "m = m' \<Longrightarrow> (\<And>v. m' = Inr v \<Longrightarrow> f v = f' v) \<Longrightarrow> bindR m f = bindR m' f'"
  by (cases m') auto

text \<open>\<open>if cond { return err }\<close>.\<close>

definition guardR :: "bool \<Rightarrow> wire_error \<Rightarrow> unit result" where
  "guardR ok e = (if ok then Inr () else Inl e)"

lemma guardR_simps [simp]:
  "guardR True e = Inr ()"
  "guardR False e = Inl e"
  by (simp_all add: guardR_def)

lemma guardR_Inr_iff [result_simps]: "guardR ok e = Inr u \<longleftrightarrow> ok"
  by (simp add: guardR_def)

lemma if_Inl_Inr_iff [result_simps]:
  "(if b then Inl e else m) = Inr y \<longleftrightarrow> \<not> b \<and> m = Inr y"
  "(if b then m else Inl e) = Inr y \<longleftrightarrow> b \<and> m = Inr y"
  by auto

text \<open>\<open>errors.Is\<close> through the wrapping a field path adds.\<close>

fun root_cause :: "wire_error \<Rightarrow> wire_error" where
  "root_cause (PathError p e) = root_cause e"
| "root_cause e = e"

section \<open>Reading\<close>

text \<open>
  \<open>io.ReadFull\<close>: \<open>io.EOF\<close> only when nothing was read, \<open>io.ErrUnexpectedEOF\<close> after a
  partial read, and an empty buffer is always filled.
\<close>

definition read_full :: "nat \<Rightarrow> bytes \<Rightarrow> (bytes \<times> bytes) result" where
  "read_full n bs =
     (if n \<le> length bs then Inr (take n bs, drop n bs)
      else Inl (if bs = [] then EOF else UnexpectedEOF))"

lemma read_full_append [simp]: "length xs = n \<Longrightarrow> read_full n (xs @ ys) = Inr (xs, ys)"
  by (auto simp: read_full_def)

lemma read_full_Inr_iff [result_simps]:
  "read_full n bs = Inr (xs, ys) \<longleftrightarrow> bs = xs @ ys \<and> length xs = n"
  by (auto simp: read_full_def)

lemma read_full_Cons [simp]: "read_full (Suc 0) (b # bs) = Inr ([b], bs)"
  by (simp add: read_full_def)

section \<open>Lists\<close>

lemma length_one_conv: "length xs = Suc 0 \<longleftrightarrow> (\<exists>x. xs = [x])"
  by (auto simp: length_Suc_conv)

lemma take_drop_append [simp]:
  "length xs = n \<Longrightarrow> take n (xs @ ys) = xs"
  "length xs = n \<Longrightarrow> drop n (xs @ ys) = ys"
  by auto

section \<open>Words\<close>

text \<open>Go's conversion of a length to \<open>int32\<close>, exact below \<open>2^31\<close>.\<close>

definition int32_of :: "int \<Rightarrow> i32" where
  "int32_of n = word_of_int n"

lemma sint_int32_of [simp]: "- (2 ^ 31) \<le> n \<Longrightarrow> n < 2 ^ 31 \<Longrightarrow> sint (int32_of n) = n"
  by (simp add: int32_of_def signed_of_int signed_take_bit_int_eq_self)

lemma int32_of_sint [simp]: "int32_of (sint v) = v"
  by (simp add: int32_of_def)

lemma sint_i32_lower: "- (2 ^ 31) \<le> sint (v :: i32)"
  using sint_ge [of v] by simp

lemma sint_i32_upper: "sint (v :: i32) < 2 ^ 31"
  using sint_lt [of v] by simp

lemma sint_eq_uint_i32: "0 \<le> sint (v :: i32) \<Longrightarrow> uint v = sint v"
  using sint_i32_upper [of v] by (simp add: uint_sint take_bit_int_eq_self)

end
