(* ===== verification/Wire_Codec.thy ===== *)
theory Wire_Codec
  imports Wire_Prelude
begin

text \<open>
  The interface every wire value has: an encoder to bytes and a decoder that returns the value
  and the bytes after it. \<open>wire_codec\<close> promises that what was encoded is decoded, whatever
  follows it; \<open>canonical_codec\<close> also that every accepted input is the encoding of its value.
  Buffers, frames and packet bodies are proved against this interface, and the theories of
  the value types interpret it.
\<close>

text \<open>Decoding a known number of values one after the other.\<close>

fun decode_n :: "(bytes \<Rightarrow> ('a \<times> bytes) result) \<Rightarrow> nat \<Rightarrow> bytes \<Rightarrow> ('a list \<times> bytes) result" where
  "decode_n dec 0 bs = Inr ([], bs)"
| "decode_n dec (Suc n) bs = bindR (dec bs) (\<lambda>(v, rest).
     bindR (decode_n dec n rest) (\<lambda>(vs, rest'). Inr (v # vs, rest')))"

lemma length_decode_n: "decode_n dec n bs = Inr (vs, rest) \<Longrightarrow> length vs = n"
  by (induction n arbitrary: bs vs) (auto simp: result_simps)

locale wire_codec =
  fixes enc :: "'a \<Rightarrow> bytes"
    and dec :: "bytes \<Rightarrow> ('a \<times> bytes) result"
    and ok :: "'a \<Rightarrow> bool"
  assumes dec_enc: "ok v \<Longrightarrow> dec (enc v @ rest) = Inr (v, rest)"
begin

lemma enc_prefix_free:
  assumes "ok v" and "ok w" and "enc v @ r = enc w @ s"
  shows "v = w \<and> r = s"
proof -
  from dec_enc [OF assms(1), of r] dec_enc [OF assms(2), of s]
  have "Inr (v, r) = (Inr (w, s) :: ('a \<times> bytes) result)"
    unfolding assms(3) by (rule trans [OF sym])
  then show ?thesis by simp
qed

lemma enc_inject:
  assumes "ok v" and "ok w"
  shows "enc v = enc w \<longleftrightarrow> v = w"
  by (metis assms enc_prefix_free)

lemma dec_enc_Nil: "ok v \<Longrightarrow> dec (enc v) = Inr (v, [])"
  using dec_enc [of v "[]"] by simp

lemma decode_n_concat:
  "list_all ok vs \<Longrightarrow> decode_n dec (length vs) (concat (map enc vs) @ rest) = Inr (vs, rest)"
  by (induction vs) (auto simp: dec_enc)

end

locale canonical_codec = wire_codec +
  assumes enc_dec: "dec bs = Inr (v, rest) \<Longrightarrow> ok v \<and> bs = enc v @ rest"
begin

lemma dec_iff: "dec bs = Inr (v, rest) \<longleftrightarrow> ok v \<and> bs = enc v @ rest"
  using dec_enc enc_dec by blast

lemma dec_consumes: "dec bs = Inr (v, rest) \<Longrightarrow> length rest = length bs - length (enc v)"
  by (auto simp: dec_iff)

lemma decode_n_iff:
  "decode_n dec n bs = Inr (vs, rest) \<longleftrightarrow>
   length vs = n \<and> list_all ok vs \<and> bs = concat (map enc vs) @ rest"
proof (induction n arbitrary: bs vs)
  case (Suc n)
  show ?case
    by (cases vs) (auto simp: result_simps Suc.IH dec_iff)
qed auto

end

end
