(* ===== verification/Var_Int.thy ===== *)
theory Var_Int
  imports Wire_Codec
begin

unbundle bit_operations_syntax

text \<open>
  wire/java/varint.go: VarInts and VarLongs, seven bits a byte with the low group first.
  \<open>read_varint_from\<close> is the body of \<open>ReadVarInt\<close>'s loop (how many bytes are read, the
  result so far, the bytes left), \<open>put_varint\<close> the loop of \<open>PutVarInt\<close>, \<open>varint_size\<close>
  the loop of \<open>VarIntSize\<close>. A loop whose state is a word of any width is written once, so
  VarInt and VarLong share their lemmas.
\<close>

section \<open>Encoding\<close>

lemma unat_drop_bit_7_less: "drop_bit 7 (r :: 'a::len word) \<noteq> 0 \<Longrightarrow> unat (drop_bit 7 r) < unat r"
proof -
  assume "drop_bit 7 r \<noteq> 0"
  then have "unat r \<noteq> 0"
    by (metis drop_bit_of_0 unat_eq_zero)
  moreover have "unat (drop_bit 7 r) = unat r div 2 ^ 7"
    by (subst unat_drop_bit_eq) (rule drop_bit_eq_div)
  ultimately show ?thesis
    by simp
qed

text \<open>
  One step emits the low seven bits, with the top bit set while anything remains. Go's
  \<open>PutVarInt\<close> fills a buffer by index; the list is what it has filled.
\<close>

function put_var :: "'a::len word \<Rightarrow> bytes" where
  "put_var remaining =
     (let byte_value = ucast (remaining AND 0x7F); rest = drop_bit 7 remaining
      in if rest \<noteq> 0 then (byte_value OR 0x80) # put_var rest else [byte_value])"
  by pat_completeness auto
termination
  by (relation "measure unat") (auto intro: unat_drop_bit_7_less)

declare put_var.simps [simp del]

definition put_varint :: "i32 \<Rightarrow> bytes" where
  "put_varint v = put_var v"

function size_from :: "nat \<Rightarrow> 'a::len word \<Rightarrow> nat" where
  "size_from n remaining =
     (let rest = drop_bit 7 remaining in if rest = 0 then n else size_from (Suc n) rest)"
  by pat_completeness auto
termination
  by (relation "measure (\<lambda>(s, r). unat r)") (auto intro: unat_drop_bit_7_less)

declare size_from.simps [simp del]

definition varint_size :: "i32 \<Rightarrow> nat" where
  "varint_size v = size_from 1 v"

text \<open>
  \<open>WriteVarLong\<close> loops over a buffer of ten bytes and panics past it: \<open>None\<close> is the panic.
\<close>

fun write_varlong_from :: "nat \<Rightarrow> i64 \<Rightarrow> bytes option" where
  "write_varlong_from 0 remaining = None"
| "write_varlong_from (Suc room) remaining =
     (let byte_value = ucast (remaining AND 0x7F); rest = drop_bit 7 remaining
      in if rest = 0 then Some [byte_value]
         else map_option (\<lambda>bs. (byte_value OR 0x80) # bs) (write_varlong_from room rest))"

definition write_varlong :: "i64 \<Rightarrow> bytes option" where
  "write_varlong v = write_varlong_from 10 v"

section \<open>Decoding\<close>

text \<open>
  The loop of both readers: \<open>final\<close> is the index of the last byte a value may have (4, 9) and
  \<open>e\<close> the error past it. The result is the value, the count of bytes read and what is left.
\<close>

fun read_var_from ::
  "nat \<Rightarrow> wire_error \<Rightarrow> nat \<Rightarrow> 'a::len word \<Rightarrow> bytes \<Rightarrow> ('a word \<times> nat \<times> bytes) result" where
  "read_var_from final e k acc [] = Inl EOF"
| "read_var_from final e k acc (b # bs) =
     (let acc' = acc OR push_bit (7 * k) (ucast (b AND 0x7F))
      in if b AND 0x80 = 0 then Inr (acc', k + 1, bs)
         else if k = final then Inl e
         else read_var_from final e (k + 1) acc' bs)"

definition read_varint :: "bytes \<Rightarrow> (i32 \<times> nat \<times> bytes) result" where
  "read_varint bs = read_var_from 4 ErrVarIntTooLong 0 0 bs"

definition read_varlong :: "bytes \<Rightarrow> (i64 \<times> nat \<times> bytes) result" where
  "read_varlong bs = read_var_from 9 ErrVarLongTooLong 0 0 bs"

section \<open>Lemmas on one byte group\<close>

lemma low_seven: "(0x7F :: 'a::len word) = mask 7"
  by (simp add: mask_eq_exp_minus_1)

lemma byte_7f_bits: "bit ((b :: byte) AND 0x7F) n \<longleftrightarrow> bit b n \<and> n < 7"
  by (simp only: low_seven bit_and_iff bit_mask_iff) (auto dest: bit_imp_le_length)

lemma word_7f_bits: "bit ((r :: 'a::len word) AND 0x7F) n \<longleftrightarrow> bit r n \<and> n < 7"
  by (simp only: low_seven bit_and_iff bit_mask_iff) (auto dest: bit_imp_le_length)

lemma byte_80_bits: "bit (0x80 :: byte) n \<longleftrightarrow> n = 7"
proof -
  have "(0x80 :: byte) = push_bit 7 1" by simp
  then show ?thesis by (simp only: bit_push_bit_iff bit_1_iff) auto
qed

lemma byte_80_zero_iff: "(b :: byte) AND 0x80 = 0 \<longleftrightarrow> \<not> bit b 7"
  using and_exp_eq_0_iff_not_bit [of b 7] by simp

lemma group_continues [simp]: "(ucast ((r :: 'a::len word) AND 0x7F) OR 0x80 :: byte) AND 0x80 \<noteq> 0"
  by (simp only: byte_80_zero_iff bit_or_iff byte_80_bits) simp

lemma group_stops [simp]: "(ucast ((r :: 'a::len word) AND 0x7F) :: byte) AND 0x80 = 0"
  by (simp only: byte_80_zero_iff bit_ucast_iff word_7f_bits) simp

lemma group_value_continued [simp]:
  "ucast ((ucast ((r :: 'a::len word) AND 0x7F) OR 0x80 :: byte) AND 0x7F) = r AND 0x7F"
  by (rule bit_word_eqI)
    (simp only: bit_ucast_iff byte_7f_bits word_7f_bits bit_or_iff byte_80_bits, auto)

lemma group_value_last [simp]:
  "ucast ((ucast ((r :: 'a::len word) AND 0x7F) :: byte) AND 0x7F) = r AND 0x7F"
  by (rule bit_word_eqI)
    (simp only: bit_ucast_iff byte_7f_bits word_7f_bits, auto)

lemma groups_join:
  "push_bit n (r AND 0x7F) OR push_bit (n + 7) (drop_bit 7 r) = push_bit n (r :: 'a::len word)"
proof (rule bit_word_eqI)
  fix i
  assume "i < LENGTH('a)"
  then show "bit (push_bit n (r AND 0x7F) OR push_bit (n + 7) (drop_bit 7 r)) i =
      bit (push_bit n r) i"
    by (cases "n + 7 \<le> i")
      (simp_all only: bit_or_iff bit_push_bit_iff word_7f_bits bit_drop_bit_eq o_def, auto)
qed

section \<open>Lemmas on the loops\<close>

lemma put_var_step:
  "drop_bit 7 r \<noteq> 0 \<Longrightarrow> put_var r = (ucast (r AND 0x7F) OR 0x80) # put_var (drop_bit 7 r)"
  "drop_bit 7 r = 0 \<Longrightarrow> put_var r = [ucast (r AND 0x7F)]"
  by (simp_all only: put_var.simps [of r] Let_def) simp_all

lemma put_var_nonempty [simp]: "put_var r \<noteq> []"
  by (metis list.distinct(1) put_var_step)

lemma read_var_put:
  assumes "k + length (put_var r) \<le> final + 1"
  shows "read_var_from final e k acc (put_var r @ rest) =
    Inr (acc OR push_bit (7 * k) r, k + length (put_var r), rest)"
  using assms
proof (induction r arbitrary: k acc rule: put_var.induct)
  case (1 r)
  show ?case
  proof (cases "drop_bit 7 r = 0")
    case True
    then have low: "r AND 0x7F = r"
      using groups_join [of 0 r] by (simp only: True) simp
    have "read_var_from final e k acc (put_var r @ rest) =
        Inr (acc OR push_bit (7 * k) (r AND 0x7F), k + length (put_var r), rest)"
      by (simp only: put_var_step(2) [OF True] append.simps read_var_from.simps Let_def
          group_stops group_value_last if_True) simp
    then show ?thesis by (simp only: low)
  next
    case False
    note step = put_var_step(1) [OF False]
    have len: "0 < length (put_var (drop_bit 7 r))" by simp
    have "k \<noteq> final" and fits: "(k + 1) + length (put_var (drop_bit 7 r)) \<le> final + 1"
      using "1.prems" len unfolding step list.size by linarith+
    have "7 * (k + 1) = 7 * k + 7" by simp
    then have join: "(acc OR push_bit (7 * k) (r AND 0x7F)) OR push_bit (7 * (k + 1)) (drop_bit 7 r) =
        acc OR push_bit (7 * k) r"
      by (simp only: or.assoc groups_join)
    show ?thesis
      using "1.IH" [OF refl refl False fits] \<open>k \<noteq> final\<close>
      by (simp only: step append.simps read_var_from.simps Let_def group_continues
          group_value_continued if_False join) simp
  qed
qed

lemma drop_bit_bound:
  assumes "unat (r :: 'a::len word) < 2 ^ (7 * Suc n)"
  shows "unat (drop_bit 7 r) < 2 ^ (7 * n)"
proof -
  have "unat (drop_bit 7 r) = unat r div 2 ^ 7"
    by (subst unat_drop_bit_eq) (rule drop_bit_eq_div)
  then show ?thesis
    using assms by (simp add: div_less_iff_less_mult power_add mult.commute)
qed

lemma length_put_var_le:
  assumes "unat (r :: 'a::len word) < 2 ^ (7 * Suc n)"
  shows "length (put_var r) \<le> Suc n"
  using assms
proof (induction n arbitrary: r)
  case 0
  then have "drop_bit 7 r = 0"
    using drop_bit_bound [of r 0] by (metis less_one mult_0_right power_0 unat_eq_zero)
  then show ?case by (simp only: put_var_step(2)) simp
next
  case (Suc n)
  show ?case
  proof (cases "drop_bit 7 r = 0")
    case True
    then show ?thesis by (simp only: put_var_step(2)) simp
  next
    case False
    from Suc.IH [OF drop_bit_bound [OF Suc.prems]] show ?thesis
      by (simp only: put_var_step(1) [OF False]) simp
  qed
qed

lemma size_from_put_var: "size_from (Suc n) r = n + length (put_var r)"
proof (induction "Suc n" r arbitrary: n rule: size_from.induct)
  case (1 r)
  show ?case
  proof (cases "drop_bit 7 r = 0")
    case True
    then show ?thesis
      by (simp only: size_from.simps [of _ r] put_var_step(2) [OF True] Let_def) simp
  next
    case False
    from "1" [OF refl False] show ?thesis
      by (simp only: size_from.simps [of _ r] put_var_step(1) [OF False] Let_def False if_False) simp
  qed
qed

lemma varint_size_length: "varint_size v = length (put_varint v)"
  using size_from_put_var [of 0 v] by (simp add: varint_size_def put_varint_def)

lemma length_put_varint: "1 \<le> length (put_varint v)" "length (put_varint v) \<le> 5"
proof -
  show "1 \<le> length (put_varint v)"
    by (simp add: put_varint_def Suc_le_eq)
  have "unat v < 2 ^ (7 * Suc 4)"
    using unsigned_less [where ?'a = nat, of v] by simp
  from length_put_var_le [OF this] show "length (put_varint v) \<le> 5"
    by (simp add: put_varint_def)
qed

lemma write_varlong_from_put_var:
  "length (put_var r) \<le> room \<Longrightarrow> write_varlong_from room r = Some (put_var r)"
proof (induction room arbitrary: r)
  case (Suc room)
  show ?case
  proof (cases "drop_bit 7 r = 0")
    case True
    then show ?thesis
      by (simp only: write_varlong_from.simps put_var_step(2) [OF True] Let_def) simp
  next
    case False
    with Suc.prems have "length (put_var (drop_bit 7 r)) \<le> room"
      by (simp only: put_var_step(1) [OF False]) simp
    from Suc.IH [OF this] show ?thesis
      by (simp only: write_varlong_from.simps put_var_step(1) [OF False] Let_def False if_False) simp
  qed
qed simp

lemma length_put_varlong: "length (put_var (v :: i64)) \<le> 10"
proof -
  have "unat v < 2 ^ (7 * Suc 9)"
    using unsigned_less [where ?'a = nat, of v] by simp
  from length_put_var_le [OF this] show ?thesis by simp
qed

section \<open>What an accepted encoding looks like\<close>

text \<open>A complete group sequence: the top bit is set on every byte but the last.\<close>

fun complete_groups :: "bytes \<Rightarrow> bool" where
  "complete_groups [] = False"
| "complete_groups [b] = (b AND 0x80 = 0)"
| "complete_groups (b # bs) = (b AND 0x80 \<noteq> 0 \<and> complete_groups bs)"

fun groups_value :: "bytes \<Rightarrow> 'a::len word" where
  "groups_value [] = 0"
| "groups_value (b # bs) = ucast (b AND 0x7F) OR push_bit 7 (groups_value bs)"

lemma complete_groups_Cons:
  "bs \<noteq> [] \<Longrightarrow> complete_groups (b # bs) \<longleftrightarrow> b AND 0x80 \<noteq> 0 \<and> complete_groups bs"
  by (cases bs) auto

lemma complete_groups_nonempty: "complete_groups xs \<Longrightarrow> xs \<noteq> []"
  by auto

lemma read_var_groups:
  fixes acc :: "'a::len word"
  assumes "k \<le> final" and "read_var_from final e k acc bs = Inr (v, n, rest)"
  shows "\<exists>xs. bs = xs @ rest \<and> n = k + length xs \<and> n \<le> final + 1 \<and> complete_groups xs
    \<and> v = acc OR push_bit (7 * k) (groups_value xs)"
  using assms
proof (induction bs arbitrary: k acc)
  case (Cons b bs)
  show ?case
  proof (cases "b AND 0x80 = 0")
    case True
    with Cons.prems have "v = acc OR push_bit (7 * k) (ucast (b AND 0x7F))" "n = k + 1" "rest = bs"
      by (simp_all only: read_var_from.simps Let_def refl if_True prod.inject sum.inject)
    with True Cons.prems(1) show ?thesis
      by (intro exI [of _ "[b]"]) simp
  next
    case False
    with Cons.prems have "k \<noteq> final" and
      rec: "read_var_from final e (k + 1) (acc OR push_bit (7 * k) (ucast (b AND 0x7F))) bs = Inr (v, n, rest)"
      by (auto simp only: read_var_from.simps Let_def if_False split: if_splits)
    with Cons.prems(1) have "k + 1 \<le> final" by simp
    from Cons.IH [OF this rec] obtain xs where xs: "bs = xs @ rest" "n = (k + 1) + length xs"
      "n \<le> final + 1" "complete_groups xs"
      "v = (acc OR push_bit (7 * k) (ucast (b AND 0x7F))) OR push_bit (7 * (k + 1)) (groups_value xs)"
      by blast
    have "push_bit (7 * (k + 1)) (groups_value xs :: 'a word) =
        push_bit (7 * k) (push_bit 7 (groups_value xs))"
      by (simp add: add.commute)
    then have "v = acc OR push_bit (7 * k) (groups_value (b # xs))"
      by (simp only: xs(5) groups_value.simps push_bit_or or.assoc)
    with xs False show ?thesis
      by (intro exI [of _ "b # xs"]) (simp add: complete_groups_Cons complete_groups_nonempty)
  qed
qed simp

lemma groups_value_bound: "7 * length xs \<le> n \<Longrightarrow> bit (groups_value xs :: 'a::len word) i \<Longrightarrow> i < n"
proof (induction xs arbitrary: n i)
  case (Cons b xs)
  show ?case
  proof (cases "i < 7")
    case True
    with Cons.prems(1) show ?thesis by simp
  next
    case False
    from Cons.prems(2) False have "bit (groups_value xs :: 'a word) (i - 7)"
      by (simp only: groups_value.simps bit_or_iff bit_ucast_iff byte_7f_bits bit_push_bit_iff) simp
    moreover from Cons.prems(1) have "7 * length xs \<le> n - 7" by simp
    ultimately have "i - 7 < n - 7" by (metis Cons.IH)
    then show ?thesis by simp
  qed
qed simp

lemma groups_value_low:
  fixes x :: "'a::len word"
  assumes "7 < LENGTH('a)"
  shows "(ucast ((ucast (b AND 0x7F) OR push_bit 7 x) AND 0x7F) :: byte) = b AND 0x7F"
  using assms
  by (intro bit_word_eqI)
    (simp only: bit_ucast_iff byte_7f_bits word_7f_bits bit_or_iff bit_push_bit_iff, auto)

lemma groups_value_high:
  fixes xs :: bytes and b :: byte
  assumes "7 * Suc (length xs) \<le> LENGTH('a::len)"
  shows "drop_bit 7 (ucast (b AND 0x7F) OR push_bit 7 (groups_value xs) :: 'a word) = groups_value xs"
proof (rule bit_word_eqI)
  fix i
  assume "i < LENGTH('a)"
  have "i + 7 < LENGTH('a)" if "bit (groups_value xs :: 'a word) i"
  proof -
    from assms have "7 * length xs \<le> LENGTH('a) - 7" by simp
    from groups_value_bound [OF this that] show ?thesis by simp
  qed
  then show "bit (drop_bit 7 (ucast (b AND 0x7F) OR push_bit 7 (groups_value xs) :: 'a word)) i =
      bit (groups_value xs :: 'a word) i"
    by (simp only: bit_drop_bit_eq o_def bit_or_iff bit_push_bit_iff bit_ucast_iff byte_7f_bits)
      (auto simp: add.commute)
qed

lemma byte_bits_below_8: "n < LENGTH(8) \<Longrightarrow> n = 7 \<or> n < 7"
  by auto

lemma byte_low_only: "(b :: byte) AND 0x80 = 0 \<Longrightarrow> b AND 0x7F = b"
  by (rule bit_word_eqI, drule byte_bits_below_8) (auto simp only: byte_7f_bits byte_80_zero_iff)

lemma byte_low_continued: "(b :: byte) AND 0x80 \<noteq> 0 \<Longrightarrow> b AND 0x7F OR 0x80 = b"
  by (rule bit_word_eqI, drule byte_bits_below_8)
    (auto simp only: bit_or_iff byte_80_bits byte_7f_bits byte_80_zero_iff)

text \<open>
  Where no group is cut off by the width, the only encoding as short as the encoder's is the
  encoder's own.
\<close>

lemma put_var_groups_value:
  assumes "complete_groups xs" and "7 * length xs \<le> LENGTH('a::len)" and "7 < LENGTH('a)"
    and "length (put_var (groups_value xs :: 'a word)) = length xs"
  shows "put_var (groups_value xs :: 'a word) = xs"
  using assms
proof (induction xs rule: complete_groups.induct)
  case (2 b)
  have "(groups_value [b] :: 'a word) = ucast (b AND 0x7F) OR push_bit 7 0" by simp
  moreover from "2.prems" have "drop_bit 7 (ucast (b AND 0x7F) OR push_bit 7 0 :: 'a word) = 0"
    using groups_value_high [of "[]" b, where 'a = 'a] by simp
  moreover from "2.prems"(1) have "b AND 0x7F = b"
    by (simp only: complete_groups.simps byte_low_only)
  ultimately show ?case
    using groups_value_low [OF "2.prems"(3), of b 0] by (simp only: put_var_step(2))
next
  case (3 b c xs)
  let ?ys = "c # xs" and ?w = "groups_value (b # c # xs) :: 'a word"
  have high: "drop_bit 7 ?w = groups_value ?ys"
    using groups_value_high [of ?ys b, where 'a = 'a] "3.prems"(2) by simp
  have low: "(ucast (?w AND 0x7F) :: byte) = b AND 0x7F"
    using groups_value_low [OF "3.prems"(3), of b "groups_value ?ys"] by simp
  have nz: "drop_bit 7 ?w \<noteq> 0"
  proof
    assume "drop_bit 7 ?w = 0"
    then have "length (put_var ?w) = 1" by (simp only: put_var_step(2)) simp
    with "3.prems"(4) show False by simp
  qed
  have b: "b AND 0x7F OR 0x80 = b"
    using "3.prems"(1) by (intro byte_low_continued) simp
  have put: "put_var ?w = b # put_var (groups_value ?ys :: 'a word)"
    by (simp only: put_var_step(1) [OF nz] low b high)
  with "3.prems" "3.IH" show ?case by simp
qed simp

lemma read_varint_Inr:
  assumes "read_varint bs = Inr (v, n, rest)"
  shows "\<exists>xs. bs = xs @ rest \<and> n = length xs \<and> n \<le> 5 \<and> complete_groups xs \<and> v = groups_value xs"
  using read_var_groups [OF _ assms [unfolded read_varint_def]] by auto

lemma read_varint_length:
  "read_varint bs = Inr (v, n, rest) \<Longrightarrow> length bs = n + length rest \<and> 1 \<le> n \<and> n \<le> 5"
  by (drule read_varint_Inr) (auto simp: Suc_le_eq dest: complete_groups_nonempty)

lemma read_varint_put_varint:
  "read_varint (put_varint v @ rest) = Inr (v, length (put_varint v), rest)"
  using length_put_varint(2) [of v] read_var_put [of 0 v 4 ErrVarIntTooLong 0 rest]
  by (simp add: read_varint_def put_varint_def)

lemma read_varint_canonical:
  assumes "read_varint bs = Inr (v, n, rest)" and "varint_size v = n" and "n \<le> 4"
  shows "bs = put_varint v @ rest"
proof -
  from read_varint_Inr [OF assms(1)] obtain xs where xs: "bs = xs @ rest" "n = length xs"
    "complete_groups xs" "v = groups_value xs"
    by blast
  with assms put_var_groups_value [OF xs(3), where 'a = 32] show ?thesis
    by (simp add: varint_size_length put_varint_def)
qed

text \<open>The VarInt as a value of the codec interface.\<close>

definition dec_varint :: "bytes \<Rightarrow> (i32 \<times> bytes) result" where
  "dec_varint bs = bindR (read_varint bs) (\<lambda>(v, n, rest). Inr (v, rest))"

interpretation varint: wire_codec put_varint dec_varint "\<lambda>_. True"
  by unfold_locales (simp add: dec_varint_def read_varint_put_varint)

section \<open>Properties\<close>

text \<open>
  \<open>ReadVarInt\<close> reads back every 32-bit value \<open>PutVarInt\<close> wrote, whatever follows it, and
  reports the byte count \<open>VarIntSize\<close> predicts, which lies between one and five.
\<close>

theorem varint_roundtrip:
  "read_varint (put_varint v @ rest) = Inr (v, varint_size v, rest) \<and>
   length (put_varint v) = varint_size v \<and> 1 \<le> varint_size v \<and> varint_size v \<le> 5"
  using length_put_varint [of v] by (simp add: varint_size_length read_varint_put_varint)

text \<open>
  \<open>WriteVarLong\<close> never reaches its panic, writes at most ten bytes for any 64-bit value,
  and \<open>ReadVarLong\<close> reads the value back.
\<close>

theorem varlong_roundtrip:
  "\<exists>bs. write_varlong v = Some bs \<and> 1 \<le> length bs \<and> length bs \<le> 10 \<and>
     read_varlong (bs @ rest) = Inr (v, length bs, rest)"
  using length_put_varlong [of v] read_var_put [of 0 v 9 ErrVarLongTooLong 0 rest]
  by (simp add: write_varlong_def write_varlong_from_put_var read_varlong_def Suc_le_eq)

end
