(* ===== verification/Protocol_Limits.thy ===== *)
theory Protocol_Limits
  imports Wire_Prelude
begin

text \<open>
  limits.go: the finite codec and stream bounds. \<open>limits\<close> is the struct \<open>Limits\<close>,
  \<open>new_limits\<close> is \<open>NewLimits\<close>, and an option is what the \<open>LimitOption\<close> type holds: a
  function that changes the limits or fails. \<open>limits_ok\<close> is the invariant \<open>NewLimits\<close>
  establishes and every other component relies on.
\<close>

section \<open>The struct and its constants\<close>

record limits =
  valid :: bool
  frame_bytes :: int
  decompressed_bytes :: int
  string_bytes :: int
  collection_items :: int
  nbt_bytes :: int
  plugin_bytes :: int
  recursion_depth :: int
  queue_items :: int
  buffered_bytes :: int

definition default_limits :: limits where
  "default_limits = \<lparr> valid = True,
     frame_bytes = 2 * 2 ^ 20,
     decompressed_bytes = 8 * 2 ^ 20,
     string_bytes = 2 ^ 20,
     collection_items = 2 ^ 20,
     nbt_bytes = 4 * 2 ^ 20,
     plugin_bytes = 2 ^ 20,
     recursion_depth = 512,
     queue_items = 4096,
     buffered_bytes = 32 * 2 ^ 20 \<rparr>"

definition hard_limits :: limits where
  "hard_limits = \<lparr> valid = True,
     frame_bytes = 64 * 2 ^ 20,
     decompressed_bytes = 256 * 2 ^ 20,
     string_bytes = 16 * 2 ^ 20,
     collection_items = 16 * 2 ^ 20,
     nbt_bytes = 64 * 2 ^ 20,
     plugin_bytes = 16 * 2 ^ 20,
     recursion_depth = 2048,
     queue_items = 65536,
     buffered_bytes = 2 ^ 30 \<rparr>"

text \<open>The zero value \<open>Limits{}\<close>, which no constructor made.\<close>

definition zero_limits :: limits where
  "zero_limits = \<lparr> valid = False, frame_bytes = 0, decompressed_bytes = 0, string_bytes = 0,
     collection_items = 0, nbt_bytes = 0, plugin_bytes = 0, recursion_depth = 0,
     queue_items = 0, buffered_bytes = 0 \<rparr>"

section \<open>Options\<close>

type_synonym limit_option = "limits \<Rightarrow> limits result"

definition bounded :: "int \<Rightarrow> int \<Rightarrow> (limits \<Rightarrow> limits) \<Rightarrow> limit_option" where
  "bounded v ceiling apply_to =
     (\<lambda>l. if v < 1 \<or> ceiling < v then Inl ErrLimitExceeded else Inr (apply_to l))"

definition max_frame_bytes :: "int \<Rightarrow> limit_option" where
  "max_frame_bytes v = bounded v (frame_bytes hard_limits) (\<lambda>l. l\<lparr>frame_bytes := v\<rparr>)"

definition max_decompressed_bytes :: "int \<Rightarrow> limit_option" where
  "max_decompressed_bytes v =
     bounded v (decompressed_bytes hard_limits) (\<lambda>l. l\<lparr>decompressed_bytes := v\<rparr>)"

definition max_string_bytes :: "int \<Rightarrow> limit_option" where
  "max_string_bytes v = bounded v (string_bytes hard_limits) (\<lambda>l. l\<lparr>string_bytes := v\<rparr>)"

definition max_collection_items :: "int \<Rightarrow> limit_option" where
  "max_collection_items v =
     bounded v (collection_items hard_limits) (\<lambda>l. l\<lparr>collection_items := v\<rparr>)"

definition max_nbt_bytes :: "int \<Rightarrow> limit_option" where
  "max_nbt_bytes v = bounded v (nbt_bytes hard_limits) (\<lambda>l. l\<lparr>nbt_bytes := v\<rparr>)"

definition max_plugin_bytes :: "int \<Rightarrow> limit_option" where
  "max_plugin_bytes v = bounded v (plugin_bytes hard_limits) (\<lambda>l. l\<lparr>plugin_bytes := v\<rparr>)"

definition max_recursion_depth :: "int \<Rightarrow> limit_option" where
  "max_recursion_depth v =
     bounded v (recursion_depth hard_limits) (\<lambda>l. l\<lparr>recursion_depth := v\<rparr>)"

definition max_queue_items :: "int \<Rightarrow> limit_option" where
  "max_queue_items v = bounded v (queue_items hard_limits) (\<lambda>l. l\<lparr>queue_items := v\<rparr>)"

definition max_buffered_bytes :: "int \<Rightarrow> limit_option" where
  "max_buffered_bytes v =
     bounded v (buffered_bytes hard_limits) (\<lambda>l. l\<lparr>buffered_bytes := v\<rparr>)"

lemmas limit_option_defs = max_frame_bytes_def max_decompressed_bytes_def max_string_bytes_def
  max_collection_items_def max_nbt_bytes_def max_plugin_bytes_def max_recursion_depth_def
  max_queue_items_def max_buffered_bytes_def

text \<open>The options the package exports: the fields are private, so these are the ones there are.\<close>

inductive built_option :: "limit_option \<Rightarrow> bool" where
  frame: "built_option (max_frame_bytes v)"
| decompressed: "built_option (max_decompressed_bytes v)"
| string_opt: "built_option (max_string_bytes v)"
| collection: "built_option (max_collection_items v)"
| nbt: "built_option (max_nbt_bytes v)"
| plugin: "built_option (max_plugin_bytes v)"
| recursion: "built_option (max_recursion_depth v)"
| queue: "built_option (max_queue_items v)"
| buffered: "built_option (max_buffered_bytes v)"

section \<open>NewLimits\<close>

text \<open>The option loop: a nil option or a failing one ends it.\<close>

fun apply_options :: "limit_option option list \<Rightarrow> limits \<Rightarrow> limits result" where
  "apply_options [] l = Inr l"
| "apply_options (None # opts) l = Inl ErrLimitExceeded"
| "apply_options (Some f # opts) l = bindR (f l) (apply_options opts)"

definition new_limits :: "limit_option option list \<Rightarrow> limits result" where
  "new_limits opts = bindR (apply_options opts default_limits) (\<lambda>l.
     if buffered_bytes l < frame_bytes l + decompressed_bytes l
     then Inl ErrLimitExceeded else Inr l)"

section \<open>The invariant\<close>

definition in_range :: "int \<Rightarrow> int \<Rightarrow> bool" where
  "in_range ceiling v \<longleftrightarrow> 1 \<le> v \<and> v \<le> ceiling"

definition limits_bounded :: "limits \<Rightarrow> bool" where
  "limits_bounded l \<longleftrightarrow> valid l \<and>
     in_range (frame_bytes hard_limits) (frame_bytes l) \<and>
     in_range (decompressed_bytes hard_limits) (decompressed_bytes l) \<and>
     in_range (string_bytes hard_limits) (string_bytes l) \<and>
     in_range (collection_items hard_limits) (collection_items l) \<and>
     in_range (nbt_bytes hard_limits) (nbt_bytes l) \<and>
     in_range (plugin_bytes hard_limits) (plugin_bytes l) \<and>
     in_range (recursion_depth hard_limits) (recursion_depth l) \<and>
     in_range (queue_items hard_limits) (queue_items l) \<and>
     in_range (buffered_bytes hard_limits) (buffered_bytes l)"

definition limits_ok :: "limits \<Rightarrow> bool" where
  "limits_ok l \<longleftrightarrow> limits_bounded l \<and> frame_bytes l + decompressed_bytes l \<le> buffered_bytes l"

lemma limits_bounded_default: "limits_bounded default_limits"
  by (simp add: limits_bounded_def in_range_def default_limits_def hard_limits_def)

lemma limits_ok_default [simp]: "limits_ok default_limits"
  by (simp add: limits_ok_def limits_bounded_default) (simp add: default_limits_def)

lemma built_option_bounded:
  assumes "built_option f" and "limits_bounded l" and "f l = Inr l'"
  shows "limits_bounded l'"
  using assms
  by (cases rule: built_option.cases)
    (auto simp: limit_option_defs bounded_def limits_bounded_def in_range_def split: if_splits)

lemma apply_options_bounded:
  assumes "\<forall>f. Some f \<in> set opts \<longrightarrow> built_option f"
    and "limits_bounded l" and "apply_options opts l = Inr l'"
  shows "limits_bounded l'"
  using assms
proof (induction opts l rule: apply_options.induct)
  case (3 f opts l)
  from "3.prems"(3) obtain m where "f l = Inr m" and "apply_options opts m = Inr l'"
    by (auto simp: result_simps)
  with "3.prems" "3.IH" show ?case by (auto intro: built_option_bounded)
qed auto

lemma limits_okD:
  assumes "limits_ok l"
  shows "valid l" "1 \<le> frame_bytes l" "frame_bytes l \<le> 64 * 2 ^ 20"
    "1 \<le> decompressed_bytes l" "decompressed_bytes l \<le> 256 * 2 ^ 20"
    "1 \<le> string_bytes l" "string_bytes l \<le> 16 * 2 ^ 20"
    "1 \<le> collection_items l" "collection_items l \<le> 16 * 2 ^ 20"
    "1 \<le> nbt_bytes l" "nbt_bytes l \<le> 64 * 2 ^ 20"
    "1 \<le> recursion_depth l" "recursion_depth l \<le> 2048"
    "1 \<le> queue_items l"
  using assms
  by (simp_all add: limits_ok_def limits_bounded_def in_range_def hard_limits_def)

text \<open>
  The fields are private, so a value that reports itself valid came out of \<open>NewLimits\<close>: the
  type of the limits a validated component holds.
\<close>

typedef checked_limits = "{l. limits_ok l}"
  morphisms limits_of checked
  by (rule exI [of _ default_limits]) simp

lemma limits_of_ok [simp]: "limits_ok (limits_of l)"
  using limits_of [of l] by simp

lemma limits_of_checked: "limits_ok l \<Longrightarrow> limits_of (checked l) = l"
  by (simp add: checked_inverse)

section \<open>Properties\<close>

text \<open>
  whatever options the package can build are passed, in any number and order, limits that
  \<open>NewLimits\<close> returns are valid, every field lies between 1 and its hard ceiling, and the
  buffered bytes cover one frame and its decompressed body.
\<close>

theorem new_limits_ok:
  assumes "\<forall>f. Some f \<in> set opts \<longrightarrow> built_option f" and "new_limits opts = Inr l"
  shows "limits_ok l"
  using assms apply_options_bounded [OF assms(1) limits_bounded_default]
  by (auto simp: new_limits_def limits_ok_def result_simps)

theorem new_limits_ok_witness:
  "limits_ok (default_limits\<lparr>frame_bytes := 1024\<rparr>)"
proof (rule new_limits_ok [of "[Some (max_frame_bytes 1024)]"])
  show "\<forall>f. Some f \<in> set [Some (max_frame_bytes 1024)] \<longrightarrow> built_option f"
    by (auto intro: built_option.frame)
  show "new_limits [Some (max_frame_bytes 1024)] = Inr (default_limits\<lparr>frame_bytes := 1024\<rparr>)"
    by (simp add: new_limits_def max_frame_bytes_def bounded_def hard_limits_def
        default_limits_def)
qed

end
