(* ===== verification/Wire_IO.thy ===== *)
theory Wire_IO
  imports Var_Int Protocol_Limits
begin

text \<open>
  wire/java/io.go: \<open>writeFull\<close> over an \<open>io.Writer\<close>. The writer is a parameter with a state: a
  call takes bytes and returns how many it took, an error or none, and its next state. The
  locale \<open>io_writer\<close> is the contract package io documents; a writer's log is every byte it has
  accepted. \<open>bytes.Buffer\<close> and the bounded \<open>payloadWriter\<close> of reflect_codec.go interpret it.
\<close>

section \<open>writeFull\<close>

type_synonym 'w writer = "'w \<Rightarrow> bytes \<Rightarrow> nat \<times> wire_error option \<times> 'w"

text \<open>
  The loop: write what is left, stop on an error, and report a short write when a call takes
  nothing without saying why. It returns the count written, the error and the writer.
\<close>

function write_full :: "'w writer \<Rightarrow> 'w \<Rightarrow> bytes \<Rightarrow> nat \<times> wire_error option \<times> 'w" where
  "write_full wr w data =
     (if data = [] then (0, None, w)
      else case wr w data of
        (n, Some e, w') \<Rightarrow> (n, Some e, w')
      | (n, None, w') \<Rightarrow>
          if n = 0 then (0, Some ShortWrite, w')
          else case write_full wr w' (drop n data) of (m, e, w'') \<Rightarrow> (n + m, e, w''))"
  by pat_completeness auto
termination
  by (relation "measure (\<lambda>(wr, w, data). length data)") auto

declare write_full.simps [simp del]

locale io_writer =
  fixes wr :: "'w writer"
    and log :: "'w \<Rightarrow> bytes"
  assumes writes: "wr w data = (n, e, w') \<Longrightarrow> n \<le> length data \<and> log w' = log w @ take n data"
begin

lemma write_full_log:
  "write_full wr w data = (n, e, w') \<Longrightarrow>
   n \<le> length data \<and> log w' = log w @ take n data \<and> (e = None \<longrightarrow> n = length data)"
proof (induction "length data" arbitrary: w data n e w' rule: less_induct)
  case less
  show ?case
  proof (cases "data = []")
    case True
    with less.prems show ?thesis by (simp add: write_full.simps)
  next
    case False
    obtain k x u where step: "wr w data = (k, x, u)" by (cases "wr w data")
    note k = writes [OF step]
    show ?thesis
    proof (cases "x = None \<and> k \<noteq> 0")
      case True
      obtain m y v where rec: "write_full wr u (drop k data) = (m, y, v)"
        by (cases "write_full wr u (drop k data)")
      from less.prems False step True rec have "n = k + m" "e = y" "w' = v"
        by (auto simp: write_full.simps [of wr w data])
      moreover from less.hyps [OF _ rec] k True False
      have "m \<le> length (drop k data) \<and> log v = log u @ take m (drop k data) \<and>
          (y = None \<longrightarrow> m = length (drop k data))" by simp
      ultimately show ?thesis using k by (auto simp: take_add)
    next
      case stop: False
      with less.prems False step k show ?thesis
        by (auto simp: write_full.simps [of wr w data] split: option.splits if_splits)
    qed
  qed
qed

end

section \<open>The writers\<close>

text \<open>\<open>bytes.Buffer\<close> takes everything.\<close>

definition buffer_write :: "bytes writer" where
  "buffer_write w data = (length data, None, w @ data)"

interpretation bytes_buffer: io_writer buffer_write "\<lambda>w. w"
  by unfold_locales (auto simp: buffer_write_def)

lemma write_full_buffer [simp]: "write_full buffer_write w data = (length data, None, w @ data)"
  by (cases "data = []")
    (simp_all add: write_full.simps [of _ _ data] write_full.simps [of _ _ "[]"] buffer_write_def)

text \<open>
  \<open>payloadWriter\<close>: a write that does not fit what remains takes nothing and fails; a write that
  fits is forwarded. The inner writer of \<open>Marshal\<close> is a \<open>bytes.Buffer\<close>.
\<close>

record payload_writer =
  written :: bytes
  remaining :: int
  payload_limit :: int

definition payload_write :: "payload_writer writer" where
  "payload_write w data =
     (if remaining w < int (length data) then (0, Some ErrFrameTooLarge, w)
      else (case buffer_write (written w) data of
        (n, e, inner) \<Rightarrow> (n, e, w\<lparr>written := inner, remaining := remaining w - int n\<rparr>)))"

definition new_payload_writer :: "int \<Rightarrow> payload_writer" where
  "new_payload_writer limit = \<lparr>written = [], remaining = limit, payload_limit = limit\<rparr>"

interpretation payload: io_writer payload_write written
  by unfold_locales (auto simp: payload_write_def buffer_write_def split: if_splits)

lemma write_full_payload:
  "write_full payload_write w data =
     (if data = [] then (0, None, w)
      else if remaining w < int (length data) then (0, Some ErrFrameTooLarge, w)
      else (length data, None,
        w\<lparr>written := written w @ data, remaining := remaining w - int (length data)\<rparr>))"
  by (simp add: write_full.simps [of _ _ data] write_full.simps [of _ _ "[]"] payload_write_def
      buffer_write_def)

end
