(* ===== verification/Wire_Fields.thy ===== *)
theory Wire_Fields
  imports Wire_IO
begin

unbundle bit_operations_syntax

text \<open>
  wire/java/fields.go: fixed-width big-endian integers, floats (as their IEEE bit patterns, which
  is what \<open>math.Float32bits\<close> puts on the wire), booleans, UUIDs, packed block positions, and
  strings and byte arrays with a VarInt length bounded by the limits. A signed and an unsigned
  integer of one width are the same word, read with \<open>sint\<close> or \<open>uint\<close>.

  A \<open>read_\<close> definition is the Go reader on the bytes left; a \<open>write_\<close> definition is the Go
  writer on any \<open>io.Writer\<close>.
\<close>

section \<open>Big-endian bytes\<close>

fun be_bytes :: "nat \<Rightarrow> 'a::len word \<Rightarrow> bytes" where
  "be_bytes 0 v = []"
| "be_bytes (Suc n) v = ucast (drop_bit (8 * n) v) # be_bytes n v"

fun be_word_from :: "'a::len word \<Rightarrow> bytes \<Rightarrow> 'a word" where
  "be_word_from acc [] = acc"
| "be_word_from acc (b # bs) = be_word_from (push_bit 8 acc OR ucast b) bs"

definition be_word :: "bytes \<Rightarrow> 'a::len word" where
  "be_word bs = be_word_from 0 bs"

lemma length_be_bytes [simp]: "length (be_bytes n v) = n"
  by (induction n) auto

lemma be_word_from_be_bytes:
  "be_word_from acc (be_bytes n v) = push_bit (8 * n) acc OR take_bit (8 * n) (v :: 'a::len word)"
proof (induction n arbitrary: acc)
  case (Suc n)
  have "push_bit (8 * n) (push_bit 8 acc OR ucast (ucast (drop_bit (8 * n) v) :: byte)) OR
      take_bit (8 * n) v = push_bit (8 * Suc n) acc OR take_bit (8 * Suc n) v"
    by (rule bit_word_eqI)
      (auto simp: bit_or_iff bit_push_bit_iff bit_take_bit_iff bit_ucast_iff bit_drop_bit_eq
        less_diff_conv not_le algebra_simps)
  with Suc.IH show ?case by simp
qed simp

lemma be_word_be_bytes: "8 * n = LENGTH('a) \<Longrightarrow> be_word (be_bytes n v) = (v :: 'a::len word)"
  by (simp add: be_word_def be_word_from_be_bytes take_bit_word_eq_self)

lemma be_word_from_bit:
  "bit (be_word_from acc bs :: 'a::len word) i \<Longrightarrow> i < 8 * length bs \<or> bit acc (i - 8 * length bs)"
proof (induction bs arbitrary: acc)
  case (Cons b bs)
  from Cons.IH [OF Cons.prems [unfolded be_word_from.simps]] show ?case
    by (auto simp: bit_or_iff bit_push_bit_iff bit_ucast_iff diff_diff_left algebra_simps
        dest: bit_imp_le_length)
qed simp

lemma be_word_from_snoc:
  "be_word_from acc (bs @ [b]) = push_bit 8 (be_word_from acc bs) OR ucast b"
  by (induction bs arbitrary: acc) auto

lemma be_bytes_snoc: "be_bytes (Suc n) v = be_bytes n (drop_bit 8 v) @ [ucast v]"
proof (induction n arbitrary: v)
  case (Suc n)
  have "ucast (drop_bit (8 * Suc n) v) = (ucast (drop_bit (8 * n) (drop_bit 8 v)) :: byte)"
    by (simp add: add.commute)
  with Suc.IH [of v] show ?case
    by (metis append_Cons be_bytes.simps(2))
qed simp

lemma be_bytes_be_word:
  assumes "length bs = n" and "8 * n \<le> LENGTH('a)"
  shows "be_bytes n (be_word bs :: 'a::len word) = bs"
  using assms
proof (induction bs arbitrary: n rule: rev_induct)
  case (snoc b bs)
  let ?w = "be_word bs :: 'a word"
  from snoc.prems obtain m where m: "n = Suc m" "length bs = m" by auto
  have high: "8 + i < LENGTH('a)" if "bit ?w i" for i
    using be_word_from_bit [of "0 :: 'a word" bs i] that m snoc.prems by (auto simp: be_word_def)
  have "drop_bit 8 (push_bit 8 ?w OR ucast b) = ?w"
    by (intro bit_word_eqI) (auto simp: bit_or_iff bit_drop_bit_eq bit_push_bit_iff bit_ucast_iff
        dest: bit_imp_le_length high)
  moreover have "(ucast (push_bit 8 ?w OR ucast b) :: byte) = b"
    using snoc.prems m
    by (intro bit_word_eqI) (auto simp: bit_or_iff bit_push_bit_iff bit_ucast_iff
        dest: bit_imp_le_length)
  ultimately show ?case
    using snoc.IH [of m] snoc.prems m
    by (simp only: be_bytes_snoc be_word_def be_word_from_snoc) simp
qed simp

section \<open>Fixed-width values\<close>

text \<open>
  \<open>io.ReadFull\<close> into an array of the width, then \<open>binary.BigEndian\<close>. \<open>read_be\<close> is the shape
  every fixed-width reader has.
\<close>

definition read_be :: "nat \<Rightarrow> bytes \<Rightarrow> ('a::len word \<times> bytes) result" where
  "read_be n bs = bindR (read_full n bs) (\<lambda>(data, rest). Inr (be_word data, rest))"

definition read_u8 :: "bytes \<Rightarrow> (byte \<times> bytes) result" where
  "read_u8 bs = bindR (read_full 1 bs) (\<lambda>(data, rest). Inr (data ! 0, rest))"

definition read_i8 :: "bytes \<Rightarrow> (byte \<times> bytes) result" where
  "read_i8 bs = read_u8 bs"

definition read_u16 :: "bytes \<Rightarrow> (16 word \<times> bytes) result" where
  "read_u16 bs = read_be 2 bs"

definition read_i16 :: "bytes \<Rightarrow> (16 word \<times> bytes) result" where
  "read_i16 bs = read_u16 bs"

definition read_u32 :: "bytes \<Rightarrow> (i32 \<times> bytes) result" where
  "read_u32 bs = read_be 4 bs"

definition read_i32 :: "bytes \<Rightarrow> (i32 \<times> bytes) result" where
  "read_i32 bs = read_u32 bs"

definition read_u64 :: "bytes \<Rightarrow> (i64 \<times> bytes) result" where
  "read_u64 bs = read_be 8 bs"

definition read_i64 :: "bytes \<Rightarrow> (i64 \<times> bytes) result" where
  "read_i64 bs = read_u64 bs"

definition read_f32 :: "bytes \<Rightarrow> (i32 \<times> bytes) result" where
  "read_f32 bs = read_u32 bs"

definition read_f64 :: "bytes \<Rightarrow> (i64 \<times> bytes) result" where
  "read_f64 bs = read_u64 bs"

definition read_bool :: "bytes \<Rightarrow> (bool \<times> bytes) result" where
  "read_bool bs = bindR (read_u8 bs) (\<lambda>(v, rest). Inr (v \<noteq> 0, rest))"

definition read_uuid :: "bytes \<Rightarrow> (bytes \<times> bytes) result" where
  "read_uuid bs = read_full 16 bs"

type_synonym 'w write_result = "nat \<times> wire_error option \<times> 'w"

definition write_varint :: "'w writer \<Rightarrow> 'w \<Rightarrow> i32 \<Rightarrow> 'w write_result" where
  "write_varint wr w v = write_full wr w (put_varint v)"

definition write_u8 :: "'w writer \<Rightarrow> 'w \<Rightarrow> byte \<Rightarrow> 'w write_result" where
  "write_u8 wr w v = write_full wr w [v]"

definition write_i8 :: "'w writer \<Rightarrow> 'w \<Rightarrow> byte \<Rightarrow> 'w write_result" where
  "write_i8 wr w v = write_full wr w [v]"

definition write_u16 :: "'w writer \<Rightarrow> 'w \<Rightarrow> 16 word \<Rightarrow> 'w write_result" where
  "write_u16 wr w v = write_full wr w (be_bytes 2 v)"

definition write_i16 :: "'w writer \<Rightarrow> 'w \<Rightarrow> 16 word \<Rightarrow> 'w write_result" where
  "write_i16 wr w v = write_u16 wr w v"

definition write_u32 :: "'w writer \<Rightarrow> 'w \<Rightarrow> i32 \<Rightarrow> 'w write_result" where
  "write_u32 wr w v = write_full wr w (be_bytes 4 v)"

definition write_i32 :: "'w writer \<Rightarrow> 'w \<Rightarrow> i32 \<Rightarrow> 'w write_result" where
  "write_i32 wr w v = write_u32 wr w v"

definition write_u64 :: "'w writer \<Rightarrow> 'w \<Rightarrow> i64 \<Rightarrow> 'w write_result" where
  "write_u64 wr w v = write_full wr w (be_bytes 8 v)"

definition write_i64 :: "'w writer \<Rightarrow> 'w \<Rightarrow> i64 \<Rightarrow> 'w write_result" where
  "write_i64 wr w v = write_u64 wr w v"

definition write_f32 :: "'w writer \<Rightarrow> 'w \<Rightarrow> i32 \<Rightarrow> 'w write_result" where
  "write_f32 wr w v = write_u32 wr w v"

definition write_f64 :: "'w writer \<Rightarrow> 'w \<Rightarrow> i64 \<Rightarrow> 'w write_result" where
  "write_f64 wr w v = write_u64 wr w v"

definition write_bool :: "'w writer \<Rightarrow> 'w \<Rightarrow> bool \<Rightarrow> 'w write_result" where
  "write_bool wr w v = (if v then write_u8 wr w 1 else write_u8 wr w 0)"

definition write_uuid :: "'w writer \<Rightarrow> 'w \<Rightarrow> bytes \<Rightarrow> 'w write_result" where
  "write_uuid wr w v = write_full wr w v"

lemma read_be_Inr_iff:
  "8 * n = LENGTH('a) \<Longrightarrow>
   read_be n bs = Inr (v :: 'a::len word, rest) \<longleftrightarrow> bs = be_bytes n v @ rest"
  by (auto simp: read_be_def result_simps be_word_be_bytes be_bytes_be_word)

lemma read_u8_Cons [simp]: "read_u8 (b # bs) = Inr (b, bs)"
  by (simp add: read_u8_def)

lemma read_u8_Nil [simp]: "read_u8 [] = Inl EOF"
  by (simp add: read_u8_def read_full_def)

interpretation u8: canonical_codec "\<lambda>v. [v]" read_u8 "\<lambda>_. True"
  by unfold_locales (auto simp: read_u8_def result_simps length_one_conv)

interpretation u16: canonical_codec "be_bytes 2" read_u16 "\<lambda>_. True"
  by unfold_locales (auto simp: read_u16_def read_be_Inr_iff)

interpretation u32: canonical_codec "be_bytes 4" read_u32 "\<lambda>_. True"
  by unfold_locales (auto simp: read_u32_def read_be_Inr_iff)

interpretation u64: canonical_codec "be_bytes 8" read_u64 "\<lambda>_. True"
  by unfold_locales (auto simp: read_u64_def read_be_Inr_iff)

interpretation uuid: canonical_codec "\<lambda>v. v" read_uuid "\<lambda>v. length v = 16"
  by unfold_locales (auto simp: read_uuid_def result_simps)

interpretation bool: wire_codec "\<lambda>v. [if v then 1 else 0]" read_bool "\<lambda>_. True"
  by unfold_locales (auto simp: read_bool_def)

section \<open>Block positions\<close>

text \<open>
  26 bits of x, 12 of y and 26 of z in one 64-bit integer. Go's \<open>>>\<close> on an \<open>int64\<close> is the
  arithmetic shift.
\<close>

definition encode_position :: "int \<Rightarrow> int \<Rightarrow> int \<Rightarrow> i64" where
  "encode_position x y z =
     push_bit 38 (word_of_int x AND 0x3FFFFFF) OR push_bit 26 (word_of_int y AND 0xFFF) OR
     (word_of_int z AND 0x3FFFFFF)"

definition decode_position :: "i64 \<Rightarrow> int \<times> int \<times> int" where
  "decode_position v =
     (let x = sint (signed_drop_bit 38 v);
          y = sint (signed_drop_bit 26 v AND 0xFFF);
          z = sint (v AND 0x3FFFFFF)
      in (if 2 ^ 25 \<le> x then x - 2 ^ 26 else x,
          if 2 ^ 11 \<le> y then y - 2 ^ 12 else y,
          if 2 ^ 25 \<le> z then z - 2 ^ 26 else z))"

definition read_position :: "bytes \<Rightarrow> ((int \<times> int \<times> int) \<times> bytes) result" where
  "read_position bs = bindR (read_i64 bs) (\<lambda>(v, rest). Inr (decode_position v, rest))"

definition write_position :: "'w writer \<Rightarrow> 'w \<Rightarrow> int \<Rightarrow> int \<Rightarrow> int \<Rightarrow> 'w write_result" where
  "write_position wr w x y z = write_i64 wr w (encode_position x y z)"

text \<open>Two's complement in \<open>n\<close> bits, as the conditional subtraction writes it.\<close>

lemma wrap_signed:
  fixes t :: int
  assumes "0 \<le> t" "t < 2 * m" "- m \<le> v" "v < m" "t = v mod (2 * m)"
  shows "(if m \<le> t then t - 2 * m else t) = v"
proof (cases "0 \<le> v")
  case True
  with assms show ?thesis by simp
next
  case False
  then have "(v + 2 * m) mod (2 * m) = v + 2 * m"
    using assms by (intro mod_pos_pos_trivial) auto
  then have "v mod (2 * m) = v + 2 * m" by simp
  with assms False show ?thesis by simp
qed

lemma wrap_signed_take_bit:
  fixes v :: int
  assumes "- (2 ^ m) \<le> v" "v < 2 ^ m" "n = Suc m"
  shows "(if 2 ^ m \<le> take_bit n v then take_bit n v - 2 ^ n else take_bit n v) = v"
  using wrap_signed [of "take_bit n v" "2 ^ m" v] take_bit_nonnegative [of n v]
    take_bit_int_less_exp [of n v] take_bit_eq_mod [of n v] assms
  by (simp only: power_Suc)

lemma mask_12: "(0xFFF :: i64) = mask 12" and mask_26: "(0x3FFFFFF :: i64) = mask 26"
  by (simp_all add: mask_eq_exp_minus_1)

lemma sint_mask:
  assumes "n < 64"
  shows "sint (v AND mask n :: i64) = take_bit n (uint v)"
proof -
  have "sint (take_bit n v :: i64) = take_bit n (uint v)"
  proof (rule bit_eqI)
    fix i
    show "bit (sint (take_bit n v)) i = bit (take_bit n (uint v)) i"
      using assms by (auto simp: bit_sint_iff bit_take_bit_iff bit_uint_iff dest: bit_imp_le_length)
  qed
  then show ?thesis by (simp add: take_bit_eq_mask)
qed

lemma encode_position_bit:
  "bit (encode_position x y z) i \<longleftrightarrow> i < 64 \<and>
     (if i < 26 then bit z i else if i < 38 then bit y (i - 26) else bit x (i - 38))"
  by (auto simp: encode_position_def mask_12 mask_26 bit_or_iff bit_and_iff bit_push_bit_iff
      bit_mask_iff bit_word_of_int_iff)

lemma decode_position_eq:
  "decode_position v =
     (let x = drop_bit 38 (sint v); y = take_bit 12 (drop_bit 26 (sint v)); z = take_bit 26 (sint v)
      in (if 2 ^ 25 \<le> x then x - 2 ^ 26 else x,
          if 2 ^ 11 \<le> y then y - 2 ^ 12 else y,
          if 2 ^ 25 \<le> z then z - 2 ^ 26 else z))"
proof -
  have uint: "take_bit n (uint w) = take_bit n (sint w)" if "n < 64" for n and w :: i64
    using that by (simp add: uint_sint min_def)
  show ?thesis
    by (simp only: decode_position_def mask_12 mask_26 sint_mask uint sint_signed_drop_bit_eq
        rel_simps)
qed

lemma encode_position_parts:
  assumes "- (2 ^ 25) \<le> x" "x < 2 ^ 25"
  shows "drop_bit 38 (sint (encode_position x y z)) = x"
    and "take_bit 12 (drop_bit 26 (sint (encode_position x y z))) = take_bit 12 y"
    and "take_bit 26 (sint (encode_position x y z)) = take_bit 26 z"
proof -
  have "drop_bit 38 (sint (encode_position x y z)) = signed_take_bit 25 x"
  proof (rule bit_eqI)
    fix n :: nat
    have "n < 25 \<or> n = 25 \<or> 26 \<le> n" by linarith
    then show "bit (drop_bit 38 (sint (encode_position x y z))) n = bit (signed_take_bit 25 x) n"
      by (auto simp: bit_drop_bit_eq bit_sint_iff encode_position_bit bit_signed_take_bit_iff min_def)
  qed
  then show "drop_bit 38 (sint (encode_position x y z)) = x"
    using assms by (simp add: signed_take_bit_int_eq_self)
  show "take_bit 12 (drop_bit 26 (sint (encode_position x y z))) = take_bit 12 y"
    by (rule bit_eqI) (auto simp: bit_drop_bit_eq bit_sint_iff encode_position_bit bit_take_bit_iff)
  show "take_bit 26 (sint (encode_position x y z)) = take_bit 26 z"
    by (rule bit_eqI) (auto simp: bit_sint_iff encode_position_bit bit_take_bit_iff)
qed

lemma take_bit_wrap: "take_bit n (if 2 ^ m \<le> t then t - 2 ^ n else t) = take_bit n (t :: int)"
  by (simp add: take_bit_eq_mod)

lemma encode_position_take_bit:
  assumes "take_bit 26 x = take_bit 26 x'" "take_bit 12 y = take_bit 12 y'" "take_bit 26 z = take_bit 26 z'"
  shows "encode_position x y z = encode_position x' y' z'"
proof (rule bit_word_eqI)
  have "bit x i = bit x' i" if "i < 26" for i
    using that arg_cong [OF assms(1), of "\<lambda>a. bit a i"] by (simp add: bit_take_bit_iff)
  moreover have "bit y i = bit y' i" if "i < 12" for i
    using that arg_cong [OF assms(2), of "\<lambda>a. bit a i"] by (simp add: bit_take_bit_iff)
  moreover have "bit z i = bit z' i" if "i < 26" for i
    using that arg_cong [OF assms(3), of "\<lambda>a. bit a i"] by (simp add: bit_take_bit_iff)
  ultimately show "bit (encode_position x y z) i = bit (encode_position x' y' z') i" for i
    by (auto simp: encode_position_bit)
qed

lemma encode_position_sint:
  "encode_position (drop_bit 38 (sint v)) (take_bit 12 (drop_bit 26 (sint v))) (take_bit 26 (sint v)) = v"
  by (rule bit_word_eqI)
    (auto simp: encode_position_bit bit_drop_bit_eq bit_take_bit_iff bit_sint_iff)

text \<open>
  every 64-bit value is the encoding of the position it decodes to, and every position whose
  x and z fit 26 signed bits and whose y fits 12 is decoded to itself: packing is a bijection
  between the block positions of the world and the 64-bit integers.
\<close>

theorem position_bijection:
  assumes "- (2 ^ 25) \<le> x" "x < 2 ^ 25" "- (2 ^ 11) \<le> y" "y < 2 ^ 11" "- (2 ^ 25) \<le> z" "z < 2 ^ 25"
  shows "decode_position (encode_position x y z) = (x, y, z) \<and>
    (case decode_position v of (a, b, c) \<Rightarrow> encode_position a b c) = v"
proof
  have y: "(if 2 ^ 11 \<le> take_bit 12 y then take_bit 12 y - 2 ^ 12 else take_bit 12 y) = y"
    using assms(3,4) by (rule wrap_signed_take_bit) simp
  have z: "(if 2 ^ 25 \<le> take_bit 26 z then take_bit 26 z - 2 ^ 26 else take_bit 26 z) = z"
    using assms(5,6) by (rule wrap_signed_take_bit) simp
  show "decode_position (encode_position x y z) = (x, y, z)"
    using assms(2) by (simp only: decode_position_eq encode_position_parts [OF assms(1,2)] Let_def y z)
      simp
  have "encode_position a b c = v" if "decode_position v = (a, b, c)" for a b c
  proof -
    have "encode_position a b c = encode_position (drop_bit 38 (sint v))
        (take_bit 12 (drop_bit 26 (sint v))) (take_bit 26 (sint v))"
      using that unfolding decode_position_eq Let_def prod.inject
      by (elim conjE, hypsubst) (intro encode_position_take_bit take_bit_wrap)
    then show ?thesis by (simp only: encode_position_sint)
  qed
  then show "(case decode_position v of (a, b, c) \<Rightarrow> encode_position a b c) = v"
    by (cases "decode_position v") simp
qed

theorem position_bijection_witness:
  "decode_position (encode_position (- 30000000) (- 64) 29999999) = (- 30000000, - 64, 29999999)"
  using position_bijection [of "- 30000000" "- 64" 29999999 0] by simp

section \<open>Strings and byte arrays\<close>

definition validate_limits :: "limits \<Rightarrow> unit result" where
  "validate_limits l = guardR (valid l) ErrInvalidLimits"

text \<open>
  A VarInt length, then that many bytes. A negative length is refused first, then one above the
  limit, before any byte is allocated. \<open>ReadString\<close> and \<open>ReadByteArray\<close> differ in the name a
  \<open>SizeError\<close> carries and in the limit.
\<close>

definition read_prefixed :: "string \<Rightarrow> int \<Rightarrow> bytes \<Rightarrow> (bytes \<times> bytes) result" where
  "read_prefixed name limit bs = bindR (read_varint bs) (\<lambda>(len, _, rest).
     if sint len < 0 then Inl ErrNegativeLength
     else if limit < sint len then Inl (SizeError name (sint len) limit)
     else read_full (nat (sint len)) rest)"

definition read_string :: "limits \<Rightarrow> bytes \<Rightarrow> (bytes \<times> bytes) result" where
  "read_string lim bs = bindR (validate_limits lim)
     (\<lambda>_. read_prefixed ''string'' (string_bytes lim) bs)"

definition read_byte_array :: "limits \<Rightarrow> bytes \<Rightarrow> (bytes \<times> bytes) result" where
  "read_byte_array lim bs = bindR (validate_limits lim)
     (\<lambda>_. read_prefixed ''byte array'' (collection_items lim) bs)"

definition write_prefixed ::
  "string \<Rightarrow> int \<Rightarrow> 'w writer \<Rightarrow> 'w \<Rightarrow> bytes \<Rightarrow> 'w write_result" where
  "write_prefixed name limit wr w v =
     (if limit < int (length v) then (0, Some (SizeError name (int (length v)) limit), w)
      else case write_varint wr w (int32_of (int (length v))) of
        (n, Some e, w') \<Rightarrow> (n, Some e, w')
      | (n, None, w') \<Rightarrow> (case write_full wr w' v of (m, e, w'') \<Rightarrow> (n + m, e, w'')))"

definition write_string :: "'w writer \<Rightarrow> limits \<Rightarrow> 'w \<Rightarrow> bytes \<Rightarrow> 'w write_result" where
  "write_string wr lim w v =
     (case validate_limits lim of
        Inl e \<Rightarrow> (0, Some e, w)
      | Inr _ \<Rightarrow> write_prefixed ''string'' (string_bytes lim) wr w v)"

definition write_byte_array :: "'w writer \<Rightarrow> limits \<Rightarrow> 'w \<Rightarrow> bytes \<Rightarrow> 'w write_result" where
  "write_byte_array wr lim w v =
     (case validate_limits lim of
        Inl e \<Rightarrow> (0, Some e, w)
      | Inr _ \<Rightarrow> write_prefixed ''byte array'' (collection_items lim) wr w v)"

text \<open>The bytes a prefixed value has on the wire.\<close>

definition prefixed :: "bytes \<Rightarrow> bytes" where
  "prefixed v = put_varint (int32_of (int (length v))) @ v"

lemma read_prefixed_prefixed:
  assumes "int (length v) \<le> limit" "limit < 2 ^ 31"
  shows "read_prefixed name limit (prefixed v @ rest) = Inr (v, rest)"
  using assms by (simp add: read_prefixed_def prefixed_def read_varint_put_varint)

lemma read_prefixed_bounded:
  assumes "read_prefixed name limit bs = Inr (v, rest)"
  shows "int (length v) \<le> limit" and "length v + length rest < length bs"
  using assms by (auto simp: read_prefixed_def result_simps dest!: read_varint_length)

lemma write_prefixed_buffer:
  "write_prefixed name limit buffer_write w v =
     (if limit < int (length v) then (0, Some (SizeError name (int (length v)) limit), w)
      else (length (prefixed v), None, w @ prefixed v))"
  by (simp add: write_prefixed_def write_varint_def prefixed_def)

text \<open>The codecs, under limits that \<open>NewLimits\<close> can return.\<close>

definition string_fits :: "limits \<Rightarrow> bytes \<Rightarrow> bool" where
  "string_fits lim v \<longleftrightarrow> limits_ok lim \<and> int (length v) \<le> string_bytes lim"

definition byte_array_fits :: "limits \<Rightarrow> bytes \<Rightarrow> bool" where
  "byte_array_fits lim v \<longleftrightarrow> limits_ok lim \<and> int (length v) \<le> collection_items lim"

interpretation string_codec: wire_codec prefixed "read_string lim" "string_fits lim" for lim
  by unfold_locales
    (auto simp: read_string_def string_fits_def validate_limits_def limits_okD(1,7)
      intro!: read_prefixed_prefixed dest: limits_okD)

interpretation byte_array_codec: wire_codec prefixed "read_byte_array lim" "byte_array_fits lim" for lim
  by unfold_locales
    (auto simp: read_byte_array_def byte_array_fits_def validate_limits_def limits_okD(1,7)
      intro!: read_prefixed_prefixed dest: limits_okD)

text \<open>
  a string within the limits is read back whatever follows it, and whatever the bytes are, a
  string that \<open>ReadString\<close> returns is no longer than the configured limit and than the bytes
  that were there, so a length prefix alone cannot make it allocate more.
\<close>

theorem read_string_sound:
  assumes "limits_ok lim"
  shows "(int (length v) \<le> string_bytes lim \<longrightarrow> read_string lim (prefixed v @ rest) = Inr (v, rest)) \<and>
    (read_string lim bs = Inr (u, rest') \<longrightarrow>
      int (length u) \<le> string_bytes lim \<and> length u + length rest' < length bs)"
  using string_codec.dec_enc [of lim v rest] assms
  by (auto simp: string_fits_def read_string_def result_simps dest: read_prefixed_bounded)

theorem read_string_sound_witness:
  "read_string default_limits (prefixed [0x68, 0x69] @ [7]) = Inr ([0x68, 0x69], [7])"
  using read_string_sound [OF limits_ok_default, of "[0x68, 0x69]" "[7]"]
  by (simp add: default_limits_def)

end
