(* ===== verification/Capture_Format.thy ===== *)
theory Capture_Format
  imports Wire_Fields
begin

text \<open>
  capture/format.go, digest.go and writer.go: the records of a capture file, the digest over
  them, and the writer. A Go string is the list of its bytes.

  encoding/json and crypto/sha256 are arguments: \<open>marshal\<close> and \<open>unmarshal\<close> turn a header into
  bytes and back, \<open>sha\<close> is the hash. The CRC of hash/crc32 is defined here. The sink is any
  \<open>io.Writer\<close>.
\<close>

section \<open>Kinds, headers and records\<close>

type_synonym gostring = bytes

datatype capture_kind = KindTrailer | KindRawFrame | KindPacket | KindSecret | KindRejected

fun kind_byte :: "capture_kind \<Rightarrow> byte" where
  "kind_byte KindTrailer = 0"
| "kind_byte KindRawFrame = 1"
| "kind_byte KindPacket = 2"
| "kind_byte KindSecret = 3"
| "kind_byte KindRejected = 4"

definition kind_of_byte :: "byte \<Rightarrow> capture_kind option" where
  "kind_of_byte b =
     (if b = 0 then Some KindTrailer else if b = 1 then Some KindRawFrame
      else if b = 2 then Some KindPacket else if b = 3 then Some KindSecret
      else if b = 4 then Some KindRejected else None)"

lemma kind_of_kind_byte [simp]: "kind_of_byte (kind_byte k) = Some k"
  by (cases k) (auto simp: kind_of_byte_def)

lemma kind_byte_eq_0 [simp]: "kind_byte k = 0 \<longleftrightarrow> k = KindTrailer"
  by (cases k) auto

definition capture_magic :: bytes where
  "capture_magic = [0x4D, 0x43, 0x50, 0x52, 0x4F, 0x43, 0x41, 0x50]"

definition format_version :: int where "format_version = 1"

definition redaction_enforced :: gostring where
  "redaction_enforced = [0x65, 0x6E, 0x66, 0x6F, 0x72, 0x63, 0x65, 0x64]"

definition redaction_disclosed :: gostring where
  "redaction_disclosed = [0x64, 0x69, 0x73, 0x63, 0x6C, 0x6F, 0x73, 0x65, 0x64]"

record capture_header =
  hd_format :: int
  hd_protocol :: gostring
  hd_role :: gostring
  hd_redaction :: gostring
  hd_disclosure :: gostring
  hd_frame_bytes :: int
  hd_decompressed_bytes :: int
  hd_created :: gostring
  hd_note :: gostring

record capture_trailer =
  tr_records :: i64
  tr_last :: i64
  tr_digest :: gostring
  tr_algorithm :: int

record capture_record =
  cr_kind :: capture_kind
  cr_sequence :: i64
  cr_frame :: i64
  cr_elapsed :: i64
  cr_direction :: byte
  cr_before :: gostring
  cr_state :: gostring
  cr_packet_id :: i32
  cr_name :: gostring
  cr_redacted :: bool
  cr_original_len :: int
  cr_payload :: bytes
  cr_secret_label :: gostring
  cr_reason :: gostring

definition replayable :: "capture_record \<Rightarrow> bool" where
  "replayable r \<longleftrightarrow> cr_kind r = KindRawFrame \<or> cr_kind r = KindPacket"

section \<open>Observations\<close>

text \<open>observation.go. The pipeline of a snapshot is not captured and is left out.\<close>

datatype observation_stage =
    ObservationRawFrame | ObservationPacket | ObservationRejected | ObservationSecret
  | OtherStage gostring

record observation =
  ob_sequence :: i64
  ob_frame :: i64
  ob_direction :: byte
  ob_stage :: observation_stage
  ob_elapsed :: i64
  ob_before :: gostring
  ob_after :: gostring
  ob_packet :: "(i32 \<times> gostring) option"
  ob_bytes :: bytes
  ob_redacted :: bool
  ob_original_len :: int
  ob_secret :: "gostring option"
  ob_rejected :: "gostring option"

fun kind_for :: "observation_stage \<Rightarrow> capture_kind option" where
  "kind_for ObservationRawFrame = Some KindRawFrame"
| "kind_for ObservationPacket = Some KindPacket"
| "kind_for ObservationSecret = Some KindSecret"
| "kind_for ObservationRejected = Some KindRejected"
| "kind_for (OtherStage s) = None"

definition packet_id :: "observation \<Rightarrow> i32" where
  "packet_id ob = (case ob_packet ob of None \<Rightarrow> 0 | Some (i, n) \<Rightarrow> i)"

definition packet_name :: "observation \<Rightarrow> gostring" where
  "packet_name ob = (case ob_packet ob of None \<Rightarrow> [] | Some (i, n) \<Rightarrow> n)"

definition secret_label :: "observation \<Rightarrow> gostring" where
  "secret_label ob = (case ob_secret ob of None \<Rightarrow> [] | Some l \<Rightarrow> l)"

definition rejection_reason :: "observation \<Rightarrow> gostring" where
  "rejection_reason ob = (case ob_rejected ob of None \<Rightarrow> [] | Some r \<Rightarrow> r)"

section \<open>The checksum\<close>

text \<open>
  CRC-32C as hash/crc32 computes it: the reflected Castagnoli polynomial, one bit at a time,
  with the value inverted before and after. A table only caches eight of these steps.
\<close>

definition castagnoli :: i32 where "castagnoli = 0x82F63B78"

definition crc_bit :: "i32 \<Rightarrow> i32" where
  "crc_bit c = (if bit c 0 then castagnoli XOR drop_bit 1 c else drop_bit 1 c)"

definition crc_byte :: "i32 \<Rightarrow> byte \<Rightarrow> i32" where
  "crc_byte c b = (crc_bit ^^ 8) (c XOR ucast b)"

definition checksum :: "bytes \<Rightarrow> i32" where
  "checksum body = NOT (foldl crc_byte (NOT 0) body)"

lemma castagnoli_top: "bit castagnoli 31"
  by (simp add: castagnoli_def bit_iff_odd)

lemma crc_bit_top: "bit (crc_bit c) 31 \<longleftrightarrow> bit c 0"
proof -
  have "\<not> bit (drop_bit 1 c) 31"
    using bit_imp_le_length [of c 32] by (auto simp: bit_drop_bit_eq)
  then show ?thesis by (simp only: crc_bit_def bit_xor_iff castagnoli_top split: if_split) simp
qed

lemma inj_crc_bit: "inj crc_bit"
proof (rule injI)
  fix x y :: i32 assume eq: "crc_bit x = crc_bit y"
  then have low: "bit x 0 \<longleftrightarrow> bit y 0" by (metis crc_bit_top)
  have "drop_bit 1 x = drop_bit 1 y"
    using eq low by (auto simp: crc_bit_def dest: arg_cong [of _ _ "\<lambda>w. castagnoli XOR w"]
        split: if_splits)
  then have high: "bit x (Suc n) \<longleftrightarrow> bit y (Suc n)" for n
    by (metis bit_drop_bit_eq comp_apply plus_1_eq_Suc)
  show "x = y"
  proof (rule bit_word_eqI)
    fix n show "bit x n \<longleftrightarrow> bit y n" by (cases n) (use low high in auto)
  qed
qed

lemma inj_crc_byte: "inj (\<lambda>c. crc_byte c b)"
proof -
  have "inj (crc_bit ^^ 8)"
    by (rule inj_fn) (rule inj_crc_bit)
  then show ?thesis
    by (auto simp: inj_def crc_byte_def) (metis bit.xor_self bit.xor_left_self xor.commute)
qed

lemma ucast_byte_back_32: "ucast (ucast (b :: byte) :: i32) = b"
  by (rule bit_word_eqI) (auto simp: bit_ucast_iff)

lemma ucast_byte_back_64: "ucast (ucast (b :: byte) :: i64) = b"
  by (rule bit_word_eqI) (auto simp: bit_ucast_iff)

lemma ucast_i32_back_64: "ucast (ucast (v :: i32) :: i64) = v"
  by (rule bit_word_eqI) (auto simp: bit_ucast_iff)

lemma crc_byte_inject: "crc_byte c b = crc_byte c b' \<longleftrightarrow> b = b'"
proof
  assume eq: "crc_byte c b = crc_byte c b'"
  have "inj (crc_bit ^^ 8)"
    by (rule inj_fn) (rule inj_crc_bit)
  with eq have "c XOR ucast b = c XOR ucast b'"
    by (auto simp: crc_byte_def dest: injD)
  then have "(ucast b :: i32) = ucast b'"
    by (metis bit.xor_left_self)
  then show "b = b'"
    by (metis ucast_byte_back_32)
qed simp

lemma inj_foldl_crc: "inj (\<lambda>c. foldl crc_byte c bs)"
proof (induction bs)
  case (Cons b bs)
  have "(\<lambda>c. foldl crc_byte c (b # bs)) = (\<lambda>c. foldl crc_byte c bs) \<circ> (\<lambda>c. crc_byte c b)"
    by auto
  then show ?case using Cons.IH inj_crc_byte [of b] by (metis inj_compose)
qed (simp add: inj_def)

text \<open>Replacing one byte always changes the checksum.\<close>

lemma checksum_one_byte:
  "checksum (xs @ b # ys) = checksum (xs @ b' # ys) \<longleftrightarrow> b = b'"
proof -
  have "foldl crc_byte c (b # ys) = foldl crc_byte c (b' # ys) \<longleftrightarrow> b = b'" for c
    using inj_eq [OF inj_foldl_crc [of ys]] by (simp add: crc_byte_inject)
  then show ?thesis by (simp add: checksum_def del: foldl_Cons)
qed

section \<open>The digest\<close>

text \<open>
  A digester is the input its hash has been fed so far; \<open>digest_sum\<close> is the hex of the hash.
\<close>

definition digest_version :: int where "digest_version = 1"

definition digest_u64 :: "i64 \<Rightarrow> bytes" where
  "digest_u64 v = be_bytes 8 v"

definition digest_string :: "gostring \<Rightarrow> bytes" where
  "digest_string s = digest_u64 (of_nat (length s)) @ s"

definition new_digester :: bytes where
  "new_digester = digest_u64 (word_of_int digest_version)"

definition digest_add :: "(bytes \<Rightarrow> bytes) \<Rightarrow> bytes \<Rightarrow> capture_record \<Rightarrow> bytes" where
  "digest_add sha d r =
     (if \<not> replayable r then d
      else d @ digest_u64 (cr_sequence r) @ digest_u64 (ucast (cr_direction r)) @
        digest_string (cr_state r) @ digest_u64 (ucast (cr_packet_id r)) @
        digest_u64 (of_nat (length (cr_payload r))) @ sha (cr_payload r))"

definition hex_digit :: "byte \<Rightarrow> byte" where
  "hex_digit n = (if n < 10 then 0x30 + n else 0x57 + n)"

definition hex_string :: "bytes \<Rightarrow> gostring" where
  "hex_string bs = concat (map (\<lambda>b. [hex_digit (drop_bit 4 b), hex_digit (b AND 0xF)]) bs)"

definition digest_sum :: "(bytes \<Rightarrow> bytes) \<Rightarrow> bytes \<Rightarrow> gostring" where
  "digest_sum sha d = hex_string (sha d)"

text \<open>What one replayable record contributes, and what the contribution determines.\<close>

definition digest_entry :: "(bytes \<Rightarrow> bytes) \<Rightarrow> capture_record \<Rightarrow> bytes" where
  "digest_entry sha r = digest_add sha [] r"

definition wire_facts ::
    "(bytes \<Rightarrow> bytes) \<Rightarrow> capture_record \<Rightarrow> i64 \<times> byte \<times> gostring \<times> i32 \<times> i64 \<times> bytes" where
  "wire_facts sha r = (cr_sequence r, cr_direction r, cr_state r, cr_packet_id r,
     of_nat (length (cr_payload r)), sha (cr_payload r))"

lemma digest_add_entry: "digest_add sha d r = d @ digest_entry sha r"
  by (simp add: digest_entry_def digest_add_def)

lemma foldl_digest_add:
  "foldl (digest_add sha) d rs = d @ concat (map (digest_entry sha) rs)"
  by (induction rs arbitrary: d) (simp_all add: digest_add_entry)

lemma be_bytes_append_inject:
  "8 * n = LENGTH('a) \<Longrightarrow>
   be_bytes n (v :: 'a::len word) @ xs = be_bytes n w @ ys \<longleftrightarrow> v = w \<and> xs = ys"
  by (metis append_eq_append_conv be_word_be_bytes length_be_bytes)

lemma digest_u64_append_inject:
  "digest_u64 v @ xs = digest_u64 w @ ys \<longleftrightarrow> v = w \<and> xs = ys"
  unfolding digest_u64_def by (rule be_bytes_append_inject) simp

lemma len64: "LENGTH(64) = 64"
  by simp

lemma of_nat_i64_inject:
  "a < 2 ^ 64 \<Longrightarrow> b < 2 ^ 64 \<Longrightarrow> (of_nat a :: i64) = of_nat b \<longleftrightarrow> a = b"
  by (metis of_nat_inverse len64)

lemma digest_entry_inject:
  assumes "\<And>x. length (sha x) = 32"
    and "replayable r" and "replayable s"
    and "length (cr_state r) < 2 ^ 64" and "length (cr_state s) < 2 ^ 64"
    and "digest_entry sha r @ xs = digest_entry sha s @ ys"
  shows "wire_facts sha r = wire_facts sha s \<and> xs = ys"
proof -
  from assms(6) have 1: "cr_sequence r = cr_sequence s"
    "(ucast (cr_direction r) :: i64) = ucast (cr_direction s)"
    "length (cr_state r) = length (cr_state s)"
    "cr_state r @ digest_u64 (ucast (cr_packet_id r)) @ digest_u64 (of_nat (length (cr_payload r))) @
       sha (cr_payload r) @ xs =
     cr_state s @ digest_u64 (ucast (cr_packet_id s)) @ digest_u64 (of_nat (length (cr_payload s))) @
       sha (cr_payload s) @ ys"
    using assms(2-5)
    by (auto simp: digest_entry_def digest_add_def digest_string_def digest_u64_append_inject
        of_nat_i64_inject)
  from 1(3,4) have 2: "cr_state r = cr_state s"
    "(ucast (cr_packet_id r) :: i64) = ucast (cr_packet_id s)"
    "(of_nat (length (cr_payload r)) :: i64) = of_nat (length (cr_payload s))"
    "sha (cr_payload r) @ xs = sha (cr_payload s) @ ys"
    by (simp_all add: digest_u64_append_inject)
  from 2(4) assms(1) have "sha (cr_payload r) = sha (cr_payload s) \<and> xs = ys"
    by (metis append_eq_append_conv)
  moreover from 1(2) have "cr_direction r = cr_direction s"
    by (metis ucast_byte_back_64)
  moreover from 2(2) have "cr_packet_id r = cr_packet_id s"
    by (metis ucast_i32_back_64)
  ultimately show ?thesis
    using 1(1) 2(1,3) by (simp add: wire_facts_def)
qed

lemma digest_entry_skip: "\<not> replayable r \<Longrightarrow> digest_entry sha r = []"
  by (simp add: digest_entry_def digest_add_def)

lemma digest_entries_replayable:
  "concat (map (digest_entry sha) (filter replayable ts)) = concat (map (digest_entry sha) ts)"
  by (induction ts) (simp_all add: digest_entry_skip)

lemma digest_entry_nonempty: "replayable r \<Longrightarrow> digest_entry sha r \<noteq> []"
  using length_be_bytes [of 8 "cr_sequence r"]
  by (auto simp: digest_entry_def digest_add_def digest_u64_def simp del: length_be_bytes)

lemma digest_entries_inject:
  assumes "\<And>x. length (sha x) = 32"
    and "\<forall>r \<in> set rs \<union> set ss. replayable r \<and> length (cr_state r) < 2 ^ 64"
    and "concat (map (digest_entry sha) rs) = concat (map (digest_entry sha) ss)"
  shows "map (wire_facts sha) rs = map (wire_facts sha) ss"
  using assms(2,3)
proof (induction rs arbitrary: ss)
  case Nil
  then show ?case by (cases ss) (simp_all add: digest_entry_nonempty)
next
  case (Cons r rs)
  then obtain q qs where ss: "ss = q # qs"
    by (cases ss) (simp_all add: digest_entry_nonempty)
  have ok: "replayable r" "replayable q" "length (cr_state r) < 2 ^ 64" "length (cr_state q) < 2 ^ 64"
    using Cons.prems(1) ss by simp_all
  have "digest_entry sha r @ concat (map (digest_entry sha) rs) =
      digest_entry sha q @ concat (map (digest_entry sha) qs)"
    using Cons.prems(2) ss by simp
  from digest_entry_inject [OF assms(1) ok this]
  have "wire_facts sha r = wire_facts sha q"
    and "concat (map (digest_entry sha) rs) = concat (map (digest_entry sha) qs)" by auto
  moreover have "\<forall>r \<in> set rs \<union> set qs. replayable r \<and> length (cr_state r) < 2 ^ 64"
    using Cons.prems(1) unfolding ss by (simp only: list.set ball_Un ball_simps) simp
  ultimately show ?case using Cons.IH ss by simp
qed

text \<open>
  C30: The digest input determines what it is taken over: two sequences of records that feed the
  hash the same bytes agree, record by record, on the sequence number, direction, state, packet
  ID, payload length and payload hash of everything that crossed the wire. Records that did not
  cross the wire are ignored. No boundary between fields or records can be moved.
\<close>

theorem digest_determines:
  assumes "\<And>x. length (sha x) = 32"
    and "\<forall>r \<in> set rs \<union> set ss. length (cr_state r) < 2 ^ 64"
    and "foldl (digest_add sha) new_digester rs = foldl (digest_add sha) new_digester ss"
  shows "map (wire_facts sha) (filter replayable rs) = map (wire_facts sha) (filter replayable ss)"
proof (rule digest_entries_inject [OF assms(1)])
  show "\<forall>r \<in> set (filter replayable rs) \<union> set (filter replayable ss).
      replayable r \<and> length (cr_state r) < 2 ^ 64"
    using assms(2) by auto
  show "concat (map (digest_entry sha) (filter replayable rs)) =
      concat (map (digest_entry sha) (filter replayable ss))"
    using assms(3) by (simp add: foldl_digest_add digest_entries_replayable)
qed

text \<open>A record and its state-free twin, under a hash that is 32 zero bytes.\<close>

definition sample_record :: capture_record where
  "sample_record = \<lparr>cr_kind = KindPacket, cr_sequence = 7, cr_frame = 1, cr_elapsed = 0,
     cr_direction = 1, cr_before = [], cr_state = [0x70], cr_packet_id = 3, cr_name = [],
     cr_redacted = False, cr_original_len = 2, cr_payload = [1, 2], cr_secret_label = [],
     cr_reason = []\<rparr>"

theorem digest_determines_witness:
  "map (wire_facts (\<lambda>_. replicate 32 0)) [sample_record] =
   map (wire_facts (\<lambda>_. replicate 32 0)) [sample_record\<lparr>cr_name := [1]\<rparr>]"
  using digest_determines [of "\<lambda>_. replicate 32 0" "[sample_record]"
      "[sample_record\<lparr>cr_name := [1]\<rparr>]"]
  by (simp add: sample_record_def replayable_def digest_add_def)

section \<open>The writer\<close>

record 'w capture_writer =
  cw_sink :: 'w
  cw_header :: capture_header
  cw_strings :: "(gostring \<times> i32) list"
  cw_records :: i64
  cw_last :: i64
  cw_digest :: bytes
  cw_closed :: bool
  cw_disclosing :: bool

datatype writer_option = WithDisclosure gostring | NilOption

fun apply_option :: "writer_option \<Rightarrow> 'w capture_writer \<Rightarrow> 'w capture_writer result" where
  "apply_option NilOption w = Inl ErrInvalidCapture"
| "apply_option (WithDisclosure reason) w =
     (if reason = [] then Inl ErrInvalidCapture
      else Inr (w\<lparr>cw_disclosing := True,
        cw_header := (cw_header w)\<lparr>hd_redaction := redaction_disclosed, hd_disclosure := reason\<rparr>\<rparr>))"

fun apply_writer_options :: "writer_option list \<Rightarrow> 'w capture_writer \<Rightarrow> 'w capture_writer result" where
  "apply_writer_options [] w = Inr w"
| "apply_writer_options (x # xs) w = bindR (apply_option x w) (apply_writer_options xs)"

text \<open>One call of the sink. A count short of the data comes with an error, as package io asks.\<close>

definition sink_write ::
    "'w writer \<Rightarrow> bytes \<Rightarrow> 'w capture_writer \<Rightarrow> wire_error option \<times> 'w capture_writer" where
  "sink_write wr data w =
     (case wr (cw_sink w) data of (n, e, s) \<Rightarrow> (e, w\<lparr>cw_sink := s\<rparr>))"

text \<open>The writes of one function, in order, until one fails.\<close>

fun sink_writes ::
    "'w writer \<Rightarrow> bytes list \<Rightarrow> 'w capture_writer \<Rightarrow> wire_error option \<times> 'w capture_writer" where
  "sink_writes wr [] w = (None, w)"
| "sink_writes wr (data # ds) w = (case sink_write wr data w of
     (Some e, w') \<Rightarrow> (Some e, w')
   | (None, w') \<Rightarrow> sink_writes wr ds w')"

definition header_prefix :: "bytes \<Rightarrow> bytes" where
  "header_prefix encoded = capture_magic @ be_bytes 2 (word_of_int format_version :: 16 word) @
     be_bytes 4 (of_nat (length encoded) :: i32)"

definition write_header ::
    "'w writer \<Rightarrow> (capture_header \<Rightarrow> bytes result) \<Rightarrow> 'w capture_writer \<Rightarrow> 'w capture_writer result" where
  "write_header wr marshal w = bindR (marshal (cw_header w)) (\<lambda>encoded.
     case sink_writes wr [header_prefix encoded, encoded] w of
       (Some e, w') \<Rightarrow> Inl e
     | (None, w') \<Rightarrow> Inr w')"

definition new_capture_writer ::
    "'w writer \<Rightarrow> (capture_header \<Rightarrow> bytes result) \<Rightarrow> 'w option \<Rightarrow> capture_header \<Rightarrow>
     writer_option list \<Rightarrow> 'w capture_writer result" where
  "new_capture_writer wr marshal sink header options = (case sink of
     None \<Rightarrow> Inl ErrInvalidCapture
   | Some s \<Rightarrow>
       if hd_protocol header = [] then Inl ErrInvalidCapture
       else if hd_frame_bytes header \<le> 0 then Inl ErrInvalidCapture
       else bindR (apply_writer_options options
           \<lparr>cw_sink = s,
            cw_header = header\<lparr>hd_format := format_version, hd_redaction := redaction_enforced,
              hd_disclosure := []\<rparr>,
            cw_strings = [], cw_records = 0, cw_last = 0, cw_digest = new_digester,
            cw_closed = False, cw_disclosing = False\<rparr>)
         (write_header wr marshal))"

text \<open>
  The string table: an association list with one entry per distinct string, so its length is
  the size of the Go map.
\<close>

type_synonym string_table = "(gostring \<times> i32) list"

definition append_string :: "gostring \<Rightarrow> string_table \<Rightarrow> bytes \<times> string_table" where
  "append_string s table = (case map_of table s of
     Some index \<Rightarrow> (be_bytes 4 (index + 1), table)
   | None \<Rightarrow> (be_bytes 4 (0 :: i32) @ be_bytes 4 (of_nat (length s) :: i32) @ s,
       (s, of_nat (length table)) # table))"

definition flag_redacted :: byte where "flag_redacted = 1"

definition build_fixed :: "capture_kind \<Rightarrow> observation \<Rightarrow> bytes" where
  "build_fixed kind ob = kind_byte kind # be_bytes 8 (ob_sequence ob) @ be_bytes 8 (ob_frame ob) @
     be_bytes 8 (ob_elapsed ob) @
     [ob_direction ob, if ob_redacted ob then flag_redacted else 0]"

definition build_extra :: "capture_kind \<Rightarrow> observation \<Rightarrow> string_table \<Rightarrow> bytes \<times> string_table" where
  "build_extra kind ob table =
     (case kind of
        KindPacket \<Rightarrow> (case append_string (packet_name ob) table of
          (name, table) \<Rightarrow> (be_bytes 4 (packet_id ob) @ name, table))
      | KindRejected \<Rightarrow> (case append_string (packet_name ob) table of
          (name, table) \<Rightarrow> (case append_string (rejection_reason ob) table of
            (reason, table) \<Rightarrow> (be_bytes 4 (packet_id ob) @ name @ reason, table)))
      | KindSecret \<Rightarrow> append_string (secret_label ob) table
      | KindRawFrame \<Rightarrow> ([], table)
      | KindTrailer \<Rightarrow> ([], table))"

definition build_record :: "capture_kind \<Rightarrow> observation \<Rightarrow> string_table \<Rightarrow> bytes \<times> string_table" where
  "build_record kind ob table =
     (case append_string (ob_before ob) table of (before, table) \<Rightarrow>
      case append_string (ob_after ob) table of (after, table) \<Rightarrow>
      case build_extra kind ob table of (extra, table) \<Rightarrow>
        (build_fixed kind ob @ before @ after @ be_bytes 4 (word_of_int (ob_original_len ob) :: i32) @
         extra @ be_bytes 4 (of_nat (length (ob_bytes ob)) :: i32) @ ob_bytes ob, table))"

definition write_record ::
    "'w writer \<Rightarrow> bytes \<Rightarrow> 'w capture_writer \<Rightarrow> wire_error option \<times> 'w capture_writer" where
  "write_record wr body w = sink_writes wr
     [be_bytes 4 (of_nat (length body) :: i32), body, be_bytes 4 (checksum body)] w"

text \<open>The record the digest sees.\<close>

definition digest_record :: "capture_kind \<Rightarrow> observation \<Rightarrow> capture_record" where
  "digest_record kind ob = \<lparr>cr_kind = kind, cr_sequence = ob_sequence ob, cr_frame = 0,
     cr_elapsed = 0, cr_direction = ob_direction ob, cr_before = [], cr_state = ob_after ob,
     cr_packet_id = packet_id ob, cr_name = [], cr_redacted = False, cr_original_len = 0,
     cr_payload = ob_bytes ob, cr_secret_label = [], cr_reason = []\<rparr>"

definition capture_observe ::
    "'w writer \<Rightarrow> (bytes \<Rightarrow> bytes) \<Rightarrow> observation \<Rightarrow> 'w capture_writer \<Rightarrow>
     wire_error option \<times> 'w capture_writer" where
  "capture_observe wr sha ob w =
     (if cw_closed w then (Some ErrInvalidCapture, w)
      else case kind_for (ob_stage ob) of
        None \<Rightarrow> (Some ErrInvalidCapture, w)
      | Some kind \<Rightarrow>
          if kind = KindSecret \<and> \<not> ob_redacted ob \<and> \<not> cw_disclosing w
          then (Some ErrUndisclosedSecret, w)
          else if hd_frame_bytes (cw_header w) < int (length (ob_bytes ob))
          then (Some ErrRecordTooLarge, w)
          else case build_record kind ob (cw_strings w) of (body, table) \<Rightarrow>
            (case write_record wr body (w\<lparr>cw_strings := table\<rparr>) of
               (Some e, w') \<Rightarrow> (Some e, w')
             | (None, w') \<Rightarrow> (None, w'\<lparr>cw_records := cw_records w' + 1, cw_last := ob_sequence ob,
                 cw_digest := (if kind = KindRawFrame \<or> kind = KindPacket
                   then digest_add sha (cw_digest w') (digest_record kind ob)
                   else cw_digest w')\<rparr>)))"

definition trailer_body :: "(bytes \<Rightarrow> bytes) \<Rightarrow> 'w capture_writer \<Rightarrow> bytes \<times> string_table" where
  "trailer_body sha w =
     (case append_string (digest_sum sha (cw_digest w)) (cw_strings w) of (digest, table) \<Rightarrow>
       (kind_byte KindTrailer # be_bytes 8 (cw_records w) @ be_bytes 8 (cw_last w) @ digest @
        be_bytes 4 (word_of_int digest_version :: i32), table))"

definition capture_close ::
    "'w writer \<Rightarrow> (bytes \<Rightarrow> bytes) \<Rightarrow> 'w capture_writer \<Rightarrow> wire_error option \<times> 'w capture_writer" where
  "capture_close wr sha w =
     (if cw_closed w then (None, w)
      else case trailer_body sha w of (body, table) \<Rightarrow>
        write_record wr body (w\<lparr>cw_closed := True, cw_strings := table\<rparr>))"

end
