(* ===== verification/Capture_Reader.thy ===== *)
theory Capture_Reader
  imports Capture_Format
begin

text \<open>
  capture/reader.go, and what the writer and the reader promise each other: what was observed is
  read back, a file cut at any byte is readable up to the cut, a damaged byte is noticed, and
  undisclosed secrets are refused.
\<close>

section \<open>The reader\<close>

record capture_reader =
  rd_source :: bytes
  rd_header :: capture_header
  rd_strings :: "gostring list"
  rd_trailer :: capture_trailer
  rd_complete :: bool
  rd_done :: bool

definition max_header_bytes :: int where "max_header_bytes = 1048576"

definition no_trailer :: capture_trailer where
  "no_trailer = \<lparr>tr_records = 0, tr_last = 0, tr_digest = [], tr_algorithm = 0\<rparr>"

text \<open>\<open>io.ReadFull\<close> with both end-of-file errors turned into \<open>ErrTruncated\<close>.\<close>

definition read_or_truncated :: "nat \<Rightarrow> bytes \<Rightarrow> (bytes \<times> bytes) result" where
  "read_or_truncated n bs = (case read_full n bs of
     Inl e \<Rightarrow> Inl (if e = EOF \<or> e = UnexpectedEOF then ErrTruncated else e)
   | Inr v \<Rightarrow> Inr v)"

definition read_header ::
    "(bytes \<Rightarrow> capture_header option) \<Rightarrow> bytes \<Rightarrow> (capture_header \<times> bytes) result" where
  "read_header unmarshal source =
     bindR (read_or_truncated 14 source) (\<lambda>(prefix, rest).
       if take 8 prefix \<noteq> capture_magic then Inl ErrNotACapture
       else if uint (be_word (take 2 (drop 8 prefix)) :: 16 word) \<noteq> format_version
       then Inl ErrUnsupportedFormat
       else let len = (be_word (drop 10 prefix) :: i32) in
         if max_header_bytes < uint len then Inl ErrRecordTooLarge
         else bindR (read_or_truncated (unat len) rest) (\<lambda>(encoded, rest').
           case unmarshal encoded of
             None \<Rightarrow> Inl ErrNotACapture
           | Some header \<Rightarrow>
               if hd_frame_bytes header \<le> 0 then Inl ErrInvalidCapture
               else Inr (header, rest')))"

definition new_capture_reader ::
    "(bytes \<Rightarrow> capture_header option) \<Rightarrow> bytes option \<Rightarrow> capture_reader result" where
  "new_capture_reader unmarshal source = (case source of
     None \<Rightarrow> Inl ErrInvalidCapture
   | Some bs \<Rightarrow> bindR (read_header unmarshal bs) (\<lambda>(header, rest).
       Inr \<lparr>rd_source = rest, rd_header = header, rd_strings = [], rd_trailer = no_trailer,
         rd_complete = False, rd_done = False\<rparr>))"

text \<open>Go's \<open>int\<close> is 64 bits wide, so the sum wraps for an absurd limit in a header.\<close>

definition max_record_bytes :: "capture_header \<Rightarrow> int" where
  "max_record_bytes h = sint (word_of_int (hd_frame_bytes h + max_header_bytes) :: i64)"

text \<open>The cursor is the part of the body it has not passed.\<close>

definition cursor_take :: "nat \<Rightarrow> bytes \<Rightarrow> (bytes \<times> bytes) result" where
  "cursor_take n c = (if length c < n then Inl ErrCorruptRecord else Inr (take n c, drop n c))"

definition cursor_uint8 :: "bytes \<Rightarrow> (byte \<times> bytes) result" where
  "cursor_uint8 c = bindR (cursor_take 1 c) (\<lambda>(s, c). Inr (s ! 0, c))"

definition cursor_uint32 :: "bytes \<Rightarrow> (i32 \<times> bytes) result" where
  "cursor_uint32 c = bindR (cursor_take 4 c) (\<lambda>(s, c). Inr (be_word s, c))"

definition cursor_uint64 :: "bytes \<Rightarrow> (i64 \<times> bytes) result" where
  "cursor_uint64 c = bindR (cursor_take 8 c) (\<lambda>(s, c). Inr (be_word s, c))"

definition table_string :: "gostring list \<Rightarrow> bytes \<Rightarrow> (gostring \<times> bytes \<times> gostring list) result" where
  "table_string table c = bindR (cursor_uint32 c) (\<lambda>(code, c).
     if 0 < code
     then (let index = unat (code - 1) in
       if length table \<le> index then Inl ErrCorruptRecord else Inr (table ! index, c, table))
     else bindR (cursor_uint32 c) (\<lambda>(len, c).
       bindR (cursor_take (unat len) c) (\<lambda>(s, c). Inr (s, c, table @ [s]))))"

definition empty_record :: "capture_kind \<Rightarrow> capture_record" where
  "empty_record kind = \<lparr>cr_kind = kind, cr_sequence = 0, cr_frame = 0, cr_elapsed = 0,
     cr_direction = 0, cr_before = [], cr_state = [], cr_packet_id = 0, cr_name = [],
     cr_redacted = False, cr_original_len = 0, cr_payload = [], cr_secret_label = [],
     cr_reason = []\<rparr>"

definition decode_trailer :: "bytes \<Rightarrow> capture_reader \<Rightarrow> (capture_record \<times> capture_reader) result" where
  "decode_trailer c r =
     bindR (cursor_uint64 c) (\<lambda>(records, c).
     bindR (cursor_uint64 c) (\<lambda>(last, c).
     bindR (table_string (rd_strings r) c) (\<lambda>(digest, c, table).
     bindR (cursor_uint32 c) (\<lambda>(algorithm, c).
       Inr (empty_record KindTrailer,
         r\<lparr>rd_strings := table,
           rd_trailer := \<lparr>tr_records = records, tr_last = last, tr_digest = digest,
             tr_algorithm = uint algorithm\<rparr>\<rparr>)))))"

text \<open>What the kind adds between the original length and the payload.\<close>

definition decode_extra ::
    "byte \<Rightarrow> capture_record \<Rightarrow> bytes \<Rightarrow> gostring list \<Rightarrow> (capture_record \<times> bytes \<times> gostring list) result" where
  "decode_extra kind record c table = (case kind_of_byte kind of
     Some KindPacket \<Rightarrow> bindR (cursor_uint32 c) (\<lambda>(id, c).
       bindR (table_string table c) (\<lambda>(name, c, table).
         Inr (record\<lparr>cr_kind := KindPacket, cr_packet_id := id, cr_name := name\<rparr>, c, table)))
   | Some KindRejected \<Rightarrow> bindR (cursor_uint32 c) (\<lambda>(id, c).
       bindR (table_string table c) (\<lambda>(name, c, table).
       bindR (table_string table c) (\<lambda>(reason, c, table).
         Inr (record\<lparr>cr_kind := KindRejected, cr_packet_id := id, cr_name := name,
           cr_reason := reason\<rparr>, c, table))))
   | Some KindSecret \<Rightarrow> bindR (table_string table c) (\<lambda>(label, c, table).
       Inr (record\<lparr>cr_kind := KindSecret, cr_secret_label := label\<rparr>, c, table))
   | Some KindRawFrame \<Rightarrow> Inr (record\<lparr>cr_kind := KindRawFrame\<rparr>, c, table)
   | Some KindTrailer \<Rightarrow> Inr (record\<lparr>cr_kind := KindTrailer\<rparr>, c, table)
   | None \<Rightarrow> Inl ErrCorruptRecord)"

definition decode_record :: "bytes \<Rightarrow> capture_reader \<Rightarrow> (capture_record \<times> capture_reader) result" where
  "decode_record body r =
     bindR (cursor_uint8 body) (\<lambda>(kind, c).
     if kind = kind_byte KindTrailer then decode_trailer c r
     else
       bindR (cursor_uint64 c) (\<lambda>(sequence, c).
       bindR (cursor_uint64 c) (\<lambda>(frame, c).
       bindR (cursor_uint64 c) (\<lambda>(elapsed, c).
       bindR (cursor_uint8 c) (\<lambda>(direction, c).
       bindR (cursor_uint8 c) (\<lambda>(flags, c).
       bindR (table_string (rd_strings r) c) (\<lambda>(before, c, table).
       bindR (table_string table c) (\<lambda>(after, c, table).
       bindR (cursor_uint32 c) (\<lambda>(original, c).
       bindR (decode_extra kind ((empty_record KindTrailer)\<lparr>cr_sequence := sequence,
           cr_frame := frame, cr_elapsed := elapsed, cr_direction := direction,
           cr_redacted := (flags AND flag_redacted \<noteq> 0), cr_before := before, cr_state := after,
           cr_original_len := uint original\<rparr>) c table) (\<lambda>(record, c, table).
       bindR (cursor_uint32 c) (\<lambda>(payload_len, c).
       bindR (cursor_take (unat payload_len) c) (\<lambda>(payload, c).
         Inr (record\<lparr>cr_payload := payload\<rparr>, r\<lparr>rd_strings := table\<rparr>)))))))))))))"

text \<open>A failed call leaves the reader done; where the source stands then is not observable.\<close>

definition capture_next :: "capture_reader \<Rightarrow> capture_record result \<times> capture_reader" where
  "capture_next r =
     (if rd_done r then (Inl ErrEndOfCapture, r)
      else case read_full 4 (rd_source r) of
        Inl e \<Rightarrow> (Inl (if e = EOF then ErrEndOfCapture
            else if e = UnexpectedEOF then ErrTruncated else e), r\<lparr>rd_done := True\<rparr>)
      | Inr (len_bytes, s1) \<Rightarrow>
          let len = (be_word len_bytes :: i32) in
          if max_record_bytes (rd_header r) < uint len
          then (Inl ErrRecordTooLarge, r\<lparr>rd_done := True\<rparr>)
          else case read_or_truncated (unat len) s1 of
            Inl e \<Rightarrow> (Inl e, r\<lparr>rd_done := True\<rparr>)
          | Inr (body, s2) \<Rightarrow> (case read_or_truncated 4 s2 of
              Inl e \<Rightarrow> (Inl e, r\<lparr>rd_done := True\<rparr>)
            | Inr (check, s3) \<Rightarrow>
                if be_word check \<noteq> checksum body
                then (Inl ErrCorruptRecord, r\<lparr>rd_done := True\<rparr>)
                else case decode_record body (r\<lparr>rd_source := s3\<rparr>) of
                  Inl e \<Rightarrow> (Inl e, r\<lparr>rd_done := True\<rparr>)
                | Inr (record, r') \<Rightarrow>
                    if cr_kind record = KindTrailer
                    then (Inl ErrEndOfCapture, r'\<lparr>rd_complete := True, rd_done := True\<rparr>)
                    else (Inr record, r')))"

definition trailer_comparable :: "capture_trailer \<Rightarrow> bool" where
  "trailer_comparable t \<longleftrightarrow> tr_digest t \<noteq> [] \<and> tr_algorithm t = digest_version"

definition reader_trailer :: "capture_reader \<Rightarrow> capture_trailer \<times> bool" where
  "reader_trailer r = (rd_trailer r, rd_complete r)"

text \<open>Calling \<open>Next\<close> until it fails, at most \<open>n\<close> times.\<close>

fun read_records ::
    "nat \<Rightarrow> capture_reader \<Rightarrow> capture_record list \<times> wire_error option \<times> capture_reader" where
  "read_records 0 r = ([], None, r)"
| "read_records (Suc n) r = (case capture_next r of
     (Inl e, r') \<Rightarrow> ([], Some e, r')
   | (Inr record, r') \<Rightarrow> (case read_records n r' of (rs, e, r'') \<Rightarrow> (record # rs, e, r'')))"

section \<open>One record through the writer and the reader\<close>

lemma cursor_take_append [simp]: "length xs = n \<Longrightarrow> cursor_take n (xs @ ys) = Inr (xs, ys)"
  by (simp add: cursor_take_def)

lemma cursor_take_all [simp]: "length xs = n \<Longrightarrow> cursor_take n xs = Inr (xs, [])"
  by (simp add: cursor_take_def)

lemma cursor_uint8_Cons [simp]: "cursor_uint8 (b # c) = Inr (b, c)"
  by (simp add: cursor_uint8_def cursor_take_def)

lemma cursor_uint32_be [simp]: "cursor_uint32 (be_bytes 4 v @ c) = Inr (v, c)"
  by (simp add: cursor_uint32_def be_word_be_bytes)

lemma cursor_uint32_be_end [simp]: "cursor_uint32 (be_bytes 4 v) = Inr (v, [])"
  by (simp add: cursor_uint32_def be_word_be_bytes)

lemma cursor_uint64_be [simp]: "cursor_uint64 (be_bytes 8 v @ c) = Inr (v, c)"
  by (simp add: cursor_uint64_def be_word_be_bytes)

text \<open>
  The two string tables in step: every string the writer knows stands at its index in the
  reader's table, and both have the same strings.
\<close>

definition tables_agree :: "string_table \<Rightarrow> gostring list \<Rightarrow> bool" where
  "tables_agree t l \<longleftrightarrow> length t = length l \<and> fst ` set t = set l \<and>
     (\<forall>s i. map_of t s = Some i \<longrightarrow> unat i < length l \<and> l ! unat i = s)"

definition learn :: "gostring list \<Rightarrow> gostring \<Rightarrow> gostring list" where
  "learn l s = (if s \<in> set l then l else l @ [s])"

lemma length_learn: "length (learn l s) \<le> Suc (length l)"
  by (simp add: learn_def)

lemma length_foldl_learn: "length (foldl learn l ss) \<le> length l + length ss"
proof (induction ss arbitrary: l)
  case (Cons s ss)
  from Cons.IH [of "learn l s"] length_learn [of l s] show ?case by simp
qed simp

lemma tables_agree_Nil [simp]: "tables_agree [] []"
  by (simp add: tables_agree_def)

lemma tables_agree_known:
  assumes "tables_agree t l" and "map_of t s = Some i"
  shows "unat i < length l" and "l ! unat i = s" and "s \<in> set l"
proof -
  show k: "unat i < length l" "l ! unat i = s"
    using assms by (auto simp: tables_agree_def)
  from nth_mem [OF k(1)] k(2) show "s \<in> set l" by simp
qed

lemma append_string_table:
  assumes "tables_agree t l" and "length l < 2 ^ 32 - 1"
  shows "tables_agree (snd (append_string s t)) (learn l s)"
proof (cases "map_of t s")
  case (Some i)
  with Some assms(1) tables_agree_known(3) [OF assms(1) Some] show ?thesis
    by (simp add: append_string_def learn_def)
next
  case None
  then have "s \<notin> set l"
    using assms(1) by (auto simp: tables_agree_def map_of_eq_None_iff)
  moreover have "unat (of_nat (length l) :: i32) = length l"
    using assms(2) by (simp add: unat_of_nat)
  ultimately show ?thesis
    using None assms(1)
    by (auto simp: append_string_def learn_def tables_agree_def nth_append less_Suc_eq)
qed

lemma unat_less_max_i32: "unat (i :: i32) < 2 ^ 32 - 1 \<Longrightarrow> i + 1 \<noteq> 0"
proof
  assume "unat i < 2 ^ 32 - 1" and "i + 1 = 0"
  then have "i = - 1" by (simp add: eq_neg_iff_add_eq_0)
  then have "unat i = 2 ^ 32 - 1" by (simp add: unsigned_minus_1_eq_mask mask_eq_exp_minus_1)
  with \<open>unat i < 2 ^ 32 - 1\<close> show False by simp
qed

lemma table_string_append:
  assumes "tables_agree t l" and "length l < 2 ^ 32 - 1" and "length s < 2 ^ 32"
  shows "table_string l (fst (append_string s t) @ rest) = Inr (s, rest, learn l s)"
proof (cases "map_of t s")
  case (Some i)
  note i = tables_agree_known [OF assms(1) Some]
  have "0 < i + 1"
    using unat_less_max_i32 [of i] i(1) assms(2) by (simp add: word_neq_0_conv)
  then show ?thesis using Some i
    by (simp add: append_string_def table_string_def learn_def)
next
  case None
  then have "s \<notin> set l"
    using assms(1) by (auto simp: tables_agree_def map_of_eq_None_iff)
  moreover have "unat (of_nat (length s) :: i32) = length s"
    using assms(3) by (simp add: unat_of_nat)
  ultimately show ?thesis using None
    by (simp add: append_string_def table_string_def learn_def)
qed

lemmas string_step = append_string_table table_string_append

text \<open>The strings of a record in the order they are written, and the record that is read back.\<close>

definition extra_strings :: "capture_kind \<Rightarrow> observation \<Rightarrow> gostring list" where
  "extra_strings kind ob = (case kind of
     KindPacket \<Rightarrow> [packet_name ob]
   | KindRejected \<Rightarrow> [packet_name ob, rejection_reason ob]
   | KindSecret \<Rightarrow> [secret_label ob]
   | KindRawFrame \<Rightarrow> []
   | KindTrailer \<Rightarrow> [])"

definition record_strings :: "capture_kind \<Rightarrow> observation \<Rightarrow> gostring list" where
  "record_strings kind ob = [ob_before ob, ob_after ob] @ extra_strings kind ob"

definition record_of :: "capture_kind \<Rightarrow> observation \<Rightarrow> capture_record" where
  "record_of kind ob = \<lparr>cr_kind = kind, cr_sequence = ob_sequence ob, cr_frame = ob_frame ob,
     cr_elapsed = ob_elapsed ob, cr_direction = ob_direction ob, cr_before = ob_before ob,
     cr_state = ob_after ob,
     cr_packet_id = (if kind = KindPacket \<or> kind = KindRejected then packet_id ob else 0),
     cr_name = (if kind = KindPacket \<or> kind = KindRejected then packet_name ob else []),
     cr_redacted = ob_redacted ob, cr_original_len = ob_original_len ob, cr_payload = ob_bytes ob,
     cr_secret_label = (if kind = KindSecret then secret_label ob else []),
     cr_reason = (if kind = KindRejected then rejection_reason ob else [])\<rparr>"

lemma length_record_strings: "length (record_strings kind ob) \<le> 4"
  by (cases kind) (simp_all add: record_strings_def extra_strings_def)

lemma build_extra_table:
  assumes "tables_agree t l" and "length l < 2 ^ 32 - 2"
  shows "tables_agree (snd (build_extra kind ob t)) (foldl learn l (extra_strings kind ob))"
proof (cases kind)
  case KindRejected
  have t': "tables_agree (snd (append_string (packet_name ob) t)) (learn l (packet_name ob))"
    by (rule append_string_table) (use assms in auto)
  have "tables_agree (snd (append_string (rejection_reason ob)
      (snd (append_string (packet_name ob) t)))) (learn (learn l (packet_name ob)) (rejection_reason ob))"
    by (rule append_string_table [OF t']) (use assms length_learn [of l "packet_name ob"] in simp)
  with KindRejected show ?thesis
    by (simp add: build_extra_def extra_strings_def split_beta)
qed (use assms append_string_table [OF assms(1)] in
  \<open>simp_all add: build_extra_def extra_strings_def split_beta\<close>)

lemma decode_extra_build:
  assumes "tables_agree t l" and "length l < 2 ^ 32 - 2" and "kind \<noteq> KindTrailer"
    and "\<forall>s \<in> set (extra_strings kind ob). length s < 2 ^ 32"
  shows "decode_extra (kind_byte kind) r (fst (build_extra kind ob t) @ rest) l =
     Inr (r\<lparr>cr_kind := kind,
        cr_packet_id := (if kind = KindPacket \<or> kind = KindRejected then packet_id ob
          else cr_packet_id r),
        cr_name := (if kind = KindPacket \<or> kind = KindRejected then packet_name ob else cr_name r),
        cr_secret_label := (if kind = KindSecret then secret_label ob else cr_secret_label r),
        cr_reason := (if kind = KindRejected then rejection_reason ob else cr_reason r)\<rparr>,
      rest, foldl learn l (extra_strings kind ob))"
proof (cases kind)
  case KindPacket
  with assms table_string_append [OF assms(1), of "packet_name ob" rest] show ?thesis
    by (simp add: decode_extra_def build_extra_def extra_strings_def split_beta kind_of_byte_def)
next
  case KindSecret
  with assms table_string_append [OF assms(1), of "secret_label ob" rest] show ?thesis
    by (simp add: decode_extra_def build_extra_def extra_strings_def split_beta kind_of_byte_def)
next
  case KindRejected
  let ?t = "snd (append_string (packet_name ob) t)" and ?l = "learn l (packet_name ob)"
  have t': "tables_agree ?t ?l"
    by (rule append_string_table) (use assms in auto)
  have "table_string l (fst (append_string (packet_name ob) t) @ xs) = Inr (packet_name ob, xs, ?l)"
    for xs by (rule table_string_append) (use assms KindRejected in \<open>auto simp: extra_strings_def\<close>)
  moreover have "table_string ?l (fst (append_string (rejection_reason ob) ?t) @ rest) =
      Inr (rejection_reason ob, rest, learn ?l (rejection_reason ob))"
    by (rule table_string_append [OF t'])
      (use assms KindRejected length_learn [of l "packet_name ob"] in \<open>auto simp: extra_strings_def\<close>)
  ultimately show ?thesis using KindRejected
    by (simp add: decode_extra_def build_extra_def extra_strings_def split_beta kind_of_byte_def)
qed (use assms in \<open>simp_all add: decode_extra_def build_extra_def extra_strings_def kind_of_byte_def\<close>)

lemma build_record_table:
  assumes "tables_agree t l" and "length l < 2 ^ 32 - 4"
  shows "tables_agree (snd (build_record kind ob t)) (foldl learn l (record_strings kind ob))"
proof -
  let ?t1 = "snd (append_string (ob_before ob) t)" and ?l1 = "learn l (ob_before ob)"
  let ?t2 = "snd (append_string (ob_after ob) ?t1)" and ?l2 = "learn ?l1 (ob_after ob)"
  have t1: "tables_agree ?t1 ?l1"
    by (rule append_string_table) (use assms in auto)
  have t2: "tables_agree ?t2 ?l2"
    by (rule append_string_table [OF t1]) (use assms length_learn [of l "ob_before ob"] in simp)
  have "tables_agree (snd (build_extra kind ob ?t2)) (foldl learn ?l2 (extra_strings kind ob))"
    by (rule build_extra_table [OF t2])
      (use assms length_learn [of l "ob_before ob"] length_learn [of ?l1 "ob_after ob"] in simp)
  then show ?thesis by (simp add: build_record_def record_strings_def split_beta)
qed

text \<open>What an observation must be for its record to fit the widths of the format.\<close>

definition fits_format :: "capture_kind \<Rightarrow> observation \<Rightarrow> bool" where
  "fits_format kind ob \<longleftrightarrow> kind \<noteq> KindTrailer \<and> (\<forall>s \<in> set (record_strings kind ob). length s < 2 ^ 32) \<and>
     length (ob_bytes ob) < 2 ^ 32 \<and> 0 \<le> ob_original_len ob \<and> ob_original_len ob < 2 ^ 32"

lemma decode_build_record:
  assumes "tables_agree t (rd_strings r)" and "length (rd_strings r) < 2 ^ 32 - 4"
    and "fits_format kind ob"
  shows "decode_record (fst (build_record kind ob t)) r =
     Inr (record_of kind ob, r\<lparr>rd_strings := foldl learn (rd_strings r) (record_strings kind ob)\<rparr>)"
proof -
  let ?l = "rd_strings r"
  let ?t1 = "snd (append_string (ob_before ob) t)" and ?l1 = "learn ?l (ob_before ob)"
  let ?t2 = "snd (append_string (ob_after ob) ?t1)" and ?l2 = "learn ?l1 (ob_after ob)"
  have t1: "tables_agree ?t1 ?l1"
    by (rule append_string_table) (use assms in auto)
  have t2: "tables_agree ?t2 ?l2"
    by (rule append_string_table [OF t1]) (use assms length_learn [of ?l "ob_before ob"] in simp)
  have small: "length ?l1 < 2 ^ 32 - 3" "length ?l2 < 2 ^ 32 - 2"
    using assms(2) length_learn [of ?l "ob_before ob"] length_learn [of ?l1 "ob_after ob"] by simp_all
  have strings: "length (ob_before ob) < 2 ^ 32" "length (ob_after ob) < 2 ^ 32"
    "\<forall>s \<in> set (extra_strings kind ob). length s < 2 ^ 32"
    using assms(3) by (auto simp: fits_format_def record_strings_def)
  have before: "table_string ?l (fst (append_string (ob_before ob) t) @ rest) =
      Inr (ob_before ob, rest, ?l1)" for rest
    by (rule table_string_append) (use assms strings in auto)
  have after: "table_string ?l1 (fst (append_string (ob_after ob) ?t1) @ rest) =
      Inr (ob_after ob, rest, ?l2)" for rest
    by (rule table_string_append [OF t1]) (use small strings in auto)
  note extra = decode_extra_build [OF t2 small(2) _ strings(3)]
  have flag: "(if b then flag_redacted else 0) AND flag_redacted \<noteq> 0 \<longleftrightarrow> b" for b
    by (simp add: flag_redacted_def)
  have len: "unat (of_nat (length (ob_bytes ob)) :: i32) = length (ob_bytes ob)"
    "uint (word_of_int (ob_original_len ob) :: i32) = ob_original_len ob"
    using assms(3) by (simp_all add: fits_format_def unat_of_nat uint_word_of_int)
  show ?thesis
    using assms(3)
    by (simp add: build_record_def build_fixed_def decode_record_def split_beta before after extra
        flag len fits_format_def record_strings_def record_of_def empty_record_def)
qed

text \<open>A record on disk.\<close>

definition framed :: "bytes \<Rightarrow> bytes" where
  "framed body = be_bytes 4 (of_nat (length body) :: i32) @ body @ be_bytes 4 (checksum body)"

lemma length_framed [simp]: "length (framed body) = length body + 8"
  by (simp add: framed_def)

lemma write_record_buffer [simp]:
  "write_record buffer_write body w = (None, w\<lparr>cw_sink := cw_sink w @ framed body\<rparr>)"
  by (simp add: write_record_def sink_write_def buffer_write_def framed_def)

lemma be_bytes_eq_Nil [simp]: "be_bytes n v = [] \<longleftrightarrow> n = 0"
  by (cases n) auto

text \<open>What \<open>Next\<close> makes of a record that is complete, and of one that was cut short.\<close>

lemma next_framed:
  assumes "\<not> rd_done r" and "rd_source r = framed body @ rest"
    and "int (length body) \<le> max_record_bytes (rd_header r)" and "length body < 2 ^ 32"
  shows "capture_next r = (case decode_record body (r\<lparr>rd_source := rest\<rparr>) of
      Inl e \<Rightarrow> (Inl e, r\<lparr>rd_done := True\<rparr>)
    | Inr (record, r') \<Rightarrow> if cr_kind record = KindTrailer
        then (Inl ErrEndOfCapture, r'\<lparr>rd_complete := True, rd_done := True\<rparr>)
        else (Inr record, r'))"
proof -
  have len: "unat (of_nat (length body) :: i32) = length body"
    "uint (of_nat (length body) :: i32) = int (length body)"
    using assms(4) by (simp_all add: unat_of_nat uint_nat)
  show ?thesis
    using assms(1-3)
    by (simp add: capture_next_def framed_def read_or_truncated_def Let_def be_word_be_bytes len)
qed

lemma next_cut:
  assumes "\<not> rd_done r" and "rd_source r = take k (framed body)" and "k < length (framed body)"
    and "int (length body) \<le> max_record_bytes (rd_header r)" and "length body < 2 ^ 32"
  shows "capture_next r = (Inl (if k = 0 then ErrEndOfCapture else ErrTruncated),
    r\<lparr>rd_done := True\<rparr>)"
proof -
  have len: "unat (of_nat (length body) :: i32) = length body"
    "uint (of_nat (length body) :: i32) = int (length body)"
    using assms(5) by (simp_all add: unat_of_nat uint_nat)
  consider "k < 4" | "4 \<le> k" "k < 4 + length body" | "4 + length body \<le> k" by linarith
  then show ?thesis
  proof cases
    case 1
    then have "read_full 4 (rd_source r) = Inl (if k = 0 then EOF else UnexpectedEOF)"
      using assms(2) by (auto simp: read_full_def framed_def)
    with assms(1) show ?thesis by (simp add: capture_next_def)
  next
    case 2
    then obtain j where j: "k = 4 + j" "j < length body" by (metis le_Suc_ex nat_add_left_cancel_less)
    then have "rd_source r = be_bytes 4 (of_nat (length body) :: i32) @ take j body"
      using assms(2) by (simp add: framed_def)
    with assms(1,4) len j show ?thesis
      by (auto simp: capture_next_def be_word_be_bytes Let_def read_or_truncated_def read_full_def)
  next
    case 3
    then obtain j where j: "k = 4 + (length body + j)" by (metis add.assoc le_Suc_ex)
    with assms(3) have "j < 4" by simp
    have "rd_source r = be_bytes 4 (of_nat (length body) :: i32) @ body @ take j (be_bytes 4 (checksum body))"
      using assms(2) j by (simp add: framed_def)
    moreover have "read_or_truncated 4 (take j (be_bytes 4 (checksum body))) = Inl ErrTruncated"
      using \<open>j < 4\<close> by (simp add: read_or_truncated_def read_full_def)
    ultimately show ?thesis
      using assms(1,4) len j
      by (simp add: capture_next_def be_word_be_bytes Let_def)
        (simp add: read_or_truncated_def)
  qed
qed

section \<open>Runs of the writer\<close>

fun observe_all ::
    "'w writer \<Rightarrow> (bytes \<Rightarrow> bytes) \<Rightarrow> observation list \<Rightarrow> 'w capture_writer \<Rightarrow>
     wire_error option \<times> 'w capture_writer" where
  "observe_all wr sha [] w = (None, w)"
| "observe_all wr sha (ob # obs) w = (case capture_observe wr sha ob w of
     (Some e, w') \<Rightarrow> (Some e, w')
   | (None, w') \<Rightarrow> observe_all wr sha obs w')"

text \<open>The record an observation becomes, and what it must satisfy to be read back.\<close>

definition observed_record :: "observation \<Rightarrow> capture_record" where
  "observed_record ob = (case kind_for (ob_stage ob) of
     Some kind \<Rightarrow> record_of kind ob
   | None \<Rightarrow> empty_record KindTrailer)"

definition fits_record :: "observation \<Rightarrow> bool" where
  "fits_record ob = (case kind_for (ob_stage ob) of
     Some kind \<Rightarrow> fits_format kind ob \<and> (\<Sum>s\<leftarrow>record_strings kind ob. length s) \<le> 2 ^ 20 - 100 \<and>
       (kind = KindRawFrame \<longrightarrow> ob_packet ob = None)
   | None \<Rightarrow> False)"

lemma kind_for_no_trailer [simp]: "kind_for st \<noteq> Some KindTrailer"
  by (cases st) auto

lemma length_append_string: "length (fst (append_string s t)) \<le> 8 + length s"
  by (cases "map_of t s") (simp_all add: append_string_def)

lemma length_build_record:
  "length (fst (build_record kind ob t)) \<le>
     80 + (\<Sum>s\<leftarrow>record_strings kind ob. length s) + length (ob_bytes ob)"
proof -
  let ?t1 = "snd (append_string (ob_before ob) t)"
  let ?t2 = "snd (append_string (ob_after ob) ?t1)"
  have "length (fst (build_extra kind ob ?t2)) \<le> 20 + (\<Sum>s\<leftarrow>extra_strings kind ob. length s)"
    using length_append_string [of "packet_name ob" ?t2] length_append_string [of "secret_label ob" ?t2]
      length_append_string [of "rejection_reason ob" "snd (append_string (packet_name ob) ?t2)"]
    by (cases kind) (simp_all add: build_extra_def extra_strings_def split_beta)
  then show ?thesis
    using length_append_string [of "ob_before ob" t] length_append_string [of "ob_after ob" ?t1]
    by (simp add: build_record_def build_fixed_def record_strings_def split_beta)
qed

text \<open>An observation a writer over a buffer accepted.\<close>

lemma observe_buffer_accepted:
  "capture_observe buffer_write sha ob w = (None, w') \<longleftrightarrow>
   (\<exists>kind. kind_for (ob_stage ob) = Some kind \<and> \<not> cw_closed w \<and>
     (kind = KindSecret \<longrightarrow> ob_redacted ob \<or> cw_disclosing w) \<and>
     int (length (ob_bytes ob)) \<le> hd_frame_bytes (cw_header w) \<and>
     w' = w\<lparr>cw_sink := cw_sink w @ framed (fst (build_record kind ob (cw_strings w))),
       cw_strings := snd (build_record kind ob (cw_strings w)),
       cw_records := cw_records w + 1, cw_last := ob_sequence ob,
       cw_digest := (if kind = KindRawFrame \<or> kind = KindPacket
         then digest_add sha (cw_digest w) (digest_record kind ob) else cw_digest w)\<rparr>)"
  by (cases "kind_for (ob_stage ob)")
    (auto simp: capture_observe_def split_beta not_less split: if_splits)

lemma digest_add_record_of:
  "kind = KindRawFrame \<longrightarrow> ob_packet ob = None \<Longrightarrow>
   digest_add sha d (record_of kind ob) = (if kind = KindRawFrame \<or> kind = KindPacket
     then digest_add sha d (digest_record kind ob) else d)"
  by (auto simp: digest_add_def replayable_def record_of_def digest_record_def packet_id_def)

lemma max_record_bytes_small:
  "0 < hd_frame_bytes h \<Longrightarrow> hd_frame_bytes h < 2 ^ 31 \<Longrightarrow>
   max_record_bytes h = hd_frame_bytes h + 2 ^ 20"
  by (simp only: max_record_bytes_def max_header_bytes_def signed_of_int)
    (simp add: signed_take_bit_int_eq_self)

text \<open>Where a reader stands after the records of a writer, at every cut of them.\<close>

definition in_step :: "'w capture_writer \<Rightarrow> capture_reader \<Rightarrow> bool" where
  "in_step w r \<longleftrightarrow> \<not> rd_done r \<and> \<not> rd_complete r \<and> rd_header r = cw_header w \<and>
     tables_agree (cw_strings w) (rd_strings r) \<and>
     0 < hd_frame_bytes (cw_header w) \<and> hd_frame_bytes (cw_header w) < 2 ^ 31"

definition stops_at :: "nat \<Rightarrow> capture_reader \<Rightarrow> capture_record list \<Rightarrow> bool" where
  "stops_at n r rs \<longleftrightarrow> (\<exists>j e r'. read_records n r = (take j rs, Some e, r') \<and>
     e \<in> {ErrEndOfCapture, ErrTruncated} \<and> \<not> rd_complete r')"

lemma stops_at_Suc:
  assumes "capture_next r = (Inr q, r')" and "stops_at n r' rs"
  shows "stops_at (Suc n) r (q # rs)"
proof -
  obtain j e r'' where "read_records n r' = (take j rs, Some e, r'')"
    "e \<in> {ErrEndOfCapture, ErrTruncated}" "\<not> rd_complete r''"
    using assms(2) by (auto simp: stops_at_def)
  with assms(1) have "read_records (Suc n) r = (take (Suc j) (q # rs), Some e, r'')" by simp
  with \<open>e \<in> _\<close> \<open>\<not> rd_complete r''\<close> show ?thesis unfolding stops_at_def by blast
qed

lemma stops_at_cut:
  assumes "\<not> rd_done r" and "\<not> rd_complete r" and "rd_source r = take k (framed body)"
    and "k < length (framed body)"
    and "int (length body) \<le> max_record_bytes (rd_header r)" and "length body < 2 ^ 32"
  shows "stops_at (Suc n) r rs"
proof -
  have "read_records (Suc n) r = (take 0 rs, Some (if k = 0 then ErrEndOfCapture else ErrTruncated),
      r\<lparr>rd_done := True\<rparr>)"
    using next_cut [OF assms(1,3,4,5,6)] by simp
  with assms(2) show ?thesis unfolding stops_at_def by force
qed

lemma observe_step:
  assumes "capture_observe buffer_write sha ob w = (None, w')" and "fits_record ob"
    and "in_step w r" and "length (rd_strings r) < 2 ^ 32 - 4"
  obtains body l where "cw_sink w' = cw_sink w @ framed body"
    and "in_step w' (r\<lparr>rd_strings := l\<rparr>)" and "length l \<le> length (rd_strings r) + 4"
    and "cw_digest w' = digest_add sha (cw_digest w) (observed_record ob)"
    and "cw_records w' = cw_records w + 1" and "cw_last w' = ob_sequence ob"
    and "cw_closed w' = cw_closed w"
    and "length body < 2 ^ 32" and "int (length body) \<le> max_record_bytes (rd_header r)"
    and "\<And>rest. capture_next (r\<lparr>rd_source := framed body @ rest\<rparr>) =
      (Inr (observed_record ob), r\<lparr>rd_source := rest, rd_strings := l\<rparr>)"
proof -
  from assms(1) obtain kind where kind: "kind_for (ob_stage ob) = Some kind"
    and size: "int (length (ob_bytes ob)) \<le> hd_frame_bytes (cw_header w)"
    and w': "w' = w\<lparr>cw_sink := cw_sink w @ framed (fst (build_record kind ob (cw_strings w))),
       cw_strings := snd (build_record kind ob (cw_strings w)),
       cw_records := cw_records w + 1, cw_last := ob_sequence ob,
       cw_digest := (if kind = KindRawFrame \<or> kind = KindPacket
         then digest_add sha (cw_digest w) (digest_record kind ob) else cw_digest w)\<rparr>"
    unfolding observe_buffer_accepted by blast
  let ?body = "fst (build_record kind ob (cw_strings w))"
  let ?l = "foldl learn (rd_strings r) (record_strings kind ob)"
  have fits: "fits_format kind ob" "(\<Sum>s\<leftarrow>record_strings kind ob. length s) \<le> 2 ^ 20 - 100"
    "kind = KindRawFrame \<longrightarrow> ob_packet ob = None"
    using assms(2) kind by (auto simp: fits_record_def)
  have hdr: "rd_header r = cw_header w" "0 < hd_frame_bytes (cw_header w)"
    "hd_frame_bytes (cw_header w) < 2 ^ 31" "tables_agree (cw_strings w) (rd_strings r)"
    "\<not> rd_done r"
    using assms(3) by (auto simp: in_step_def)
  have body: "int (length ?body) \<le> max_record_bytes (rd_header r)" "length ?body < 2 ^ 32"
    using length_build_record [of kind ob "cw_strings w"] fits(2) size hdr(2,3)
    by (simp_all add: hdr(1) max_record_bytes_small)
  show thesis
  proof (rule that)
    show "cw_sink w' = cw_sink w @ framed ?body" by (simp add: w')
    show "in_step w' (r\<lparr>rd_strings := ?l\<rparr>)"
      using assms(3) build_record_table [OF hdr(4) assms(4)] by (simp add: w' in_step_def)
    show "length ?l \<le> length (rd_strings r) + 4"
      using length_foldl_learn [of "rd_strings r"] length_record_strings [of kind ob]
      by (meson add_left_mono le_trans)
    show "cw_digest w' = digest_add sha (cw_digest w) (observed_record ob)"
      using digest_add_record_of [OF fits(3)] kind by (simp add: w' observed_record_def)
    show "capture_next (r\<lparr>rd_source := framed ?body @ rest\<rparr>) =
        (Inr (observed_record ob), r\<lparr>rd_source := rest, rd_strings := ?l\<rparr>)" for rest
    proof -
      let ?r = "r\<lparr>rd_source := rest\<rparr>"
      have "decode_record ?body ?r = Inr (record_of kind ob, ?r\<lparr>rd_strings := ?l\<rparr>)"
        using decode_build_record [of "cw_strings w" ?r kind ob] hdr(4) assms(4) fits(1) by simp
      moreover have "cr_kind (record_of kind ob) \<noteq> KindTrailer"
        using kind by (auto simp: record_of_def)
      ultimately show ?thesis
        using next_framed [of "r\<lparr>rd_source := framed ?body @ rest\<rparr>" ?body rest] body hdr(5) kind
        by (simp add: observed_record_def)
    qed
  qed (use body in \<open>simp_all add: w'\<close>)
qed

text \<open>
  What a run of the writer leaves behind it (\<open>frames\<close>) and what a reader in step makes of it,
  whole and cut.
\<close>

definition reads_run ::
    "observation list \<Rightarrow> bytes \<Rightarrow> gostring list \<Rightarrow> capture_reader \<Rightarrow> bool" where
  "reads_run obs frames l r \<longleftrightarrow>
     (\<forall>rest n. read_records (length obs + n) (r\<lparr>rd_source := frames @ rest\<rparr>) =
        (case read_records n (r\<lparr>rd_source := rest, rd_strings := l\<rparr>) of
          (rs, e, r') \<Rightarrow> (map observed_record obs @ rs, e, r'))) \<and>
     (\<forall>k n. k < length frames \<longrightarrow>
        stops_at (length obs + n) (r\<lparr>rd_source := take k frames\<rparr>) (map observed_record obs))"

lemma reader_update_swap:
  "r\<lparr>rd_strings := l, rd_source := s\<rparr> = r\<lparr>rd_source := s, rd_strings := l\<rparr>"
  by simp

lemma reads_run_Nil: "reads_run [] [] (rd_strings r) r"
  by (simp add: reads_run_def)

lemma reads_run_Cons:
  assumes "\<And>rest. capture_next (r\<lparr>rd_source := framed body @ rest\<rparr>) =
      (Inr (observed_record ob), r\<lparr>rd_source := rest, rd_strings := l1\<rparr>)"
    and "reads_run obs frames l (r\<lparr>rd_strings := l1\<rparr>)"
    and "\<not> rd_done r" and "\<not> rd_complete r" and "length body < 2 ^ 32"
    and "int (length body) \<le> max_record_bytes (rd_header r)"
  shows "reads_run (ob # obs) (framed body @ frames) l r"
  unfolding reads_run_def
proof (intro conjI allI impI)
  fix rest n
  show "read_records (length (ob # obs) + n) (r\<lparr>rd_source := (framed body @ frames) @ rest\<rparr>) =
      (case read_records n (r\<lparr>rd_source := rest, rd_strings := l\<rparr>) of
        (rs, e, r') \<Rightarrow> (map observed_record (ob # obs) @ rs, e, r'))"
    using assms(1) [of "frames @ rest"] assms(2)
    by (simp add: reads_run_def reader_update_swap split_beta)
next
  fix k n assume k: "k < length (framed body @ frames)"
  show "stops_at (length (ob # obs) + n) (r\<lparr>rd_source := take k (framed body @ frames)\<rparr>)
      (map observed_record (ob # obs))"
  proof (cases "k < length (framed body)")
    case True
    then have "take k (framed body @ frames) = take k (framed body)" by simp
    moreover have "stops_at (Suc (length obs + n)) (r\<lparr>rd_source := take k (framed body)\<rparr>)
        (map observed_record (ob # obs))"
      by (rule stops_at_cut) (use assms(3-6) True in auto)
    ultimately show ?thesis by (simp del: take_append)
  next
    case False
    let ?k = "k - length (framed body)"
    have "take k (framed body @ frames) = framed body @ take ?k frames"
      using False by simp
    moreover have "stops_at (length obs + n) (r\<lparr>rd_source := take ?k frames, rd_strings := l1\<rparr>)
        (map observed_record obs)"
      using assms(2) k False by (simp add: reads_run_def reader_update_swap)
    ultimately show ?thesis
      using stops_at_Suc [OF assms(1) [of "take ?k frames"]] by simp
  qed
qed

lemma session_reads:
  assumes "observe_all buffer_write sha obs w = (None, w1)" and "list_all fits_record obs"
    and "in_step w r" and "length (rd_strings r) + 4 * length obs < 2 ^ 32 - 4"
  shows "\<exists>frames l. cw_sink w1 = cw_sink w @ frames \<and> in_step w1 (r\<lparr>rd_strings := l\<rparr>) \<and>
     length l \<le> length (rd_strings r) + 4 * length obs \<and>
     cw_digest w1 = foldl (digest_add sha) (cw_digest w) (map observed_record obs) \<and>
     cw_records w1 = cw_records w + of_nat (length obs) \<and>
     cw_last w1 = (if obs = [] then cw_last w else ob_sequence (last obs)) \<and>
     cw_closed w1 = cw_closed w \<and> reads_run obs frames l r"
  using assms
proof (induction obs arbitrary: w r)
  case Nil
  then show ?case
    by (intro exI [of _ "[]"] exI [of _ "rd_strings r"]) (simp add: reads_run_Nil)
next
  case (Cons ob obs)
  obtain w0 where first: "capture_observe buffer_write sha ob w = (None, w0)"
    and rest: "observe_all buffer_write sha obs w0 = (None, w1)"
    using Cons.prems(1) by (auto split: prod.splits option.splits)
  obtain body l1 where step: "cw_sink w0 = cw_sink w @ framed body"
    "in_step w0 (r\<lparr>rd_strings := l1\<rparr>)" "length l1 \<le> length (rd_strings r) + 4"
    "cw_digest w0 = digest_add sha (cw_digest w) (observed_record ob)"
    "cw_records w0 = cw_records w + 1" "cw_last w0 = ob_sequence ob" "cw_closed w0 = cw_closed w"
    "length body < 2 ^ 32" "int (length body) \<le> max_record_bytes (rd_header r)"
    "\<And>rest. capture_next (r\<lparr>rd_source := framed body @ rest\<rparr>) =
      (Inr (observed_record ob), r\<lparr>rd_source := rest, rd_strings := l1\<rparr>)"
    by (rule observe_step [OF first _ Cons.prems(3)]) (use Cons.prems in auto)
  obtain frames l where IH: "cw_sink w1 = cw_sink w0 @ frames" "in_step w1 (r\<lparr>rd_strings := l\<rparr>)"
    "length l \<le> length l1 + 4 * length obs"
    "cw_digest w1 = foldl (digest_add sha) (cw_digest w0) (map observed_record obs)"
    "cw_records w1 = cw_records w0 + of_nat (length obs)"
    "cw_last w1 = (if obs = [] then cw_last w0 else ob_sequence (last obs))"
    "cw_closed w1 = cw_closed w0" "reads_run obs frames l (r\<lparr>rd_strings := l1\<rparr>)"
    using Cons.IH [OF rest _ step(2)] Cons.prems(2,4) step(3) by auto
  have "\<not> rd_done r" "\<not> rd_complete r" using Cons.prems(3) by (auto simp: in_step_def)
  then have "reads_run (ob # obs) (framed body @ frames) l r"
    by (rule reads_run_Cons [OF step(10) IH(8) _ _ step(8,9)])
  moreover have "cw_sink w1 = cw_sink w @ framed body @ frames"
    using IH(1) step(1) by simp
  moreover have "length l \<le> length (rd_strings r) + 4 * length (ob # obs)"
    using IH(3) step(3) by simp
  ultimately show ?case
    using IH step(4-7) by (intro exI conjI) auto
qed

section \<open>Whole captures\<close>

text \<open>
  A capture: the writer is built, observes, and is closed; json, the hash and the options are
  as the caller has them.
\<close>

definition capture_file ::
    "(capture_header \<Rightarrow> bytes result) \<Rightarrow> (bytes \<Rightarrow> bytes) \<Rightarrow> capture_header \<Rightarrow> writer_option list \<Rightarrow>
     observation list \<Rightarrow> (capture_header \<times> bytes) option" where
  "capture_file marshal sha header options obs =
     (case new_capture_writer buffer_write marshal (Some []) header options of
        Inl e \<Rightarrow> None
      | Inr w \<Rightarrow> (case observe_all buffer_write sha obs w of
          (Some e, w1) \<Rightarrow> None
        | (None, w1) \<Rightarrow> (case capture_close buffer_write sha w1 of
            (Some e, w2) \<Rightarrow> None
          | (None, w2) \<Rightarrow> Some (cw_header w2, cw_sink w2))))"

lemma apply_writer_options_frame:
  "apply_writer_options xs w = Inr w' \<Longrightarrow>
   hd_frame_bytes (cw_header w') = hd_frame_bytes (cw_header w) \<and> cw_sink w' = cw_sink w \<and>
   cw_strings w' = cw_strings w \<and> cw_records w' = cw_records w \<and> cw_last w' = cw_last w \<and>
   cw_digest w' = cw_digest w \<and> cw_closed w' = cw_closed w"
proof (induction xs arbitrary: w)
  case (Cons x xs)
  then obtain w0 where w0: "apply_option x w = Inr w0" "apply_writer_options xs w0 = Inr w'"
    by (auto simp: result_simps)
  from Cons.IH [OF w0(2)] w0(1) show ?case
    by (cases x) (auto split: if_splits)
qed simp

lemma new_writer_state:
  assumes "new_capture_writer buffer_write marshal (Some []) header options = Inr w"
  shows "\<exists>encoded. marshal (cw_header w) = Inr encoded \<and> cw_sink w = header_prefix encoded @ encoded \<and>
     cw_strings w = [] \<and> cw_records w = 0 \<and> cw_last w = 0 \<and> cw_digest w = new_digester \<and>
     \<not> cw_closed w \<and> 0 < hd_frame_bytes (cw_header w) \<and>
     hd_frame_bytes (cw_header w) = hd_frame_bytes header"
proof -
  from assms obtain w0 encoded where
    "0 < hd_frame_bytes header"
    and w0: "apply_writer_options options
       \<lparr>cw_sink = [], cw_header = header\<lparr>hd_format := format_version,
          hd_redaction := redaction_enforced, hd_disclosure := []\<rparr>,
        cw_strings = [], cw_records = 0, cw_last = 0, cw_digest = new_digester,
        cw_closed = False, cw_disclosing = False\<rparr> = Inr w0"
    and "marshal (cw_header w0) = Inr encoded"
    and "w = w0\<lparr>cw_sink := cw_sink w0 @ header_prefix encoded @ encoded\<rparr>"
    by (auto simp: new_capture_writer_def write_header_def result_simps sink_write_def
        buffer_write_def split: if_splits)
  with apply_writer_options_frame [OF w0] show ?thesis by auto
qed

lemma length_header_prefix: "length (header_prefix encoded) = 14"
  by (simp add: header_prefix_def capture_magic_def)

lemma read_header_written:
  assumes "length encoded \<le> 2 ^ 20" and "unmarshal encoded = Some h" and "0 < hd_frame_bytes h"
  shows "read_header unmarshal (header_prefix encoded @ encoded @ rest) = Inr (h, rest)"
proof -
  have len: "unat (of_nat (length encoded) :: i32) = length encoded"
    "uint (of_nat (length encoded) :: i32) = int (length encoded)"
    using assms(1) by (simp_all add: unat_of_nat uint_nat)
  have prefix: "take 8 (header_prefix encoded) = capture_magic"
    "drop 8 (header_prefix encoded) = be_bytes 2 (word_of_int format_version :: 16 word) @
       be_bytes 4 (of_nat (length encoded) :: i32)"
    "drop 10 (header_prefix encoded) = be_bytes 4 (of_nat (length encoded) :: i32)"
    by (simp_all add: header_prefix_def capture_magic_def)
  have version: "uint (word_of_int format_version :: 16 word) = format_version"
    by (simp add: format_version_def)
  show ?thesis
    using assms
    by (simp add: read_header_def read_or_truncated_def length_header_prefix prefix
        be_word_be_bytes len version Let_def max_header_bytes_def)
qed

lemma read_header_cut:
  assumes "length encoded \<le> 2 ^ 20" and "k < 14 + length encoded"
  shows "read_header unmarshal (take k (header_prefix encoded @ encoded)) = Inl ErrTruncated"
proof (cases "k < 14")
  case True
  then have "read_full 14 (take k (header_prefix encoded @ encoded)) \<in> {Inl EOF, Inl UnexpectedEOF}"
    by (auto simp: read_full_def length_header_prefix)
  then show ?thesis by (auto simp: read_header_def read_or_truncated_def)
next
  case False
  then obtain j where j: "k = 14 + j" "j < length encoded"
    using assms(2) by (metis le_Suc_ex nat_add_left_cancel_less not_less)
  have cut: "take k (header_prefix encoded @ encoded) = header_prefix encoded @ take j encoded"
    using j by (simp add: length_header_prefix)
  have len: "unat (of_nat (length encoded) :: i32) = length encoded"
    "uint (of_nat (length encoded) :: i32) = int (length encoded)"
    using assms(1) by (simp_all add: unat_of_nat uint_nat)
  have prefix: "take 8 (header_prefix encoded) = capture_magic"
    "drop 8 (header_prefix encoded) = be_bytes 2 (word_of_int format_version :: 16 word) @
       be_bytes 4 (of_nat (length encoded) :: i32)"
    "drop 10 (header_prefix encoded) = be_bytes 4 (of_nat (length encoded) :: i32)"
    by (simp_all add: header_prefix_def capture_magic_def)
  have version: "uint (word_of_int format_version :: 16 word) = format_version"
    by (simp add: format_version_def)
  have "read_or_truncated (length encoded) (take j encoded) = Inl ErrTruncated"
    using j by (simp add: read_or_truncated_def read_full_def)
  then show ?thesis
    using assms(1) unfolding cut
    by (simp add: read_header_def read_or_truncated_def [of 14] length_header_prefix prefix
        be_word_be_bytes len version Let_def max_header_bytes_def)
qed

text \<open>The trailer a closed writer ends with.\<close>

definition final_trailer :: "(bytes \<Rightarrow> bytes) \<Rightarrow> observation list \<Rightarrow> capture_trailer" where
  "final_trailer sha obs = \<lparr>tr_records = of_nat (length obs),
     tr_last = (if obs = [] then 0 else ob_sequence (last obs)),
     tr_digest = digest_sum sha (foldl (digest_add sha) new_digester (map observed_record obs)),
     tr_algorithm = digest_version\<rparr>"

lemma length_hex_string: "length (hex_string bs) = 2 * length bs"
  by (induction bs) (simp_all add: hex_string_def)

lemma close_step:
  assumes "in_step w r" and "\<not> cw_closed w" and "length (rd_strings r) < 2 ^ 32 - 4"
    and "\<And>x. length (sha x) = 32"
  shows "\<exists>body l. capture_close buffer_write sha w = (None, w\<lparr>cw_closed := True,
       cw_strings := snd (trailer_body sha w), cw_sink := cw_sink w @ framed body\<rparr>) \<and>
     length body < 2 ^ 32 \<and> int (length body) \<le> max_record_bytes (rd_header r) \<and>
     capture_next (r\<lparr>rd_source := framed body @ rest\<rparr>) = (Inl ErrEndOfCapture,
       r\<lparr>rd_source := rest, rd_strings := l, rd_trailer := \<lparr>tr_records = cw_records w,
         tr_last = cw_last w, tr_digest = digest_sum sha (cw_digest w),
         tr_algorithm = digest_version\<rparr>, rd_complete := True, rd_done := True\<rparr>)"
proof -
  let ?d = "digest_sum sha (cw_digest w)"
  let ?body = "fst (trailer_body sha w)" and ?l = "learn (rd_strings r) ?d"
  have hdr: "rd_header r = cw_header w" "0 < hd_frame_bytes (cw_header w)"
    "hd_frame_bytes (cw_header w) < 2 ^ 31" "tables_agree (cw_strings w) (rd_strings r)"
    "\<not> rd_done r"
    using assms(1) by (auto simp: in_step_def)
  have d: "length ?d = 64"
    using assms(4) by (simp add: digest_sum_def length_hex_string)
  have table: "table_string (rd_strings r) (fst (append_string ?d (cw_strings w)) @ xs) =
      Inr (?d, xs, ?l)" for xs
    by (rule table_string_append [OF hdr(4)]) (use assms(3) d in auto)
  have small: "length ?body < 100"
    using length_append_string [of ?d "cw_strings w"] d by (simp add: trailer_body_def split_beta)
  then have size: "int (length ?body) \<le> max_record_bytes (rd_header r)" "length ?body < 2 ^ 32"
    using hdr(2,3) by (simp_all add: hdr(1) max_record_bytes_small)
  have version: "uint (word_of_int digest_version :: i32) = digest_version"
    by (simp add: digest_version_def)
  have "decode_record ?body (r\<lparr>rd_source := rest\<rparr>) = Inr (empty_record KindTrailer,
      r\<lparr>rd_source := rest, rd_strings := ?l, rd_trailer := \<lparr>tr_records = cw_records w,
        tr_last = cw_last w, tr_digest = ?d, tr_algorithm = digest_version\<rparr>\<rparr>)"
    by (simp add: trailer_body_def decode_record_def decode_trailer_def split_beta table version)
  then have "capture_next (r\<lparr>rd_source := framed ?body @ rest\<rparr>) = (Inl ErrEndOfCapture,
       r\<lparr>rd_source := rest, rd_strings := ?l, rd_trailer := \<lparr>tr_records = cw_records w,
         tr_last = cw_last w, tr_digest = ?d,
         tr_algorithm = digest_version\<rparr>, rd_complete := True, rd_done := True\<rparr>)"
    using next_framed [of "r\<lparr>rd_source := framed ?body @ rest\<rparr>" ?body rest] size hdr(5)
    by (simp add: empty_record_def)
  moreover have "capture_close buffer_write sha w = (None, w\<lparr>cw_closed := True,
       cw_strings := snd (trailer_body sha w), cw_sink := cw_sink w @ framed ?body\<rparr>)"
    using assms(2) by (simp add: capture_close_def split_beta)
  ultimately show ?thesis using size by blast
qed

definition fresh_reader :: "capture_header \<Rightarrow> bytes \<Rightarrow> capture_reader" where
  "fresh_reader h source = \<lparr>rd_source = source, rd_header = h, rd_strings = [],
     rd_trailer = no_trailer, rd_complete = False, rd_done = False\<rparr>"

lemma new_capture_reader_header:
  "read_header unmarshal bs = Inr (h, rest) \<Longrightarrow>
   new_capture_reader unmarshal (Some bs) = Inr (fresh_reader h rest)"
  by (simp add: new_capture_reader_def fresh_reader_def)

lemma capture_file_parts:
  assumes "capture_file marshal sha header options obs = Some (h, file)"
    and "list_all fits_record obs" and "length obs < 2 ^ 30 - 2"
    and "hd_frame_bytes header < 2 ^ 31" and "\<And>x. length (sha x) = 32"
  obtains encoded frames body l where "marshal h = Inr encoded" "0 < hd_frame_bytes h"
    "file = header_prefix encoded @ encoded @ frames @ framed body"
    "reads_run obs frames l (fresh_reader h [])"
    "length body < 2 ^ 32" "int (length body) \<le> max_record_bytes h"
    "\<exists>r. capture_next ((fresh_reader h [])\<lparr>rd_source := framed body, rd_strings := l\<rparr>) =
      (Inl ErrEndOfCapture, r) \<and> rd_complete r \<and> rd_trailer r = final_trailer sha obs"
proof -
  from assms(1) obtain w w1 w2 where
    w: "new_capture_writer buffer_write marshal (Some []) header options = Inr w"
    and run: "observe_all buffer_write sha obs w = (None, w1)"
    and close: "capture_close buffer_write sha w1 = (None, w2)"
    and h: "h = cw_header w2" "file = cw_sink w2"
    by (auto simp: capture_file_def split: sum.splits prod.splits option.splits)
  obtain encoded where new: "marshal (cw_header w) = Inr encoded"
    "cw_sink w = header_prefix encoded @ encoded" "cw_strings w = []" "cw_records w = 0"
    "cw_last w = 0" "cw_digest w = new_digester" "\<not> cw_closed w"
    "0 < hd_frame_bytes (cw_header w)" "hd_frame_bytes (cw_header w) = hd_frame_bytes header"
    using new_writer_state [OF w] by blast
  let ?r = "fresh_reader (cw_header w) []"
  have "in_step w ?r"
    using new assms(4) by (simp add: in_step_def fresh_reader_def)
  then obtain frames l where session: "cw_sink w1 = cw_sink w @ frames"
    "in_step w1 (?r\<lparr>rd_strings := l\<rparr>)" "length l \<le> 4 * length obs"
    "cw_digest w1 = foldl (digest_add sha) (cw_digest w) (map observed_record obs)"
    "cw_records w1 = cw_records w + of_nat (length obs)"
    "cw_last w1 = (if obs = [] then cw_last w else ob_sequence (last obs))"
    "cw_closed w1 = cw_closed w" "reads_run obs frames l ?r"
    using session_reads [OF run assms(2), of ?r] assms(3) by (auto simp: fresh_reader_def)
  have header: "cw_header w1 = cw_header w"
    using session(2) by (simp add: in_step_def fresh_reader_def)
  obtain body l' where closing: "capture_close buffer_write sha w1 = (None, w1\<lparr>cw_closed := True,
       cw_strings := snd (trailer_body sha w1), cw_sink := cw_sink w1 @ framed body\<rparr>)"
    "length body < 2 ^ 32" "int (length body) \<le> max_record_bytes (rd_header (?r\<lparr>rd_strings := l\<rparr>))"
    "capture_next (?r\<lparr>rd_strings := l, rd_source := framed body @ []\<rparr>) = (Inl ErrEndOfCapture,
       ?r\<lparr>rd_strings := l, rd_source := [], rd_strings := l', rd_trailer := \<lparr>tr_records = cw_records w1,
         tr_last = cw_last w1, tr_digest = digest_sum sha (cw_digest w1),
         tr_algorithm = digest_version\<rparr>, rd_complete := True, rd_done := True\<rparr>)"
    using close_step [where sha = sha and rest = "[]", OF session(2) _ _ assms(5)] session(3,7) new(7) assms(3) by auto
  show thesis
  proof (rule that [of encoded frames body l])
    show "marshal h = Inr encoded" "0 < hd_frame_bytes h"
      "file = header_prefix encoded @ encoded @ frames @ framed body"
      "int (length body) \<le> max_record_bytes h" "reads_run obs frames l (fresh_reader h [])"
      using closing(1,3) close h header new session by (auto simp: fresh_reader_def)
    show "\<exists>r. capture_next ((fresh_reader h [])\<lparr>rd_source := framed body, rd_strings := l\<rparr>) =
      (Inl ErrEndOfCapture, r) \<and> rd_complete r \<and> rd_trailer r = final_trailer sha obs"
      using closing(1,4) close h header new(4-6) session(4-6)
      by (simp add: reader_update_swap final_trailer_def)
  qed (rule closing(2))
qed

lemma capture_reads_back:
  assumes "capture_file marshal sha header options obs = Some (h, file)"
    and "\<And>encoded. marshal h = Inr encoded \<Longrightarrow> length encoded \<le> 2 ^ 20 \<and> unmarshal encoded = Some h"
    and "list_all fits_record obs" and "length obs < 2 ^ 30 - 2"
    and "hd_frame_bytes header < 2 ^ 31" and "\<And>x. length (sha x) = 32"
  shows "\<exists>r r'. new_capture_reader unmarshal (Some file) = Inr r \<and> rd_header r = h \<and>
     read_records (Suc (length obs)) r = (map observed_record obs, Some ErrEndOfCapture, r') \<and>
     rd_complete r' \<and> rd_trailer r' = final_trailer sha obs"
proof -
  obtain encoded frames body l where parts: "marshal h = Inr encoded" "0 < hd_frame_bytes h"
    "file = header_prefix encoded @ encoded @ frames @ framed body"
    "reads_run obs frames l (fresh_reader h [])"
    "\<exists>r. capture_next ((fresh_reader h [])\<lparr>rd_source := framed body, rd_strings := l\<rparr>) =
      (Inl ErrEndOfCapture, r) \<and> rd_complete r \<and> rd_trailer r = final_trailer sha obs"
    by (rule capture_file_parts [OF assms(1,3,4,5), of thesis]) (use assms(6) in auto)
  have "new_capture_reader unmarshal (Some file) = Inr (fresh_reader h (frames @ framed body))"
    using assms(2) [OF parts(1)] parts(2)
    by (intro new_capture_reader_header) (simp add: parts(3) read_header_written)
  moreover have "fresh_reader h (frames @ framed body) =
      (fresh_reader h [])\<lparr>rd_source := frames @ framed body\<rparr>"
    by (simp add: fresh_reader_def)
  ultimately show ?thesis
    using parts(4) [unfolded reads_run_def, THEN conjunct1, rule_format, of 1 "framed body"] parts(5)
    by (auto simp: fresh_reader_def)
qed


lemma stops_at_file:
  assumes "reads_run obs frames l (fresh_reader h [])" and "length body < 2 ^ 32"
    and "int (length body) \<le> max_record_bytes h" and "j < length (frames @ framed body)"
  shows "stops_at (Suc (length obs))
     ((fresh_reader h [])\<lparr>rd_source := take j (frames @ framed body)\<rparr>) (map observed_record obs)"
proof (cases "j < length frames")
  case True
  then show ?thesis
    using assms(1) [unfolded reads_run_def, THEN conjunct2, rule_format, of j 1] by simp
next
  case False
  let ?f = "fresh_reader h []" and ?s = "take (j - length frames) (framed body)"
  let ?e = "if j - length frames = 0 then ErrEndOfCapture else ErrTruncated"
  have "capture_next (?f\<lparr>rd_source := ?s, rd_strings := l\<rparr>) =
      (Inl ?e, ?f\<lparr>rd_source := ?s, rd_strings := l, rd_done := True\<rparr>)"
    using next_cut [of "?f\<lparr>rd_source := ?s, rd_strings := l\<rparr>" "j - length frames" body] assms False
    by (simp add: fresh_reader_def)
  moreover have "take j (frames @ framed body) = frames @ ?s"
    using False by simp
  ultimately have "read_records (Suc (length obs)) (?f\<lparr>rd_source := take j (frames @ framed body)\<rparr>) =
      (take (length obs) (map observed_record obs), Some ?e,
       ?f\<lparr>rd_source := ?s, rd_strings := l, rd_done := True\<rparr>)"
    using assms(1) [unfolded reads_run_def, THEN conjunct1, rule_format, of 1 ?s] by simp
  then show ?thesis
    unfolding stops_at_def by (intro exI conjI) (assumption, simp_all add: fresh_reader_def)
qed

text \<open>
  Every prefix of a capture is readable. Cut the file at any byte before its end: inside the
  header the reader reports \<open>ErrTruncated\<close>; after it the reader delivers some of the observed
  records, in order and unchanged, and then reports the end of the capture or \<open>ErrTruncated\<close>,
  never a corrupt or oversized record, and never claims that the capture is complete.
\<close>

theorem capture_truncated:
  assumes "capture_file marshal sha header options obs = Some (h, file)"
    and "\<And>encoded. marshal h = Inr encoded \<Longrightarrow> length encoded \<le> 2 ^ 20 \<and> unmarshal encoded = Some h"
    and "list_all fits_record obs" and "length obs < 2 ^ 30 - 2"
    and "hd_frame_bytes header < 2 ^ 31" and "\<And>x. length (sha x) = 32"
    and "k < length file"
  shows "new_capture_reader unmarshal (Some (take k file)) = Inl ErrTruncated \<or>
     (\<exists>r r' j e. new_capture_reader unmarshal (Some (take k file)) = Inr r \<and> rd_header r = h \<and>
       read_records (Suc (length obs)) r = (take j (map observed_record obs), Some e, r') \<and>
       e \<in> {ErrEndOfCapture, ErrTruncated} \<and> \<not> rd_complete r')"
proof -
  obtain encoded frames body l where parts: "marshal h = Inr encoded" "0 < hd_frame_bytes h"
    "file = header_prefix encoded @ encoded @ frames @ framed body"
    "reads_run obs frames l (fresh_reader h [])"
    "length body < 2 ^ 32" "int (length body) \<le> max_record_bytes h"
    by (rule capture_file_parts [OF assms(1,3,4,5), of thesis]) (use assms(6) in auto)
  note json = assms(2) [OF parts(1)]
  show ?thesis
  proof (cases "k < 14 + length encoded")
    case True
    then have "take k file = take k (header_prefix encoded @ encoded)"
      by (simp add: parts(3) length_header_prefix)
    then show ?thesis
      using read_header_cut [OF conjunct1 [OF json] True] by (simp add: new_capture_reader_def)
  next
    case False
    then obtain j where j: "k = 14 + length encoded + j" by (metis le_Suc_ex not_less)
    let ?f = "fresh_reader h []"
    have cut: "take k file = header_prefix encoded @ encoded @ take j (frames @ framed body)"
      by (simp add: parts(3) j length_header_prefix)
    have r: "new_capture_reader unmarshal (Some (take k file)) =
        Inr (?f\<lparr>rd_source := take j (frames @ framed body)\<rparr>)"
      using json parts(2) unfolding cut
      by (subst new_capture_reader_header [OF read_header_written]) (auto simp: fresh_reader_def)
    have "stops_at (Suc (length obs)) (?f\<lparr>rd_source := take j (frames @ framed body)\<rparr>)
        (map observed_record obs)"
      using assms(7) j by (intro stops_at_file [OF parts(4-6)]) (simp add: parts(3) length_header_prefix)
    then show ?thesis using r by (auto simp: stops_at_def fresh_reader_def)
  qed
qed

text \<open>A capture of one secret marker and one packet, with a JSON codec that knows one header.\<close>

definition sample_header :: capture_header where
  "sample_header = \<lparr>hd_format = 1, hd_protocol = [0x6A], hd_role = [], hd_redaction = redaction_enforced,
     hd_disclosure = [], hd_frame_bytes = 100, hd_decompressed_bytes = 100, hd_created = [],
     hd_note = []\<rparr>"

definition sample_packet :: observation where
  "sample_packet = \<lparr>ob_sequence = 2, ob_frame = 1, ob_direction = 1, ob_stage = ObservationPacket,
     ob_elapsed = 5, ob_before = [0x70], ob_after = [0x70], ob_packet = Some (3, [0x6E]),
     ob_bytes = [1, 2, 3], ob_redacted = False, ob_original_len = 3, ob_secret = None,
     ob_rejected = None\<rparr>"

definition sample_secret :: observation where
  "sample_secret = \<lparr>ob_sequence = 1, ob_frame = 0, ob_direction = 1, ob_stage = ObservationSecret,
     ob_elapsed = 4, ob_before = [0x6C], ob_after = [0x70], ob_packet = None,
     ob_bytes = [], ob_redacted = True, ob_original_len = 0, ob_secret = Some [0x6B],
     ob_rejected = None\<rparr>"

lemma sample_capture:
  "\<exists>file. capture_file (\<lambda>_. Inr [0x7B]) (\<lambda>_. replicate 32 0) sample_header []
     [sample_secret, sample_packet] = Some (sample_header, file) \<and> 0 < length file"
  by (simp add: capture_file_def new_capture_writer_def write_header_def sink_write_def
      buffer_write_def capture_observe_def capture_close_def split_beta sample_header_def
      format_version_def sample_secret_def sample_packet_def)

lemma sample_fits: "list_all fits_record [sample_secret, sample_packet]"
  by (simp add: fits_record_def fits_format_def record_strings_def extra_strings_def
      sample_secret_def sample_packet_def secret_label_def packet_name_def)


theorem capture_truncated_witness:
  "\<exists>file. capture_file (\<lambda>_. Inr [0x7B]) (\<lambda>_. replicate 32 0) sample_header []
       [sample_secret, sample_packet] = Some (sample_header, file) \<and>
     (new_capture_reader (\<lambda>_. Some sample_header) (Some (take 0 file)) = Inl ErrTruncated \<or>
      (\<exists>r. new_capture_reader (\<lambda>_. Some sample_header) (Some (take 0 file)) = Inr r))"
proof -
  obtain bs where bs: "capture_file (\<lambda>_. Inr [0x7B]) (\<lambda>_. replicate 32 0) sample_header []
     [sample_secret, sample_packet] = Some (sample_header, bs)" "0 < length bs"
    using sample_capture by blast
  have "hd_frame_bytes sample_header < 2 ^ 31" by (simp add: sample_header_def)
  from capture_truncated [where unmarshal = "\<lambda>_. Some sample_header",
      OF bs(1) _ sample_fits _ this _ bs(2)] bs
  show ?thesis by auto
qed

section \<open>Damage and hostile input\<close>

lemma next_bad_checksum:
  assumes "\<not> rd_done r" and "c \<noteq> checksum body"
    and "rd_source r = be_bytes 4 (of_nat (length body) :: i32) @ body @ be_bytes 4 c @ rest"
    and "int (length body) \<le> max_record_bytes (rd_header r)" and "length body < 2 ^ 32"
  shows "capture_next r = (Inl ErrCorruptRecord, r\<lparr>rd_done := True\<rparr>)"
proof -
  have len: "unat (of_nat (length body) :: i32) = length body"
    "uint (of_nat (length body) :: i32) = int (length body)"
    using assms(5) by (simp_all add: unat_of_nat uint_nat)
  with assms(1,2,4) show ?thesis
    by (simp add: capture_next_def assms(3) read_or_truncated_def be_word_be_bytes Let_def)
qed

text \<open>
  A record in which one byte of the body was replaced is refused with \<open>ErrCorruptRecord\<close>,
  whatever the byte, its place and the record, and the reader stops there.
\<close>

theorem damaged_record:
  assumes "\<not> rd_done r" and "b \<noteq> b'"
    and "rd_source r = be_bytes 4 (of_nat (length (xs @ b # ys)) :: i32) @ (xs @ b' # ys) @
      be_bytes 4 (checksum (xs @ b # ys)) @ rest"
    and "int (length (xs @ b # ys)) \<le> max_record_bytes (rd_header r)"
    and "length (xs @ b # ys) < 2 ^ 32"
  shows "capture_next r = (Inl ErrCorruptRecord, r\<lparr>rd_done := True\<rparr>)"
proof (rule next_bad_checksum [OF assms(1)])
  show "checksum (xs @ b # ys) \<noteq> checksum (xs @ b' # ys)"
    using assms(2) by (simp add: checksum_one_byte)
  show "rd_source r = be_bytes 4 (of_nat (length (xs @ b' # ys)) :: i32) @ (xs @ b' # ys) @
      be_bytes 4 (checksum (xs @ b # ys)) @ rest"
    using assms(3) by simp
qed (use assms(4,5) in simp_all)

theorem damaged_record_witness:
  "fst (capture_next (fresh_reader sample_header
     (be_bytes 4 (of_nat 3 :: i32) @ [1, 9, 3] @ be_bytes 4 (checksum [1, 2, 3])))) = Inl ErrCorruptRecord"
  using damaged_record [of "fresh_reader sample_header
     (be_bytes 4 (of_nat 3 :: i32) @ [1, 9, 3] @ be_bytes 4 (checksum [1, 2, 3]))" 2 9 "[1]" "[3]" "[]"]
  by (simp add: fresh_reader_def sample_header_def max_record_bytes_small)

lemma cursor_errors:
  "cursor_take n c = Inl e \<Longrightarrow> e = ErrCorruptRecord"
  "cursor_uint8 c = Inl e \<Longrightarrow> e = ErrCorruptRecord"
  "cursor_uint32 c = Inl e \<Longrightarrow> e = ErrCorruptRecord"
  "cursor_uint64 c = Inl e \<Longrightarrow> e = ErrCorruptRecord"
  by (auto simp: cursor_uint8_def cursor_uint32_def cursor_uint64_def cursor_take_def bindR_Inl_iff
      split: if_splits)

lemma table_string_error: "table_string t c = Inl e \<Longrightarrow> e = ErrCorruptRecord"
  by (auto simp: table_string_def bindR_Inl_iff Let_def dest: cursor_errors split: if_splits)

lemma decode_extra_error: "decode_extra kind r c t = Inl e \<Longrightarrow> e = ErrCorruptRecord"
  by (auto simp: decode_extra_def bindR_Inl_iff dest: cursor_errors table_string_error
      split: option.splits capture_kind.splits)

lemma decode_trailer_error: "decode_trailer c r = Inl e \<Longrightarrow> e = ErrCorruptRecord"
  by (auto simp: decode_trailer_def bindR_Inl_iff dest: cursor_errors table_string_error)

lemma decode_record_error: "decode_record c r = Inl e \<Longrightarrow> e = ErrCorruptRecord"
  by (auto simp: decode_record_def bindR_Inl_iff
      dest: cursor_errors table_string_error decode_extra_error decode_trailer_error split: if_splits)

lemma cursor_lengths:
  "cursor_take n c = Inr (x, c') \<Longrightarrow> length c' \<le> length c \<and> length x \<le> length c"
  "cursor_uint8 c = Inr (b, c') \<Longrightarrow> length c' \<le> length c"
  "cursor_uint32 c = Inr (v, c') \<Longrightarrow> length c' \<le> length c"
  "cursor_uint64 c = Inr (u, c') \<Longrightarrow> length c' \<le> length c"
  by (auto simp: cursor_uint8_def cursor_uint32_def cursor_uint64_def cursor_take_def result_simps
      split: if_splits)

lemma table_string_length: "table_string t c = Inr (x, c', t') \<Longrightarrow> length c' \<le> length c"
  by (auto simp: table_string_def result_simps Let_def dest!: cursor_lengths split: if_splits)

lemma decode_extra_length: "decode_extra kind r c t = Inr (r', c', t') \<Longrightarrow> length c' \<le> length c"
  by (auto simp: decode_extra_def result_simps dest!: cursor_lengths table_string_length
      split: option.splits capture_kind.splits)

lemma decode_trailer_frame:
  "decode_trailer c r = Inr (record, r') \<Longrightarrow> cr_payload record = [] \<and>
   rd_source r' = rd_source r \<and> rd_header r' = rd_header r \<and> rd_done r' = rd_done r"
  by (auto simp: decode_trailer_def result_simps empty_record_def)

lemma decode_record_frame:
  assumes "decode_record body r = Inr (record, r')"
  shows "length (cr_payload record) \<le> length body \<and> rd_source r' = rd_source r \<and>
    rd_header r' = rd_header r \<and> rd_done r' = rd_done r"
proof -
  obtain kind c where c: "cursor_uint8 body = Inr (kind, c)"
    using assms by (auto simp: decode_record_def result_simps)
  show ?thesis
  proof (cases "kind = 0")
    case True
    with assms c show ?thesis by (auto simp: decode_record_def dest!: decode_trailer_frame)
  next
    case False
    with assms c show ?thesis
      by (auto simp: decode_record_def result_simps dest!: cursor_lengths table_string_length
          decode_extra_length)
  qed
qed

lemma read_or_truncated_Inl: "read_or_truncated n bs = Inl e \<Longrightarrow> e = ErrTruncated"
  by (auto simp: read_or_truncated_def read_full_def split: if_splits)

lemma read_or_truncated_Inr:
  "read_or_truncated n bs = Inr (x, rest) \<longleftrightarrow> bs = x @ rest \<and> length x = n"
  by (auto simp: read_or_truncated_def result_simps split: sum.splits)

lemma read_full_errors: "read_full n bs = Inl e \<Longrightarrow> e = EOF \<or> e = UnexpectedEOF"
  by (auto simp: read_full_def split: if_splits)

text \<open>Every call of \<open>Next\<close>, on any bytes.\<close>

lemma capture_next_fails:
  assumes "capture_next r = (Inl e, r')"
  shows "rd_done r' \<and> e \<in> {ErrEndOfCapture, ErrTruncated, ErrRecordTooLarge, ErrCorruptRecord}"
  using assms
  by (auto simp: capture_next_def Let_def split: if_splits sum.splits prod.splits
      dest: read_full_errors read_or_truncated_Inl decode_record_error)

lemma capture_next_parts:
  assumes "capture_next r = (Inr q, r')"
  obtains lb s1 body s2 check s3 where "rd_source r = lb @ s1" "length lb = 4"
    "s1 = body @ s2" "length body = unat (be_word lb :: i32)" "s2 = check @ s3" "length check = 4"
    "uint (be_word lb :: i32) \<le> max_record_bytes (rd_header r)"
    "decode_record body (r\<lparr>rd_source := s3\<rparr>) = Inr (q, r')" "cr_kind q \<noteq> KindTrailer"
proof -
  have undone: "\<not> rd_done r" using assms by (auto simp: capture_next_def)
  obtain lb s1 where 1: "read_full 4 (rd_source r) = Inr (lb, s1)"
    using assms undone by (cases "read_full 4 (rd_source r)") (auto simp: capture_next_def)
  have 2: "uint (be_word lb :: i32) \<le> max_record_bytes (rd_header r)"
    using assms undone 1 by (intro leI notI) (simp add: capture_next_def)
  obtain body s2 where 3: "read_or_truncated (unat (be_word lb :: i32)) s1 = Inr (body, s2)"
    using assms undone 1 2
    by (cases "read_or_truncated (unat (be_word lb :: i32)) s1") (auto simp: capture_next_def Let_def)
  obtain check s3 where 4: "read_or_truncated 4 s2 = Inr (check, s3)"
    using assms undone 1 2 3 by (cases "read_or_truncated 4 s2") (auto simp: capture_next_def Let_def)
  obtain q' r0 where 5: "decode_record body (r\<lparr>rd_source := s3\<rparr>) = Inr (q', r0)"
    using assms undone 1 2 3 4 by (cases "decode_record body (r\<lparr>rd_source := s3\<rparr>)")
      (auto simp: capture_next_def Let_def split: if_splits)
  have "q' = q \<and> r0 = r' \<and> cr_kind q \<noteq> KindTrailer"
    using assms undone 1 2 3 4 5 by (auto simp: capture_next_def Let_def split: if_splits)
  with 1 2 3 4 5 show thesis
    by (intro that [of lb s1 body s2 check s3]) (simp_all add: read_full_Inr_iff read_or_truncated_Inr)
qed

lemma capture_next_delivers:
  assumes "capture_next r = (Inr q, r')"
  shows "length (rd_source r') + 8 \<le> length (rd_source r) \<and> rd_header r' = rd_header r \<and>
     cr_kind q \<noteq> KindTrailer \<and>
     int (length (cr_payload q)) \<le> max_record_bytes (rd_header r)"
proof -
  obtain lb s1 body s2 check s3 where parts: "rd_source r = lb @ s1" "length lb = 4"
    "s1 = body @ s2" "length body = unat (be_word lb :: i32)" "s2 = check @ s3" "length check = 4"
    "uint (be_word lb :: i32) \<le> max_record_bytes (rd_header r)"
    "decode_record body (r\<lparr>rd_source := s3\<rparr>) = Inr (q, r')" "cr_kind q \<noteq> KindTrailer"
    by (rule capture_next_parts [OF assms])
  have "length (rd_source r) = 8 + length body + length s3"
    using parts(2,6) by (simp add: parts(1,3,5))
  moreover have "int (length body) \<le> max_record_bytes (rd_header r)"
    using parts(4,7) by simp
  ultimately show ?thesis
    using decode_record_frame [OF parts(8)] parts(9) by simp
qed

lemma read_records_total:
  assumes "length (rd_source r) < 8 * n"
  shows "\<exists>rs e r'. read_records n r = (rs, Some e, r') \<and>
     e \<in> {ErrEndOfCapture, ErrTruncated, ErrRecordTooLarge, ErrCorruptRecord} \<and> rd_done r' \<and>
     8 * length rs \<le> length (rd_source r) \<and>
     (\<forall>record \<in> set rs. int (length (cr_payload record)) \<le> max_record_bytes (rd_header r))"
  using assms
proof (induction n arbitrary: r)
  case (Suc n)
  show ?case
  proof (cases "capture_next r")
    case (Pair res r0)
    show ?thesis
    proof (cases res)
      case (Inl e)
      with Pair capture_next_fails [of r e r0] show ?thesis by auto
    next
      case (Inr q)
      note step = capture_next_delivers [OF Pair [unfolded Inr]]
      obtain rs e r' where rec: "read_records n r0 = (rs, Some e, r')"
        "e \<in> {ErrEndOfCapture, ErrTruncated, ErrRecordTooLarge, ErrCorruptRecord}" "rd_done r'"
        "8 * length rs \<le> length (rd_source r0)"
        "\<forall>record \<in> set rs. int (length (cr_payload record)) \<le> max_record_bytes (rd_header r0)"
        using Suc.IH [of r0] Suc.prems step by auto
      then have "read_records (Suc n) r = (q # rs, Some e, r')"
        using Pair Inr by simp
      with rec step show ?thesis by auto
    qed
  qed
qed simp

text \<open>
  Reading ends on every input. Whatever bytes follow a header, at most one call of \<open>Next\<close>
  per eight bytes returns a record; then \<open>Next\<close> fails with the end of the capture or one of the
  three errors of the format, and from then on every call says that the capture has ended. No
  payload is larger than the limit the header declares.
\<close>

theorem capture_reader_total:
  "\<exists>rs e r'. read_records (Suc (length (rd_source r) div 8)) r = (rs, Some e, r') \<and>
     e \<in> {ErrEndOfCapture, ErrTruncated, ErrRecordTooLarge, ErrCorruptRecord} \<and>
     8 * length rs \<le> length (rd_source r) \<and>
     list_all (\<lambda>record. int (length (cr_payload record)) \<le> max_record_bytes (rd_header r)) rs \<and>
     capture_next r' = (Inl ErrEndOfCapture, r')"
proof -
  have "length (rd_source r) < 8 * Suc (length (rd_source r) div 8)" by presburger
  from read_records_total [OF this] show ?thesis
    by (force simp: list_all_iff capture_next_def)
qed

section \<open>What the writer refuses\<close>


text \<open>What every call of the writer leaves alone, whatever the sink does.\<close>

lemma sink_writes_frame:
  "sink_writes wr ds w = (e, w') \<Longrightarrow> cw_header w' = cw_header w \<and> cw_disclosing w' = cw_disclosing w"
proof (induction ds arbitrary: w)
  case (Cons d ds)
  then show ?case
    by (auto simp: sink_write_def split: prod.splits option.splits)
qed simp

lemma write_record_frame:
  "write_record wr body w = (e, w') \<Longrightarrow>
   cw_header w' = cw_header w \<and> cw_disclosing w' = cw_disclosing w"
  unfolding write_record_def by (rule sink_writes_frame)

lemma capture_observe_frame:
  "capture_observe wr sha ob w = (e, w') \<Longrightarrow>
   cw_header w' = cw_header w \<and> cw_disclosing w' = cw_disclosing w"
  by (auto simp: capture_observe_def split: if_splits option.splits prod.splits
      dest!: write_record_frame)

lemma observe_all_frame:
  "observe_all wr sha obs w = (e, w') \<Longrightarrow>
   cw_header w' = cw_header w \<and> cw_disclosing w' = cw_disclosing w"
proof (induction obs arbitrary: w)
  case (Cons ob obs)
  obtain x w0 where step: "capture_observe wr sha ob w = (x, w0)"
    by (cases "capture_observe wr sha ob w")
  from Cons capture_observe_frame [OF step] step show ?case
    by (cases x) auto
qed simp

definition disclosure_ok :: "writer_option list \<Rightarrow> 'w capture_writer \<Rightarrow> bool" where
  "disclosure_ok options w \<longleftrightarrow> (cw_disclosing w \<longrightarrow> hd_disclosure (cw_header w) \<noteq> [] \<and>
     WithDisclosure (hd_disclosure (cw_header w)) \<in> set options \<and>
     hd_redaction (cw_header w) = redaction_disclosed)"

lemma apply_writer_options_disclosure:
  assumes "apply_writer_options xs w = Inr w'" and "disclosure_ok options w" and "set xs \<subseteq> set options"
  shows "disclosure_ok options w'"
  using assms
proof (induction xs arbitrary: w)
  case (Cons x xs)
  then obtain w0 where w0: "apply_option x w = Inr w0" "apply_writer_options xs w0 = Inr w'"
    by (auto simp: result_simps)
  have "disclosure_ok options w0"
    using w0(1) Cons.prems(2,3) by (cases x) (auto simp: disclosure_ok_def split: if_splits)
  with Cons.IH [OF w0(2)] Cons.prems(3) show ?case by simp
qed simp

lemma write_header_Inr:
  assumes "write_header wr marshal w0 = Inr w"
  shows "\<exists>encoded. sink_writes wr [header_prefix encoded, encoded] w0 = (None, w)"
proof -
  obtain encoded where "marshal (cw_header w0) = Inr encoded"
    using assms by (cases "marshal (cw_header w0)") (auto simp: write_header_def)
  moreover obtain x w' where "sink_writes wr [header_prefix encoded, encoded] w0 = (x, w')"
    by (rule prod.exhaust)
  ultimately show ?thesis
    using assms by (cases x) (auto simp: write_header_def simp del: sink_writes.simps)
qed

lemma new_writer_disclosure:
  assumes "new_capture_writer wr marshal (Some sink) header options = Inr w"
  shows "disclosure_ok options w"
proof -
  from assms obtain w0 where
    "apply_writer_options options
       \<lparr>cw_sink = sink, cw_header = header\<lparr>hd_format := format_version,
          hd_redaction := redaction_enforced, hd_disclosure := []\<rparr>,
        cw_strings = [], cw_records = 0, cw_last = 0, cw_digest = new_digester,
        cw_closed = False, cw_disclosing = False\<rparr> = Inr w0"
    and wrote: "write_header wr marshal w0 = Inr w"
    by (auto simp: new_capture_writer_def result_simps split: if_splits)
  from this(1) have "disclosure_ok options w0"
    by (rule apply_writer_options_disclosure) (simp_all add: disclosure_ok_def)
  moreover have "cw_header w = cw_header w0 \<and> cw_disclosing w = cw_disclosing w0"
    using write_header_Inr [OF wrote] sink_writes_frame by blast
  ultimately show ?thesis by (simp add: disclosure_ok_def)
qed

text \<open>
  A disclosed key needs a stated reason. Over any sink, a writer that has accepted an
  unredacted secret was built with \<open>WithDisclosure\<close> and a non-empty reason, and the header at the
  start of the file says \<open>disclosed\<close> and carries one of the reasons given.
\<close>

theorem disclosure_stated:
  assumes "new_capture_writer wr marshal (Some sink) header options = Inr w"
    and "observe_all wr sha obs w = (None, w1)"
    and "capture_observe wr sha ob w1 = (None, w2)"
    and "ob_stage ob = ObservationSecret" and "\<not> ob_redacted ob"
  shows "\<exists>reason. reason \<noteq> [] \<and> WithDisclosure reason \<in> set options \<and>
     hd_disclosure (cw_header w) = reason \<and> hd_redaction (cw_header w) = redaction_disclosed"
proof -
  have "cw_disclosing w1"
    using assms(3-5) by (auto simp: capture_observe_def split: if_splits)
  then have "cw_disclosing w"
    using observe_all_frame [OF assms(2)] by simp
  with new_writer_disclosure [OF assms(1)] show ?thesis
    by (auto simp: disclosure_ok_def)
qed

theorem disclosure_stated_witness:
  "\<exists>w. new_capture_writer buffer_write (\<lambda>_. Inr [0x7B]) (Some []) sample_header
       [WithDisclosure [0x72]] = Inr w \<and> hd_disclosure (cw_header w) \<noteq> []"
proof -
  let ?w = "\<lparr>cw_sink = header_prefix [0x7B] @ [0x7B],
     cw_header = sample_header\<lparr>hd_redaction := redaction_disclosed, hd_disclosure := [0x72]\<rparr>,
     cw_strings = [], cw_records = 0, cw_last = 0, cw_digest = new_digester, cw_closed = False,
     cw_disclosing = True\<rparr>"
  have w: "new_capture_writer buffer_write (\<lambda>_. Inr [0x7B]) (Some []) sample_header
      [WithDisclosure [0x72]] = Inr ?w"
    by (simp add: new_capture_writer_def write_header_def sink_write_def buffer_write_def
        sample_header_def format_version_def)
  let ?ob = "sample_secret\<lparr>ob_redacted := False\<rparr>"
  obtain w2 where "capture_observe buffer_write (\<lambda>_. []) ?ob ?w = (None, w2)"
    by (simp add: capture_observe_def split_beta sample_secret_def sample_header_def)
  from disclosure_stated [OF w observe_all.simps(1) this] w show ?thesis
    by (auto simp: sample_secret_def)
qed

end
