(* ===== verification/History_Ring.thy ===== *)
theory History_Ring
  imports Capture_Format
begin

text \<open>
  history/ring.go: the ring of the most recent observations, bounded by count and by bytes, and
  capture/multi_sink.go: several sinks as one. What the ring keeps is shown to be the longest
  suffix of everything observed that fits its bounds.
\<close>

section \<open>The ring\<close>

record ring =
  rg_records :: "observation list"
  rg_bytes :: int
  rg_max_records :: int
  rg_max_bytes :: int
  rg_dropped :: i64

definition new_ring :: "int \<Rightarrow> int \<Rightarrow> ring result" where
  "new_ring max_records max_bytes =
     (if max_records \<le> 0 then Inl ErrInvalidRing
      else if max_bytes \<le> 0 then Inl ErrInvalidRing
      else Inr \<lparr>rg_records = [], rg_bytes = 0, rg_max_records = max_records,
        rg_max_bytes = max_bytes, rg_dropped = 0\<rparr>)"

text \<open>The eviction loop. Its guard keeps it from running on an empty list.\<close>

function evict :: "int \<Rightarrow> int \<Rightarrow> observation list \<Rightarrow> int \<Rightarrow> i64 \<Rightarrow> observation list \<times> int \<times> i64" where
  "evict max_records max_bytes rs held dropped =
     (if rs \<noteq> [] \<and> (max_records < int (length rs) \<or> max_bytes < held \<and> 1 < length rs)
      then evict max_records max_bytes (tl rs) (held - int (length (ob_bytes (hd rs)))) (dropped + 1)
      else (rs, held, dropped))"
  by pat_completeness auto
termination
  by (relation "measure (\<lambda>(_, _, rs, _, _). length rs)") auto

declare evict.simps [simp del]

definition ring_observe :: "observation \<Rightarrow> ring \<Rightarrow> ring" where
  "ring_observe ob r =
     (case evict (rg_max_records r) (rg_max_bytes r) (rg_records r @ [ob])
         (rg_bytes r + int (length (ob_bytes ob))) (rg_dropped r) of
       (rs, held, dropped) \<Rightarrow> r\<lparr>rg_records := rs, rg_bytes := held, rg_dropped := dropped\<rparr>)"

definition ring_snapshot :: "ring \<Rightarrow> observation list" where
  "ring_snapshot r = rg_records r"

definition ring_dropped :: "ring \<Rightarrow> i64" where
  "ring_dropped r = rg_dropped r"

definition ring_len :: "ring \<Rightarrow> nat" where
  "ring_len r = length (rg_records r)"

section \<open>What the ring keeps\<close>

definition total_bytes :: "observation list \<Rightarrow> int" where
  "total_bytes rs = (\<Sum>r\<leftarrow>rs. int (length (ob_bytes r)))"

lemma total_bytes_simps [simp]:
  "total_bytes [] = 0"
  "total_bytes (r # rs) = int (length (ob_bytes r)) + total_bytes rs"
  "total_bytes (rs @ ss) = total_bytes rs + total_bytes ss"
  by (simp_all add: total_bytes_def)

lemma total_bytes_nonneg: "0 \<le> total_bytes rs"
  by (induction rs) auto

definition ring_fits :: "int \<Rightarrow> int \<Rightarrow> observation list \<Rightarrow> bool" where
  "ring_fits max_records max_bytes rs \<longleftrightarrow>
     int (length rs) \<le> max_records \<and> (total_bytes rs \<le> max_bytes \<or> length rs \<le> 1)"

lemma ring_fits_prefix: "ring_fits m b (rs @ [r]) \<Longrightarrow> ring_fits m b rs"
  using total_bytes_nonneg [of "[r]"] by (auto simp: ring_fits_def)

text \<open>The number of records to leave out, by search from none; at the end nothing is left.\<close>

fun excess :: "int \<Rightarrow> int \<Rightarrow> observation list \<Rightarrow> nat" where
  "excess m b [] = 0"
| "excess m b (r # rs) = (if ring_fits m b (r # rs) then 0 else Suc (excess m b rs))"

lemma excess_fits: "0 < m \<Longrightarrow> ring_fits m b (drop (excess m b rs) rs)"
  by (induction rs) (auto simp: ring_fits_def)

lemma excess_least: "k < excess m b rs \<Longrightarrow> \<not> ring_fits m b (drop k rs)"
  by (induction rs arbitrary: k) (auto simp: less_Suc_eq_0_disj split: if_splits)

lemma excess_le: "excess m b rs \<le> length rs"
  by (induction rs) auto

lemma excess_unique:
  assumes "ring_fits m b (drop k rs)" and "\<And>j. j < k \<Longrightarrow> \<not> ring_fits m b (drop j rs)" and "0 < m"
  shows "excess m b rs = k"
  using assms(1,2) excess_fits [OF assms(3)] excess_least by (meson linorder_neqE_nat)

lemma evict_excess:
  assumes "0 < m"
  shows "evict m b rs (total_bytes rs) d =
     (drop (excess m b rs) rs, total_bytes (drop (excess m b rs) rs), d + of_nat (excess m b rs))"
  using assms
proof (induction rs arbitrary: d)
  case (Cons r rs)
  then show ?case
    by (cases "ring_fits m b (r # rs)")
      (auto simp: evict.simps [of _ _ "r # rs"] ring_fits_def algebra_simps)
qed (simp add: evict.simps)

text \<open>A ring after a run of observations.\<close>

definition ring_run :: "ring \<Rightarrow> observation list \<Rightarrow> ring" where
  "ring_run r obs = fold ring_observe obs r"

lemma excess_snoc:
  assumes "0 < m"
  shows "excess m b (rs @ [r]) = excess m b rs + excess m b (drop (excess m b rs) rs @ [r])"
proof (rule excess_unique [OF _ _ assms])
  let ?k = "excess m b rs" and ?j = "excess m b (drop (excess m b rs) rs @ [r])"
  have cut: "drop (?k + i) (rs @ [r]) = drop i (drop ?k rs @ [r])" for i
    using excess_le [of m b rs] by (simp add: drop_append add.commute flip: drop_drop)
  show "ring_fits m b (drop (?k + ?j) (rs @ [r]))"
    unfolding cut by (rule excess_fits [OF assms])
  fix i assume i: "i < ?k + ?j"
  show "\<not> ring_fits m b (drop i (rs @ [r]))"
  proof (cases "i < ?k")
    case True
    then have "drop i (rs @ [r]) = drop i rs @ [r]" using excess_le [of m b rs] by simp
    then show ?thesis using excess_least [OF True] ring_fits_prefix by metis
  next
    case False
    then obtain l where "i = ?k + l" "l < ?j" using i by (metis le_Suc_ex nat_add_left_cancel_less not_less)
    then show ?thesis by (simp only: cut) (rule excess_least)
  qed
qed

lemma drop_excess_snoc:
  assumes "0 < m"
  shows "drop (excess m b (rs @ [r])) (rs @ [r]) =
     drop (excess m b (drop (excess m b rs) rs @ [r])) (drop (excess m b rs) rs @ [r])"
proof -
  let ?k = "excess m b rs"
  have "drop (?k + j) (rs @ [r]) = drop j (drop ?k (rs @ [r]))" for j
    by (metis drop_drop add.commute)
  moreover have "drop ?k (rs @ [r]) = drop ?k rs @ [r]"
    using excess_le [of m b rs] by simp
  ultimately show ?thesis by (simp only: excess_snoc [OF assms, of b rs r])
qed

text \<open>The state of a ring that has kept the suffix behind the excess of \<open>obs\<close>.\<close>

definition ring_after :: "int \<Rightarrow> int \<Rightarrow> observation list \<Rightarrow> ring" where
  "ring_after m b obs = \<lparr>rg_records = drop (excess m b obs) obs,
     rg_bytes = total_bytes (drop (excess m b obs) obs), rg_max_records = m, rg_max_bytes = b,
     rg_dropped = of_nat (excess m b obs)\<rparr>"

lemma ring_observe_after:
  assumes "0 < m"
  shows "ring_observe ob (ring_after m b obs) = ring_after m b (obs @ [ob])"
proof -
  let ?rs = "drop (excess m b obs) obs"
  have "total_bytes ?rs + int (length (ob_bytes ob)) = total_bytes (?rs @ [ob])" by simp
  then have "ring_observe ob (ring_after m b obs) = \<lparr>rg_records = drop (excess m b (?rs @ [ob])) (?rs @ [ob]),
      rg_bytes = total_bytes (drop (excess m b (?rs @ [ob])) (?rs @ [ob])), rg_max_records = m,
      rg_max_bytes = b, rg_dropped = of_nat (excess m b obs) + of_nat (excess m b (?rs @ [ob]))\<rparr>"
    using evict_excess [OF assms, of b "?rs @ [ob]" "of_nat (excess m b obs)"]
    by (simp add: ring_observe_def ring_after_def)
  also have "\<dots> = ring_after m b (obs @ [ob])"
    using excess_snoc [OF assms, of b obs ob, THEN arg_cong [where f = "of_nat :: nat \<Rightarrow> i64"]]
    by (simp only: ring_after_def drop_excess_snoc [OF assms, of b obs ob] of_nat_add)
  finally show ?thesis .
qed

lemma ring_run_state:
  assumes "new_ring m b = Inr r"
  shows "ring_run r obs = ring_after m b obs"
proof (induction obs rule: rev_induct)
  case Nil
  from assms show ?case by (auto simp: ring_run_def new_ring_def ring_after_def split: if_splits)
next
  case (snoc ob obs)
  have "0 < m" using assms by (auto simp: new_ring_def split: if_splits)
  with snoc show ?case by (simp add: ring_run_def ring_observe_after)
qed

text \<open>
  C29: A ring holds the longest suffix of everything it was shown that fits both of its bounds,
  where a single record larger than the byte bound is kept alone. Its byte count is the sum over
  what it holds, and what it dropped and what it holds are everything it was shown.
\<close>

theorem ring_longest_suffix:
  assumes "new_ring m b = Inr r"
  shows "\<exists>k \<le> length obs. ring_snapshot (ring_run r obs) = drop k obs \<and> ring_fits m b (drop k obs) \<and>
     (\<forall>j < k. \<not> ring_fits m b (drop j obs)) \<and>
     rg_bytes (ring_run r obs) = total_bytes (drop k obs) \<and>
     ring_dropped (ring_run r obs) = of_nat k \<and> ring_len (ring_run r obs) + k = length obs"
proof -
  have "0 < m" using assms by (auto simp: new_ring_def split: if_splits)
  then show ?thesis
    using excess_le [of m b obs] excess_fits [of m b obs] excess_least [of _ m b obs]
    by (intro exI [of _ "excess m b obs"])
      (auto simp: ring_run_state [OF assms] ring_after_def ring_snapshot_def ring_dropped_def ring_len_def)
qed

definition sized :: "nat \<Rightarrow> observation" where
  "sized n = \<lparr>ob_sequence = 1, ob_frame = 1, ob_direction = 1, ob_stage = ObservationRawFrame,
     ob_elapsed = 0, ob_before = [], ob_after = [], ob_packet = None, ob_bytes = replicate n 0,
     ob_redacted = False, ob_original_len = 0, ob_secret = None, ob_rejected = None\<rparr>"

theorem ring_longest_suffix_witness:
  "\<exists>r k. new_ring 3 10 = Inr r \<and>
     ring_snapshot (ring_run r [sized 4, sized 5, sized 20]) = drop k [sized 4, sized 5, sized 20] \<and>
     ring_fits 3 10 (drop k [sized 4, sized 5, sized 20])"
proof -
  have "new_ring 3 10 = Inr \<lparr>rg_records = [], rg_bytes = 0, rg_max_records = 3, rg_max_bytes = 10,
      rg_dropped = 0\<rparr>" by (simp add: new_ring_def)
  from ring_longest_suffix [OF this, of "[sized 4, sized 5, sized 20]"] this show ?thesis by blast
qed

section \<open>Several sinks\<close>

text \<open>A sink is a function on its state; \<open>MultiSink\<close> calls each in turn until one fails.\<close>

type_synonym 's sink = "observation \<Rightarrow> 's \<Rightarrow> wire_error option \<times> 's"

definition multi_sink :: "'s sink option list \<Rightarrow> 's sink list result" where
  "multi_sink sinks =
     (if sinks = [] \<or> None \<in> set sinks then Inl ErrInvalidCapture else Inr (map the sinks))"

fun multi_observe :: "'s sink list \<Rightarrow> 's sink" where
  "multi_observe [] ob s = (None, s)"
| "multi_observe (k # ks) ob s = (case k ob s of
     (Some e, s') \<Rightarrow> (Some e, s')
   | (None, s') \<Rightarrow> multi_observe ks ob s')"

lemma multi_observe_append:
  "multi_observe (ks @ ls) ob s = (case multi_observe ks ob s of
     (Some e, s') \<Rightarrow> (Some e, s')
   | (None, s') \<Rightarrow> multi_observe ls ob s')"
  by (induction ks arbitrary: s) (auto split: prod.splits option.splits)

end
