(* ===== verification/Packet_Router.thy ===== *)
theory Packet_Router
  imports Wire_Prelude
begin

text \<open>
  middleware/middleware.go and router/router.go: chains of wrappers around a packet handler, and
  the dispatch of packets by state, direction and ID.

  A payload is a Go slice that a handler may write to, so it is an address into a store of byte
  arrays; \<open>bytes.Clone\<close> makes a new cell. A handler takes a packet and the world (the store and
  whatever else it works on) and returns an error or none and the world after it. \<open>Value\<close> and
  the context passed through are left to the world.
\<close>

section \<open>Packets, handlers and the store\<close>

type_synonym gostr = "byte list"

record packet =
  pk_state :: gostr
  pk_direction :: byte
  pk_id :: i32
  pk_name :: gostr
  pk_payload :: "nat option"

record 's world =
  cells :: "bytes list"
  user :: 's

type_synonym 's handler = "packet \<Rightarrow> 's world \<Rightarrow> wire_error option \<times> 's world"

text \<open>A wrapper; it may return nothing where Go returns nil. A sender has the same shape.\<close>

type_synonym 's wrapper = "'s handler \<Rightarrow> 's handler option"

definition clone_payload :: "packet \<Rightarrow> 's world \<Rightarrow> packet \<times> 's world" where
  "clone_payload p w = (case pk_payload p of
     None \<Rightarrow> (p, w)
   | Some a \<Rightarrow> (p\<lparr>pk_payload := Some (length (cells w))\<rparr>, w\<lparr>cells := cells w @ [cells w ! a]\<rparr>))"

definition owning :: "'s handler \<Rightarrow> 's handler" where
  "owning h p w = (case clone_payload p w of (p', w') \<Rightarrow> h p' w')"

text \<open>The fold from the last wrapper to the first.\<close>

fun wrap_all :: "'s handler \<Rightarrow> 's wrapper option list \<Rightarrow> 's handler result" where
  "wrap_all base [] = Inr base"
| "wrap_all base (m # ms) = bindR (wrap_all base ms) (\<lambda>chain. case m of
     None \<Rightarrow> Inl ErrInvalidChain
   | Some wrap \<Rightarrow> (case wrap chain of None \<Rightarrow> Inl ErrInvalidChain | Some h \<Rightarrow> Inr h))"

definition chain_receive :: "'s handler option \<Rightarrow> 's wrapper option list \<Rightarrow> 's handler result" where
  "chain_receive base ms = (case base of
     None \<Rightarrow> Inl ErrInvalidChain
   | Some h \<Rightarrow> if ms = [] then Inr h else bindR (wrap_all h ms) (\<lambda>chain. Inr (owning chain)))"

definition chain_send :: "'s handler option \<Rightarrow> 's wrapper option list \<Rightarrow> 's handler result" where
  "chain_send base ms = (case base of
     None \<Rightarrow> Inl ErrInvalidChain
   | Some h \<Rightarrow> if ms = [] then Inr h else bindR (wrap_all h ms) (\<lambda>chain. Inr (owning chain)))"

section \<open>The ownership rule\<close>

text \<open>
  What the package asks of a handler: it writes at most to the payload it was given and to cells
  it allocated itself.
\<close>

definition respects_payload :: "'s handler \<Rightarrow> bool" where
  "respects_payload h \<longleftrightarrow> (\<forall>p w e w'. h p w = (e, w') \<longrightarrow>
     length (cells w) \<le> length (cells w') \<and>
     (\<forall>a < length (cells w). pk_payload p \<noteq> Some a \<longrightarrow> cells w' ! a = cells w ! a))"

lemma owning_preserves:
  assumes "respects_payload h" and "owning h p w = (e, w')"
    and "case pk_payload p of None \<Rightarrow> True | Some a \<Rightarrow> a < length (cells w)"
  shows "take (length (cells w)) (cells w') = cells w"
proof -
  obtain p' v where clone: "clone_payload p w = (p', v)" by (cases "clone_payload p w")
  with assms(2) have run: "h p' v = (e, w')" by (simp add: owning_def)
  have v: "length (cells w) \<le> length (cells v)" "\<forall>a < length (cells w). cells v ! a = cells w ! a"
    "\<forall>a < length (cells w). pk_payload p' \<noteq> Some a"
    using clone by (auto simp: clone_payload_def nth_append split: option.splits)
  have "length (cells v) \<le> length (cells w')"
    and "\<forall>a < length (cells v). pk_payload p' \<noteq> Some a \<longrightarrow> cells w' ! a = cells v ! a"
    using assms(1) run by (auto simp: respects_payload_def)
  with v show ?thesis by (intro nth_equalityI) auto
qed

text \<open>Wrappers given as functions that always return a handler, as every wrapper in use does.\<close>

definition total_wrappers :: "('s handler \<Rightarrow> 's handler) list \<Rightarrow> 's wrapper option list" where
  "total_wrappers fs = map (\<lambda>f. Some (\<lambda>h. Some (f h))) fs"

lemma wrap_all_total: "wrap_all base (total_wrappers fs) = Inr (foldr (\<lambda>f h. f h) fs base)"
  by (induction fs) (simp_all add: total_wrappers_def)

lemma respects_foldr:
  assumes "respects_payload base" and "\<And>f h. f \<in> set fs \<Longrightarrow> respects_payload h \<Longrightarrow> respects_payload (f h)"
  shows "respects_payload (foldr (\<lambda>f h. f h) fs base)"
  using assms by (induction fs) auto

text \<open>
  C27: A chain never writes to the caller's payload. With at least one wrapper, wrappers that keep
  the rule that a handler writes only to its own packet's payload, and a base that keeps it: the
  chain is built, the first wrapper is the outermost, and after handling a packet every array
  that existed before the call is as it was, the caller's payload included.
\<close>

theorem chain_owns_payload:
  assumes "fs \<noteq> []" and "respects_payload base"
    and "\<And>f h. f \<in> set fs \<Longrightarrow> respects_payload h \<Longrightarrow> respects_payload (f h)"
    and "pk_payload p = Some a" and "a < length (cells w)"
  shows "\<exists>chain. chain_receive (Some base) (total_wrappers fs) = Inr chain \<and>
     chain = owning (foldr (\<lambda>f h. f h) fs base) \<and>
     take (length (cells w)) (cells (snd (chain p w))) = cells w"
proof -
  let ?h = "foldr (\<lambda>f h. f h) fs base"
  have "chain_receive (Some base) (total_wrappers fs) = Inr (owning ?h)"
    using assms(1) by (simp add: chain_receive_def wrap_all_total) (simp add: total_wrappers_def)
  moreover have "take (length (cells w)) (cells (snd (owning ?h p w))) = cells w"
    by (rule owning_preserves [of ?h p w "fst (owning ?h p w)"])
      (use assms(4,5) respects_foldr [of base fs] assms(2,3) in auto)
  ultimately show ?thesis by blast
qed

text \<open>A handler that overwrites its payload and a wrapper that does so before it calls on.\<close>

definition scribble :: "unit handler" where
  "scribble p w = (None, case pk_payload p of None \<Rightarrow> w | Some a \<Rightarrow> w\<lparr>cells := (cells w)[a := [0]]\<rparr>)"

definition scribble_first :: "unit handler \<Rightarrow> unit handler" where
  "scribble_first h p w = h p (snd (scribble p w))"

lemma respects_scribble: "respects_payload scribble"
  by (auto simp: respects_payload_def scribble_def split: option.splits)

lemma respects_scribble_first:
  assumes "respects_payload h"
  shows "respects_payload (scribble_first h)"
  unfolding respects_payload_def
proof (intro allI impI)
  fix p :: packet and w w' :: "unit world" and e
  assume "scribble_first h p w = (e, w')"
  then have run: "h p (snd (scribble p w)) = (e, w')" by (simp add: scribble_first_def)
  have first: "length (cells (snd (scribble p w))) = length (cells w)"
    "a < length (cells w) \<Longrightarrow> pk_payload p \<noteq> Some a \<Longrightarrow> cells (snd (scribble p w)) ! a = cells w ! a" for a
    by (auto simp: scribble_def split: option.splits)
  with assms [unfolded respects_payload_def, rule_format, OF run]
  show "length (cells w) \<le> length (cells w') \<and>
      (\<forall>a < length (cells w). pk_payload p \<noteq> Some a \<longrightarrow> cells w' ! a = cells w ! a)"
    by simp
qed

theorem chain_owns_payload_witness:
  "\<exists>chain. chain_receive (Some scribble) (total_wrappers [scribble_first]) = Inr chain \<and>
     take 1 (cells (snd (chain \<lparr>pk_state = [], pk_direction = 1, pk_id = 0, pk_name = [],
       pk_payload = Some 0\<rparr> \<lparr>cells = [[1, 2]], user = ()\<rparr>))) = [[1, 2]]"
  using chain_owns_payload [of "[scribble_first]" scribble "\<lparr>pk_state = [], pk_direction = 1,
      pk_id = 0, pk_name = [], pk_payload = Some 0\<rparr>" 0 "\<lparr>cells = [[1, 2]], user = ()\<rparr>"]
  by (auto simp: respects_scribble respects_scribble_first)

section \<open>The router\<close>

text \<open>
  The handler table is keyed by state, direction and ID. \<open>rt_names\<close> is what a protocol that can
  name its packets offers; the protocol is not under the router. The wrappers are functions, so
  the chain \<open>New\<close> builds once is built again from the router where it is used.
\<close>

type_synonym packet_key = "gostr \<times> byte \<times> i32"

record 's router =
  rt_names :: "(gostr \<Rightarrow> byte \<Rightarrow> gostr \<Rightarrow> i32 option) option"
  rt_middleware :: "'s wrapper option list"
  rt_handlers :: "packet_key \<Rightarrow> 's handler list option"
  rt_fallback :: "'s handler option"
  rt_running :: bool

datatype 's router_option = WithReceiveMiddleware "'s wrapper option list" | NilRouterOption

fun apply_router_options :: "'s router_option list \<Rightarrow> 's router \<Rightarrow> 's router result" where
  "apply_router_options [] r = Inr r"
| "apply_router_options (NilRouterOption # xs) r = Inl ErrInvalidRouter"
| "apply_router_options (WithReceiveMiddleware ms # xs) r =
     (if None \<in> set ms then Inl ErrInvalidRouter
      else apply_router_options xs (r\<lparr>rt_middleware := rt_middleware r @ ms\<rparr>))"

definition key_of :: "packet \<Rightarrow> packet_key" where
  "key_of p = (pk_state p, pk_direction p, pk_id p)"

text \<open>The error of a handler, wrapped; the packet's name only enters the message.\<close>

definition wrap_error :: "wire_error option \<Rightarrow> wire_error option" where
  "wrap_error e = map_option ErrHandler e"

fun run_handlers :: "'s handler list \<Rightarrow> 's handler" where
  "run_handlers [] p w = (None, w)"
| "run_handlers (h # hs) p w = (case h p w of
     (Some e, w') \<Rightarrow> (wrap_error (Some e), w')
   | (None, w') \<Rightarrow> run_handlers hs p w')"

definition router_dispatch :: "'s router \<Rightarrow> 's handler" where
  "router_dispatch r p w = (case rt_handlers r (key_of p) of
     None \<Rightarrow> (case rt_fallback r of
         None \<Rightarrow> (None, w)
       | Some h \<Rightarrow> (case h p w of (e, w') \<Rightarrow> (wrap_error e, w')))
   | Some hs \<Rightarrow> run_handlers hs p w)"

definition new_router ::
    "(gostr \<Rightarrow> byte \<Rightarrow> gostr \<Rightarrow> i32 option) option option \<Rightarrow> 's router_option list \<Rightarrow> 's router result" where
  "new_router descriptor options = (case descriptor of
     None \<Rightarrow> Inl ErrInvalidRouter
   | Some names \<Rightarrow>
       bindR (apply_router_options options
         \<lparr>rt_names = names, rt_middleware = [], rt_handlers = (\<lambda>_. None), rt_fallback = None,
          rt_running = False\<rparr>) (\<lambda>made.
       bindR (chain_receive (Some (router_dispatch made)) (rt_middleware made)) (\<lambda>chain. Inr made)))"

definition handle_id :: "packet_key \<Rightarrow> 's handler option \<Rightarrow> 's router \<Rightarrow> 's router result" where
  "handle_id key handler r = (case handler of
     None \<Rightarrow> Inl ErrInvalidRouter
   | Some h \<Rightarrow>
       if rt_running r then Inl ErrRunning
       else Inr (r\<lparr>rt_handlers := (rt_handlers r)
         (key := Some ((case rt_handlers r key of None \<Rightarrow> [] | Some hs \<Rightarrow> hs) @ [h]))\<rparr>))"

definition handle_name :: "gostr \<Rightarrow> byte \<Rightarrow> gostr \<Rightarrow> 's handler option \<Rightarrow> 's router \<Rightarrow> 's router result" where
  "handle_name state direction name handler r = (case rt_names r of
     None \<Rightarrow> Inl ErrInvalidRouter
   | Some packet_id \<Rightarrow> (case packet_id state direction name of
       None \<Rightarrow> Inl ErrUnknownPacket
     | Some i \<Rightarrow> handle_id (state, direction, i) handler r))"

definition set_fallback :: "'s handler option \<Rightarrow> 's router \<Rightarrow> 's router result" where
  "set_fallback handler r = (case handler of
     None \<Rightarrow> Inl ErrInvalidRouter
   | Some h \<Rightarrow> if rt_running r then Inl ErrRunning else Inr (r\<lparr>rt_fallback := Some h\<rparr>))"

definition dispatch_packet :: "'s router \<Rightarrow> 's handler" where
  "dispatch_packet r p w = (case chain_receive (Some (router_dispatch r)) (rt_middleware r) of
     Inl e \<Rightarrow> (Some e, w)
   | Inr chain \<Rightarrow> chain p w)"

section \<open>The receive loop\<close>

text \<open>
  What one turn of the loop meets: a context that is done, a packet, or a receiver that fails.
  With no event left the loop is waiting for the receiver, which is the value \<open>None\<close>.
\<close>

datatype run_event = CtxDone wire_error | Received packet | ReceiveFailed wire_error

definition is_eof :: "wire_error \<Rightarrow> bool" where
  "is_eof e \<longleftrightarrow> root_cause e = EOF"

fun run_loop :: "'s handler \<Rightarrow> run_event list \<Rightarrow> 's world \<Rightarrow> (wire_error option \<times> 's world) option" where
  "run_loop chain [] w = None"
| "run_loop chain (CtxDone e # evs) w = Some (Some e, w)"
| "run_loop chain (ReceiveFailed e # evs) w = Some (if is_eof e then None else Some e, w)"
| "run_loop chain (Received p # evs) w = (case chain p w of
     (Some e, w') \<Rightarrow> Some (Some e, w')
   | (None, w') \<Rightarrow> run_loop chain evs w')"

definition router_run ::
    "bool \<Rightarrow> run_event list \<Rightarrow> 's router \<Rightarrow> 's world \<Rightarrow> (wire_error option \<times> 's world) option \<times> 's router" where
  "router_run has_receiver evs r w =
     (if \<not> has_receiver then (Some (Some ErrInvalidRouter, w), r)
      else let r' = r\<lparr>rt_running := True\<rparr> in (run_loop (dispatch_packet r') evs w, r'))"

section \<open>Properties\<close>

text \<open>A sequence of registrations, each of which succeeds while the router does not run.\<close>

fun register_all :: "(packet_key \<times> 's handler) list \<Rightarrow> 's router \<Rightarrow> 's router result" where
  "register_all [] r = Inr r"
| "register_all ((k, h) # regs) r = bindR (handle_id k (Some h) r) (register_all regs)"

definition registered_for :: "packet_key \<Rightarrow> (packet_key \<times> 's handler) list \<Rightarrow> 's handler list" where
  "registered_for k regs = map snd (filter (\<lambda>reg. fst reg = k) regs)"

lemma register_all_table:
  assumes "\<not> rt_running r"
  shows "\<exists>r'. register_all regs r = Inr r' \<and> rt_middleware r' = rt_middleware r \<and>
     rt_fallback r' = rt_fallback r \<and> rt_running r' = rt_running r \<and>
     (\<forall>k. rt_handlers r' k = (if registered_for k regs = [] then rt_handlers r k
        else Some ((case rt_handlers r k of None \<Rightarrow> [] | Some hs \<Rightarrow> hs) @ registered_for k regs)))"
  using assms
proof (induction regs arbitrary: r)
  case Nil
  then show ?case by (simp add: registered_for_def)
next
  case (Cons reg regs)
  obtain k h where reg: "reg = (k, h)" by (cases reg)
  let ?r = "r\<lparr>rt_handlers := (rt_handlers r)
      (k := Some ((case rt_handlers r k of None \<Rightarrow> [] | Some hs \<Rightarrow> hs) @ [h]))\<rparr>"
  have step: "register_all (reg # regs) r = register_all regs ?r"
    using Cons.prems reg by (simp add: handle_id_def)
  from Cons.IH [of ?r] Cons.prems obtain r' where r': "register_all regs ?r = Inr r'"
    "rt_middleware r' = rt_middleware r" "rt_fallback r' = rt_fallback r" "rt_running r' = rt_running r"
    and table: "\<forall>q. rt_handlers r' q = (if registered_for q regs = [] then rt_handlers ?r q
        else Some ((case rt_handlers ?r q of None \<Rightarrow> [] | Some hs \<Rightarrow> hs) @ registered_for q regs))"
    by auto
  have "rt_handlers r' q = (if registered_for q (reg # regs) = [] then rt_handlers r q
      else Some ((case rt_handlers r q of None \<Rightarrow> [] | Some hs \<Rightarrow> hs) @ registered_for q (reg # regs)))" for q
    using table [rule_format, of q] by (cases "k = q") (simp_all add: reg registered_for_def)
  with r' show ?case unfolding step by blast
qed

text \<open>
  A packet reaches exactly the handlers registered for its state, direction and ID. After any
  sequence of registrations on a fresh router, dispatch runs those handlers in the order of their
  registration, each on the world the previous one left, up to the first that fails, whose error
  it returns wrapped; a packet nobody registered for goes to the fallback, or nowhere.
\<close>

theorem dispatch_registered:
  assumes "new_router (Some names) options = Inr r"
  shows "\<exists>r'. register_all regs r = Inr r' \<and>
     (let hs = registered_for (key_of p) regs in
        router_dispatch r' p w = (if hs = [] then (None, w) else run_handlers hs p w)) \<and>
     (case set_fallback (Some h) r' of Inl e \<Rightarrow> False | Inr r'' \<Rightarrow>
        registered_for (key_of p) regs = [] \<longrightarrow>
          router_dispatch r'' p w = (case h p w of (e, w') \<Rightarrow> (wrap_error e, w')))"
proof -
  have fresh: "apply_router_options options q = Inr q' \<Longrightarrow>
      rt_running q' = rt_running q \<and> rt_handlers q' = rt_handlers q \<and> rt_fallback q' = rt_fallback q"
    for q q' :: "'a router"
    by (induction options q rule: apply_router_options.induct) (auto split: if_splits)
  have r: "\<not> rt_running r" "rt_handlers r = (\<lambda>_. None)" "rt_fallback r = None"
    using assms by (auto simp: new_router_def result_simps dest!: fresh)
  from register_all_table [OF r(1), of regs] obtain r' where r': "register_all regs r = Inr r'"
    "rt_fallback r' = None" "\<not> rt_running r'"
    "\<And>k. rt_handlers r' k = (if registered_for k regs = [] then None else Some (registered_for k regs))"
    using r by auto
  then show ?thesis
    by (intro exI [of _ r']) (auto simp: router_dispatch_def set_fallback_def Let_def)
qed

theorem dispatch_registered_witness:
  "\<exists>(r :: unit router) r'. new_router (Some None) [] = Inr r \<and>
     register_all [(([], 1, 0), scribble)] r = Inr r'"
proof -
  have "new_router (Some None) [] = Inr (\<lparr>rt_names = None, rt_middleware = [],
      rt_handlers = (\<lambda>_. None), rt_fallback = None, rt_running = False\<rparr> :: unit router)"
    by (simp add: new_router_def chain_receive_def)
  from dispatch_registered [OF this, of "[(([], 1, 0), scribble)]"] this show ?thesis by blast
qed

text \<open>A list of packets handled one after the other, none of which failed.\<close>

fun handles_all :: "'s handler \<Rightarrow> packet list \<Rightarrow> 's world \<Rightarrow> 's world option" where
  "handles_all chain [] w = Some w"
| "handles_all chain (p # ps) w = (case chain p w of (Some e, w') \<Rightarrow> None | (None, w') \<Rightarrow> handles_all chain ps w')"

lemma run_loop_clean:
  "run_loop chain evs w = Some (None, w') \<longleftrightarrow>
   (\<exists>ps e rest. evs = map Received ps @ ReceiveFailed e # rest \<and> is_eof e \<and>
      handles_all chain ps w = Some w')"
proof (induction chain evs w rule: run_loop.induct)
  case (4 chain p evs w)
  obtain e v where step: "chain p w = (e, v)" by (cases "chain p w")
  show ?case
  proof (cases e)
    case None
    then have IH: "run_loop chain evs v = Some (None, w') \<longleftrightarrow>
        (\<exists>ps x rest. evs = map Received ps @ ReceiveFailed x # rest \<and> is_eof x \<and>
          handles_all chain ps v = Some w')"
      using 4 step by simp
    have "(\<exists>ps x rest. Received p # evs = map Received ps @ ReceiveFailed x # rest \<and> is_eof x \<and>
          handles_all chain ps w = Some w') \<longleftrightarrow>
        (\<exists>ps x rest. evs = map Received ps @ ReceiveFailed x # rest \<and> is_eof x \<and>
          handles_all chain (p # ps) w = Some w')" (is "?l \<longleftrightarrow> ?r")
    proof
      assume ?l
      then obtain ps x rest where 1: "Received p # evs = map Received ps @ ReceiveFailed x # rest"
        "is_eof x" "handles_all chain ps w = Some w'" by blast
      then obtain qs where "ps = p # qs" "evs = map Received qs @ ReceiveFailed x # rest"
        by (cases ps) auto
      with 1 show ?r by blast
    next
      assume ?r
      then obtain ps x rest where 1: "evs = map Received ps @ ReceiveFailed x # rest" "is_eof x"
        "handles_all chain (p # ps) w = Some w'" by blast
      then have "Received p # evs = map Received (p # ps) @ ReceiveFailed x # rest" by simp
      with 1(2,3) show ?l by blast
    qed
    with IH None step show ?thesis by simp
  next
    case (Some a)
    with step show ?thesis by (auto simp: Cons_eq_append_conv Cons_eq_map_conv)
  qed
next
  case (3 chain e evs w)
  have "\<exists>ps x rest. ReceiveFailed e # evs = map Received ps @ ReceiveFailed x # rest \<and> is_eof x \<and>
      handles_all chain ps w' = Some w'" if "is_eof e"
    using that by (intro exI [of _ "[]"] exI [of _ e] exI [of _ evs]) simp
  then show ?case by (auto simp: Cons_eq_append_conv Cons_eq_map_conv)
qed (auto simp: Cons_eq_append_conv)

text \<open>
  \<open>Run\<close> returns nil exactly on a clean end of the stream: the receiver delivered some packets,
  every one of them was dispatched without an error, in order, and then it failed with an error
  that is EOF. From its start on no handler and no fallback can be registered.
\<close>

theorem run_clean_end:
  "(fst (router_run True evs r w) = Some (None, w') \<longleftrightarrow>
     (\<exists>ps e rest. evs = map Received ps @ ReceiveFailed e # rest \<and> is_eof e \<and>
        handles_all (dispatch_packet (r\<lparr>rt_running := True\<rparr>)) ps w = Some w')) \<and>
   handle_id key (Some h) (snd (router_run True evs r w)) = Inl ErrRunning \<and>
   set_fallback (Some h) (snd (router_run True evs r w)) = Inl ErrRunning"
proof -
  show ?thesis
    by (simp add: router_run_def Let_def handle_id_def set_fallback_def run_loop_clean)
qed

end
