(* ===== verification/Wire_Chunk.thy ===== *)
theory Wire_Chunk
  imports Wire_Fields
begin

text \<open>
  wire/java/chunk: the chunk columns of protocols 47 and 775. A column is the list of its bytes;
  the cursor \<open>reader\<close> is the list of the bytes it has not passed. The Go functions wrap errors
  twice (\<open>ErrSection\<close> over \<open>ErrColumn\<close> over the VarInt reader's); the outermost is kept.
\<close>

section \<open>The cursor\<close>

definition blocks_per_section :: nat where "blocks_per_section = 16 * 16 * 16"

record chunk_section =
  sec_y :: int
  sec_blocks :: bytes
  sec_biomes :: bytes
  sec_block_count :: "16 word"
  sec_fluid_count :: "16 word"

definition chunk_byte :: "bytes \<Rightarrow> (byte \<times> bytes) result" where
  "chunk_byte r = (case r of [] \<Rightarrow> Inl ErrColumn | b # rest \<Rightarrow> Inr (b, rest))"

definition chunk_short :: "bytes \<Rightarrow> (16 word \<times> bytes) result" where
  "chunk_short r = (case r of a # b # rest \<Rightarrow> Inr (push_bit 8 (ucast a) OR ucast b, rest)
     | _ \<Rightarrow> Inl ErrColumn)"

definition chunk_varint :: "bytes \<Rightarrow> (i32 \<times> bytes) result" where
  "chunk_varint r = (case read_varint r of
     Inl e \<Rightarrow> Inl ErrColumn
   | Inr (v, n, rest) \<Rightarrow> Inr (v, rest))"

definition chunk_take :: "int \<Rightarrow> bytes \<Rightarrow> (bytes \<times> bytes) result" where
  "chunk_take n r = (if n < 0 \<or> int (length r) < n then Inl ErrColumn
     else Inr (take (nat n) r, drop (nat n) r))"

lemma chunk_take_Inr [result_simps]:
  "chunk_take n r = Inr (x, rest) \<longleftrightarrow> r = x @ rest \<and> n = int (length x)"
  by (auto simp: chunk_take_def)

lemma chunk_take_append [simp]: "chunk_take (int (length x)) (x @ rest) = Inr (x, rest)"
  by (simp add: chunk_take_def)

lemma chunk_byte_Inr [result_simps]: "chunk_byte r = Inr (b, rest) \<longleftrightarrow> r = b # rest"
  by (auto simp: chunk_byte_def split: list.splits)

lemma chunk_byte_Cons [simp]: "chunk_byte (b # rest) = Inr (b, rest)"
  by (simp add: chunk_byte_def)

section \<open>Parsers that look at nothing beyond what they consume\<close>

locale prefix_parser =
  fixes parse :: "bytes \<Rightarrow> ('a \<times> bytes) result"
  assumes extend: "parse c = Inr (v, []) \<Longrightarrow> parse (c @ rest) = Inr (v, rest)"
    and consumed: "parse r = Inr (v, rest) \<Longrightarrow> \<exists>c. r = c @ rest \<and> parse c = Inr (v, [])"
begin

lemma parse_iff: "parse r = Inr (v, rest) \<longleftrightarrow> (\<exists>c. r = c @ rest \<and> parse c = Inr (v, []))"
  using extend consumed by blast

lemma parse_append: "parse r = Inr (v, rest) \<Longrightarrow> parse (r @ x) = Inr (v, rest @ x)"
  using consumed [of r v rest] by (auto simp: extend)

lemma parse_drop: "parse (c @ rest) = Inr (v, rest) \<Longrightarrow> parse c = Inr (v, [])"
  using consumed [of "c @ rest" v rest] by auto

lemma decode_n_append:
  "decode_n parse n r = Inr (vs, rest) \<Longrightarrow> decode_n parse n (r @ x) = Inr (vs, rest @ x)"
proof (induction n arbitrary: r vs)
  case (Suc n)
  then obtain v us r1 where "parse r = Inr (v, r1)" "decode_n parse n r1 = Inr (us, rest)" "vs = v # us"
    by (auto simp: result_simps)
  with parse_append [of r v r1 x] Suc.IH [of r1 us] show ?case by simp
qed simp

lemma decode_n_consumed:
  "decode_n parse n r = Inr (vs, rest) \<Longrightarrow> \<exists>c. r = c @ rest \<and> decode_n parse n c = Inr (vs, [])"
proof (induction n arbitrary: r vs)
  case (Suc n)
  then obtain v us r1 where v: "parse r = Inr (v, r1)" and us: "decode_n parse n r1 = Inr (us, rest)"
    and vs: "vs = v # us"
    by (auto simp: result_simps)
  obtain c1 where c1: "r = c1 @ r1" "parse c1 = Inr (v, [])" using consumed [OF v] by blast
  obtain c2 where c2: "r1 = c2 @ rest" "decode_n parse n c2 = Inr (us, [])"
    using Suc.IH [OF us] by blast
  have "decode_n parse (Suc n) (c1 @ c2) = Inr (vs, [])"
    using extend [OF c1(2), of c2] c2(2) vs by simp
  with c1 c2 show ?case by auto
qed simp

lemma decode_n_parser: "prefix_parser (decode_n parse n)"
  by unfold_locales (auto dest: decode_n_append decode_n_consumed)

end

lemma bind_parser:
  assumes "prefix_parser p" and "\<And>v. prefix_parser (q v)"
  shows "prefix_parser (\<lambda>r. bindR (p r) (\<lambda>(v, r). q v r))"
proof
  fix c w rest assume "bindR (p c) (\<lambda>(v, r). q v r) = Inr (w, [])"
  then obtain v r where 1: "p c = Inr (v, r)" "q v r = Inr (w, [])" by (auto simp: result_simps)
  with prefix_parser.parse_append [OF assms(1) 1(1), of rest]
    prefix_parser.extend [OF assms(2) 1(2), of rest]
  show "bindR (p (c @ rest)) (\<lambda>(v, r). q v r) = Inr (w, rest)" by simp
next
  fix r w rest assume "bindR (p r) (\<lambda>(v, r). q v r) = Inr (w, rest)"
  then obtain v r1 where 1: "p r = Inr (v, r1)" "q v r1 = Inr (w, rest)" by (auto simp: result_simps)
  obtain c1 where c1: "r = c1 @ r1" "p c1 = Inr (v, [])"
    using prefix_parser.consumed [OF assms(1) 1(1)] by blast
  obtain c2 where c2: "r1 = c2 @ rest" "q v c2 = Inr (w, [])"
    using prefix_parser.consumed [OF assms(2) 1(2)] by blast
  from c1 c2 prefix_parser.extend [OF assms(1) c1(2), of c2]
  show "\<exists>c. r = c @ rest \<and> bindR (p c) (\<lambda>(v, r). q v r) = Inr (w, [])"
    by (intro exI [of _ "c1 @ c2"]) simp
qed

lemma return_parser: "prefix_parser (\<lambda>r. Inr (v, r))"
  by unfold_locales auto

lemma fail_parser: "prefix_parser (\<lambda>r. Inl e)"
  by unfold_locales auto

lemma if_parser:
  "prefix_parser p \<Longrightarrow> prefix_parser q \<Longrightarrow> prefix_parser (\<lambda>r. if b then p r else q r)"
  by (cases b) auto

lemmas parser_intros = bind_parser return_parser fail_parser if_parser

lemma chunk_take_parser: "prefix_parser (chunk_take n)"
  by unfold_locales (auto simp: result_simps)

lemma chunk_short_Inr:
  "chunk_short r = Inr (v, rest) \<longleftrightarrow> (\<exists>a b. r = a # b # rest \<and> v = push_bit 8 (ucast a) OR ucast b)"
  by (auto simp: chunk_short_def split: list.splits)

lemma chunk_varint_Inr:
  "chunk_varint r = Inr (v, rest) \<longleftrightarrow> (\<exists>n. read_varint r = Inr (v, n, rest))"
  by (auto simp: chunk_varint_def split: sum.splits)

interpretation chunk_byte: prefix_parser chunk_byte
  by unfold_locales (auto simp: result_simps)

interpretation chunk_short: prefix_parser chunk_short
  by unfold_locales (auto simp: chunk_short_Inr)

lemma read_var_from_extend:
  "read_var_from final e k acc c = Inr (v, m, []) \<Longrightarrow>
   read_var_from final e k acc (c @ rest) = Inr (v, m, rest)"
proof (induction final e k acc c rule: read_var_from.induct)
  case (2 final e k acc b bs)
  then show ?case by (auto simp: Let_def split: if_splits)
qed simp

lemma read_var_from_consumed:
  "read_var_from final e k acc bs = Inr (v, m, rest) \<Longrightarrow>
   \<exists>c. bs = c @ rest \<and> read_var_from final e k acc c = Inr (v, m, [])"
proof (induction final e k acc bs rule: read_var_from.induct)
  case (2 final e k acc b bs)
  let ?acc = "acc OR push_bit (7 * k) (ucast (b AND 0x7F))"
  show ?case
  proof (cases "b AND 0x80 = 0")
    case True
    with "2.prems" show ?thesis by (intro exI [of _ "[b]"]) simp
  next
    case False
    with "2.prems" have "k \<noteq> final" and "read_var_from final e (k + 1) ?acc bs = Inr (v, m, rest)"
      by (auto simp: Let_def split: if_splits)
    with "2.IH" False obtain c where "bs = c @ rest"
      "read_var_from final e (k + 1) ?acc c = Inr (v, m, [])" by blast
    with False \<open>k \<noteq> final\<close> show ?thesis by (intro exI [of _ "b # c"]) simp
  qed
qed simp

interpretation chunk_varint: prefix_parser chunk_varint
  by unfold_locales
    (auto simp: chunk_varint_Inr read_varint_def dest: read_var_from_extend read_var_from_consumed)

section \<open>Protocol 47\<close>

definition section_block_bytes47 :: nat where "section_block_bytes47 = blocks_per_section * 2"
definition section_light_bytes47 :: nat where "section_light_bytes47 = blocks_per_section div 2"
definition biome_bytes47 :: nat where "biome_bytes47 = 256"
definition sections_per_column47 :: nat where "sections_per_column47 = 16"

record layout47 =
  lay_bitmap :: "16 word"
  lay_sky_light :: bool
  lay_ground_up :: bool

record column47 =
  col_sections :: "chunk_section list"
  col_block_light :: "bytes list"
  col_sky_light :: "bytes list option"
  col_biomes :: "bytes option"

text \<open>\<open>bits.OnesCount16\<close>.\<close>

definition layout_sections :: "layout47 \<Rightarrow> nat" where
  "layout_sections l = length (filter (bit (lay_bitmap l)) [0..<16])"

definition layout_bytes :: "layout47 \<Rightarrow> nat" where
  "layout_bytes l =
     (let per_section = section_block_bytes47 + section_light_bytes47 +
            (if lay_sky_light l then section_light_bytes47 else 0)
      in layout_sections l * per_section + (if lay_ground_up l then biome_bytes47 else 0))"

definition section47 :: "nat \<Rightarrow> bytes \<Rightarrow> chunk_section" where
  "section47 y blocks = \<lparr>sec_y = int y, sec_blocks = blocks, sec_biomes = [], sec_block_count = 0,
     sec_fluid_count = 0\<rparr>"

text \<open>The loop over the bits: what was split before the data ran out comes with the error.\<close>

fun split47_from :: "nat list \<Rightarrow> 16 word \<Rightarrow> bytes \<Rightarrow> chunk_section list \<times> bytes \<times> wire_error option" where
  "split47_from [] bitmap data = ([], data, None)"
| "split47_from (y # ys) bitmap data =
     (if bitmap AND push_bit y 1 = 0 then split47_from ys bitmap data
      else if length data < section_block_bytes47 then ([], [], Some ErrColumn)
      else case split47_from ys bitmap (drop section_block_bytes47 data) of
        (ss, rest, e) \<Rightarrow> (section47 y (take section_block_bytes47 data) # ss, rest, e))"

definition split47 :: "16 word \<Rightarrow> bytes \<Rightarrow> chunk_section list \<times> bytes \<times> wire_error option" where
  "split47 bitmap data = split47_from [0..<sections_per_column47] bitmap data"

definition read_light47 :: "bytes \<Rightarrow> nat \<Rightarrow> (bytes list \<times> bytes) result" where
  "read_light47 r sections = decode_n (chunk_take (int section_light_bytes47)) sections r"

definition decode47 :: "layout47 \<Rightarrow> bytes \<Rightarrow> column47 result" where
  "decode47 l data =
     (if length data \<noteq> layout_bytes l then Inl ErrColumn
      else case split47 (lay_bitmap l) data of
        (ss, rest, Some e) \<Rightarrow> Inl e
      | (ss, rest, None) \<Rightarrow>
          bindR (read_light47 rest (length ss)) (\<lambda>(block_light, r).
          bindR (if lay_sky_light l then bindR (read_light47 r (length ss)) (\<lambda>(sky, r). Inr (Some sky, r))
                 else Inr (None, r)) (\<lambda>(sky, r).
          bindR (if lay_ground_up l then bindR (chunk_take (int biome_bytes47) r) (\<lambda>(b, r). Inr (Some b))
                 else Inr None) (\<lambda>biomes.
            Inr \<lparr>col_sections = ss, col_block_light = block_light, col_sky_light = sky,
              col_biomes = biomes\<rparr>))))"

definition decode_section47 :: "bytes \<Rightarrow> i32 list result" where
  "decode_section47 raw =
     (if length raw < section_block_bytes47 then Inl ErrSection
      else Inr (map (\<lambda>i. ucast (raw ! (i * 2)) OR push_bit 8 (ucast (raw ! (i * 2 + 1))))
        [0..<blocks_per_section]))"

section \<open>Protocol 775\<close>

definition biomes_per_section775 :: nat where "biomes_per_section775 = 64"
definition max_block_palette_bits775 :: nat where "max_block_palette_bits775 = 8"
definition max_biome_palette_bits775 :: nat where "max_biome_palette_bits775 = 3"
definition max_packed_bits :: nat where "max_packed_bits = 32"
definition sections_per_column_limit :: nat where "sections_per_column_limit = 128"

definition longs_for :: "nat \<Rightarrow> nat \<Rightarrow> nat" where
  "longs_for entries per_long = (entries + per_long - 1) div per_long"

text \<open>The palette behind a width; \<open>None\<close> is the global palette.\<close>

definition read_palette :: "nat \<Rightarrow> nat \<Rightarrow> bytes \<Rightarrow> (i32 list option \<times> bytes) result" where
  "read_palette width max_bits r =
     (if width = 0 then bindR (chunk_varint r) (\<lambda>(v, r). Inr (Some [v], r))
      else if width \<le> max_bits then
        bindR (chunk_varint r) (\<lambda>(count, r).
          if sint count < 0 \<or> 2 ^ width < sint count then Inl ErrColumn
          else bindR (decode_n chunk_varint (unat count) r) (\<lambda>(palette, r). Inr (Some palette, r)))
      else Inr (None, r))"

definition skip_container :: "nat \<Rightarrow> nat \<Rightarrow> bytes \<Rightarrow> bytes result" where
  "skip_container entries max_bits r =
     bindR (chunk_byte r) (\<lambda>(w, r).
       if max_packed_bits < unat w then Inl ErrColumn
       else bindR (read_palette (unat w) max_bits r) (\<lambda>(palette, r).
         if unat w = 0 then Inr r
         else bindR (chunk_take (int (longs_for entries (64 div unat w) * 8)) r) (\<lambda>(longs, r). Inr r)))"

definition container :: "nat \<Rightarrow> nat \<Rightarrow> bytes \<Rightarrow> (bytes \<times> bytes) result" where
  "container entries max_bits r = bindR (skip_container entries max_bits r) (\<lambda>rest.
     Inr (take (length r - length rest) r, rest))"

text \<open>
  The loop ends when the bytes do; the check behind it, that the cursor is at the end, is then
  the empty rest.
\<close>

function split775_from :: "int \<Rightarrow> nat \<Rightarrow> bytes \<Rightarrow> chunk_section list result" where
  "split775_from bottom index r =
     (if r = [] then Inr []
      else if sections_per_column_limit \<le> index then Inl ErrColumn
      else bindR (chunk_short r) (\<lambda>(block_count, r).
        bindR (chunk_short r) (\<lambda>(fluid_count, r).
        bindR (container blocks_per_section max_block_palette_bits775 r) (\<lambda>(blocks, r).
        bindR (container biomes_per_section775 max_biome_palette_bits775 r) (\<lambda>(biomes, r).
        bindR (split775_from bottom (Suc index) r) (\<lambda>ss.
          Inr (\<lparr>sec_y = bottom + int index, sec_blocks = blocks, sec_biomes = biomes,
            sec_block_count = block_count, sec_fluid_count = fluid_count\<rparr> # ss)))))))"
  by pat_completeness auto
termination
  by (relation "measure (\<lambda>(bottom, index, r). sections_per_column_limit - index)") auto

declare split775_from.simps [simp del]

definition split775 :: "bytes \<Rightarrow> int \<Rightarrow> chunk_section list result" where
  "split775 data bottom = split775_from bottom 0 data"

text \<open>Errors of the parts of a container come out as \<open>ErrSection\<close>.\<close>

definition in_section :: "'a result \<Rightarrow> 'a result" where
  "in_section m = (case m of Inl e \<Rightarrow> Inl ErrSection | Inr v \<Rightarrow> Inr v)"

definition packed_entry :: "nat \<Rightarrow> bytes \<Rightarrow> nat \<Rightarrow> i32" where
  "packed_entry width packed i =
     (let per_long = 64 div width; cell = i div per_long;
        word = (be_word (take 8 (drop (cell * 8) packed)) :: i64)
      in ucast (drop_bit ((i - cell * per_long) * width) word AND (push_bit width 1 - 1)))"

definition palette_value :: "i32 list option \<Rightarrow> i32 \<Rightarrow> i32 result" where
  "palette_value palette v = (case palette of
     None \<Rightarrow> Inr v
   | Some p \<Rightarrow> if length p \<le> unat v then Inl ErrSection else Inr (p ! unat v))"

fun map_result :: "('a \<Rightarrow> 'b result) \<Rightarrow> 'a list \<Rightarrow> 'b list result" where
  "map_result f [] = Inr []"
| "map_result f (x # xs) = bindR (f x) (\<lambda>y. bindR (map_result f xs) (\<lambda>ys. Inr (y # ys)))"

definition decode_container :: "bytes \<Rightarrow> nat \<Rightarrow> nat \<Rightarrow> i32 list result" where
  "decode_container raw entries max_bits =
     bindR (in_section (chunk_byte raw)) (\<lambda>(w, r).
       if max_packed_bits < unat w then Inl ErrSection
       else bindR (in_section (read_palette (unat w) max_bits r)) (\<lambda>(palette, r).
         if unat w = 0 then Inr (replicate entries (the palette ! 0))
         else bindR (in_section (chunk_take (int (longs_for entries (64 div unat w) * 8)) r)) (\<lambda>(packed, r).
           map_result (\<lambda>i. palette_value palette (packed_entry (unat w) packed i)) [0..<entries])))"

definition decode_section775 :: "bytes \<Rightarrow> i32 list result" where
  "decode_section775 raw = decode_container raw blocks_per_section max_block_palette_bits775"

definition decode_biomes775 :: "bytes \<Rightarrow> i32 list result" where
  "decode_biomes775 raw = decode_container raw biomes_per_section775 max_biome_palette_bits775"

section \<open>Splitting a protocol 775 column\<close>

lemma decode_varints_parser: "prefix_parser (decode_n chunk_varint n)"
  by (rule chunk_varint.decode_n_parser)

lemma read_palette_parser: "prefix_parser (read_palette width max_bits)"
  unfolding read_palette_def [abs_def]
  by (intro parser_intros decode_varints_parser chunk_varint.prefix_parser_axioms)

text \<open>\<open>skip_container\<close> as a parser of nothing.\<close>

definition skip_unit :: "nat \<Rightarrow> nat \<Rightarrow> bytes \<Rightarrow> (unit \<times> bytes) result" where
  "skip_unit entries max_bits r =
     bindR (chunk_byte r) (\<lambda>(w, r).
       if max_packed_bits < unat w then Inl ErrColumn
       else bindR (read_palette (unat w) max_bits r) (\<lambda>(palette, r).
         if unat w = 0 then Inr ((), r)
         else bindR (chunk_take (int (longs_for entries (64 div unat w) * 8)) r) (\<lambda>(longs, r). Inr ((), r))))"

lemma skip_unit_parser: "prefix_parser (skip_unit entries max_bits)"
  unfolding skip_unit_def [abs_def]
  by (intro parser_intros read_palette_parser chunk_take_parser chunk_byte.prefix_parser_axioms)

lemma skip_container_unit:
  "skip_container entries max_bits r = Inr rest \<longleftrightarrow> skip_unit entries max_bits r = Inr ((), rest)"
  by (auto simp: skip_container_def skip_unit_def result_simps split: if_splits)

definition container_ok :: "nat \<Rightarrow> nat \<Rightarrow> bytes \<Rightarrow> bool" where
  "container_ok entries max_bits c \<longleftrightarrow> skip_container entries max_bits c = Inr []"

lemma container_Inr:
  "container entries max_bits r = Inr (c, rest) \<longleftrightarrow> r = c @ rest \<and> container_ok entries max_bits c"
proof -
  have "skip_container entries max_bits r = Inr rest \<longleftrightarrow>
      (\<exists>c. r = c @ rest \<and> container_ok entries max_bits c)" for rest
    unfolding container_ok_def skip_container_unit
    by (rule prefix_parser.parse_iff [OF skip_unit_parser])
  then show ?thesis by (auto simp: container_def result_simps)
qed

text \<open>The bytes of a section, and what a section of a column is.\<close>

definition section_wire :: "chunk_section \<Rightarrow> bytes" where
  "section_wire s = be_bytes 2 (sec_block_count s) @ be_bytes 2 (sec_fluid_count s) @
     sec_blocks s @ sec_biomes s"

definition section_ok :: "chunk_section \<Rightarrow> bool" where
  "section_ok s \<longleftrightarrow> container_ok blocks_per_section max_block_palette_bits775 (sec_blocks s) \<and>
     container_ok biomes_per_section775 max_biome_palette_bits775 (sec_biomes s)"

lemma chunk_short_be: "chunk_short r = Inr (v, rest) \<longleftrightarrow> r = be_bytes 2 v @ rest"
proof -
  have two: "be_bytes 2 v = [ucast (drop_bit 8 v), ucast v]"
    by (simp add: numeral_2_eq_2)
  have "v = push_bit 8 (ucast a) OR ucast b \<longleftrightarrow> a = ucast (drop_bit 8 v) \<and> b = ucast v" for a b :: byte
  proof
    assume v: "v = push_bit 8 (ucast a) OR ucast b"
    have "ucast (drop_bit 8 (push_bit 8 (ucast a) OR ucast b :: 16 word)) = a"
      by (rule bit_word_eqI) (auto simp: bit_simps dest: bit_imp_le_length)
    moreover have "ucast (push_bit 8 (ucast a) OR ucast b :: 16 word) = b"
      by (rule bit_word_eqI) (auto simp: bit_simps)
    ultimately show "a = ucast (drop_bit 8 v) \<and> b = ucast v" by (simp add: v)
  next
    assume "a = ucast (drop_bit 8 v) \<and> b = ucast v"
    then show "v = push_bit 8 (ucast a) OR ucast b"
      by (intro bit_word_eqI) (auto simp: bit_simps)
  qed
  then show ?thesis unfolding chunk_short_Inr two by simp
qed

lemma split775_from_iff:
  "split775_from bottom index r = Inr ss \<longleftrightarrow>
   r = concat (map section_wire ss) \<and> list_all section_ok ss \<and>
   (ss = [] \<or> index + length ss \<le> sections_per_column_limit) \<and>
   map sec_y ss = map (\<lambda>i. bottom + int i) [index..<index + length ss]"
proof (induction "sections_per_column_limit - index" arbitrary: index r ss)
  case 0
  show ?case
  proof (cases ss)
    case Nil
    then show ?thesis using 0 by (auto simp: split775_from.simps [of bottom index r])
  next
    case (Cons s ts)
    then show ?thesis using 0 by (auto simp: split775_from.simps [of bottom index r])
  qed
next
  case (Suc n)
  then have IH: "split775_from bottom (Suc index) r' = Inr ts \<longleftrightarrow>
      r' = concat (map section_wire ts) \<and> list_all section_ok ts \<and>
      (ts = [] \<or> Suc index + length ts \<le> sections_per_column_limit) \<and>
      map sec_y ts = map (\<lambda>i. bottom + int i) [Suc index..<Suc index + length ts]" for r' ts
    by (intro Suc.hyps(1)) simp
  have room: "\<not> sections_per_column_limit \<le> index" using Suc.hyps(2) by simp
  show ?case
  proof (cases ss)
    case Nil
    then show ?thesis
      using room by (auto simp: split775_from.simps [of bottom index r] result_simps)
  next
    case (Cons s ts)
    have "0 < length (section_wire s)" by (simp add: section_wire_def)
    then have "section_wire s \<noteq> []" by blast
    then show ?thesis
      using room unfolding Cons
      by (cases s) (auto simp: split775_from.simps [of bottom index r] result_simps IH chunk_short_be
          container_Inr section_wire_def section_ok_def upt_rec [of index])
  qed
qed


section \<open>Paletted containers\<close>

text \<open>
  A reference encoder, from the layout the protocol documents: entries packed whole into 64-bit
  longs from the low bits up, none straddling two longs. Long number \<open>cell\<close> is given bit by bit.
\<close>

definition cell_word :: "nat \<Rightarrow> i32 list \<Rightarrow> nat \<Rightarrow> i64" where
  "cell_word width vs cell = horner_sum of_bool 2
     (map (\<lambda>n. let k = n div width; i = cell * (64 div width) + k in
        k < 64 div width \<and> i < length vs \<and> bit (vs ! i) (n mod width)) [0..<64])"

definition pack_entries :: "nat \<Rightarrow> i32 list \<Rightarrow> bytes" where
  "pack_entries width vs =
     concat (map (\<lambda>cell. be_bytes 8 (cell_word width vs cell)) [0..<longs_for (length vs) (64 div width)])"

lemma bit_cell_word:
  "bit (cell_word width vs cell) n \<longleftrightarrow> n < 64 \<and> n div width < 64 div width \<and>
     cell * (64 div width) + n div width < length vs \<and>
     bit (vs ! (cell * (64 div width) + n div width)) (n mod width)"
  by (auto simp: cell_word_def bit_horner_sum_bit_word_iff Let_def)

lemma length_pack_entries: "length (pack_entries width vs) = longs_for (length vs) (64 div width) * 8"
  by (simp add: pack_entries_def length_concat comp_def sum_list_triv)

lemma take_drop_concat:
  assumes "\<And>x. length (f x) = n" and "i < length xs"
  shows "take n (drop (i * n) (concat (map f xs))) = f (xs ! i)"
  using assms(2)
proof (induction xs arbitrary: i)
  case (Cons x xs)
  then show ?case by (cases i) (simp_all add: assms(1))
qed simp

lemma longs_for_covers:
  assumes "i < entries" and "0 < per_long"
  shows "i div per_long < longs_for entries per_long"
proof -
  have "(i div per_long + 1) * per_long = i div per_long * per_long + per_long" by simp
  then have "(i div per_long + 1) * per_long \<le> entries + per_long - 1"
    using assms div_times_less_eq_dividend [of i per_long] by linarith
  then have "i div per_long + 1 \<le> (entries + per_long - 1) div per_long"
    using assms(2) by (simp only: less_eq_div_iff_mult_less_eq)
  then show ?thesis by (simp add: longs_for_def)
qed

lemma be_word_packed:
  assumes "i < length vs" and "0 < width" and "width \<le> 32"
  shows "be_word (take 8 (drop (i div (64 div width) * 8) (pack_entries width vs @ rest))) =
     cell_word width vs (i div (64 div width))"
proof -
  let ?pl = "64 div width"
  have pl: "0 < ?pl" using assms(2,3) by (simp add: div_greater_zero_iff)
  have cell: "i div ?pl < longs_for (length vs) ?pl"
    by (rule longs_for_covers [OF assms(1) pl])
  then have "i div ?pl * 8 + 8 \<le> length (pack_entries width vs)"
    by (simp add: length_pack_entries)
  then have "take 8 (drop (i div ?pl * 8) (pack_entries width vs @ rest)) =
      take 8 (drop (i div ?pl * 8) (pack_entries width vs))" by simp
  also have "\<dots> = be_bytes 8 (cell_word width vs (i div ?pl))"
    unfolding pack_entries_def using cell by (subst take_drop_concat) simp_all
  finally show ?thesis by (simp add: be_word_be_bytes)
qed

lemma packed_entry_pack:
  assumes "i < length vs" and "0 < width" and "width \<le> 32"
    and "\<forall>v \<in> set vs. take_bit width v = v"
  shows "packed_entry width (pack_entries width vs) i = vs ! i"
proof -
  let ?pl = "64 div width" and ?k = "i mod (64 div width)"
  have pl: "0 < ?pl" using assms(2,3) by (simp add: div_greater_zero_iff)
  have k: "i - i div ?pl * ?pl = ?k" by (simp add: minus_div_mult_eq_mod)
  have small: "take_bit width (vs ! i) = vs ! i" using assms(1,4) by simp
  have i: "i div ?pl * ?pl + ?k = i" by (rule div_mult_mod_eq)
  have fits: "?k * width + n < 64" if "n < width" for n
  proof -
    have "(?k + 1) * width \<le> ?pl * width" using pl by (intro mult_right_mono) (auto simp: Suc_le_eq)
    also have "\<dots> \<le> 64" by simp
    finally show ?thesis using that by (simp add: algebra_simps)
  qed
  have word: "be_word (take 8 (drop (i div ?pl * 8) (pack_entries width vs))) =
      cell_word width vs (i div ?pl)"
    using be_word_packed [OF assms(1-3), of "[]"] by simp
  show ?thesis
  proof (rule bit_word_eqI)
    fix n assume "n < LENGTH(32)"
    have "bit (vs ! i) n \<Longrightarrow> n < width"
      using small by (metis bit_take_bit_iff)
    moreover have "push_bit width 1 - 1 = (mask width :: i64)"
      by (simp only: mask_eq_exp_minus_1 push_bit_of_1)
    ultimately show "bit (packed_entry width (pack_entries width vs) i) n \<longleftrightarrow> bit (vs ! i) n"
      using \<open>n < LENGTH(32)\<close> fits [of n] assms(1,2) pl
      by (auto simp: packed_entry_def Let_def word k bit_simps bit_cell_word div_mult_self4 i)
  qed
qed

text \<open>The three forms of a container, what they mean and how they are written.\<close>

datatype container_form =
    SingleValue i32
  | Indirect nat "i32 list" "i32 list"
  | Direct nat "i32 list"

fun form_ok :: "nat \<Rightarrow> nat \<Rightarrow> container_form \<Rightarrow> bool" where
  "form_ok entries max_bits (SingleValue v) \<longleftrightarrow> True"
| "form_ok entries max_bits (Indirect width palette ixs) \<longleftrightarrow> 0 < width \<and> width \<le> max_bits \<and>
     max_bits < 31 \<and> length palette \<le> 2 ^ width \<and> length ixs = entries \<and>
     list_all (\<lambda>i. unat i < length palette) ixs"
| "form_ok entries max_bits (Direct width vs) \<longleftrightarrow> max_bits < width \<and> width \<le> 32 \<and>
     length vs = entries \<and> list_all (\<lambda>v. take_bit width v = v) vs"

fun form_values :: "nat \<Rightarrow> container_form \<Rightarrow> i32 list" where
  "form_values entries (SingleValue v) = replicate entries v"
| "form_values entries (Indirect width palette ixs) = map (\<lambda>i. palette ! unat i) ixs"
| "form_values entries (Direct width vs) = vs"

fun form_bytes :: "container_form \<Rightarrow> bytes" where
  "form_bytes (SingleValue v) = 0 # put_varint v"
| "form_bytes (Indirect width palette ixs) = of_nat width # put_varint (of_nat (length palette)) @
     concat (map put_varint palette) @ pack_entries width ixs"
| "form_bytes (Direct width vs) = of_nat width # pack_entries width vs"

lemma chunk_varint_put [simp]: "chunk_varint (put_varint v @ rest) = Inr (v, rest)"
  by (simp add: chunk_varint_def read_varint_put_varint)

lemma chunk_varint_put_end [simp]: "chunk_varint (put_varint v) = Inr (v, [])"
  using chunk_varint_put [of v "[]"] by simp

interpretation chunk_varints: wire_codec put_varint chunk_varint "\<lambda>_. True"
  by unfold_locales simp

lemma decode_varints: "decode_n chunk_varint (length vs) (concat (map put_varint vs) @ rest) = Inr (vs, rest)"
  by (rule chunk_varints.decode_n_concat) (simp add: list_all_iff)

lemma unat_width: "width \<le> 32 \<Longrightarrow> unat (of_nat width :: byte) = width"
  by (simp add: unat_of_nat)

lemma palette_count:
  assumes "0 < width" and "width < 31" and "length palette \<le> 2 ^ width"
  shows "sint (of_nat (length palette) :: i32) = int (length palette)"
    and "unat (of_nat (length palette) :: i32) = length palette"
proof -
  have "(2 :: nat) ^ width \<le> 2 ^ 30" using assms(2) by (intro power_increasing) auto
  then have small: "length palette < 2 ^ 31" using assms(3) by simp
  have "(of_nat (length palette) :: i32) = int32_of (int (length palette))"
    by (simp add: int32_of_def)
  then show "sint (of_nat (length palette) :: i32) = int (length palette)"
    using small by (simp only:) (rule sint_int32_of; simp)
  show "unat (of_nat (length palette) :: i32) = length palette"
    using small by (simp add: unat_of_nat)
qed

lemma read_palette_indirect:
  assumes "0 < width" and "width \<le> max_bits" and "max_bits < 31" and "length palette \<le> 2 ^ width"
  shows "read_palette width max_bits (put_varint (of_nat (length palette)) @
      concat (map put_varint palette) @ rest) = Inr (Some palette, rest)"
proof -
  have "int (length palette) \<le> 2 ^ width" using assms(4) by (metis of_nat_le_iff of_nat_numeral of_nat_power)
  then show ?thesis
    using assms palette_count [of width palette]
    by (simp add: read_palette_def decode_varints not_less)
qed

lemma map_result_all: "(\<And>x. x \<in> set xs \<Longrightarrow> f x = Inr (g x)) \<Longrightarrow> map_result f xs = Inr (map g xs)"
  by (induction xs) auto

lemma small_index:
  assumes "list_all (\<lambda>i. unat (i :: i32) < length palette) ixs" and "length palette \<le> 2 ^ width"
  shows "\<forall>i \<in> set ixs. take_bit width i = i"
proof
  fix i assume "i \<in> set ixs"
  with assms have "unat i < 2 ^ width" by (auto simp: list_all_iff)
  then show "take_bit width i = i"
    by (simp add: word_unat_eq_iff unsigned_take_bit_eq take_bit_nat_eq_self)
qed

lemma take_entries:
  assumes "length vs = entries"
  shows "chunk_take (int (longs_for entries (64 div width) * 8)) (pack_entries width vs @ rest) =
     Inr (pack_entries width vs, rest)"
  using chunk_take_append [of "pack_entries width vs" rest] assms
  by (simp add: length_pack_entries)

lemma unpack_entries:
  assumes "length vs = entries" and "0 < width" and "width \<le> 32"
    and "\<forall>v \<in> set vs. take_bit width v = v"
    and "\<And>v. v \<in> set vs \<Longrightarrow> palette_value palette v = Inr (g v)"
  shows "map_result (\<lambda>i. palette_value palette (packed_entry width (pack_entries width vs) i))
     [0..<entries] = Inr (map g vs)"
proof -
  have "map_result (\<lambda>i. palette_value palette (packed_entry width (pack_entries width vs) i))
      [0..<entries] = Inr (map (\<lambda>i. g (vs ! i)) [0..<entries])"
    by (rule map_result_all) (use assms packed_entry_pack in auto)
  also have "map (\<lambda>i. g (vs ! i)) [0..<entries] = map g vs"
    using assms(1) by (auto intro: nth_equalityI)
  finally show ?thesis .
qed

lemma container_of_skip:
  "skip_container entries max_bits (c @ rest) = Inr rest \<Longrightarrow>
   container entries max_bits (c @ rest) = Inr (c, rest)"
  by (simp add: container_def)

lemma single_roundtrip:
  "decode_container (form_bytes (SingleValue v) @ rest) entries max_bits = Inr (replicate entries v)"
  "skip_container entries max_bits (form_bytes (SingleValue v) @ rest) = Inr rest"
  by (simp_all add: decode_container_def skip_container_def in_section_def read_palette_def)

lemma indirect_roundtrip:
  assumes "form_ok entries max_bits (Indirect width palette ixs)"
  shows "decode_container (form_bytes (Indirect width palette ixs) @ rest) entries max_bits =
      Inr (map (\<lambda>i. palette ! unat i) ixs)"
    and "skip_container entries max_bits (form_bytes (Indirect width palette ixs) @ rest) = Inr rest"
proof -
  have w: "unat (of_nat width :: byte) = width" "0 < width" "width \<le> 32" "width \<le> max_bits"
    using assms unat_width [of width] by auto
  have palette: "read_palette width max_bits (put_varint (of_nat (length palette)) @
      concat (map put_varint palette) @ xs) = Inr (Some palette, xs)" for xs
    using assms by (intro read_palette_indirect) auto
  have entries: "map_result (\<lambda>i. palette_value (Some palette)
      (packed_entry width (pack_entries width ixs) i)) [0..<entries] = Inr (map (\<lambda>i. palette ! unat i) ixs)"
    using assms w small_index [of palette ixs width]
    by (intro unpack_entries) (auto simp: palette_value_def list_all_iff)
  have take: "chunk_take (int (longs_for entries (64 div width) * 8)) (pack_entries width ixs @ rest) =
      Inr (pack_entries width ixs, rest)"
    by (rule take_entries) (use assms in simp)
  show "decode_container (form_bytes (Indirect width palette ixs) @ rest) entries max_bits =
      Inr (map (\<lambda>i. palette ! unat i) ixs)"
    using w(2-4) entries take
    by (simp add: decode_container_def in_section_def w(1) palette max_packed_bits_def not_less)
  show "skip_container entries max_bits (form_bytes (Indirect width palette ixs) @ rest) = Inr rest"
    using w(2-4) take by (simp add: skip_container_def w(1) palette max_packed_bits_def not_less)
qed

lemma direct_roundtrip:
  assumes "form_ok entries max_bits (Direct width vs)"
  shows "decode_container (form_bytes (Direct width vs) @ rest) entries max_bits = Inr vs"
    and "skip_container entries max_bits (form_bytes (Direct width vs) @ rest) = Inr rest"
proof -
  have w: "unat (of_nat width :: byte) = width" "0 < width" "width \<le> 32" "max_bits < width"
    using assms unat_width [of width] by auto
  have entries: "map_result (\<lambda>i. palette_value None
      (packed_entry width (pack_entries width vs) i)) [0..<entries] = Inr (map (\<lambda>v. v) vs)"
    using assms w by (intro unpack_entries) (auto simp: palette_value_def list_all_iff)
  have take: "chunk_take (int (longs_for entries (64 div width) * 8)) (pack_entries width vs @ rest) =
      Inr (pack_entries width vs, rest)"
    by (rule take_entries) (use assms in simp)
  show "decode_container (form_bytes (Direct width vs) @ rest) entries max_bits = Inr vs"
    using w(2-4) entries take
    by (simp add: decode_container_def in_section_def w(1) read_palette_def max_packed_bits_def not_less)
  show "skip_container entries max_bits (form_bytes (Direct width vs) @ rest) = Inr rest"
    using w(2-4) take
    by (simp add: skip_container_def w(1) read_palette_def max_packed_bits_def not_less)
qed

text \<open>
  A paletted container decodes to what was packed into it. For each of its three forms (one
  value, indices into a palette, values of a global palette), every entry count, every width the
  form allows and every content, \<open>decodeContainer\<close> returns the entries in order, whatever bytes
  follow, and \<open>container\<close> cuts exactly the encoding off the column.
\<close>

theorem container_roundtrip:
  assumes "form_ok entries max_bits form"
  shows "decode_container (form_bytes form @ rest) entries max_bits = Inr (form_values entries form) \<and>
     container entries max_bits (form_bytes form @ rest) = Inr (form_bytes form, rest)"
proof (cases form)
  case (SingleValue v)
  then show ?thesis by (simp only: single_roundtrip container_of_skip form_values.simps)
next
  case (Indirect width palette ixs)
  with assms show ?thesis
    by (simp only: indirect_roundtrip container_of_skip form_values.simps)
next
  case (Direct width vs)
  with assms show ?thesis
    by (simp only: direct_roundtrip container_of_skip form_values.simps)
qed

theorem container_roundtrip_witness:
  "decode_container (form_bytes (Indirect 2 [7, 8, 9] [0, 2, 1, 2]) @ [5]) 4 3 = Inr [7, 9, 8, 9]"
  using container_roundtrip [of 4 3 "Indirect 2 [7, 8, 9] [0, 2, 1, 2]" "[5]"]
  by (simp only: form_ok.simps form_values.simps) simp

section \<open>Whole protocol 47 columns\<close>

definition section47_ok :: "chunk_section \<Rightarrow> bool" where
  "section47_ok s \<longleftrightarrow> length (sec_blocks s) = section_block_bytes47 \<and> 0 \<le> sec_y s \<and>
     s = section47 (nat (sec_y s)) (sec_blocks s)"

lemma bitmap_test:
  "y < 16 \<Longrightarrow> (bitmap :: 16 word) AND 2 ^ y = 0 \<longleftrightarrow> \<not> bit bitmap y"
  by (simp add: and_exp_eq_0_iff_not_bit)

lemma split47_from_iff:
  assumes "list_all (\<lambda>y. y < 16) ys"
  shows "split47_from ys bitmap data = (ss, rest, None) \<longleftrightarrow>
     data = concat (map sec_blocks ss) @ rest \<and> list_all section47_ok ss \<and>
     map sec_y ss = map int (filter (bit bitmap) ys)"
  using assms
proof (induction ys arbitrary: data ss)
  case Nil
  then show ?case by auto
next
  case (Cons y ys)
  show ?case
  proof (cases "bit bitmap y")
    case False
    with Cons show ?thesis by (simp add: bitmap_test)
  next
    case True
    show ?thesis
    proof (cases ss)
      case Nil
      with True Cons.prems show ?thesis
        by (auto simp: bitmap_test split: prod.splits)
    next
      case ss: (Cons s ts)
      let ?n = section_block_bytes47
      have "split47_from (y # ys) bitmap data = (ss, rest, None) \<longleftrightarrow>
          \<not> length data < ?n \<and> s = section47 y (take ?n data) \<and>
          split47_from ys bitmap (drop ?n data) = (ts, rest, None)"
        using True Cons.prems ss by (auto simp: bitmap_test split: prod.splits)
      also have "\<dots> \<longleftrightarrow> \<not> length data < ?n \<and> s = section47 y (take ?n data) \<and>
          drop ?n data = concat (map sec_blocks ts) @ rest \<and> list_all section47_ok ts \<and>
          map sec_y ts = map int (filter (bit bitmap) ys)"
        using Cons.IH [of "drop ?n data" ts] Cons.prems by simp
      also have "\<dots> \<longleftrightarrow> data = sec_blocks s @ concat (map sec_blocks ts) @ rest \<and> section47_ok s \<and>
          sec_y s = int y \<and> list_all section47_ok ts \<and>
          map sec_y ts = map int (filter (bit bitmap) ys)"
        by (auto simp: section47_ok_def section47_def) (metis append_take_drop_id)
      finally show ?thesis using True ss by auto
    qed
  qed
qed

lemma read_light47_iff:
  "read_light47 r n = Inr (ls, rest) \<longleftrightarrow>
   r = concat ls @ rest \<and> length ls = n \<and> list_all (\<lambda>l. length l = section_light_bytes47) ls"
  unfolding read_light47_def
proof (induction n arbitrary: r ls)
  case (Suc n)
  then show ?case by (cases ls) (auto simp: result_simps)
qed auto

definition column_wire :: "column47 \<Rightarrow> bytes" where
  "column_wire c = concat (map sec_blocks (col_sections c)) @ concat (col_block_light c) @
     (case col_sky_light c of None \<Rightarrow> [] | Some sky \<Rightarrow> concat sky) @
     (case col_biomes c of None \<Rightarrow> [] | Some b \<Rightarrow> b)"

definition light_ok :: "nat \<Rightarrow> bytes list \<Rightarrow> bool" where
  "light_ok n ls \<longleftrightarrow> length ls = n \<and> list_all (\<lambda>l. length l = section_light_bytes47) ls"

definition column_ok :: "layout47 \<Rightarrow> column47 \<Rightarrow> bool" where
  "column_ok l c \<longleftrightarrow> list_all section47_ok (col_sections c) \<and>
     map sec_y (col_sections c) = map int (filter (bit (lay_bitmap l)) [0..<16]) \<and>
     light_ok (length (col_sections c)) (col_block_light c) \<and>
     (case col_sky_light c of None \<Rightarrow> \<not> lay_sky_light l
        | Some sky \<Rightarrow> lay_sky_light l \<and> light_ok (length (col_sections c)) sky) \<and>
     (case col_biomes c of None \<Rightarrow> \<not> lay_ground_up l
        | Some b \<Rightarrow> lay_ground_up l \<and> length b = biome_bytes47)"

lemma length_concat_const: "list_all (\<lambda>x. length x = n) xs \<Longrightarrow> length (concat xs) = length xs * n"
  by (induction xs) auto

lemma column_ok_length:
  assumes "column_ok l c"
  shows "length (column_wire c) = layout_bytes l"
proof -
  have n: "length (col_sections c) = layout_sections l"
    using assms by (metis column_ok_def layout_sections_def length_map)
  have "length (concat (map sec_blocks (col_sections c))) = layout_sections l * section_block_bytes47"
    using assms n length_concat_const [of section_block_bytes47 "map sec_blocks (col_sections c)"]
    by (auto simp: column_ok_def section47_ok_def list_all_iff)
  moreover have "length (concat (col_block_light c)) = layout_sections l * section_light_bytes47"
    using assms n by (auto simp: column_ok_def light_ok_def length_concat_const)
  ultimately show ?thesis
    using assms n by (auto simp: column_ok_def light_ok_def column_wire_def layout_bytes_def Let_def
        length_concat_const algebra_simps split: option.splits)
qed

lemma split47_iff:
  "split47 (lay_bitmap l) data = (ss, rest, None) \<longleftrightarrow>
   data = concat (map sec_blocks ss) @ rest \<and> list_all section47_ok ss \<and>
   map sec_y ss = map int (filter (bit (lay_bitmap l)) [0..<16])"
  unfolding split47_def sections_per_column47_def by (rule split47_from_iff) (simp add: list_all_iff)

lemma decode47_sound:
  assumes "decode47 l data = Inr c"
  shows "column_ok l c \<and> data = column_wire c"
proof -
  obtain ss rest bl r where split: "split47 (lay_bitmap l) data = (ss, rest, None)"
    and light: "read_light47 rest (length ss) = Inr (bl, r)"
    and len: "length data = layout_bytes l"
    using assms by (auto simp: decode47_def result_simps split: prod.splits option.splits if_splits)
  have "\<exists>p. column_ok l c \<and> data = column_wire c @ p"
    using assms split light len
    by (cases "lay_sky_light l"; cases "lay_ground_up l")
      (auto simp: decode47_def result_simps column_ok_def column_wire_def split47_iff
        read_light47_iff light_ok_def)
  then show ?thesis using len column_ok_length [of l c] by auto
qed

lemma decode47_complete:
  assumes "column_ok l c"
  shows "decode47 l (column_wire c) = Inr c"
proof -
  let ?sky = "case col_sky_light c of None \<Rightarrow> [] | Some sky \<Rightarrow> concat sky"
  let ?biomes = "case col_biomes c of None \<Rightarrow> [] | Some b \<Rightarrow> b"
  have split: "split47 (lay_bitmap l) (column_wire c) =
      (col_sections c, concat (col_block_light c) @ ?sky @ ?biomes, None)"
    using assms by (simp add: split47_iff column_wire_def column_ok_def)
  have light: "read_light47 (concat ls @ xs) (length (col_sections c)) = Inr (ls, xs)"
    "read_light47 (concat ls) (length (col_sections c)) = Inr (ls, [])"
    if "light_ok (length (col_sections c)) ls" for ls xs
    using that by (simp_all add: read_light47_iff light_ok_def)
  have biomes: "chunk_take (int biome_bytes47) b = Inr (b, [])" if "col_biomes c = Some b" for b
    using assms that chunk_take_append [of b "[]"] by (simp add: column_ok_def)
  show ?thesis
    using assms column_ok_length [OF assms]
    by (cases "col_sky_light c"; cases "col_biomes c")
      (auto simp: decode47_def split light biomes column_ok_def)
qed

lemma split47_from_total:
  assumes "list_all (\<lambda>y. y < 16) ys"
    and "length (filter (bit bitmap) ys) * section_block_bytes47 \<le> length data"
  shows "\<exists>ss rest. split47_from ys bitmap data = (ss, rest, None) \<and>
     length ss = length (filter (bit bitmap) ys) \<and>
     length data = length ss * section_block_bytes47 + length rest"
  using assms
proof (induction ys arbitrary: data)
  case (Cons y ys)
  show ?case
  proof (cases "bit bitmap y")
    case True
    with Cons.prems have "length (filter (bit bitmap) ys) * section_block_bytes47 \<le>
        length (drop section_block_bytes47 data)" by simp
    with Cons.IH Cons.prems(1) obtain ss rest where
      "split47_from ys bitmap (drop section_block_bytes47 data) = (ss, rest, None)"
      "length ss = length (filter (bit bitmap) ys)"
      "length (drop section_block_bytes47 data) = length ss * section_block_bytes47 + length rest"
      by fastforce
    with True Cons.prems show ?thesis by (simp add: bitmap_test)
  next
    case False
    with Cons show ?thesis by (simp add: bitmap_test)
  qed
qed simp

lemma read_light47_total:
  "n * section_light_bytes47 \<le> length r \<Longrightarrow>
   \<exists>ls rest. read_light47 r n = Inr (ls, rest) \<and> length r = n * section_light_bytes47 + length rest"
proof (induction n arbitrary: r)
  case (Suc n)
  let ?n = section_light_bytes47
  from Suc.prems have "n * ?n \<le> length (drop ?n r)" by simp
  with Suc.IH obtain ls rest where "read_light47 (drop ?n r) n = Inr (ls, rest)"
    "length (drop ?n r) = n * ?n + length rest" by blast
  with Suc.prems show ?case by (simp add: read_light47_def chunk_take_def)
qed (simp add: read_light47_def)

lemma decode47_total:
  assumes "length data = layout_bytes l"
  shows "\<exists>c. decode47 l data = Inr c"
proof -
  let ?n = "layout_sections l" and ?b = section_light_bytes47
  obtain ss rest where split: "split47 (lay_bitmap l) data = (ss, rest, None)" "length ss = ?n"
    "length data = ?n * section_block_bytes47 + length rest"
    using split47_from_total [of "[0..<16]" "lay_bitmap l" data] assms
    by (auto simp: split47_def sections_per_column47_def list_all_iff layout_sections_def
        layout_bytes_def Let_def algebra_simps)
  have rest: "length rest = ?n * ?b + (if lay_sky_light l then ?n * ?b else 0) +
      (if lay_ground_up l then biome_bytes47 else 0)"
    using assms split(3) by (simp add: layout_bytes_def Let_def algebra_simps)
  then obtain bl r where light: "read_light47 rest ?n = Inr (bl, r)"
    "length rest = ?n * ?b + length r"
    using read_light47_total [of ?n rest] by auto
  have sky: "\<exists>ls q. read_light47 r ?n = Inr (ls, q) \<and> length r = ?n * ?b + length q"
    if "lay_sky_light l"
    using read_light47_total [of ?n r] rest light(2) that by simp
  show ?thesis
    using assms split(1,2) light rest sky
    by (cases "lay_sky_light l"; cases "lay_ground_up l")
      (auto simp: decode47_def chunk_take_def)
qed

text \<open>
  C28: \<open>Decode47\<close> is a bijection between the columns of a layout and the byte strings of its
  length. For every bitmap, with or without sky light and biomes: it accepts data exactly when it
  has the length \<open>Bytes\<close> computes; what it returns is one 8192-byte range per set bit, in
  ascending height, then the light arrays and the biome map the layout asks for; and these are,
  in order, exactly the bytes of the column.
\<close>

theorem decode47_exact:
  "(decode47 l data = Inr c \<longleftrightarrow> column_ok l c \<and> data = column_wire c) \<and>
   ((\<exists>c. decode47 l data = Inr c) \<longleftrightarrow> length data = layout_bytes l)"
proof (intro conjI iffI)
  show "length data = layout_bytes l" if "\<exists>c. decode47 l data = Inr c"
    using that by (auto dest: decode47_sound column_ok_length)
qed (auto dest: decode47_sound simp: decode47_complete decode47_total)

section \<open>Sections of protocol 47\<close>

text \<open>A block state as the two bytes that carry it, low byte first.\<close>

definition state_bytes :: "i32 \<Rightarrow> bytes" where
  "state_bytes v = [ucast v, ucast (drop_bit 8 v)]"

lemma nth_concat_pairs:
  assumes "i < length vs"
  shows "concat (map state_bytes vs) ! (i * 2) = ucast (vs ! i)"
    and "concat (map state_bytes vs) ! Suc (i * 2) = ucast (drop_bit 8 (vs ! i))"
  using assms
proof (induction vs arbitrary: i)
  case (Cons v vs)
  {
    case 1
    with Cons.IH show ?case by (cases i) (simp_all add: state_bytes_def)
  next
    case 2
    with Cons.IH show ?case by (cases i) (simp_all add: state_bytes_def)
  }
qed simp_all

lemma state_of_bytes:
  assumes "take_bit 16 v = (v :: i32)"
  shows "ucast (ucast v :: byte) OR push_bit 8 (ucast (ucast (drop_bit 8 v) :: byte)) = v"
proof (rule bit_word_eqI)
  fix n assume "n < LENGTH(32)"
  moreover have "bit v n \<Longrightarrow> n < 16" using assms by (metis bit_take_bit_iff)
  ultimately show "bit (ucast (ucast v :: byte) OR
      push_bit 8 (ucast (ucast (drop_bit 8 v) :: byte)) :: i32) n = bit v n"
    by (auto simp: bit_simps)
qed

text \<open>
  \<open>DecodeSection47\<close> reads back exactly the 4096 sixteen-bit block states that were written
  low byte first, whatever follows them, and every state it returns fits sixteen bits.
\<close>

theorem section47_roundtrip:
  assumes "length vs = blocks_per_section" and "\<forall>v \<in> set vs. take_bit 16 v = v"
  shows "decode_section47 (concat (map state_bytes vs) @ rest) = Inr vs"
proof -
  let ?raw = "concat (map state_bytes vs)"
  have len: "length ?raw = section_block_bytes47"
    using assms(1) by (simp add: length_concat comp_def state_bytes_def sum_list_triv
        section_block_bytes47_def)
  have "ucast ((?raw @ rest) ! (i * 2)) OR push_bit 8 (ucast ((?raw @ rest) ! (i * 2 + 1))) = vs ! i"
    if "i < length vs" for i
  proof -
    have "i * 2 + 1 < length ?raw"
      using that len assms(1) by (simp add: section_block_bytes47_def)
    then have "(?raw @ rest) ! (i * 2) = ?raw ! (i * 2)" "(?raw @ rest) ! (i * 2 + 1) = ?raw ! Suc (i * 2)"
      by (simp_all add: nth_append)
    with that assms(2) show ?thesis by (simp add: nth_concat_pairs state_of_bytes)
  qed
  then have "map (\<lambda>i. ucast ((?raw @ rest) ! (i * 2)) OR push_bit 8 (ucast ((?raw @ rest) ! (i * 2 + 1))))
      [0..<length vs] = vs"
    by (intro nth_equalityI) auto
  then show ?thesis using len assms(1) by (simp add: decode_section47_def)
qed

theorem section47_roundtrip_witness:
  "decode_section47 (concat (map state_bytes (replicate blocks_per_section 0x1234))) =
     Inr (replicate blocks_per_section 0x1234)"
  using section47_roundtrip [of "replicate blocks_per_section 0x1234" "[]"]
  by (simp add: take_bit_word_beyond_length_eq)

end
