(* ===== verification/Wire_Framer.thy ===== *)
theory Wire_Framer
  imports Wire_Fields
begin

unbundle bit_operations_syntax

text \<open>
  session.go's \<open>Frame\<close>, wire/java/framer.go and wire/java/frame.go: length-prefixed frames and
  the packet ID at the head of a body. \<open>read_frame\<close>, \<open>build_frame\<close> and \<open>write_frame\<close> are the
  three methods of the Java \<open>framer\<close>; the locale \<open>framer\<close> is what a stream relies on
  (session.go's interface \<open>Framer\<close>).
\<close>

section \<open>Frames\<close>

record frame =
  wire_bytes :: bytes
  payload_offset :: nat

text \<open>\<open>copy(dst[at:], src)\<close>: as many bytes as fit.\<close>

definition copy_at :: "nat \<Rightarrow> bytes \<Rightarrow> bytes \<Rightarrow> bytes" where
  "copy_at at src dst =
     take at dst @ take (length dst - at) src @ drop (at + length src) dst"

lemma length_copy_at [simp]: "at \<le> length dst \<Longrightarrow> length (copy_at at src dst) = length dst"
  by (auto simp: copy_at_def)

lemma copy_two:
  assumes "length xs = n"
  shows "copy_at n ys (copy_at 0 xs (replicate (n + length ys) z)) = xs @ ys"
  using assms by (simp add: copy_at_def)

definition new_frame :: "bytes \<Rightarrow> int \<Rightarrow> frame result" where
  "new_frame w offset =
     (if w = [] then Inl ErrInvalidFrame
      else if offset < 0 then Inl ErrInvalidFrame
      else if int (length w) < offset then Inl ErrInvalidFrame
      else Inr \<lparr>wire_bytes = w, payload_offset = nat offset\<rparr>)"

definition frame_payload :: "frame \<Rightarrow> bytes" where
  "frame_payload f = drop (payload_offset f) (wire_bytes f)"

section \<open>Reading a frame\<close>

text \<open>
  The loop of \<open>readFrameLength\<close>: at most five bytes, an end of input inside the prefix is
  unexpected, and a length written in more bytes than it needs is refused.
\<close>

fun read_frame_length_from :: "nat \<Rightarrow> i32 \<Rightarrow> bytes \<Rightarrow> bytes \<Rightarrow> (i32 \<times> bytes \<times> bytes) result" where
  "read_frame_length_from k acc scratch [] =
     (if 5 \<le> k then Inl ErrVarIntTooLong else Inl (if 0 < k then UnexpectedEOF else EOF))"
| "read_frame_length_from k acc scratch (b # bs) =
     (if 5 \<le> k then Inl ErrVarIntTooLong
      else let acc' = acc OR push_bit (7 * k) (ucast (b AND 0x7F)); scratch' = scratch @ [b]
           in if b AND 0x80 \<noteq> 0 then read_frame_length_from (k + 1) acc' scratch' bs
              else if varint_size acc' \<noteq> k + 1 then Inl ErrVarIntTooLong
              else Inr (acc', scratch', bs))"

definition read_frame_length :: "bytes \<Rightarrow> (i32 \<times> bytes \<times> bytes) result" where
  "read_frame_length bs = read_frame_length_from 0 0 [] bs"

definition read_frame :: "limits \<Rightarrow> bytes \<Rightarrow> (frame \<times> bytes) result" where
  "read_frame lim bs = bindR (read_frame_length bs) (\<lambda>(len, prefix, rest).
     if sint len < 0 then Inl ErrNegativeLength
     else if sint len = 0 then Inl EmptyFrame
     else if frame_bytes lim < sint len then Inl ErrFrameTooLarge
     else bindR (read_full (nat (sint len)) rest) (\<lambda>(payload, rest').
       bindR (new_frame (prefix @ payload) (int (length prefix))) (\<lambda>f. Inr (f, rest'))))"

section \<open>Building and writing a frame\<close>

definition build_frame :: "limits \<Rightarrow> bytes \<Rightarrow> frame result" where
  "build_frame lim payload =
     (if payload = [] then Inl EmptyFrame
      else if frame_bytes lim < int (length payload) then Inl ErrFrameTooLarge
      else let length_bytes = varint_size (int32_of (int (length payload)));
               w = copy_at length_bytes payload
                 (copy_at 0 (put_varint (int32_of (int (length payload))))
                   (replicate (length_bytes + length payload) 0))
           in new_frame w (int length_bytes))"

definition write_frame :: "limits \<Rightarrow> 'w writer \<Rightarrow> 'w \<Rightarrow> frame \<Rightarrow> wire_error option \<times> 'w" where
  "write_frame lim wr w f =
     (if frame_payload f = [] then (Some EmptyFrame, w)
      else if frame_bytes lim < int (length (frame_payload f)) then (Some ErrFrameTooLarge, w)
      else case write_full wr w (wire_bytes f) of (_, e, w') \<Rightarrow> (e, w'))"

section \<open>Packet bodies\<close>

text \<open>The part of \<open>Packet\<close> that is on the wire.\<close>

record raw_packet =
  packet_id :: i32
  packet_payload :: bytes

definition split_packet_body :: "bytes \<Rightarrow> raw_packet result" where
  "split_packet_body body = bindR (read_varint body) (\<lambda>(pid, id_bytes, _).
     Inr \<lparr>packet_id = pid, packet_payload = drop id_bytes body\<rparr>)"

definition join_packet_body :: "raw_packet \<Rightarrow> limits \<Rightarrow> bytes result" where
  "join_packet_body p lim = bindR (validate_limits lim) (\<lambda>_.
     let id_bytes = varint_size (packet_id p) in
     if frame_bytes lim < int id_bytes \<or>
        frame_bytes lim - int id_bytes < int (length (packet_payload p))
     then Inl ErrFrameTooLarge
     else Inr (copy_at id_bytes (packet_payload p)
       (copy_at 0 (put_varint (packet_id p))
         (replicate (id_bytes + length (packet_payload p)) 0))))"

definition read_raw_packet :: "limits \<Rightarrow> bytes \<Rightarrow> (raw_packet \<times> bytes) result" where
  "read_raw_packet lim bs = bindR (validate_limits lim) (\<lambda>_.
     bindR (read_frame lim bs) (\<lambda>(f, rest).
       bindR (split_packet_body (frame_payload f)) (\<lambda>p. Inr (p, rest))))"

definition write_raw_packet ::
  "'w writer \<Rightarrow> limits \<Rightarrow> 'w \<Rightarrow> raw_packet \<Rightarrow> wire_error option \<times> 'w" where
  "write_raw_packet wr lim w p =
     (case bindR (validate_limits lim) (\<lambda>_.
             bindR (join_packet_body p lim) (build_frame lim)) of
        Inl e \<Rightarrow> (Some e, w)
      | Inr f \<Rightarrow> write_frame lim wr w f)"

section \<open>The frame length\<close>

lemma read_frame_length_from_eq:
  assumes "read_var_from 4 e k acc bs = Inr (v, n, rest)" "k \<le> 4"
  shows "read_frame_length_from k acc scratch bs =
    (if varint_size v = n then Inr (v, scratch @ take (n - k) bs, rest) else Inl ErrVarIntTooLong)"
  using assms
proof (induction bs arbitrary: k acc scratch)
  case (Cons b bs)
  show ?case
  proof (cases "b AND 0x80 = 0")
    case True
    with Cons.prems have "v = acc OR push_bit (7 * k) (ucast (b AND 0x7F))" "n = k + 1" "rest = bs"
      by (simp_all only: read_var_from.simps Let_def refl if_True prod.inject sum.inject)
    with True Cons.prems(2) show ?thesis by (simp add: Let_def)
  next
    case False
    with Cons.prems have "k \<noteq> 4" and
      rec: "read_var_from 4 e (k + 1) (acc OR push_bit (7 * k) (ucast (b AND 0x7F))) bs = Inr (v, n, rest)"
      by (auto simp only: read_var_from.simps Let_def if_False split: if_splits)
    with Cons.prems(2) have k: "k + 1 \<le> 4" by simp
    from read_var_groups [OF k rec] have "k + 1 < n"
      by (auto dest: complete_groups_nonempty)
    then have "take (n - k) (b # bs) = b # take (n - (k + 1)) bs"
      by (metis Suc_diff_Suc Suc_eq_plus1 Suc_lessD take_Suc_Cons)
    with False k Cons.IH [OF rec k, of "scratch @ [b]"] show ?thesis
      by (simp add: Let_def)
  qed
qed simp

lemma read_frame_length_from_5 [simp]:
  "5 \<le> k \<Longrightarrow> read_frame_length_from k acc scratch bs = Inl ErrVarIntTooLong"
  by (cases bs) auto

lemma read_frame_length_Inr:
  assumes "read_frame_length_from k acc scratch bs = Inr (v, prefix, rest)" "k \<le> 4"
  shows "\<exists>n. read_var_from 4 ErrVarIntTooLong k acc bs = Inr (v, n, rest) \<and> varint_size v = n
    \<and> prefix = scratch @ take (n - k) bs"
proof (cases "read_var_from 4 ErrVarIntTooLong k acc bs")
  case (Inl e)
  have "read_frame_length_from k acc scratch bs \<noteq> Inr (v, prefix, rest)"
    using Inl assms(2)
  proof (induction bs arbitrary: k acc scratch)
    case (Cons b bs)
    show ?case
    proof (cases "k = 4")
      case True
      with Cons.prems show ?thesis by (auto simp: Let_def split: if_splits)
    next
      case False
      with Cons.prems have "k + 1 \<le> 4" by simp
      with Cons.prems False Cons.IH [OF _ this] show ?thesis
        by (simp add: Let_def split: if_splits)
    qed
  qed simp
  with assms(1) show ?thesis by simp
next
  case (Inr r)
  then show ?thesis
    using assms read_frame_length_from_eq [of ErrVarIntTooLong k acc bs _ _ _ scratch]
    by (cases r) (auto split: if_splits)
qed

lemma read_frame_length_put:
  "read_frame_length (put_varint v @ rest) = Inr (v, put_varint v, rest)"
  using read_frame_length_from_eq [of ErrVarIntTooLong 0 0 "put_varint v @ rest" v
      "length (put_varint v)" rest "[]"] read_varint_put_varint [of v rest]
  by (simp add: read_frame_length_def varint_size_length read_varint_def)

section \<open>Reading is the inverse of building\<close>

lemma build_frame_Inr_iff:
  assumes "limits_ok lim"
  shows "build_frame lim payload = Inr f \<longleftrightarrow>
    payload \<noteq> [] \<and> int (length payload) \<le> frame_bytes lim \<and>
    f = \<lparr>wire_bytes = prefixed payload, payload_offset = varint_size (int32_of (int (length payload)))\<rparr>"
proof -
  have "copy_at (varint_size v) payload
      (copy_at 0 (put_varint v) (replicate (varint_size v + length payload) 0)) =
      put_varint v @ payload" for v
    by (rule copy_two) (simp add: varint_size_length)
  then show ?thesis
    by (auto simp: build_frame_def new_frame_def prefixed_def varint_size_length Let_def)
qed

lemma frame_payload_build:
  assumes "limits_ok lim" "build_frame lim payload = Inr f"
  shows "frame_payload f = payload"
  using assms by (auto simp: build_frame_Inr_iff frame_payload_def prefixed_def varint_size_length)

lemma read_frame_build:
  assumes "limits_ok lim" "build_frame lim payload = Inr f"
  shows "read_frame lim (wire_bytes f @ rest) = Inr (f, rest)"
  using assms limits_okD(3) [OF assms(1)]
  by (auto simp: build_frame_Inr_iff read_frame_def prefixed_def read_frame_length_put
      varint_size_length new_frame_def)

lemma build_frame_read:
  assumes ok: "limits_ok lim" and read: "read_frame lim bs = Inr (f, rest)"
  shows "build_frame lim (frame_payload f) = Inr f \<and> bs = wire_bytes f @ rest"
proof -
  from read obtain len prefix rest0 payload where
    len: "read_frame_length bs = Inr (len, prefix, rest0)" and
    range: "0 < sint len" "sint len \<le> frame_bytes lim" and
    full: "read_full (nat (sint len)) rest0 = Inr (payload, rest)" and
    f: "new_frame (prefix @ payload) (int (length prefix)) = Inr f"
    by (auto simp: read_frame_def result_simps not_less le_less)
  from full have rest0: "rest0 = payload @ rest" and payload: "int (length payload) = sint len"
    using range by (auto simp: result_simps)
  from read_frame_length_Inr [OF len [unfolded read_frame_length_def]] obtain n where
    var: "read_varint bs = Inr (len, n, rest0)" and size: "varint_size len = n" and
    prefix: "prefix = take n bs"
    by (auto simp: read_varint_def)
  have "unat len < 2 ^ (7 * Suc 3)"
  proof -
    have "uint len = sint len" using range by (intro sint_eq_uint_i32) simp
    with range limits_okD(3) [OF ok] have "uint len < 2 ^ 28" by simp
    then have "nat (uint len) < nat (2 ^ 28)" by (simp only: zless_nat_conj) simp
    then show ?thesis by simp
  qed
  from length_put_var_le [OF this] size have "n \<le> 4"
    by (simp add: varint_size_length put_varint_def)
  with var size have bs: "bs = put_varint len @ rest0"
    by (intro read_varint_canonical)
  with size prefix have prefix': "prefix = put_varint len"
    by (simp add: varint_size_length)
  have len': "int32_of (int (length payload)) = len"
    by (simp add: payload)
  have f': "f = \<lparr>wire_bytes = prefixed payload, payload_offset = n\<rparr>"
    using f size by (auto simp: new_frame_def prefixed_def varint_size_length prefix' len'
        split: if_splits)
  have "payload \<noteq> []" using payload range by auto
  then show ?thesis
    using ok range payload bs rest0 size f' len'
    by (auto simp: build_frame_Inr_iff frame_payload_def prefixed_def varint_size_length)
qed

section \<open>The interface of a stream\<close>

text \<open>
  session.go's \<open>Framer\<close>: what was built is read back whatever follows it, the payload of a frame
  is what it was built from, and nothing but built frames is accepted.
\<close>

locale framer =
  fixes rd :: "bytes \<Rightarrow> ('f \<times> bytes) result"
    and bld :: "bytes \<Rightarrow> 'f result"
    and body :: "'f \<Rightarrow> bytes"
    and raw :: "'f \<Rightarrow> bytes"
  assumes rd_bld: "bld p = Inr f \<Longrightarrow> rd (raw f @ rest) = Inr (f, rest)"
    and bld_body: "bld p = Inr f \<Longrightarrow> body f = p"
    and rd_built: "rd bs = Inr (f, rest) \<Longrightarrow> bld (body f) = Inr f \<and> bs = raw f @ rest"

sublocale framer \<subseteq> frames: canonical_codec raw rd "\<lambda>f. bld (body f) = Inr f"
  by unfold_locales (auto simp: rd_bld dest: rd_built)

context framer
begin

lemma bodies_in_order:
  assumes "list_all2 (\<lambda>p f. bld p = Inr f) ps fs"
  shows "bindR (decode_n rd (length fs) (concat (map raw fs) @ rest))
    (\<lambda>(gs, rest'). Inr (map body gs, rest')) = Inr (ps, rest)"
proof -
  from assms have "list_all (\<lambda>f. bld (body f) = Inr f) fs"
    by (induction rule: list_all2_induct) (auto dest: bld_body)
  moreover from assms have "map body fs = ps"
    by (induction rule: list_all2_induct) (auto dest: bld_body)
  ultimately show ?thesis by (simp add: frames.decode_n_concat)
qed

end

interpretation java_framer: framer "read_frame (limits_of l)" "build_frame (limits_of l)"
  frame_payload wire_bytes for l
  by unfold_locales
    (auto intro: read_frame_build frame_payload_build [OF limits_of_ok]
      dest: build_frame_read [OF limits_of_ok])

section \<open>Packet bodies\<close>

lemma join_packet_body_Inr:
  assumes "join_packet_body p lim = Inr body"
  shows "body = put_varint (packet_id p) @ packet_payload p" and "int (length body) \<le> frame_bytes lim"
proof -
  have "copy_at (varint_size v) payload
      (copy_at 0 (put_varint v) (replicate (varint_size v + length payload) 0)) =
      put_varint v @ payload" for v payload
    by (rule copy_two) (simp add: varint_size_length)
  then show "body = put_varint (packet_id p) @ packet_payload p" "int (length body) \<le> frame_bytes lim"
    using assms by (auto simp: join_packet_body_def result_simps Let_def varint_size_length)
qed

lemma split_join: "join_packet_body p lim = Inr body \<Longrightarrow> split_packet_body body = Inr p"
  by (drule join_packet_body_Inr(1)) (simp add: split_packet_body_def read_varint_put_varint)

section \<open>Truncated frames\<close>

lemma put_var_continues:
  "n < length (put_var r) \<Longrightarrow> \<forall>b \<in> set (take n (put_var r)). b AND 0x80 \<noteq> 0"
proof (induction r arbitrary: n rule: put_var.induct)
  case (1 r)
  show ?case
  proof (cases "drop_bit 7 r = 0")
    case True
    from put_var_step(2) [OF True] "1.prems" show ?thesis by simp
  next
    case False
    note step = put_var_step(1) [OF False]
    show ?thesis
    proof (cases n)
      case (Suc m)
      with "1.prems" have "m < length (put_var (drop_bit 7 r))"
        unfolding step by simp
      from "1.IH" [OF refl refl False this] show ?thesis
        by (simp only: Suc step take_Suc_Cons list.set ball_simps group_continues simp_thms)
    qed simp
  qed
qed

lemma read_frame_length_short:
  assumes "\<forall>b \<in> set xs. b AND 0x80 \<noteq> 0" "k + length xs \<le> 4"
  shows "read_frame_length_from k acc scratch xs =
    Inl (if 0 < k + length xs then UnexpectedEOF else EOF)"
  using assms by (induction xs arbitrary: k acc scratch) (auto simp: Let_def)

lemma read_frame_truncated_prefix:
  assumes "n < varint_size v"
  shows "read_frame lim (take n (put_varint v)) = Inl (if n = 0 then EOF else UnexpectedEOF)"
  using assms length_put_varint(2) [of v] put_var_continues [of n v]
    read_frame_length_short [of "take n (put_varint v)" 0]
  by (simp add: read_frame_def read_frame_length_def varint_size_length put_varint_def)

lemma read_frame_truncated_payload:
  assumes ok: "limits_ok lim" and built: "build_frame lim payload = Inr f"
    and n: "payload_offset f \<le> n" "n < length (wire_bytes f)"
  shows "read_frame lim (take n (wire_bytes f)) =
    Inl (if n = payload_offset f then EOF else UnexpectedEOF)"
proof -
  let ?v = "int32_of (int (length payload))"
  from built ok have f: "wire_bytes f = prefixed payload" "payload_offset f = varint_size ?v"
    and fits: "payload \<noteq> []" "int (length payload) \<le> frame_bytes lim"
    by (auto simp: build_frame_Inr_iff)
  from n f have "take n (wire_bytes f) = put_varint ?v @ take (n - varint_size ?v) payload"
    and short: "n - varint_size ?v < length payload"
    by (auto simp: prefixed_def varint_size_length)
  moreover have "read_full (length payload) (take (n - varint_size ?v) payload) =
      Inl (if n = payload_offset f then EOF else UnexpectedEOF)"
    using short n f fits by (auto simp: read_full_def)
  moreover have "sint ?v = int (length payload)"
    using fits limits_okD(3) [OF ok] by simp
  ultimately show ?thesis
    using fits by (simp add: read_frame_def read_frame_length_put)
qed

section \<open>Properties\<close>

text \<open>
  C1: framing is exact. Under any limits \<open>NewLimits\<close> returns, \<open>ReadFrame\<close> accepts precisely
  the frames \<open>BuildFrame\<close> makes, byte for byte, and leaves what follows: no frame has a second
  encoding, although \<open>ReadVarInt\<close> alone accepts over-long ones.
\<close>

theorem read_frame_exact:
  assumes "limits_ok lim"
  shows "read_frame lim bs = Inr (f, rest) \<longleftrightarrow>
    build_frame lim (frame_payload f) = Inr f \<and> bs = wire_bytes f @ rest"
  using java_framer.frames.dec_iff [of "checked lim" bs f rest] limits_of_checked [OF assms] by simp

theorem read_frame_exact_witness:
  "read_frame default_limits ([3, 1, 2, 3] @ [9]) =
    Inr (\<lparr>wire_bytes = [3, 1, 2, 3], payload_offset = 1\<rparr>, [9])"
proof -
  have "build_frame default_limits [1, 2, 3] = Inr \<lparr>wire_bytes = [3, 1, 2, 3], payload_offset = 1\<rparr>"
    by code_simp
  then show ?thesis
    by (subst read_frame_exact [OF limits_ok_default]) (simp add: frame_payload_def)
qed

text \<open>
  C34: a connection that ends inside a frame. Nothing read at all is \<open>EOF\<close>; an end anywhere else
  is \<open>UnexpectedEOF\<close>, except exactly between the length prefix and the payload, where the
  truncated frame is reported as \<open>EOF\<close> too, which the stream takes for a peer that closed.
\<close>

theorem read_frame_truncated:
  assumes "limits_ok lim" and "build_frame lim payload = Inr f" and "n < length (wire_bytes f)"
  shows "read_frame lim (take n (wire_bytes f)) =
    Inl (if n = 0 \<or> n = payload_offset f then EOF else UnexpectedEOF)"
proof (cases "n < payload_offset f")
  case True
  from assms have f: "wire_bytes f = prefixed payload"
    "payload_offset f = varint_size (int32_of (int (length payload)))"
    by (auto simp: build_frame_Inr_iff)
  with True have "take n (wire_bytes f) = take n (put_varint (int32_of (int (length payload))))"
    by (simp add: prefixed_def varint_size_length)
  with read_frame_truncated_prefix True f show ?thesis by simp
next
  case False
  with read_frame_truncated_payload [OF assms(1,2) _ assms(3)] show ?thesis
    using assms(1,2) varint_roundtrip by (auto simp: build_frame_Inr_iff)
qed

theorem read_frame_truncated_witness:
  "read_frame default_limits [3] = Inl EOF \<and> read_frame default_limits [3, 1] = Inl UnexpectedEOF"
proof -
  have "build_frame default_limits [1, 2, 3] = Inr \<lparr>wire_bytes = [3, 1, 2, 3], payload_offset = 1\<rparr>"
    by code_simp
  from read_frame_truncated [OF limits_ok_default this, of 1]
    read_frame_truncated [OF limits_ok_default this, of 2]
  show ?thesis by (simp add: numeral_2_eq_2)
qed

text \<open>
  a packet written with \<open>WriteRawPacket\<close> is read back by \<open>ReadRawPacket\<close> with the same ID
  and payload, whatever follows it on the connection.
\<close>

theorem raw_packet_roundtrip:
  assumes "limits_ok lim" and "write_raw_packet buffer_write lim [] p = (None, out)"
  shows "read_raw_packet lim (out @ rest) = Inr (p, rest)"
proof -
  from assms(2) obtain body f where joined: "join_packet_body p lim = Inr body"
    and built: "build_frame lim body = Inr f" and out: "write_frame lim buffer_write [] f = (None, out)"
    by (auto simp: write_raw_packet_def result_simps split: sum.splits)
  from out have "out = wire_bytes f" by (auto simp: write_frame_def split: if_splits)
  with read_frame_build [OF assms(1) built] frame_payload_build [OF assms(1) built]
    split_join [OF joined] limits_okD(1) [OF assms(1)]
  show ?thesis by (simp add: read_raw_packet_def validate_limits_def)
qed

theorem raw_packet_roundtrip_witness:
  "read_raw_packet default_limits ([3, 5, 1, 2] @ [7]) =
    Inr (\<lparr>packet_id = 5, packet_payload = [1, 2]\<rparr>, [7])"
  by (rule raw_packet_roundtrip [OF limits_ok_default]) code_simp

end
