(* ===== verification/Wire_Compression.thy ===== *)
theory Wire_Compression
  imports Wire_Framer
begin

text \<open>
  wire/java/compression.go: the compression envelope. A frame payload is a data length followed
  by the packet body, plain when the length is zero and one zlib stream otherwise.

  Package compress/zlib is a parameter. A decompressor is what the code observes of one: it does
  not open, or it produces some bytes and then either ends cleanly (checksum verified, with the
  bytes of the source it did not touch) or fails. A compressor is a function from a body to a
  stream. \<open>zlib_agrees\<close> is the documented law between the two; the checks of
  \<open>DecodeCompression\<close> are proved without it, for any decompressor.
\<close>

section \<open>The control\<close>

record compression_validation =
  compressed :: bool
  encoded_size :: int
  decompressed_size :: int
  validated_threshold :: i32

type_synonym compression_policy = "compression_validation \<Rightarrow> wire_error option"

definition strict_compression :: compression_policy where
  "strict_compression v =
     (if compressed v \<and> decompressed_size v < sint (validated_threshold v)
      then Some ErrCompressionPolicy
      else if \<not> compressed v \<and> sint (validated_threshold v) \<le> decompressed_size v
      then Some ErrCompressionPolicy
      else None)"

definition compatible_compression :: compression_policy where
  "compatible_compression v = None"

record compression_control =
  enabled :: bool
  threshold :: i32
  policy :: "compression_policy option"

definition validate_control :: "compression_control \<Rightarrow> unit result" where
  "validate_control c =
     (if \<not> enabled c then Inr ()
      else if sint (threshold c) < 0 then Inl ErrInvalidCompression
      else if Option.is_none (policy c) then Inl ErrInvalidCompression
      else Inr ())"

text \<open>Calling a policy; \<open>validate_control\<close> has excluded the nil one.\<close>

definition check_policy :: "compression_control \<Rightarrow> compression_validation \<Rightarrow> unit result" where
  "check_policy c v =
     (case policy c of
        None \<Rightarrow> Inr ()
      | Some p \<Rightarrow> (case p v of None \<Rightarrow> Inr () | Some e \<Rightarrow> Inl e))"

section \<open>The decompressor\<close>

datatype zlib_end = CleanEnd bytes | CorruptEnd

type_synonym inflater = "bytes \<Rightarrow> (bytes \<times> zlib_end) option"
type_synonym deflater = "bytes \<Rightarrow> bytes"

text \<open>
  \<open>inflateExact\<close>: open the stream, fill a body of the declared size, look for one byte more,
  then for a clean end, then for source bytes after the stream.
\<close>

definition inflate_exact :: "inflater \<Rightarrow> bytes \<Rightarrow> nat \<Rightarrow> bytes result" where
  "inflate_exact inflate envelope n =
     (case inflate envelope of
        None \<Rightarrow> Inl ErrInvalidCompression
      | Some (produced, ending) \<Rightarrow>
          if length produced < n then Inl ErrInvalidCompression
          else if n < length produced then Inl ErrInvalidCompression
          else (case ending of
              CorruptEnd \<Rightarrow> Inl ErrInvalidCompression
            | CleanEnd rest \<Rightarrow> if rest \<noteq> [] then Inl ErrTrailingBytes else Inr (take n produced)))"

section \<open>The envelope\<close>

definition decode_compression ::
  "inflater \<Rightarrow> bytes \<Rightarrow> compression_control \<Rightarrow> limits \<Rightarrow> bytes result" where
  "decode_compression inflate frame_body c lim = bindR (validate_limits lim) (\<lambda>_.
     bindR (validate_control c) (\<lambda>_.
       if \<not> enabled c then Inr frame_body
       else bindR (read_varint frame_body) (\<lambda>(declared, declared_bytes, _).
         let envelope = drop declared_bytes frame_body in
         if sint declared < 0 then Inl ErrNegativeLength
         else if declared = 0 then
           (if decompressed_bytes lim < int (length envelope) then Inl ErrDecompressedTooLarge
            else bindR (check_policy c \<lparr>compressed = False, encoded_size = int (length envelope),
                decompressed_size = int (length envelope), validated_threshold = threshold c\<rparr>) (\<lambda>_.
              Inr envelope))
         else if decompressed_bytes lim < sint declared then Inl ErrDecompressedTooLarge
         else bindR (inflate_exact inflate envelope (nat (sint declared))) (\<lambda>body.
           bindR (check_policy c \<lparr>compressed = True, encoded_size = int (length envelope),
               decompressed_size = int (length body), validated_threshold = threshold c\<rparr>) (\<lambda>_.
             Inr body)))))"

definition encode_compression ::
  "deflater \<Rightarrow> bytes \<Rightarrow> compression_control \<Rightarrow> limits \<Rightarrow> bytes result" where
  "encode_compression deflate body c lim = bindR (validate_limits lim) (\<lambda>_.
     bindR (validate_control c) (\<lambda>_.
       if \<not> enabled c then
         (if frame_bytes lim < int (length body) then Inl ErrFrameTooLarge else Inr body)
       else if decompressed_bytes lim < int (length body) then Inl ErrDecompressedTooLarge
       else if int (length body) < sint (threshold c) then
         (let envelope = copy_at 1 body (copy_at 0 (put_varint 0) (replicate (1 + length body) 0))
          in if frame_bytes lim < int (length envelope) then Inl ErrFrameTooLarge else Inr envelope)
       else let out = put_varint (int32_of (int (length body))) @ deflate body
            in if frame_bytes lim < int (length out) then Inl ErrFrameTooLarge else Inr out))"

text \<open>What package compress/zlib documents: a reader recovers what a writer was given.\<close>

definition zlib_agrees :: "inflater \<Rightarrow> deflater \<Rightarrow> bool" where
  "zlib_agrees inflate deflate \<longleftrightarrow> (\<forall>body. inflate (deflate body) = Some (body, CleanEnd []))"

section \<open>Lemmas\<close>

lemma put_varint_0: "put_varint 0 = [0]"
  by code_simp

lemma read_varint_zero: "read_varint (0 # bs) = Inr (0, 1, bs)"
  using read_varint_put_varint [of 0 bs] by (simp add: put_varint_0)

lemma check_policy_Inr_iff [result_simps]:
  "check_policy c v = Inr u \<longleftrightarrow> (\<forall>p. policy c = Some p \<longrightarrow> p v = None)"
  by (auto simp: check_policy_def split: option.splits)

lemma inflate_exact_Inr_iff [result_simps]:
  "inflate_exact inflate envelope n = Inr body \<longleftrightarrow>
   length body = n \<and> inflate envelope = Some (body, CleanEnd [])"
  by (auto simp: inflate_exact_def split: option.splits zlib_end.splits)

lemma plain_envelope:
  "copy_at 1 body (copy_at 0 (put_varint 0) (replicate (1 + length body) 0)) = 0 # body"
  by (simp add: put_varint_0 copy_at_def)

text \<open>What \<open>DecodeCompression\<close> accepts when the envelope is enabled.\<close>

lemma decode_compression_Inr_iff:
  assumes "valid lim" "validate_control c = Inr ()" "enabled c" "policy c = Some p"
  shows "decode_compression inflate frame_body c lim = Inr body \<longleftrightarrow>
    (case read_varint frame_body of
       Inl e \<Rightarrow> False
     | Inr (declared, n, _) \<Rightarrow> 0 \<le> sint declared \<and>
      int (length body) \<le> decompressed_bytes lim \<and>
      (if declared = 0
       then body = drop n frame_body \<and>
         p \<lparr>compressed = False, encoded_size = int (length body),
           decompressed_size = int (length body), validated_threshold = threshold c\<rparr> = None
       else int (length body) = sint declared \<and>
         inflate (drop n frame_body) = Some (body, CleanEnd []) \<and>
         p \<lparr>compressed = True, encoded_size = int (length (drop n frame_body)),
           decompressed_size = int (length body), validated_threshold = threshold c\<rparr> = None))"
  using assms
  by (cases "read_varint frame_body")
    (auto simp: decode_compression_def validate_limits_def result_simps Let_def not_less
      split: if_splits)

lemma encode_compression_Inr_iff:
  assumes "valid lim" "validate_control c = Inr ()" "enabled c"
  shows "encode_compression deflate body c lim = Inr out \<longleftrightarrow>
    int (length body) \<le> decompressed_bytes lim \<and> int (length out) \<le> frame_bytes lim \<and>
    out = (if int (length body) < sint (threshold c) then 0 # body
           else put_varint (int32_of (int (length body))) @ deflate body)"
  using assms
  by (auto simp: encode_compression_def validate_limits_def result_simps Let_def not_less
      plain_envelope [simplified] split: if_splits)

section \<open>A compressor that stores\<close>

text \<open>
  The zlib format with stored blocks only (RFC 1950 with compression level 0), as a concrete
  compressor and decompressor that satisfy the law.
\<close>

fun adler_from :: "int \<Rightarrow> int \<Rightarrow> bytes \<Rightarrow> i32" where
  "adler_from a b [] = word_of_int (b * 65536 + a)"
| "adler_from a b (x # xs) =
     (let a' = (a + uint x) mod 65521 in adler_from a' ((b + a') mod 65521) xs)"

function stored_blocks :: "bytes \<Rightarrow> bytes" where
  "stored_blocks body =
     (if int (length body) \<le> 65535
      then 1 # be_bytes 2 (word_of_int (int (length body)) :: 16 word) @ body
      else 0 # be_bytes 2 (65535 :: 16 word) @ take 65535 body @ stored_blocks (drop 65535 body))"
  by pat_completeness auto
termination
  by (relation "measure length") auto

declare stored_blocks.simps [simp del]

definition stored_deflate :: deflater where
  "stored_deflate body = 0x78 # 0x01 # stored_blocks body @ be_bytes 4 (adler_from 1 0 body)"

fun unstore :: "nat \<Rightarrow> bytes \<Rightarrow> bytes \<times> zlib_end" where
  "unstore (Suc fuel) (flag # bs) =
     (case read_u16 bs of
        Inl _ \<Rightarrow> ([], CorruptEnd)
      | Inr (n, rest) \<Rightarrow>
          if int (length rest) < uint n then (rest, CorruptEnd)
          else if flag = 0 then
            (case unstore fuel (drop (unat n) rest) of (tail, e) \<Rightarrow> (take (unat n) rest @ tail, e))
          else (take (unat n) rest, CleanEnd (drop (unat n) rest)))"
| "unstore _ _ = ([], CorruptEnd)"

definition stored_inflate :: inflater where
  "stored_inflate bs =
     (if take 2 bs \<noteq> [0x78, 0x01] then None
      else case unstore (length bs) (drop 2 bs) of
          (body, CorruptEnd) \<Rightarrow> Some (body, CorruptEnd)
        | (body, CleanEnd tail) \<Rightarrow>
            (case read_u32 tail of
               Inl _ \<Rightarrow> Some (body, CorruptEnd)
             | Inr (check, rest) \<Rightarrow>
                 Some (body, if check = adler_from 1 0 body then CleanEnd rest else CorruptEnd)))"

lemma unstore_stored_blocks:
  "length (stored_blocks body) \<le> fuel \<Longrightarrow>
   unstore fuel (stored_blocks body @ rest) = (body, CleanEnd rest)"
proof (induction body arbitrary: fuel rule: stored_blocks.induct)
  case (1 body)
  have u16: "read_u16 (be_bytes 2 n @ bs) = Inr (n, bs)" for n bs
    by (rule u16.dec_enc) simp
  obtain m where fuel: "fuel = Suc m"
    using "1.prems" by (cases fuel) (auto simp: stored_blocks.simps [of body] split: if_splits)
  show ?case
  proof (cases "int (length body) \<le> 65535")
    case True
    then have "uint (word_of_int (int (length body)) :: 16 word) = int (length body)"
      by (simp only: uint_word_of_int_eq) (rule take_bit_int_eq_self, simp_all)
    with True fuel u16 show ?thesis
      by (simp add: stored_blocks.simps [of body] flip: nat_uint_eq)
  next
    case False
    moreover have "unstore m (stored_blocks (drop 65535 body) @ rest) = (drop 65535 body, CleanEnd rest)"
      using "1.prems" False fuel
      by (intro "1.IH") (auto simp: stored_blocks.simps [of body])
    ultimately show ?thesis
      using fuel u16 by (simp add: stored_blocks.simps [of body])
  qed
qed

lemma zlib_agrees_stored: "zlib_agrees stored_inflate stored_deflate"
  by (simp add: zlib_agrees_def stored_inflate_def stored_deflate_def unstore_stored_blocks
      u32.dec_enc_Nil)

text \<open>The envelope and its inverse.\<close>

lemma compression_inverse:
  assumes "limits_ok lim" and "zlib_agrees inflate deflate"
    and "policy c = Some strict_compression \<or> policy c = Some compatible_compression"
    and "encode_compression deflate body c lim = Inr out"
    and "\<not> (enabled c \<and> threshold c = 0 \<and> body = [])"
  shows "int (length out) \<le> frame_bytes lim \<and>
    decode_compression inflate out c lim = Inr body"
proof (cases "enabled c")
  case False
  with assms(4) show ?thesis
    by (auto simp: encode_compression_def decode_compression_def result_simps)
next
  case True
  from assms(4) have c: "valid lim" "validate_control c = Inr ()"
    by (auto simp: encode_compression_def validate_limits_def result_simps)
  from c(2) True have t: "0 \<le> sint (threshold c)"
    by (auto simp: validate_control_def split: if_splits)
  note enc = assms(4) [unfolded encode_compression_Inr_iff [OF c True]]
  from enc limits_okD(5) [OF assms(1)] have len: "int (length body) < 2 ^ 31" by simp
  have zero: "int32_of (int (length body)) = 0 \<longleftrightarrow> body = []"
    using len sint_int32_of [of "int (length body)"] by (auto simp: int32_of_def)
  have sint_zero: "sint (threshold c) = 0 \<longleftrightarrow> threshold c = 0"
    by (rule signed_eq_0_iff)
  from assms(3) obtain p where p: "policy c = Some p"
    and "p = strict_compression \<or> p = compatible_compression" by auto
  then have strict: "p v = None" if "compressed v \<longleftrightarrow> sint (validated_threshold v) \<le> decompressed_size v" for v
    using that by (auto simp: strict_compression_def compatible_compression_def)
  show ?thesis
  proof (cases "int (length body) < sint (threshold c)")
    case True
    with enc have "out = 0 # body" by simp
    with enc True strict show ?thesis
      by (simp add: decode_compression_Inr_iff [OF c \<open>enabled c\<close> p] read_varint_zero)
  next
    case False
    with assms(5) \<open>enabled c\<close> t sint_zero have "body \<noteq> []" by auto
    have out: "int (length out) \<le> frame_bytes lim"
      and "out = put_varint (int32_of (int (length body))) @ deflate body"
      using enc False by (metis, metis)
    with \<open>body \<noteq> []\<close> False enc strict len zero assms(2) out show ?thesis
      by (simp add: decode_compression_Inr_iff [OF c \<open>enabled c\<close> p] read_varint_put_varint
          zlib_agrees_def)
  qed
qed

section \<open>Properties\<close>

text \<open>
  C9: nothing a peer sends gets past the envelope checks, whatever bytes its zlib stream is made of. A body that
  \<open>DecodeCompression\<close> returns is within the decompressed limit; it was either plain, or exactly
  the declared length, from a stream that ended cleanly at the end of the envelope; and under the
  strict policy it was compressed exactly when it reaches the threshold.
\<close>

theorem decode_compression_safe:
  assumes "enabled c" and "decode_compression inflate frame_body c lim = Inr body"
  shows "int (length body) \<le> decompressed_bytes lim \<and>
    (\<exists>declared n rest. read_varint frame_body = Inr (declared, n, rest) \<and>
      (declared = 0 \<and> body = drop n frame_body \<or>
       int (length body) = sint declared \<and> 0 < sint declared \<and>
         inflate (drop n frame_body) = Some (body, CleanEnd [])) \<and>
      (policy c = Some strict_compression \<longrightarrow>
        (declared \<noteq> 0 \<longleftrightarrow> sint (threshold c) \<le> int (length body))))"
proof -
  from assms(2) have c: "valid lim" "validate_control c = Inr ()"
    by (auto simp: decode_compression_def validate_limits_def result_simps)
  with assms(1) obtain p where p: "policy c = Some p"
    by (cases "policy c") (auto simp: validate_control_def split: if_splits)
  from assms(2) [unfolded decode_compression_Inr_iff [OF c assms(1) p]]
  show ?thesis
    by (auto simp: p strict_compression_def order_le_less signed_eq_0_iff split: sum.splits if_splits)
qed

theorem decode_compression_safe_witness:
  "int (length [7, 8 :: byte]) \<le> decompressed_bytes default_limits"
proof -
  let ?c = "\<lparr>enabled = True, threshold = 2, policy = Some strict_compression\<rparr>"
  have "decode_compression stored_inflate (2 # stored_deflate [7, 8]) ?c default_limits = Inr [7, 8]"
    by code_simp
  from decode_compression_safe [OF _ this] show ?thesis by simp
qed

text \<open>
  C25: the envelope round trip. Whatever \<open>EncodeCompression\<close> produces fits the frame limit and is
  decoded to the same body by a peer with the same control under the strict or the compatible
  policy, for every compressor that package zlib's reader undoes; the one exception is an empty
  body under threshold zero, whose data length 0 announces a plain body.
\<close>

theorem compression_roundtrip:
  assumes "limits_ok lim" and "zlib_agrees inflate deflate"
    and "policy c = Some strict_compression \<or> policy c = Some compatible_compression"
    and "encode_compression deflate body c lim = Inr out"
    and "\<not> (enabled c \<and> threshold c = 0 \<and> body = [])"
  shows "int (length out) \<le> frame_bytes lim \<and>
    decode_compression inflate out c lim = Inr body"
  by (rule compression_inverse [OF assms])

theorem compression_roundtrip_witness:
  "decode_compression stored_inflate (3 # stored_deflate [7, 8, 9])
     \<lparr>enabled = True, threshold = 2, policy = Some strict_compression\<rparr> default_limits = Inr [7, 8, 9]"
  (is "decode_compression _ ?out ?c _ = _")
proof -
  have "encode_compression stored_deflate [7, 8, 9] ?c default_limits = Inr ?out"
    by code_simp
  from compression_roundtrip [OF limits_ok_default zlib_agrees_stored _ this]
  show ?thesis by simp
qed

end
