(* ===== verification/Wire_Cipher.thy ===== *)
theory Wire_Cipher
  imports Wire_Prelude
begin

unbundle bit_operations_syntax

text \<open>
  wire/java/cfb8.go and wire/java/secret.go: the CFB8 stream cipher and the session key.
  \<open>cfb8\<close> is the struct, \<open>xor_key_stream\<close> the method of Go's \<open>cipher.Stream\<close> interface. The block
  cipher is the \<open>cipher.Block\<close> the constructor takes: a parameter, the function \<open>Encrypt\<close>
  computes on one block. Nothing about it is needed for what is proved here.

  The locale \<open>stream_cipher\<close> is the \<open>cipher.Stream\<close> interface as the conduit uses it.
\<close>

section \<open>CFB8\<close>

type_synonym block_cipher = "bytes \<Rightarrow> bytes"

record cfb8 =
  register :: bytes
  key_stream :: bytes
  decrypting :: bool

text \<open>The register is a zeroed block into which the IV is copied, as much of it as fits.\<close>

definition new_cfb8 :: "nat \<Rightarrow> bytes \<Rightarrow> bool \<Rightarrow> cfb8" where
  "new_cfb8 block_size iv dec =
     \<lparr>register = take block_size iv @ replicate (block_size - length iv) 0,
      key_stream = replicate block_size 0, decrypting = dec\<rparr>"

definition new_cfb8_encrypter :: "nat \<Rightarrow> bytes \<Rightarrow> cfb8" where
  "new_cfb8_encrypter block_size iv = new_cfb8 block_size iv False"

definition new_cfb8_decrypter :: "nat \<Rightarrow> bytes \<Rightarrow> cfb8" where
  "new_cfb8_decrypter block_size iv = new_cfb8 block_size iv True"

text \<open>
  One turn of the loop: encrypt the register, mask the input with the first byte, shift the
  register by one and put the ciphertext byte in its last place.
\<close>

definition cfb8_byte :: "block_cipher \<Rightarrow> cfb8 \<Rightarrow> byte \<Rightarrow> byte \<times> cfb8" where
  "cfb8_byte block c input =
     (let ks = block (register c);
          output = input XOR ks ! 0;
          fed = (if decrypting c then input else output)
      in (output, c\<lparr>register := tl (register c) @ [fed], key_stream := ks\<rparr>))"

fun xor_key_stream :: "block_cipher \<Rightarrow> cfb8 \<Rightarrow> bytes \<Rightarrow> bytes \<times> cfb8" where
  "xor_key_stream block c [] = ([], c)"
| "xor_key_stream block c (input # src) =
     (case cfb8_byte block c input of (output, c') \<Rightarrow>
        case xor_key_stream block c' src of (dst, c'') \<Rightarrow> (output # dst, c''))"

section \<open>The interface of a stream cipher\<close>

text \<open>Feeding a stream one slice after the other.\<close>

fun xor_slices :: "('s \<Rightarrow> bytes \<Rightarrow> bytes \<times> 's) \<Rightarrow> 's \<Rightarrow> bytes list \<Rightarrow> bytes list \<times> 's" where
  "xor_slices stream s [] = ([], s)"
| "xor_slices stream s (xs # xss) =
     (case stream s xs of (ys, t) \<Rightarrow> case xor_slices stream t xss of (yss, u) \<Rightarrow> (ys # yss, u))"

locale stream_cipher =
  fixes stream :: "'s \<Rightarrow> bytes \<Rightarrow> bytes \<times> 's"
  assumes xor_Nil: "stream s [] = ([], s)"
    and xor_append:
      "stream s (xs @ ys) = (case stream s xs of (us, t) \<Rightarrow> case stream t ys of (vs, u) \<Rightarrow> (us @ vs, u))"
    and xor_length: "length (fst (stream s xs)) = length xs"
begin

lemma xor_slices_concat:
  "concat (fst (xor_slices stream s xss)) = fst (stream s (concat xss)) \<and>
   snd (xor_slices stream s xss) = snd (stream s (concat xss))"
proof (induction xss arbitrary: s)
  case (Cons xs xss)
  show ?case
    using Cons.IH [of "snd (stream s xs)"]
    by (cases "stream s xs"; cases "xor_slices stream (snd (stream s xs)) xss";
        cases "stream (snd (stream s xs)) (concat xss)") (simp add: xor_append)
qed (simp add: xor_Nil)

lemma xor_take:
  "n \<le> length xs \<Longrightarrow> take n (fst (stream s xs)) = fst (stream s (take n xs))"
  using xor_append [of s "take n xs" "drop n xs"] xor_length [of s "take n xs"]
  by (cases "stream s (take n xs)"; cases "stream (snd (stream s (take n xs))) (drop n xs)") simp

end

lemma cfb8_append:
  "xor_key_stream block c (xs @ ys) =
    (case xor_key_stream block c xs of (us, d) \<Rightarrow>
      case xor_key_stream block d ys of (vs, e) \<Rightarrow> (us @ vs, e))"
  by (induction xs arbitrary: c) (simp_all split: prod.splits)

lemma cfb8_length: "length (fst (xor_key_stream block c xs)) = length xs"
  by (induction xs arbitrary: c) (simp_all split: prod.splits, metis fst_conv)

interpretation cfb8: stream_cipher "xor_key_stream block" for block
  by unfold_locales (simp_all add: cfb8_append cfb8_length)

section \<open>The register\<close>

lemma cfb8_byte_sel:
  assumes "cfb8_byte block c x = (y, d)"
  shows "decrypting d = decrypting c"
    and "register d = tl (register c) @ [if decrypting c then x else y]"
    and "y = x XOR block (register c) ! 0"
  using assms by (auto simp: cfb8_byte_def Let_def)

text \<open>Only the register and the direction matter.\<close>

lemma cfb8_same_output:
  assumes "register c = register d" "decrypting c = decrypting d"
  shows "fst (xor_key_stream block c xs) = fst (xor_key_stream block d xs)"
  using assms
proof (induction xs arbitrary: c d)
  case (Cons x xs)
  obtain y c' z d' where step: "cfb8_byte block c x = (y, c')" "cfb8_byte block d x = (z, d')"
    by (cases "cfb8_byte block c x"; cases "cfb8_byte block d x")
  from Cons.prems have "y = z" "register c' = register d'" "decrypting c' = decrypting d'"
    using cfb8_byte_sel [OF step(1)] cfb8_byte_sel [OF step(2)] by auto
  with Cons.IH [of c' d'] step show ?case by (auto split: prod.splits)
qed simp

text \<open>After a decryption the register holds the last bytes of what went in.\<close>

lemma cfb8_decrypt_register:
  assumes "decrypting c" "register c \<noteq> []"
  shows "register (snd (xor_key_stream block c xs)) = drop (length xs) (register c @ xs) \<and>
    decrypting (snd (xor_key_stream block c xs))"
  using assms
proof (induction xs arbitrary: c)
  case (Cons x xs)
  obtain y d where step: "cfb8_byte block c x = (y, d)" by (cases "cfb8_byte block c x")
  note d = cfb8_byte_sel [OF step]
  have "drop (Suc (length xs)) (register c @ x # xs) = drop (length xs) (register d @ xs)"
    using Cons.prems d by (cases "register c") simp_all
  moreover have "register d \<noteq> []" using d by simp
  ultimately show ?case
    using Cons.IH [of d] Cons.prems(1) d(1) step
    by (cases "xor_key_stream block d xs") (simp del: drop_append)
qed simp

lemma cfb8_decrypt_encrypt:
  assumes "register c = register d" "\<not> decrypting c" "decrypting d"
  shows "fst (xor_key_stream block d (fst (xor_key_stream block c xs))) = xs"
  using assms
proof (induction xs arbitrary: c d)
  case (Cons x xs)
  obtain y c' where c: "cfb8_byte block c x = (y, c')" by (cases "cfb8_byte block c x")
  obtain z d' where d: "cfb8_byte block d y = (z, d')" by (cases "cfb8_byte block d y")
  note sel = cfb8_byte_sel [OF c] cfb8_byte_sel [OF d]
  have "z = x"
    unfolding sel(3) sel(6) Cons.prems(1) by (simp add: xor.assoc)
  moreover from sel Cons.prems have "register c' = register d'" "\<not> decrypting c'" "decrypting d'"
    by auto
  ultimately show ?case
    using Cons.IH [of c' d'] c d by (auto split: prod.splits)
qed simp

section \<open>The session key\<close>

definition shared_secret_bytes :: nat where
  "shared_secret_bytes = 16"

text \<open>\<open>SharedSecret\<close> wraps an array of sixteen bytes; a list of that length is its value.\<close>

definition shared_secret_from :: "bytes \<Rightarrow> bytes result" where
  "shared_secret_from key =
     (if length key \<noteq> shared_secret_bytes then Inl ErrInvalidSharedSecret else Inr key)"

text \<open>The system source is a parameter: what it fills the array with, or its error.\<close>

definition new_shared_secret :: "(nat \<Rightarrow> bytes result) \<Rightarrow> bytes result" where
  "new_shared_secret random = random shared_secret_bytes"

definition reveal :: "bytes \<Rightarrow> bytes" where
  "reveal secret = take shared_secret_bytes secret"

definition secret_is_zero :: "bytes \<Rightarrow> bool" where
  "secret_is_zero secret \<longleftrightarrow> secret = replicate shared_secret_bytes 0"

definition redacted :: string where
  "redacted = ''java.SharedSecret(redacted)''"

definition secret_string :: "bytes \<Rightarrow> string" where
  "secret_string secret = redacted"

section \<open>Properties\<close>

text \<open>
  the cipher round trip. With any block cipher, IV and block size, and however sender and
  receiver slice the stream, the receiver's decrypter recovers the sender's bytes.
\<close>

theorem cfb8_roundtrip:
  assumes "concat received =
    concat (fst (xor_slices (xor_key_stream block) (new_cfb8_encrypter n iv) sent))"
  shows "concat (fst (xor_slices (xor_key_stream block) (new_cfb8_decrypter n iv) received)) =
    concat sent"
  using cfb8_decrypt_encrypt [of "new_cfb8_encrypter n iv" "new_cfb8_decrypter n iv" block "concat sent"]
    cfb8.xor_slices_concat [of block "new_cfb8_encrypter n iv" sent]
    cfb8.xor_slices_concat [of block "new_cfb8_decrypter n iv" received] assms
  by (simp add: new_cfb8_encrypter_def new_cfb8_decrypter_def new_cfb8_def)

theorem cfb8_roundtrip_witness:
  "concat (fst (xor_slices (xor_key_stream rev) (new_cfb8_decrypter 2 [5, 6]) [[7], [5, 1]])) = [1, 2, 4]"
proof -
  have "concat [[7], [5, 1]] =
      concat (fst (xor_slices (xor_key_stream rev) (new_cfb8_encrypter 2 [5, 6]) [[1, 2], [4]]))"
    by code_simp
  from cfb8_roundtrip [OF this] show ?thesis by simp
qed

text \<open>
  CFB8 resynchronises. Two decrypters that disagree on everything before agree on every byte
  after the first block of ciphertext: a wrong IV or a lost prefix damages one block and no more.
\<close>

theorem cfb8_resync:
  assumes "0 < n" and "length iv = n" and "length iv' = n"
  shows "drop n (fst (xor_key_stream block (new_cfb8_decrypter n iv) cipher)) =
    drop n (fst (xor_key_stream block (new_cfb8_decrypter n iv') cipher))"
proof (cases "n \<le> length cipher")
  case True
  let ?run = "\<lambda>v. xor_key_stream block (new_cfb8_decrypter n v)"
  let ?reg = "\<lambda>v. snd (?run v (take n cipher))"
  have split: "drop n (fst (?run v cipher)) = fst (xor_key_stream block (?reg v) (drop n cipher))" for v
    using cfb8_append [of block "new_cfb8_decrypter n v" "take n cipher" "drop n cipher"] True
      cfb8_length [of block "new_cfb8_decrypter n v" "take n cipher"]
    by (simp split: prod.splits)
  have "register (?reg v) = take n cipher \<and> decrypting (?reg v)" if "length v = n" for v
    using cfb8_decrypt_register [of "new_cfb8_decrypter n v" block "take n cipher"] that assms(1) True
    by (auto simp: new_cfb8_decrypter_def new_cfb8_def)
  with assms show ?thesis
    unfolding split by (intro cfb8_same_output) simp_all
qed (simp add: cfb8_length)

theorem cfb8_resync_witness:
  "drop 2 (fst (xor_key_stream rev (new_cfb8_decrypter 2 [0, 0]) [7, 7, 3])) =
    drop 2 (fst (xor_key_stream rev (new_cfb8_decrypter 2 [5, 6]) [7, 7, 3]))"
  by (rule cfb8_resync) simp_all

end
