(* ===== verification/Stream_Conduit.thy ===== *)
theory Stream_Conduit
  imports Wire_Cipher Wire_IO
begin

text \<open>
  conduit.go, transport.go's byte stage, and the encryption control of wire/java/encryption.go:
  the stage between a transport and the pumps of a stream. \<open>conduit\<close> is the struct, with the
  \<open>bufio.Reader\<close> as the bytes it holds and the reads the transport has still to give.

  \<open>Conduit.Read\<close> takes its lock only after the transport read has returned, so a cipher can be
  installed between the two. It is two steps here, \<open>conduit_fetch\<close> and \<open>conduit_commit\<close>, and the
  bytes the reader has in hand between them are a field; \<open>conduit_read\<close> is the call that nothing
  interrupts. \<open>conduit_event\<close> is one step of whichever goroutine moves.
\<close>

section \<open>The buffered reader\<close>

definition bufio_size :: nat where
  "bufio_size = 4096"

text \<open>
  One read of the transport: some of the next segment, and EOF once there is none. How the bytes
  are cut into segments is what the network chose.
\<close>

fun transport_read :: "nat \<Rightarrow> bytes list \<Rightarrow> bytes \<times> wire_error option \<times> bytes list" where
  "transport_read n [] = ([], Some EOF, [])"
| "transport_read n (seg # segs) =
     (take n seg, None, if length seg \<le> n then segs else drop n seg # segs)"

text \<open>\<open>bufio.Reader.Read\<close>: what it returns, then the bytes it holds and the segments left.\<close>

definition bufio_read ::
  "nat \<Rightarrow> bytes \<Rightarrow> bytes list \<Rightarrow> bytes \<times> wire_error option \<times> bytes \<times> bytes list" where
  "bufio_read n held segs =
     (if n = 0 then ([], None, held, segs)
      else if held \<noteq> [] then (take n held, None, drop n held, segs)
      else if bufio_size \<le> n then
        (case transport_read n segs of (data, e, segs') \<Rightarrow> (data, e, [], segs'))
      else (case transport_read bufio_size segs of (data, e, segs') \<Rightarrow>
          if data = [] then ([], e, [], segs') else (take n data, None, drop n data, segs')))"

text \<open>\<open>bufio.Reader.Peek\<close>: fill until enough is held, the buffer is full or the source ends.\<close>

fun bufio_peek :: "nat \<Rightarrow> bytes \<Rightarrow> bytes list \<Rightarrow> bytes \<times> bytes list" where
  "bufio_peek n held [] = (held, [])"
| "bufio_peek n held (seg # segs) =
     (if n \<le> length held \<or> bufio_size \<le> length held then (held, seg # segs)
      else let room = bufio_size - length held in
        if length seg \<le> room then bufio_peek n (held @ seg) segs
        else (held @ take room seg, drop room seg # segs))"

section \<open>The conduit\<close>

record ('s, 'w) conduit =
  held :: bytes
  segments :: "bytes list"
  in_hand :: "(bytes \<times> wire_error option) option"
  sink :: 'w
  decrypt :: "'s option"
  encrypt :: "'s option"
  pending :: nat

definition new_conduit :: "bytes list \<Rightarrow> 'w \<Rightarrow> ('s, 'w) conduit" where
  "new_conduit segs w = \<lparr>held = [], segments = segs, in_hand = None, sink = w,
     decrypt = None, encrypt = None, pending = 0\<rparr>"

definition conduit_fetch :: "nat \<Rightarrow> ('s, 'w) conduit \<Rightarrow> ('s, 'w) conduit" where
  "conduit_fetch n c =
     (case bufio_read n (held c) (segments c) of (data, e, rest, segs) \<Rightarrow>
        c\<lparr>held := rest, segments := segs, in_hand := Some (data, e)\<rparr>)"

type_synonym 's cipher_stream = "'s \<Rightarrow> bytes \<Rightarrow> bytes \<times> 's"

definition conduit_commit ::
  "'s cipher_stream \<Rightarrow> ('s, 'w) conduit \<Rightarrow> (bytes \<times> wire_error option) \<times> ('s, 'w) conduit" where
  "conduit_commit xor_stream c =
     (case in_hand c of
        None \<Rightarrow> (([], None), c)
      | Some (data, e) \<Rightarrow>
          (case decrypt c of
             Some d \<Rightarrow>
               if data \<noteq> [] then
                 (case xor_stream d data of (plain, d') \<Rightarrow>
                   ((plain, e), c\<lparr>decrypt := Some d', in_hand := None, pending := length (held c)\<rparr>))
               else ((data, e), c\<lparr>in_hand := None, pending := length (held c)\<rparr>)
           | None \<Rightarrow> ((data, e), c\<lparr>in_hand := None, pending := length (held c)\<rparr>)))"

definition conduit_read ::
  "'s cipher_stream \<Rightarrow> nat \<Rightarrow> ('s, 'w) conduit \<Rightarrow> (bytes \<times> wire_error option) \<times> ('s, 'w) conduit" where
  "conduit_read xor_stream n c = conduit_commit xor_stream (conduit_fetch n c)"

definition conduit_write ::
  "'s cipher_stream \<Rightarrow> 'w writer \<Rightarrow> bytes \<Rightarrow> ('s, 'w) conduit \<Rightarrow>
   nat \<times> wire_error option \<times> ('s, 'w) conduit" where
  "conduit_write xor_stream wr p c =
     (case encrypt c of
        None \<Rightarrow> (case wr (sink c) p of (n, e, w) \<Rightarrow> (n, e, c\<lparr>sink := w\<rparr>))
      | Some s \<Rightarrow>
          (case xor_stream s p of (encrypted, s') \<Rightarrow>
            case wr (sink c) encrypted of (n, e, w) \<Rightarrow> (n, e, c\<lparr>sink := w, encrypt := Some s'\<rparr>)))"

section \<open>Switching\<close>

definition read_switchable :: "('s, 'w) conduit \<Rightarrow> unit result" where
  "read_switchable c = (if 0 < pending c then Inl ErrEncryptionOverrun else Inr ())"

text \<open>A cipher that is \<open>None\<close> is Go's nil.\<close>

definition enable_read_encryption ::
  "'s option \<Rightarrow> ('s, 'w) conduit \<Rightarrow> ('s, 'w) conduit result" where
  "enable_read_encryption d c =
     (if Option.is_none d then Inl ErrEncryptionUnavailable
      else if \<not> Option.is_none (decrypt c) then Inl ErrEncryptionEnabled
      else bindR (read_switchable c) (\<lambda>_. Inr (c\<lparr>decrypt := d\<rparr>)))"

definition enable_write_encryption ::
  "'s option \<Rightarrow> ('s, 'w) conduit \<Rightarrow> ('s, 'w) conduit result" where
  "enable_write_encryption s c =
     (if Option.is_none s then Inl ErrEncryptionUnavailable
      else if \<not> Option.is_none (encrypt c) then Inl ErrEncryptionEnabled
      else Inr (c\<lparr>encrypt := s\<rparr>))"

definition enable_encryption ::
  "'s option \<Rightarrow> 's option \<Rightarrow> ('s, 'w) conduit \<Rightarrow> ('s, 'w) conduit result" where
  "enable_encryption d s c =
     (if Option.is_none d \<or> Option.is_none s then Inl ErrEncryptionUnavailable
      else if \<not> Option.is_none (decrypt c) \<or> \<not> Option.is_none (encrypt c)
      then Inl ErrEncryptionEnabled
      else bindR (read_switchable c) (\<lambda>_. Inr (c\<lparr>decrypt := d, encrypt := s\<rparr>)))"

definition pipeline :: "('s, 'w) conduit \<Rightarrow> (string \<times> bool) list" where
  "pipeline c = [(''encryption.enabled'', \<not> Option.is_none (decrypt c))]"

section \<open>The encryption control\<close>

text \<open>
  \<open>EncryptionHalf\<close> is a byte with three named values; \<open>aes\<close> is the block cipher a key makes,
  package crypto/aes, which accepts every key of sixteen bytes.
\<close>

definition encryption_both :: byte where "encryption_both = 0"
definition encryption_inbound :: byte where "encryption_inbound = 1"
definition encryption_outbound :: byte where "encryption_outbound = 2"

definition half_string :: "byte \<Rightarrow> string" where
  "half_string h =
     (if h = encryption_both then ''both''
      else if h = encryption_inbound then ''inbound''
      else if h = encryption_outbound then ''outbound''
      else ''unknown'')"

definition encryption_control_name :: "byte \<Rightarrow> string" where
  "encryption_control_name h =
     (if h = encryption_both then ''java.encryption'' else ''java.encryption.'' @ half_string h)"

definition apply_transport ::
  "bytes \<Rightarrow> byte \<Rightarrow> (cfb8, 'w) conduit \<Rightarrow> (cfb8, 'w) conduit result" where
  "apply_transport secret half c =
     (if secret_is_zero secret then Inl ErrInvalidSharedSecret
      else let key = reveal secret in
        if half = encryption_inbound then
          enable_read_encryption (Some (new_cfb8_decrypter 16 key)) c
        else if half = encryption_outbound then
          enable_write_encryption (Some (new_cfb8_encrypter 16 key)) c
        else if half = encryption_both then
          enable_encryption (Some (new_cfb8_decrypter 16 key)) (Some (new_cfb8_encrypter 16 key)) c
        else Inl ErrInvalidSharedSecret)"

section \<open>Steps and runs\<close>

text \<open>
  What may happen to a conduit, one atomic step each: the reader's two halves of a read, a hook
  that peeks before framing, a write, and the three switches. A reader that is not where a step
  needs it stays put; a refused switch changes nothing. A run returns the conduit and every byte
  handed to the reader.
\<close>

datatype 's conduit_action =
    Fetch nat
  | Commit
  | Peek nat
  | WriteBytes bytes
  | EnableRead "'s option"
  | EnableWrite "'s option"
  | EnableBoth "'s option" "'s option"

definition installed :: "'c \<Rightarrow> 'c result \<Rightarrow> 'c" where
  "installed c r = (case r of Inl _ \<Rightarrow> c | Inr c' \<Rightarrow> c')"

fun conduit_event ::
  "'s cipher_stream \<Rightarrow> 'w writer \<Rightarrow> 's conduit_action \<Rightarrow>
   ('s, 'w) conduit \<times> bytes \<Rightarrow> ('s, 'w) conduit \<times> bytes" where
  "conduit_event xs wr (Fetch n) (c, out) =
     (if Option.is_none (in_hand c) then conduit_fetch n c else c, out)"
| "conduit_event xs wr Commit (c, out) =
     (case conduit_commit xs c of ((data, _), c') \<Rightarrow> (c', out @ data))"
| "conduit_event xs wr (Peek n) (c, out) =
     (case bufio_peek n (held c) (segments c) of (h, segs) \<Rightarrow> (c\<lparr>held := h, segments := segs\<rparr>, out))"
| "conduit_event xs wr (WriteBytes p) (c, out) = (snd (snd (conduit_write xs wr p c)), out)"
| "conduit_event xs wr (EnableRead d) (c, out) = (installed c (enable_read_encryption d c), out)"
| "conduit_event xs wr (EnableWrite s) (c, out) = (installed c (enable_write_encryption s c), out)"
| "conduit_event xs wr (EnableBoth d s) (c, out) = (installed c (enable_encryption d s c), out)"

fun conduit_run ::
  "'s cipher_stream \<Rightarrow> 'w writer \<Rightarrow> 's conduit_action list \<Rightarrow>
   ('s, 'w) conduit \<times> bytes \<Rightarrow> ('s, 'w) conduit \<times> bytes" where
  "conduit_run xs wr [] st = st"
| "conduit_run xs wr (ev # evs) st = conduit_run xs wr evs (conduit_event xs wr ev st)"

text \<open>A sender: one write after the other into a sink that takes everything.\<close>

fun conduit_send :: "'s cipher_stream \<Rightarrow> bytes list \<Rightarrow> ('s, bytes) conduit \<Rightarrow> ('s, bytes) conduit" where
  "conduit_send xs [] c = c"
| "conduit_send xs (p # ps) c = conduit_send xs ps (snd (snd (conduit_write xs buffer_write p c)))"

section \<open>No byte is lost\<close>

text \<open>Every byte on its way to the reader, in order.\<close>

definition inbound :: "('s, 'w) conduit \<Rightarrow> bytes" where
  "inbound c = (case in_hand c of None \<Rightarrow> [] | Some (data, _) \<Rightarrow> data) @ held c @ concat (segments c)"

lemma transport_read_inbound:
  "transport_read n segs = (data, e, segs') \<Longrightarrow> data @ concat segs' = concat segs"
  by (cases segs) (auto split: if_splits)

lemma bufio_read_inbound:
  "bufio_read n h segs = (data, e, h', segs') \<Longrightarrow> data @ h' @ concat segs' = h @ concat segs"
  by (auto simp: bufio_read_def split: if_splits prod.splits dest!: transport_read_inbound)
    (metis append_assoc append_take_drop_id)

lemma bufio_peek_inbound:
  "bufio_peek n h segs = (h', segs') \<Longrightarrow> h' @ concat segs' = h @ concat segs"
  by (induction n h segs rule: bufio_peek.induct) (auto simp: Let_def split: if_splits)

lemmas switch_defs = enable_read_encryption_def enable_write_encryption_def
  enable_encryption_def read_switchable_def installed_def

text \<open>A switch moves no byte, and neither does a write.\<close>

lemma switch_inbound [simp]:
  "inbound (installed c (enable_read_encryption d c)) = inbound c"
  "inbound (installed c (enable_write_encryption s c)) = inbound c"
  "inbound (installed c (enable_encryption d s c)) = inbound c"
  by (auto simp: switch_defs inbound_def split: sum.splits)

lemma write_inbound [simp]:
  "inbound (snd (snd (conduit_write xs wr p c))) = inbound c"
  "decrypt (snd (snd (conduit_write xs wr p c))) = decrypt c"
  "in_hand (snd (snd (conduit_write xs wr p c))) = in_hand c"
  "held (snd (snd (conduit_write xs wr p c))) = held c"
  "pending (snd (snd (conduit_write xs wr p c))) = pending c"
  by (auto simp: conduit_write_def inbound_def split: option.splits prod.splits)

lemma fetch_inbound:
  "in_hand c = None \<Longrightarrow> inbound (conduit_fetch n c) = inbound c"
  "decrypt (conduit_fetch n c) = decrypt c"
  using bufio_read_inbound [of n "held c" "segments c"]
  by (auto simp: conduit_fetch_def inbound_def split: prod.splits)

lemma peek_inbound:
  "bufio_peek n (held c) (segments c) = (h, segs) \<Longrightarrow>
   inbound (c\<lparr>held := h, segments := segs\<rparr>) = inbound c"
  by (auto simp: inbound_def split: option.splits prod.splits dest!: bufio_peek_inbound)

lemma switch_decrypted:
  assumes "decrypt c = Some d"
  shows "decrypt (installed c (enable_read_encryption r c)) = Some d"
    and "decrypt (installed c (enable_write_encryption s c)) = Some d"
    and "decrypt (installed c (enable_encryption r s c)) = Some d"
  using assms by (auto simp: switch_defs split: sum.splits)

section \<open>What the reader is handed\<close>

context stream_cipher
begin

lemma event_encrypted:
  assumes "decrypt c = Some d" and "conduit_event stream wr ev (c, out) = (c', out')"
  shows "\<exists>taken. inbound c = taken @ inbound c' \<and> out' = out @ fst (stream d taken) \<and>
    decrypt c' = Some (snd (stream d taken))"
proof (cases ev)
  case Commit
  show ?thesis
  proof (cases "in_hand c")
    case None
    with Commit assms show ?thesis by (auto simp: conduit_commit_def xor_Nil intro!: exI [of _ "[]"])
  next
    case (Some h)
    then obtain data e where h: "in_hand c = Some (data, e)" by (cases h) auto
    with Commit assms show ?thesis
      by (auto simp: conduit_commit_def inbound_def xor_Nil split: if_splits prod.splits
          intro!: exI [of _ data])
  qed
qed (use assms switch_decrypted [OF assms(1)] in
    \<open>auto simp: xor_Nil fetch_inbound peek_inbound Option.is_none_def split: if_splits prod.splits
      intro!: exI [of _ "[]"]\<close>)

lemma run_encrypted:
  assumes "decrypt c = Some d" and "conduit_run stream wr evs (c, out) = (c', out')"
  shows "\<exists>taken. inbound c = taken @ inbound c' \<and> out' = out @ fst (stream d taken)"
  using assms
proof (induction evs arbitrary: c d out)
  case (Cons ev evs)
  obtain c1 out1 where ev: "conduit_event stream wr ev (c, out) = (c1, out1)"
    by (cases "conduit_event stream wr ev (c, out)")
  from event_encrypted [OF Cons.prems(1) ev] obtain t1 where
    t1: "inbound c = t1 @ inbound c1" "out1 = out @ fst (stream d t1)"
    "decrypt c1 = Some (snd (stream d t1))" by blast
  from Cons.IH [OF t1(3), of out1] Cons.prems(2) ev obtain t2 where
    t2: "inbound c1 = t2 @ inbound c'" "out' = out1 @ fst (stream (snd (stream d t1)) t2)" by auto
  have "fst (stream d (t1 @ t2)) = fst (stream d t1) @ fst (stream (snd (stream d t1)) t2)"
    by (simp add: xor_append split: prod.splits)
  with t1 t2 show ?case by (intro exI [of _ "t1 @ t2"]) simp
qed (auto simp: xor_Nil intro!: exI [of _ "[]"])

lemma event_plain:
  assumes "decrypt c' = None" and "conduit_event stream wr ev (c, out) = (c', out')"
  shows "decrypt c = None \<and> (\<exists>taken. inbound c = taken @ inbound c' \<and> out' = out @ taken)"
proof (cases "decrypt c")
  case (Some d)
  from event_encrypted [OF this assms(2)] assms(1) show ?thesis by auto
next
  case None
  show ?thesis
  proof (cases "ev = Commit")
    case True
    with None assms show ?thesis
      by (auto simp: conduit_commit_def inbound_def split: option.splits prod.splits)
  next
    case False
    with None assms show ?thesis
      by (cases ev) (auto simp: fetch_inbound peek_inbound Option.is_none_def split: if_splits prod.splits)
  qed
qed

lemma run_plain:
  assumes "decrypt c' = None" and "conduit_run stream wr evs (c, out) = (c', out')"
  shows "decrypt c = None \<and> (\<exists>taken. inbound c = taken @ inbound c' \<and> out' = out @ taken)"
  using assms
proof (induction evs arbitrary: c out)
  case (Cons ev evs)
  obtain c1 out1 where ev: "conduit_event stream wr ev (c, out) = (c1, out1)"
    by (cases "conduit_event stream wr ev (c, out)")
  from Cons.IH [OF Cons.prems(1), of c1 out1] Cons.prems(2) ev obtain t2 where
    t2: "decrypt c1 = None" "inbound c1 = t2 @ inbound c'" "out' = out1 @ t2" by auto
  from event_plain [OF t2(1) ev] t2 show ?case by auto
qed auto

lemma send_plain:
  "encrypt c = None \<Longrightarrow> sink (conduit_send stream ps c) = sink c @ concat ps \<and>
   encrypt (conduit_send stream ps c) = None"
  by (induction ps arbitrary: c) (auto simp: conduit_write_def buffer_write_def)

lemma send_encrypted:
  "encrypt c = Some s \<Longrightarrow>
   sink (conduit_send stream ps c) = sink c @ fst (stream s (concat ps))"
proof (induction ps arbitrary: c s)
  case (Cons p ps)
  obtain out t where step: "stream s p = (out, t)" by (cases "stream s p")
  let ?c = "snd (snd (conduit_write stream buffer_write p c))"
  have "sink ?c = sink c @ out" "encrypt ?c = Some t"
    using Cons.prems step by (auto simp: conduit_write_def buffer_write_def)
  with Cons.IH [of ?c t] step show ?case
    by (simp add: xor_append split: prod.splits)
qed (simp add: xor_Nil)

end

section \<open>The published count\<close>

text \<open>
  Without a hook that peeks, \<open>pending\<close> is the number of bytes the buffer holds whenever the
  reader has nothing in hand.
\<close>

definition pending_exact :: "('s, 'w) conduit \<Rightarrow> bool" where
  "pending_exact c \<longleftrightarrow> (in_hand c = None \<longrightarrow> pending c = length (held c))"

lemma event_pending:
  assumes "pending_exact c" and "\<forall>n. ev \<noteq> Peek n"
  shows "pending_exact (fst (conduit_event xs wr ev (c, out)))"
proof (cases ev)
  case Commit
  with assms(1) show ?thesis
    by (auto simp: pending_exact_def conduit_commit_def split: option.splits prod.splits)
qed (use assms in \<open>auto simp: pending_exact_def switch_defs conduit_fetch_def Option.is_none_def
    split: sum.splits prod.splits\<close>)

lemma run_pending:
  "pending_exact c \<Longrightarrow> \<forall>n. Peek n \<notin> set evs \<Longrightarrow> conduit_run xs wr evs (c, out) = (c', out') \<Longrightarrow>
   pending_exact c'"
proof (induction evs arbitrary: c out)
  case (Cons ev evs)
  then have "pending_exact (fst (conduit_event xs wr ev (c, out)))"
    by (intro event_pending) auto
  with Cons show ?case
    by (cases "conduit_event xs wr ev (c, out)") auto
qed simp

section \<open>Properties\<close>

text \<open>
  C11: a mid-stream switch on both sides. A sender writes some slices in the clear, switches its
  outbound half and writes more; the network cuts the bytes into segments of its choosing; the
  reader, in any interleaving of its reads with other goroutines' calls, is handed all of the clear bytes,
  switches its inbound half, and goes on in any interleaving. What it is handed is exactly what
  the sender wrote: the clear bytes, then a prefix of the rest.
\<close>

theorem conduit_switch_exact:
  fixes w :: 'w
  assumes sent: "conduit_send (xor_key_stream block) clear (new_conduit [] []) = s1"
      "enable_write_encryption (Some (new_cfb8_encrypter 16 key)) s1 = Inr s2"
      "conduit_send (xor_key_stream block) rest s2 = s3"
    and network: "concat segs = sink s3"
    and before: "conduit_run (xor_key_stream block) wr evs (new_conduit segs w, []) = (c1, out1)"
      "decrypt c1 = None" "length out1 = length (concat clear)"
    and switched: "enable_read_encryption (Some (new_cfb8_decrypter 16 key)) c1 = Inr c2"
    and after: "conduit_run (xor_key_stream block) wr evs' (c2, []) = (c3, out2)"
  shows "out1 = concat clear \<and> out2 = take (length out2) (concat rest)"
proof -
  let ?e = "new_cfb8_encrypter 16 key" and ?d = "new_cfb8_decrypter 16 key"
  let ?enc = "\<lambda>xs. fst (xor_key_stream block ?e xs)" and ?dec = "\<lambda>xs. fst (xor_key_stream block ?d xs)"
  have s1: "sink s1 = concat clear" "encrypt s1 = None"
    using cfb8.send_plain [of "new_conduit [] []" block clear] sent(1) by (auto simp: new_conduit_def)
  with sent(2) have "sink s2 = concat clear" "encrypt s2 = Some ?e"
    by (auto simp: enable_write_encryption_def split: if_splits)
  with cfb8.send_encrypted [of s2 ?e block rest] sent(3) network
  have net: "concat segs = concat clear @ ?enc (concat rest)" by simp
  have "inbound (new_conduit segs w :: (cfb8, 'w) conduit) = concat segs"
    by (simp add: inbound_def new_conduit_def)
  moreover have "inbound (new_conduit segs w :: (cfb8, 'w) conduit) = out1 @ inbound c1"
    using cfb8.run_plain [OF before(2,1)] by auto
  ultimately have "concat clear @ ?enc (concat rest) = out1 @ inbound c1"
    unfolding net [symmetric] by (rule trans [OF sym])
  with before(3) have out1: "out1 = concat clear" "inbound c1 = ?enc (concat rest)"
    by (simp_all add: append_eq_append_conv)
  from switched have "decrypt c2 = Some ?d" "inbound c2 = inbound c1"
    by (auto simp: enable_read_encryption_def read_switchable_def inbound_def result_simps
        split: if_splits)
  with cfb8.run_encrypted [OF _ after] out1 obtain taken where
    taken: "?enc (concat rest) = taken @ inbound c3" "out2 = ?dec taken" by auto
  have len: "length out2 = length taken" using taken by (simp add: cfb8_length)
  have "taken = take (length taken) (?enc (concat rest))" using taken(1) by simp
  also have "\<dots> = ?enc (take (length taken) (concat rest))"
    using arg_cong [OF taken(1), of length] by (intro cfb8.xor_take) (simp add: cfb8_length)
  finally have "out2 = ?dec (?enc (take (length taken) (concat rest)))" using taken(2) by simp
  also have "\<dots> = take (length taken) (concat rest)"
    by (rule cfb8_decrypt_encrypt)
      (simp_all add: new_cfb8_encrypter_def new_cfb8_decrypter_def new_cfb8_def)
  finally show ?thesis using out1 len by simp
qed

theorem conduit_switch_exact_witness:
  "let key = [1, 2, 3, 4, 5, 6, 7, 8, 9, 10, 11, 12, 13, 14, 15, 16];
       c1 = fst (conduit_run (xor_key_stream rev) buffer_write [Fetch 9, Commit]
         (new_conduit [[1, 2], [19], [23]] [], []));
       c2 = installed c1 (enable_read_encryption (Some (new_cfb8_decrypter 16 key)) c1);
       out = snd (conduit_run (xor_key_stream rev) buffer_write
         [Fetch 9, WriteBytes [8], Commit, Fetch 1, Commit] (c2, []))
   in out = take (length out) [3, 4]"
proof -
  let ?key = "[1, 2, 3, 4, 5, 6, 7, 8, 9, 10, 11, 12, 13, 14, 15, 16] :: bytes"
  let ?run = "conduit_run (xor_key_stream rev) buffer_write"
  let ?s1 = "conduit_send (xor_key_stream rev) [[1, 2]] (new_conduit [] [])"
  let ?s2 = "installed ?s1 (enable_write_encryption (Some (new_cfb8_encrypter 16 ?key)) ?s1)"
  let ?c1 = "fst (?run [Fetch 9, Commit] (new_conduit [[1, 2], [19], [23]] [], []))"
  let ?c2 = "installed ?c1 (enable_read_encryption (Some (new_cfb8_decrypter 16 ?key)) ?c1)"
  let ?evs = "[Fetch 9, WriteBytes [8], Commit, Fetch 1, Commit]"
  have a: "enable_write_encryption (Some (new_cfb8_encrypter 16 ?key)) ?s1 = Inr ?s2"
    by code_simp
  have b: "concat [[1, 2], [19], [23]] = sink (conduit_send (xor_key_stream rev) [[3], [4]] ?s2)"
    by code_simp
  have c: "?run [Fetch 9, Commit] (new_conduit [[1, 2], [19], [23]] [], []) = (?c1, [1, 2])"
    by code_simp
  have d: "decrypt ?c1 = None" by code_simp
  have e: "length [1, 2 :: byte] = length (concat [[1, 2 :: byte]])" by simp
  have f: "enable_read_encryption (Some (new_cfb8_decrypter 16 ?key)) ?c1 = Inr ?c2"
    by code_simp
  have g: "?run ?evs (?c2, []) = (fst (?run ?evs (?c2, [])), snd (?run ?evs (?c2, [])))"
    by (rule prod.collapse [symmetric])
  have h: "concat [[3], [4 :: byte]] = [3, 4]" by simp
  show ?thesis
    unfolding Let_def
    by (rule conjunct2 [OF conduit_switch_exact [OF refl a refl b c d e f g, unfolded h]])
qed

text \<open>
  the overrun check. In a conduit no hook has peeked at, with no byte in the reader's hand, the
  inbound half can be switched exactly while it is off and every byte the transport has delivered
  has been handed out; unread bytes are refused as an overrun and leave the conduit as it was.
\<close>

theorem read_switch_iff_drained:
  assumes "\<forall>n. Peek n \<notin> set evs"
    and "conduit_run xs wr evs (new_conduit segs w, []) = (c, out)"
    and "in_hand c = None"
  shows "(enable_read_encryption (Some d) c = Inr (c\<lparr>decrypt := Some d\<rparr>) \<longleftrightarrow>
      decrypt c = None \<and> held c = []) \<and>
    (decrypt c = None \<and> held c \<noteq> [] \<longrightarrow> enable_read_encryption (Some d) c = Inl ErrEncryptionOverrun)"
proof -
  have "pending_exact (new_conduit segs w)" by (simp add: pending_exact_def new_conduit_def)
  from run_pending [OF this assms(1,2)] assms(3) have "pending c = length (held c)"
    by (simp add: pending_exact_def)
  then show ?thesis
    by (auto simp: enable_read_encryption_def read_switchable_def Option.is_none_def
        split: option.splits)
qed

theorem read_switch_iff_drained_witness:
  "let c = fst (conduit_run (xor_key_stream rev) buffer_write [Fetch 1, Commit]
      (new_conduit [[1, 2]] [], []))
   in enable_read_encryption (Some (new_cfb8_decrypter 16 [])) c = Inl ErrEncryptionOverrun"
proof -
  let ?c = "fst (conduit_run (xor_key_stream rev) buffer_write [Fetch 1, Commit]
    (new_conduit [[1, 2]] [], []))"
  have run: "conduit_run (xor_key_stream rev) buffer_write [Fetch 1, Commit]
      (new_conduit [[1, 2]] [], []) = (?c, [1])"
    and hand: "in_hand ?c = None" and held: "decrypt ?c = None" "held ?c = [2]"
    by code_simp+
  have "decrypt ?c = None \<and> held ?c \<noteq> []" using held by simp
  with read_switch_iff_drained [OF _ run hand] show ?thesis
    unfolding Let_def by fastforce
qed

text \<open>
  a hook's peek is not published. After \<open>PreFrameHook\<close> has peeked at a first segment that fits
  the buffer, the count still says that nothing is unread and the inbound half can be switched over
  those bytes, so the count is exact only from the first \<open>Read\<close> on.
\<close>

theorem peek_not_published:
  assumes "0 < n" and "n \<le> length seg" and "length seg \<le> bufio_size"
    and "conduit_run xs wr [Peek n] (new_conduit (seg # segs) w, []) = (c, out)"
  shows "held c = seg \<and> pending c = 0 \<and>
    enable_read_encryption (Some d) c = Inr (c\<lparr>decrypt := Some d\<rparr>)"
proof -
  have "bufio_peek n seg segs = (seg, segs)"
    using assms(2) by (cases segs) auto
  with assms show ?thesis
    by (auto simp: new_conduit_def bufio_size_def enable_read_encryption_def read_switchable_def
        Let_def)
qed

theorem peek_not_published_witness:
  "held (fst (conduit_run (xor_key_stream rev) buffer_write [Peek 1] (new_conduit [[254, 1]] [], []))) =
    [254, 1]"
  (is "held (fst ?run) = _")
proof -
  have run: "?run = (fst ?run, snd ?run)" by simp
  show ?thesis
    using peek_not_published [OF _ _ _ run] by (simp add: bufio_size_def)
qed

end
