(* ===== verification/Wire_Buffer.thy ===== *)
theory Wire_Buffer
  imports Wire_Framer
begin

unbundle bit_operations_syntax

text \<open>
  wire/java/buffer.go, depth.go, holder.go and the top-bit part of vector.go: the bounded buffer
  generated codecs read packets from and write them to. \<open>buffer\<close> is the struct; an operation
  takes the path its errors carry and the buffer, and returns a result and the buffer after it,
  which a failing operation may have moved (a collection length is consumed before it is
  checked). \<open>buffer_ok\<close> is the invariant, \<open>buffer_step\<close> every exported operation as a step.
  A nil receiver is not modelled.
\<close>

section \<open>The buffer\<close>

datatype buffer_mode = ReadMode | WriteMode

record buffer =
  buf_data :: bytes
  buf_offset :: nat
  buf_limits :: limits
  buf_mode :: buffer_mode
  buf_depth :: int

type_synonym 'a buffer_op = "buffer \<Rightarrow> 'a result \<times> buffer"

definition returnB :: "'a \<Rightarrow> 'a buffer_op" where
  "returnB v b = (Inr v, b)"

definition failB :: "string \<Rightarrow> wire_error \<Rightarrow> 'a buffer_op" where
  "failB path e b = (Inl (PathError path e), b)"

definition bindB :: "'a buffer_op \<Rightarrow> ('a \<Rightarrow> 'b buffer_op) \<Rightarrow> 'b buffer_op" where
  "bindB m f b = (case m b of (Inl e, b') \<Rightarrow> (Inl e, b') | (Inr v, b') \<Rightarrow> f v b')"

definition new_read_buffer :: "bytes \<Rightarrow> limits \<Rightarrow> buffer result" where
  "new_read_buffer payload lim = bindR (validate_limits lim) (\<lambda>_.
     if frame_bytes lim < int (length payload) then Inl ErrFrameTooLarge
     else Inr \<lparr>buf_data = payload, buf_offset = 0, buf_limits = lim, buf_mode = ReadMode, buf_depth = 0\<rparr>)"

definition new_write_buffer :: "limits \<Rightarrow> buffer result" where
  "new_write_buffer lim = bindR (validate_limits lim) (\<lambda>_.
     Inr \<lparr>buf_data = [], buf_offset = 0, buf_limits = lim, buf_mode = WriteMode, buf_depth = 0\<rparr>)"

definition buffer_remaining :: "buffer \<Rightarrow> nat" where
  "buffer_remaining b =
     (if buf_mode b = WriteMode then 0 else length (buf_data b) - buf_offset b)"

definition buffer_position :: "buffer \<Rightarrow> nat" where
  "buffer_position b = (if buf_mode b = WriteMode then length (buf_data b) else buf_offset b)"

definition require_mode :: "buffer_mode \<Rightarrow> string \<Rightarrow> unit buffer_op" where
  "require_mode mode path b =
     (if \<not> valid (buf_limits b) then failB path ErrInvalidLimits b
      else if buf_mode b \<noteq> mode then failB path ErrWrongBufferMode b
      else returnB () b)"

section \<open>The four primitives\<close>

definition read_value :: "string \<Rightarrow> (bytes \<Rightarrow> ('a \<times> bytes) result) \<Rightarrow> 'a buffer_op" where
  "read_value path rd = bindB (require_mode ReadMode path) (\<lambda>_ b.
     case rd (drop (buf_offset b) (buf_data b)) of
       Inl e \<Rightarrow> failB path e b
     | Inr (v, rest) \<Rightarrow>
         returnB v (b\<lparr>buf_offset := buf_offset b + (buffer_remaining b - length rest)\<rparr>))"

definition append_value :: "string \<Rightarrow> bytes \<Rightarrow> unit buffer_op" where
  "append_value path v = bindB (require_mode WriteMode path) (\<lambda>_ b.
     if frame_bytes (buf_limits b) - int (length (buf_data b)) < int (length v)
     then failB path ErrFrameTooLarge b
     else returnB () (b\<lparr>buf_data := buf_data b @ v\<rparr>))"

text \<open>The writer runs on a fresh \<open>bytes.Buffer\<close>; nothing is appended when it fails.\<close>

definition write_value :: "string \<Rightarrow> (bytes \<Rightarrow> bytes write_result) \<Rightarrow> unit buffer_op" where
  "write_value path wr = bindB (require_mode WriteMode path) (\<lambda>_ b.
     case wr [] of
       (_, Some e, _) \<Rightarrow> failB path e b
     | (_, None, encoded) \<Rightarrow> append_value path encoded b)"

definition read_bytes :: "string \<Rightarrow> int \<Rightarrow> bytes buffer_op" where
  "read_bytes path count = bindB (require_mode ReadMode path) (\<lambda>_ b.
     if count < 0 then failB path ErrNegativeLength b
     else if int (buffer_remaining b) < count then failB path UnexpectedEOF b
     else returnB (take (nat count) (drop (buf_offset b) (buf_data b)))
       (b\<lparr>buf_offset := buf_offset b + nat count\<rparr>))"

section \<open>Collections and typed values\<close>

definition require_empty :: "string \<Rightarrow> unit buffer_op" where
  "require_empty path = bindB (require_mode ReadMode path) (\<lambda>_ b.
     if buffer_remaining b \<noteq> 0 then failB path ErrTrailingBytes b else returnB () b)"

definition validate_collection :: "string \<Rightarrow> int \<Rightarrow> unit buffer_op" where
  "validate_collection path count b =
     (if \<not> valid (buf_limits b) then failB path ErrInvalidLimits b
      else if count < 0 then failB path ErrNegativeLength b
      else if collection_items (buf_limits b) < count
        then failB path (SizeError ''collection'' count (collection_items (buf_limits b))) b
      else returnB () b)"

definition buf_read_varint :: "string \<Rightarrow> i32 buffer_op" where
  "buf_read_varint path = read_value path dec_varint"

definition buf_write_varint :: "string \<Rightarrow> i32 \<Rightarrow> unit buffer_op" where
  "buf_write_varint path v = write_value path (\<lambda>w. write_varint buffer_write w v)"

definition read_collection_length :: "string \<Rightarrow> int buffer_op" where
  "read_collection_length path = bindB (buf_read_varint path) (\<lambda>v.
     bindB (validate_collection path (sint v)) (\<lambda>_. returnB (sint v)))"

definition write_collection_length :: "string \<Rightarrow> int \<Rightarrow> unit buffer_op" where
  "write_collection_length path count = bindB (validate_collection path count) (\<lambda>_.
     if 2 ^ 31 - 1 < count then failB path ErrValueOutOfRange
     else buf_write_varint path (int32_of count))"

definition dec_varlong :: "bytes \<Rightarrow> (i64 \<times> bytes) result" where
  "dec_varlong bs = bindR (read_varlong bs) (\<lambda>(v, n, rest). Inr (v, rest))"

definition buf_read_varlong :: "string \<Rightarrow> i64 buffer_op" where
  "buf_read_varlong path = read_value path dec_varlong"

text \<open>The panic of \<open>WriteVarLong\<close> is not reached: \<open>varlong_roundtrip\<close> in Var_Int.\<close>

definition buf_write_varlong :: "string \<Rightarrow> i64 \<Rightarrow> unit buffer_op" where
  "buf_write_varlong path v =
     write_value path (\<lambda>w. write_full buffer_write w (the (write_varlong v)))"

definition buf_read_i8 :: "string \<Rightarrow> byte buffer_op" where
  "buf_read_i8 path = read_value path read_i8"

definition buf_write_i8 :: "string \<Rightarrow> byte \<Rightarrow> unit buffer_op" where
  "buf_write_i8 path v = write_value path (\<lambda>w. write_i8 buffer_write w v)"

definition buf_read_u8 :: "string \<Rightarrow> byte buffer_op" where
  "buf_read_u8 path = read_value path read_u8"

definition buf_write_u8 :: "string \<Rightarrow> byte \<Rightarrow> unit buffer_op" where
  "buf_write_u8 path v = write_value path (\<lambda>w. write_u8 buffer_write w v)"

definition buf_read_i16 :: "string \<Rightarrow> 16 word buffer_op" where
  "buf_read_i16 path = read_value path read_i16"

definition buf_write_i16 :: "string \<Rightarrow> 16 word \<Rightarrow> unit buffer_op" where
  "buf_write_i16 path v = write_value path (\<lambda>w. write_i16 buffer_write w v)"

definition buf_read_u16 :: "string \<Rightarrow> 16 word buffer_op" where
  "buf_read_u16 path = read_value path read_u16"

definition buf_write_u16 :: "string \<Rightarrow> 16 word \<Rightarrow> unit buffer_op" where
  "buf_write_u16 path v = write_value path (\<lambda>w. write_u16 buffer_write w v)"

definition buf_read_i32 :: "string \<Rightarrow> i32 buffer_op" where
  "buf_read_i32 path = read_value path read_i32"

definition buf_write_i32 :: "string \<Rightarrow> i32 \<Rightarrow> unit buffer_op" where
  "buf_write_i32 path v = write_value path (\<lambda>w. write_i32 buffer_write w v)"

definition buf_read_u32 :: "string \<Rightarrow> i32 buffer_op" where
  "buf_read_u32 path = read_value path read_u32"

definition buf_write_u32 :: "string \<Rightarrow> i32 \<Rightarrow> unit buffer_op" where
  "buf_write_u32 path v = write_value path (\<lambda>w. write_u32 buffer_write w v)"

definition buf_read_i64 :: "string \<Rightarrow> i64 buffer_op" where
  "buf_read_i64 path = read_value path read_i64"

definition buf_write_i64 :: "string \<Rightarrow> i64 \<Rightarrow> unit buffer_op" where
  "buf_write_i64 path v = write_value path (\<lambda>w. write_i64 buffer_write w v)"

definition buf_read_u64 :: "string \<Rightarrow> i64 buffer_op" where
  "buf_read_u64 path = read_value path read_u64"

definition buf_write_u64 :: "string \<Rightarrow> i64 \<Rightarrow> unit buffer_op" where
  "buf_write_u64 path v = write_value path (\<lambda>w. write_u64 buffer_write w v)"

definition buf_read_f32 :: "string \<Rightarrow> i32 buffer_op" where
  "buf_read_f32 path = read_value path read_f32"

definition buf_write_f32 :: "string \<Rightarrow> i32 \<Rightarrow> unit buffer_op" where
  "buf_write_f32 path v = write_value path (\<lambda>w. write_f32 buffer_write w v)"

definition buf_read_f64 :: "string \<Rightarrow> i64 buffer_op" where
  "buf_read_f64 path = read_value path read_f64"

definition buf_write_f64 :: "string \<Rightarrow> i64 \<Rightarrow> unit buffer_op" where
  "buf_write_f64 path v = write_value path (\<lambda>w. write_f64 buffer_write w v)"

definition buf_read_bool :: "string \<Rightarrow> bool buffer_op" where
  "buf_read_bool path = read_value path read_bool"

definition buf_write_bool :: "string \<Rightarrow> bool \<Rightarrow> unit buffer_op" where
  "buf_write_bool path v = write_value path (\<lambda>w. write_bool buffer_write w v)"

definition buf_read_uuid :: "string \<Rightarrow> bytes buffer_op" where
  "buf_read_uuid path = read_value path read_uuid"

definition buf_write_uuid :: "string \<Rightarrow> bytes \<Rightarrow> unit buffer_op" where
  "buf_write_uuid path v = write_value path (\<lambda>w. write_uuid buffer_write w v)"

definition buf_read_string :: "string \<Rightarrow> bytes buffer_op" where
  "buf_read_string path b = read_value path (read_string (buf_limits b)) b"

definition buf_write_string :: "string \<Rightarrow> bytes \<Rightarrow> unit buffer_op" where
  "buf_write_string path v b = write_value path (\<lambda>w. write_string buffer_write (buf_limits b) w v) b"

definition buf_read_byte_array :: "string \<Rightarrow> bytes buffer_op" where
  "buf_read_byte_array path b = read_value path (read_byte_array (buf_limits b)) b"

definition buf_write_byte_array :: "string \<Rightarrow> bytes \<Rightarrow> unit buffer_op" where
  "buf_write_byte_array path v b =
     write_value path (\<lambda>w. write_byte_array buffer_write (buf_limits b) w v) b"

section \<open>Raw byte buffers and plugin payloads\<close>

definition buf_read_buffer :: "string \<Rightarrow> int \<Rightarrow> bytes buffer_op" where
  "buf_read_buffer path count = bindB (validate_collection path count) (\<lambda>_. read_bytes path count)"

definition buf_write_buffer :: "string \<Rightarrow> bytes \<Rightarrow> unit buffer_op" where
  "buf_write_buffer path v =
     bindB (validate_collection path (int (length v))) (\<lambda>_. append_value path v)"

definition read_rest_buffer :: "string \<Rightarrow> bytes buffer_op" where
  "read_rest_buffer path = bindB (require_mode ReadMode path)
     (\<lambda>_ b. read_bytes path (int (buffer_remaining b)) b)"

definition write_rest_buffer :: "string \<Rightarrow> bytes \<Rightarrow> unit buffer_op" where
  "write_rest_buffer path v = append_value path v"

definition read_plugin_payload :: "string \<Rightarrow> bytes buffer_op" where
  "read_plugin_payload path = bindB (require_mode ReadMode path) (\<lambda>_ b.
     if plugin_bytes (buf_limits b) < int (buffer_remaining b)
     then failB path (SizeError ''plugin payload'' (int (buffer_remaining b)) (plugin_bytes (buf_limits b))) b
     else read_bytes path (int (buffer_remaining b)) b)"

definition write_plugin_payload :: "string \<Rightarrow> bytes \<Rightarrow> unit buffer_op" where
  "write_plugin_payload path v = bindB (require_mode WriteMode path) (\<lambda>_ b.
     if plugin_bytes (buf_limits b) < int (length v)
     then failB path (SizeError ''plugin payload'' (int (length v)) (plugin_bytes (buf_limits b))) b
     else append_value path v b)"

section \<open>Nesting, terminators, top bits\<close>

definition enter_nested :: "string \<Rightarrow> unit buffer_op" where
  "enter_nested path b =
     (if \<not> valid (buf_limits b) then failB path ErrInvalidLimits b
      else if recursion_depth (buf_limits b) \<le> buf_depth b then failB path ErrRecursionLimit b
      else returnB () (b\<lparr>buf_depth := buf_depth b + 1\<rparr>))"

definition leave_nested :: "unit buffer_op" where
  "leave_nested b =
     (if buf_depth b = 0 then returnB () b else returnB () (b\<lparr>buf_depth := buf_depth b - 1\<rparr>))"

definition read_terminator :: "string \<Rightarrow> byte \<Rightarrow> bool buffer_op" where
  "read_terminator path term = bindB (require_mode ReadMode path) (\<lambda>_ b.
     if length (buf_data b) \<le> buf_offset b then failB path UnexpectedEOF b
     else if buf_data b ! buf_offset b \<noteq> term then returnB False b
     else returnB True (b\<lparr>buf_offset := buf_offset b + 1\<rparr>))"

definition write_terminator :: "string \<Rightarrow> byte \<Rightarrow> unit buffer_op" where
  "write_terminator path term = buf_write_u8 path term"

definition peek_top_bit_set_continues :: "string \<Rightarrow> bool buffer_op" where
  "peek_top_bit_set_continues path = bindB (require_mode ReadMode path) (\<lambda>_ b.
     if buffer_remaining b = 0 then failB path UnexpectedEOF b
     else let first = buf_data b ! buf_offset b
          in returnB (first AND 0x80 = 0x80)
               (b\<lparr>buf_data := (buf_data b)[buf_offset b := first AND NOT 0x80]\<rparr>))"

definition set_top_bit_set_continues :: "string \<Rightarrow> int \<Rightarrow> unit buffer_op" where
  "set_top_bit_set_continues path element_offset = bindB (require_mode WriteMode path) (\<lambda>_ b.
     if element_offset < 0 \<or> int (length (buf_data b)) \<le> element_offset
     then failB path ErrValueOutOfRange b
     else returnB () (b\<lparr>buf_data :=
       (buf_data b)[nat element_offset := buf_data b ! nat element_offset OR 0x80]\<rparr>))"

section \<open>Registry holders\<close>

definition max_holder_id :: int where
  "max_holder_id = 2 ^ 31 - 1 - 1"

text \<open>The ID and whether an inline value follows.\<close>

definition read_holder :: "string \<Rightarrow> (i32 \<times> bool) buffer_op" where
  "read_holder path = bindB (buf_read_varint path) (\<lambda>raw.
     if raw = 0 then returnB (0, True)
     else if sint raw < 0 then failB path ErrValueOutOfRange
     else returnB (raw - 1, False))"

definition write_holder :: "string \<Rightarrow> i32 \<Rightarrow> bool \<Rightarrow> unit buffer_op" where
  "write_holder path hid inline =
     (if inline then buf_write_varint path 0
      else if sint hid < 0 then failB path ErrValueOutOfRange
      else if max_holder_id < sint hid then failB path ErrValueOutOfRange
      else buf_write_varint path (hid + 1))"

definition read_holder_set :: "string \<Rightarrow> (int \<times> bool) buffer_op" where
  "read_holder_set path = bindB (buf_read_varint path) (\<lambda>raw.
     if raw = 0 then returnB (0, True)
     else if sint raw < 0 then failB path ErrValueOutOfRange
     else bindB (validate_collection path (sint (raw - 1))) (\<lambda>_. returnB (sint (raw - 1), False)))"

definition write_holder_set :: "string \<Rightarrow> int \<Rightarrow> bool \<Rightarrow> unit buffer_op" where
  "write_holder_set path count tagged =
     (if tagged then buf_write_varint path 0
      else bindB (validate_collection path count) (\<lambda>_. buf_write_varint path (int32_of count + 1)))"

section \<open>The invariant\<close>

definition buffer_ok :: "buffer \<Rightarrow> bool" where
  "buffer_ok b \<longleftrightarrow> limits_ok (buf_limits b) \<and> buf_offset b \<le> length (buf_data b) \<and>
     int (length (buf_data b)) \<le> frame_bytes (buf_limits b) \<and>
     0 \<le> buf_depth b \<and> buf_depth b \<le> recursion_depth (buf_limits b) \<and>
     (buf_mode b = WriteMode \<longrightarrow> buf_offset b = 0)"

text \<open>
  What no operation undoes: the limits and the mode are fixed, a read buffer's bytes are neither
  added nor removed and its offset never goes back, a write buffer only grows.
\<close>

definition buffer_le :: "buffer \<Rightarrow> buffer \<Rightarrow> bool" where
  "buffer_le b c \<longleftrightarrow> buf_limits c = buf_limits b \<and> buf_mode c = buf_mode b \<and>
     buf_offset b \<le> buf_offset c \<and> length (buf_data b) \<le> length (buf_data c) \<and>
     (buf_mode b = ReadMode \<longrightarrow> length (buf_data c) = length (buf_data b))"

lemma buffer_le_refl [simp]: "buffer_le b b"
  by (simp add: buffer_le_def)

lemma buffer_le_trans: "buffer_le a b \<Longrightarrow> buffer_le b c \<Longrightarrow> buffer_le a c"
  by (auto simp: buffer_le_def)

definition kept_at :: "buffer \<Rightarrow> buffer \<Rightarrow> bool" where
  "kept_at b c \<longleftrightarrow> (buffer_ok b \<longrightarrow> buffer_ok c \<and> buffer_le b c)"

definition kept :: "'a buffer_op \<Rightarrow> bool" where
  "kept m \<longleftrightarrow> (\<forall>b. kept_at b (snd (m b)))"

definition consuming :: "(bytes \<Rightarrow> ('a \<times> bytes) result) \<Rightarrow> bool" where
  "consuming rd \<longleftrightarrow> (\<forall>bs v rest. rd bs = Inr (v, rest) \<longrightarrow> length rest \<le> length bs)"

named_theorems kept_intros \<open>which operations keep the buffer invariant\<close>

lemma kept_at_refl [simp]: "kept_at b b"
  by (simp add: kept_at_def)

lemma kept_returnB [kept_intros]: "kept (returnB v)"
  by (simp add: kept_def returnB_def)

lemma kept_failB [kept_intros]: "kept (failB path e)"
  by (simp add: kept_def failB_def)

lemma kept_bindB [kept_intros]:
  assumes "kept m" and "\<And>v. kept (f v)"
  shows "kept (bindB m f)"
proof -
  have "kept_at b (snd (bindB m f b))" for b
  proof (cases "m b")
    case (Pair r c)
    with assms(1) have "kept_at b c" by (auto simp: kept_def dest: spec [of _ b])
    moreover have "kept_at c (snd (f v c))" for v using assms(2) by (simp add: kept_def)
    ultimately show ?thesis
      using Pair by (cases r) (auto simp: bindB_def kept_at_def intro: buffer_le_trans)
  qed
  then show ?thesis by (simp add: kept_def)
qed

lemma kept_if [kept_intros]: "kept m \<Longrightarrow> kept n \<Longrightarrow> kept (if c then m else n)"
  by simp

lemma kept_require:
  assumes "\<And>b. buffer_ok b \<Longrightarrow> buf_mode b = mode \<Longrightarrow> kept_at b (snd (f () b))"
  shows "kept (bindB (require_mode mode path) f)"
  using assms
  by (auto simp: kept_def kept_at_def bindB_def require_mode_def failB_def returnB_def)

lemma kept_read_value:
  assumes "consuming rd"
  shows "kept (read_value path rd)"
  unfolding read_value_def
proof (rule kept_require)
  fix b
  assume b: "buffer_ok b" "buf_mode b = ReadMode"
  show "kept_at b (snd (case rd (drop (buf_offset b) (buf_data b)) of
       Inl e \<Rightarrow> failB path e b
     | Inr (v, rest) \<Rightarrow>
         returnB v (b\<lparr>buf_offset := buf_offset b + (buffer_remaining b - length rest)\<rparr>)))"
    using b by (auto simp: kept_at_def buffer_ok_def buffer_le_def failB_def returnB_def
        buffer_remaining_def split: sum.split)
qed

lemma kept_append_value [kept_intros]: "kept (append_value path v)"
  unfolding append_value_def
  by (rule kept_require) (auto simp: kept_at_def buffer_ok_def buffer_le_def failB_def returnB_def)

lemma kept_write_value [kept_intros]: "kept (write_value path wr)"
  unfolding write_value_def
proof (rule kept_require)
  fix b
  have "kept_at b (snd (append_value path v b))" for v
    using kept_append_value by (simp add: kept_def)
  then show "kept_at b (snd (case wr [] of (_, Some e, _) \<Rightarrow> failB path e b
      | (_, None, encoded) \<Rightarrow> append_value path encoded b))"
    by (simp add: failB_def split: prod.split option.split)
qed

lemma kept_read_bytes [kept_intros]: "kept (read_bytes path count)"
  unfolding read_bytes_def
  by (rule kept_require)
    (auto simp: kept_at_def buffer_ok_def buffer_le_def failB_def returnB_def buffer_remaining_def)

lemma kept_require_mode [kept_intros]: "kept (require_mode mode path)"
  by (simp add: kept_def require_mode_def failB_def returnB_def)

lemma kept_validate_collection [kept_intros]: "kept (validate_collection path count)"
  by (simp add: kept_def validate_collection_def failB_def returnB_def)

lemma kept_enter_nested [kept_intros]: "kept (enter_nested path)"
  by (auto simp: kept_def kept_at_def enter_nested_def failB_def returnB_def buffer_ok_def buffer_le_def)

lemma kept_leave_nested [kept_intros]: "kept leave_nested"
  by (auto simp: kept_def kept_at_def leave_nested_def returnB_def buffer_ok_def buffer_le_def)

lemma kept_read_terminator [kept_intros]: "kept (read_terminator path term)"
  unfolding read_terminator_def
  by (rule kept_require)
    (auto simp: kept_at_def buffer_ok_def buffer_le_def failB_def returnB_def)

lemma kept_peek [kept_intros]: "kept (peek_top_bit_set_continues path)"
  unfolding peek_top_bit_set_continues_def
  by (rule kept_require)
    (auto simp: kept_at_def buffer_ok_def buffer_le_def failB_def returnB_def Let_def)

lemma kept_set_top_bit [kept_intros]: "kept (set_top_bit_set_continues path k)"
  unfolding set_top_bit_set_continues_def
  by (rule kept_require)
    (auto simp: kept_at_def buffer_ok_def buffer_le_def failB_def returnB_def)

section \<open>Readers consume\<close>

lemma consuming_read_full: "consuming (read_full n)"
  by (auto simp: consuming_def result_simps)

lemma consuming_bindR:
  assumes "consuming rd" and "\<And>v r w s. f (v, r) = Inr (w, s) \<Longrightarrow> length s \<le> length r"
  shows "consuming (\<lambda>bs. bindR (rd bs) f)"
  unfolding consuming_def
proof (intro allI impI)
  fix bs w s
  assume "bindR (rd bs) f = Inr (w, s)"
  then obtain v r where "rd bs = Inr (v, r)" "f (v, r) = Inr (w, s)"
    by (auto simp: result_simps)
  with assms show "length s \<le> length bs"
    by (meson consuming_def le_trans)
qed

lemma consuming_var:
  "read_var_from final e k acc bs = Inr (v, n, rest) \<Longrightarrow> length rest \<le> length bs"
  by (induction bs arbitrary: k acc) (auto simp: Let_def split: if_splits intro: le_SucI)

lemma consuming_readers:
  "consuming dec_varint" "consuming dec_varlong" "consuming read_i8" "consuming read_u8"
  "consuming read_i16" "consuming read_u16" "consuming read_i32" "consuming read_u32"
  "consuming read_i64" "consuming read_u64" "consuming read_f32" "consuming read_f64"
  "consuming read_bool" "consuming read_uuid" "consuming (read_string lim)"
  "consuming (read_byte_array lim)"
  by (auto simp: consuming_def dec_varint_def dec_varlong_def read_varint_def read_varlong_def
      read_i8_def read_u8_def read_i16_def read_u16_def read_i32_def read_u32_def read_i64_def
      read_u64_def read_f32_def read_f64_def read_be_def read_bool_def read_uuid_def
      read_string_def read_byte_array_def result_simps dest: consuming_var
      dest!: read_prefixed_bounded(2))

lemmas kept_readers [kept_intros] = consuming_readers [THEN kept_read_value]

section \<open>Every exported operation\<close>

definition run :: "'a buffer_op \<Rightarrow> buffer \<Rightarrow> buffer" where
  "run m b = snd (m b)"

inductive buffer_step :: "buffer \<Rightarrow> buffer \<Rightarrow> bool" where
  call_buf_read_varint: "buffer_step x (run (buf_read_varint p) x)"
| call_buf_write_varint: "buffer_step x (run (buf_write_varint p v) x)"
| call_read_collection_length: "buffer_step x (run (read_collection_length p) x)"
| call_write_collection_length: "buffer_step x (run (write_collection_length p n) x)"
| call_validate_collection: "buffer_step x (run (validate_collection p n) x)"
| call_require_empty: "buffer_step x (run (require_empty p) x)"
| call_buf_read_varlong: "buffer_step x (run (buf_read_varlong p) x)"
| call_buf_write_varlong: "buffer_step x (run (buf_write_varlong p l) x)"
| call_buf_read_i8: "buffer_step x (run (buf_read_i8 p) x)"
| call_buf_write_i8: "buffer_step x (run (buf_write_i8 p b) x)"
| call_buf_read_u8: "buffer_step x (run (buf_read_u8 p) x)"
| call_buf_write_u8: "buffer_step x (run (buf_write_u8 p b) x)"
| call_buf_read_i16: "buffer_step x (run (buf_read_i16 p) x)"
| call_buf_write_i16: "buffer_step x (run (buf_write_i16 p h) x)"
| call_buf_read_u16: "buffer_step x (run (buf_read_u16 p) x)"
| call_buf_write_u16: "buffer_step x (run (buf_write_u16 p h) x)"
| call_buf_read_i32: "buffer_step x (run (buf_read_i32 p) x)"
| call_buf_write_i32: "buffer_step x (run (buf_write_i32 p v) x)"
| call_buf_read_u32: "buffer_step x (run (buf_read_u32 p) x)"
| call_buf_write_u32: "buffer_step x (run (buf_write_u32 p v) x)"
| call_buf_read_i64: "buffer_step x (run (buf_read_i64 p) x)"
| call_buf_write_i64: "buffer_step x (run (buf_write_i64 p l) x)"
| call_buf_read_u64: "buffer_step x (run (buf_read_u64 p) x)"
| call_buf_write_u64: "buffer_step x (run (buf_write_u64 p l) x)"
| call_buf_read_f32: "buffer_step x (run (buf_read_f32 p) x)"
| call_buf_write_f32: "buffer_step x (run (buf_write_f32 p v) x)"
| call_buf_read_f64: "buffer_step x (run (buf_read_f64 p) x)"
| call_buf_write_f64: "buffer_step x (run (buf_write_f64 p l) x)"
| call_buf_read_bool: "buffer_step x (run (buf_read_bool p) x)"
| call_buf_write_bool: "buffer_step x (run (buf_write_bool p c) x)"
| call_buf_read_uuid: "buffer_step x (run (buf_read_uuid p) x)"
| call_buf_write_uuid: "buffer_step x (run (buf_write_uuid p bs) x)"
| call_buf_read_string: "buffer_step x (run (buf_read_string p) x)"
| call_buf_write_string: "buffer_step x (run (buf_write_string p bs) x)"
| call_buf_read_byte_array: "buffer_step x (run (buf_read_byte_array p) x)"
| call_buf_write_byte_array: "buffer_step x (run (buf_write_byte_array p bs) x)"
| call_buf_read_buffer: "buffer_step x (run (buf_read_buffer p n) x)"
| call_buf_write_buffer: "buffer_step x (run (buf_write_buffer p bs) x)"
| call_read_rest_buffer: "buffer_step x (run (read_rest_buffer p) x)"
| call_write_rest_buffer: "buffer_step x (run (write_rest_buffer p bs) x)"
| call_read_plugin_payload: "buffer_step x (run (read_plugin_payload p) x)"
| call_write_plugin_payload: "buffer_step x (run (write_plugin_payload p bs) x)"
| call_enter_nested: "buffer_step x (run (enter_nested p) x)"
| call_leave_nested: "buffer_step x (run (leave_nested) x)"
| call_read_terminator: "buffer_step x (run (read_terminator p b) x)"
| call_write_terminator: "buffer_step x (run (write_terminator p b) x)"
| call_peek_top_bit_set_continues: "buffer_step x (run (peek_top_bit_set_continues p) x)"
| call_set_top_bit_set_continues: "buffer_step x (run (set_top_bit_set_continues p n) x)"
| call_read_holder: "buffer_step x (run (read_holder p) x)"
| call_write_holder: "buffer_step x (run (write_holder p v c) x)"
| call_read_holder_set: "buffer_step x (run (read_holder_set p) x)"
| call_write_holder_set: "buffer_step x (run (write_holder_set p n c) x)"

inductive buffer_reachable :: "buffer \<Rightarrow> bool" where
  new_read: "limits_ok lim \<Longrightarrow> new_read_buffer payload lim = Inr b \<Longrightarrow> buffer_reachable b"
| new_write: "limits_ok lim \<Longrightarrow> new_write_buffer lim = Inr b \<Longrightarrow> buffer_reachable b"
| call: "buffer_reachable b \<Longrightarrow> buffer_step b c \<Longrightarrow> buffer_reachable c"

lemma kept_at_op: "kept m \<Longrightarrow> kept_at b (snd (m b))"
  by (simp add: kept_def)

lemma kept_atI: "(\<And>b. kept_at b (snd (m b))) \<Longrightarrow> kept m"
  by (simp add: kept_def)

lemma kept_require_empty [kept_intros]: "kept (require_empty p)"
  unfolding require_empty_def by (rule kept_require) (simp add: failB_def returnB_def)

lemma kept_read_rest [kept_intros]: "kept (read_rest_buffer p)"
  unfolding read_rest_buffer_def
  by (rule kept_require, rule kept_at_op) (rule kept_read_bytes)

lemma kept_read_plugin [kept_intros]: "kept (read_plugin_payload p)"
  unfolding read_plugin_payload_def
proof (rule kept_require)
  show "kept_at b (snd (if plugin_bytes (buf_limits b) < int (buffer_remaining b)
      then failB p (SizeError ''plugin payload'' (int (buffer_remaining b)) (plugin_bytes (buf_limits b))) b
      else read_bytes p (int (buffer_remaining b)) b))" for b
    using kept_at_op [OF kept_read_bytes] by (simp add: failB_def)
qed

lemma kept_write_plugin [kept_intros]: "kept (write_plugin_payload p v)"
  unfolding write_plugin_payload_def
proof (rule kept_require)
  show "kept_at b (snd (if plugin_bytes (buf_limits b) < int (length v)
      then failB p (SizeError ''plugin payload'' (int (length v)) (plugin_bytes (buf_limits b))) b
      else append_value p v b))" for b
    using kept_at_op [OF kept_append_value] by (simp add: failB_def)
qed

lemma kept_bounded_values [kept_intros]:
  "kept (buf_read_string p)" "kept (buf_write_string p v)"
  "kept (buf_read_byte_array p)" "kept (buf_write_byte_array p v)"
proof -
  show "kept (buf_read_string p)"
    by (rule kept_atI, unfold buf_read_string_def) (rule kept_at_op, rule kept_readers)
  show "kept (buf_write_string p v)"
    by (rule kept_atI, unfold buf_write_string_def) (rule kept_at_op, rule kept_write_value)
  show "kept (buf_read_byte_array p)"
    by (rule kept_atI, unfold buf_read_byte_array_def) (rule kept_at_op, rule kept_readers)
  show "kept (buf_write_byte_array p v)"
    by (rule kept_atI, unfold buf_write_byte_array_def) (rule kept_at_op, rule kept_write_value)
qed

lemma kept_simple [kept_intros]:
  "kept (buf_read_varint p)" "kept (buf_write_varint p v)" "kept (buf_write_u8 p b)"
  unfolding buf_read_varint_def buf_write_varint_def buf_write_u8_def
  by (intro kept_intros)+

lemma kept_exported:
  "kept (buf_read_varint p)"
  "kept (buf_write_varint p v)"
  "kept (read_collection_length p)"
  "kept (write_collection_length p n)"
  "kept (validate_collection p n)"
  "kept (require_empty p)"
  "kept (buf_read_varlong p)"
  "kept (buf_write_varlong p l)"
  "kept (buf_read_i8 p)"
  "kept (buf_write_i8 p b)"
  "kept (buf_read_u8 p)"
  "kept (buf_write_u8 p b)"
  "kept (buf_read_i16 p)"
  "kept (buf_write_i16 p h)"
  "kept (buf_read_u16 p)"
  "kept (buf_write_u16 p h)"
  "kept (buf_read_i32 p)"
  "kept (buf_write_i32 p v)"
  "kept (buf_read_u32 p)"
  "kept (buf_write_u32 p v)"
  "kept (buf_read_i64 p)"
  "kept (buf_write_i64 p l)"
  "kept (buf_read_u64 p)"
  "kept (buf_write_u64 p l)"
  "kept (buf_read_f32 p)"
  "kept (buf_write_f32 p v)"
  "kept (buf_read_f64 p)"
  "kept (buf_write_f64 p l)"
  "kept (buf_read_bool p)"
  "kept (buf_write_bool p c)"
  "kept (buf_read_uuid p)"
  "kept (buf_write_uuid p bs)"
  "kept (buf_read_string p)"
  "kept (buf_write_string p bs)"
  "kept (buf_read_byte_array p)"
  "kept (buf_write_byte_array p bs)"
  "kept (buf_read_buffer p n)"
  "kept (buf_write_buffer p bs)"
  "kept (read_rest_buffer p)"
  "kept (write_rest_buffer p bs)"
  "kept (read_plugin_payload p)"
  "kept (write_plugin_payload p bs)"
  "kept (enter_nested p)"
  "kept (leave_nested)"
  "kept (read_terminator p b)"
  "kept (write_terminator p b)"
  "kept (peek_top_bit_set_continues p)"
  "kept (set_top_bit_set_continues p n)"
  "kept (read_holder p)"
  "kept (write_holder p v c)"
  "kept (read_holder_set p)"
  "kept (write_holder_set p n c)"
  unfolding read_collection_length_def
      write_collection_length_def buf_read_varlong_def buf_write_varlong_def
      buf_read_i8_def buf_write_i8_def buf_read_u8_def buf_read_i16_def
      buf_write_i16_def buf_read_u16_def buf_write_u16_def buf_read_i32_def buf_write_i32_def
      buf_read_u32_def buf_write_u32_def buf_read_i64_def buf_write_i64_def buf_read_u64_def
      buf_write_u64_def buf_read_f32_def buf_write_f32_def buf_read_f64_def buf_write_f64_def
      buf_read_bool_def buf_write_bool_def buf_read_uuid_def buf_write_uuid_def
      buf_read_buffer_def buf_write_buffer_def write_rest_buffer_def
      write_terminator_def read_holder_def
      write_holder_def read_holder_set_def write_holder_set_def
  by (intro kept_intros)+

lemma buffer_step_kept: "buffer_step b c \<Longrightarrow> kept_at b c"
  by (induction rule: buffer_step.induct)
    (rule kept_exported [unfolded kept_def, THEN spec, folded run_def])+

lemma new_buffer_ok:
  "limits_ok lim \<Longrightarrow> new_read_buffer payload lim = Inr b \<Longrightarrow> buffer_ok b"
  "limits_ok lim \<Longrightarrow> new_write_buffer lim = Inr b \<Longrightarrow> buffer_ok b"
  by (auto simp: new_read_buffer_def new_write_buffer_def buffer_ok_def result_simps
      dest: limits_okD(2,12))

section \<open>Values through a buffer\<close>

lemma require_mode_ok:
  "valid (buf_limits b) \<Longrightarrow> buf_mode b = mode \<Longrightarrow> bindB (require_mode mode path) f b = f () b"
  by (simp add: bindB_def require_mode_def returnB_def)

context wire_codec
begin

lemma read_value_enc:
  assumes "ok v" "valid (buf_limits b)" "buf_mode b = ReadMode"
    and "drop (buf_offset b) (buf_data b) = enc v @ rest"
  shows "read_value path dec b = (Inr v, b\<lparr>buf_offset := buf_offset b + length (enc v)\<rparr>)"
proof -
  have "length (buf_data b) - buf_offset b = length (enc v) + length rest"
    using arg_cong [OF assms(4), of length] by simp
  with assms show ?thesis
    by (simp add: read_value_def require_mode_ok dec_enc returnB_def buffer_remaining_def)
qed

lemma write_value_enc:
  assumes "valid (buf_limits b)" "buf_mode b = WriteMode" "wr [] = (n, None, enc v)"
    and "int (length (buf_data b) + length (enc v)) \<le> frame_bytes (buf_limits b)"
  shows "write_value path wr b = (Inr (), b\<lparr>buf_data := buf_data b @ enc v\<rparr>)"
  using assms by (simp add: write_value_def append_value_def require_mode_ok returnB_def)

end

text \<open>The buffer a peer reads what was written from.\<close>

definition reader_of :: "buffer \<Rightarrow> buffer" where
  "reader_of b = \<lparr>buf_data = buf_data b, buf_offset = 0, buf_limits = buf_limits b,
     buf_mode = ReadMode, buf_depth = 0\<rparr>"

lemma reader_of_sel [simp]:
  "buf_data (reader_of b) = buf_data b" "buf_offset (reader_of b) = 0"
  "buf_limits (reader_of b) = buf_limits b" "buf_mode (reader_of b) = ReadMode"
  by (simp_all add: reader_of_def)

text \<open>What a successful write appends.\<close>

lemma write_varint_Inr:
  assumes "buf_write_varint path v b = (Inr (), c)"
  shows "valid (buf_limits b)" "c = b\<lparr>buf_data := buf_data b @ put_varint v\<rparr>"
  using assms
  by (auto simp: buf_write_varint_def write_varint_def write_value_def append_value_def bindB_def
      require_mode_def returnB_def failB_def split: if_splits)

lemma read_varint_at:
  assumes "valid (buf_limits b)" "buf_mode b = ReadMode"
    "drop (buf_offset b) (buf_data b) = put_varint v @ rest"
  shows "buf_read_varint path b = (Inr v, b\<lparr>buf_offset := buf_offset b + length (put_varint v)\<rparr>)"
  unfolding buf_read_varint_def using assms by (intro varint.read_value_enc) simp_all

lemma buf_write_varint_empty:
  assumes "buf_data b = []" "buf_mode b = WriteMode" "valid (buf_limits b)" "5 \<le> frame_bytes (buf_limits b)"
  shows "buf_write_varint path v b = (Inr (), b\<lparr>buf_data := put_varint v\<rparr>)"
  using assms length_put_varint(2) [of v]
  by (auto simp: buf_write_varint_def write_varint_def write_value_def append_value_def bindB_def
      require_mode_def returnB_def failB_def split: sum.splits)

lemma sint_bias:
  fixes v :: i32
  assumes "0 \<le> sint v" "sint v < 2 ^ 31 - 1"
  shows "sint (v + 1) = sint v + 1"
  using assms by (simp add: sint_word_ariths signed_take_bit_int_eq_self)

section \<open>Properties\<close>



text \<open>
  nested decoding. \<open>EnterNested\<close> succeeds exactly below the recursion limit, a matched
  \<open>LeaveNested\<close> restores the buffer, and an unmatched one at depth zero changes nothing.
\<close>

theorem nesting_balanced:
  assumes "buffer_ok b"
  shows "(buf_depth b < recursion_depth (buf_limits b) \<longleftrightarrow> fst (enter_nested path b) = Inr ()) \<and>
    (buf_depth b < recursion_depth (buf_limits b) \<longrightarrow>
      run leave_nested (run (enter_nested path) b) = b) \<and>
    (\<not> buf_depth b < recursion_depth (buf_limits b) \<longrightarrow>
      enter_nested path b = (Inl (PathError path ErrRecursionLimit), b)) \<and>
    (buf_depth b = 0 \<longrightarrow> run leave_nested b = b)"
  using assms limits_okD(1)
  by (auto simp: buffer_ok_def enter_nested_def leave_nested_def run_def returnB_def failB_def)

theorem nesting_balanced_witness:
  "run leave_nested (run (enter_nested ''slot'')
     \<lparr>buf_data = [], buf_offset = 0, buf_limits = default_limits, buf_mode = ReadMode, buf_depth = 511\<rparr>) =
     \<lparr>buf_data = [], buf_offset = 0, buf_limits = default_limits, buf_mode = ReadMode, buf_depth = 511\<rparr>"
  using nesting_balanced [of "\<lparr>buf_data = [], buf_offset = 0, buf_limits = default_limits,
    buf_mode = ReadMode, buf_depth = 511\<rparr>" "''slot''"]
  by (simp add: buffer_ok_def) (simp add: default_limits_def)

text \<open>
  a registry holder written into an empty buffer is read back: an inline marker as inline, and
  every ID from 0 to \<open>2^31 - 2\<close> as itself; the one ID the bias cannot represent and the negative
  ones are refused by the writer.
\<close>

theorem holder_roundtrip:
  assumes "new_write_buffer lim = Inr b" and "limits_ok lim" and "5 \<le> frame_bytes lim"
  shows "(fst (write_holder path hid inline b) = Inr () \<longleftrightarrow>
      inline \<or> (0 \<le> sint hid \<and> sint hid < 2 ^ 31 - 1)) \<and>
    (inline \<or> (0 \<le> sint hid \<and> sint hid < 2 ^ 31 - 1) \<longrightarrow>
      fst (read_holder path (reader_of (run (write_holder path hid inline) b))) =
        Inr (if inline then 0 else hid, inline))"
proof (intro conjI impI)
  have b: "buf_data b = []" "buf_mode b = WriteMode" "buf_limits b = lim"
    using assms by (auto simp: new_write_buffer_def validate_limits_def guardR_def bindR_def
        split: if_splits)
  have put: "buf_write_varint path v b = (Inr (), b\<lparr>buf_data := put_varint v\<rparr>)" for v
    using buf_write_varint_empty [OF b(1,2)] b(3) assms(2,3) limits_okD(1) by simp
  show "fst (write_holder path hid inline b) = Inr () \<longleftrightarrow>
      inline \<or> (0 \<le> sint hid \<and> sint hid < 2 ^ 31 - 1)"
    by (auto simp: write_holder_def put max_holder_id_def failB_def)
  assume ok: "inline \<or> (0 \<le> sint hid \<and> sint hid < 2 ^ 31 - 1)"
  let ?v = "if inline then 0 else hid + 1"
  have wr: "run (write_holder path hid inline) b = b\<lparr>buf_data := put_varint ?v\<rparr>"
    using ok by (auto simp: write_holder_def put max_holder_id_def run_def)
  have rd: "buf_read_varint path (reader_of (b\<lparr>buf_data := put_varint ?v\<rparr>)) =
      (Inr ?v, (reader_of (b\<lparr>buf_data := put_varint ?v\<rparr>))\<lparr>buf_offset := length (put_varint ?v)\<rparr>)"
    using read_varint_at [of "reader_of (b\<lparr>buf_data := put_varint ?v\<rparr>)" ?v "[]"] b
      limits_okD(1) [OF assms(2)] by simp
  have biased: "sint (hid + 1) = sint hid + 1" if "\<not> inline"
    using ok that by (intro sint_bias) auto
  show "fst (read_holder path (reader_of (run (write_holder path hid inline) b))) =
      Inr (if inline then 0 else hid, inline)"
    using ok biased unfolding wr read_holder_def bindB_def rd
    by (auto simp: returnB_def failB_def)
qed

theorem holder_roundtrip_witness:
  "fst (read_holder ''sound'' (reader_of (run (write_holder ''sound'' 300 False)
     \<lparr>buf_data = [], buf_offset = 0, buf_limits = default_limits, buf_mode = WriteMode, buf_depth = 0\<rparr>)))
   = Inr (300, False)"
  (is "fst (_ (reader_of (run _ ?b))) = _")
proof -
  have "new_write_buffer default_limits = Inr ?b"
    by (simp add: new_write_buffer_def validate_limits_def default_limits_def)
  from holder_roundtrip [OF this limits_ok_default, of "''sound''" 300 False] show ?thesis
    by (simp add: default_limits_def)
qed

end
