(* ===== verification/Modified_UTF8.thy ===== *)
theory Modified_UTF8
  imports Wire_Buffer
begin

unbundle bit_operations_syntax

text \<open>
  Java's modified UTF-8, from wire/java/nbt.go (\<open>decodeModifiedUTF8\<close>, which makes the key that
  names are compared by) and wire/java/nbt_network.go (\<open>encodeModifiedUTF8\<close>, which writes a Go
  string). The two meet in UTF-16: what is decoded from an encoded string is its code units.
\<close>

section \<open>Decoding and encoding\<close>

text \<open>
  \<open>decodeModifiedUTF8\<close>: a key of two bytes for each UTF-16 code unit. The error is \<open>ErrInvalidNBT\<close>
  wherever the sequence breaks off or is malformed.
\<close>

definition unit_bytes :: "16 word \<Rightarrow> bytes" where
  "unit_bytes v = [ucast (drop_bit 8 v), ucast v]"

fun decode_modified_utf8 :: "bytes \<Rightarrow> bytes result" where
  "decode_modified_utf8 [] = Inr []"
| "decode_modified_utf8 (first # tail) =
     (if first AND 0x80 = 0 then
        bindR (decode_modified_utf8 tail) (\<lambda>key. Inr (unit_bytes (ucast first) @ key))
      else if first AND 0xE0 = 0xC0 then
        (case tail of
           second # tail' \<Rightarrow>
             if second AND 0xC0 \<noteq> 0x80 then Inl ErrInvalidNBT
             else bindR (decode_modified_utf8 tail') (\<lambda>key. Inr (unit_bytes
               (push_bit 6 (ucast (first AND 0x1F)) OR ucast (second AND 0x3F)) @ key))
         | _ \<Rightarrow> Inl ErrInvalidNBT)
      else if first AND 0xF0 = 0xE0 then
        (case tail of
           second # third # tail' \<Rightarrow>
             if second AND 0xC0 \<noteq> 0x80 \<or> third AND 0xC0 \<noteq> 0x80 then Inl ErrInvalidNBT
             else bindR (decode_modified_utf8 tail') (\<lambda>key. Inr (unit_bytes
               (push_bit 12 (ucast (first AND 0x0F)) OR push_bit 6 (ucast (second AND 0x3F)) OR
                ucast (third AND 0x3F)) @ key))
         | _ \<Rightarrow> Inl ErrInvalidNBT)
      else Inl ErrInvalidNBT)"

text \<open>
  \<open>encodeModifiedUTF8\<close>, on the runes a Go string ranges over. A rune is a code point of 21 bits;
  the conversions to \<open>byte\<close> truncate as Go's do.
\<close>

definition triple :: "i32 \<Rightarrow> bytes" where
  "triple point = [0xE0 OR ucast (drop_bit 12 point), 0x80 OR ucast (drop_bit 6 point AND 0x3F),
     0x80 OR ucast (point AND 0x3F)]"

definition encode_rune :: "i32 \<Rightarrow> bytes" where
  "encode_rune point =
     (if 0 < point \<and> point \<le> 0x7F then [ucast point]
      else if point \<le> 0x7FF then
        [0xC0 OR ucast (drop_bit 6 point), 0x80 OR ucast (point AND 0x3F)]
      else if point \<le> 0xFFFF then triple point
      else let offset = point - 0x10000 in
        triple (0xD800 + drop_bit 10 offset) @ triple (0xDC00 + (offset AND 0x3FF)))"

fun encode_runes :: "i32 list \<Rightarrow> bytes" where
  "encode_runes [] = []"
| "encode_runes (point # points) = encode_rune point @ encode_runes points"

text \<open>
  Ranging over a Go string: the runes of its UTF-8, with U+FFFD for every byte that starts none.
\<close>

definition in_bytes :: "byte \<Rightarrow> byte \<Rightarrow> byte \<Rightarrow> bool" where
  "in_bytes lo hi b \<longleftrightarrow> lo \<le> b \<and> b \<le> hi"

definition continuation :: "byte \<Rightarrow> bool" where
  "continuation b \<longleftrightarrow> in_bytes 0x80 0xBF b"

definition first_rune :: "bytes \<Rightarrow> i32 \<times> nat" where
  "first_rune s =
     (case s of
        [] \<Rightarrow> (0xFFFD, 0)
      | b # t \<Rightarrow>
          if b < 0x80 then (ucast b, 1)
          else if in_bytes 0xC2 0xDF b \<and> 1 \<le> length t \<and> continuation (t ! 0) then
            (push_bit 6 (ucast (b AND 0x1F)) OR ucast (t ! 0 AND 0x3F), 2)
          else if in_bytes 0xE0 0xEF b \<and> 2 \<le> length t \<and>
              in_bytes (if b = 0xE0 then 0xA0 else 0x80) (if b = 0xED then 0x9F else 0xBF) (t ! 0) \<and>
              continuation (t ! 1) then
            (push_bit 12 (ucast (b AND 0x0F)) OR push_bit 6 (ucast (t ! 0 AND 0x3F)) OR
              ucast (t ! 1 AND 0x3F), 3)
          else if in_bytes 0xF0 0xF4 b \<and> 3 \<le> length t \<and>
              in_bytes (if b = 0xF0 then 0x90 else 0x80) (if b = 0xF4 then 0x8F else 0xBF) (t ! 0) \<and>
              continuation (t ! 1) \<and> continuation (t ! 2) then
            (push_bit 18 (ucast (b AND 0x07)) OR push_bit 12 (ucast (t ! 0 AND 0x3F)) OR
              push_bit 6 (ucast (t ! 1 AND 0x3F)) OR ucast (t ! 2 AND 0x3F), 4)
          else (0xFFFD, 1))"

function go_runes :: "bytes \<Rightarrow> i32 list" where
  "go_runes s = (if s = [] then [] else
     case first_rune s of (point, width) \<Rightarrow> point # go_runes (drop width s))"
  by pat_completeness auto
termination
  by (relation "measure length") (auto simp: first_rune_def split: list.splits if_splits)

declare go_runes.simps [simp del]

definition encode_modified_utf8 :: "bytes \<Rightarrow> bytes" where
  "encode_modified_utf8 text = encode_runes (go_runes text)"

section \<open>Bits of the three sequences\<close>

lemma nat_less_8: "n < (8::nat) \<longleftrightarrow> n = 0 \<or> n = 1 \<or> n = 2 \<or> n = 3 \<or> n = 4 \<or> n = 5 \<or> n = 6 \<or> n = 7"
  by presburger

lemma const_bits:
  "bit (0xE0 :: byte) n \<longleftrightarrow> 5 \<le> n \<and> n < 8"
  "bit (0xC0 :: byte) n \<longleftrightarrow> 6 \<le> n \<and> n < 8"
  "bit (0x80 :: byte) n \<longleftrightarrow> n = 7"
  "bit (0xF0 :: byte) n \<longleftrightarrow> 4 \<le> n \<and> n < 8"
  "bit (0x0F :: byte) n \<longleftrightarrow> n < 4"
  "bit (0x1F :: byte) n \<longleftrightarrow> n < 5"
  "bit (0x3F :: byte) n \<longleftrightarrow> n < 6"
  by (cases "n < 8", (auto simp: nat_less_8)[1], (auto dest: bit_imp_le_length)[1])+

lemma low_bits: "bit (0x3F :: i32) n \<longleftrightarrow> n < 6" 
proof -
  have "(0x3F :: i32) = mask 6" by (simp add: mask_eq_exp_minus_1)
  then show ?thesis by (simp only: bit_mask_iff) auto
qed

lemma small_bits:
  assumes "uint p < 2 ^ k" "k \<le> n"
  shows "\<not> bit (p :: 'a::len word) n"
proof -
  show ?thesis
  proof
    assume b: "bit p n"
    then have n: "n < LENGTH('a)" by (rule bit_imp_le_length)
    from b n have "bit (uint p) n" by (simp add: bit_uint_iff)
    have "take_bit k (uint p) = uint p" using assms(1) by (simp add: take_bit_int_eq_self)
    with \<open>bit (uint p) n\<close> assms(2) show False by (metis bit_take_bit_iff not_le)
  qed
qed

lemmas byte_bits = bit_or_iff bit_and_iff bit_ucast_iff bit_drop_bit_eq bit_push_bit_iff const_bits
  low_bits o_def byte_80_bits

lemma split_12: "(n::nat) < 6 \<or> (\<exists>m. n = 6 + m \<and> m < 6) \<or> (\<exists>m. n = 12 + m)"
  by presburger

lemma triple_bits:
  fixes p :: i32
  shows "(0xE0 OR ucast (drop_bit 12 p) :: byte) AND 0x80 \<noteq> 0"
    and "(0xE0 OR ucast (drop_bit 12 p) :: byte) AND 0xE0 \<noteq> 0xC0"
    and "uint p < 2 ^ 16 \<Longrightarrow> (0xE0 OR ucast (drop_bit 12 p) :: byte) AND 0xF0 = 0xE0"
    and "(0x80 OR ucast (drop_bit 6 p AND 0x3F) :: byte) AND 0xC0 = 0x80"
    and "(0x80 OR ucast (p AND 0x3F) :: byte) AND 0xC0 = 0x80"
    and "push_bit 12 (ucast ((0xE0 OR ucast (drop_bit 12 p) :: byte) AND 0x0F)) OR
      push_bit 6 (ucast ((0x80 OR ucast (drop_bit 6 p AND 0x3F) :: byte) AND 0x3F)) OR
      ucast ((0x80 OR ucast (p AND 0x3F) :: byte) AND 0x3F) = (ucast p :: 16 word)"
proof -
  show "(0xE0 OR ucast (drop_bit 12 p) :: byte) AND 0x80 \<noteq> 0"
    by (simp only: byte_80_zero_iff byte_bits) simp
  have "bit ((0xE0 OR ucast (drop_bit 12 p) :: byte) AND 0xE0) 5" "\<not> bit (0xC0 :: byte) 5"
    by (simp_all only: byte_bits) simp_all
  then show "(0xE0 OR ucast (drop_bit 12 p) :: byte) AND 0xE0 \<noteq> 0xC0" by metis
  show "(0xE0 OR ucast (drop_bit 12 p) :: byte) AND 0xF0 = 0xE0" if "uint p < 2 ^ 16"
  proof (rule bit_word_eqI)
    fix n assume "n < LENGTH(8)"
    show "bit ((0xE0 OR ucast (drop_bit 12 p) :: byte) AND 0xF0) n = bit (0xE0 :: byte) n"
      using small_bits [OF that, of "12 + n"] by (cases "n = 4") (auto simp only: byte_bits)
  qed
  show "(0x80 OR ucast (drop_bit 6 p AND 0x3F) :: byte) AND 0xC0 = 0x80"
    by (rule bit_word_eqI) (auto simp only: byte_bits)
  show "(0x80 OR ucast (p AND 0x3F) :: byte) AND 0xC0 = 0x80"
    by (rule bit_word_eqI) (auto simp only: byte_bits)
  show "push_bit 12 (ucast ((0xE0 OR ucast (drop_bit 12 p) :: byte) AND 0x0F)) OR
      push_bit 6 (ucast ((0x80 OR ucast (drop_bit 6 p AND 0x3F) :: byte) AND 0x3F)) OR
      ucast ((0x80 OR ucast (p AND 0x3F) :: byte) AND 0x3F) = (ucast p :: 16 word)"
    (is "?lhs = _")
  proof (rule bit_word_eqI)
    fix n assume "n < LENGTH(16)"
    then show "bit ?lhs n = bit (ucast p :: 16 word) n"
      using split_12 [of n] by (elim disjE exE conjE; simp only: byte_bits) auto
  qed
qed

lemma split_11: "(n::nat) < 6 \<or> (\<exists>m. n = 6 + m \<and> m < 5) \<or> (\<exists>m. n = 11 + m)"
  by presburger

lemma pair_bits:
  fixes p :: i32
  shows "(0xC0 OR ucast (drop_bit 6 p) :: byte) AND 0x80 \<noteq> 0"
    and "uint p < 2 ^ 11 \<Longrightarrow> (0xC0 OR ucast (drop_bit 6 p) :: byte) AND 0xE0 = 0xC0"
    and "uint p < 2 ^ 11 \<Longrightarrow>
      push_bit 6 (ucast ((0xC0 OR ucast (drop_bit 6 p) :: byte) AND 0x1F)) OR
      ucast ((0x80 OR ucast (p AND 0x3F) :: byte) AND 0x3F) = (ucast p :: 16 word)"
proof -
  show "(0xC0 OR ucast (drop_bit 6 p) :: byte) AND 0x80 \<noteq> 0"
    by (simp only: byte_80_zero_iff byte_bits) simp
  show "(0xC0 OR ucast (drop_bit 6 p) :: byte) AND 0xE0 = 0xC0" if "uint p < 2 ^ 11"
  proof (rule bit_word_eqI)
    fix n assume "n < LENGTH(8)"
    show "bit ((0xC0 OR ucast (drop_bit 6 p) :: byte) AND 0xE0) n = bit (0xC0 :: byte) n"
      using small_bits [OF that, of "6 + n"] by (cases "n = 5") (auto simp only: byte_bits)
  qed
  show "push_bit 6 (ucast ((0xC0 OR ucast (drop_bit 6 p) :: byte) AND 0x1F)) OR
      ucast ((0x80 OR ucast (p AND 0x3F) :: byte) AND 0x3F) = (ucast p :: 16 word)"
    (is "?lhs = _") if "uint p < 2 ^ 11"
  proof (rule bit_word_eqI)
    fix n assume "n < LENGTH(16)"
    then show "bit ?lhs n = bit (ucast p :: 16 word) n"
      using split_11 [of n] small_bits [OF that, of n]
      by (elim disjE exE conjE; simp only: byte_bits) auto
  qed
qed

lemma single_bits:
  fixes p :: i32
  assumes "uint p < 2 ^ 7"
  shows "(ucast p :: byte) AND 0x80 = 0" and "ucast (ucast p :: byte) = (ucast p :: 16 word)"
proof -
  show "(ucast p :: byte) AND 0x80 = 0"
    using small_bits [OF assms, of 7] by (simp only: byte_80_zero_iff byte_bits) simp
  show "ucast (ucast p :: byte) = (ucast p :: 16 word)"
  proof (rule bit_word_eqI)
    fix n assume "n < LENGTH(16)"
    then show "bit (ucast (ucast p :: byte) :: 16 word) n = bit (ucast p :: 16 word) n"
      using small_bits [OF assms, of n] by (cases "n < 7") (auto simp: bit_ucast_iff)
  qed
qed

lemma decode_triple:
  "uint p < 2 ^ 16 \<Longrightarrow>
   decode_modified_utf8 (triple p @ rest) = bindR (decode_modified_utf8 rest)
     (\<lambda>key. Inr (unit_bytes (ucast p) @ key))"
  using triple_bits [of p] by (simp only: triple_def append.simps decode_modified_utf8.simps) simp

text \<open>The UTF-16 code units of a code point, two bytes each.\<close>

definition utf16_bytes :: "i32 \<Rightarrow> bytes" where
  "utf16_bytes p =
     (if p \<le> 0xFFFF then unit_bytes (ucast p)
      else unit_bytes (ucast (0xD800 + drop_bit 10 (p - 0x10000))) @
        unit_bytes (ucast (0xDC00 + ((p - 0x10000) AND 0x3FF))))"

lemma surrogates:
  fixes p :: i32
  assumes "0xFFFF < p" "uint p < 2 ^ 21"
  shows "uint (0xD800 + drop_bit 10 (p - 0x10000)) < 2 ^ 16"
    and "uint (0xDC00 + ((p - 0x10000) AND 0x3FF)) < 2 ^ 16"
proof -
  have "uint (p - 0x10000) = uint p - 0x10000" "uint p < 2 ^ 21"
    using assms by (auto simp: uint_sub_if' word_less_def word_le_def)
  then have "uint (drop_bit 10 (p - 0x10000)) < 2 ^ 11"
    by (simp add: drop_bit_eq_div uint_div_distrib)
  then show "uint (0xD800 + drop_bit 10 (p - 0x10000)) < 2 ^ 16"
    by (simp add: uint_word_ariths)
  have "(0x3FF :: i32) = mask 10" by (simp add: mask_eq_exp_minus_1)
  then have "uint ((p - 0x10000) AND 0x3FF) < 2 ^ 10"
    by (metis take_bit_eq_mask take_bit_int_less_exp unsigned_take_bit_eq)
  then show "uint (0xDC00 + ((p - 0x10000) AND 0x3FF)) < 2 ^ 16"
    by (simp add: uint_word_ariths)
qed

lemma decode_encode_rune:
  assumes "uint p < 2 ^ 21"
  shows "decode_modified_utf8 (encode_rune p @ rest) = bindR (decode_modified_utf8 rest)
     (\<lambda>key. Inr (utf16_bytes p @ key))"
proof -
  consider "0 < p" "p \<le> 0x7F" | "\<not> (0 < p \<and> p \<le> 0x7F)" "p \<le> 0x7FF" | "0x7FF < p" "p \<le> 0xFFFF"
    | "0xFFFF < p" by fastforce
  then show ?thesis
  proof cases
    case 1
    then have "uint p < 2 ^ 7" "p \<le> 0xFFFF" by (auto simp: word_le_def)
    with 1 single_bits [of p] show ?thesis
      by (simp only: encode_rune_def utf16_bytes_def append.simps decode_modified_utf8.simps) simp
  next
    case 2
    then have "uint p < 2 ^ 11" "p \<le> 0xFFFF" by (auto simp: word_le_def)
    with 2 pair_bits [of p] triple_bits(5) [of p] show ?thesis
      by (simp only: encode_rune_def utf16_bytes_def append.simps decode_modified_utf8.simps) simp
  next
    case 3
    then have "uint p < 2 ^ 16" "\<not> p \<le> 0x7F" "\<not> p \<le> 0x7FF" by (auto simp: word_le_def word_less_def)
    with 3 decode_triple [of p] show ?thesis
      by (simp add: encode_rune_def utf16_bytes_def)
  next
    case 4
    then have "\<not> p \<le> 0x7F" "\<not> p \<le> 0x7FF" "\<not> p \<le> 0xFFFF" by (auto simp: word_le_def word_less_def)
    with surrogates [OF 4 assms] show ?thesis
      by (cases "decode_modified_utf8 rest")
        (simp_all add: encode_rune_def utf16_bytes_def Let_def decode_triple)
  qed
qed

lemma small_word:
  assumes "\<And>n. k \<le> n \<Longrightarrow> \<not> bit p n"
  shows "uint (p :: 'a::len word) < 2 ^ k"
proof -
  have "take_bit k p = p"
    by (rule bit_word_eqI) (use assms in \<open>auto simp: bit_take_bit_iff simp flip: not_le\<close>)
  then show ?thesis by (metis take_bit_int_less_exp unsigned_take_bit_eq)
qed

lemma byte_high: "8 \<le> n \<Longrightarrow> \<not> bit (x :: byte) n"
  using bit_imp_le_length [of x n] by auto

lemma or_21: "uint (a OR b :: i32) < 2 ^ 21" if "uint a < 2 ^ 21" "uint b < 2 ^ 21"
  by (rule small_word) (simp only: bit_or_iff small_bits [OF that(1)] small_bits [OF that(2)], simp)
lemma push_21: "uint (push_bit m (ucast (x::byte)) :: i32) < 2 ^ 21" if "m \<le> 13"
  proof (rule small_word)
    fix n :: nat assume "21 \<le> n"
    with that have "8 \<le> n - m" by simp
    then have "\<not> bit x (n - m)" by (rule byte_high)
    then show "\<not> bit (push_bit m (ucast x) :: i32) n"
      by (simp only: bit_push_bit_iff bit_ucast_iff simp_thms)
  qed
lemma byte_21: "uint (ucast (x :: byte) :: i32) < 2 ^ 21"
proof (rule small_word)
  fix n :: nat assume "21 \<le> n"
  then have "\<not> bit x n" by (intro byte_high) simp
  then show "\<not> bit (ucast x :: i32) n"
    by (simp only: bit_ucast_iff simp_thms)
qed

lemma push_18_21: "uint (push_bit 18 (ucast ((x::byte) AND 7)) :: i32) < 2 ^ 21"
proof (rule small_word)
  fix n :: nat assume n: "21 \<le> n"
  have "(7 :: byte) = mask 3" by (simp add: mask_eq_exp_minus_1)
  then have "\<not> bit (7 :: byte) (n - 18)" using n
    by (simp only: bit_mask_iff) auto
  then show "\<not> bit (push_bit 18 (ucast (x AND 7)) :: i32) n"
    by (simp only: bit_push_bit_iff bit_ucast_iff bit_and_iff simp_thms)
qed

lemma if_21: "uint (p :: i32) < 2 ^ 21 \<Longrightarrow> uint q < 2 ^ 21 \<Longrightarrow> uint (if c then p else q) < 2 ^ 21"
  by simp

lemma first_rune_21: "uint (fst (first_rune s)) < 2 ^ 21"
proof (cases s)
  case (Cons b t)
  show ?thesis
    unfolding first_rune_def Cons list.case if_distrib [of fst] fst_conv
    by (intro if_21 or_21 push_21 byte_21 push_18_21) simp_all
qed (simp add: first_rune_def)

lemma go_runes_21: "p \<in> set (go_runes s) \<Longrightarrow> uint p < 2 ^ 21"
proof (induction s rule: go_runes.induct)
  case (1 s)
  then show ?case
    using first_rune_21 [of s] by (cases "first_rune s") (auto simp: go_runes.simps [of s] split: if_splits)
qed

lemma decode_encode_runes:
  "(\<forall>p \<in> set ps. uint p < 2 ^ 21) \<Longrightarrow>
   decode_modified_utf8 (encode_runes ps) = Inr (concat (map utf16_bytes ps))"
  by (induction ps) (simp_all add: decode_encode_rune)

section \<open>Properties\<close>

text \<open>
  whatever bytes a Go string holds, \<open>encodeModifiedUTF8\<close> writes a well-formed modified UTF-8
  string, and \<open>decodeModifiedUTF8\<close> makes of it the UTF-16 code units of the string's runes, with
  NUL, the two-byte forms and the surrogate pairs.
\<close>

theorem modified_utf8_units:
  "decode_modified_utf8 (encode_modified_utf8 text) =
     Inr (concat (map utf16_bytes (go_runes text)))"
  unfolding encode_modified_utf8_def by (intro decode_encode_runes ballI go_runes_21)

end
