(* ===== verification/Wire_NBT.thy ===== *)
theory Wire_NBT
  imports Modified_UTF8
begin

unbundle bit_operations_syntax

text \<open>
  wire/java/nbt.go and wire/java/nbt_network.go: named binary tags, kept as the bytes they came
  in, and validated. \<open>validate_nbt\<close> and \<open>validate_network_nbt\<close> walk one value and return its
  length; \<open>read_payload\<close> with its two loops is the cursor's recursion. Its specification is
  the datatype \<open>nbt_value\<close>: the cursor accepts exactly the encodings of well-formed trees.

  The cursor is the bytes not yet taken and the position. The recursion ends because the depth is
  limited, a list has the number of items it announces and a compound at most as many as the
  limits allow.
\<close>

section \<open>The cursor\<close>

definition tag_end :: byte where "tag_end = 0"
definition tag_byte :: byte where "tag_byte = 1"
definition tag_short :: byte where "tag_short = 2"
definition tag_int :: byte where "tag_int = 3"
definition tag_long :: byte where "tag_long = 4"
definition tag_float :: byte where "tag_float = 5"
definition tag_double :: byte where "tag_double = 6"
definition tag_byte_array :: byte where "tag_byte_array = 7"
definition tag_string :: byte where "tag_string = 8"
definition tag_list :: byte where "tag_list = 9"
definition tag_compound :: byte where "tag_compound = 10"
definition tag_int_array :: byte where "tag_int_array = 11"

lemmas tag_defs = tag_end_def tag_byte_def tag_short_def tag_int_def tag_long_def tag_float_def
  tag_double_def tag_byte_array_def tag_string_def tag_list_def tag_compound_def tag_int_array_def

record nbt_cursor =
  nbt_rest :: bytes
  nbt_pos :: int

definition nbt_take :: "limits \<Rightarrow> int \<Rightarrow> nbt_cursor \<Rightarrow> (bytes \<times> nbt_cursor) result" where
  "nbt_take lim count c =
     (if count < 0 then Inl ErrNegativeLength
      else if nbt_bytes lim - nbt_pos c < count then
        Inl (SizeError ''NBT'' (nbt_pos c + count) (nbt_bytes lim))
      else if int (length (nbt_rest c)) < count then Inl UnexpectedEOF
      else Inr (take (nat count) (nbt_rest c),
        \<lparr>nbt_rest = drop (nat count) (nbt_rest c), nbt_pos = nbt_pos c + count\<rparr>))"

definition nbt_read_byte :: "limits \<Rightarrow> nbt_cursor \<Rightarrow> (byte \<times> nbt_cursor) result" where
  "nbt_read_byte lim c = bindR (nbt_take lim 1 c) (\<lambda>(data, c'). Inr (data ! 0, c'))"

definition nbt_read_count :: "string \<Rightarrow> limits \<Rightarrow> nbt_cursor \<Rightarrow> (int \<times> nbt_cursor) result" where
  "nbt_read_count name lim c = bindR (nbt_take lim 4 c) (\<lambda>(data, c').
     let count = sint (be_word data :: i32) in
     if count < 0 then Inl ErrNegativeLength
     else if collection_items lim < count then Inl (SizeError name count (collection_items lim))
     else Inr (count, c'))"

definition nbt_read_string :: "string \<Rightarrow> limits \<Rightarrow> nbt_cursor \<Rightarrow> (bytes \<times> nbt_cursor) result" where
  "nbt_read_string name lim c = bindR (nbt_take lim 2 c) (\<lambda>(length_data, c').
     let len = uint (be_word length_data :: 16 word) in
     if string_bytes lim < len then Inl (SizeError name len (string_bytes lim))
     else bindR (nbt_take lim len c') (\<lambda>(data, c'').
       bindR (decode_modified_utf8 data) (\<lambda>key. Inr (key, c''))))"

definition max_int :: int where
  "max_int = 2 ^ 63 - 1"

definition nbt_read_array :: "int \<Rightarrow> string \<Rightarrow> limits \<Rightarrow> nbt_cursor \<Rightarrow> nbt_cursor result" where
  "nbt_read_array item_bytes name lim c = bindR (nbt_read_count name lim c) (\<lambda>(count, c').
     if max_int div item_bytes < count then Inl (SizeError name count (collection_items lim))
     else bindR (nbt_take lim (count * item_bytes) c') (\<lambda>(_, c''). Inr c''))"

text \<open>The error-only result of a taken value that is not looked at.\<close>

definition nbt_skip :: "limits \<Rightarrow> int \<Rightarrow> nbt_cursor \<Rightarrow> nbt_cursor result" where
  "nbt_skip lim n c = bindR (nbt_take lim n c) (\<lambda>(_, c'). Inr c')"

text \<open>The measure of the recursion: the levels that are left, four steps each.\<close>

definition level :: "limits \<Rightarrow> int \<Rightarrow> nat \<Rightarrow> nat" where
  "level lim depth k = (if depth \<le> recursion_depth lim
     then 4 * nat (recursion_depth lim + 1 - depth) + k else k)"

text \<open>
  \<open>readPayload\<close>, the item loop of \<open>readList\<close> and the loop of \<open>readCompound\<close>, whose map of the keys
  seen is the list of them.
\<close>

function read_payload :: "limits \<Rightarrow> byte \<Rightarrow> int \<Rightarrow> nbt_cursor \<Rightarrow> nbt_cursor result"
  and read_list :: "limits \<Rightarrow> int \<Rightarrow> nbt_cursor \<Rightarrow> nbt_cursor result"
  and read_list_items :: "limits \<Rightarrow> byte \<Rightarrow> int \<Rightarrow> nat \<Rightarrow> nbt_cursor \<Rightarrow> nbt_cursor result"
  and read_compound :: "limits \<Rightarrow> int \<Rightarrow> int \<Rightarrow> bytes list \<Rightarrow> nbt_cursor \<Rightarrow> nbt_cursor result"
where
  "read_payload lim tag depth c =
     (if recursion_depth lim < depth then Inl ErrRecursionLimit
      else if tag = tag_byte then nbt_skip lim 1 c
      else if tag = tag_short then nbt_skip lim 2 c
      else if tag = tag_int \<or> tag = tag_float then nbt_skip lim 4 c
      else if tag = tag_long \<or> tag = tag_double then nbt_skip lim 8 c
      else if tag = tag_byte_array then nbt_read_array 1 ''NBT byte array'' lim c
      else if tag = tag_string then
        bindR (nbt_read_string ''NBT string'' lim c) (\<lambda>(_, c'). Inr c')
      else if tag = tag_list then read_list lim depth c
      else if tag = tag_compound then read_compound lim depth 0 [] c
      else if tag = tag_int_array then nbt_read_array 4 ''NBT int array'' lim c
      else Inl ErrInvalidNBT)"
| "read_list lim depth c = bindR (nbt_read_byte lim c) (\<lambda>(tag, c1).
     if tag_int_array < tag then Inl ErrInvalidNBT
     else bindR (nbt_read_count ''NBT list'' lim c1) (\<lambda>(count, c2).
       if tag = tag_end \<and> count \<noteq> 0 then Inl ErrInvalidNBT
       else read_list_items lim tag depth (nat count) c2))"
| "read_list_items lim tag depth 0 c = Inr c"
| "read_list_items lim tag depth (Suc n) c =
     bindR (read_payload lim tag (depth + 1) c) (\<lambda>c'. read_list_items lim tag depth n c')"
| "read_compound lim depth count keys c = bindR (nbt_read_byte lim c) (\<lambda>(tag, c1).
     if tag = tag_end then Inr c1
     else if tag_int_array < tag then Inl ErrInvalidNBT
     else if collection_items lim \<le> count then
       Inl (SizeError ''NBT compound'' (count + 1) (collection_items lim))
     else bindR (nbt_read_string ''NBT compound key'' lim c1) (\<lambda>(name, c2).
       if name \<in> set keys then Inl ErrDuplicateNBTKey
       else bindR (read_payload lim tag (depth + 1) c2) (\<lambda>c3.
         read_compound lim depth (count + 1) (name # keys) c3)))"
  by pat_completeness auto

termination
proof (relation "measures
  [\<lambda>x. case x of
      Inl (Inl (lim, tag, depth, c)) \<Rightarrow> level lim depth (if depth \<le> recursion_depth lim then 3 else 0)
    | Inl (Inr (lim, depth, c)) \<Rightarrow> level lim depth 2
    | Inr (Inl (lim, tag, depth, n, c)) \<Rightarrow> level lim depth 1
    | Inr (Inr (lim, depth, count, keys, c)) \<Rightarrow> level lim depth 1,
   \<lambda>x. case x of
      Inl y \<Rightarrow> 0
    | Inr (Inl (lim, tag, depth, n, c)) \<Rightarrow> n
    | Inr (Inr (lim, depth, count, keys, c)) \<Rightarrow> nat (collection_items lim - count)]")
qed (auto simp: level_def)

declare read_payload.simps [simp del] read_list.simps [simp del] read_compound.simps [simp del]

definition validate_nbt :: "bytes \<Rightarrow> limits \<Rightarrow> int result" where
  "validate_nbt data lim =
     bindR (nbt_read_byte lim \<lparr>nbt_rest = data, nbt_pos = 0\<rparr>) (\<lambda>(tag, c1).
       if tag \<noteq> tag_compound then Inl ErrInvalidNBT
       else bindR (nbt_read_string ''root name'' lim c1) (\<lambda>(_, c2).
         bindR (read_payload lim tag 1 c2) (\<lambda>c3. Inr (nbt_pos c3))))"

definition validate_network_nbt :: "bytes \<Rightarrow> limits \<Rightarrow> int result" where
  "validate_network_nbt data lim =
     bindR (nbt_read_byte lim \<lparr>nbt_rest = data, nbt_pos = 0\<rparr>) (\<lambda>(tag, c1).
       if tag = tag_end then Inl ErrInvalidNBT
       else bindR (read_payload lim tag 1 c1) (\<lambda>c2. Inr (nbt_pos c2)))"

section \<open>What the cursor accepts\<close>

text \<open>
  A value as a tree: a scalar of a fixed width, a string, an array of bytes or of ints, a list of
  one tag, a compound. \<open>nbt_enc\<close> is its payload on the wire and \<open>nbt_ok\<close> the rules a value obeys
  at a nesting depth; for the entries of a compound, the keys that came before them too.
\<close>

datatype nbt_value =
    Scalar byte bytes
  | NString bytes
  | NArray byte bytes
  | NList byte "nbt_value list"
  | NCompound "(bytes \<times> nbt_value) list"

fun value_tag :: "nbt_value \<Rightarrow> byte" where
  "value_tag (Scalar tag data) = tag"
| "value_tag (NString s) = tag_string"
| "value_tag (NArray tag data) = tag"
| "value_tag (NList tag vs) = tag_list"
| "value_tag (NCompound es) = tag_compound"

definition scalar_width :: "byte \<Rightarrow> nat option" where
  "scalar_width tag =
     (if tag = tag_byte then Some 1
      else if tag = tag_short then Some 2
      else if tag = tag_int \<or> tag = tag_float then Some 4
      else if tag = tag_long \<or> tag = tag_double then Some 8
      else None)"

definition item_width :: "byte \<Rightarrow> nat option" where
  "item_width tag =
     (if tag = tag_byte_array then Some 1 else if tag = tag_int_array then Some 4 else None)"

definition nbt_string :: "bytes \<Rightarrow> bytes" where
  "nbt_string s = be_bytes 2 (word_of_int (int (length s)) :: 16 word) @ s"

definition nbt_count :: "nat \<Rightarrow> bytes" where
  "nbt_count n = be_bytes 4 (int32_of (int n))"

fun nbt_enc :: "nbt_value \<Rightarrow> bytes"
  and nbt_enc_list :: "nbt_value list \<Rightarrow> bytes"
  and nbt_enc_entries :: "(bytes \<times> nbt_value) list \<Rightarrow> bytes" where
  "nbt_enc (Scalar tag data) = data"
| "nbt_enc (NString s) = nbt_string s"
| "nbt_enc (NArray tag data) = nbt_count (length data div the (item_width tag)) @ data"
| "nbt_enc (NList tag vs) = tag # nbt_count (length vs) @ nbt_enc_list vs"
| "nbt_enc (NCompound es) = nbt_enc_entries es"
| "nbt_enc_list [] = []"
| "nbt_enc_list (v # vs) = nbt_enc v @ nbt_enc_list vs"
| "nbt_enc_entries [] = [tag_end]"
| "nbt_enc_entries ((key, v) # es) =
     value_tag v # nbt_string key @ nbt_enc v @ nbt_enc_entries es"

definition nbt_string_ok :: "limits \<Rightarrow> bytes \<Rightarrow> bool" where
  "nbt_string_ok lim s \<longleftrightarrow>
     length s < 2 ^ 16 \<and> int (length s) \<le> string_bytes lim \<and>
     (\<exists>key. decode_modified_utf8 s = Inr key)"

definition nbt_key :: "bytes \<Rightarrow> bytes" where
  "nbt_key s = (case decode_modified_utf8 s of Inl _ \<Rightarrow> [] | Inr key \<Rightarrow> key)"

fun nbt_ok :: "limits \<Rightarrow> int \<Rightarrow> nbt_value \<Rightarrow> bool"
  and nbt_ok_list :: "limits \<Rightarrow> int \<Rightarrow> byte \<Rightarrow> nbt_value list \<Rightarrow> bool"
  and nbt_ok_entries :: "limits \<Rightarrow> int \<Rightarrow> bytes list \<Rightarrow> (bytes \<times> nbt_value) list \<Rightarrow> bool" where
  "nbt_ok lim depth (Scalar tag data) \<longleftrightarrow>
     depth \<le> recursion_depth lim \<and> scalar_width tag = Some (length data)"
| "nbt_ok lim depth (NString s) \<longleftrightarrow> depth \<le> recursion_depth lim \<and> nbt_string_ok lim s"
| "nbt_ok lim depth (NArray tag data) \<longleftrightarrow> depth \<le> recursion_depth lim \<and>
     (\<exists>n w. item_width tag = Some w \<and> length data = n * w \<and> int n \<le> collection_items lim)"
| "nbt_ok lim depth (NList tag vs) \<longleftrightarrow> depth \<le> recursion_depth lim \<and>
     tag \<le> tag_int_array \<and> int (length vs) \<le> collection_items lim \<and>
     nbt_ok_list lim (depth + 1) tag vs"
| "nbt_ok lim depth (NCompound es) \<longleftrightarrow> depth \<le> recursion_depth lim \<and> nbt_ok_entries lim (depth + 1) [] es"
| "nbt_ok_list lim depth tag [] \<longleftrightarrow> True"
| "nbt_ok_list lim depth tag (v # vs) \<longleftrightarrow>
     value_tag v = tag \<and> nbt_ok lim depth v \<and> nbt_ok_list lim depth tag vs"
| "nbt_ok_entries lim depth keys [] \<longleftrightarrow> True"
| "nbt_ok_entries lim depth keys ((name, v) # es) \<longleftrightarrow>
     int (length keys) < collection_items lim \<and> nbt_string_ok lim name \<and>
     nbt_key name \<notin> set keys \<and> nbt_ok lim depth v \<and>
     nbt_ok_entries lim depth (nbt_key name # keys) es"

text \<open>A cursor that has taken some bytes.\<close>

definition took :: "limits \<Rightarrow> bytes \<Rightarrow> nbt_cursor \<Rightarrow> nbt_cursor \<Rightarrow> bool" where
  "took lim bs c c' \<longleftrightarrow> nbt_rest c = bs @ nbt_rest c' \<and>
     nbt_pos c' = nbt_pos c + int (length bs) \<and> nbt_pos c' \<le> nbt_bytes lim"

lemma took_append:
  "took lim (xs @ ys) c c' \<longleftrightarrow> (\<exists>d. took lim xs c d \<and> took lim ys d c')"
proof
  assume t: "took lim (xs @ ys) c c'"
  let ?d = "\<lparr>nbt_rest = ys @ nbt_rest c', nbt_pos = nbt_pos c + int (length xs)\<rparr>"
  from t have "took lim xs c ?d \<and> took lim ys ?d c'" by (auto simp: took_def)
  then show "\<exists>d. took lim xs c d \<and> took lim ys d c'" by blast
qed (auto simp: took_def)

lemma took_Cons: "took lim (x # ys) c c' \<longleftrightarrow> (\<exists>d. took lim [x] c d \<and> took lim ys d c')"
  using took_append [of lim "[x]" ys] by simp

lemmas took_ConsI = took_Cons [THEN iffD2, OF exI, OF conjI]
lemmas took_appendI = took_append [THEN iffD2, OF exI, OF conjI]

lemma took_Nil [simp]: "took lim [] c c' \<longleftrightarrow> c' = c \<and> nbt_pos c \<le> nbt_bytes lim"
  by (auto simp: took_def)

lemma took_pos: "took lim bs c c' \<Longrightarrow> nbt_pos c' \<le> nbt_bytes lim"
  by (simp add: took_def)

lemma nbt_take_iff [result_simps]:
  "nbt_take lim n c = Inr (data, c') \<longleftrightarrow> int (length data) = n \<and> took lim data c c'"
proof
  assume "nbt_take lim n c = Inr (data, c')"
  then show "int (length data) = n \<and> took lim data c c'"
    by (auto simp: nbt_take_def took_def split: if_splits)
next
  assume "int (length data) = n \<and> took lim data c c'"
  then show "nbt_take lim n c = Inr (data, c')"
    by (auto simp: nbt_take_def took_def)
qed

lemma nbt_skip_iff [result_simps]:
  "nbt_skip lim n c = Inr c' \<longleftrightarrow> (\<exists>data. int (length data) = n \<and> took lim data c c')"
  by (auto simp: nbt_skip_def result_simps)

lemma nbt_read_byte_iff [result_simps]:
  "nbt_read_byte lim c = Inr (b, c') \<longleftrightarrow> took lim [b] c c'"
  by (auto simp: nbt_read_byte_def result_simps length_one_conv)

lemma nbt_read_count_iff:
  assumes "collection_items lim < 2 ^ 31"
  shows "nbt_read_count name lim c = Inr (n, c') \<longleftrightarrow>
    0 \<le> n \<and> n \<le> collection_items lim \<and> took lim (nbt_count (nat n)) c c'"
proof
  assume "nbt_read_count name lim c = Inr (n, c')"
  then obtain data where data: "length data = 4" "took lim data c c'"
    and n: "n = sint (be_word data :: i32)" "0 \<le> n" "n \<le> collection_items lim"
    by (auto simp: nbt_read_count_def result_simps Let_def not_less)
  then have "nbt_count (nat n) = data"
    using be_bytes_be_word [of data 4, where 'a = 32] by (simp add: nbt_count_def)
  with data n show "0 \<le> n \<and> n \<le> collection_items lim \<and> took lim (nbt_count (nat n)) c c'"
    by simp
next
  assume a: "0 \<le> n \<and> n \<le> collection_items lim \<and> took lim (nbt_count (nat n)) c c'"
  have "be_word (nbt_count (nat n)) = int32_of n"
    using a by (simp add: nbt_count_def be_word_be_bytes)
  with a assms show "nbt_read_count name lim c = Inr (n, c')"
    by (auto simp: nbt_read_count_def result_simps Let_def not_less nbt_count_def
        intro!: exI [of _ "be_bytes 4 (int32_of n)"])
qed

lemma nbt_read_string_iff:
  "nbt_read_string name lim c = Inr (key, c') \<longleftrightarrow>
   (\<exists>s. nbt_string_ok lim s \<and> decode_modified_utf8 s = Inr key \<and> took lim (nbt_string s) c c')"
proof
  assume "nbt_read_string name lim c = Inr (key, c')"
  then obtain head d s where head: "length head = 2" "took lim head c d"
    and s: "int (length s) = uint (be_word head :: 16 word)" "int (length s) \<le> string_bytes lim"
      "took lim s d c'" "decode_modified_utf8 s = Inr key"
    by (auto simp: nbt_read_string_def result_simps Let_def not_less)
  have "uint (be_word head :: 16 word) < 2 ^ 16" using uint_lt2p [of "be_word head :: 16 word"] by simp
  with s have "nbt_string_ok lim s" by (auto simp: nbt_string_ok_def)
  moreover have "nbt_string s = head @ s"
    using s(1) head(1) be_bytes_be_word [of head 2, where 'a = 16] by (simp add: nbt_string_def)
  ultimately show "\<exists>s. nbt_string_ok lim s \<and> decode_modified_utf8 s = Inr key \<and> took lim (nbt_string s) c c'"
    using s(3,4) head(2) by (intro exI [of _ s]) (auto simp: took_append)
next
  assume "\<exists>s. nbt_string_ok lim s \<and> decode_modified_utf8 s = Inr key \<and> took lim (nbt_string s) c c'"
  then obtain s where s: "nbt_string_ok lim s" "decode_modified_utf8 s = Inr key"
    "took lim (nbt_string s) c c'" by auto
  have "uint (word_of_int (int (length s)) :: 16 word) = int (length s)"
    using s(1) by (simp only: uint_word_of_int_eq nbt_string_ok_def) (rule take_bit_int_eq_self, simp_all)
  then have "uint (be_word (be_bytes 2 (word_of_int (int (length s)) :: 16 word)) :: 16 word) =
      int (length s)"
    by (simp add: be_word_be_bytes)
  moreover from s(3) obtain d where
    "took lim (be_bytes 2 (word_of_int (int (length s)) :: 16 word)) c d" "took lim s d c'"
    by (auto simp: nbt_string_def took_append)
  moreover have "int (length (be_bytes 2 (word_of_int (int (length s)) :: 16 word))) = 2" by simp
  ultimately have "nbt_take lim 2 c = Inr (be_bytes 2 (word_of_int (int (length s)) :: 16 word), d)"
    and "nbt_take lim (int (length s)) d = Inr (s, c')"
    and "uint (be_word (be_bytes 2 (word_of_int (int (length s)) :: 16 word)) :: 16 word) =
      int (length s)"
    by (simp_all only: nbt_take_iff)
  with s show "nbt_read_string name lim c = Inr (key, c')"
    by (simp add: nbt_read_string_def nbt_string_ok_def Let_def not_less)
qed

lemma nbt_read_array_iff:
  assumes "collection_items lim < 2 ^ 31" "w = 1 \<or> w = 4"
  shows "nbt_read_array (int w) name lim c = Inr c' \<longleftrightarrow>
    (\<exists>n data. length data = n * w \<and> int n \<le> collection_items lim \<and>
      took lim (nbt_count n @ data) c c')"
proof
  assume "nbt_read_array (int w) name lim c = Inr c'"
  then obtain count d data where "nbt_read_count name lim c = Inr (count, d)"
    and data: "int (length data) = count * int w" "took lim data d c'"
    by (auto simp: nbt_read_array_def result_simps)
  then have "0 \<le> count" "count \<le> collection_items lim" "took lim (nbt_count (nat count)) c d"
    by (simp_all add: nbt_read_count_iff [OF assms(1)])
  with data show "\<exists>n data. length data = n * w \<and> int n \<le> collection_items lim \<and>
      took lim (nbt_count n @ data) c c'"
    by (intro exI [of _ "nat count"] exI [of _ data])
      (auto simp: took_append simp flip: of_nat_eq_iff [where 'a = int])
next
  assume "\<exists>n data. length data = n * w \<and> int n \<le> collection_items lim \<and>
      took lim (nbt_count n @ data) c c'"
  then obtain n data d where n: "length data = n * w" "int n \<le> collection_items lim"
    and took: "took lim (nbt_count n) c d" "took lim data d c'" by (auto simp: took_append)
  from n took have "nbt_read_count name lim c = Inr (int n, d)"
    by (simp add: nbt_read_count_iff [OF assms(1)])
  moreover have "nbt_take lim (int n * int w) d = Inr (data, c')"
    using n took by (simp add: nbt_take_iff)
  moreover have "\<not> max_int div int w < int n"
    using n(2) assms by (auto simp: max_int_def)
  ultimately show "nbt_read_array (int w) name lim c = Inr c'"
    by (simp add: nbt_read_array_def)
qed

lemma array_of:
  assumes "item_width tag = Some w" "length data = n * w" "int n \<le> collection_items lim"
    "depth \<le> recursion_depth lim"
  shows "nbt_ok lim depth (NArray tag data) \<and> nbt_enc (NArray tag data) = nbt_count n @ data"
proof -
  have "0 < w" using assms(1) by (auto simp: item_width_def split: if_splits)
  with assms show ?thesis by auto
qed

lemma scalar_widthD:
  assumes "scalar_width tag = Some w" "depth \<le> recursion_depth lim"
  shows "read_payload lim tag depth c = nbt_skip lim (int w) c"
  using assms by (auto simp: read_payload.simps [of lim tag] scalar_width_def tag_defs split: if_splits)

lemma item_widthD:
  assumes "item_width tag = Some w" "depth \<le> recursion_depth lim"
  obtains name where "read_payload lim tag depth c = nbt_read_array (int w) name lim c" "w = 1 \<or> w = 4"
  using assms by (auto simp: read_payload.simps [of lim tag] item_width_def tag_defs split: if_splits)

lemma width_range:
  "scalar_width tag = Some w \<Longrightarrow> tag \<noteq> tag_end \<and> tag \<le> tag_int_array"
  "item_width tag = Some w \<Longrightarrow> tag \<noteq> tag_end \<and> tag \<le> tag_int_array"
  by (auto simp: scalar_width_def item_width_def tag_defs word_le_def split: if_splits)

lemma payload_other:
  assumes "read_payload lim tag depth c = Inr c'" "scalar_width tag = None" "item_width tag = None"
  shows "tag = tag_string \<and> (\<exists>key. nbt_read_string ''NBT string'' lim c = Inr (key, c')) \<or>
    tag = tag_list \<and> read_list lim depth c = Inr c' \<or>
    tag = tag_compound \<and> read_compound lim depth 0 [] c = Inr c'"
  using assms
  by (auto simp: read_payload.simps [of lim tag] scalar_width_def item_width_def result_simps
      split: if_splits)

lemma read_list_Inr:
  assumes "read_list lim depth c = Inr c'"
  obtains tag c1 count c2 where "nbt_read_byte lim c = Inr (tag, c1)" "\<not> tag_int_array < tag"
    "nbt_read_count ''NBT list'' lim c1 = Inr (count, c2)" "\<not> (tag = tag_end \<and> count \<noteq> 0)"
    "read_list_items lim tag depth (nat count) c2 = Inr c'"
  using assms unfolding read_list.simps [of lim] bindR_Inr_iff
  by (auto simp: bindR_Inr_iff split: if_splits)

lemma read_compound_Inr:
  assumes "read_compound lim depth count keys c = Inr c'"
  obtains (last) "nbt_read_byte lim c = Inr (tag_end, c')"
    | (entry) tag c1 key c2 c3 where "nbt_read_byte lim c = Inr (tag, c1)" "tag \<noteq> tag_end"
      "\<not> tag_int_array < tag" "\<not> collection_items lim \<le> count"
      "nbt_read_string ''NBT compound key'' lim c1 = Inr (key, c2)" "key \<notin> set keys"
      "read_payload lim tag (depth + 1) c2 = Inr c3"
      "read_compound lim depth (count + 1) (key # keys) c3 = Inr c'"
  using assms unfolding read_compound.simps [of lim depth count keys c]
  by (auto simp: bindR_Inr_iff split: if_splits)

text \<open>Whatever the cursor accepts is a well-formed value.\<close>

lemma read_sound:
  assumes "collection_items lim < 2 ^ 31"
  shows "read_payload lim tag depth c = Inr c' \<Longrightarrow> nbt_pos c \<le> nbt_bytes lim \<Longrightarrow>
      \<exists>v. value_tag v = tag \<and> nbt_ok lim depth v \<and> took lim (nbt_enc v) c c'"
    and "read_list lim depth c = Inr c' \<Longrightarrow> depth \<le> recursion_depth lim \<Longrightarrow>
      \<exists>v. value_tag v = tag_list \<and> nbt_ok lim depth v \<and> took lim (nbt_enc v) c c'"
    and "read_list_items lim tag depth n c = Inr c' \<Longrightarrow> nbt_pos c \<le> nbt_bytes lim \<Longrightarrow>
      \<exists>vs. length vs = n \<and> nbt_ok_list lim (depth + 1) tag vs \<and> took lim (nbt_enc_list vs) c c'"
    and "read_compound lim depth count keys c = Inr c' \<Longrightarrow> count = int (length keys) \<Longrightarrow>
      \<exists>es. nbt_ok_entries lim (depth + 1) keys es \<and> took lim (nbt_enc_entries es) c c'"
  using assms
proof (induction lim tag depth c and lim depth c and lim tag depth n c and lim depth count keys c
    arbitrary: c' and c' and c' and c' rule: read_payload_read_list_read_list_items_read_compound.induct)
  case (1 lim tag depth c)
  then have d: "depth \<le> recursion_depth lim" by (auto simp: read_payload.simps [of lim tag] split: if_splits)
  consider w where "scalar_width tag = Some w" "nbt_skip lim (int w) c = Inr c'"
    | w where "item_width tag = Some w" "w = 1 \<or> w = 4" "\<exists>name. nbt_read_array (int w) name lim c = Inr c'"
    | key where "tag = tag_string" "nbt_read_string ''NBT string'' lim c = Inr (key, c')"
    | "tag = tag_list" "read_list lim depth c = Inr c'"
    | "tag = tag_compound" "read_compound lim depth 0 [] c = Inr c'"
    using "1.prems"(1) d payload_other [OF "1.prems"(1)] scalar_widthD [of tag _ depth lim c]
      item_widthD [of tag _ depth lim c]
    by (cases "scalar_width tag"; cases "item_width tag") metis+
  then show ?case
  proof cases
    case 1
    then obtain data where "length data = w" "took lim data c c'" by (auto simp: result_simps)
    with 1 d show ?thesis by (intro exI [of _ "Scalar tag data"]) simp
  next
    case 2
    then obtain n data where "length data = n * w" "int n \<le> collection_items lim"
      "took lim (nbt_count n @ data) c c'"
      using nbt_read_array_iff [OF "1.prems"(3)] by blast
    with array_of [OF 2(1) this(1,2) d] show ?thesis
      by (intro exI [of _ "NArray tag data"]) simp
  next
    case 3
    then obtain s where "nbt_string_ok lim s" "took lim (nbt_string s) c c'"
      by (auto simp: nbt_read_string_iff)
    with 3 d show ?thesis by (intro exI [of _ "NString s"]) simp
  next
    case 4
    with "1.IH"(1) d "1.prems" show ?thesis by (auto simp: tag_defs)
  next
    case 5
    with "1.IH"(2) d "1.prems" obtain es where
      "nbt_ok_entries lim (depth + 1) [] es" "took lim (nbt_enc_entries es) c c'"
      by (auto simp: tag_defs)
    with 5 d show ?thesis by (intro exI [of _ "NCompound es"]) simp
  qed
next
  case (2 lim depth c)
  from read_list_Inr [OF "2.prems"(1)] obtain tag c1 count c2 where
    c1: "nbt_read_byte lim c = Inr (tag, c1)" "\<not> tag_int_array < tag" and
    c2: "nbt_read_count ''NBT list'' lim c1 = Inr (count, c2)" "\<not> (tag = tag_end \<and> count \<noteq> 0)" and
    items: "read_list_items lim tag depth (nat count) c2 = Inr c'" .
  from c2 have count: "0 \<le> count" "count \<le> collection_items lim" "took lim (nbt_count (nat count)) c1 c2"
    by (simp_all add: nbt_read_count_iff [OF "2.prems"(3)])
  from "2.IH" [OF c1(1) refl c1(2) c2(1) refl c2(2) items took_pos [OF count(3)] "2.prems"(3)]
  obtain vs where "length vs = nat count" "nbt_ok_list lim (depth + 1) tag vs"
    "took lim (nbt_enc_list vs) c2 c'" by auto
  moreover from this count have "took lim (nbt_enc (NList tag vs)) c c'"
    using c1(1) by (auto simp: nbt_read_byte_iff intro: took_ConsI took_appendI)
  ultimately show ?case
    using c1(2) count(1,2) "2.prems"(2) by (intro exI [of _ "NList tag vs"]) simp
next
  case (3 lim tag depth c)
  then show ?case by simp
next
  case (4 lim tag depth n c)
  from "4.prems"(1) obtain d where d: "read_payload lim tag (depth + 1) c = Inr d"
    "read_list_items lim tag depth n d = Inr c'" by (auto simp: result_simps)
  from "4.IH"(1) [OF d(1) "4.prems"(2,3)] obtain v where
    v: "value_tag v = tag" "nbt_ok lim (depth + 1) v" "took lim (nbt_enc v) c d" by auto
  from "4.IH"(2) [OF d(1) d(2) took_pos [OF v(3)] "4.prems"(3)] obtain vs where
    "length vs = n" "nbt_ok_list lim (depth + 1) tag vs" "took lim (nbt_enc_list vs) d c'" by auto
  with v show ?case by (intro exI [of _ "v # vs"]) (auto simp: took_append)
next
  case (5 lim depth count keys c)
  from "5.prems"(1) show ?case
  proof (cases rule: read_compound_Inr)
    case last
    then show ?thesis by (intro exI [of _ "[]"]) (simp add: nbt_read_byte_iff)
  next
    case (entry tag c1 key c2 c3)
    from entry(5) obtain s where s: "nbt_string_ok lim s" "nbt_key s = key" "took lim (nbt_string s) c1 c2"
      by (auto simp: nbt_read_string_iff nbt_key_def)
    note ih = "5.IH" [OF entry(1) refl entry(2-5) refl entry(6)]
    from ih(1) [OF entry(7) took_pos [OF s(3)] "5.prems"(3)]
    obtain v where v: "value_tag v = tag" "nbt_ok lim (depth + 1) v" "took lim (nbt_enc v) c2 c3"
      by auto
    from ih(2) [OF entry(7,8) _ "5.prems"(3)] "5.prems"(2)
    obtain es where es: "nbt_ok_entries lim (depth + 1) (key # keys) es"
      "took lim (nbt_enc_entries es) c3 c'" by auto
    from entry(1) s(3) v(3) es(2) have "took lim (nbt_enc_entries ((s, v) # es)) c c'"
      by (auto simp: nbt_read_byte_iff v(1) intro: took_ConsI took_appendI)
    with entry(4,6) s(1,2) v(2) es(1) "5.prems"(2) show ?thesis
      by (intro exI [of _ "(s, v) # es"]) simp
  qed
qed

text \<open>And the cursor accepts every well-formed value.\<close>

lemma value_tag_range:
  "nbt_ok lim depth v \<Longrightarrow> value_tag v \<noteq> tag_end \<and> value_tag v \<le> tag_int_array"
  by (cases v) (auto dest: width_range, simp_all add: tag_defs)

lemma nbt_ok_listD:
  "nbt_ok_list lim depth tag vs \<Longrightarrow> vs \<noteq> [] \<Longrightarrow> tag \<noteq> tag_end"
  using value_tag_range by (cases vs) auto

lemma read_complete:
  assumes "collection_items lim < 2 ^ 31"
  shows "nbt_ok lim depth v \<Longrightarrow> took lim (nbt_enc v) c c' \<Longrightarrow>
      read_payload lim (value_tag v) depth c = Inr c'"
    and "nbt_ok_list lim (depth + 1) tag vs \<Longrightarrow> took lim (nbt_enc_list vs) c c' \<Longrightarrow>
      read_list_items lim tag depth (length vs) c = Inr c'"
    and "nbt_ok_entries lim (depth + 1) keys es \<Longrightarrow> took lim (nbt_enc_entries es) c c' \<Longrightarrow>
      read_compound lim depth (int (length keys)) keys c = Inr c'"
proof (induction v and vs and es arbitrary: depth c c' and depth tag c c' and depth keys c c'
    rule: nbt_enc_nbt_enc_list_nbt_enc_entries.induct)
  case (1 tag data)
  then show ?case by (auto simp: scalar_widthD nbt_skip_iff)
next
  case (2 s)
  then show ?case
  proof -
    from 2 obtain key where "nbt_read_string ''NBT string'' lim c = Inr (key, c')"
      by (auto simp: nbt_read_string_iff nbt_string_ok_def)
    with 2 show ?thesis by (simp add: read_payload.simps [of lim] tag_defs)
  qed
next
  case (3 tag data)
  then obtain n w where w: "item_width tag = Some w" "length data = n * w" "int n \<le> collection_items lim"
    and d: "depth \<le> recursion_depth lim" by auto
  then have "nbt_enc (NArray tag data) = nbt_count n @ data" using array_of by blast
  with "3.prems" w have "\<exists>n data. length data = n * w \<and> int n \<le> collection_items lim \<and>
      took lim (nbt_count n @ data) c c'" by metis
  with nbt_read_array_iff [OF assms, of w _ c c'] item_widthD [OF w(1) d, of c] show ?case
    by (metis value_tag.simps(3))
next
  case (4 tag vs)
  from "4.prems"(2) obtain c1 c2 where t: "took lim [tag] c c1" "took lim (nbt_count (length vs)) c1 c2"
    "took lim (nbt_enc_list vs) c2 c'"
    unfolding nbt_enc.simps took_Cons [of lim tag "nbt_count _ @ _"] took_append by blast
  from "4.prems"(1) have ok: "depth \<le> recursion_depth lim" "tag \<le> tag_int_array"
    "int (length vs) \<le> collection_items lim" "nbt_ok_list lim (depth + 1) tag vs" by auto
  from t ok have "nbt_read_count ''NBT list'' lim c1 = Inr (int (length vs), c2)"
    by (simp add: nbt_read_count_iff [OF assms])
  moreover from t have "nbt_read_byte lim c = Inr (tag, c1)" by (simp add: nbt_read_byte_iff)
  moreover note "4.IH" [OF ok(4) t(3)]
  moreover have "\<not> (tag = tag_end \<and> int (length vs) \<noteq> 0)"
    using nbt_ok_listD [OF ok(4)] by auto
  ultimately have "read_list lim depth c = Inr c'"
    using ok(2) by (simp add: read_list.simps [of lim])
  with ok(1) show ?case by (simp add: read_payload.simps [of lim] tag_defs)
next
  case (5 es)
  then have "read_compound lim depth 0 [] c = Inr c'"
    using "5.IH" [of depth "[]" c c'] by simp
  with "5.prems" show ?case by (simp add: read_payload.simps [of lim] tag_defs)
next
  case 6
  then show ?case by simp
next
  case (7 v vs)
  from "7.prems"(2) obtain d where "took lim (nbt_enc v) c d" "took lim (nbt_enc_list vs) d c'"
    by (auto simp: took_append)
  with "7.IH"(1) [of "depth + 1" c d] "7.IH"(2) [of depth tag d c'] "7.prems"(1) show ?case by auto
next
  case 8
  then show ?case
    by (simp add: read_compound.simps [of lim] flip: nbt_read_byte_iff)
next
  case (9 name v es)
  from "9.prems"(2) obtain c1 c2 c3 where t: "took lim [value_tag v] c c1" "took lim (nbt_string name) c1 c2"
    "took lim (nbt_enc v) c2 c3" "took lim (nbt_enc_entries es) c3 c'"
    unfolding nbt_enc_entries.simps took_Cons [of lim "value_tag v" "nbt_string name @ _"] took_append
    by blast
  from "9.prems"(1) have ok: "int (length keys) < collection_items lim" "nbt_string_ok lim name"
    "nbt_key name \<notin> set keys" "nbt_ok lim (depth + 1) v"
    "nbt_ok_entries lim (depth + 1) (nbt_key name # keys) es" by auto
  from ok(2) obtain key where "decode_modified_utf8 name = Inr key" by (auto simp: nbt_string_ok_def)
  with ok(2) t(2) have "nbt_read_string ''NBT compound key'' lim c1 = Inr (nbt_key name, c2)"
    by (auto simp: nbt_read_string_iff nbt_key_def)
  moreover from t(1) have "nbt_read_byte lim c = Inr (value_tag v, c1)" by (simp add: nbt_read_byte_iff)
  moreover note "9.IH"(1) [OF ok(4) t(3)] "9.IH"(2) [OF ok(5) t(4)] value_tag_range [OF ok(4)]
  ultimately show ?case
    using ok(1,3)
    by (simp add: read_compound.simps [of lim depth "int (length keys)"] add.commute not_less)
qed

lemma read_payload_iff:
  assumes "limits_ok lim" "nbt_pos c \<le> nbt_bytes lim"
  shows "read_payload lim tag depth c = Inr c' \<longleftrightarrow>
    (\<exists>v. value_tag v = tag \<and> nbt_ok lim depth v \<and> took lim (nbt_enc v) c c')"
proof -
  have "collection_items lim < 2 ^ 31" using limits_okD(9) [OF assms(1)] by simp
  then show ?thesis
    using read_sound(1) [of lim tag depth c c'] read_complete(1) [of lim depth _ c c'] assms(2) by blast
qed

section \<open>Values in buffers\<close>

definition new_nbt_with ::
  "string \<Rightarrow> (bytes \<Rightarrow> limits \<Rightarrow> int result) \<Rightarrow> bytes \<Rightarrow> limits \<Rightarrow> bytes result" where
  "new_nbt_with name validate encoded lim = bindR (validate_limits lim) (\<lambda>_.
     if nbt_bytes lim < int (length encoded) then
       Inl (SizeError name (int (length encoded)) (nbt_bytes lim))
     else bindR (validate encoded lim) (\<lambda>consumed.
       if consumed \<noteq> int (length encoded) then Inl ErrTrailingBytes else Inr encoded))"

definition new_nbt :: "bytes \<Rightarrow> limits \<Rightarrow> bytes result" where
  "new_nbt = new_nbt_with ''NBT'' validate_nbt"

definition new_network_nbt :: "bytes \<Rightarrow> limits \<Rightarrow> bytes result" where
  "new_network_nbt = new_nbt_with ''network NBT'' validate_network_nbt"

definition read_nbt_with :: "(bytes \<Rightarrow> limits \<Rightarrow> int result) \<Rightarrow> string \<Rightarrow> bytes buffer_op" where
  "read_nbt_with validate path = bindB (require_mode ReadMode path) (\<lambda>_ b.
     case validate (drop (buf_offset b) (buf_data b)) (buf_limits b) of
       Inl e \<Rightarrow> failB path e b
     | Inr consumed \<Rightarrow> returnB (take (nat consumed) (drop (buf_offset b) (buf_data b)))
         (b\<lparr>buf_offset := buf_offset b + nat consumed\<rparr>))"

definition read_nbt :: "string \<Rightarrow> bytes buffer_op" where
  "read_nbt = read_nbt_with validate_nbt"

text \<open>
  \<open>ReadAnonymousNBT\<close> checks the length once more after the validation, which has already bounded it.
\<close>

definition read_anonymous_nbt :: "string \<Rightarrow> bytes buffer_op" where
  "read_anonymous_nbt path = bindB (require_mode ReadMode path) (\<lambda>_ b.
     case validate_network_nbt (drop (buf_offset b) (buf_data b)) (buf_limits b) of
       Inl e \<Rightarrow> failB path e b
     | Inr consumed \<Rightarrow>
         if nbt_bytes (buf_limits b) < consumed then
           failB path (SizeError ''network NBT'' consumed (nbt_bytes (buf_limits b))) b
         else returnB (take (nat consumed) (drop (buf_offset b) (buf_data b)))
           (b\<lparr>buf_offset := buf_offset b + nat consumed\<rparr>))"

definition write_nbt_with :: "(bytes \<Rightarrow> limits \<Rightarrow> bytes result) \<Rightarrow> string \<Rightarrow> bytes \<Rightarrow> unit buffer_op" where
  "write_nbt_with new path v = bindB (require_mode WriteMode path) (\<lambda>_ b.
     case new v (buf_limits b) of
       Inl e \<Rightarrow> failB path e b
     | Inr validated \<Rightarrow> append_value path validated b)"

definition write_nbt :: "string \<Rightarrow> bytes \<Rightarrow> unit buffer_op" where
  "write_nbt = write_nbt_with new_nbt"

definition write_anonymous_nbt :: "string \<Rightarrow> bytes \<Rightarrow> unit buffer_op" where
  "write_anonymous_nbt = write_nbt_with new_network_nbt"

text \<open>The optional forms: \<open>TAG_End\<close> is an absent value.\<close>

definition read_optional_with :: "(string \<Rightarrow> bytes buffer_op) \<Rightarrow> string \<Rightarrow> bytes option buffer_op" where
  "read_optional_with rd path = bindB (require_mode ReadMode path) (\<lambda>_ b.
     if buffer_remaining b = 0 then failB path UnexpectedEOF b
     else if buf_data b ! buf_offset b = tag_end then
       returnB None (b\<lparr>buf_offset := buf_offset b + 1\<rparr>)
     else bindB (rd path) (\<lambda>v. returnB (Some v)) b)"

definition read_optional_nbt :: "string \<Rightarrow> bytes option buffer_op" where
  "read_optional_nbt = read_optional_with read_nbt"

definition read_anon_optional_nbt :: "string \<Rightarrow> bytes option buffer_op" where
  "read_anon_optional_nbt = read_optional_with read_anonymous_nbt"

definition write_optional_nbt :: "string \<Rightarrow> bytes option \<Rightarrow> unit buffer_op" where
  "write_optional_nbt path v =
     (case v of None \<Rightarrow> buf_write_u8 path tag_end | Some x \<Rightarrow> write_nbt path x)"

definition write_anon_optional_nbt :: "string \<Rightarrow> bytes option \<Rightarrow> unit buffer_op" where
  "write_anon_optional_nbt path v =
     (case v of None \<Rightarrow> buf_write_u8 path tag_end | Some x \<Rightarrow> write_anonymous_nbt path x)"

definition ascii :: "string \<Rightarrow> bytes" where
  "ascii s = map (of_char :: char \<Rightarrow> byte) s"

definition new_network_nbt_text :: "bytes \<Rightarrow> limits \<Rightarrow> bytes result" where
  "new_network_nbt_text text lim =
     (let payload = encode_modified_utf8 text in
      if 0xFFFF < int (length payload) then
        Inl (SizeError ''network NBT text'' (int (length payload)) 0xFFFF)
      else new_network_nbt ([tag_compound, tag_string] @
        be_bytes 2 (4 :: 16 word) @ ascii ''text'' @
        be_bytes 2 (word_of_int (int (length payload)) :: 16 word) @ payload @ [tag_end]) lim)"

section \<open>The specification of the validators\<close>

text \<open>A validator accepts a well-formed value followed by anything, and returns its length.\<close>

lemma validate_nbt_tree:
  assumes "limits_ok lim"
  shows "validate_nbt data lim = Inr n \<longleftrightarrow>
    (\<exists>name es rest. data = tag_compound # nbt_string name @ nbt_enc (NCompound es) @ rest \<and>
      nbt_string_ok lim name \<and> nbt_ok lim 1 (NCompound es) \<and>
      n = int (length data) - int (length rest) \<and> n \<le> nbt_bytes lim)"
    (is "_ \<longleftrightarrow> ?rhs")
proof
  assume "validate_nbt data lim = Inr n"
  then obtain c1 c2 c3 name where c: "took lim [tag_compound] \<lparr>nbt_rest = data, nbt_pos = 0\<rparr> c1"
    "nbt_string_ok lim name" "took lim (nbt_string name) c1 c2"
    "read_payload lim tag_compound 1 c2 = Inr c3" and n: "n = nbt_pos c3"
    by (auto simp: validate_nbt_def result_simps nbt_read_string_iff)
  from c(4) obtain v where v: "value_tag v = tag_compound" "nbt_ok lim 1 v" "took lim (nbt_enc v) c2 c3"
    using read_payload_iff [OF assms took_pos [OF c(3)]] by auto
  then obtain es where "v = NCompound es"
    by (cases v) (auto simp: scalar_width_def item_width_def tag_defs split: if_splits)
  with c v n show ?rhs
    by (intro exI [of _ name] exI [of _ es] exI [of _ "nbt_rest c3"]) (auto simp: took_def)
next
  assume ?rhs
  then obtain name es rest where data: "data = tag_compound # nbt_string name @ nbt_enc (NCompound es) @ rest"
    and ok: "nbt_string_ok lim name" "nbt_ok lim 1 (NCompound es)"
    and n: "n = int (length data) - int (length rest)" "n \<le> nbt_bytes lim" by blast
  let ?c = "\<lparr>nbt_rest = data, nbt_pos = 0\<rparr>" and ?c3 = "\<lparr>nbt_rest = rest, nbt_pos = n\<rparr>"
  have "took lim ([tag_compound] @ nbt_string name @ nbt_enc (NCompound es)) ?c ?c3"
    using data n by (auto simp: took_def)
  then obtain c1 c2 where c: "took lim [tag_compound] ?c c1" "took lim (nbt_string name) c1 c2"
    "took lim (nbt_enc (NCompound es)) c2 ?c3"
    unfolding took_append by blast
  from ok(1) obtain key where "decode_modified_utf8 name = Inr key" by (auto simp: nbt_string_ok_def)
  with ok c(2) have "nbt_read_string ''root name'' lim c1 = Inr (key, c2)"
    by (auto simp: nbt_read_string_iff)
  moreover have "read_payload lim tag_compound 1 c2 = Inr ?c3"
    using read_payload_iff [OF assms took_pos [OF c(2)]] ok(2) c(3) value_tag.simps(5) by blast
  ultimately show "validate_nbt data lim = Inr n"
    using c(1) by (simp add: validate_nbt_def nbt_read_byte_iff [symmetric])
qed

lemma validate_network_nbt_tree:
  assumes "limits_ok lim"
  shows "validate_network_nbt data lim = Inr n \<longleftrightarrow>
    (\<exists>v rest. data = value_tag v # nbt_enc v @ rest \<and> nbt_ok lim 1 v \<and>
      n = int (length data) - int (length rest) \<and> n \<le> nbt_bytes lim)"
    (is "_ \<longleftrightarrow> ?rhs")
proof
  assume "validate_network_nbt data lim = Inr n"
  then obtain tag c1 c2 where c: "took lim [tag] \<lparr>nbt_rest = data, nbt_pos = 0\<rparr> c1"
    "read_payload lim tag 1 c1 = Inr c2" and n: "n = nbt_pos c2"
    by (auto simp: validate_network_nbt_def result_simps)
  then obtain v where "value_tag v = tag" "nbt_ok lim 1 v" "took lim (nbt_enc v) c1 c2"
    using read_payload_iff [OF assms took_pos [OF c(1)]] by auto
  with c n show ?rhs
    by (intro exI [of _ v] exI [of _ "nbt_rest c2"]) (auto simp: took_def)
next
  assume ?rhs
  then obtain v rest where data: "data = value_tag v # nbt_enc v @ rest" and ok: "nbt_ok lim 1 v"
    and n: "n = int (length data) - int (length rest)" "n \<le> nbt_bytes lim" by blast
  let ?c = "\<lparr>nbt_rest = data, nbt_pos = 0\<rparr>" and ?c2 = "\<lparr>nbt_rest = rest, nbt_pos = n\<rparr>"
  have "took lim ([value_tag v] @ nbt_enc v) ?c ?c2"
    using data n by (auto simp: took_def)
  then obtain c1 where c: "took lim [value_tag v] ?c c1" "took lim (nbt_enc v) c1 ?c2"
    unfolding took_append by blast
  have "read_payload lim (value_tag v) 1 c1 = Inr ?c2"
    using read_payload_iff [OF assms took_pos [OF c(1)]] ok c(2) by blast
  then show "validate_network_nbt data lim = Inr n"
    using c(1) value_tag_range [OF ok]
    by (simp add: validate_network_nbt_def nbt_read_byte_iff [symmetric])
qed

lemma new_nbt_with_Inr_iff:
  assumes "valid lim"
  shows "new_nbt_with name validate encoded lim = Inr v \<longleftrightarrow>
    v = encoded \<and> int (length encoded) \<le> nbt_bytes lim \<and> validate encoded lim = Inr (int (length encoded))"
  using assms by (auto simp: new_nbt_with_def validate_limits_def result_simps)

lemma network_nbt_prefix:
  assumes "limits_ok lim" "validate_network_nbt v lim = Inr (int (length v))"
  shows "validate_network_nbt (v @ rest) lim = Inr (int (length v))" and "v \<noteq> []" "hd v \<noteq> tag_end"
proof -
  from assms obtain w where w: "v = value_tag w # nbt_enc w" "nbt_ok lim 1 w" "int (length v) \<le> nbt_bytes lim"
    by (auto simp: validate_network_nbt_tree)
  then show "validate_network_nbt (v @ rest) lim = Inr (int (length v))"
    unfolding validate_network_nbt_tree [OF assms(1)]
    by (intro exI [of _ w] exI [of _ rest]) simp
  show "v \<noteq> []" "hd v \<noteq> tag_end" using w value_tag_range [OF w(2)] by auto
qed

lemma read_anon_optional_at:
  assumes "limits_ok (buf_limits b)" "buf_mode b = ReadMode" "buf_offset b \<le> length (buf_data b)"
    "drop (buf_offset b) (buf_data b) = v @ rest" "new_network_nbt v (buf_limits b) = Inr v"
  shows "read_anon_optional_nbt path b = (Inr (Some v), b\<lparr>buf_offset := buf_offset b + length v\<rparr>)"
proof -
  from assms(1,5) have v: "int (length v) \<le> nbt_bytes (buf_limits b)"
    "validate_network_nbt v (buf_limits b) = Inr (int (length v))"
    by (auto simp: new_network_nbt_def new_nbt_with_Inr_iff [OF limits_okD(1)])
  note pre = network_nbt_prefix [OF assms(1) v(2)]
  have "buf_offset b < length (buf_data b)"
    using assms(3,4) pre(2) by (cases "buf_offset b = length (buf_data b)") auto
  moreover from this have "buf_data b ! buf_offset b = hd v"
    using assms(4) pre(2) by (metis hd_append2 hd_drop_conv_nth)
  ultimately show ?thesis
    using assms(2,4) v pre limits_okD(1) [OF assms(1)]
    by (simp add: read_anon_optional_nbt_def read_optional_with_def read_anonymous_nbt_def
        require_mode_def bindB_def returnB_def buffer_remaining_def)
qed

section \<open>Properties\<close>

text \<open>
  named NBT. Under limits \<open>NewLimits\<close> returns, \<open>NewNBT\<close> accepts exactly the encodings of a
  named root compound whose tree is well formed: known tags, one tag a list, distinct keys,
  modified UTF-8 names, and counts, strings, depth and size within the limits; and it keeps them
  byte for byte.
\<close>

theorem new_nbt_iff:
  assumes "limits_ok lim"
  shows "new_nbt encoded lim = Inr v \<longleftrightarrow> v = encoded \<and> int (length encoded) \<le> nbt_bytes lim \<and>
    (\<exists>name es. encoded = tag_compound # nbt_string name @ nbt_enc (NCompound es) \<and>
      nbt_string_ok lim name \<and> nbt_ok lim 1 (NCompound es))"
  using validate_nbt_tree [OF assms] limits_okD(1) [OF assms]
  by (auto simp: new_nbt_def new_nbt_with_Inr_iff)

theorem new_nbt_iff_witness:
  "new_nbt [10, 0, 0, 3, 0, 1, 0x79, 0, 0, 0, 7, 0] default_limits =
    Inr [10, 0, 0, 3, 0, 1, 0x79, 0, 0, 0, 7, 0]"
  unfolding new_nbt_iff [OF limits_ok_default]
  by (intro conjI exI [of _ "[]"] exI [of _ "[([0x79], Scalar 3 [0, 0, 0, 7])]"])
    (simp_all add: tag_defs nbt_string_def nbt_string_ok_def nbt_key_def scalar_width_def,
     simp_all add: default_limits_def numeral_2_eq_2)

text \<open>
  C8: network NBT. \<open>NewNetworkNBT\<close> accepts exactly a tag and the well-formed value it announces, of
  any of the eleven tags, and nothing else: a root \<open>TAG_End\<close> and every tag above
  \<open>TAG_Int_Array\<close>, the long array of newer versions among them, are refused.
\<close>

theorem new_network_nbt_iff:
  assumes "limits_ok lim"
  shows "new_network_nbt encoded lim = Inr v \<longleftrightarrow> v = encoded \<and> int (length encoded) \<le> nbt_bytes lim \<and>
    (\<exists>w. encoded = value_tag w # nbt_enc w \<and> nbt_ok lim 1 w)"
  using validate_network_nbt_tree [OF assms] limits_okD(1) [OF assms]
  by (auto simp: new_network_nbt_def new_nbt_with_Inr_iff)

theorem new_network_nbt_iff_witness:
  "new_network_nbt [12, 0, 0, 0, 0] default_limits \<noteq> Inr [12, 0, 0, 0, 0]"
proof -
  have "12 \<noteq> value_tag w" if "nbt_ok default_limits 1 w" for w
    using value_tag_range [OF that] by (auto simp: tag_defs)
  then show ?thesis
    unfolding new_network_nbt_iff [OF limits_ok_default] by auto
qed

text \<open>
  an optional network NBT value that was written into an empty buffer is read back: an absent one
  as absent, a present one byte for byte.
\<close>

theorem optional_nbt_roundtrip:
  assumes "limits_ok lim" and "new_write_buffer lim = Inr b"
    and "write_anon_optional_nbt path v b = (Inr (), c)"
  shows "fst (read_anon_optional_nbt path (reader_of c)) = Inr v"
proof -
  have b: "buf_data b = []" "buf_mode b = WriteMode" "buf_limits b = lim"
    using assms(2) by (auto simp: new_write_buffer_def validate_limits_def guardR_def bindR_def
        split: if_splits)
  note defs = write_anon_optional_nbt_def write_anonymous_nbt_def write_nbt_with_def append_value_def
    bindB_def require_mode_def returnB_def failB_def
  show ?thesis
  proof (cases v)
    case None
    with assms(3) b have "c = b\<lparr>buf_data := [tag_end]\<rparr>"
      by (auto simp: defs buf_write_u8_def write_value_def write_u8_def split: if_splits sum.splits)
    with None b limits_okD(1) [OF assms(1)] show ?thesis
      by (simp add: read_anon_optional_nbt_def read_optional_with_def bindB_def require_mode_def
          returnB_def buffer_remaining_def)
  next
    case (Some x)
    with assms(3) b limits_okD(1) [OF assms(1)] have "new_network_nbt x lim = Inr x"
      and "c = b\<lparr>buf_data := x\<rparr>"
      by (auto simp: defs new_network_nbt_def new_nbt_with_Inr_iff split: if_splits sum.splits)
    with b assms(1) read_anon_optional_at [of "reader_of c" x "[]" path] Some show ?thesis by simp
  qed
qed

theorem optional_nbt_roundtrip_witness:
  "fst (read_anon_optional_nbt ''chat'' (reader_of (run (write_anon_optional_nbt ''chat'' (Some [1, 5]))
     \<lparr>buf_data = [], buf_offset = 0, buf_limits = default_limits, buf_mode = WriteMode, buf_depth = 0\<rparr>)))
   = Inr (Some [1, 5])"
  (is "fst (_ (reader_of (run _ ?b))) = _")
proof -
  have "new_write_buffer default_limits = Inr ?b"
    by (simp add: new_write_buffer_def validate_limits_def default_limits_def)
  moreover have "write_anon_optional_nbt ''chat'' (Some [1, 5]) ?b =
      (Inr (), run (write_anon_optional_nbt ''chat'' (Some [1, 5])) ?b)"
    by code_simp
  ultimately show ?thesis by (rule optional_nbt_roundtrip [OF limits_ok_default])
qed

text \<open>
  a disconnect reason. The component that \<open>NewNetworkNBTText\<close> makes is the compound with the one
  key text and the string in modified UTF-8; and it is made, and passes the validator, whenever the
  encoded text has at most 65535 bytes and the limits leave room for it.
\<close>

theorem network_nbt_text:
  assumes "limits_ok lim"
  shows "(new_network_nbt_text s lim = Inr v \<longrightarrow>
      v = tag_compound # nbt_enc (NCompound [(ascii ''text'', NString (encode_modified_utf8 s))])) \<and>
    (let size = int (length (encode_modified_utf8 s)) in
      size \<le> 65535 \<and> size \<le> string_bytes lim \<and> 4 \<le> string_bytes lim \<and>
      2 \<le> recursion_depth lim \<and> size + 11 \<le> nbt_bytes lim \<longrightarrow>
      (\<exists>v. new_network_nbt_text s lim = Inr v))"
proof -
  let ?p = "encode_modified_utf8 s"
  let ?w = "NCompound [(ascii ''text'', NString ?p)]"
  let ?bytes = "[tag_compound, tag_string] @ be_bytes 2 (4 :: 16 word) @ ascii ''text'' @
    be_bytes 2 (word_of_int (int (length ?p)) :: 16 word) @ ?p @ [tag_end]"
  have len4: "length (ascii ''text'') = 4" by (simp add: ascii_def)
  have bytes: "?bytes = tag_compound # nbt_enc ?w"
    by (simp add: nbt_string_def len4)
  have valid: "valid lim" by (rule limits_okD(1) [OF assms])
  have made: "new_network_nbt_text s lim = Inr v \<longleftrightarrow> int (length ?p) \<le> 65535 \<and>
      new_network_nbt (tag_compound # nbt_enc ?w) lim = Inr v" for v
    unfolding new_network_nbt_text_def Let_def bytes by simp
  have ok: "nbt_ok lim 1 ?w" if "int (length ?p) \<le> 65535" "int (length ?p) \<le> string_bytes lim"
    "4 \<le> string_bytes lim" "2 \<le> recursion_depth lim"
  proof -
    have "decode_modified_utf8 (ascii ''text'') = Inr (concat (map (unit_bytes \<circ> ucast) (ascii ''text'')))"
      by code_simp
    with that len4 limits_okD(8) [OF assms] show ?thesis
      using decode_encode_runes [of "go_runes s"] go_runes_21 [of _ s]
      by (simp add: nbt_string_ok_def encode_modified_utf8_def)
  qed
  have size: "int (length (tag_compound # nbt_enc ?w)) = int (length ?p) + 11"
    by (simp add: nbt_string_def len4)
  show ?thesis
  proof (intro conjI impI)
    assume "new_network_nbt_text s lim = Inr v"
    then show "v = tag_compound # nbt_enc ?w"
      unfolding made by (auto simp: new_network_nbt_def new_nbt_with_Inr_iff [OF valid])
  next
    show "let size = int (length ?p) in size \<le> 65535 \<and> size \<le> string_bytes lim \<and>
      4 \<le> string_bytes lim \<and> 2 \<le> recursion_depth lim \<and> size + 11 \<le> nbt_bytes lim \<longrightarrow>
      (\<exists>v. new_network_nbt_text s lim = Inr v)"
    proof (unfold Let_def, intro impI)
      assume a: "int (length ?p) \<le> 65535 \<and> int (length ?p) \<le> string_bytes lim \<and>
        4 \<le> string_bytes lim \<and> 2 \<le> recursion_depth lim \<and> int (length ?p) + 11 \<le> nbt_bytes lim"
      with ok have "nbt_ok lim 1 ?w" by blast
      then have "validate_network_nbt (tag_compound # nbt_enc ?w) lim =
          Inr (int (length (tag_compound # nbt_enc ?w)))"
        unfolding validate_network_nbt_tree [OF assms] using a size
        by (intro exI [of _ ?w] exI [of _ "[]"]) simp
      with a size have "new_network_nbt (tag_compound # nbt_enc ?w) lim = Inr (tag_compound # nbt_enc ?w)"
        unfolding new_network_nbt_def new_nbt_with_Inr_iff [OF valid] by (metis (no_types))
      with a show "\<exists>v. new_network_nbt_text s lim = Inr v" using made by blast
    qed
  qed
qed

theorem network_nbt_text_witness:
  "\<exists>v. new_network_nbt_text [0x68, 0x69] default_limits = Inr v"
proof -
  have "int (length (encode_modified_utf8 [0x68, 0x69])) = 2" by code_simp
  with network_nbt_text [OF limits_ok_default, of "[0x68, 0x69]"] show ?thesis
    by (auto simp: default_limits_def)
qed

end
