(* ===== verification/NBT_Lookup.thy ===== *)
theory NBT_Lookup
  imports Wire_NBT
begin

text \<open>
  wire/java/nbt_lookup.go: reading one integer out of a validated NBT value. \<open>skip_payload\<close> with
  its loops is \<open>nbtWalker.skipPayload\<close>; a walk over arbitrary bytes nests as deep as the bytes
  say, so it runs on fuel, and \<open>skip_fuel\<close> shows that two more than the number of bytes is
  always enough. The properties tie the byte walk to the tree that the validator accepted.
\<close>

section \<open>The walker\<close>

definition walk_take :: "int \<Rightarrow> bytes \<Rightarrow> (bytes \<times> bytes) option" where
  "walk_take n rest =
     (if n < 0 \<or> int (length rest) < n then None else Some (take (nat n) rest, drop (nat n) rest))"

definition walk_byte :: "bytes \<Rightarrow> (byte \<times> bytes) option" where
  "walk_byte rest = (case rest of [] \<Rightarrow> None | b # bs \<Rightarrow> Some (b, bs))"

definition walk_count :: "bytes \<Rightarrow> (int \<times> bytes) option" where
  "walk_count rest = (case walk_take 4 rest of
       None \<Rightarrow> None
     | Some (raw, rest') \<Rightarrow>
         let count = sint (be_word raw :: i32) in if count < 0 then None else Some (count, rest'))"

definition walk_name :: "bytes \<Rightarrow> (bytes \<times> bytes) option" where
  "walk_name rest = (case walk_take 2 rest of
       None \<Rightarrow> None
     | Some (raw, rest') \<Rightarrow> walk_take (uint (be_word raw :: 16 word)) rest')"

text \<open>A step that is refused is Go's \<open>false\<close>.\<close>

datatype walked = Walked bytes | Refused | OutOfFuel

definition walked_of :: "(bytes \<times> bytes) option \<Rightarrow> walked" where
  "walked_of r = (case r of None \<Rightarrow> Refused | Some (_, rest) \<Rightarrow> Walked rest)"

definition skip_array :: "int \<Rightarrow> bytes \<Rightarrow> walked" where
  "skip_array item_bytes rest = (case walk_count rest of
       None \<Rightarrow> Refused
     | Some (count, rest') \<Rightarrow>
         if max_int div item_bytes < count then Refused
         else walked_of (walk_take (count * item_bytes) rest'))"

function skip_payload :: "nat \<Rightarrow> byte \<Rightarrow> bytes \<Rightarrow> walked"
  and skip_items :: "nat \<Rightarrow> nat \<Rightarrow> byte \<Rightarrow> bytes \<Rightarrow> walked"
  and skip_compound :: "nat \<Rightarrow> bytes \<Rightarrow> walked" where
  "skip_payload 0 tag rest = OutOfFuel"
| "skip_payload (Suc fuel) tag rest =
     (if tag = tag_byte then walked_of (walk_take 1 rest)
      else if tag = tag_short then walked_of (walk_take 2 rest)
      else if tag = tag_int \<or> tag = tag_float then walked_of (walk_take 4 rest)
      else if tag = tag_long \<or> tag = tag_double then walked_of (walk_take 8 rest)
      else if tag = tag_byte_array then skip_array 1 rest
      else if tag = tag_string then walked_of (walk_name rest)
      else if tag = tag_list then
        (case walk_byte rest of
           None \<Rightarrow> Refused
         | Some (item, rest1) \<Rightarrow>
             (case walk_count rest1 of
                None \<Rightarrow> Refused
              | Some (count, rest2) \<Rightarrow> skip_items fuel (nat count) item rest2))
      else if tag = tag_compound then skip_compound fuel rest
      else if tag = tag_int_array then skip_array 4 rest
      else Refused)"
| "skip_items fuel 0 tag rest = Walked rest"
| "skip_items fuel (Suc n) tag rest = (case skip_payload fuel tag rest of
       Walked rest' \<Rightarrow> skip_items fuel n tag rest'
     | Refused \<Rightarrow> Refused
     | OutOfFuel \<Rightarrow> OutOfFuel)"
| "skip_compound 0 rest = OutOfFuel"
| "skip_compound (Suc fuel) rest =
     (case walk_byte rest of
        None \<Rightarrow> Refused
      | Some (tag, rest1) \<Rightarrow>
          if tag = tag_end then Walked rest1
          else (case walk_name rest1 of
              None \<Rightarrow> Refused
            | Some (_, rest2) \<Rightarrow>
                (case skip_payload fuel tag rest2 of
                   Walked rest3 \<Rightarrow> skip_compound fuel rest3
                 | Refused \<Rightarrow> Refused
                 | OutOfFuel \<Rightarrow> OutOfFuel)))"
  by pat_completeness auto
termination
  by (relation "measures
    [\<lambda>x. case x of Inl (f, _) \<Rightarrow> f | Inr (Inl (f, _)) \<Rightarrow> f | Inr (Inr (f, _)) \<Rightarrow> f,
     \<lambda>x. case x of Inr (Inl (_, n, _)) \<Rightarrow> Suc n | _ \<Rightarrow> 0]") auto

section \<open>A walk only moves forward\<close>

lemma walk_take_length: "walk_take n rest = Some (xs, rest') \<Longrightarrow> length rest' \<le> length rest"
  by (auto simp: walk_take_def split: if_splits)

lemma walk_count_length: "walk_count rest = Some (n, rest') \<Longrightarrow> length rest' \<le> length rest"
  by (auto simp: walk_count_def Let_def dest: walk_take_length split: option.splits if_splits)

lemma walk_name_length: "walk_name rest = Some (s, rest') \<Longrightarrow> length rest' + 2 \<le> length rest"
  by (auto simp: walk_name_def walk_take_def split: option.splits if_splits)

lemma walk_byte_length: "walk_byte rest = Some (b, rest') \<Longrightarrow> length rest = Suc (length rest')"
  by (auto simp: walk_byte_def split: list.splits)

lemma walked_of_length:
  "walked_of (walk_take n rest) = Walked rest' \<Longrightarrow> length rest' \<le> length rest"
  "walked_of (walk_name rest) = Walked rest' \<Longrightarrow> length rest' \<le> length rest"
  by (auto simp: walked_of_def dest: walk_take_length walk_name_length split: option.splits)

lemma skip_array_length: "skip_array w rest = Walked rest' \<Longrightarrow> length rest' \<le> length rest"
  by (auto simp: skip_array_def dest!: walk_count_length walked_of_length(1)
      split: option.splits if_splits)

text \<open>The table of \<open>skipPayload\<close>, by what kind of tag it is.\<close>

lemma skip_payload_table:
  "scalar_width tag = Some w \<Longrightarrow> skip_payload (Suc fuel) tag rest = walked_of (walk_take (int w) rest)"
  "item_width tag = Some w \<Longrightarrow> skip_payload (Suc fuel) tag rest = skip_array (int w) rest"
  "scalar_width tag = None \<Longrightarrow> item_width tag = None \<Longrightarrow>
    skip_payload (Suc fuel) tag rest =
      (if tag = tag_string then walked_of (walk_name rest)
       else if tag = tag_list then
        (case walk_byte rest of
           None \<Rightarrow> Refused
         | Some (item, rest1) \<Rightarrow>
             (case walk_count rest1 of
                None \<Rightarrow> Refused
              | Some (count, rest2) \<Rightarrow> skip_items fuel (nat count) item rest2))
       else if tag = tag_compound then skip_compound fuel rest
       else Refused)"
  by (auto simp: scalar_width_def item_width_def tag_defs split: if_splits)

declare skip_payload.simps(2) [simp del]

lemma skip_payload_cases:
  assumes "skip_payload (Suc fuel) tag rest = r"
  obtains (fixed) n where "r = walked_of (walk_take n rest)"
    | (items) w where "r = skip_array w rest"
    | (name) "r = walked_of (walk_name rest)"
    | (listing) item r1 n r2 where "tag = tag_list" "walk_byte rest = Some (item, r1)"
      "walk_count r1 = Some (n, r2)" "r = skip_items fuel (nat n) item r2"
    | (compound) "tag = tag_compound" "r = skip_compound fuel rest"
    | (refused) "r = Refused"
proof -
  show thesis
  proof (cases "scalar_width tag")
    case (Some w)
    with assms fixed skip_payload_table(1) show thesis by metis
  next
    case scalar: None
    show thesis
    proof (cases "item_width tag")
      case (Some w)
      with assms items skip_payload_table(2) show thesis by metis
    next
      case None
      from assms [unfolded skip_payload_table(3) [OF scalar None]] name listing compound refused
      show thesis by (auto split: if_splits option.splits)
    qed
  qed
qed

lemma skip_length:
  "skip_payload fuel tag rest = Walked rest' \<Longrightarrow> length rest' \<le> length rest"
  "skip_items fuel n tag rest = Walked rest' \<Longrightarrow> length rest' \<le> length rest"
  "skip_compound fuel rest = Walked rest' \<Longrightarrow> length rest' \<le> length rest"
proof (induction fuel tag rest and fuel n tag rest and fuel rest arbitrary: rest' and rest' and rest'
    rule: skip_payload_skip_items_skip_compound.induct)
  case (2 fuel tag rest)
  from "2.prems" show ?case
  proof (cases rule: skip_payload_cases)
    case (listing item r1 n r2)
    with "2.IH"(1) [of "(item, r1)" item r1 "(n, r2)" n r2 rest'] show ?thesis
      by (auto simp: tag_defs dest!: walk_byte_length walk_count_length)
  next
    case compound
    with "2.IH"(2) [of rest'] show ?thesis by (simp add: tag_defs)
  qed (auto dest: sym [THEN walked_of_length(1)] sym [THEN walked_of_length(2)]
      sym [THEN skip_array_length])
next
  case (4 fuel n tag rest)
  from "4.prems" obtain r where "skip_payload fuel tag rest = Walked r"
    "skip_items fuel n tag r = Walked rest'" by (auto split: walked.splits)
  with "4.IH"(1) [of r] "4.IH"(2) [of r rest'] show ?case by simp
next
  case (6 fuel rest)
  from "6.prems" obtain tag r1 where r1: "walk_byte rest = Some (tag, r1)"
    by (auto split: option.splits)
  show ?case
  proof (cases "tag = tag_end")
    case True
    with r1 "6.prems" show ?thesis by (auto dest: walk_byte_length)
  next
    case False
    with r1 "6.prems" obtain s r2 r3 where r2: "walk_name r1 = Some (s, r2)"
      and r3: "skip_payload fuel tag r2 = Walked r3" "skip_compound fuel r3 = Walked rest'"
      by (auto split: option.splits walked.splits)
    with r1 False "6.IH"(1) [OF r1 refl False r2 refl, of r3] "6.IH"(2) [OF r1 refl False r2 refl r3(1,2)]
    show ?thesis using walk_byte_length [OF r1] walk_name_length [OF r2] by simp
  qed
qed auto

text \<open>Two more than the bytes that are left is enough fuel for a payload, one more for a compound.\<close>

lemma walked_of_fuel [simp]: "walked_of r \<noteq> OutOfFuel"
  by (auto simp: walked_of_def split: option.splits)

lemma skip_array_fuel [simp]: "skip_array w rest \<noteq> OutOfFuel"
  by (auto simp: skip_array_def split: option.splits)

lemma skip_fuel:
  "length rest + 2 \<le> fuel \<Longrightarrow> skip_payload fuel tag rest \<noteq> OutOfFuel"
  "length rest + 2 \<le> fuel \<Longrightarrow> skip_items fuel n tag rest \<noteq> OutOfFuel"
  "length rest + 1 \<le> fuel \<Longrightarrow> skip_compound fuel rest \<noteq> OutOfFuel"
proof (induction fuel tag rest and fuel n tag rest and fuel rest
    rule: skip_payload_skip_items_skip_compound.induct)
  case (2 fuel tag rest)
  show ?case
  proof (cases rule: skip_payload_cases [OF refl, of fuel tag rest])
    case (4 item r1 n r2)
    with "2.IH"(1) [of "(item, r1)" item r1 "(n, r2)" n r2] "2.prems" show ?thesis
      by (auto simp: tag_defs dest!: walk_byte_length walk_count_length)
  next
    case 5
    with "2.IH"(2) "2.prems" show ?thesis by (simp add: tag_defs)
  qed simp_all
next
  case (4 fuel n tag rest)
  then show ?case by (fastforce dest: skip_length(1) split: walked.splits)
next
  case (6 fuel rest)
  show ?case
  proof (cases "walk_byte rest")
    case (Some b)
    then obtain tag r1 where r1: "walk_byte rest = Some (tag, r1)" by (cases b) auto
    show ?thesis
    proof (cases "tag = tag_end \<or> walk_name r1 = None")
      case True
      with r1 show ?thesis by auto
    next
      case False
      then obtain s r2 where r2: "walk_name r1 = Some (s, r2)" and tag: "tag \<noteq> tag_end" by auto
      note len = walk_byte_length [OF r1] walk_name_length [OF r2]
      from "6.IH"(1) [OF r1 refl tag r2 refl] "6.IH"(2) [OF r1 refl tag r2 refl] len "6.prems" r1 r2 tag
      show ?thesis by (fastforce dest: skip_length(1) split: walked.splits)
    qed
  qed simp
qed auto

section \<open>Finding an entry\<close>

definition walk_fuel :: "bytes \<Rightarrow> nat" where
  "walk_fuel rest = length rest + 2"

function enter :: "bytes \<Rightarrow> bytes \<Rightarrow> (byte \<times> bytes) option" where
  "enter key rest =
     (case walk_byte rest of
        None \<Rightarrow> None
      | Some (tag, rest1) \<Rightarrow>
          if tag = tag_end then None
          else (case walk_name rest1 of
              None \<Rightarrow> None
            | Some (name, rest2) \<Rightarrow>
                if name = key then Some (tag, rest2)
                else (case skip_payload (walk_fuel rest2) tag rest2 of
                    Walked rest3 \<Rightarrow> enter key rest3
                  | _ \<Rightarrow> None)))"
  by pat_completeness auto
termination
  by (relation "measure (\<lambda>(key, rest). length rest)")
    (auto dest!: walk_byte_length walk_name_length skip_length(1))

declare enter.simps [simp del]

text \<open>The loop of \<open>lookup\<close>: every key but the last must lead to a compound.\<close>

fun descend :: "bytes list \<Rightarrow> bytes \<Rightarrow> (bytes \<times> byte) option" where
  "descend [] rest = None"
| "descend [key] rest = (case enter key rest of None \<Rightarrow> None | Some (tag, rest') \<Rightarrow> Some (rest', tag))"
| "descend (key # keys) rest =
     (case enter key rest of
        None \<Rightarrow> None
      | Some (tag, rest') \<Rightarrow> if tag \<noteq> tag_compound then None else descend keys rest')"

definition lookup :: "bytes \<Rightarrow> bool \<Rightarrow> bytes list \<Rightarrow> (bytes \<times> byte) option" where
  "lookup data anonymous_root path =
     (if path = [] then None
      else case walk_byte data of
          None \<Rightarrow> None
        | Some (tag, rest) \<Rightarrow>
            if tag \<noteq> tag_compound then None
            else if anonymous_root then descend (map encode_modified_utf8 path) rest
            else (case walk_name rest of
                None \<Rightarrow> None
              | Some (_, rest') \<Rightarrow> descend (map encode_modified_utf8 path) rest'))"

definition lookup_int :: "bytes \<Rightarrow> bool \<Rightarrow> bytes list \<Rightarrow> i32 option" where
  "lookup_int data anonymous_root path =
     (case lookup data anonymous_root path of
        None \<Rightarrow> None
      | Some (payload, tag) \<Rightarrow>
          if tag \<noteq> tag_int \<or> length payload < 4 then None else Some (be_word (take 4 payload)))"

definition nbt_int :: "bytes \<Rightarrow> bytes list \<Rightarrow> i32 option" where
  "nbt_int v path = lookup_int v False path"

definition network_nbt_int :: "bytes \<Rightarrow> bytes list \<Rightarrow> i32 option" where
  "network_nbt_int v path = lookup_int v True path"

section \<open>Walking a well-formed tree\<close>

lemma walk_take_append [simp]: "int (length xs) = n \<Longrightarrow> walk_take n (xs @ rest) = Some (xs, rest)"
  by (auto simp: walk_take_def)

lemma walk_byte_Cons [simp]: "walk_byte (b # rest) = Some (b, rest)"
  by (simp add: walk_byte_def)

lemma walk_count_append:
  "int n < 2 ^ 31 \<Longrightarrow> walk_count (nbt_count n @ rest) = Some (int n, rest)"
  by (simp add: walk_count_def nbt_count_def be_word_be_bytes)

lemma walk_name_append:
  assumes "length s < 2 ^ 16"
  shows "walk_name (nbt_string s @ rest) = Some (s, rest)"
proof -
  have "uint (word_of_int (int (length s)) :: 16 word) = int (length s)"
    using assms by (simp only: uint_word_of_int_eq) (rule take_bit_int_eq_self, simp_all)
  then show ?thesis by (simp add: walk_name_def nbt_string_def be_word_be_bytes)
qed

lemma skip_array_append:
  assumes "length data = n * w" "int n < 2 ^ 31" "w = 1 \<or> w = 4"
  shows "skip_array (int w) (nbt_count n @ data @ rest) = Walked rest"
proof -
  have "\<not> max_int div int w < int n" using assms(2,3) by (auto simp: max_int_def)
  with assms(1,2) show ?thesis by (simp add: skip_array_def walk_count_append walked_of_def)
qed

lemma skip_tree:
  assumes "collection_items lim < 2 ^ 31"
  shows "nbt_ok lim depth v \<Longrightarrow> length (nbt_enc v) + 2 \<le> fuel \<Longrightarrow>
      skip_payload fuel (value_tag v) (nbt_enc v @ rest) = Walked rest"
    and "nbt_ok_list lim depth tag vs \<Longrightarrow> length (nbt_enc_list vs) + 2 \<le> fuel \<Longrightarrow>
      skip_items fuel (length vs) tag (nbt_enc_list vs @ rest) = Walked rest"
    and "nbt_ok_entries lim depth keys es \<Longrightarrow> length (nbt_enc_entries es) + 1 \<le> fuel \<Longrightarrow>
      skip_compound fuel (nbt_enc_entries es @ rest) = Walked rest"
proof (induction v and vs and es arbitrary: depth fuel rest and depth tag fuel rest and depth keys fuel rest
    rule: nbt_enc_nbt_enc_list_nbt_enc_entries.induct)
  case (1 tag data)
  then show ?case by (cases fuel) (auto simp: skip_payload_table(1) walked_of_def)
next
  case (2 s)
  have "scalar_width tag_string = None" "item_width tag_string = None"
    by (simp_all add: scalar_width_def item_width_def tag_defs)
  with 2 show ?case
    by (cases fuel) (auto simp: skip_payload_table(3) walked_of_def walk_name_append nbt_string_ok_def)
next
  case (3 tag data)
  then obtain n w where w: "item_width tag = Some w" "length data = n * w" "int n \<le> collection_items lim"
    by auto
  then have "nbt_enc (NArray tag data) = nbt_count n @ data" "w = 1 \<or> w = 4"
    by (auto simp: item_width_def split: if_splits)
  with w assms 3 show ?case
    by (cases fuel) (auto simp: skip_payload_table(2) skip_array_append)
next
  case (4 tag vs)
  have "scalar_width tag_list = None" "item_width tag_list = None" "tag_list \<noteq> tag_string"
    by (simp_all add: scalar_width_def item_width_def tag_defs)
  with 4 assms show ?case
    by (cases fuel) (auto simp: skip_payload_table(3) walk_count_append)
next
  case (5 es)
  have "scalar_width tag_compound = None" "item_width tag_compound = None"
    "tag_compound \<noteq> tag_string" "tag_compound \<noteq> tag_list"
    by (simp_all add: scalar_width_def item_width_def tag_defs)
  with 5 show ?case by (cases fuel) (auto simp: skip_payload_table(3))
next
  case (8)
  then show ?case by (cases fuel) auto
next
  case (9 name v es)
  then obtain f where f: "fuel = Suc f" by (cases fuel) auto
  from "9.prems"(1) have ok: "nbt_ok lim depth v" "length name < 2 ^ 16"
    "nbt_ok_entries lim depth (nbt_key name # keys) es" by (auto simp: nbt_string_ok_def)
  have "length (nbt_enc v) + 2 \<le> f" "length (nbt_enc_entries es) + 1 \<le> f"
    using "9.prems"(2) f by (auto simp: nbt_string_def)
  with "9.IH"(1) [OF ok(1)] "9.IH"(2) [OF ok(3)] value_tag_range [OF ok(1)] ok(2) f show ?case
    by (simp add: walk_name_append)
qed auto

lemma scalar_width_tags:
  "scalar_width tag_compound = None" "item_width tag_compound = None"
  "scalar_width tag_int = Some 4" "item_width tag_int = None"
  by (simp_all add: scalar_width_def item_width_def tag_defs)

lemma compound_tag:
  "nbt_ok lim depth v \<Longrightarrow> value_tag v = tag_compound \<Longrightarrow> \<exists>es. v = NCompound es"
  using scalar_width_tags by (cases v) (auto, simp_all add: tag_defs)

section \<open>Looking up in the tree\<close>

fun find_path :: "bytes list \<Rightarrow> nbt_value \<Rightarrow> nbt_value option" where
  "find_path [] v = Some v"
| "find_path (key # keys) (NCompound es) =
     (case map_of es key of None \<Rightarrow> None | Some v \<Rightarrow> find_path keys v)"
| "find_path (key # keys) v = None"

definition int_at :: "bytes list \<Rightarrow> nbt_value \<Rightarrow> i32 option" where
  "int_at keys v =
     (case find_path keys v of
        Some (Scalar tag data) \<Rightarrow> if tag = tag_int then Some (be_word data) else None
      | _ \<Rightarrow> None)"

lemma enter_entries:
  assumes "collection_items lim < 2 ^ 31" "nbt_ok_entries lim depth keys es"
  shows "case map_of es key of
      None \<Rightarrow> enter key (nbt_enc_entries es @ rest) = None
    | Some v \<Rightarrow> nbt_ok lim depth v \<and>
        (\<exists>tail. enter key (nbt_enc_entries es @ rest) = Some (value_tag v, nbt_enc v @ tail))"
  using assms(2)
proof (induction es arbitrary: keys)
  case Nil
  then show ?case by (simp add: enter.simps)
next
  case (Cons e es)
  obtain name v where e: "e = (name, v)" by (cases e)
  from Cons.prems e have ok: "nbt_ok lim depth v" "length name < 2 ^ 16"
    "nbt_ok_entries lim depth (nbt_key name # keys) es" by (auto simp: nbt_string_ok_def)
  let ?rest = "nbt_enc v @ nbt_enc_entries es @ rest"
  have start: "enter key (nbt_enc_entries (e # es) @ rest) =
      (if name = key then Some (value_tag v, ?rest) else enter key (nbt_enc_entries es @ rest))"
    using value_tag_range [OF ok(1)] ok(2)
      skip_tree(1) [OF assms(1) ok(1), of "walk_fuel ?rest" "nbt_enc_entries es @ rest"]
    by (simp add: e walk_name_append walk_fuel_def
        enter.simps [of key "value_tag v # nbt_string name @ nbt_enc v @ nbt_enc_entries es @ rest"])
  with Cons.IH [OF ok(3)] ok(1) show ?case
    by (auto simp: e split: option.splits)
qed

lemma descend_entries:
  assumes "collection_items lim < 2 ^ 31" "nbt_ok_entries lim depth keys es" "path \<noteq> []"
  shows "case find_path path (NCompound es) of
      None \<Rightarrow> descend path (nbt_enc_entries es @ rest) = None
    | Some v \<Rightarrow> (\<exists>d. nbt_ok lim d v) \<and>
        (\<exists>tail. descend path (nbt_enc_entries es @ rest) = Some (nbt_enc v @ tail, value_tag v))"
  using assms(2,3)
proof (induction path arbitrary: depth keys es rest)
  case (Cons key path)
  note step = enter_entries [OF assms(1) Cons.prems(1), of key rest]
  show ?case
  proof (cases "map_of es key")
    case None
    with step show ?thesis by (cases path) auto
  next
    case (Some v)
    with step obtain tail where v: "nbt_ok lim depth v"
      "enter key (nbt_enc_entries es @ rest) = Some (value_tag v, nbt_enc v @ tail)" by auto
    show ?thesis
    proof (cases path)
      case Nil
      with Some v show ?thesis by auto
    next
      case (Cons k ks)
      show ?thesis
      proof (cases "\<exists>fs. v = NCompound fs")
        case True
        then obtain fs where "v = NCompound fs" by blast
        with v Some Cons have eq: "find_path (key # path) (NCompound es) = find_path path (NCompound fs)"
          "descend (key # path) (nbt_enc_entries es @ rest) = descend path (nbt_enc_entries fs @ tail)"
          by auto
        have "nbt_ok_entries lim (depth + 1) [] fs" "path \<noteq> []"
          using v(1) \<open>v = NCompound fs\<close> Cons by auto
        from Cons.IH [OF this] show ?thesis unfolding eq .
      next
        case False
        with v(1) Cons have "value_tag v \<noteq> tag_compound" "find_path path v = None"
          using compound_tag [OF v(1)] by (auto, cases v, auto)
        with Some v Cons show ?thesis by auto
      qed
    qed
  qed
qed simp

lemma lookup_int_tree:
  assumes "collection_items lim < 2 ^ 31" "nbt_ok lim depth (NCompound es)" "path \<noteq> []"
  shows "(case descend path (nbt_enc (NCompound es) @ rest) of
      None \<Rightarrow> None
    | Some (payload, tag) \<Rightarrow>
        if tag \<noteq> tag_int \<or> length payload < 4 then None else Some (be_word (take 4 payload))) =
    int_at path (NCompound es)"
proof -
  from assms(2) have "nbt_ok_entries lim (depth + 1) [] es" by simp
  note found = descend_entries [OF assms(1) this assms(3), of rest]
  show ?thesis
  proof (cases "find_path path (NCompound es)")
    case None
    with found show ?thesis by (simp add: int_at_def)
  next
    case (Some v)
    with found obtain d tail where v: "nbt_ok lim d v"
      "descend path (nbt_enc_entries es @ rest) = Some (nbt_enc v @ tail, value_tag v)" by auto
    show ?thesis
    proof (cases v)
      case (Scalar tag data)
      with v Some show ?thesis
        using scalar_width_tags(3) by (auto simp: int_at_def)
    next
      case (NArray tag data)
      with v(1) scalar_width_tags(4) have "tag \<noteq> tag_int" by auto
      with v NArray Some show ?thesis by (simp add: int_at_def)
    qed (use v Some in \<open>simp_all add: int_at_def, simp_all add: tag_defs\<close>)
  qed
qed

section \<open>Properties\<close>

text \<open>
  C26: \<open>NetworkNBT.Int\<close> answers from the tree. On a value \<open>NewNetworkNBT\<close> accepted, the byte walk
  returns exactly the \<open>TAG_Int\<close> that following the path of keys through compounds reaches, and
  false for an empty path, a root that is no compound, an absent key, a value on the way that is no
  compound, and a value of another tag.
\<close>

theorem network_nbt_int_correct:
  assumes "limits_ok lim" and "new_network_nbt data lim = Inr v"
    and "data = value_tag w # nbt_enc w" and "nbt_ok lim 1 w"
  shows "network_nbt_int v path =
    (if path = [] then None else int_at (map encode_modified_utf8 path) w)"
proof (cases "path = []")
  case True
  then show ?thesis by (simp add: network_nbt_int_def lookup_int_def lookup_def)
next
  case False
  have items: "collection_items lim < 2 ^ 31" using limits_okD(9) [OF assms(1)] by simp
  have v: "v = value_tag w # nbt_enc w"
    using assms(2,3) limits_okD(1) [OF assms(1)]
    by (simp add: new_network_nbt_def new_nbt_with_Inr_iff)
  show ?thesis
  proof (cases "\<exists>es. w = NCompound es")
    case True
    then obtain es where w: "w = NCompound es" by blast
    with lookup_int_tree [OF items, of 1 es "map encode_modified_utf8 path" "[]"] assms(4) v False
    show ?thesis by (simp add: network_nbt_int_def lookup_int_def lookup_def)
  next
    case False
    with compound_tag [OF assms(4)] have "value_tag w \<noteq> tag_compound" by blast
    moreover from False \<open>path \<noteq> []\<close> have "int_at (map encode_modified_utf8 path) w = None"
      by (cases path; cases w) (auto simp: int_at_def)
    ultimately show ?thesis
      using v \<open>path \<noteq> []\<close> by (simp add: network_nbt_int_def lookup_int_def lookup_def)
  qed
qed

theorem network_nbt_int_correct_witness:
  "network_nbt_int [10, 3, 0, 1, 0x79, 0, 0, 0, 7, 0] [[0x79]] = Some 7"
proof -
  let ?w = "NCompound [([0x79], Scalar 3 [0, 0, 0, 7])]"
  have new: "new_network_nbt [10, 3, 0, 1, 0x79, 0, 0, 0, 7, 0] default_limits =
      Inr [10, 3, 0, 1, 0x79, 0, 0, 0, 7, 0]"
    by code_simp
  have "[10, 3, 0, 1, 0x79, 0, 0, 0, 7, 0] = value_tag ?w # nbt_enc ?w" by code_simp
  moreover have "nbt_ok default_limits 1 ?w"
    by (simp add: tag_defs nbt_string_ok_def nbt_key_def scalar_width_def)
      (simp add: default_limits_def)
  moreover have "int_at (map encode_modified_utf8 [[0x79]]) ?w = Some 7" by code_simp
  ultimately show ?thesis
    using network_nbt_int_correct [OF limits_ok_default new, of ?w "[[0x79]]"] by simp
qed

text \<open>
  the walk always ends. Whatever bytes it is given, well formed or not, skipping a payload with
  two more units of fuel than there are bytes stops by itself, forward or refused, and never goes
  back; \<open>enter\<close> and the lookups run with that much.
\<close>

theorem skip_payload_ends:
  "(\<exists>rest'. skip_payload (walk_fuel rest) tag rest = Walked rest' \<and> length rest' \<le> length rest) \<or>
    skip_payload (walk_fuel rest) tag rest = Refused"
  using skip_fuel(1) [of rest "walk_fuel rest" tag] skip_length(1) [of "walk_fuel rest" tag rest]
  by (cases "skip_payload (walk_fuel rest) tag rest") (auto simp: walk_fuel_def)

end
