(* ===== verification/Stream_Budget.thy ===== *)
theory Stream_Budget
  imports Protocol_Limits
begin

text \<open>
  stream_budget.go: the one allowance of items and bytes that all queues of a stream share, with
  its waiters served in arrival order. \<open>budget\<close> is the struct; a \<open>*budgetWaiter\<close> is a number, the
  index of the waiter in the store, numbers being given out in the order of the reservations. A
  Go panic (closing \<open>ready\<close> twice, releasing more than was acquired) is \<open>None\<close>.

  \<open>budget_step\<close> is what the stream does with a budget: it accepts a granted reservation or cancels
  one once, and releases only what it holds. What it holds is kept beside the budget.
\<close>

section \<open>The budget\<close>

record budget_waiter =
  w_items :: int
  w_bytes :: int
  w_ready :: bool
  w_granted :: bool
  w_err :: "wire_error option"

record budget =
  max_items :: int
  max_bytes :: int
  used_items :: int
  used_bytes :: int
  waiters :: "nat list"
  store :: "nat \<Rightarrow> budget_waiter option"
  next_waiter :: nat
  closed :: "wire_error option"

definition new_budget :: "int \<Rightarrow> int \<Rightarrow> budget" where
  "new_budget items bytes = \<lparr>max_items = items, max_bytes = max bytes 0, used_items = 0, used_bytes = 0,
     waiters = [], store = (\<lambda>_. None), next_waiter = 0, closed = None\<rparr>"

definition queued_byte_capacity :: "limits \<Rightarrow> int" where
  "queued_byte_capacity lim = buffered_bytes lim - 2 * (frame_bytes lim + decompressed_bytes lim)"

definition close_ready :: "budget_waiter \<Rightarrow> budget_waiter option" where
  "close_ready w = (if w_ready w then None else Some (w\<lparr>w_ready := True\<rparr>))"

text \<open>The loop of \<open>grantLocked\<close>, over the waiters from the head.\<close>

definition fits :: "budget \<Rightarrow> budget_waiter \<Rightarrow> bool" where
  "fits b w \<longleftrightarrow> \<not> (max_items b < used_items b + w_items w \<or> max_bytes b < used_bytes b + w_bytes w)"

fun grant_from :: "nat list \<Rightarrow> budget \<Rightarrow> budget option" where
  "grant_from [] b = Some (b\<lparr>waiters := []\<rparr>)"
| "grant_from (i # rest) b =
     (case store b i of
        None \<Rightarrow> None
      | Some w \<Rightarrow>
          if \<not> fits b w then Some (b\<lparr>waiters := i # rest\<rparr>)
          else (case close_ready (w\<lparr>w_granted := True\<rparr>) of
              None \<Rightarrow> None
            | Some w' \<Rightarrow> grant_from rest (b\<lparr>used_items := used_items b + w_items w,
                used_bytes := used_bytes b + w_bytes w, store := (store b)(i \<mapsto> w')\<rparr>)))"

definition grant_locked :: "budget \<Rightarrow> budget option" where
  "grant_locked b = grant_from (waiters b) b"

definition reserve :: "int \<Rightarrow> int \<Rightarrow> budget \<Rightarrow> (nat result \<times> budget) option" where
  "reserve items bytes b =
     (if items < 0 \<or> bytes < 0 then Some (Inl ErrInvalidStream, b)
      else case closed b of
          Some e \<Rightarrow> Some (Inl e, b)
        | None \<Rightarrow>
            if max_items b < items \<or> max_bytes b < bytes then Some (Inl ErrLimitExceeded, b)
            else let i = next_waiter b;
                     w = \<lparr>w_items = items, w_bytes = bytes, w_ready = False, w_granted = False, w_err = None\<rparr>
              in map_option (Pair (Inr i)) (grant_locked
                (b\<lparr>waiters := waiters b @ [i], store := (store b)(i \<mapsto> w), next_waiter := i + 1\<rparr>)))"

definition cancel :: "nat \<Rightarrow> budget \<Rightarrow> budget option" where
  "cancel i b =
     (case store b i of
        None \<Rightarrow> None
      | Some w \<Rightarrow>
          if w_granted w then
            grant_locked (b\<lparr>used_items := used_items b - w_items w, used_bytes := used_bytes b - w_bytes w,
              store := (store b)(i \<mapsto> w\<lparr>w_granted := False\<rparr>)\<rparr>)
          else if i \<in> set (waiters b) then
            map_option (\<lambda>w'. b\<lparr>waiters := remove1 i (waiters b), store := (store b)(i \<mapsto> w')\<rparr>)
              (close_ready w)
          else Some b)"

definition failure :: "budget_waiter \<Rightarrow> wire_error option" where
  "failure w = (if w_granted w then None else case w_err w of Some e \<Rightarrow> Some e | None \<Rightarrow> Some ErrStreamClosed)"

definition charge :: "int \<Rightarrow> int \<Rightarrow> budget \<Rightarrow> budget" where
  "charge items bytes b = b\<lparr>used_items := used_items b + items, used_bytes := used_bytes b + bytes\<rparr>"

definition release :: "int \<Rightarrow> int \<Rightarrow> budget \<Rightarrow> budget option" where
  "release items bytes b =
     (let b' = b\<lparr>used_items := used_items b - items, used_bytes := used_bytes b - bytes\<rparr> in
      if used_items b' < 0 \<or> used_bytes b' < 0 then None else grant_locked b')"

text \<open>The loop of \<open>close\<close> over the waiters.\<close>

fun refuse_all :: "wire_error \<Rightarrow> nat list \<Rightarrow> budget \<Rightarrow> budget option" where
  "refuse_all e [] b = Some (b\<lparr>waiters := []\<rparr>)"
| "refuse_all e (i # rest) b =
     (case store b i of
        None \<Rightarrow> None
      | Some w \<Rightarrow> (case close_ready (w\<lparr>w_err := Some e\<rparr>) of
            None \<Rightarrow> None
          | Some w' \<Rightarrow> refuse_all e rest (b\<lparr>store := (store b)(i \<mapsto> w')\<rparr>)))"

definition close_budget :: "wire_error option \<Rightarrow> budget \<Rightarrow> budget option" where
  "close_budget cause b =
     (if \<not> Option.is_none (closed b) then Some b
      else let e = (case cause of None \<Rightarrow> ErrStreamClosed | Some e \<Rightarrow> e)
        in refuse_all e (waiters b) (b\<lparr>closed := Some e\<rparr>))"

definition usage :: "budget \<Rightarrow> int \<times> int" where
  "usage b = (used_items b, used_bytes b)"

section \<open>The invariant\<close>

text \<open>
  A waiting reservation is unanswered and fits an empty budget; every other one has been answered;
  waiters stand in the order of their numbers, none of which is to come; none that was granted came
  after one that waits; nothing waits in a closed budget.
\<close>

definition waiting :: "budget \<Rightarrow> budget_waiter \<Rightarrow> bool" where
  "waiting b w \<longleftrightarrow> \<not> w_ready w \<and> \<not> w_granted w \<and> w_err w = None \<and>
     w_items w \<le> max_items b \<and> w_bytes w \<le> max_bytes b"

definition queue_ok :: "budget \<Rightarrow> bool" where
  "queue_ok b \<longleftrightarrow> sorted_wrt (<) (waiters b) \<and>
     (\<forall>i \<in> set (waiters b). \<exists>w. store b i = Some w \<and> waiting b w) \<and>
     (\<forall>i w. store b i = Some w \<longrightarrow> i < next_waiter b \<and> 0 \<le> w_items w \<and> 0 \<le> w_bytes w \<and>
        (i \<notin> set (waiters b) \<longrightarrow> w_ready w)) \<and>
     (\<forall>i w. store b i = Some w \<and> w_granted w \<longrightarrow> (\<forall>j \<in> set (waiters b). i < j)) \<and>
     (closed b \<noteq> None \<longrightarrow> waiters b = [])"

text \<open>The head of the queue does not fit: nobody waits who could be served.\<close>

definition head_blocked :: "budget \<Rightarrow> bool" where
  "head_blocked b \<longleftrightarrow> (case waiters b of [] \<Rightarrow> True
     | i # _ \<Rightarrow> (case store b i of None \<Rightarrow> True | Some w \<Rightarrow> \<not> fits b w))"

definition items_of :: "(nat \<Rightarrow> budget_waiter option) \<Rightarrow> nat \<Rightarrow> int" where
  "items_of st i = (case st i of None \<Rightarrow> 0 | Some w \<Rightarrow> if w_granted w then w_items w else 0)"

definition bytes_of :: "(nat \<Rightarrow> budget_waiter option) \<Rightarrow> nat \<Rightarrow> int" where
  "bytes_of st i = (case st i of None \<Rightarrow> 0 | Some w \<Rightarrow> if w_granted w then w_bytes w else 0)"

text \<open>What a run of the grant loop does: it serves a prefix of the queue and stops at a blocked head.\<close>

definition granted_prefix :: "nat list \<Rightarrow> budget \<Rightarrow> budget \<Rightarrow> bool" where
  "granted_prefix ids b b' \<longleftrightarrow> (\<exists>served rest. ids = served @ rest \<and> waiters b' = rest \<and>
     (\<forall>i \<in> set served. \<exists>w. store b i = Some w \<and> store b' i = Some (w\<lparr>w_granted := True, w_ready := True\<rparr>)) \<and>
     (\<forall>i. i \<notin> set served \<longrightarrow> store b' i = store b i) \<and>
     used_items b' = used_items b + (\<Sum>i\<in>set served. items_of (store b') i) \<and>
     used_bytes b' = used_bytes b + (\<Sum>i\<in>set served. bytes_of (store b') i) \<and>
     max_items b' = max_items b \<and> max_bytes b' = max_bytes b \<and>
     next_waiter b' = next_waiter b \<and> closed b' = closed b \<and> head_blocked b' \<and>
     (served \<noteq> [] \<longrightarrow> used_items b' \<le> max_items b \<and> used_bytes b' \<le> max_bytes b))"

lemma grant_from_prefix:
  assumes "distinct ids" "\<forall>i \<in> set ids. \<exists>w. store b i = Some w \<and> \<not> w_ready w"
  shows "\<exists>b'. grant_from ids b = Some b' \<and> granted_prefix ids b b'"
  using assms
proof (induction ids b rule: grant_from.induct)
  case (1 b)
  then show ?case by (auto simp: granted_prefix_def head_blocked_def)
next
  case (2 i rest b)
  from "2.prems"(2) obtain w where w: "store b i = Some w" "\<not> w_ready w" by auto
  show ?case
  proof (cases "fits b w")
    case False
    with w show ?thesis
      by (auto simp: granted_prefix_def head_blocked_def fits_def intro!: exI [of _ "[]"])
  next
    case True
    let ?w = "w\<lparr>w_granted := True, w_ready := True\<rparr>"
    let ?b = "b\<lparr>used_items := used_items b + w_items w, used_bytes := used_bytes b + w_bytes w,
      store := (store b)(i \<mapsto> ?w)\<rparr>"
    have close: "close_ready (w\<lparr>w_granted := True\<rparr>) = Some ?w"
      using w(2) by (simp add: close_ready_def)
    have "\<forall>j \<in> set rest. \<exists>w. store ?b j = Some w \<and> \<not> w_ready w"
      using "2.prems" by auto
    with "2.IH" [OF w(1) _ close] True "2.prems"(1) obtain b' where
      b': "grant_from rest ?b = Some b'" "granted_prefix rest ?b b'" by auto
    from b'(2) obtain served rest' where s: "rest = served @ rest'" "waiters b' = rest'"
      "\<forall>j \<in> set served. \<exists>w. store ?b j = Some w \<and> store b' j = Some (w\<lparr>w_granted := True, w_ready := True\<rparr>)"
      "\<forall>j. j \<notin> set served \<longrightarrow> store b' j = store ?b j"
      "used_items b' = used_items ?b + (\<Sum>i\<in>set served. items_of (store b') i)"
      "used_bytes b' = used_bytes ?b + (\<Sum>i\<in>set served. bytes_of (store b') i)"
      "max_items b' = max_items b" "max_bytes b' = max_bytes b"
      "next_waiter b' = next_waiter b" "closed b' = closed b" "head_blocked b'"
      "served \<noteq> [] \<longrightarrow> used_items b' \<le> max_items b \<and> used_bytes b' \<le> max_bytes b"
      unfolding granted_prefix_def by auto
    from s(1) "2.prems"(1) have i: "i \<notin> set served" by auto
    with s(4) have "store b' i = Some ?w" by simp
    moreover have "\<forall>j \<in> set served. store ?b j = store b j" using i by auto
    moreover have "used_items b' \<le> max_items b \<and> used_bytes b' \<le> max_bytes b"
      using s(5,6,12) True by (cases "served = []") (auto simp: fits_def)
    ultimately have "granted_prefix (i # rest) b b'"
      unfolding granted_prefix_def using s i w
      by (intro exI [of _ "i # served"] exI [of _ rest']) (auto simp: items_of_def bytes_of_def)
    with b' True w close show ?thesis by auto
  qed
qed

lemma grant_ok:
  assumes "queue_ok b"
  obtains b' where "grant_locked b = Some b'" "granted_prefix (waiters b) b b'" "queue_ok b'"
    "head_blocked b'" "set (waiters b') \<subseteq> set (waiters b)"
proof -
  have dist: "distinct (waiters b)"
    using assms by (simp add: queue_ok_def strict_sorted_iff)
  then obtain b' where b': "grant_from (waiters b) b = Some b'" "granted_prefix (waiters b) b b'"
    using grant_from_prefix [of "waiters b" b] assms by (auto simp: queue_ok_def waiting_def) blast
  from b'(2) obtain served where s: "waiters b = served @ waiters b'"
    "\<forall>i \<in> set served. \<exists>w. store b i = Some w \<and> store b' i = Some (w\<lparr>w_granted := True, w_ready := True\<rparr>)"
    "\<forall>i. i \<notin> set served \<longrightarrow> store b' i = store b i" "max_items b' = max_items b"
    "max_bytes b' = max_bytes b" "next_waiter b' = next_waiter b" "closed b' = closed b" "head_blocked b'"
    unfolding granted_prefix_def by auto
  have answered: "i < next_waiter b' \<and> 0 \<le> w_items w \<and> 0 \<le> w_bytes w \<and> (i \<notin> set (waiters b') \<longrightarrow> w_ready w)"
    if "store b' i = Some w" for i w
  proof (cases "i \<in> set served")
    case True
    with s(2) that obtain v where "store b i = Some v" "w = v\<lparr>w_granted := True, w_ready := True\<rparr>"
      by auto
    with assms s(6) show ?thesis by (auto simp: queue_ok_def)
  next
    case False
    with that s(1,3,6) assms show ?thesis by (auto simp: queue_ok_def)
  qed
  have "queue_ok b'"
    unfolding queue_ok_def
  proof (intro conjI ballI allI impI answered)
    show "sorted_wrt (<) (waiters b')"
      using assms s(1) by (auto simp: queue_ok_def sorted_wrt_append)
    show "\<exists>w. store b' i = Some w \<and> waiting b' w" if "i \<in> set (waiters b')" for i
    proof -
      have "i \<notin> set served" using dist that by (auto simp: s(1))
      with assms s that show ?thesis by (auto simp: queue_ok_def waiting_def)
    qed
    show "i < j" if "store b' i = Some w \<and> w_granted w" "j \<in> set (waiters b')" for i w j
    proof (cases "i \<in> set served")
      case True
      with assms s(1) that(2) show ?thesis by (auto simp: queue_ok_def sorted_wrt_append)
    next
      case False
      with assms s(1,3) that show ?thesis by (auto simp: queue_ok_def)
    qed
    show "waiters b' = []" if "closed b' \<noteq> None"
      using assms that s(1,7) by (auto simp: queue_ok_def)
  qed (use answered in blast)+
  with b' s that show thesis by (auto simp: grant_locked_def)
qed

lemma granted_sum:
  assumes "queue_ok b" "granted_prefix (waiters b) b b'" "finite ids" "set (waiters b) \<subseteq> ids"
  shows "(\<Sum>i\<in>ids. items_of (store b') i) - used_items b' = (\<Sum>i\<in>ids. items_of (store b) i) - used_items b"
    and "(\<Sum>i\<in>ids. bytes_of (store b') i) - used_bytes b' = (\<Sum>i\<in>ids. bytes_of (store b) i) - used_bytes b"
proof -
  from assms(2) obtain served where s: "waiters b = served @ waiters b'"
    "\<forall>i. i \<notin> set served \<longrightarrow> store b' i = store b i"
    "used_items b' = used_items b + (\<Sum>i\<in>set served. items_of (store b') i)"
    "used_bytes b' = used_bytes b + (\<Sum>i\<in>set served. bytes_of (store b') i)"
    unfolding granted_prefix_def by auto
  have sub: "set served \<subseteq> ids" using assms(4) s(1) by auto
  have split: "(\<Sum>i\<in>ids. f i) = (\<Sum>i\<in>ids - set served. f i) + (\<Sum>i\<in>set served. f i)" for f :: "nat \<Rightarrow> int"
    by (rule sum.subset_diff [OF sub assms(3)])
  have zero: "items_of (store b) i = 0 \<and> bytes_of (store b) i = 0" if "i \<in> set served" for i
  proof -
    have "i \<in> set (waiters b)" using that s(1) by (metis Un_iff set_append)
    with assms(1) obtain w where "store b i = Some w" "waiting b w" by (auto simp: queue_ok_def)
    then show ?thesis by (simp add: waiting_def items_of_def bytes_of_def)
  qed
  have same: "items_of (store b') i = items_of (store b) i \<and> bytes_of (store b') i = bytes_of (store b) i"
    if "i \<in> ids - set served" for i
    using that s(2) by (simp add: items_of_def bytes_of_def)
  have "(\<Sum>i\<in>ids. items_of (store b') i) = (\<Sum>i\<in>ids. items_of (store b) i) + (\<Sum>i\<in>set served. items_of (store b') i)"
    unfolding split using same zero by simp
  then show "(\<Sum>i\<in>ids. items_of (store b') i) - used_items b' = (\<Sum>i\<in>ids. items_of (store b) i) - used_items b"
    using s(3) by simp
  have "(\<Sum>i\<in>ids. bytes_of (store b') i) = (\<Sum>i\<in>ids. bytes_of (store b) i) + (\<Sum>i\<in>set served. bytes_of (store b') i)"
    unfolding split using same zero by simp
  then show "(\<Sum>i\<in>ids. bytes_of (store b') i) - used_bytes b' = (\<Sum>i\<in>ids. bytes_of (store b) i) - used_bytes b"
    using s(4) by simp
qed

section \<open>A stream and its budget\<close>

text \<open>
  \<open>outstanding\<close> are the reservations whose owner has neither seen the answer nor cancelled;
  \<open>holding\<close> is what was acquired or charged and is not yet released.
\<close>

record budget_client =
  bud :: budget
  outstanding :: "nat set"
  holding :: "(int \<times> int) list"

definition new_client :: "int \<Rightarrow> int \<Rightarrow> budget_client" where
  "new_client items bytes = \<lparr>bud = new_budget items bytes, outstanding = {}, holding = []\<rparr>"

inductive budget_step :: "budget_client \<Rightarrow> budget_client \<Rightarrow> bool" where
  reserved: "reserve items bytes (bud s) = Some (Inr i, b) \<Longrightarrow>
    budget_step s (s\<lparr>bud := b, outstanding := insert i (outstanding s)\<rparr>)"
| refused: "reserve items bytes (bud s) = Some (Inl e, b) \<Longrightarrow> budget_step s (s\<lparr>bud := b\<rparr>)"
| accepted: "i \<in> outstanding s \<Longrightarrow> store (bud s) i = Some w \<Longrightarrow> w_ready w \<Longrightarrow> failure w = None \<Longrightarrow>
    budget_step s (s\<lparr>outstanding := outstanding s - {i}, holding := (w_items w, w_bytes w) # holding s\<rparr>)"
| failed: "i \<in> outstanding s \<Longrightarrow> store (bud s) i = Some w \<Longrightarrow> w_ready w \<Longrightarrow> failure w = Some e \<Longrightarrow>
    budget_step s (s\<lparr>outstanding := outstanding s - {i}\<rparr>)"
| cancelled: "i \<in> outstanding s \<Longrightarrow> cancel i (bud s) = Some b \<Longrightarrow>
    budget_step s (s\<lparr>bud := b, outstanding := outstanding s - {i}\<rparr>)"
| charged: "0 \<le> items \<Longrightarrow> 0 \<le> bytes \<Longrightarrow>
    budget_step s (s\<lparr>bud := charge items bytes (bud s), holding := (items, bytes) # holding s\<rparr>)"
| released: "(items, bytes) \<in> set (holding s) \<Longrightarrow> release items bytes (bud s) = Some b \<Longrightarrow>
    budget_step s (s\<lparr>bud := b, holding := remove1 (items, bytes) (holding s)\<rparr>)"
| closing: "close_budget cause (bud s) = Some b \<Longrightarrow> budget_step s (s\<lparr>bud := b\<rparr>)"

inductive budget_reachable :: "int \<Rightarrow> int \<Rightarrow> budget_client \<Rightarrow> bool" for items bytes where
  start: "budget_reachable items bytes (new_client items bytes)"
| step: "budget_reachable items bytes s \<Longrightarrow> budget_step s s' \<Longrightarrow> budget_reachable items bytes s'"

definition accounted :: "budget \<Rightarrow> nat set \<Rightarrow> (int \<times> int) list \<Rightarrow> bool" where
  "accounted b ids held \<longleftrightarrow>
     used_items b = (\<Sum>i\<in>ids. items_of (store b) i) + sum_list (map fst held) \<and>
     used_bytes b = (\<Sum>i\<in>ids. bytes_of (store b) i) + sum_list (map snd held)"

definition client_ok :: "budget_client \<Rightarrow> bool" where
  "client_ok s \<longleftrightarrow> queue_ok (bud s) \<and> finite (outstanding s) \<and>
     set (waiters (bud s)) \<subseteq> outstanding s \<and> outstanding s \<subseteq> dom (store (bud s)) \<and>
     (\<forall>(items, bytes) \<in> set (holding s). 0 \<le> items \<and> 0 \<le> bytes) \<and>
     accounted (bud s) (outstanding s) (holding s)"

lemma grant_client:
  assumes "queue_ok b" "finite ids" "set (waiters b) \<subseteq> ids" "ids \<subseteq> dom (store b)" "accounted b ids held"
  obtains b' where "grant_locked b = Some b'" "queue_ok b'" "set (waiters b') \<subseteq> ids"
    "ids \<subseteq> dom (store b')" "accounted b' ids held" "head_blocked b'"
proof -
  from grant_ok [OF assms(1)] obtain b' where b': "grant_locked b = Some b'"
    "granted_prefix (waiters b) b b'" "queue_ok b'" "set (waiters b') \<subseteq> set (waiters b)"
    "head_blocked b'" by metis
  from b'(2) have "dom (store b) \<subseteq> dom (store b')"
    unfolding granted_prefix_def by (metis domIff option.distinct(1) subsetI)
  with b' granted_sum [OF assms(1) b'(2) assms(2,3)] assms that show thesis
    by (auto simp: accounted_def)
qed

lemma reserve_client:
  assumes "client_ok s"
  obtains (refused) e where "reserve items bytes (bud s) = Some (Inl e, bud s)"
    | (queued) i b where "reserve items bytes (bud s) = Some (Inr i, b)"
      "client_ok (s\<lparr>bud := b, outstanding := insert i (outstanding s)\<rparr>)" "head_blocked b"
proof (cases "items < 0 \<or> bytes < 0 \<or> closed (bud s) \<noteq> None \<or>
    max_items (bud s) < items \<or> max_bytes (bud s) < bytes")
  case True
  then have "\<exists>e. reserve items bytes (bud s) = Some (Inl e, bud s)"
    by (auto simp: reserve_def split: option.splits)
  then show thesis using refused by blast
next
  case False
  let ?i = "next_waiter (bud s)"
  let ?w = "\<lparr>w_items = items, w_bytes = bytes, w_ready = False, w_granted = False, w_err = None\<rparr>"
  let ?b = "bud s\<lparr>waiters := waiters (bud s) @ [?i], store := (store (bud s))(?i \<mapsto> ?w), next_waiter := ?i + 1\<rparr>"
  from assms have q: "queue_ok (bud s)" by (simp add: client_ok_def)
  have old: "j < ?i" if "j \<in> dom (store (bud s))" for j
    using q that by (auto simp: queue_ok_def)
  then have "?i \<notin> dom (store (bud s))" by blast
  then have new: "?i \<notin> outstanding s" "?i \<notin> set (waiters (bud s))"
    using assms by (auto simp: client_ok_def)
  have b: "queue_ok ?b"
    using q False old new(2)
    by (auto simp: queue_ok_def sorted_wrt_append waiting_def less_Suc_eq split: if_splits)
  have acct: "accounted ?b (insert ?i (outstanding s)) (holding s)"
  proof -
    have "items_of (store ?b) j = items_of (store (bud s)) j \<and> bytes_of (store ?b) j = bytes_of (store (bud s)) j"
      if "j \<in> outstanding s" for j
      using that new(1) by (auto simp: items_of_def bytes_of_def)
    moreover have "items_of (store ?b) ?i = 0 \<and> bytes_of (store ?b) ?i = 0"
      by (simp add: items_of_def bytes_of_def)
    ultimately show ?thesis
      using assms new(1) by (simp add: accounted_def client_ok_def)
  qed
  have sub: "finite (insert ?i (outstanding s))" "set (waiters ?b) \<subseteq> insert ?i (outstanding s)"
    "insert ?i (outstanding s) \<subseteq> dom (store ?b)"
    using assms by (auto simp: client_ok_def)
  obtain b where "grant_locked ?b = Some b" "queue_ok b"
    "set (waiters b) \<subseteq> insert ?i (outstanding s)" "insert ?i (outstanding s) \<subseteq> dom (store b)"
    "accounted b (insert ?i (outstanding s)) (holding s)" "head_blocked b"
    by (rule grant_client [OF b sub acct])
  with False assms queued [of ?i b] show thesis
    by (auto simp: reserve_def client_ok_def Let_def)
qed

lemma cancel_client:
  assumes "client_ok s" "i \<in> outstanding s"
  obtains b where "cancel i (bud s) = Some b"
    "client_ok (s\<lparr>bud := b, outstanding := outstanding s - {i}\<rparr>)"
    "\<And>w. store (bud s) i = Some w \<Longrightarrow> w_granted w \<Longrightarrow> head_blocked b"
proof -
  from assms obtain w where w: "store (bud s) i = Some w" by (auto simp: client_ok_def)
  from assms(1) have q: "queue_ok (bud s)" and fin: "finite (outstanding s)"
    and acct: "accounted (bud s) (outstanding s) (holding s)" by (auto simp: client_ok_def)
  let ?ids = "outstanding s - {i}"
  have sums: "(\<Sum>j\<in>outstanding s. f j) = f i + (\<Sum>j\<in>?ids. f j)" for f :: "nat \<Rightarrow> int"
    using sum.remove [OF fin assms(2)] by simp
  have rest: "(\<Sum>j\<in>?ids. items_of ((store (bud s))(i \<mapsto> v)) j) = (\<Sum>j\<in>?ids. items_of (store (bud s)) j)"
    "(\<Sum>j\<in>?ids. bytes_of ((store (bud s))(i \<mapsto> v)) j) = (\<Sum>j\<in>?ids. bytes_of (store (bud s)) j)" for v
    by (auto simp: items_of_def bytes_of_def intro!: sum.cong)
  show thesis
  proof (cases "w_granted w")
    case True
    let ?b = "bud s\<lparr>used_items := used_items (bud s) - w_items w, used_bytes := used_bytes (bud s) - w_bytes w,
      store := (store (bud s))(i \<mapsto> w\<lparr>w_granted := False\<rparr>)\<rparr>"
    have "i \<notin> set (waiters (bud s))" using q w True by (auto simp: queue_ok_def waiting_def)
    then have sub: "finite ?ids" "set (waiters ?b) \<subseteq> ?ids" "?ids \<subseteq> dom (store ?b)"
      using assms(1) by (auto simp: client_ok_def)
    have b: "queue_ok ?b"
      using q w \<open>i \<notin> set (waiters (bud s))\<close> by (auto simp: queue_ok_def waiting_def split: if_splits)
    have acct': "accounted ?b ?ids (holding s)"
      using acct rest True w sums [of "items_of (store (bud s))"] sums [of "bytes_of (store (bud s))"]
      by (simp add: accounted_def items_of_def [of _ i] bytes_of_def [of _ i])
    obtain b where "grant_locked ?b = Some b" "queue_ok b" "set (waiters b) \<subseteq> ?ids"
      "?ids \<subseteq> dom (store b)" "accounted b ?ids (holding s)" "head_blocked b"
      by (rule grant_client [OF b sub acct'])
    with True w assms(1) show thesis by (intro that [of b]) (auto simp: cancel_def client_ok_def)
  next
    case False
    then have none: "items_of (store (bud s)) i = 0" "bytes_of (store (bud s)) i = 0"
      using w by (simp_all add: items_of_def bytes_of_def)
    show thesis
    proof (cases "i \<in> set (waiters (bud s))")
      case True
      let ?w = "w\<lparr>w_ready := True\<rparr>"
      let ?b = "bud s\<lparr>waiters := remove1 i (waiters (bud s)), store := (store (bud s))(i \<mapsto> ?w)\<rparr>"
      have dist: "distinct (waiters (bud s))" using q by (simp add: queue_ok_def strict_sorted_iff)
      have "close_ready w = Some ?w"
        using q w True by (auto simp: queue_ok_def waiting_def close_ready_def)
      then have "cancel i (bud s) = Some ?b" using w True False by (simp add: cancel_def)
      moreover have "queue_ok ?b"
        unfolding queue_ok_def
      proof (intro conjI)
        show "sorted_wrt (<) (waiters ?b)"
          using q by (auto simp: queue_ok_def strict_sorted_iff sorted_remove1)
      qed (use q dist w in \<open>auto simp: queue_ok_def waiting_def split: if_splits\<close>)
      moreover have "accounted ?b ?ids (holding s)"
        using acct rest none sums [of "items_of (store (bud s))"] sums [of "bytes_of (store (bud s))"]
        by (simp add: accounted_def)
      ultimately show thesis using assms(1) dist False w
        by (intro that [of ?b]) (auto simp: client_ok_def)
    next
      case not_waiting: False
      with False w have "cancel i (bud s) = Some (bud s)" by (simp add: cancel_def)
      moreover have "accounted (bud s) ?ids (holding s)"
        using acct none sums [of "items_of (store (bud s))"] sums [of "bytes_of (store (bud s))"]
        by (simp add: accounted_def)
      ultimately show thesis using assms(1) not_waiting False w
        by (intro that [of "bud s"]) (auto simp: client_ok_def)
    qed
  qed
qed

lemma sum_list_remove1_pair:
  "(a, c) \<in> set xs \<Longrightarrow> sum_list (map fst (remove1 (a, c) xs)) = sum_list (map fst xs) - (a :: int)"
  "(a, c) \<in> set xs \<Longrightarrow> sum_list (map snd (remove1 (a, c) xs)) = sum_list (map snd xs) - (c :: int)"
  by (induction xs) auto

lemma items_nonneg:
  assumes "queue_ok b"
  shows "0 \<le> (\<Sum>i\<in>ids. items_of (store b) i)" "0 \<le> (\<Sum>i\<in>ids. bytes_of (store b) i)"
  using assms by (auto intro!: sum_nonneg simp: items_of_def bytes_of_def queue_ok_def split: option.splits)

lemma release_client:
  assumes "client_ok s" "(items, bytes) \<in> set (holding s)"
  obtains b where "release items bytes (bud s) = Some b" "head_blocked b"
    "client_ok (s\<lparr>bud := b, holding := remove1 (items, bytes) (holding s)\<rparr>)"
proof -
  let ?held = "remove1 (items, bytes) (holding s)"
  let ?b = "bud s\<lparr>used_items := used_items (bud s) - items, used_bytes := used_bytes (bud s) - bytes\<rparr>"
  have q: "queue_ok ?b" and acct: "accounted ?b (outstanding s) ?held"
    using assms sum_list_remove1_pair [OF assms(2)]
    by (auto simp: client_ok_def queue_ok_def waiting_def accounted_def)
  have held: "\<forall>(items, bytes) \<in> set ?held. 0 \<le> items \<and> 0 \<le> bytes"
    using assms(1) by (auto simp: client_ok_def dest: notin_set_remove1 set_remove1_subset [THEN subsetD])
  then have "0 \<le> sum_list (map fst ?held)" "0 \<le> sum_list (map snd ?held)"
    by (fastforce intro!: sum_list_nonneg)+
  with acct items_nonneg [OF q, of "outstanding s"] have "0 \<le> used_items ?b" "0 \<le> used_bytes ?b"
    by (auto simp: accounted_def)
  moreover have sub: "finite (outstanding s)" "set (waiters ?b) \<subseteq> outstanding s"
    "outstanding s \<subseteq> dom (store ?b)" using assms(1) by (auto simp: client_ok_def)
  obtain b where b: "grant_locked ?b = Some b" "queue_ok b" "set (waiters b) \<subseteq> outstanding s"
    "outstanding s \<subseteq> dom (store b)" "accounted b (outstanding s) ?held"
    by (rule grant_client [OF q sub acct])
  moreover have "head_blocked b"
    using grant_ok [OF q] b(1) by (metis option.inject)
  ultimately show thesis
    using assms(1) held that [of b] by (auto simp: release_def client_ok_def Let_def)
qed

lemma refuse_all_spec:
  assumes "distinct ids" "\<forall>i \<in> set ids. \<exists>w. store b i = Some w \<and> \<not> w_ready w"
  shows "\<exists>b'. refuse_all e ids b = Some b' \<and> b' = b\<lparr>waiters := [], store := store b'\<rparr> \<and>
    (\<forall>i. store b' i = (if i \<in> set ids then map_option (\<lambda>w. w\<lparr>w_err := Some e, w_ready := True\<rparr>) (store b i)
      else store b i))"
  using assms
proof (induction e ids b rule: refuse_all.induct)
  case (2 e i rest b)
  from "2.prems"(2) obtain w where w: "store b i = Some w" "\<not> w_ready w" by auto
  let ?b = "b\<lparr>store := (store b)(i \<mapsto> w\<lparr>w_err := Some e, w_ready := True\<rparr>)\<rparr>"
  have close: "close_ready (w\<lparr>w_err := Some e\<rparr>) = Some (w\<lparr>w_err := Some e, w_ready := True\<rparr>)"
    using w(2) by (simp add: close_ready_def)
  have "\<forall>j \<in> set rest. \<exists>w. store ?b j = Some w \<and> \<not> w_ready w" using "2.prems" by auto
  with "2.IH" [OF w(1) close] "2.prems"(1) obtain b' where
    b': "refuse_all e rest ?b = Some b'" "b' = ?b\<lparr>waiters := [], store := store b'\<rparr>"
    "\<forall>i. store b' i = (if i \<in> set rest then map_option (\<lambda>w. w\<lparr>w_err := Some e, w_ready := True\<rparr>) (store ?b i)
      else store ?b i)" by auto
  have "refuse_all e (i # rest) b = Some b'" using w close b'(1) by simp
  moreover have "b' = b\<lparr>waiters := [], store := store b'\<rparr>" by (subst b'(2)) simp
  moreover have "\<forall>j. store b' j = (if j \<in> set (i # rest)
      then map_option (\<lambda>w. w\<lparr>w_err := Some e, w_ready := True\<rparr>) (store b j) else store b j)"
    using b'(3) "2.prems"(1) w(1) by auto
  ultimately show ?case by blast
qed simp

lemma close_client:
  assumes "client_ok s"
  obtains b where "close_budget cause (bud s) = Some b" "client_ok (s\<lparr>bud := b\<rparr>)"
    "waiters b = []" "closed b = (case closed (bud s) of Some e \<Rightarrow> Some e
      | None \<Rightarrow> Some (case cause of None \<Rightarrow> ErrStreamClosed | Some e \<Rightarrow> e))"
    "\<forall>i \<in> set (waiters (bud s)). \<exists>w. store b i = Some w \<and> w_ready w \<and> failure w = closed b"
proof (cases "closed (bud s)")
  case (Some e)
  with assms that [of "bud s"] show thesis
    by (auto simp: close_budget_def client_ok_def queue_ok_def)
next
  case None
  let ?e = "case cause of None \<Rightarrow> ErrStreamClosed | Some e \<Rightarrow> e"
  let ?b = "bud s\<lparr>closed := Some ?e\<rparr>"
  from assms have q: "queue_ok (bud s)" by (simp add: client_ok_def)
  then have "distinct (waiters (bud s))" by (simp add: queue_ok_def strict_sorted_iff)
  moreover have waiting: "\<forall>i \<in> set (waiters (bud s)). \<exists>w. store (bud s) i = Some w \<and> waiting (bud s) w"
    using q by (simp add: queue_ok_def)
  then have "\<forall>i \<in> set (waiters (bud s)). \<exists>w. store ?b i = Some w \<and> \<not> w_ready w"
    by (auto simp: waiting_def)
  from refuse_all_spec [OF calculation this, of ?e]
  obtain b where b: "refuse_all ?e (waiters (bud s)) ?b = Some b"
    "b = ?b\<lparr>waiters := [], store := store b\<rparr>"
    "\<forall>i. store b i = (if i \<in> set (waiters (bud s))
      then map_option (\<lambda>w. w\<lparr>w_err := Some ?e, w_ready := True\<rparr>) (store (bud s) i) else store (bud s) i)"
    by auto
  have sel: "waiters b = []" "used_items b = used_items (bud s)" "used_bytes b = used_bytes (bud s)"
    "next_waiter b = next_waiter (bud s)" "closed b = Some ?e"
    by (subst b(2), simp)+
  have same: "items_of (store b) i = items_of (store (bud s)) i \<and> bytes_of (store b) i = bytes_of (store (bud s)) i" for i
    using b(3) by (auto simp: items_of_def bytes_of_def split: option.splits)
  have "queue_ok b"
    unfolding queue_ok_def sel using q b(3) by (auto simp: queue_ok_def split: if_splits)
  moreover have "accounted b (outstanding s) (holding s)"
    using assms same by (simp add: accounted_def client_ok_def sel)
  moreover have "outstanding s \<subseteq> dom (store b)"
    using assms b(3) by (fastforce simp: client_ok_def)
  moreover have "\<forall>i \<in> set (waiters (bud s)). \<exists>w. store b i = Some w \<and> w_ready w \<and> failure w = closed b"
    using b(3) waiting sel(5) by (fastforce simp: waiting_def failure_def)
  ultimately show thesis
    using assms None b(1) sel that [of b] by (auto simp: close_budget_def client_ok_def)
qed

lemma budget_step_ok:
  assumes "budget_step s s'" "client_ok s"
  shows "client_ok s'"
  using assms
proof (cases rule: budget_step.cases)
  case (reserved items bytes i b)
  from assms(2) show ?thesis
  proof (cases rule: reserve_client [of s items bytes])
    case (queued j c)
    with reserved show ?thesis by simp
  qed (use reserved in simp)
next
  case (refused items bytes e b)
  from assms(2) show ?thesis
    by (cases rule: reserve_client [of s items bytes]) (use refused assms(2) in simp_all)
next
  case (accepted i w)
  let ?ids = "outstanding s - {i}"
  have fin: "finite (outstanding s)" using assms(2) by (simp add: client_ok_def)
  have sums: "(\<Sum>j\<in>outstanding s. f j) = f i + (\<Sum>j\<in>?ids. f j)" for f :: "nat \<Rightarrow> int"
    using sum.remove [OF fin accepted(2)] by simp
  from accepted have g: "w_granted w" by (auto simp: failure_def split: if_splits option.splits)
  have "i \<notin> set (waiters (bud s))" "0 \<le> w_items w" "0 \<le> w_bytes w"
    using assms(2) accepted by (auto simp: client_ok_def queue_ok_def waiting_def)
  then show ?thesis
    using assms(2) accepted g sums [of "items_of (store (bud s))"] sums [of "bytes_of (store (bud s))"]
    by (auto simp: client_ok_def accounted_def items_of_def [of _ i] bytes_of_def [of _ i])
next
  case (failed i w e)
  let ?ids = "outstanding s - {i}"
  have fin: "finite (outstanding s)" using assms(2) by (simp add: client_ok_def)
  have sums: "(\<Sum>j\<in>outstanding s. f j) = f i + (\<Sum>j\<in>?ids. f j)" for f :: "nat \<Rightarrow> int"
    using sum.remove [OF fin failed(2)] by simp
  from failed have g: "\<not> w_granted w" by (auto simp: failure_def split: if_splits option.splits)
  have "i \<notin> set (waiters (bud s))"
    using assms(2) failed by (auto simp: client_ok_def queue_ok_def waiting_def)
  then show ?thesis
    using assms(2) failed g sums [of "items_of (store (bud s))"] sums [of "bytes_of (store (bud s))"]
    by (auto simp: client_ok_def accounted_def items_of_def [of _ i] bytes_of_def [of _ i])
next
  case (cancelled i b)
  with cancel_client [OF assms(2), of i] show ?thesis by (metis option.inject)
next
  case (charged items bytes)
  with assms(2) show ?thesis
    by (auto simp: client_ok_def charge_def accounted_def queue_ok_def waiting_def)
next
  case (released items bytes b)
  with release_client [OF assms(2), of items bytes] show ?thesis by (metis option.inject)
next
  case (closing cause b)
  with close_client [OF assms(2), of cause] show ?thesis by (metis option.inject)
qed

lemma client_ok_reachable: "budget_reachable items bytes s \<Longrightarrow> client_ok s"
proof (induction rule: budget_reachable.induct)
  case start
  show ?case
    by (simp add: client_ok_def new_client_def new_budget_def queue_ok_def accounted_def)
qed (rule budget_step_ok)

section \<open>Properties\<close>

text \<open>
  C10: a budget is exact and never panics. Whatever a stream does with it, in any order, no call the
  protocol allows panics (no \<open>ready\<close> is closed twice, nothing goes below zero), and what is in use
  is the sum of the reservations granted and not yet taken up and of everything held: a grant that
  loses the race against its cancellation leaks nothing.
\<close>

theorem budget_exact:
  assumes "budget_reachable max_i max_b s"
  shows "accounted (bud s) (outstanding s) (holding s) \<and>
    reserve items bytes (bud s) \<noteq> None \<and> close_budget cause (bud s) \<noteq> None \<and>
    (\<forall>i \<in> outstanding s. cancel i (bud s) \<noteq> None) \<and>
    (\<forall>(items, bytes) \<in> set (holding s). release items bytes (bud s) \<noteq> None)"
proof -
  have ok: "client_ok s" by (rule client_ok_reachable [OF assms])
  have "reserve items bytes (bud s) \<noteq> None"
    by (rule reserve_client [OF ok, of items bytes]) simp_all
  moreover have "close_budget cause (bud s) \<noteq> None"
    by (rule close_client [OF ok, of cause]) simp
  moreover have "cancel i (bud s) \<noteq> None" if "i \<in> outstanding s" for i
    by (rule cancel_client [OF ok that]) simp
  moreover have "release n m (bud s) \<noteq> None" if "(n, m) \<in> set (holding s)" for n m
    by (rule release_client [OF ok that]) simp
  moreover have "accounted (bud s) (outstanding s) (holding s)"
    using ok by (simp add: client_ok_def)
  ultimately show ?thesis by auto
qed

theorem budget_exact_witness:
  "\<exists>b. reserve 1 6 (new_budget 10 10) = Some (Inr 0, b) \<and> used_bytes b = 6 \<and>
    accounted b {0} [] \<and> cancel 0 b \<noteq> None"
proof -
  obtain b where b: "reserve 1 6 (new_budget 10 10) = Some (Inr 0, b)" "used_bytes b = 6"
    by (auto simp: reserve_def new_budget_def grant_locked_def fits_def close_ready_def)
  have "budget_reachable 10 10 (new_client 10 10\<lparr>bud := b, outstanding := insert 0 (outstanding (new_client 10 10))\<rparr>)"
    using b(1) by (intro budget_reachable.step [OF budget_reachable.start] budget_step.reserved [of 1 6])
      (simp add: new_client_def)
  from budget_exact [OF this] b show ?thesis by (auto simp: new_client_def)
qed

text \<open>
  no barging. A reservation that still waits was made after every reservation that has been
  granted: a large request at the head is never overtaken by a smaller one behind it.
\<close>

theorem budget_fifo:
  assumes "budget_reachable max_i max_b s"
    and "store (bud s) i = Some w" and "w_granted w" and "j \<in> set (waiters (bud s))"
  shows "i < j"
  using client_ok_reachable [OF assms(1)] assms(2-) by (auto simp: client_ok_def queue_ok_def)

lemma map_option_fst_conv: "map_option fst r = Some x \<Longrightarrow> r = Some (x, snd (the r))"
  by (cases r) auto

theorem budget_fifo_witness:
  "let b = snd (the (reserve 1 6 (new_budget 10 10))); c = snd (the (reserve 1 8 b))
   in waiters c = [1] \<and> (\<forall>j \<in> set (waiters c). 0 < j)"
proof -
  let ?b = "snd (the (reserve 1 6 (new_budget 10 10)))"
  let ?c = "snd (the (reserve 1 8 ?b))"
  have b: "reserve 1 6 (new_budget 10 10) = Some (Inr 0, ?b)"
    by (rule map_option_fst_conv) code_simp
  have c: "reserve 1 8 ?b = Some (Inr 1, ?c)"
    by (rule map_option_fst_conv) code_simp
  have "map_option w_granted (store ?c 0) = Some True" by code_simp
  then obtain w where w: "store ?c 0 = Some w" "w_granted w" by auto
  have wait: "waiters ?c = [1]" by code_simp
  let ?s = "new_client 10 10\<lparr>bud := ?b, outstanding := insert 0 (outstanding (new_client 10 10))\<rparr>"
  have "reserve 1 6 (bud (new_client 10 10)) = Some (Inr 0, ?b)"
    unfolding new_client_def budget_client.simps by (rule b)
  then have "budget_reachable 10 10 ?s"
    by (intro budget_reachable.step [OF budget_reachable.start] budget_step.reserved)
  moreover have "reserve 1 8 (bud ?s) = Some (Inr 1, ?c)"
    by (rule trans [OF _ c]) simp
  ultimately have "budget_reachable 10 10 (?s\<lparr>bud := ?c, outstanding := insert 1 (outstanding ?s)\<rparr>)"
    by (rule budget_reachable.step [OF _ budget_step.reserved])
  from budget_fifo [OF this, of 0 w 1] w wait show ?thesis unfolding Let_def by simp
qed



text \<open>
  closing. Every waiter of a closed budget is answered with the cause, the budget serves nobody
  any more, and every later request is refused with that cause.
\<close>

theorem budget_closed:
  assumes "budget_reachable max_i max_b s" and "close_budget cause (bud s) = Some b"
  shows "waiters b = [] \<and>
    (\<forall>i \<in> set (waiters (bud s)). \<exists>w. store b i = Some w \<and> w_ready w \<and> failure w = closed b) \<and>
    (\<exists>e. closed b = Some e \<and>
      (\<forall>items bytes. 0 \<le> items \<and> 0 \<le> bytes \<longrightarrow> reserve items bytes b = Some (Inl e, b)))"
proof -
  from close_client [OF client_ok_reachable [OF assms(1)], of cause] assms(2)
  have b: "waiters b = []" "closed b = (case closed (bud s) of Some e \<Rightarrow> Some e
      | None \<Rightarrow> Some (case cause of None \<Rightarrow> ErrStreamClosed | Some e \<Rightarrow> e))"
    "\<forall>i \<in> set (waiters (bud s)). \<exists>w. store b i = Some w \<and> w_ready w \<and> failure w = closed b"
    by (metis option.inject)+
  from b(2) obtain e where "closed b = Some e" by (cases "closed (bud s)") auto
  with b(1,3) show ?thesis by (simp add: reserve_def)
qed

theorem budget_closed_witness:
  "\<exists>b. close_budget (Some EOF) (new_budget 10 10) = Some b \<and> reserve 1 1 b = Some (Inl EOF, b)"
proof -
  have "close_budget (Some EOF) (bud (new_client 10 10)) = Some (new_budget 10 10\<lparr>closed := Some EOF\<rparr>)"
    by (simp add: close_budget_def new_client_def new_budget_def)
  from budget_closed [OF budget_reachable.start this] this show ?thesis
    by (auto simp: new_client_def)
qed


end
