(* ===== verification/Stream_Coordinator.thy ===== *)
theory Stream_Coordinator
  imports Stream_Budget
begin

text \<open>
  stream_runtime.go and stream.go: a running stream without an observation sink. The goroutines
  are the read pump, the coordinator, the write pump, the callers of Write and Read, and whoever
  closes the stream; \<open>stream_step\<close> interleaves them at their channel operations. A handler is a
  function of the stream that is \<open>None\<close> where Go panics; a rule fires one handler.

  The session, the framer and the transition policy are interfaces that the versions implement:
  they are the record \<open>session_ops\<close>, an argument of every handler that calls them. The transport
  enters as the outcome of a read or a write.
\<close>

section \<open>The interfaces a stream calls\<close>

record ('z, 'p, 't, 'c) session_ops =
  so_decode :: "'z \<Rightarrow> byte list \<Rightarrow> 'p result"
  so_encode :: "'z \<Rightarrow> 'p \<Rightarrow> byte list result"
  so_build :: "byte list \<Rightarrow> byte list result"
  so_propose :: "'z \<Rightarrow> 'p \<Rightarrow> 't option result"
  so_resolve :: "'z \<Rightarrow> 'p \<Rightarrow> bool \<Rightarrow> 't \<Rightarrow> 't option result"
  so_validate :: "'z \<Rightarrow> 't \<Rightarrow> wire_error option"
  so_apply :: "'t \<Rightarrow> 'z \<Rightarrow> 'z"
  so_control :: "'c \<Rightarrow> 'z \<Rightarrow> 'z result"
  so_disconnect :: "'z \<Rightarrow> 'p option result"
  so_length :: "'p \<Rightarrow> nat"

text \<open>
  \<open>so_propose\<close> and \<open>so_resolve\<close> return no transition where the session proposes none, or the policy
  suppresses it or replaces it by an empty one. \<open>so_control\<close> is \<open>ValidateControl\<close> with
  \<open>ApplyControl\<close>, or \<open>ApplyTransport\<close>.
\<close>

section \<open>The state\<close>

text \<open>The read pump: waiting for the slot, inside \<open>ReadFrame\<close>, offering a frame, or gone.\<close>

datatype pump = PumpIdle | PumpFraming | PumpHanding "byte list" | PumpDone

text \<open>
  A Write call: waiting for the budget, offering its request, waiting for the result, or back
  with an outcome (\<open>None\<close> is nil). \<open>wr_state\<close> is the atomic of the request, \<open>wr_result\<close> its buffered
  result channel.
\<close>

datatype write_state = WriteQueued | WriteStarted | WriteAbandoned

datatype write_phase = Reserving nat | Offering | Waiting | Returned "wire_error option"

record 'p writer =
  wr_packet :: 'p
  wr_phase :: write_phase
  wr_state :: write_state
  wr_result :: "wire_error option option"

text \<open>
  Where the coordinator stands: in its select, blocked on a full Read queue with a granted
  packet, holding the request of a writer it has not begun, waiting for the write pump, waiting
  for the disconnect to go out, or returned.
\<close>

datatype 't coordinator =
    Selecting
  | Delivering
  | Preparing nat
  | Writing nat "'t option" "byte list"
  | Disconnecting "byte list"
  | Finished

text \<open>
  The stream. \<open>sm_arrived\<close>, \<open>sm_taken\<close> and \<open>sm_sent\<close> record what happened: the packets decoded, the
  packets Read has returned, and the frames the transport took with the writer they are from.
\<close>

record ('z, 'p, 't) stream =
  sm_session :: 'z
  sm_frames :: i64
  sm_slot :: bool
  sm_pump :: pump
  sm_budget :: budget
  sm_capacity :: nat
  sm_inbox :: "('p \<times> nat) list"
  sm_pending :: "(('p \<times> nat) \<times> nat) option"
  sm_mode :: "'t coordinator"
  sm_writers :: "'p writer list"
  sm_stopping :: bool
  sm_cause_set :: bool
  sm_cause :: "wire_error option"
  sm_closing :: bool
  sm_graceful :: bool
  sm_lingering :: bool
  sm_done :: bool
  sm_arrived :: "'p list"
  sm_taken :: "'p list"
  sm_sent :: "(nat option \<times> byte list) list"

definition new_stream :: "limits \<Rightarrow> 'z \<Rightarrow> ('z, 'p, 't) stream" where
  "new_stream lim z = \<lparr>sm_session = z, sm_frames = 0, sm_slot = True, sm_pump = PumpIdle,
     sm_budget = new_budget (queue_items lim) (queued_byte_capacity lim),
     sm_capacity = nat (queue_items lim), sm_inbox = [], sm_pending = None, sm_mode = Selecting,
     sm_writers = [], sm_stopping = False, sm_cause_set = False, sm_cause = None,
     sm_closing = False, sm_graceful = False, sm_lingering = False, sm_done = False, sm_arrived = [], sm_taken = [],
     sm_sent = []\<rparr>"

section \<open>Termination\<close>

definition fail :: "wire_error \<Rightarrow> ('z, 'p, 't) stream \<Rightarrow> ('z, 'p, 't) stream" where
  "fail e s = (if sm_cause_set s then s else s\<lparr>sm_cause := Some e, sm_cause_set := True\<rparr>)"

definition succeed :: "('z, 'p, 't) stream \<Rightarrow> ('z, 'p, 't) stream" where
  "succeed s = (if sm_cause_set s then s else s\<lparr>sm_cause_set := True\<rparr>)"

definition stop :: "('z, 'p, 't) stream \<Rightarrow> ('z, 'p, 't) stream option" where
  "stop s = (if sm_stopping s then Some s
     else map_option (\<lambda>b. s\<lparr>sm_stopping := True, sm_budget := b\<rparr>)
       (close_budget (sm_cause s) (sm_budget s)))"

definition rejection :: "('z, 'p, 't) stream \<Rightarrow> wire_error" where
  "rejection s = (case sm_cause s of
     Some e \<Rightarrow> e
   | None \<Rightarrow> if sm_closing s \<and> \<not> sm_done s then ErrStreamClosing else ErrStreamClosed)"

definition terminal_error :: "('z, 'p, 't) stream \<Rightarrow> wire_error" where
  "terminal_error s = (case sm_cause s of Some e \<Rightarrow> e | None \<Rightarrow> EOF)"

definition writable :: "('z, 'p, 't) stream \<Rightarrow> wire_error option" where
  "writable s = (if sm_done s \<or> sm_closing s \<or> sm_stopping s then Some (rejection s) else None)"

section \<open>The processing slot and the read pump\<close>

definition release_processing :: "('z, 'p, 't) stream \<Rightarrow> ('z, 'p, 't) stream option" where
  "release_processing s = (if sm_slot s then None else Some (s\<lparr>sm_slot := True\<rparr>))"

definition report_read_failure :: "wire_error \<Rightarrow> ('z, 'p, 't) stream \<Rightarrow> ('z, 'p, 't) stream option" where
  "report_read_failure e s =
     (if sm_stopping s then Some s else if sm_lingering s then Some s else stop (fail e s))"

definition pump_failed :: "wire_error \<Rightarrow> ('z, 'p, 't) stream \<Rightarrow> ('z, 'p, 't) stream option" where
  "pump_failed e s = Option.bind (release_processing (s\<lparr>sm_pump := PumpDone\<rparr>)) (report_read_failure e)"

definition pump_stopped :: "('z, 'p, 't) stream \<Rightarrow> ('z, 'p, 't) stream option" where
  "pump_stopped s = (case sm_pump s of
     PumpHanding f \<Rightarrow> release_processing (s\<lparr>sm_pump := PumpDone\<rparr>)
   | _ \<Rightarrow> Some (s\<lparr>sm_pump := PumpDone\<rparr>))"

section \<open>Inbound packets\<close>

definition resolve_transition ::
    "('z, 'p, 't, 'c) session_ops \<Rightarrow> 'z \<Rightarrow> 'p \<Rightarrow> bool \<Rightarrow> 't option result" where
  "resolve_transition ops z p inbound =
     bindR (so_propose ops z p) (\<lambda>proposed. case proposed of
       None \<Rightarrow> Inr None
     | Some t \<Rightarrow> bindR (so_resolve ops z p inbound t) (\<lambda>resolved. case resolved of
         None \<Rightarrow> Inr None
       | Some u \<Rightarrow> (case so_validate ops z u of Some e \<Rightarrow> Inl e | None \<Rightarrow> Inr (Some u))))"

definition commit :: "('z, 'p, 't, 'c) session_ops \<Rightarrow> 't option \<Rightarrow> 'z \<Rightarrow> 'z" where
  "commit ops d z = (case d of None \<Rightarrow> z | Some t \<Rightarrow> so_apply ops t z)"

definition has_room :: "('z, 'p, 't) stream \<Rightarrow> bool" where
  "has_room s \<longleftrightarrow> length (sm_inbox s) < sm_capacity s"

definition deliver_arrival :: "'p \<times> nat \<Rightarrow> ('z, 'p, 't) stream \<Rightarrow> ('z, 'p, 't) stream option" where
  "deliver_arrival item s =
     (let b = charge 1 (int (snd item)) (sm_budget s) in
      if has_room s then Some (s\<lparr>sm_budget := b, sm_inbox := sm_inbox s @ [item]\<rparr>)
      else map_option (\<lambda>b'. s\<lparr>sm_budget := b'\<rparr>) (release 1 (int (snd item)) b))"

text \<open>The error \<open>decodeInbound\<close> returns, if any, and the stream after it.\<close>

definition decode_inbound ::
    "('z, 'p, 't, 'c) session_ops \<Rightarrow> byte list \<Rightarrow> ('z, 'p, 't) stream \<Rightarrow>
     (wire_error option \<times> ('z, 'p, 't) stream) option" where
  "decode_inbound ops payload s =
     (let z = sm_session s in
      Option.bind (release_processing (s\<lparr>sm_frames := sm_frames s + 1\<rparr>)) (\<lambda>s.
        case so_decode ops z payload of
          Inl e \<Rightarrow> Some (Some ErrMalformedInbound, s)
        | Inr p \<Rightarrow> (case resolve_transition ops z p True of
            Inl e \<Rightarrow> Some (Some e, s)
          | Inr d \<Rightarrow>
              let s = s\<lparr>sm_session := commit ops d z, sm_arrived := sm_arrived s @ [p]\<rparr>;
                  n = so_length ops p in
              (case reserve 1 (int n) (sm_budget s) of
                 None \<Rightarrow> None
               | Some (Inl e, b) \<Rightarrow>
                   if \<not> sm_stopping s then Some (Some e, s\<lparr>sm_budget := b\<rparr>)
                   else map_option (Pair None) (deliver_arrival (p, n) (s\<lparr>sm_budget := b\<rparr>))
               | Some (Inr i, b) \<Rightarrow>
                   Some (None, s\<lparr>sm_budget := b, sm_pending := Some ((p, n), i)\<rparr>)))))"

definition hand_off :: "('z, 'p, 't) stream \<Rightarrow> ('z, 'p, 't) stream option" where
  "hand_off s = (case sm_pending s of
     None \<Rightarrow> Some s
   | Some (item, i) \<Rightarrow>
       let s' = s\<lparr>sm_pending := None\<rparr> in
       (case store (sm_budget s) i of
          None \<Rightarrow> None
        | Some w \<Rightarrow>
            if \<not> w_ready w
            then Option.bind (cancel i (sm_budget s)) (\<lambda>b. deliver_arrival item (s'\<lparr>sm_budget := b\<rparr>))
            else if failure w \<noteq> None then deliver_arrival item s'
            else Some (if has_room s then s'\<lparr>sm_inbox := sm_inbox s @ [item]\<rparr> else s')))"

text \<open>The coordinator's cases. \<open>select_stopped\<close> also ends the inner select of a delivery.\<close>

definition end_coordinator :: "wire_error \<Rightarrow> ('z, 'p, 't) stream \<Rightarrow> ('z, 'p, 't) stream option" where
  "end_coordinator e s = map_option (\<lambda>s. s\<lparr>sm_mode := Finished\<rparr>) (stop (fail e s))"

definition select_stopped :: "('z, 'p, 't) stream \<Rightarrow> ('z, 'p, 't) stream option" where
  "select_stopped s = map_option (\<lambda>s. s\<lparr>sm_mode := Finished\<rparr>) (hand_off s)"

definition take_frame ::
    "('z, 'p, 't, 'c) session_ops \<Rightarrow> byte list \<Rightarrow> ('z, 'p, 't) stream \<Rightarrow> ('z, 'p, 't) stream option" where
  "take_frame ops payload s = (case decode_inbound ops payload (s\<lparr>sm_pump := PumpIdle\<rparr>) of
     None \<Rightarrow> None
   | Some (Some e, s') \<Rightarrow> end_coordinator e s'
   | Some (None, s') \<Rightarrow> Some s')"

definition deliver_pending :: "'p \<times> nat \<Rightarrow> ('z, 'p, 't) stream \<Rightarrow> ('z, 'p, 't) stream" where
  "deliver_pending item s =
     (if has_room s then s\<lparr>sm_inbox := sm_inbox s @ [item], sm_pending := None, sm_mode := Selecting\<rparr>
      else s\<lparr>sm_mode := Delivering\<rparr>)"

definition take_granted :: "('z, 'p, 't) stream \<Rightarrow> ('z, 'p, 't) stream option" where
  "take_granted s = (case sm_pending s of
     None \<Rightarrow> None
   | Some (item, i) \<Rightarrow> (case store (sm_budget s) i of
       None \<Rightarrow> None
     | Some w \<Rightarrow> (case failure w of
         Some e \<Rightarrow> end_coordinator e s
       | None \<Rightarrow> Some (deliver_pending item s))))"

section \<open>Outbound packets\<close>

definition update_writer :: "nat \<Rightarrow> ('p writer \<Rightarrow> 'p writer) \<Rightarrow> ('z, 'p, 't) stream \<Rightarrow> ('z, 'p, 't) stream" where
  "update_writer k f s = s\<lparr>sm_writers := (sm_writers s)[k := f (sm_writers s ! k)]\<rparr>"

text \<open>\<open>finish\<close>: the channel holds one result; a second one is dropped.\<close>

definition finish_request :: "wire_error option \<Rightarrow> 'p writer \<Rightarrow> 'p writer" where
  "finish_request r w = (if wr_result w = None then w\<lparr>wr_result := Some r\<rparr> else w)"

definition begin_request :: "'p writer \<Rightarrow> ('p writer) option" where
  "begin_request w = (if wr_state w = WriteQueued then Some (w\<lparr>wr_state := WriteStarted\<rparr>) else None)"

definition abandon_request :: "'p writer \<Rightarrow> ('p writer) option" where
  "abandon_request w = (if wr_state w = WriteQueued then Some (w\<lparr>wr_state := WriteAbandoned\<rparr>) else None)"

definition release_write :: "('z, 'p, 't) stream \<Rightarrow> ('z, 'p, 't) stream option" where
  "release_write s = map_option (\<lambda>b. s\<lparr>sm_budget := b\<rparr>) (release 1 0 (sm_budget s))"

text \<open>\<open>processWrite\<close> up to the job for the write pump.\<close>

definition encode_write ::
    "('z, 'p, 't, 'c) session_ops \<Rightarrow> 'z \<Rightarrow> 'p \<Rightarrow> ('t option \<times> byte list) result" where
  "encode_write ops z p =
     bindR (so_encode ops z p) (\<lambda>payload.
     bindR (resolve_transition ops z p False) (\<lambda>d.
     bindR (so_build ops payload) (\<lambda>frame. Inr (d, frame))))"

definition prepare_write ::
    "('z, 'p, 't, 'c) session_ops \<Rightarrow> nat \<Rightarrow> ('z, 'p, 't) stream \<Rightarrow> ('z, 'p, 't) stream option" where
  "prepare_write ops k s =
     (let w = sm_writers s ! k; s = s\<lparr>sm_frames := sm_frames s + 1\<rparr> in
      case encode_write ops (sm_session s) (wr_packet w) of
        Inl e \<Rightarrow> release_write (update_writer k (finish_request (Some e)) (s\<lparr>sm_mode := Selecting\<rparr>))
      | Inr (d, frame) \<Rightarrow> (case begin_request w of
          None \<Rightarrow> release_write (s\<lparr>sm_mode := Selecting\<rparr>)
        | Some w' \<Rightarrow> Some (update_writer k (\<lambda>_. w') (s\<lparr>sm_mode := Writing k d frame\<rparr>))))"

text \<open>The pump never got the job because the stream stopped first.\<close>

definition write_unsent :: "nat \<Rightarrow> ('z, 'p, 't) stream \<Rightarrow> ('z, 'p, 't) stream option" where
  "write_unsent k s =
     release_write (update_writer k (finish_request (Some ErrStreamClosed)) (s\<lparr>sm_mode := Finished\<rparr>))"

text \<open>\<open>finishWrite\<close>, with what the transport said.\<close>

definition finish_write ::
    "('z, 'p, 't, 'c) session_ops \<Rightarrow> nat \<Rightarrow> 't option \<Rightarrow> byte list \<Rightarrow> wire_error option \<Rightarrow>
     ('z, 'p, 't) stream \<Rightarrow> ('z, 'p, 't) stream option" where
  "finish_write ops k d frame outcome s = (case outcome of
     Some e \<Rightarrow> Option.bind (end_coordinator e (update_writer k (finish_request (Some e)) s)) release_write
   | None \<Rightarrow> release_write (update_writer k (finish_request None)
       (s\<lparr>sm_session := commit ops d (sm_session s), sm_sent := sm_sent s @ [(Some k, frame)],
         sm_mode := Selecting\<rparr>)))"

section \<open>Controls and shutdown\<close>

definition process_control ::
    "('z, 'p, 't, 'c) session_ops \<Rightarrow> 'c \<Rightarrow> ('z, 'p, 't) stream \<Rightarrow> wire_error option \<times> ('z, 'p, 't) stream" where
  "process_control ops c s = (case so_control ops c (sm_session s) of
     Inl e \<Rightarrow> (Some e, s)
   | Inr z \<Rightarrow> (None, s\<lparr>sm_session := z\<rparr>))"

definition shutdown_failed :: "wire_error \<Rightarrow> ('z, 'p, 't) stream \<Rightarrow> ('z, 'p, 't) stream" where
  "shutdown_failed e s = (fail e s)\<lparr>sm_mode := Finished\<rparr>"

definition shutdown_succeeded :: "('z, 'p, 't) stream \<Rightarrow> ('z, 'p, 't) stream" where
  "shutdown_succeeded s = (succeed (s\<lparr>sm_graceful := True\<rparr>))\<lparr>sm_mode := Finished\<rparr>"

definition begin_shutdown ::
    "('z, 'p, 't, 'c) session_ops \<Rightarrow> ('z, 'p, 't) stream \<Rightarrow> ('z, 'p, 't) stream" where
  "begin_shutdown ops s = (case so_disconnect ops (sm_session s) of
     Inl e \<Rightarrow> shutdown_failed e s
   | Inr None \<Rightarrow> shutdown_succeeded s
   | Inr (Some p) \<Rightarrow>
       let s = s\<lparr>sm_frames := sm_frames s + 1\<rparr> in
       (case bindR (so_encode ops (sm_session s) p) (so_build ops) of
          Inl e \<Rightarrow> shutdown_failed e s
        | Inr frame \<Rightarrow> s\<lparr>sm_mode := Disconnecting frame\<rparr>))"

definition finish_disconnect :: "byte list \<Rightarrow> wire_error option \<Rightarrow> ('z, 'p, 't) stream \<Rightarrow> ('z, 'p, 't) stream" where
  "finish_disconnect frame outcome s = (case outcome of
     Some e \<Rightarrow> shutdown_failed e s
   | None \<Rightarrow> shutdown_succeeded (s\<lparr>sm_sent := sm_sent s @ [(None, frame)]\<rparr>))"

section \<open>Callers\<close>

definition write_call :: "'p \<Rightarrow> ('z, 'p, 't) stream \<Rightarrow> ('z, 'p, 't) stream option" where
  "write_call p s =
     (let add = (\<lambda>phase s. s\<lparr>sm_writers := sm_writers s @ [\<lparr>wr_packet = p, wr_phase = phase,
            wr_state = WriteQueued, wr_result = None\<rparr>]\<rparr>) in
      case writable s of
        Some e \<Rightarrow> Some (add (Returned (Some e)) s)
      | None \<Rightarrow> (case reserve 1 0 (sm_budget s) of
          None \<Rightarrow> None
        | Some (Inl e, b) \<Rightarrow> Some (add (Returned (Some e)) (s\<lparr>sm_budget := b\<rparr>))
        | Some (Inr i, b) \<Rightarrow> Some (add (Reserving i) (s\<lparr>sm_budget := b\<rparr>))))"

definition set_phase :: "nat \<Rightarrow> write_phase \<Rightarrow> ('z, 'p, 't) stream \<Rightarrow> ('z, 'p, 't) stream" where
  "set_phase k phase s = update_writer k (\<lambda>w. w\<lparr>wr_phase := phase\<rparr>) s"

text \<open>\<open>acquire\<close>: the reservation was answered, or the context ended first.\<close>

definition write_answered :: "nat \<Rightarrow> nat \<Rightarrow> ('z, 'p, 't) stream \<Rightarrow> ('z, 'p, 't) stream option" where
  "write_answered k i s = (case store (sm_budget s) i of
     None \<Rightarrow> None
   | Some w \<Rightarrow> Some (set_phase k (case failure w of None \<Rightarrow> Offering | Some e \<Rightarrow> Returned (Some e)) s))"

definition write_unreserved :: "nat \<Rightarrow> nat \<Rightarrow> ('z, 'p, 't) stream \<Rightarrow> ('z, 'p, 't) stream option" where
  "write_unreserved k i s = map_option
     (\<lambda>b. set_phase k (Returned (Some ErrCanceled)) (s\<lparr>sm_budget := b\<rparr>)) (cancel i (sm_budget s))"

text \<open>The offer ends without the coordinator taking it.\<close>

definition write_withdrawn :: "nat \<Rightarrow> wire_error \<Rightarrow> ('z, 'p, 't) stream \<Rightarrow> ('z, 'p, 't) stream option" where
  "write_withdrawn k e s = release_write (set_phase k (Returned (Some e)) s)"

text \<open>The context of a submitted write ends.\<close>

definition write_cancelled :: "nat \<Rightarrow> ('z, 'p, 't) stream \<Rightarrow> ('z, 'p, 't) stream option" where
  "write_cancelled k s = (case abandon_request (sm_writers s ! k) of
     Some w \<Rightarrow> Some (set_phase k (Returned (Some ErrCanceled)) (update_writer k (\<lambda>_. w) s))
   | None \<Rightarrow> stop (fail ErrAmbiguousWrite (set_phase k (Returned (Some ErrAmbiguousWrite)) s)))"

definition read_take :: "('z, 'p, 't) stream \<Rightarrow> ('z, 'p, 't) stream option" where
  "read_take s = (case sm_inbox s of
     [] \<Rightarrow> None
   | (p, n) # rest \<Rightarrow> map_option
       (\<lambda>b. s\<lparr>sm_budget := b, sm_inbox := rest, sm_taken := sm_taken s @ [p]\<rparr>)
       (release 1 (int n) (sm_budget s)))"

definition abort :: "wire_error \<Rightarrow> ('z, 'p, 't) stream \<Rightarrow> ('z, 'p, 't) stream option" where
  "abort e s = stop (fail e s)"

definition end_stream :: "('z, 'p, 't) stream \<Rightarrow> ('z, 'p, 't) stream option" where
  "end_stream s = map_option (\<lambda>s. s\<lparr>sm_done := True\<rparr>) (stop s)"

section \<open>Steps\<close>

definition phase_of :: "('z, 'p, 't) stream \<Rightarrow> nat \<Rightarrow> write_phase \<Rightarrow> bool" where
  "phase_of s k phase \<longleftrightarrow> k < length (sm_writers s) \<and> wr_phase (sm_writers s ! k) = phase"

definition waiter_ready :: "('z, 'p, 't) stream \<Rightarrow> nat \<Rightarrow> bool" where
  "waiter_ready s i \<longleftrightarrow> (case store (sm_budget s) i of None \<Rightarrow> True | Some w \<Rightarrow> w_ready w)"

inductive stream_step ::
    "('z, 'p, 't, 'c) session_ops \<Rightarrow> ('z, 'p, 't) stream \<Rightarrow> ('z, 'p, 't) stream option \<Rightarrow> bool"
  for ops :: "('z, 'p, 't, 'c) session_ops" where
  acquire_slot: "sm_pump s = PumpIdle \<Longrightarrow> sm_slot s \<Longrightarrow>
    stream_step ops s (Some (s\<lparr>sm_slot := False, sm_pump := PumpFraming\<rparr>))"
| frame_read: "sm_pump s = PumpFraming \<Longrightarrow> stream_step ops s (Some (s\<lparr>sm_pump := PumpHanding f\<rparr>))"
| read_failed: "sm_pump s = PumpFraming \<Longrightarrow> stream_step ops s (pump_failed e s)"
| pump_stops: "sm_pump s = PumpIdle \<or> sm_pump s = PumpHanding f \<Longrightarrow> sm_stopping s \<Longrightarrow>
    stream_step ops s (pump_stopped s)"
| frame_taken: "sm_mode s = Selecting \<Longrightarrow> sm_pending s = None \<Longrightarrow> sm_pump s = PumpHanding f \<Longrightarrow>
    stream_step ops s (take_frame ops f s)"
| granted: "sm_mode s = Selecting \<Longrightarrow> sm_pending s = Some (item, i) \<Longrightarrow> waiter_ready s i \<Longrightarrow>
    stream_step ops s (take_granted s)"
| delivered: "sm_mode s = Delivering \<Longrightarrow> sm_pending s = Some (item, i) \<Longrightarrow> has_room s \<Longrightarrow>
    stream_step ops s (Some (deliver_pending item s))"
| stops: "sm_mode s = Selecting \<or> sm_mode s = Delivering \<Longrightarrow> sm_stopping s \<Longrightarrow>
    stream_step ops s (select_stopped s)"
| write_taken: "sm_mode s = Selecting \<Longrightarrow> phase_of s k Offering \<Longrightarrow>
    stream_step ops s (Some (set_phase k Waiting (s\<lparr>sm_mode := Preparing k\<rparr>)))"
| write_prepared: "sm_mode s = Preparing k \<Longrightarrow> stream_step ops s (prepare_write ops k s)"
| write_stopped: "sm_mode s = Writing k d f \<Longrightarrow> sm_stopping s \<Longrightarrow> stream_step ops s (write_unsent k s)"
| write_finished: "sm_mode s = Writing k d f \<Longrightarrow> stream_step ops s (finish_write ops k d f outcome s)"
| controlled: "sm_mode s = Selecting \<Longrightarrow> stream_step ops s (Some (snd (process_control ops c s)))"
| shutting_down: "stream_step ops s (Some (s\<lparr>sm_closing := True\<rparr>))"
| shutdown_taken: "sm_mode s = Selecting \<Longrightarrow> sm_closing s \<Longrightarrow>
    stream_step ops s (Some (begin_shutdown ops s))"
| disconnected: "sm_mode s = Disconnecting f \<Longrightarrow>
    stream_step ops s (Some (finish_disconnect f outcome s))"
| lingers: "sm_mode s = Finished \<Longrightarrow> sm_graceful s \<Longrightarrow>
    stream_step ops s (Some (s\<lparr>sm_lingering := True\<rparr>))"
| ended: "sm_mode s = Finished \<Longrightarrow> stream_step ops s (end_stream s)"
| called: "stream_step ops s (write_call p s)"
| answered: "phase_of s k (Reserving i) \<Longrightarrow> waiter_ready s i \<Longrightarrow> stream_step ops s (write_answered k i s)"
| unreserved: "phase_of s k (Reserving i) \<Longrightarrow> stream_step ops s (write_unreserved k i s)"
| withdrawn: "phase_of s k Offering \<Longrightarrow> stream_step ops s (write_withdrawn k ErrCanceled s)"
| refused: "phase_of s k Offering \<Longrightarrow> sm_stopping s \<Longrightarrow> stream_step ops s (write_withdrawn k (rejection s) s)"
| returned: "phase_of s k Waiting \<Longrightarrow> wr_result (sm_writers s ! k) = Some r \<Longrightarrow>
    stream_step ops s (Some (set_phase k (Returned r) s))"
| cancelled: "phase_of s k Waiting \<Longrightarrow> stream_step ops s (write_cancelled k s)"
| taken: "sm_inbox s \<noteq> [] \<Longrightarrow> stream_step ops s (read_take s)"
| aborted: "stream_step ops s (abort e s)"

inductive stream_reachable ::
    "('z, 'p, 't, 'c) session_ops \<Rightarrow> limits \<Rightarrow> 'z \<Rightarrow> ('z, 'p, 't) stream \<Rightarrow> bool"
  for ops :: "('z, 'p, 't, 'c) session_ops" and lim z where
  start: "stream_reachable ops lim z (new_stream lim z)"
| step: "stream_reachable ops lim z s \<Longrightarrow> stream_step ops s (Some s') \<Longrightarrow> stream_reachable ops lim z s'"

end
