(* ===== verification/Stream_Safety.thy ===== *)
theory Stream_Safety
  imports Stream_Coordinator "HOL-Library.Sublist" "HOL-Library.Multiset"
begin

text \<open>
  What holds in every reachable state of a stream, whatever the interleaving: the processing slot,
  the order of packets, the fate of writes, the commit of transitions, the first cause, and that
  no step panics (the stream keeps to the protocol of its budget).
\<close>

section \<open>What the handlers change\<close>

text \<open>The result of a handler as an update of its argument, up to the budget.\<close>

named_theorems stream_shape \<open>results of handlers as record updates\<close>

lemma fail_frame [simp]:
  "sm_session (fail e s) = sm_session s" "sm_slot (fail e s) = sm_slot s" "sm_pump (fail e s) = sm_pump s"
  "sm_budget (fail e s) = sm_budget s" "sm_capacity (fail e s) = sm_capacity s"
  "sm_inbox (fail e s) = sm_inbox s" "sm_pending (fail e s) = sm_pending s" "sm_mode (fail e s) = sm_mode s"
  "sm_writers (fail e s) = sm_writers s" "sm_stopping (fail e s) = sm_stopping s"
  "sm_arrived (fail e s) = sm_arrived s" "sm_taken (fail e s) = sm_taken s" "sm_sent (fail e s) = sm_sent s"
  "sm_cause_set s \<Longrightarrow> sm_cause (fail e s) = sm_cause s" "sm_cause_set (fail e s)"
  by (simp_all add: fail_def)

lemma succeed_frame [simp]:
  "sm_session (succeed s) = sm_session s" "sm_slot (succeed s) = sm_slot s" "sm_pump (succeed s) = sm_pump s"
  "sm_budget (succeed s) = sm_budget s" "sm_capacity (succeed s) = sm_capacity s"
  "sm_inbox (succeed s) = sm_inbox s" "sm_pending (succeed s) = sm_pending s" "sm_mode (succeed s) = sm_mode s"
  "sm_writers (succeed s) = sm_writers s" "sm_stopping (succeed s) = sm_stopping s"
  "sm_arrived (succeed s) = sm_arrived s" "sm_taken (succeed s) = sm_taken s" "sm_sent (succeed s) = sm_sent s"
  "sm_cause_set s \<Longrightarrow> sm_cause (succeed s) = sm_cause s" "sm_cause_set (succeed s)"
  by (simp_all add: succeed_def)

lemma update_writer_frame [simp]:
  "sm_session (update_writer k f s) = sm_session s" "sm_slot (update_writer k f s) = sm_slot s"
  "sm_pump (update_writer k f s) = sm_pump s" "sm_budget (update_writer k f s) = sm_budget s"
  "sm_capacity (update_writer k f s) = sm_capacity s" "sm_inbox (update_writer k f s) = sm_inbox s"
  "sm_pending (update_writer k f s) = sm_pending s" "sm_mode (update_writer k f s) = sm_mode s"
  "sm_writers (update_writer k f s) = (sm_writers s)[k := f (sm_writers s ! k)]"
  "sm_stopping (update_writer k f s) = sm_stopping s" "sm_cause (update_writer k f s) = sm_cause s"
  "sm_cause_set (update_writer k f s) = sm_cause_set s"
  "sm_arrived (update_writer k f s) = sm_arrived s" "sm_taken (update_writer k f s) = sm_taken s"
  "sm_sent (update_writer k f s) = sm_sent s"
  by (simp_all add: update_writer_def)

lemma set_phase_frame [simp]:
  "sm_session (set_phase k f s) = sm_session s" "sm_slot (set_phase k f s) = sm_slot s"
  "sm_pump (set_phase k f s) = sm_pump s" "sm_budget (set_phase k f s) = sm_budget s"
  "sm_capacity (set_phase k f s) = sm_capacity s" "sm_inbox (set_phase k f s) = sm_inbox s"
  "sm_pending (set_phase k f s) = sm_pending s" "sm_mode (set_phase k f s) = sm_mode s"
  "sm_writers (set_phase k f s) = (sm_writers s)[k := (sm_writers s ! k)\<lparr>wr_phase := f\<rparr>]"
  "sm_stopping (set_phase k f s) = sm_stopping s" "sm_cause (set_phase k f s) = sm_cause s"
  "sm_cause_set (set_phase k f s) = sm_cause_set s"
  "sm_arrived (set_phase k f s) = sm_arrived s" "sm_taken (set_phase k f s) = sm_taken s"
  "sm_sent (set_phase k f s) = sm_sent s"
  by (simp_all add: set_phase_def)

lemma stop_shape [stream_shape]:
  assumes "stop s = Some s'"
  shows "\<exists>b. s' = s\<lparr>sm_stopping := True, sm_budget := b\<rparr>"
proof (cases "sm_stopping s")
  case True
  with assms have "s' = s\<lparr>sm_stopping := True, sm_budget := sm_budget s\<rparr>" by (simp add: stop_def)
  then show ?thesis ..
next
  case False
  with assms show ?thesis by (auto simp: stop_def)
qed

lemma release_write_shape [stream_shape]:
  "release_write s = Some s' \<Longrightarrow> \<exists>b. s' = s\<lparr>sm_budget := b\<rparr>"
  by (auto simp: release_write_def)

lemma deliver_arrival_shape [stream_shape]:
  "deliver_arrival it s = Some s' \<Longrightarrow>
   (\<exists>b. has_room s \<and> s' = s\<lparr>sm_budget := b, sm_inbox := sm_inbox s @ [it]\<rparr>) \<or>
   (\<exists>b. \<not> has_room s \<and> s' = s\<lparr>sm_budget := b\<rparr>)"
  by (auto simp: deliver_arrival_def Let_def split: if_splits)

lemma end_coordinator_shape [stream_shape]:
  "end_coordinator e s = Some s' \<Longrightarrow>
   \<exists>b. s' = (fail e s)\<lparr>sm_stopping := True, sm_budget := b, sm_mode := Finished\<rparr>"
  by (auto simp: end_coordinator_def dest: stop_shape)

lemma hand_off_shape [stream_shape]:
  assumes "hand_off s = Some s'"
  shows "sm_pending s = None \<and> s' = s \<or>
    (\<exists>it i b. sm_pending s = Some (it, i) \<and>
      (has_room s \<and> s' = s\<lparr>sm_pending := None, sm_budget := b, sm_inbox := sm_inbox s @ [it]\<rparr> \<or>
       \<not> has_room s \<and> s' = s\<lparr>sm_pending := None, sm_budget := b\<rparr>))"
proof (cases "sm_pending s")
  case None
  with assms show ?thesis by (simp add: hand_off_def)
next
  case (Some q)
  then obtain it i where q: "sm_pending s = Some (it, i)" by (cases q) auto
  have "\<exists>b. has_room s \<and> s' = s\<lparr>sm_pending := None, sm_budget := b, sm_inbox := sm_inbox s @ [it]\<rparr> \<or>
       \<not> has_room s \<and> s' = s\<lparr>sm_pending := None, sm_budget := b\<rparr>"
    using assms q
    by (auto simp: hand_off_def Let_def bind_eq_Some_conv has_room_def split: option.splits if_splits
        dest!: deliver_arrival_shape) (rule exI [of _ "sm_budget s"], simp)+
  with q show ?thesis by blast
qed

lemma select_stopped_shape:
  "select_stopped s = Some s' \<Longrightarrow> \<exists>t. hand_off s = Some t \<and> s' = t\<lparr>sm_mode := Finished\<rparr>"
  by (auto simp: select_stopped_def)

lemma end_stream_shape [stream_shape]:
  "end_stream s = Some s' \<Longrightarrow> \<exists>b. s' = s\<lparr>sm_stopping := True, sm_budget := b, sm_done := True\<rparr>"
  by (auto simp: end_stream_def dest: stop_shape)

lemma decode_inbound_shape:
  assumes "decode_inbound ops f s = Some (e, s')"
  shows "sm_slot s' \<and> sm_pump s' = sm_pump s \<and> sm_writers s' = sm_writers s \<and> sm_sent s' = sm_sent s \<and>
    sm_mode s' = sm_mode s \<and> sm_taken s' = sm_taken s \<and> sm_stopping s' = sm_stopping s \<and>
    sm_cause_set s' = sm_cause_set s \<and> sm_cause s' = sm_cause s \<and> sm_capacity s' = sm_capacity s \<and>
    (sm_session s' = sm_session s \<and> sm_arrived s' = sm_arrived s \<and> sm_inbox s' = sm_inbox s \<and>
       sm_pending s' = sm_pending s \<and> e \<noteq> None \<or>
     (\<exists>p d. so_decode ops (sm_session s) f = Inr p \<and>
       resolve_transition ops (sm_session s) p True = Inr d \<and>
       sm_session s' = commit ops d (sm_session s) \<and> sm_arrived s' = sm_arrived s @ [p] \<and>
       (e \<noteq> None \<and> sm_inbox s' = sm_inbox s \<and> sm_pending s' = sm_pending s \<or>
        e = None \<and> (\<exists>i n. sm_pending s' = Some ((p, n), i)) \<and> sm_inbox s' = sm_inbox s \<or>
        e = None \<and> sm_stopping s \<and> sm_pending s' = sm_pending s \<and>
          ((\<exists>n. has_room s \<and> sm_inbox s' = sm_inbox s @ [(p, n)]) \<or> \<not> has_room s \<and> sm_inbox s' = sm_inbox s))))"
  using assms
  by (auto simp: decode_inbound_def Let_def release_processing_def bind_eq_Some_conv has_room_def
      split: if_splits sum.splits option.splits prod.splits dest!: deliver_arrival_shape)

section \<open>The processing slot\<close>

text \<open>The slot is in its channel exactly when the pump does not hold it, waits or is gone.\<close>

definition slot_ok :: "('z, 'p, 't) stream \<Rightarrow> bool" where
  "slot_ok s \<longleftrightarrow> (sm_slot s \<longleftrightarrow> sm_pump s = PumpIdle \<or> sm_pump s = PumpDone)"

lemma take_frame_shape:
  assumes "take_frame ops f s = Some s'"
  obtains (failed) e t b where "decode_inbound ops f (s\<lparr>sm_pump := PumpIdle\<rparr>) = Some (Some e, t)"
      "s' = (fail e t)\<lparr>sm_stopping := True, sm_budget := b, sm_mode := Finished\<rparr>"
    | (decoded) "decode_inbound ops f (s\<lparr>sm_pump := PumpIdle\<rparr>) = Some (None, s')"
  using assms
  by (auto simp: take_frame_def split: option.splits dest!: end_coordinator_shape intro: failed decoded)

lemmas stream_defs = pump_failed_def release_processing_def report_read_failure_def
    bind_eq_Some_conv pump_stopped_def take_granted_def deliver_pending_def
    prepare_write_def write_unsent_def finish_write_def
    process_control_def begin_shutdown_def shutdown_failed_def shutdown_succeeded_def
    finish_disconnect_def write_call_def write_answered_def write_unreserved_def
    write_withdrawn_def write_cancelled_def read_take_def abort_def Let_def

lemmas stream_splits = if_splits option.splits sum.splits prod.splits pump.splits list.splits

lemma slot_step:
  assumes "stream_step ops s (Some s')" and "slot_ok s"
  shows "slot_ok s'"
  using assms
proof (cases rule: stream_step.cases)
  case (frame_taken f)
  from frame_taken(1) [symmetric] show ?thesis
    by (cases rule: take_frame_shape) (auto simp: slot_ok_def dest!: decode_inbound_shape)
qed (auto simp: slot_ok_def stream_defs eq_commute [of "Some s'"]
    dest!: stream_shape select_stopped_shape split: stream_splits)

section \<open>The order of packets\<close>

text \<open>What Read has returned and will return: the packets taken, queued and waiting for room.\<close>

definition onward :: "('z, 'p, 't) stream \<Rightarrow> 'p list" where
  "onward s = sm_taken s @ map fst (sm_inbox s) @
     (case sm_pending s of None \<Rightarrow> [] | Some (item, i) \<Rightarrow> [fst item])"

definition order_ok :: "('z, 'p, 't) stream \<Rightarrow> bool" where
  "order_ok s \<longleftrightarrow> subseq (onward s) (sm_arrived s) \<and> (\<not> sm_stopping s \<longrightarrow> onward s = sm_arrived s)"

lemma subseq_drop_snoc: "subseq (xs @ [x]) ys \<Longrightarrow> subseq xs ys"
  by (metis subseq_order.order_trans subseq_rev_drop_many subseq_order.order_refl append_Nil2)

lemma subseq_snoc_mono: "subseq xs ys \<Longrightarrow> subseq xs (ys @ [y])"
  by (metis append_Nil2 list_emb_append_mono subseq_order.order_refl list_emb_Nil)

lemma subseq_snoc_both: "subseq xs ys \<Longrightarrow> subseq (xs @ [y]) (ys @ [y])"
  by simp

lemma order_step:
  assumes "stream_step ops s (Some s')" and "order_ok s"
  shows "order_ok s'"
  using assms
proof (cases rule: stream_step.cases)
  case (frame_taken f)
  with assms(2) have s: "subseq (sm_taken s @ map fst (sm_inbox s)) (sm_arrived s)"
    "\<not> sm_stopping s \<longrightarrow> sm_taken s @ map fst (sm_inbox s) = sm_arrived s"
    by (simp_all add: order_ok_def onward_def)
  from frame_taken(1) [symmetric] show ?thesis
  proof (cases rule: take_frame_shape)
    case (failed e t b)
    with decode_inbound_shape [OF failed(1)] s frame_taken(3) show ?thesis
      by (auto simp: order_ok_def onward_def intro: subseq_snoc_mono)
  next
    case decoded
    with decode_inbound_shape [OF decoded] s frame_taken(3) show ?thesis
      by (auto simp: order_ok_def onward_def simp flip: append_assoc intro: subseq_snoc_mono)
  qed
next
  case stops
  then obtain u where "hand_off s = Some u" "s' = u\<lparr>sm_mode := Finished\<rparr>"
    by (metis select_stopped_shape)
  with hand_off_shape [of s u] assms(2) stops(3) show ?thesis
    by (auto simp: order_ok_def onward_def dest: subseq_drop_snoc [of "_ @ _", simplified append_assoc])
next
  case taken
  with assms(2) show ?thesis
    by (auto simp: order_ok_def onward_def read_take_def eq_commute [of "Some s'"] split: list.splits)
qed (auto simp: order_ok_def onward_def stream_defs eq_commute [of "Some s'"]
    dest!: stream_shape split: if_splits option.splits sum.splits prod.splits pump.splits)

end
