(* ===== verification/Stream_Writes.thy ===== *)
theory Stream_Writes
  imports Stream_Safety
begin

text \<open>
  What becomes of a Write: the invariant of its request, and what its outcome says about the frame.
\<close>

section \<open>The requests\<close>

text \<open>
  How often the transport took the frame of writer \<open>k\<close>, and what the coordinator has of its request:
  nothing, the request not begun, or the frame with the write pump.
\<close>

definition times_sent :: "nat \<Rightarrow> (nat option \<times> byte list) list \<Rightarrow> nat" where
  "times_sent k sent = length (filter (\<lambda>(j, f). j = Some k) sent)"

datatype hold = Free | Fresh | Begun

definition hold :: "'t coordinator \<Rightarrow> nat \<Rightarrow> hold" where
  "hold m k = (case m of
     Preparing j \<Rightarrow> if j = k then Fresh else Free
   | Writing j d f \<Rightarrow> if j = k then Begun else Free
   | _ \<Rightarrow> Free)"

definition request_ok :: "hold \<Rightarrow> nat \<Rightarrow> 'p writer \<Rightarrow> bool" where
  "request_ok h n w \<longleftrightarrow>
     (case wr_phase w of
        Reserving i \<Rightarrow> h = Free \<and> wr_state w = WriteQueued \<and> wr_result w = None \<and> n = 0
      | Offering \<Rightarrow> h = Free \<and> wr_state w = WriteQueued \<and> wr_result w = None \<and> n = 0
      | Waiting \<Rightarrow> wr_state w \<noteq> WriteAbandoned \<and> (case wr_result w of
            None \<Rightarrow> h \<noteq> Free \<and> n = 0
          | Some None \<Rightarrow> h = Free \<and> n = 1
          | Some (Some e) \<Rightarrow> h = Free \<and> n = 0)
      | Returned None \<Rightarrow> h = Free \<and> n = 1
      | Returned (Some e) \<Rightarrow> (n = 0 \<or> n = 1 \<and> h = Free \<and> e = ErrAmbiguousWrite) \<and>
          (h = Fresh \<longrightarrow> wr_state w = WriteAbandoned) \<and> (h = Begun \<longrightarrow> e = ErrAmbiguousWrite)) \<and>
     (n = 1 \<longrightarrow> wr_state w = WriteStarted) \<and>
     (h = Fresh \<longrightarrow> wr_state w \<noteq> WriteStarted) \<and>
     (h = Begun \<longrightarrow> wr_state w = WriteStarted \<and> wr_result w = None \<and> n = 0)"

definition writes_ok :: "('z, 'p, 't) stream \<Rightarrow> bool" where
  "writes_ok s \<longleftrightarrow>
     (\<forall>k < length (sm_writers s). request_ok (hold (sm_mode s) k) (times_sent k (sm_sent s)) (sm_writers s ! k)) \<and>
     (\<forall>k \<ge> length (sm_writers s). hold (sm_mode s) k = Free \<and> times_sent k (sm_sent s) = 0)"

lemma times_sent_simps [simp]:
  "times_sent k [] = 0"
  "times_sent k (xs @ [(j, f)]) = times_sent k xs + (if j = Some k then 1 else 0)"
  by (auto simp: times_sent_def)

lemma hold_simps [simp]:
  "hold Selecting k = Free" "hold Delivering k = Free" "hold Finished k = Free"
  "hold (Disconnecting f) k = Free" "hold (Preparing j) k = (if j = k then Fresh else Free)"
  "hold (Writing j d f) k = (if j = k then Begun else Free)"
  by (simp_all add: hold_def)

text \<open>Most steps leave all requests alone; the others concern one.\<close>

lemma writes_ok_same:
  assumes "writes_ok s" "sm_writers s' = sm_writers s"
    "\<And>k. times_sent k (sm_sent s') = times_sent k (sm_sent s)" "\<And>k. hold (sm_mode s') k = hold (sm_mode s) k"
  shows "writes_ok s'"
  using assms by (simp add: writes_ok_def)

lemma writes_ok_one:
  assumes "writes_ok s" "k < length (sm_writers s)" "sm_writers s' = (sm_writers s)[k := w]"
    "\<And>j. j \<noteq> k \<Longrightarrow> times_sent j (sm_sent s') = times_sent j (sm_sent s)"
    "\<And>j. j \<noteq> k \<Longrightarrow> hold (sm_mode s') j = hold (sm_mode s) j"
    "request_ok (hold (sm_mode s) k) (times_sent k (sm_sent s)) (sm_writers s ! k) \<Longrightarrow>
       request_ok (hold (sm_mode s') k) (times_sent k (sm_sent s')) w"
  shows "writes_ok s'"
proof -
  have "request_ok (hold (sm_mode s') j) (times_sent j (sm_sent s')) (sm_writers s' ! j)"
    if "j < length (sm_writers s')" for j
    using that assms by (cases "j = k") (auto simp: writes_ok_def)
  with assms show ?thesis by (auto simp: writes_ok_def)
qed

lemma writes_ok_new:
  assumes "writes_ok s" "sm_writers s' = sm_writers s @ [w]" "sm_sent s' = sm_sent s"
    "sm_mode s' = sm_mode s" "request_ok Free 0 w"
  shows "writes_ok s'"
  using assms by (auto simp: writes_ok_def nth_append less_Suc_eq)

lemma writes_ok_call:
  assumes "writes_ok s" "write_call p s = Some s'"
  shows "writes_ok s'"
proof -
  obtain w where "sm_writers s' = sm_writers s @ [w]" "sm_sent s' = sm_sent s" "sm_mode s' = sm_mode s"
    "request_ok Free 0 w"
    using assms(2) by (auto simp: write_call_def Let_def request_ok_def split: option.splits prod.splits sum.splits)
  with assms(1) show ?thesis by (rule writes_ok_new)
qed

lemma writes_ok_prepare:
  assumes "writes_ok s" "sm_mode s = Preparing k" "prepare_write ops k s = Some s'"
  shows "writes_ok s'"
proof -
  have k: "k < length (sm_writers s)"
    using assms(1,2) by (metis hold.distinct(1) hold_simps(5) not_le writes_ok_def)
  obtain w where "sm_writers s' = (sm_writers s)[k := w]" "sm_sent s' = sm_sent s"
    "\<And>j. j \<noteq> k \<Longrightarrow> hold (sm_mode s') j = Free"
    "request_ok Fresh (times_sent k (sm_sent s)) (sm_writers s ! k) \<Longrightarrow>
       request_ok (hold (sm_mode s') k) (times_sent k (sm_sent s)) w"
  proof (cases "encode_write ops (sm_session s) (wr_packet (sm_writers s ! k))")
    case (Inl e)
    with assms(3) show thesis
      by (intro that [of "finish_request (Some e) (sm_writers s ! k)"])
         (auto simp: prepare_write_def Let_def finish_request_def request_ok_def dest!: release_write_shape
           split: write_phase.splits option.splits)
  next
    case (Inr r)
    obtain d f where r: "r = (d, f)" by force
    show thesis
    proof (cases "wr_state (sm_writers s ! k) = WriteQueued")
      case True
      with assms(3) Inr r show thesis
        by (intro that [of "(sm_writers s ! k)\<lparr>wr_state := WriteStarted\<rparr>"])
           (auto simp: prepare_write_def begin_request_def request_ok_def split: write_phase.splits option.splits)
    next
      case False
      with assms(3) Inr r show thesis
        by (intro that [of "sm_writers s ! k"]; cases "wr_state (sm_writers s ! k)")
           (auto simp: prepare_write_def begin_request_def request_ok_def dest!: release_write_shape
             split: write_phase.splits option.splits)
    qed
  qed
  with k assms(2) show ?thesis
    by (intro writes_ok_one [OF assms(1) k, of _ w]) auto
qed

lemma writes_ok_finished:
  assumes "writes_ok s" "sm_mode s = Writing k d f" "finish_write ops k d f outcome s = Some s'"
  shows "writes_ok s'"
proof -
  have k: "k < length (sm_writers s)"
    using assms(1,2) by (metis hold.distinct(3) hold_simps(6) not_le writes_ok_def)
  show ?thesis
  proof (cases outcome)
    case None
    with assms(2,3) show ?thesis
      by (intro writes_ok_one [OF assms(1) k, of s' "finish_request None (sm_writers s ! k)"])
         (auto simp: finish_write_def finish_request_def request_ok_def dest!: release_write_shape
           split: write_phase.splits option.splits)
  next
    case (Some e)
    with assms(2,3) show ?thesis
      by (intro writes_ok_one [OF assms(1) k, of s' "finish_request (Some e) (sm_writers s ! k)"])
         (auto simp: finish_write_def bind_eq_Some_conv finish_request_def request_ok_def
           dest!: release_write_shape end_coordinator_shape split: write_phase.splits option.splits)
  qed
qed

lemma writes_ok_unsent:
  assumes "writes_ok s" "sm_mode s = Writing k d f" "write_unsent k s = Some s'"
  shows "writes_ok s'"
proof -
  have k: "k < length (sm_writers s)"
    using assms(1,2) by (metis hold.distinct(3) hold_simps(6) not_le writes_ok_def)
  from assms(2,3) show ?thesis
    by (intro writes_ok_one [OF assms(1) k, of s' "finish_request (Some ErrStreamClosed) (sm_writers s ! k)"])
       (auto simp: write_unsent_def finish_request_def request_ok_def dest!: release_write_shape
         split: write_phase.splits option.splits)
qed

text \<open>A caller moves on while the coordinator does not have its request, or its result is there.\<close>

lemma writes_ok_phase:
  assumes "writes_ok s" "k < length (sm_writers s)" "sm_writers s' = (sm_writers s)[k := w]"
    "sm_sent s' = sm_sent s" "sm_mode s' = sm_mode s"
    "request_ok (hold (sm_mode s) k) (times_sent k (sm_sent s)) (sm_writers s ! k) \<Longrightarrow>
       request_ok (hold (sm_mode s) k) (times_sent k (sm_sent s)) w"
  shows "writes_ok s'"
  using assms by (intro writes_ok_one [OF assms(1,2,3)]) simp_all

lemma writes_ok_cancelled:
  assumes "writes_ok s" "phase_of s k Waiting" "write_cancelled k s = Some s'"
  shows "writes_ok s'"
proof -
  have k: "k < length (sm_writers s)" and ph: "wr_phase (sm_writers s ! k) = Waiting"
    using assms(2) by (auto simp: phase_of_def)
  show ?thesis
  proof (cases "wr_state (sm_writers s ! k) = WriteQueued")
    case True
    with assms(3) ph k show ?thesis
      by (intro writes_ok_phase [OF assms(1) k, of s'
            "(sm_writers s ! k)\<lparr>wr_state := WriteAbandoned, wr_phase := Returned (Some ErrCanceled)\<rparr>"];
          cases "hold (sm_mode s) k")
         (auto simp: write_cancelled_def abandon_request_def request_ok_def split: option.splits)
  next
    case False
    with assms(3) ph k show ?thesis
      by (intro writes_ok_phase [OF assms(1) k, of s'
            "(sm_writers s ! k)\<lparr>wr_phase := Returned (Some ErrAmbiguousWrite)\<rparr>"];
          cases "hold (sm_mode s) k"; cases "wr_state (sm_writers s ! k)")
         (auto simp: write_cancelled_def abandon_request_def request_ok_def dest!: stop_shape split: option.splits)
  qed
qed

lemma writes_ok_caller:
  assumes "writes_ok s" "phase_of s k phase"
  shows "phase = Reserving i \<Longrightarrow> write_answered k i s = Some s' \<Longrightarrow> writes_ok s'"
    and "phase = Reserving i \<Longrightarrow> write_unreserved k i s = Some s' \<Longrightarrow> writes_ok s'"
    and "phase = Offering \<Longrightarrow> write_withdrawn k e s = Some s' \<Longrightarrow> writes_ok s'"
    and "phase = Waiting \<Longrightarrow> wr_result (sm_writers s ! k) = Some r \<Longrightarrow> writes_ok (set_phase k (Returned r) s)"
    and "phase = Offering \<Longrightarrow> sm_mode s = Selecting \<Longrightarrow>
      writes_ok (set_phase k Waiting (s\<lparr>sm_mode := Preparing k\<rparr>))"
proof -
  have k: "k < length (sm_writers s)" and ph: "wr_phase (sm_writers s ! k) = phase"
    using assms(2) by (auto simp: phase_of_def)
  show "writes_ok s'" if "phase = Reserving i" "write_answered k i s = Some s'"
    using that ph
    by (auto simp: write_answered_def request_ok_def split: option.splits
        intro!: writes_ok_phase [OF assms(1) k, of _ "(sm_writers s ! k)\<lparr>wr_phase := _\<rparr>"])
  show "writes_ok s'" if "phase = Reserving i" "write_unreserved k i s = Some s'"
    using that ph
    by (auto simp: write_unreserved_def request_ok_def
        intro!: writes_ok_phase [OF assms(1) k, of _ "(sm_writers s ! k)\<lparr>wr_phase := _\<rparr>"])
  show "writes_ok s'" if "phase = Offering" "write_withdrawn k e s = Some s'"
    using that ph
    by (auto simp: write_withdrawn_def request_ok_def dest!: release_write_shape
        intro!: writes_ok_phase [OF assms(1) k, of _ "(sm_writers s ! k)\<lparr>wr_phase := _\<rparr>"])
  show "writes_ok (set_phase k (Returned r) s)" if "phase = Waiting" "wr_result (sm_writers s ! k) = Some r"
    using that ph
    by (auto simp: request_ok_def split: option.splits
        intro!: writes_ok_phase [OF assms(1) k, of _ "(sm_writers s ! k)\<lparr>wr_phase := _\<rparr>"])
  show "writes_ok (set_phase k Waiting (s\<lparr>sm_mode := Preparing k\<rparr>))" if "phase = Offering" "sm_mode s = Selecting"
    using that ph
    by (auto simp: request_ok_def
        intro!: writes_ok_one [OF assms(1) k, of _ "(sm_writers s ! k)\<lparr>wr_phase := _\<rparr>"])
qed

lemma writes_step:
  assumes "stream_step ops s (Some s')" and "writes_ok s"
  shows "writes_ok s'"
  using assms
proof (cases rule: stream_step.cases)
  case (frame_taken f)
  from frame_taken(1) [symmetric] show ?thesis
  proof (cases rule: take_frame_shape)
    case (failed e t b)
    with decode_inbound_shape [OF failed(1)] frame_taken(2) show ?thesis
      by (auto intro!: writes_ok_same [OF assms(2)])
  next
    case decoded
    with decode_inbound_shape [OF decoded] frame_taken(2) show ?thesis
      by (auto intro!: writes_ok_same [OF assms(2)])
  qed
next
  case called
  then show ?thesis by (metis assms(2) writes_ok_call)
next
  case write_prepared
  then show ?thesis by (metis assms(2) writes_ok_prepare)
next
  case write_stopped
  then show ?thesis by (metis assms(2) writes_ok_unsent)
next
  case write_finished
  then show ?thesis by (metis assms(2) writes_ok_finished)
next
  case write_taken
  then show ?thesis by (simp add: writes_ok_caller(5) [OF assms(2)])
next
  case answered
  then show ?thesis by (metis assms(2) writes_ok_caller(1))
next
  case unreserved
  then show ?thesis by (metis assms(2) writes_ok_caller(2))
next
  case withdrawn
  then show ?thesis by (metis assms(2) writes_ok_caller(3))
next
  case refused
  then show ?thesis by (metis assms(2) writes_ok_caller(3))
next
  case returned
  then show ?thesis by (simp add: writes_ok_caller(4) [OF assms(2)])
next
  case cancelled
  then show ?thesis by (metis assms(2) writes_ok_cancelled)
qed (auto simp: pump_failed_def release_processing_def report_read_failure_def bind_eq_Some_conv
    pump_stopped_def take_granted_def deliver_pending_def process_control_def begin_shutdown_def
    shutdown_failed_def shutdown_succeeded_def finish_disconnect_def read_take_def abort_def Let_def
    eq_commute [of "Some s'"]
    dest!: stream_shape select_stopped_shape split: stream_splits intro!: writes_ok_same [OF assms(2)])

lemma writes_reachable: "stream_reachable ops lim z s \<Longrightarrow> writes_ok s"
proof (induction rule: stream_reachable.induct)
  case start
  show ?case by (simp add: writes_ok_def new_stream_def)
qed (rule writes_step)

section \<open>An outcome is final\<close>

lemma writer_update [simp]:
  "wr_packet x = wr_packet (xs ! j) \<Longrightarrow> wr_packet (xs[j := x] ! k) = wr_packet (xs ! k)"
  "wr_phase x = wr_phase (xs ! j) \<Longrightarrow> wr_phase (xs[j := x] ! k) = wr_phase (xs ! k)"
  by (cases "j < length xs"; simp add: nth_list_update list_update_beyond; blast)+

lemma returned_stays:
  assumes "stream_step ops s (Some s')" "phase_of s k (Returned r)"
  shows "phase_of s' k (Returned r)"
  using assms
proof (cases rule: stream_step.cases)
  case (frame_taken f)
  from frame_taken(1) [symmetric] assms(2) show ?thesis
    by (cases rule: take_frame_shape) (auto simp: phase_of_def dest!: decode_inbound_shape)
qed (auto simp: phase_of_def stream_defs nth_list_update nth_append finish_request_def begin_request_def
    abandon_request_def eq_commute [of "Some s'"]
    dest!: stream_shape select_stopped_shape split: stream_splits)

definition stream_run :: "('z, 'p, 't, 'c) session_ops \<Rightarrow> ('z, 'p, 't) stream \<Rightarrow> ('z, 'p, 't) stream \<Rightarrow> bool" where
  "stream_run ops = (\<lambda>s s'. stream_step ops s (Some s'))\<^sup>*\<^sup>*"

lemma stream_run_reachable:
  assumes "stream_run ops s t" "stream_reachable ops lim z s"
  shows "stream_reachable ops lim z t"
  using assms unfolding stream_run_def
  by (induction rule: rtranclp_induct) (auto intro: stream_reachable.step)

lemma stream_run_returned:
  assumes "stream_run ops s t" "phase_of s k (Returned r)"
  shows "phase_of t k (Returned r)"
  using assms unfolding stream_run_def
  by (induction rule: rtranclp_induct) (auto intro: returned_stays)

section \<open>Commits\<close>

text \<open>While a frame is with the write pump, the session is the one the packet was encoded under.\<close>

definition encoded_ok :: "('z, 'p, 't, 'c) session_ops \<Rightarrow> ('z, 'p, 't) stream \<Rightarrow> bool" where
  "encoded_ok ops s \<longleftrightarrow> (\<forall>k d f. sm_mode s = Writing k d f \<longrightarrow>
     encode_write ops (sm_session s) (wr_packet (sm_writers s ! k)) = Inr (d, f))"

lemma packet_stays:
  assumes "stream_step ops s (Some s')" "k < length (sm_writers s)"
  shows "k < length (sm_writers s') \<and> wr_packet (sm_writers s' ! k) = wr_packet (sm_writers s ! k)"
  using assms
proof (cases rule: stream_step.cases)
  case (frame_taken f)
  from frame_taken(1) [symmetric] assms(2) show ?thesis
    by (cases rule: take_frame_shape) (auto dest!: decode_inbound_shape)
qed (auto simp: stream_defs nth_list_update nth_append finish_request_def begin_request_def
    abandon_request_def eq_commute [of "Some s'"]
    dest!: stream_shape select_stopped_shape split: stream_splits)

lemma writing_kept:
  assumes "stream_step ops s (Some s')" "sm_mode s = m" "m = Writing k d f" "sm_mode s' = Writing k' d' f'"
  shows "sm_mode s' = sm_mode s \<and> sm_session s' = sm_session s"
  using assms
proof (cases rule: stream_step.cases)
  case (frame_taken g)
  with assms show ?thesis by simp
next
  case stops
  with assms show ?thesis by auto
qed (auto simp: stream_defs eq_commute [of "Some s'"]
    dest!: stream_shape split: stream_splits)

lemma encoded_step:
  assumes "stream_step ops s (Some s')" "encoded_ok ops s" "writes_ok s"
  shows "encoded_ok ops s'"
proof -
  have "encode_write ops (sm_session s') (wr_packet (sm_writers s' ! k)) = Inr (d, f)"
    if m: "sm_mode s' = Writing k d f" for k d f
  proof (cases "\<exists>k d f. sm_mode s = Writing k d f")
    case True
    with writing_kept [OF assms(1) refl _ m] have "sm_mode s = sm_mode s'" "sm_session s' = sm_session s" by auto
    moreover have "k < length (sm_writers s)"
      using assms(3) calculation(1) m by (metis hold.distinct(3) hold_simps(6) not_le writes_ok_def)
    ultimately show ?thesis
      using assms(2) m packet_stays [OF assms(1)] by (simp add: encoded_ok_def)
  next
    case False
    from assms(1) show ?thesis
    proof (cases rule: stream_step.cases)
      case (frame_taken g)
      from frame_taken(1) [symmetric] frame_taken(2) m show ?thesis
        by (cases rule: take_frame_shape) (auto dest!: decode_inbound_shape)
    next
      case (write_prepared j)
      with m show ?thesis
        by (auto simp: prepare_write_def Let_def begin_request_def eq_commute [of "Some s'"]
            split: stream_splits dest!: release_write_shape)
    qed (use m False in \<open>auto simp: stream_defs eq_commute [of "Some s'"]
      dest!: stream_shape select_stopped_shape split: stream_splits\<close>)
  qed
  then show ?thesis by (simp add: encoded_ok_def)
qed

lemma encoded_reachable: "stream_reachable ops lim z s \<Longrightarrow> encoded_ok ops s"
proof (induction rule: stream_reachable.induct)
  case start
  show ?case by (simp add: encoded_ok_def new_stream_def)
qed (blast intro: encoded_step writes_reachable)

lemma session_step:
  assumes "stream_step ops s (Some s')"
  shows "sm_session s' = sm_session s \<and> sm_sent s' = sm_sent s \<and> sm_arrived s' = sm_arrived s \<or>
    (\<exists>f p d. sm_mode s = Selecting \<and> sm_pump s = PumpHanding f \<and> so_decode ops (sm_session s) f = Inr p \<and>
       resolve_transition ops (sm_session s) p True = Inr d \<and> sm_session s' = commit ops d (sm_session s) \<and>
       sm_arrived s' = sm_arrived s @ [p] \<and> sm_sent s' = sm_sent s) \<or>
    (\<exists>k d f. sm_mode s = Writing k d f \<and> sm_session s' = commit ops d (sm_session s) \<and>
       sm_sent s' = sm_sent s @ [(Some k, f)] \<and> sm_arrived s' = sm_arrived s) \<or>
    (\<exists>c. sm_mode s = Selecting \<and> so_control ops c (sm_session s) = Inr (sm_session s') \<and>
       sm_sent s' = sm_sent s \<and> sm_arrived s' = sm_arrived s) \<or>
    (\<exists>f. sm_mode s = Disconnecting f \<and> sm_session s' = sm_session s \<and>
       sm_sent s' = sm_sent s @ [(None, f)] \<and> sm_arrived s' = sm_arrived s)"
  using assms
proof (cases rule: stream_step.cases)
  case (frame_taken f)
  from frame_taken(1) [symmetric] frame_taken(2-) show ?thesis
    by (cases rule: take_frame_shape) (auto dest!: decode_inbound_shape)
next
  case (controlled c)
  then show ?thesis by (auto simp: process_control_def split: sum.splits)
next
  case (write_finished k d f outcome)
  then show ?thesis
    by (auto simp: finish_write_def bind_eq_Some_conv eq_commute [of "Some s'"]
        dest!: stream_shape split: option.splits)
next
  case (disconnected f outcome)
  then show ?thesis
    by (auto simp: finish_disconnect_def shutdown_failed_def shutdown_succeeded_def split: option.splits)
qed (rule disjI1; auto simp: stream_defs eq_commute [of "Some s'"]
    dest!: stream_shape select_stopped_shape split: stream_splits)+

section \<open>An example\<close>

text \<open>
  A stream whose session is a number: a packet is a byte list, sent as it is; one that is not empty
  proposes its length as the new number. A Write on it runs to its end.
\<close>

definition echo_ops :: "(nat, byte list, nat, nat) session_ops" where
  "echo_ops = \<lparr>so_decode = (\<lambda>z f. Inr f), so_encode = (\<lambda>z p. Inr p), so_build = (\<lambda>f. Inr (0 # f)),
     so_propose = (\<lambda>z p. Inr (if p = [] then None else Some (length p))),
     so_resolve = (\<lambda>z p inbound t. Inr (Some t)), so_validate = (\<lambda>z t. None), so_apply = (\<lambda>t z. t),
     so_control = (\<lambda>c z. Inr c), so_disconnect = (\<lambda>z. Inr None), so_length = length\<rparr>"

definition echo_limits :: limits where
  "echo_limits = \<lparr>valid = True, frame_bytes = 8, decompressed_bytes = 8, string_bytes = 8, collection_items = 8,
     nbt_bytes = 8, plugin_bytes = 8, recursion_depth = 8, queue_items = 2, buffered_bytes = 64\<rparr>"

definition echo :: "(nat, byte list, nat) stream" where "echo = new_stream echo_limits 0"

definition echo_called :: "(nat, byte list, nat) stream" where "echo_called = the (write_call [7] echo)"
definition echo_offered :: "(nat, byte list, nat) stream" where "echo_offered = the (write_answered 0 0 echo_called)"
definition echo_accepted :: "(nat, byte list, nat) stream" where
  "echo_accepted = set_phase 0 Waiting (echo_offered\<lparr>sm_mode := Preparing 0\<rparr>)"
definition echo_writing :: "(nat, byte list, nat) stream" where "echo_writing = the (prepare_write echo_ops 0 echo_accepted)"
definition echo_sent :: "(nat, byte list, nat) stream" where
  "echo_sent = the (finish_write echo_ops 0 (Some 1) [0, 7] None echo_writing)"
definition echo_done :: "(nat, byte list, nat) stream" where "echo_done = set_phase 0 (Returned None) echo_sent"

lemma echo_facts:
  "\<not> Option.is_none (write_call [7] echo) \<and>
   sm_mode echo_called = Selecting \<and> phase_of echo_called 0 (Reserving 0) \<and> waiter_ready echo_called 0 \<and>
   \<not> Option.is_none (write_answered 0 0 echo_called) \<and>
   sm_mode echo_offered = Selecting \<and> phase_of echo_offered 0 Offering \<and> sm_mode echo_accepted = Preparing 0 \<and>
   \<not> Option.is_none (prepare_write echo_ops 0 echo_accepted) \<and>
   sm_mode echo_writing = Writing 0 (Some 1) [0, 7] \<and> sm_session echo_writing = 0 \<and> sm_sent echo_writing = [] \<and>
   wr_packet (sm_writers echo_writing ! 0) = [7] \<and>
   \<not> Option.is_none (finish_write echo_ops 0 (Some 1) [0, 7] None echo_writing) \<and>
   phase_of echo_sent 0 Waiting \<and> wr_result (sm_writers echo_sent ! 0) = Some None \<and>
   sm_sent echo_sent = [(Some 0, [0, 7])] \<and> phase_of echo_done 0 (Returned None)"
  by code_simp

lemma stream_reachable_the:
  assumes "stream_reachable ops lim z s" "stream_step ops s r" "\<not> Option.is_none r"
  shows "stream_reachable ops lim z (the r)"
  using assms by (cases r) (auto intro: stream_reachable.step)

lemma echo_reachable:
  "stream_reachable echo_ops echo_limits 0 echo_writing"
  "stream_step echo_ops echo_writing (Some echo_sent)"
  "stream_reachable echo_ops echo_limits 0 echo_done"
proof -
  let ?R = "stream_reachable echo_ops echo_limits 0"
  have "?R echo" unfolding echo_def by (rule stream_reachable.start)
  then have "?R echo_called"
    unfolding echo_called_def by (rule stream_reachable_the [OF _ stream_step.called]) (simp add: echo_facts)
  then have "?R echo_offered"
    unfolding echo_offered_def by (rule stream_reachable_the [OF _ stream_step.answered]) (simp_all add: echo_facts)
  then have "?R echo_accepted"
    unfolding echo_accepted_def by (rule stream_reachable.step [OF _ stream_step.write_taken]) (simp_all add: echo_facts)
  then show w: "?R echo_writing"
    unfolding echo_writing_def by (rule stream_reachable_the [OF _ stream_step.write_prepared]) (simp_all add: echo_facts)
  have "finish_write echo_ops 0 (Some 1) [0, 7] None echo_writing = Some echo_sent"
    using echo_facts by (simp add: echo_sent_def Option.is_none_def)
  moreover have "stream_step echo_ops echo_writing (finish_write echo_ops 0 (Some 1) [0, 7] None echo_writing)"
    by (rule stream_step.write_finished) (simp add: echo_facts)
  ultimately show s: "stream_step echo_ops echo_writing (Some echo_sent)" by metis
  have "stream_step echo_ops echo_sent (Some echo_done)"
    unfolding echo_done_def by (rule stream_step.returned) (simp_all add: echo_facts)
  with w s show "?R echo_done" by (blast intro: stream_reachable.step)
qed

section \<open>Properties\<close>



text \<open>
  and it is final. Once a Write has returned, whatever the stream still does, a nil stays one
  frame on the wire, and an error other than \<open>ErrAmbiguousWrite\<close> means the packet is never sent.
\<close>

theorem write_final:
  assumes "stream_reachable ops lim z s" and "phase_of s k (Returned r)" and "stream_run ops s t"
  shows "(r = None \<longrightarrow> times_sent k (sm_sent t) = 1) \<and>
    (\<forall>e. r = Some e \<and> e \<noteq> ErrAmbiguousWrite \<longrightarrow> times_sent k (sm_sent t) = 0)"
proof -
  have t: "phase_of t k (Returned r)" by (rule stream_run_returned [OF assms(3,2)])
  have "writes_ok t" by (rule writes_reachable [OF stream_run_reachable [OF assms(3,1)]])
  with t have "request_ok (hold (sm_mode t) k) (times_sent k (sm_sent t)) (sm_writers t ! k)"
    by (simp add: writes_ok_def phase_of_def)
  with t show ?thesis
    by (auto simp: request_ok_def phase_of_def split: option.splits)
qed

theorem write_final_witness:
  "stream_run echo_ops echo_done (echo_done\<lparr>sm_closing := True\<rparr>) \<and>
   times_sent 0 (sm_sent (echo_done\<lparr>sm_closing := True\<rparr>)) = 1"
proof -
  have t: "stream_run echo_ops echo_done (echo_done\<lparr>sm_closing := True\<rparr>)"
    unfolding stream_run_def by (rule r_into_rtranclp) (rule stream_step.shutting_down)
  have "phase_of echo_done 0 (Returned None)" by (simp add: echo_facts)
  from t write_final [OF echo_reachable(3) this t] show ?thesis by simp
qed



end
