(* ===== verification/Stream_Accounts.thy ===== *)
theory Stream_Accounts
  imports Stream_Writes
begin

text \<open>
  A stream keeps to the protocol of its budget: what it has reserved and what it holds can be read
  off its state. So no step panics, and a packet whose room was granted finds room in the Read queue.
\<close>

section \<open>The budget of a stream\<close>

text \<open>The size of a reservation never changes.\<close>

definition sized :: "budget \<Rightarrow> nat \<Rightarrow> (int \<times> int) option" where
  "sized b i = map_option (\<lambda>w. (w_items w, w_bytes w)) (store b i)"

text \<open>What every call keeps: sizes, the maximum, being closed; items in use stay within the maximum, or
  are no more than before.\<close>

definition steady :: "budget \<Rightarrow> budget \<Rightarrow> bool" where
  "steady b b' \<longleftrightarrow> (\<forall>i. sized b i \<noteq> None \<longrightarrow> sized b' i = sized b i) \<and> max_items b' = max_items b \<and>
     (closed b \<noteq> None \<longrightarrow> closed b' \<noteq> None) \<and> used_items b' \<le> max (used_items b) (max_items b)"

lemma steadyI:
  assumes "\<And>i. sized b' i = sized b i" "max_items b' = max_items b" "closed b \<noteq> None \<Longrightarrow> closed b' \<noteq> None"
    "used_items b' \<le> max (used_items b) (max_items b)"
  shows "steady b b'"
  using assms by (simp add: steady_def)

lemma steady_trans: "steady a b \<Longrightarrow> steady b c \<Longrightarrow> steady a c"
  unfolding steady_def by (smt (verit, best))

lemma grant_from_steady: "grant_from ids b = Some b' \<Longrightarrow> steady b b'"
proof (induction ids b rule: grant_from.induct)
  case (1 b)
  then show ?case by (auto simp: steady_def sized_def)
next
  case (2 i rest b)
  show ?case
  proof (cases "store b i")
    case (Some w)
    show ?thesis
    proof (cases "fits b w")
      case True
      with "2.prems" Some obtain w' where w': "close_ready (w\<lparr>w_granted := True\<rparr>) = Some w'"
        by (auto split: option.splits)
      let ?b = "b\<lparr>used_items := used_items b + w_items w, used_bytes := used_bytes b + w_bytes w,
        store := (store b)(i \<mapsto> w')\<rparr>"
      have "steady b ?b"
        using Some w' True by (intro steadyI) (auto simp: sized_def fits_def close_ready_def split: if_splits)
      moreover have "steady ?b b'"
        using "2.IH" [OF Some _ w'] "2.prems" Some True w' by simp
      ultimately show ?thesis by (rule steady_trans)
    qed (use "2.prems" Some in \<open>auto intro!: steadyI simp: sized_def\<close>)
  qed (use "2.prems" in simp)
qed

lemma refuse_all_steady: "refuse_all e ids b = Some b' \<Longrightarrow> steady b b'"
proof (induction e ids b rule: refuse_all.induct)
  case (2 e i rest b)
  then obtain w w' where w: "store b i = Some w" "close_ready (w\<lparr>w_err := Some e\<rparr>) = Some w'"
    by (auto split: option.splits)
  have "steady b (b\<lparr>store := (store b)(i \<mapsto> w')\<rparr>)"
    using w by (intro steadyI) (auto simp: sized_def close_ready_def split: if_splits)
  with "2.IH" [OF w] "2.prems" w show ?case by (auto intro: steady_trans)
qed (auto simp: steady_def sized_def)

lemma cancel_steady:
  assumes "cancel i b = Some b'" "\<And>w. store b i = Some w \<Longrightarrow> 0 \<le> w_items w"
  shows "steady b b'"
proof -
  obtain w where w: "store b i = Some w" using assms(1) by (auto simp: cancel_def split: option.splits)
  let ?c = "b\<lparr>used_items := used_items b - w_items w, used_bytes := used_bytes b - w_bytes w,
    store := (store b)(i \<mapsto> w\<lparr>w_granted := False\<rparr>)\<rparr>"
  have "steady b ?c"
    using w assms(2) by (intro steadyI) (auto simp: sized_def)
  then show ?thesis
    using assms(1) w
    by (auto simp: cancel_def grant_locked_def dest!: grant_from_steady intro: steady_trans split: if_splits)
      (auto intro!: steadyI simp: sized_def close_ready_def split: if_splits)
qed

lemma release_steady:
  assumes "release n m b = Some b'" "0 \<le> n"
  shows "steady b b'"
proof -
  let ?c = "b\<lparr>used_items := used_items b - n, used_bytes := used_bytes b - m\<rparr>"
  have "steady ?c b'"
    using assms(1) by (auto simp: release_def Let_def grant_locked_def split: if_splits dest: grant_from_steady)
  moreover have "steady b ?c" using assms(2) by (intro steadyI) (auto simp: sized_def)
  ultimately show ?thesis by (blast intro: steady_trans)
qed

lemma close_steady:
  assumes "close_budget cause b = Some b'"
  shows "steady b b' \<and> closed b' \<noteq> None"
proof (cases "closed b")
  case None
  let ?e = "case cause of None \<Rightarrow> ErrStreamClosed | Some e \<Rightarrow> e"
  have "steady (b\<lparr>closed := Some ?e\<rparr>) b'"
    using assms None by (auto simp: close_budget_def Let_def dest: refuse_all_steady)
  moreover have "steady b (b\<lparr>closed := Some ?e\<rparr>)" by (intro steadyI) (auto simp: sized_def)
  moreover have "closed b' \<noteq> None" using calculation(1) by (simp add: steady_def)
  ultimately show ?thesis by (blast intro: steady_trans)
qed (use assms in \<open>auto simp: close_budget_def intro!: steadyI\<close>)

lemma reserve_steady:
  assumes "reserve n m b = Some (Inr i, b')" "sized b i = None"
  shows "steady b b' \<and> sized b' i = Some (n, m)"
proof -
  let ?w = "\<lparr>w_items = n, w_bytes = m, w_ready = False, w_granted = False, w_err = None\<rparr>"
  let ?c = "b\<lparr>waiters := waiters b @ [i], store := (store b)(i \<mapsto> ?w), next_waiter := i + 1\<rparr>"
  have "grant_locked ?c = Some b'"
    using assms(1) by (auto simp: reserve_def Let_def split: if_splits option.splits)
  then have "steady ?c b'" by (auto simp: grant_locked_def dest: grant_from_steady)
  moreover have "steady b ?c" "sized ?c i = Some (n, m)"
    using assms(2) by (auto simp: steady_def sized_def)
  ultimately show ?thesis by (auto simp: steady_def intro: steady_trans)
qed

text \<open>
  The reservations \<open>I\<close> (one item and so many bytes each) are outstanding and distinct; one item with
  each of the bytes \<open>M\<close> is held, at least.
\<close>

definition accounts :: "budget \<Rightarrow> (nat \<times> int) multiset \<Rightarrow> int multiset \<Rightarrow> bool" where
  "accounts b I M \<longleftrightarrow> (\<forall>i. count (image_mset fst I) i \<le> 1) \<and> (\<forall>(i, n) \<in># I. sized b i = Some (1, n)) \<and>
     (\<exists>h. client_ok \<lparr>bud = b, outstanding = fst ` set_mset I, holding = h\<rparr> \<and> image_mset (Pair 1) M \<subseteq># mset h)"

lemma accounts_fresh:
  assumes "accounts b (add_mset (i, n) I) M"
  shows "i \<notin> fst ` set_mset I" and "fst ` set_mset (add_mset (i, n) I) - {i} = fst ` set_mset I"
proof -
  have "count (image_mset fst (add_mset (i, n) I)) i \<le> 1" using assms by (simp only: accounts_def)
  then have "count (image_mset fst I) i = 0" by simp
  then show "i \<notin> fst ` set_mset I" by (metis in_image_mset not_in_iff)
  then show "fst ` set_mset (add_mset (i, n) I) - {i} = fst ` set_mset I" by auto
qed

lemma accounts_transfer:
  assumes "accounts b I M" "steady b b'" "J \<subseteq># I"
    "client_ok \<lparr>bud = b', outstanding = fst ` set_mset J, holding = h\<rparr>" "image_mset (Pair 1) M' \<subseteq># mset h"
  shows "accounts b' J M'"
proof -
  have "count (image_mset fst J) i \<le> 1" for i
    using assms(1) mset_subset_eq_count [OF image_mset_subseteq_mono [OF assms(3), of fst], of i]
    unfolding accounts_def by (meson le_trans)
  moreover have "sized b' i = Some (1, n)" if "(i, n) \<in># J" for i n
    using assms(1,2) mset_subset_eqD [OF assms(3) that] by (fastforce simp: accounts_def steady_def)
  ultimately show ?thesis using assms(4,5) by (auto simp: accounts_def)
qed

lemma accounts_waiter:
  assumes "accounts b (add_mset (i, n) I) M"
  obtains w where "store b i = Some w" "w_items w = 1" "w_bytes w = n"
  using assms by (auto simp: accounts_def sized_def)

lemma accounts_close:
  assumes "accounts b I M"
  obtains b' where "close_budget cause b = Some b'" "accounts b' I M" "steady b b'" "closed b' \<noteq> None"
proof -
  obtain h where h: "client_ok \<lparr>bud = b, outstanding = fst ` set_mset I, holding = h\<rparr>"
    "image_mset (Pair 1) M \<subseteq># mset h" using assms by (auto simp: accounts_def)
  from close_client [OF h(1), of cause] obtain b' where
    "close_budget cause b = Some b'" "client_ok \<lparr>bud = b', outstanding = fst ` set_mset I, holding = h\<rparr>"
    by auto
  with that h(2) close_steady accounts_transfer [OF assms] show thesis by blast
qed

lemma accounts_cancel:
  assumes "accounts b (add_mset (i, n) I) M"
  obtains b' where "cancel i b = Some b'" "accounts b' I M" "steady b b'"
proof -
  obtain h where h: "client_ok \<lparr>bud = b, outstanding = fst ` set_mset (add_mset (i, n) I), holding = h\<rparr>"
    "image_mset (Pair 1) M \<subseteq># mset h" using assms by (auto simp: accounts_def)
  have i: "i \<in> fst ` set_mset (add_mset (i, n) I)" by simp
  obtain b' where "cancel i b = Some b'"
    "client_ok \<lparr>bud = b', outstanding = fst ` set_mset (add_mset (i, n) I) - {i}, holding = h\<rparr>"
    by (rule cancel_client [OF h(1), of i]) (use i in simp_all)
  then have b': "cancel i b = Some b'" "client_ok \<lparr>bud = b', outstanding = fst ` set_mset I, holding = h\<rparr>"
    unfolding accounts_fresh(2) [OF assms] by auto
  have "steady b b'"
    using cancel_steady [OF b'(1)] h(1) by (auto simp: client_ok_def queue_ok_def)
  with that b' h(2) accounts_transfer [OF assms] show thesis by fastforce
qed

lemma accounts_release:
  assumes "accounts b I (add_mset n M)"
  obtains b' where "release 1 n b = Some b'" "accounts b' I M" "steady b b'"
proof -
  obtain h where h: "client_ok \<lparr>bud = b, outstanding = fst ` set_mset I, holding = h\<rparr>"
    "image_mset (Pair 1) (add_mset n M) \<subseteq># mset h" using assms by (auto simp: accounts_def)
  then have "(1, n) \<in> set h" by (metis image_mset_add_mset mset_subset_eqD set_mset_mset union_single_eq_member)
  with release_client [OF h(1), of 1 n] obtain b' where
    b': "release 1 n b = Some b'" "client_ok \<lparr>bud = b', outstanding = fst ` set_mset I, holding = remove1 (1, n) h\<rparr>"
    by auto
  have "image_mset (Pair 1) M \<subseteq># mset (remove1 (1, n) h)"
    using h(2) by (simp add: insert_subset_eq_iff)
  with that b' release_steady [OF b'(1)] accounts_transfer [OF assms] show thesis by fastforce
qed

lemma accounts_charge:
  assumes "accounts b I M" "0 \<le> n"
  shows "accounts (charge 1 n b) I (add_mset n M)"
proof -
  obtain h where h: "client_ok \<lparr>bud = b, outstanding = fst ` set_mset I, holding = h\<rparr>"
    "image_mset (Pair 1) M \<subseteq># mset h" using assms by (auto simp: accounts_def)
  from budget_step_ok [OF budget_step.charged h(1), of 1 n] assms(2)
  have "client_ok \<lparr>bud = charge 1 n b, outstanding = fst ` set_mset I, holding = (1, n) # h\<rparr>" by simp
  moreover have "image_mset (Pair 1) (add_mset n M) \<subseteq># mset ((1, n) # h)" using h(2) by simp
  moreover have "sized (charge 1 n b) i = sized b i" for i by (simp add: sized_def charge_def)
  ultimately show ?thesis
    using assms(1) unfolding accounts_def by auto
qed

lemma accounts_reserve:
  assumes "accounts b I M"
  obtains (refused) e where "reserve 1 n b = Some (Inl e, b)"
    | (queued) i b' where "reserve 1 n b = Some (Inr i, b')" "accounts b' (add_mset (i, n) I) M" "steady b b'"
proof -
  obtain h where h: "client_ok \<lparr>bud = b, outstanding = fst ` set_mset I, holding = h\<rparr>"
    "image_mset (Pair 1) M \<subseteq># mset h" using assms by (auto simp: accounts_def)
  from h(1) show thesis
  proof (cases rule: reserve_client [of _ 1 n])
    case (refused e)
    then show thesis using that(1) by simp
  next
    case (queued i b')
    have i: "i = next_waiter b"
      using queued(1) by (auto simp: reserve_def Let_def split: if_splits option.splits)
    have none: "sized b i = None"
      using h(1) i by (force simp: sized_def client_ok_def queue_ok_def)
    from reserve_steady [OF _ none] queued(1) have s: "steady b b'" "sized b' i = Some (1, n)" by auto
    have "i \<notin> fst ` set_mset I"
      using assms none by (fastforce simp: accounts_def)
    then have "count (image_mset fst I) i = 0" by (metis in_image_mset not_in_iff)
    then have "accounts b' (add_mset (i, n) I) M"
      using assms s queued(2) h(2) unfolding accounts_def steady_def
      by (auto intro!: exI [of _ h])
    with that(2) queued(1) s show thesis by simp
  qed
qed

lemma accounts_accept:
  assumes "accounts b (add_mset (i, n) I) M" "store b i = Some w" "w_ready w" "failure w = None"
  shows "accounts b I (add_mset n M)"
proof -
  obtain h where h: "client_ok \<lparr>bud = b, outstanding = fst ` set_mset (add_mset (i, n) I), holding = h\<rparr>"
    "image_mset (Pair 1) M \<subseteq># mset h" using assms by (auto simp: accounts_def)
  have w: "w_items w = 1" "w_bytes w = n" using accounts_waiter [OF assms(1)] assms(2) by auto
  from budget_step_ok [OF budget_step.accepted h(1), of i w] assms(2-) w accounts_fresh(2) [OF assms(1)]
  have c: "client_ok \<lparr>bud = b, outstanding = fst ` set_mset I, holding = (1, n) # h\<rparr>" by simp
  have "steady b b" by (simp add: steady_def)
  from accounts_transfer [OF assms(1) this _ c] h(2) show ?thesis by simp
qed

lemma accounts_refused:
  assumes "accounts b (add_mset (i, n) I) M" "store b i = Some w" "w_ready w" "failure w = Some e"
  shows "accounts b I M"
proof -
  obtain h where h: "client_ok \<lparr>bud = b, outstanding = fst ` set_mset (add_mset (i, n) I), holding = h\<rparr>"
    "image_mset (Pair 1) M \<subseteq># mset h" using assms by (auto simp: accounts_def)
  from budget_step_ok [OF budget_step.failed h(1), of i w e] assms(2-) accounts_fresh(2) [OF assms(1)]
  have c: "client_ok \<lparr>bud = b, outstanding = fst ` set_mset I, holding = h\<rparr>" by simp
  have "steady b b" by (simp add: steady_def)
  from accounts_transfer [OF assms(1) this _ c] h(2) show ?thesis by simp
qed

lemma accounts_mono: "accounts b I M \<Longrightarrow> M' \<subseteq># M \<Longrightarrow> accounts b I M'"
  unfolding accounts_def by (blast intro: image_mset_subseteq_mono subset_mset.trans)

lemma held_count:
  assumes "image_mset (Pair 1) M \<subseteq># mset h" "\<And>x. x \<in> set h \<Longrightarrow> 0 \<le> fst x"
  shows "int (size M) \<le> sum_list (map fst h)"
proof -
  obtain R where R: "mset h = image_mset (Pair 1) M + R" using assms(1) by (metis mset_subset_eq_exists_conv)
  have one: "sum_mset (image_mset fst (image_mset (Pair 1) M)) = int (size M)"
    by (induction M) auto
  have "sum_list (map fst h) = sum_mset (image_mset fst (mset h))"
    by (metis mset_map sum_mset_sum_list)
  also have "\<dots> = int (size M) + sum_mset (image_mset fst R)"
    by (simp only: R image_mset_union sum_mset.union one)
  moreover have "0 \<le> fst x" if "x \<in># R" for x
    using assms(2) that R by (metis set_mset_mset union_iff)
  then have "0 \<le> sum_mset (image_mset fst R)" by (induction R) auto
  ultimately show ?thesis by simp
qed

lemma accounts_used:
  assumes "accounts b (add_mset (i, n) I) M" "store b i = Some w" "w_granted w"
  shows "1 + int (size M) \<le> used_items b"
proof -
  let ?ids = "fst ` set_mset (add_mset (i, n) I)"
  obtain h where h: "client_ok \<lparr>bud = b, outstanding = ?ids, holding = h\<rparr>"
    "image_mset (Pair 1) M \<subseteq># mset h" using assms by (auto simp: accounts_def)
  from accounts_waiter [OF assms(1)] obtain v where "store b i = Some v" "w_items v = 1" .
  with assms(2) have "w_items w = 1" by simp
  then have "1 = items_of (store b) i" using assms(2,3) by (simp add: items_of_def)
  also have "\<dots> \<le> (\<Sum>j\<in>?ids. items_of (store b) j)"
    using h(1) by (intro member_le_sum)
      (auto simp: items_of_def client_ok_def queue_ok_def split: option.splits)
  finally have "1 \<le> (\<Sum>j\<in>?ids. items_of (store b) j)" .
  moreover have "int (size M) \<le> sum_list (map fst h)"
    using h by (intro held_count) (auto simp: client_ok_def)
  ultimately show ?thesis using h(1) by (simp add: client_ok_def accounted_def)
qed

section \<open>What a stream has reserved and holds\<close>

fun phase_reserved :: "write_phase \<Rightarrow> (nat \<times> int) multiset" where
  "phase_reserved (Reserving i) = {#(i, 0)#}"
| "phase_reserved _ = {#}"

fun phase_holds :: "write_phase \<Rightarrow> int multiset" where
  "phase_holds Offering = {#0#}"
| "phase_holds _ = {#}"

definition writer_reserved :: "'p writer \<Rightarrow> (nat \<times> int) multiset" where
  "writer_reserved w = phase_reserved (wr_phase w)"

definition writer_holds :: "'p writer \<Rightarrow> int multiset" where
  "writer_holds w = phase_holds (wr_phase w)"

definition pending_reserved :: "('z, 'p, 't) stream \<Rightarrow> (nat \<times> int) multiset" where
  "pending_reserved s = (case sm_pending s of None \<Rightarrow> {#} | Some (item, i) \<Rightarrow> {#(i, int (snd item))#})"

definition coordinator_holds :: "'t coordinator \<Rightarrow> int multiset" where
  "coordinator_holds m = (case m of Preparing k \<Rightarrow> {#0#} | Writing k d f \<Rightarrow> {#0#} | _ \<Rightarrow> {#})"

definition inbox_holds :: "('p \<times> nat) list \<Rightarrow> int multiset" where
  "inbox_holds q = image_mset (\<lambda>item. int (snd item)) (mset q)"

definition reserved :: "('z, 'p, 't) stream \<Rightarrow> (nat \<times> int) multiset" where
  "reserved s = pending_reserved s + sum_list (map writer_reserved (sm_writers s))"

definition holds :: "('z, 'p, 't) stream \<Rightarrow> int multiset" where
  "holds s = inbox_holds (sm_inbox s) + coordinator_holds (sm_mode s) + sum_list (map writer_holds (sm_writers s))"

lemmas stream_account = reserved_def holds_def pending_reserved_def

lemma account_simps [simp]:
  "coordinator_holds Selecting = {#}" "coordinator_holds Delivering = {#}" "coordinator_holds Finished = {#}"
  "coordinator_holds (Disconnecting f) = {#}" "coordinator_holds (Preparing k) = {#0#}"
  "coordinator_holds (Writing k d f) = {#0#}"
  "inbox_holds [] = {#}" "inbox_holds (item # q) = add_mset (int (snd item)) (inbox_holds q)"
  "inbox_holds (q @ r) = inbox_holds q + inbox_holds r"
  by (simp_all add: coordinator_holds_def inbox_holds_def)

text \<open>One writer and the others.\<close>

definition others :: "nat \<Rightarrow> 'a list \<Rightarrow> 'a list" where
  "others k xs = take k xs @ drop (Suc k) xs"

lemma sum_others:
  assumes "k < length xs"
  shows "sum_list (map f xs) = (f (xs ! k) + sum_list (map f (others k xs)) :: 'b :: comm_monoid_add)"
    and "sum_list (map f (xs[k := x])) = f x + sum_list (map f (others k xs))"
proof -
  have "map f xs = map f (take k xs) @ f (xs ! k) # map f (drop (Suc k) xs)"
    using id_take_nth_drop [OF assms] by (metis list.simps(9) map_append)
  then show "sum_list (map f xs) = f (xs ! k) + sum_list (map f (others k xs))"
    by (simp add: others_def ac_simps)
  show "sum_list (map f (xs[k := x])) = f x + sum_list (map f (others k xs))"
    using assms by (simp add: others_def upd_conv_take_nth_drop ac_simps)
qed

definition budget_ok :: "('z, 'p, 't) stream \<Rightarrow> bool" where
  "budget_ok s \<longleftrightarrow> accounts (sm_budget s) (reserved s) (holds s) \<and>
     (sm_stopping s \<longrightarrow> closed (sm_budget s) \<noteq> None) \<and>
     int (sm_capacity s) = max 0 (max_items (sm_budget s)) \<and>
     (used_items (sm_budget s) \<le> int (sm_capacity s) \<or> sm_stopping s \<and> sm_pending s = None)"

definition safe :: "('z, 'p, 't) stream option \<Rightarrow> bool" where
  "safe r \<longleftrightarrow> (case r of None \<Rightarrow> False | Some s \<Rightarrow> budget_ok s)"

lemma safe_simps [simp]: "safe (Some s) = budget_ok s" "\<not> safe None"
  by (simp_all add: safe_def)

section \<open>Every handler keeps the account\<close>

text \<open>A change of other fields, a step of the budget, and the end of the stream.\<close>

lemma budget_ok_same:
  assumes "budget_ok s" "sm_budget s' = sm_budget s" "reserved s' = reserved s" "holds s' = holds s"
    "sm_stopping s' = sm_stopping s" "sm_capacity s' = sm_capacity s" "sm_pending s' = sm_pending s"
  shows "budget_ok s'"
  using assms(1) unfolding budget_ok_def assms(2-) .

lemma budget_ok_steady:
  assumes "budget_ok s" "steady (sm_budget s) (sm_budget s')" "accounts (sm_budget s') (reserved s') (holds s')"
    "sm_stopping s' = sm_stopping s" "sm_capacity s' = sm_capacity s"
    "sm_stopping s \<Longrightarrow> sm_pending s = None \<Longrightarrow> sm_pending s' = None"
  shows "budget_ok s'"
proof -
  have "used_items (sm_budget s') \<le> max (used_items (sm_budget s)) (max_items (sm_budget s))"
    "max_items (sm_budget s') = max_items (sm_budget s)"
    "closed (sm_budget s) \<noteq> None \<longrightarrow> closed (sm_budget s') \<noteq> None"
    using assms(2) by (auto simp: steady_def)
  with assms show ?thesis unfolding budget_ok_def by auto
qed

lemma fail_account [simp]: "budget_ok (fail e s) = budget_ok s" "budget_ok (succeed s) = budget_ok s"
  by (simp_all add: budget_ok_def stream_account)

lemma stop_safe:
  assumes "budget_ok s"
  obtains b where "stop s = Some (s\<lparr>sm_stopping := True, sm_budget := b\<rparr>)"
    "budget_ok (s\<lparr>sm_stopping := True, sm_budget := b\<rparr>)"
proof (cases "sm_stopping s")
  case True
  then have "stop s = Some (s\<lparr>sm_stopping := True, sm_budget := sm_budget s\<rparr>)" by (simp add: stop_def)
  moreover have "s\<lparr>sm_stopping := True, sm_budget := sm_budget s\<rparr> = s" using True by simp
  ultimately show thesis using assms that [of "sm_budget s"] by simp
next
  case False
  obtain b where b: "close_budget (sm_cause s) (sm_budget s) = Some b" "accounts b (reserved s) (holds s)"
    "steady (sm_budget s) b" "closed b \<noteq> None"
    by (rule accounts_close [of "sm_budget s" "reserved s" "holds s" "sm_cause s"])
      (use assms in \<open>auto simp: budget_ok_def\<close>)
  have "used_items b \<le> int (sm_capacity s)"
    using assms b(3) False unfolding budget_ok_def steady_def by auto
  then have "budget_ok (s\<lparr>sm_stopping := True, sm_budget := b\<rparr>)"
    using assms b by (simp add: budget_ok_def stream_account steady_def)
  with b(1) False that show thesis by (simp add: stop_def)
qed

lemma stop_safe': "budget_ok s \<Longrightarrow> safe (stop s)"
  by (metis safe_simps(1) stop_safe)

lemma end_coordinator_safe:
  assumes "budget_ok (s\<lparr>sm_mode := Finished\<rparr>)"
  shows "safe (end_coordinator e s)"
proof -
  let ?s = "(fail e s)\<lparr>sm_mode := Finished\<rparr>"
  have "stop ?s = map_option (\<lambda>s. s\<lparr>sm_mode := Finished\<rparr>) (stop (fail e s))"
    by (cases "sm_stopping s") (auto simp: stop_def map_option.compositionality comp_def intro: map_option_cong)
  moreover have "?s = fail e (s\<lparr>sm_mode := Finished\<rparr>)" by (simp add: fail_def)
  then have "budget_ok ?s" using assms by simp
  ultimately show ?thesis using stop_safe' by (metis end_coordinator_def)
qed

lemma release_write_safe:
  assumes "accounts (sm_budget s) (reserved s) (add_mset 0 (holds s))" "budget_ok t"
    "sm_budget t = sm_budget s" "sm_stopping t = sm_stopping s" "sm_capacity t = sm_capacity s" "sm_pending t = sm_pending s"
  shows "safe (release_write s)"
proof -
  obtain b where b: "release 1 0 (sm_budget s) = Some b" "accounts b (reserved s) (holds s)" "steady (sm_budget s) b"
    by (rule accounts_release [OF assms(1)])
  then have "budget_ok (s\<lparr>sm_budget := b\<rparr>)"
    using assms by (intro budget_ok_steady [OF assms(2)]) (simp_all add: stream_account)
  with b(1) show ?thesis by (simp add: release_write_def)
qed

text \<open>A packet that goes to the reader although nothing was reserved for it.\<close>

lemma deliver_arrival_safe:
  assumes "budget_ok s" "sm_stopping s" "sm_pending s = None"
  shows "safe (deliver_arrival item s)"
proof -
  let ?n = "int (snd item)"
  let ?c = "charge 1 ?n (sm_budget s)"
  have c: "accounts ?c (reserved s) (add_mset ?n (holds s))"
    using assms by (intro accounts_charge) (simp_all add: budget_ok_def)
  have f: "closed ?c = closed (sm_budget s)" "max_items ?c = max_items (sm_budget s)"
    by (simp_all add: charge_def)
  show ?thesis
  proof (cases "has_room s")
    case True
    with assms c f show ?thesis
      by (simp add: deliver_arrival_def Let_def budget_ok_def stream_account)
  next
    case False
    obtain b where b: "release 1 ?n ?c = Some b" "accounts b (reserved s) (holds s)" "steady ?c b"
      by (rule accounts_release [OF c])
    with assms f have "budget_ok (s\<lparr>sm_budget := b\<rparr>)"
      unfolding budget_ok_def by (simp add: stream_account steady_def)
    with b(1) False show ?thesis by (simp add: deliver_arrival_def Let_def)
  qed
qed

lemma accounts_of: "budget_ok s \<Longrightarrow> accounts (sm_budget s) (reserved s) (holds s)"
  by (simp add: budget_ok_def)

lemma hand_off_safe:
  assumes "budget_ok s" "sm_stopping s"
  shows "safe (hand_off s)"
proof (cases "sm_pending s")
  case None
  with assms show ?thesis by (simp add: hand_off_def)
next
  case (Some q)
  then obtain item i where q: "sm_pending s = Some (item, i)" by (cases q) auto
  let ?s = "s\<lparr>sm_pending := None\<rparr>"
  let ?n = "int (snd item)"
  have a: "accounts (sm_budget s) (add_mset (i, ?n) (reserved ?s)) (holds s)"
    using accounts_of [OF assms(1)] q by (simp add: stream_account)
  from accounts_waiter [OF a] obtain w where w: "store (sm_budget s) i = Some w" .
  have ok: "budget_ok (?s\<lparr>sm_budget := b\<rparr>)"
    if "steady (sm_budget s) b" "accounts b (reserved ?s) (holds s)" for b
    using that by (intro budget_ok_steady [OF assms(1)]) (simp_all add: stream_account)
  have still: "steady (sm_budget s) (sm_budget s)" by (simp add: steady_def)
  consider "\<not> w_ready w" | "w_ready w" "failure w \<noteq> None" | "w_ready w" "failure w = None" by blast
  then show ?thesis
  proof cases
    case 1
    obtain b where b: "cancel i (sm_budget s) = Some b" "accounts b (reserved ?s) (holds s)" "steady (sm_budget s) b"
      by (rule accounts_cancel [OF a])
    from deliver_arrival_safe [OF ok [OF b(3,2)]] assms(2) 1 w q b(1) show ?thesis
      by (simp add: hand_off_def Let_def)
  next
    case 2
    then have "accounts (sm_budget s) (reserved ?s) (holds s)" using accounts_refused [OF a w] by blast
    from deliver_arrival_safe [OF ok [OF still this]] assms(2) 2 w q show ?thesis
      by (simp add: hand_off_def Let_def)
  next
    case 3
    then have h: "accounts (sm_budget s) (reserved ?s) (add_mset ?n (holds s))" by (rule accounts_accept [OF a w])
    have "budget_ok (?s\<lparr>sm_inbox := sm_inbox s @ [item]\<rparr>)"
      using h still by (intro budget_ok_steady [OF assms(1)]) (simp_all add: stream_account)
    moreover have "budget_ok ?s"
      using accounts_mono [OF h, of "holds s"] still
      by (intro budget_ok_steady [OF assms(1)]) (simp_all add: stream_account)
    ultimately show ?thesis using 3 w q by (simp add: hand_off_def Let_def has_room_def)
  qed
qed

lemma reserve_stopped: "budget_ok s \<Longrightarrow> sm_stopping s \<Longrightarrow> reserve 1 (int n) (sm_budget s) \<noteq> Some (Inr i, b)"
  by (auto simp: budget_ok_def reserve_def)

lemma take_frame_safe:
  assumes "budget_ok s" "sm_mode s = Selecting" "sm_pending s = None" "\<not> sm_slot s"
  shows "safe (take_frame ops f s)"
proof -
  let ?s = "s\<lparr>sm_pump := PumpIdle, sm_frames := sm_frames s + 1, sm_slot := True\<rparr>"
  let ?z = "sm_session s"
  have ends: "safe (end_coordinator e t)"
    if "sm_budget t = sm_budget s" "sm_pending t = None" "sm_inbox t = sm_inbox s" "sm_writers t = sm_writers s"
      "sm_stopping t = sm_stopping s" "sm_capacity t = sm_capacity s" for e t
    using that assms(2,3) by (intro end_coordinator_safe budget_ok_same [OF assms(1)]) (simp_all add: stream_account)
  consider (malformed) e where "so_decode ops ?z f = Inl e"
    | (rejected) p e where "so_decode ops ?z f = Inr p" "resolve_transition ops ?z p True = Inl e"
    | (arrived) p d where "so_decode ops ?z f = Inr p" "resolve_transition ops ?z p True = Inr d"
    by (metis sum.exhaust_sel)
  then show ?thesis
  proof cases
    case malformed
    then show ?thesis
      using assms(4) by (auto simp: take_frame_def decode_inbound_def Let_def release_processing_def assms(3) intro!: ends)
  next
    case rejected
    then show ?thesis
      using assms(4) by (auto simp: take_frame_def decode_inbound_def Let_def release_processing_def assms(3) intro!: ends)
  next
    case arrived
    let ?t = "?s\<lparr>sm_session := commit ops d ?z, sm_arrived := sm_arrived s @ [p]\<rparr>"
    let ?n = "so_length ops p"
    have t: "budget_ok ?t" by (rule budget_ok_same [OF assms(1)]) (simp_all add: stream_account)
    have d: "decode_inbound ops f (s\<lparr>sm_pump := PumpIdle\<rparr>) =
       (case reserve 1 (int ?n) (sm_budget s) of
          None \<Rightarrow> None
        | Some (Inl e, b) \<Rightarrow>
            if \<not> sm_stopping s then Some (Some e, ?t\<lparr>sm_budget := b\<rparr>)
            else map_option (Pair None) (deliver_arrival (p, ?n) (?t\<lparr>sm_budget := b\<rparr>))
        | Some (Inr i, b) \<Rightarrow> Some (None, ?t\<lparr>sm_budget := b, sm_pending := Some ((p, ?n), i)\<rparr>))"
      using assms(4) arrived
      by (simp add: decode_inbound_def Let_def release_processing_def split: option.split sum.split prod.split)
    from accounts_of [OF assms(1)] show ?thesis
    proof (cases rule: accounts_reserve [where n = "int ?n"])
      case (refused e)
      show ?thesis
      proof (cases "sm_stopping s")
        case False
        with refused d assms(3) show ?thesis by (auto simp: take_frame_def intro!: ends)
      next
        case True
        have "safe (deliver_arrival (p, ?n) ?t)"
          using True assms(3) by (intro deliver_arrival_safe [OF t]) simp_all
        moreover have "?t\<lparr>sm_budget := sm_budget s\<rparr> = ?t" by simp
        ultimately show ?thesis
          using refused d True by (auto simp: take_frame_def safe_def split: option.splits)
      qed
    next
      case (queued i b)
      with reserve_stopped [OF assms(1)] have "\<not> sm_stopping s" by blast
      with queued assms(2,3) have "budget_ok (?t\<lparr>sm_budget := b, sm_pending := Some ((p, ?n), i)\<rparr>)"
        by (intro budget_ok_steady [OF assms(1)]) (simp_all add: stream_account)
      with queued d show ?thesis by (simp add: take_frame_def)
    qed
  qed
qed

lemma take_granted_safe:
  assumes "budget_ok s" "sm_mode s = Selecting" "sm_pending s = Some (item, i)" "waiter_ready s i"
  shows "safe (take_granted s)"
    and "take_granted s = Some s' \<Longrightarrow> sm_mode s' = Selecting \<or> sm_mode s' = Finished"
proof -
  let ?s = "s\<lparr>sm_inbox := sm_inbox s @ [item], sm_pending := None, sm_mode := Selecting\<rparr>"
  let ?n = "int (snd item)"
  have a: "accounts (sm_budget s) (add_mset (i, ?n) (reserved ?s)) (holds s)"
    using accounts_of [OF assms(1)] assms(3) by (simp add: stream_account)
  from accounts_waiter [OF a] obtain w where w: "store (sm_budget s) i = Some w" .
  with assms(4) have r: "w_ready w" by (simp add: waiter_ready_def)
  have "safe (take_granted s) \<and> (take_granted s = Some s' \<longrightarrow> sm_mode s' = Selecting \<or> sm_mode s' = Finished)"
  proof (cases "failure w")
    case (Some e)
    have "safe (end_coordinator e s)"
      using assms(2) by (intro end_coordinator_safe budget_ok_same [OF assms(1)]) (simp_all add: stream_account)
    with Some w assms(3) show ?thesis
      by (auto simp: take_granted_def dest!: end_coordinator_shape)
  next
    case None
    then have "w_granted w" by (auto simp: failure_def split: if_splits option.splits)
    from accounts_used [OF a w this] have "1 + int (length (sm_inbox s)) \<le> used_items (sm_budget s)"
      by (simp add: holds_def inbox_holds_def)
    then have room: "has_room s"
      using assms(1,3) by (auto simp: budget_ok_def has_room_def)
    have "accounts (sm_budget s) (reserved ?s) (add_mset ?n (holds s))"
      by (rule accounts_accept [OF a w r None])
    then have "budget_ok ?s"
      using assms(2,3) by (intro budget_ok_steady [OF assms(1)]) (simp_all add: stream_account steady_def)
    with None room w assms(3) show ?thesis by (auto simp: take_granted_def deliver_pending_def)
  qed
  then show "safe (take_granted s)"
    "take_granted s = Some s' \<Longrightarrow> sm_mode s' = Selecting \<or> sm_mode s' = Finished" by auto
qed

text \<open>A request that the coordinator holds is answered, and its item goes back.\<close>

lemma writer_kinds [simp]:
  "writer_reserved (finish_request r w) = writer_reserved w" "writer_holds (finish_request r w) = writer_holds w"
  "writer_reserved (w\<lparr>wr_state := st\<rparr>) = writer_reserved w" "writer_holds (w\<lparr>wr_state := st\<rparr>) = writer_holds w"
  by (simp_all add: writer_reserved_def writer_holds_def finish_request_def)

lemma same_kind:
  assumes "f w = f (xs ! k)"
  shows "sum_list (map f (xs[k := w])) = (sum_list (map f xs) :: 'b :: comm_monoid_add)"
proof (cases "k < length xs")
  case True
  then show ?thesis using assms by (simp only: sum_others)
qed (simp add: list_update_beyond)

lemma release_held_safe:
  assumes "budget_ok s" "holds s = add_mset 0 (holds t)" "reserved t = reserved s" "sm_budget t = sm_budget s"
    "sm_stopping t = sm_stopping s" "sm_capacity t = sm_capacity s" "sm_pending t = sm_pending s"
  shows "safe (release_write t)"
  using accounts_of [OF assms(1)] assms(2-) by (intro release_write_safe [OF _ assms(1)]) simp_all

lemma prepare_write_safe:
  assumes "budget_ok s" "sm_mode s = Preparing k"
  shows "safe (prepare_write ops k s)"
proof (cases "encode_write ops (sm_session s) (wr_packet (sm_writers s ! k))")
  case (Inl e)
  then show ?thesis
    using assms(2)
    by (auto simp: prepare_write_def Let_def stream_account same_kind intro!: release_held_safe [OF assms(1)])
next
  case (Inr r)
  then obtain d f where r: "encode_write ops (sm_session s) (wr_packet (sm_writers s ! k)) = Inr (d, f)"
    by (cases r) auto
  show ?thesis
  proof (cases "begin_request (sm_writers s ! k)")
    case None
    with r assms(2) show ?thesis
      by (auto simp: prepare_write_def Let_def stream_account intro!: release_held_safe [OF assms(1)])
  next
    case (Some w)
    with r assms(2) show ?thesis
      by (auto simp: prepare_write_def Let_def stream_account begin_request_def same_kind split: if_splits
          intro!: budget_ok_same [OF assms(1)])
  qed
qed

lemma write_unsent_safe:
  assumes "budget_ok s" "sm_mode s = Writing k d f"
  shows "safe (write_unsent k s)"
  using assms(2)
  by (auto simp: write_unsent_def stream_account same_kind intro!: release_held_safe [OF assms(1)])

lemma finish_write_safe:
  assumes "budget_ok s" "sm_mode s = Writing k d f"
  shows "safe (finish_write ops k d f outcome s)"
proof (cases outcome)
  case None
  then show ?thesis
    using assms(2)
    by (auto simp: finish_write_def stream_account same_kind intro!: release_held_safe [OF assms(1)])
next
  case (Some e)
  let ?t = "fail e (update_writer k (finish_request (Some e)) s)"
  have "budget_ok ?t"
    unfolding fail_account by (rule budget_ok_same [OF assms(1)]) (simp_all add: stream_account same_kind)
  from stop_safe [OF this] obtain b where b: "stop ?t = Some (?t\<lparr>sm_stopping := True, sm_budget := b\<rparr>)"
    "budget_ok (?t\<lparr>sm_stopping := True, sm_budget := b\<rparr>)" .
  have "safe (release_write (?t\<lparr>sm_stopping := True, sm_budget := b, sm_mode := Finished\<rparr>))"
    using assms(2) by (intro release_held_safe [OF b(2)]) (simp_all add: stream_account)
  with Some b(1) show ?thesis by (simp add: finish_write_def end_coordinator_def)
qed

text \<open>Shutdown and callers.\<close>

lemma begin_shutdown_safe:
  assumes "budget_ok s" "sm_mode s = Selecting"
  shows "budget_ok (begin_shutdown ops s)"
  using assms(2)
  by (auto simp: begin_shutdown_def shutdown_failed_def shutdown_succeeded_def Let_def stream_account
      split: sum.splits option.splits intro!: budget_ok_same [OF assms(1)])

lemma finish_disconnect_safe:
  assumes "budget_ok s" "sm_mode s = Disconnecting f"
  shows "budget_ok (finish_disconnect f outcome s)"
  using assms(2)
  by (auto simp: finish_disconnect_def shutdown_failed_def shutdown_succeeded_def stream_account
      split: option.splits intro!: budget_ok_same [OF assms(1)])

lemma write_call_safe:
  assumes "budget_ok s"
  shows "safe (write_call p s)"
proof (cases "writable s")
  case (Some e)
  then show ?thesis
    by (auto simp: write_call_def Let_def stream_account writer_reserved_def writer_holds_def
        intro!: budget_ok_same [OF assms])
next
  case None
  from accounts_of [OF assms] show ?thesis
  proof (cases rule: accounts_reserve [where n = 0])
    case (refused e)
    with None show ?thesis
      by (auto simp: write_call_def Let_def stream_account writer_reserved_def writer_holds_def
          intro!: budget_ok_same [OF assms])
  next
    case (queued i b)
    with None show ?thesis
      by (auto simp: write_call_def Let_def stream_account writer_reserved_def writer_holds_def ac_simps
          intro!: budget_ok_steady [OF assms])
  qed
qed

lemma reserving_account:
  assumes "phase_of s k (Reserving i)"
  shows "reserved s = add_mset (i, 0) (reserved (set_phase k (Returned r) s))"
    and "reserved (set_phase k Offering s) = reserved (set_phase k (Returned r) s)"
    and "holds (set_phase k (Returned r) s) = holds s"
    and "holds (set_phase k Offering s) = add_mset 0 (holds s)"
  using assms
  by (simp_all add: phase_of_def stream_account writer_reserved_def writer_holds_def sum_others [of k "sm_writers s"])

lemma offering_account:
  assumes "phase_of s k Offering"
  shows "holds s = add_mset 0 (holds (set_phase k (Returned r) s))"
    and "reserved (set_phase k (Returned r) s) = reserved s"
    and "reserved (set_phase k Waiting s) = reserved s"
    and "holds (set_phase k Waiting s) = holds (set_phase k (Returned r) s)"
  using assms
  by (simp_all add: phase_of_def stream_account writer_reserved_def writer_holds_def sum_others [of k "sm_writers s"])

lemma set_phase_pending [simp]:
  "pending_reserved (set_phase k ph s) = pending_reserved s"
  by (simp add: pending_reserved_def)

lemma write_answered_safe:
  assumes "budget_ok s" "phase_of s k (Reserving i)" "waiter_ready s i"
  shows "safe (write_answered k i s)"
proof -
  have a: "accounts (sm_budget s) (add_mset (i, 0) (reserved (set_phase k (Returned r) s))) (holds s)" for r
    using accounts_of [OF assms(1)] by (simp only: reserving_account(1) [OF assms(2), of r])
  from accounts_waiter [OF a] obtain w where w: "store (sm_budget s) i = Some w" .
  with assms(3) have r: "w_ready w" by (simp add: waiter_ready_def)
  have still: "steady (sm_budget s) (sm_budget s)" by (simp add: steady_def)
  show ?thesis
  proof (cases "failure w")
    case None
    from accounts_accept [OF a w r None] have "budget_ok (set_phase k Offering s)"
      using still by (intro budget_ok_steady [OF assms(1)])
        (simp_all add: reserving_account(2) [OF assms(2), of None] reserving_account(4) [OF assms(2)])
    with None w show ?thesis by (simp add: write_answered_def)
  next
    case (Some e)
    from accounts_refused [OF a w r Some] have "budget_ok (set_phase k (Returned (Some e)) s)"
      using still by (intro budget_ok_steady [OF assms(1)]) (simp_all add: reserving_account [OF assms(2)])
    with Some w show ?thesis by (simp add: write_answered_def)
  qed
qed

lemma write_unreserved_safe:
  assumes "budget_ok s" "phase_of s k (Reserving i)"
  shows "safe (write_unreserved k i s)"
proof -
  let ?t = "set_phase k (Returned (Some ErrCanceled))"
  have "accounts (sm_budget s) (add_mset (i, 0) (reserved (?t s))) (holds s)"
    using accounts_of [OF assms(1)] by (simp only: reserving_account(1) [OF assms(2), of "Some ErrCanceled"])
  then obtain b where b: "cancel i (sm_budget s) = Some b" "accounts b (reserved (?t s)) (holds s)" "steady (sm_budget s) b"
    by (rule accounts_cancel)
  have "reserved (?t (s\<lparr>sm_budget := b\<rparr>)) = reserved (?t s)" "holds (?t (s\<lparr>sm_budget := b\<rparr>)) = holds (?t s)"
    by (simp_all add: stream_account)
  with b have "budget_ok (?t (s\<lparr>sm_budget := b\<rparr>))"
    by (intro budget_ok_steady [OF assms(1)]) (simp_all add: reserving_account [OF assms(2)])
  with b(1) show ?thesis by (simp add: write_unreserved_def)
qed

lemma write_withdrawn_safe:
  assumes "budget_ok s" "phase_of s k Offering"
  shows "safe (write_withdrawn k e s)"
  unfolding write_withdrawn_def
  by (rule release_held_safe [OF assms(1) offering_account(1) [OF assms(2)]])
    (simp_all add: offering_account [OF assms(2)])

lemma write_taken_safe:
  assumes "budget_ok s" "phase_of s k Offering" "sm_mode s = Selecting"
  shows "budget_ok (set_phase k Waiting (s\<lparr>sm_mode := Preparing k\<rparr>))"
proof (rule budget_ok_same [OF assms(1)])
  have "reserved (set_phase k Waiting (s\<lparr>sm_mode := Preparing k\<rparr>)) = reserved (set_phase k Waiting s)"
    by (simp add: stream_account)
  then show "reserved (set_phase k Waiting (s\<lparr>sm_mode := Preparing k\<rparr>)) = reserved s"
    by (simp add: offering_account [OF assms(2)])
  have "holds (set_phase k Waiting (s\<lparr>sm_mode := Preparing k\<rparr>)) = add_mset 0 (holds (set_phase k Waiting s))"
    using assms(3) by (simp add: stream_account)
  then show "holds (set_phase k Waiting (s\<lparr>sm_mode := Preparing k\<rparr>)) = holds s"
    using offering_account(1,4) [OF assms(2), of None] by simp
qed simp_all

text \<open>A caller whose request is with the coordinator has nothing reserved and holds nothing.\<close>

lemma waiting_account:
  assumes "phase_of s k Waiting" "budget_ok s"
  shows "budget_ok (set_phase k (Returned r) s)"
  using assms(1)
  by (intro budget_ok_same [OF assms(2)])
    (simp_all add: phase_of_def stream_account writer_reserved_def writer_holds_def sum_others [of k "sm_writers s"])

lemma write_cancelled_safe:
  assumes "budget_ok s" "phase_of s k Waiting"
  shows "safe (write_cancelled k s)"
proof (cases "abandon_request (sm_writers s ! k)")
  case None
  have "budget_ok (fail ErrAmbiguousWrite (set_phase k (Returned (Some ErrAmbiguousWrite)) s))"
    by (simp add: waiting_account [OF assms(2,1)])
  from stop_safe' [OF this] None show ?thesis by (simp add: write_cancelled_def)
next
  case (Some w)
  then have w: "w = (sm_writers s ! k)\<lparr>wr_state := WriteAbandoned\<rparr>" by (auto simp: abandon_request_def split: if_splits)
  let ?t = "update_writer k (\<lambda>_. w) s"
  have "budget_ok ?t"
    by (rule budget_ok_same [OF assms(1)]) (simp_all add: stream_account w same_kind)
  moreover have "phase_of ?t k Waiting" using assms(2) w by (simp add: phase_of_def)
  ultimately show ?thesis using Some waiting_account [of ?t k] by (simp add: write_cancelled_def)
qed

lemma read_take_safe:
  assumes "budget_ok s" "sm_inbox s \<noteq> []"
  shows "safe (read_take s)"
proof -
  obtain p n rest where q: "sm_inbox s = (p, n) # rest" using assms(2) by (cases "sm_inbox s") auto
  let ?t = "s\<lparr>sm_inbox := rest, sm_taken := sm_taken s @ [p]\<rparr>"
  have "accounts (sm_budget s) (reserved s) (add_mset (int n) (holds ?t))"
    using accounts_of [OF assms(1)] q by (simp add: stream_account)
  then obtain b where b: "release 1 (int n) (sm_budget s) = Some b" "accounts b (reserved s) (holds ?t)"
    "steady (sm_budget s) b" by (rule accounts_release)
  then have "budget_ok (s\<lparr>sm_budget := b, sm_inbox := rest, sm_taken := sm_taken s @ [p]\<rparr>)"
    by (intro budget_ok_steady [OF assms(1)]) (simp_all add: stream_account)
  with b(1) q show ?thesis by (simp add: read_take_def)
qed

section \<open>No step panics\<close>

definition stream_ok :: "('z, 'p, 't) stream \<Rightarrow> bool" where
  "stream_ok s \<longleftrightarrow> budget_ok s \<and> slot_ok s \<and> sm_mode s \<noteq> Delivering"

lemma safe_Some: "safe r \<Longrightarrow> \<exists>s. r = Some s \<and> budget_ok s"
  by (cases r) auto

lemma step_safe:
  assumes "stream_step ops s r" "stream_ok s"
  shows "safe r"
proof -
  have ok: "budget_ok s" "slot_ok s" "sm_mode s \<noteq> Delivering" using assms(2) by (auto simp: stream_ok_def)
  from assms(1) show ?thesis
  proof cases
    case (read_failed e)
    let ?s = "s\<lparr>sm_pump := PumpDone, sm_slot := True\<rparr>"
    have "budget_ok ?s" by (rule budget_ok_same [OF ok(1)]) (simp_all add: stream_account)
    then show ?thesis
      using read_failed ok(2) stop_safe' [of "fail e ?s"]
      by (simp add: pump_failed_def release_processing_def slot_ok_def report_read_failure_def)
  next
    case (pump_stops f)
    then show ?thesis
      using ok(2) by (auto simp: pump_stopped_def release_processing_def slot_ok_def stream_account
          intro!: budget_ok_same [OF ok(1)])
  next
    case (frame_taken f)
    then show ?thesis using ok take_frame_safe by (simp add: slot_ok_def)
  next
    case (stops)
    from safe_Some [OF hand_off_safe [OF ok(1) stops(3)]] obtain t where t: "hand_off s = Some t" "budget_ok t"
      by blast
    have m: "sm_mode t = sm_mode s" using hand_off_shape [OF t(1)] by auto
    have "budget_ok (t\<lparr>sm_mode := Finished\<rparr>)"
      using stops m ok(3) by (intro budget_ok_same [OF t(2)]) (auto simp: stream_account)
    with t(1) stops(1) show ?thesis by (simp add: select_stopped_def)
  next
    case (controlled c)
    then show ?thesis
      by (auto simp: process_control_def stream_account split: sum.splits intro!: budget_ok_same [OF ok(1)])
  next
    case ended
    from stop_safe [OF ok(1)] obtain b where b: "stop s = Some (s\<lparr>sm_stopping := True, sm_budget := b\<rparr>)"
      "budget_ok (s\<lparr>sm_stopping := True, sm_budget := b\<rparr>)" .
    have "budget_ok (s\<lparr>sm_stopping := True, sm_budget := b, sm_done := True\<rparr>)"
      by (rule budget_ok_same [OF b(2)]) (simp_all add: stream_account)
    with ended b(1) show ?thesis by (simp add: end_stream_def)
  next
    case (aborted e)
    then show ?thesis using stop_safe' [of "fail e s"] ok(1) by (simp add: abort_def)
  qed (use ok in \<open>auto simp: take_granted_safe(1) prepare_write_safe write_unsent_safe finish_write_safe
      begin_shutdown_safe finish_disconnect_safe write_call_safe write_answered_safe write_unreserved_safe
      write_withdrawn_safe waiting_account write_cancelled_safe read_take_safe write_taken_safe
      stream_account intro!: budget_ok_same [OF ok(1)]\<close>)
qed

lemma step_delivering:
  assumes "stream_step ops s (Some s')" "stream_ok s"
  shows "sm_mode s' \<noteq> Delivering"
proof -
  have ok: "budget_ok s" "sm_mode s \<noteq> Delivering" using assms(2) by (auto simp: stream_ok_def)
  from assms(1) show ?thesis
  proof cases
    case (frame_taken f)
    from frame_taken(1) [symmetric] ok(2) show ?thesis
      by (cases rule: take_frame_shape) (auto dest!: decode_inbound_shape)
  next
    case (granted item i)
    from take_granted_safe(2) [OF ok(1) granted(2-4) granted(1) [symmetric]] show ?thesis by auto
  qed (use ok in \<open>auto simp: pump_failed_def release_processing_def report_read_failure_def bind_eq_Some_conv
      pump_stopped_def prepare_write_def write_unsent_def finish_write_def process_control_def begin_shutdown_def
      shutdown_failed_def shutdown_succeeded_def finish_disconnect_def write_call_def write_answered_def
      write_unreserved_def write_withdrawn_def write_cancelled_def read_take_def abort_def Let_def
      eq_commute [of "Some s'"] dest!: stream_shape select_stopped_shape split: stream_splits\<close>)
qed

lemma stream_ok_step: "stream_step ops s (Some s') \<Longrightarrow> stream_ok s \<Longrightarrow> stream_ok s'"
  using step_safe step_delivering slot_step by (fastforce simp: stream_ok_def)

lemma stream_ok_reachable: "stream_reachable ops lim z s \<Longrightarrow> stream_ok s"
proof (induction rule: stream_reachable.induct)
  case start
  let ?b = "new_budget (queue_items lim) (queued_byte_capacity lim)"
  have "client_ok \<lparr>bud = ?b, outstanding = {}, holding = []\<rparr>"
    using client_ok_reachable [OF budget_reachable.start, of "queue_items lim" "queued_byte_capacity lim"]
    by (simp add: new_client_def)
  then have "accounts ?b {#} {#}" by (auto simp: accounts_def)
  then show ?case
    by (simp add: stream_ok_def slot_ok_def budget_ok_def stream_account new_stream_def)
      (simp add: new_budget_def)
qed (rule stream_ok_step)

lemma order_reachable: "stream_reachable ops lim z s \<Longrightarrow> order_ok s"
proof (induction rule: stream_reachable.induct)
  case start
  show ?case by (simp add: order_ok_def onward_def new_stream_def)
qed (rule order_step)

lemma cause_step:
  assumes "stream_step ops s (Some s')" "sm_cause_set s"
  shows "sm_cause_set s' \<and> sm_cause s' = sm_cause s"
  using assms
proof (cases rule: stream_step.cases)
  case (frame_taken f)
  from frame_taken(1) [symmetric] assms(2) show ?thesis
    by (cases rule: take_frame_shape) (auto dest!: decode_inbound_shape)
qed (auto simp: stream_defs eq_commute [of "Some s'"]
    dest!: stream_shape select_stopped_shape split: stream_splits)

section \<open>An inbound example\<close>

text \<open>A frame arrives on the stream of the Write example, and its packet is queued.\<close>

definition echo_framed :: "(nat, byte list, nat) stream" where
  "echo_framed = echo\<lparr>sm_slot := False, sm_pump := PumpHanding [5]\<rparr>"
definition echo_pending :: "(nat, byte list, nat) stream" where
  "echo_pending = the (take_frame echo_ops [5] echo_framed)"
definition echo_queued :: "(nat, byte list, nat) stream" where "echo_queued = the (take_granted echo_pending)"
definition echo_aborted :: "(nat, byte list, nat) stream" where "echo_aborted = the (abort EOF echo_queued)"

lemma echo_inbound_facts:
  "sm_pump echo = PumpIdle \<and> sm_slot echo \<and> sm_mode echo_framed = Selecting \<and> sm_pending echo_framed = None \<and>
   sm_pump echo_framed = PumpHanding [5] \<and> \<not> Option.is_none (take_frame echo_ops [5] echo_framed) \<and>
   sm_mode echo_pending = Selecting \<and> sm_pending echo_pending = Some (([5], 1), 0) \<and> waiter_ready echo_pending 0 \<and>
   \<not> Option.is_none (store (sm_budget echo_pending) 0) \<and> failure (the (store (sm_budget echo_pending) 0)) = None \<and>
   \<not> Option.is_none (take_granted echo_pending) \<and> sm_inbox echo_queued = [([5], 1)] \<and> sm_arrived echo_queued = [[5]] \<and>
   sm_taken echo_queued = [] \<and> \<not> Option.is_none (abort EOF echo_queued) \<and>
   sm_cause_set echo_aborted \<and> sm_cause echo_aborted = Some EOF"
  by code_simp

lemma echo_inbound_reachable:
  "stream_reachable echo_ops echo_limits 0 echo_pending" "stream_reachable echo_ops echo_limits 0 echo_queued"
  "stream_reachable echo_ops echo_limits 0 echo_aborted"
proof -
  let ?R = "stream_reachable echo_ops echo_limits 0"
  let ?s = "echo\<lparr>sm_slot := False, sm_pump := PumpFraming\<rparr>"
  have "?R echo" unfolding echo_def by (rule stream_reachable.start)
  then have "?R ?s"
    by (rule stream_reachable.step [OF _ stream_step.acquire_slot]) (simp_all add: echo_inbound_facts)
  then have "?R (?s\<lparr>sm_pump := PumpHanding [5]\<rparr>)"
    by (rule stream_reachable.step [OF _ stream_step.frame_read]) simp
  then have "?R echo_framed" by (simp add: echo_framed_def)
  then show p: "?R echo_pending"
    unfolding echo_pending_def
    by (rule stream_reachable_the [OF _ stream_step.frame_taken]) (simp_all add: echo_inbound_facts)
  show q: "?R echo_queued"
    unfolding echo_queued_def
    by (rule stream_reachable_the [OF p stream_step.granted [of _ "([5], 1)" 0]]) (simp_all add: echo_inbound_facts)
  show "?R echo_aborted"
    unfolding echo_aborted_def
    by (rule stream_reachable_the [OF q stream_step.aborted]) (simp add: echo_inbound_facts)
qed

section \<open>Properties\<close>



text \<open>
  granted capacity is real. In every reachable state, the Read queue has room for a pending
  packet whose capacity was granted, so delivering it never blocks the coordinator, and until the
  stream stops nothing is in use beyond the capacity of the stream.
\<close>

theorem granted_has_room:
  assumes "stream_reachable ops lim z s"
  shows "sm_mode s \<noteq> Delivering \<and>
    (\<forall>item i w. sm_pending s = Some (item, i) \<and> store (sm_budget s) i = Some w \<and> failure w = None \<longrightarrow> has_room s) \<and>
    (\<not> sm_stopping s \<longrightarrow> used_items (sm_budget s) \<le> int (sm_capacity s))"
proof -
  have ok: "budget_ok s" "sm_mode s \<noteq> Delivering"
    using stream_ok_reachable [OF assms] by (auto simp: stream_ok_def)
  have "has_room s"
    if q: "sm_pending s = Some (item, i)" and w: "store (sm_budget s) i = Some w" "failure w = None" for item i w
  proof -
    have a: "accounts (sm_budget s) (add_mset (i, int (snd item)) (reserved (s\<lparr>sm_pending := None\<rparr>))) (holds s)"
      using accounts_of [OF ok(1)] q by (simp add: stream_account)
    have "w_granted w" using w(2) by (auto simp: failure_def split: if_splits option.splits)
    from accounts_used [OF a w(1) this] have "1 + int (length (sm_inbox s)) \<le> used_items (sm_budget s)"
      by (simp add: holds_def inbox_holds_def)
    then show ?thesis using ok(1) q by (auto simp: budget_ok_def has_room_def)
  qed
  moreover have "\<not> sm_stopping s \<longrightarrow> used_items (sm_budget s) \<le> int (sm_capacity s)"
    using ok(1) unfolding budget_ok_def by blast
  ultimately show ?thesis using ok(2) by blast
qed

theorem granted_has_room_witness: "has_room echo_pending"
proof -
  obtain w where w: "store (sm_budget echo_pending) 0 = Some w" "failure w = None"
    using echo_inbound_facts by (auto simp: Option.is_none_def)
  with granted_has_room [OF echo_inbound_reachable(1)] show ?thesis by (auto simp: echo_inbound_facts)
qed

text \<open>
  C24: Read gets the packets in their order. What Read has returned and what is queued or waits for
  room is always a subsequence of the packets that arrived, and exactly those packets, in their
  order, until the stream stops: nothing is duplicated or reordered, ever, and nothing is lost
  before the stop.
\<close>

theorem read_order:
  assumes "stream_reachable ops lim z s"
  shows "subseq (onward s) (sm_arrived s) \<and> (\<not> sm_stopping s \<longrightarrow> onward s = sm_arrived s)"
  using order_reachable [OF assms] by (simp add: order_ok_def)

theorem read_order_witness:
  "onward echo_queued = [[5]] \<and> subseq (onward echo_queued) (sm_arrived echo_queued)"
proof -
  have "sm_pending echo_queued = None" by code_simp
  then have "onward echo_queued = [[5]]" by (simp add: onward_def echo_inbound_facts)
  with read_order [OF echo_inbound_reachable(2)] show ?thesis by simp
qed

text \<open>
  the first cause stands. Once a stream has failed or succeeded, no later failure changes what it
  reports: the cause, and the error Read returns at the end, stay what they were.
\<close>

theorem first_cause:
  assumes "sm_cause_set s" and "stream_run ops s t"
  shows "sm_cause_set t \<and> sm_cause t = sm_cause s \<and> terminal_error t = terminal_error s"
proof -
  from assms(2) have "sm_cause_set t \<and> sm_cause t = sm_cause s"
    unfolding stream_run_def
    by (induction rule: rtranclp_induct) (use assms(1) cause_step in \<open>fastforce+\<close>)
  then show ?thesis by (simp add: terminal_error_def)
qed

theorem first_cause_witness:
  "stream_run echo_ops echo_aborted (echo_aborted\<lparr>sm_closing := True\<rparr>) \<and>
   terminal_error (echo_aborted\<lparr>sm_closing := True\<rparr>) = EOF"
proof -
  have t: "stream_run echo_ops echo_aborted (echo_aborted\<lparr>sm_closing := True\<rparr>)"
    unfolding stream_run_def by (rule r_into_rtranclp) (rule stream_step.shutting_down)
  have "sm_cause_set echo_aborted" "terminal_error echo_aborted = EOF"
    by (simp_all add: echo_inbound_facts terminal_error_def)
  with t first_cause [OF _ t] show ?thesis by simp
qed

text \<open>
  A packet that was decoded can still be lost when the stream fails while it waits: a Write that the
  transport refuses ends the coordinator, which leaves the pending packet where it is.
\<close>

lemma failed_write_drops_pending:
  assumes "finish_write ops k d f (Some e) s = Some s'"
  shows "sm_mode s' = Finished \<and> sm_pending s' = sm_pending s \<and> sm_inbox s' = sm_inbox s"
  using assms by (auto simp: finish_write_def bind_eq_Some_conv dest!: stream_shape)

end
