(* ===== verification/Packet_Schema.thy ===== *)
theory Packet_Schema
  imports Wire_NBT
begin

unbundle bit_operations_syntax

text \<open>
  generated/java: the codecs of packets. A generated Decode reads the fields of its struct from a
  buffer one after the other, and the Encode beside it writes them in the same order; lists,
  optional values, registry holders and switches nest such sequences, and a shared type is decoded
  by its own Decode inside one nesting level. A packet type is the list of what its Decode and its
  Encode do, a value the list of its struct's fields; \<open>decode_fields\<close> and \<open>encode_fields\<close> run
  the list on the operations of \<open>buffer\<close>.

  The field of a switch holds the branch its discriminator selects: the Go struct has a field for
  each branch and only that one is on the wire. Shared types refer to each other in a cycle, and
  the decoder's fuel counts the nesting levels left: the recursion limit of the buffer ends it
  first (\<open>decode_fuel_enough\<close>).

  The packets of the two versions are in Packets_V47 and Packets_V775. LPVec3 fields, whose
  quantisation is float arithmetic, are not modelled, and neither is a nil packet.
\<close>

section \<open>Declarations\<close>

datatype field_kind =
    FVarInt | FVarLong | FI8 | FU8 | FI16 | FU16 | FI32 | FU32 | FI64 | FU64 | FF32 | FF64
  | FBool | FString | FByteArray | FUUID
  | FNBT | FAnonymousNBT | FOptionalNBT | FAnonOptionalNBT
  | FPlugin | FRest

text \<open>
  A list's length is a VarInt, an integer of another width, the value of an earlier field, or a
  constant of the type.
\<close>

datatype counter = Prefixed | Width field_kind | Of string | Const int

datatype case_key = KInt int | KText string | KBool bool

record bit_segment =
  seg_name :: string
  seg_offset :: nat
  seg_width :: nat
  seg_signed :: bool

datatype schema =
    Field string field_kind
  | Mapped string field_kind "(int \<times> string) list" "(string \<times> int) list"
  | Bits string field_kind "bit_segment list"
  | Flags string field_kind "(string \<times> int) list"
  | Items string counter "schema list"
  | Raw string counter
  | Maybe string "schema list"
  | Shared string string
  | Switch string "(case_key \<times> schema list) list" "schema list"
  | Holder string "schema list"
  | Holder_Set string "schema list"
  | Terminated string byte "schema list"

definition bits :: "string \<Rightarrow> nat \<Rightarrow> nat \<Rightarrow> bool \<Rightarrow> bit_segment" where
  "bits name at width sg =
     \<lparr>seg_name = name, seg_offset = at, seg_width = width, seg_signed = sg\<rparr>"

text \<open>
  \<open>Shared f t\<close> is the field \<open>f\<close> of the shared type \<open>t\<close>, \<open>Switch\<close> names the path of the field it
  looks at, and \<open>Mapped\<close> has the two tables of a mapper.
\<close>

text \<open>The name a shared type enters its nesting level with, and its fields.\<close>

type_synonym shared_types = "(string \<times> string \<times> schema list) list"

section \<open>Values\<close>

datatype field_value =
    V8 byte
  | V16 "16 word"
  | V32 i32
  | V64 i64
  | VBool bool
  | VBytes bytes
  | VNBT "bytes option"
  | VSymbol string
  | VInts "int list"
  | VFlags "bool list"
  | VItems "field_value list list"
  | VMaybe "field_value list option"
  | VStruct "field_value list"
  | VCase "field_value list"
  | VId i32
  | VInline "field_value list"

text \<open>An integer kind's value as the number its Go type holds, and back.\<close>

definition wire_int :: "field_kind \<Rightarrow> field_value \<Rightarrow> int" where
  "wire_int k v = (case v of
     V8 x \<Rightarrow> if k = FU8 then uint x else sint x
   | V16 x \<Rightarrow> if k = FU16 then uint x else sint x
   | V32 x \<Rightarrow> if k = FU32 then uint x else sint x
   | V64 x \<Rightarrow> if k = FU64 then uint x else sint x
   | _ \<Rightarrow> 0)"

definition int_wire :: "field_kind \<Rightarrow> int \<Rightarrow> field_value" where
  "int_wire k i =
     (if k \<in> {FI8, FU8} then V8 (word_of_int i)
      else if k \<in> {FI16, FU16} then V16 (word_of_int i)
      else if k \<in> {FVarInt, FI32, FU32} then V32 (word_of_int i)
      else V64 (word_of_int i))"

section \<open>Single fields\<close>

definition mapB :: "('a \<Rightarrow> 'b) \<Rightarrow> 'a buffer_op \<Rightarrow> 'b buffer_op" where
  "mapB f m = bindB m (\<lambda>v. returnB (f v))"

text \<open>An error that \<open>fmt.Errorf\<close> makes for a field, without a sentinel.\<close>

definition refuse :: "string \<Rightarrow> 'a buffer_op" where
  "refuse path b = (Inl (FieldError path), b)"

fun read_field :: "field_kind \<Rightarrow> string \<Rightarrow> field_value buffer_op" where
  "read_field FVarInt p = mapB V32 (buf_read_varint p)"
| "read_field FVarLong p = mapB V64 (buf_read_varlong p)"
| "read_field FI8 p = mapB V8 (buf_read_i8 p)"
| "read_field FU8 p = mapB V8 (buf_read_u8 p)"
| "read_field FI16 p = mapB V16 (buf_read_i16 p)"
| "read_field FU16 p = mapB V16 (buf_read_u16 p)"
| "read_field FI32 p = mapB V32 (buf_read_i32 p)"
| "read_field FU32 p = mapB V32 (buf_read_u32 p)"
| "read_field FI64 p = mapB V64 (buf_read_i64 p)"
| "read_field FU64 p = mapB V64 (buf_read_u64 p)"
| "read_field FF32 p = mapB V32 (buf_read_f32 p)"
| "read_field FF64 p = mapB V64 (buf_read_f64 p)"
| "read_field FBool p = mapB VBool (buf_read_bool p)"
| "read_field FString p = mapB VBytes (buf_read_string p)"
| "read_field FByteArray p = mapB VBytes (buf_read_byte_array p)"
| "read_field FUUID p = mapB VBytes (buf_read_uuid p)"
| "read_field FNBT p = mapB VBytes (read_nbt p)"
| "read_field FAnonymousNBT p = mapB VBytes (read_anonymous_nbt p)"
| "read_field FOptionalNBT p = mapB VNBT (read_optional_nbt p)"
| "read_field FAnonOptionalNBT p = mapB VNBT (read_anon_optional_nbt p)"
| "read_field FPlugin p = mapB VBytes (read_plugin_payload p)"
| "read_field FRest p = mapB VBytes (read_rest_buffer p)"

text \<open>
  A struct field of another type, or a UUID that is not sixteen bytes, does not exist in Go; here
  it is refused, so no theorem about a written packet can meet one.
\<close>

definition on8 :: "(string \<Rightarrow> byte \<Rightarrow> unit buffer_op) \<Rightarrow> string \<Rightarrow> field_value \<Rightarrow> unit buffer_op" where
  "on8 f p v = (case v of V8 x \<Rightarrow> f p x | _ \<Rightarrow> refuse p)"
definition on16 :: "(string \<Rightarrow> 16 word \<Rightarrow> unit buffer_op) \<Rightarrow> string \<Rightarrow> field_value \<Rightarrow> unit buffer_op" where
  "on16 f p v = (case v of V16 x \<Rightarrow> f p x | _ \<Rightarrow> refuse p)"
definition on32 :: "(string \<Rightarrow> i32 \<Rightarrow> unit buffer_op) \<Rightarrow> string \<Rightarrow> field_value \<Rightarrow> unit buffer_op" where
  "on32 f p v = (case v of V32 x \<Rightarrow> f p x | _ \<Rightarrow> refuse p)"
definition on64 :: "(string \<Rightarrow> i64 \<Rightarrow> unit buffer_op) \<Rightarrow> string \<Rightarrow> field_value \<Rightarrow> unit buffer_op" where
  "on64 f p v = (case v of V64 x \<Rightarrow> f p x | _ \<Rightarrow> refuse p)"
definition on_bool :: "(string \<Rightarrow> bool \<Rightarrow> unit buffer_op) \<Rightarrow> string \<Rightarrow> field_value \<Rightarrow> unit buffer_op" where
  "on_bool f p v = (case v of VBool x \<Rightarrow> f p x | _ \<Rightarrow> refuse p)"
definition on_bytes :: "(string \<Rightarrow> bytes \<Rightarrow> unit buffer_op) \<Rightarrow> string \<Rightarrow> field_value \<Rightarrow> unit buffer_op" where
  "on_bytes f p v = (case v of VBytes x \<Rightarrow> f p x | _ \<Rightarrow> refuse p)"
definition on_nbt :: "(string \<Rightarrow> bytes option \<Rightarrow> unit buffer_op) \<Rightarrow> string \<Rightarrow> field_value \<Rightarrow> unit buffer_op" where
  "on_nbt f p v = (case v of VNBT x \<Rightarrow> f p x | _ \<Rightarrow> refuse p)"

lemmas on_kind_defs = on8_def on16_def on32_def on64_def on_bool_def on_bytes_def on_nbt_def

definition write_array16 :: "string \<Rightarrow> bytes \<Rightarrow> unit buffer_op" where
  "write_array16 p v = (if length v = 16 then buf_write_uuid p v else refuse p)"

fun write_field :: "field_kind \<Rightarrow> string \<Rightarrow> field_value \<Rightarrow> unit buffer_op" where
  "write_field FVarInt = on32 buf_write_varint"
| "write_field FVarLong = on64 buf_write_varlong"
| "write_field FI8 = on8 buf_write_i8"
| "write_field FU8 = on8 buf_write_u8"
| "write_field FI16 = on16 buf_write_i16"
| "write_field FU16 = on16 buf_write_u16"
| "write_field FI32 = on32 buf_write_i32"
| "write_field FU32 = on32 buf_write_u32"
| "write_field FI64 = on64 buf_write_i64"
| "write_field FU64 = on64 buf_write_u64"
| "write_field FF32 = on32 buf_write_f32"
| "write_field FF64 = on64 buf_write_f64"
| "write_field FBool = on_bool buf_write_bool"
| "write_field FString = on_bytes buf_write_string"
| "write_field FByteArray = on_bytes buf_write_byte_array"
| "write_field FUUID = on_bytes write_array16"
| "write_field FNBT = on_bytes write_nbt"
| "write_field FAnonymousNBT = on_bytes write_anonymous_nbt"
| "write_field FOptionalNBT = on_nbt write_optional_nbt"
| "write_field FAnonOptionalNBT = on_nbt write_anon_optional_nbt"
| "write_field FPlugin = on_bytes write_plugin_payload"
| "write_field FRest = on_bytes write_rest_buffer"

section \<open>Mapped integers and bit fields\<close>

definition read_mapped :: "string \<Rightarrow> field_kind \<Rightarrow> (int \<times> string) list \<Rightarrow> field_value buffer_op" where
  "read_mapped p k by_wire = bindB (read_field k p) (\<lambda>v.
     case map_of by_wire (wire_int k v) of
       None \<Rightarrow> refuse p
     | Some name \<Rightarrow> returnB (VSymbol name))"

definition write_mapped ::
    "string \<Rightarrow> field_kind \<Rightarrow> (string \<times> int) list \<Rightarrow> field_value \<Rightarrow> unit buffer_op" where
  "write_mapped p k by_name v = (case v of
     VSymbol name \<Rightarrow> (case map_of by_name name of
       None \<Rightarrow> refuse p
     | Some wire \<Rightarrow> write_field k p (int_wire k wire))
   | _ \<Rightarrow> refuse p)"

definition segment :: "bit_segment \<Rightarrow> int \<Rightarrow> int" where
  "segment s raw =
     (let bits = take_bit (seg_width s) (drop_bit (seg_offset s) raw)
      in if seg_signed s then signed_take_bit (seg_width s - 1) bits else bits)"

definition fits :: "bit_segment \<Rightarrow> int \<Rightarrow> bool" where
  "fits s v = (if seg_signed s
     then - (2 ^ (seg_width s - 1)) \<le> v \<and> v < 2 ^ (seg_width s - 1)
     else 0 \<le> v \<and> v < 2 ^ seg_width s)"

fun packed :: "bit_segment list \<Rightarrow> int list \<Rightarrow> int" where
  "packed (s # ss) (v # vs) =
     push_bit (seg_offset s) (take_bit (seg_width s) v) OR packed ss vs"
| "packed _ _ = 0"

definition read_bits :: "string \<Rightarrow> field_kind \<Rightarrow> bit_segment list \<Rightarrow> field_value buffer_op" where
  "read_bits p k segs = bindB (read_field k p) (\<lambda>v.
     returnB (VInts (map (\<lambda>s. segment s (wire_int k v)) segs)))"

definition write_bits :: "string \<Rightarrow> field_kind \<Rightarrow> bit_segment list \<Rightarrow> field_value \<Rightarrow> unit buffer_op" where
  "write_bits p k segs v = (case v of
     VInts is \<Rightarrow>
       if length is \<noteq> length segs then refuse p
       else (case find (\<lambda>(s, i). \<not> fits s i) (zip segs is) of
         Some (s, _) \<Rightarrow> refuse (p @ ''.'' @ seg_name s)
       | None \<Rightarrow> write_field k p (int_wire k (packed segs is)))
   | _ \<Rightarrow> refuse p)"

fun packed_flags :: "(string \<times> int) list \<Rightarrow> bool list \<Rightarrow> int" where
  "packed_flags ((_, m) # fs) (b # bs) = (if b then m else 0) OR packed_flags fs bs"
| "packed_flags _ _ = 0"

definition read_flags :: "string \<Rightarrow> field_kind \<Rightarrow> (string \<times> int) list \<Rightarrow> field_value buffer_op" where
  "read_flags p k flags = bindB (read_field k p) (\<lambda>v.
     returnB (VFlags (map (\<lambda>(_, m). wire_int k v AND m \<noteq> 0) flags)))"

definition write_flags ::
    "string \<Rightarrow> field_kind \<Rightarrow> (string \<times> int) list \<Rightarrow> field_value \<Rightarrow> unit buffer_op" where
  "write_flags p k flags v = (case v of
     VFlags bs \<Rightarrow>
       if length bs \<noteq> length flags then refuse p
       else write_field k p (int_wire k (packed_flags flags bs))
   | _ \<Rightarrow> refuse p)"

section \<open>What a switch looks at\<close>

text \<open>
  The fields of the struct decoded so far, and of the structs around it, under their paths; the
  last one read of a path is the one in scope.
\<close>

type_synonym scope = "(string \<times> case_key) list"

definition noted :: "schema \<Rightarrow> field_value \<Rightarrow> scope \<Rightarrow> scope" where
  "noted s v env = (case (s, v) of
     (Field p _, VBool x) \<Rightarrow> (p, KBool x) # env
   | (Field p _, VBytes x) \<Rightarrow> (p, KText (map (\<lambda>b. char_of (unat b)) x)) # env
   | (Field p k, _) \<Rightarrow> (p, KInt (wire_int k v)) # env
   | (Mapped p _ _ _, VSymbol x) \<Rightarrow> (p, KText x) # env
   | (Bits p _ segs, VInts xs) \<Rightarrow>
       zip (map (\<lambda>s. p @ ''#'' @ seg_name s) segs) (map KInt xs) @ env
   | (Flags p _ fs, VFlags xs) \<Rightarrow> zip (map (\<lambda>(name, _). p @ ''#'' @ name) fs) (map KBool xs) @ env
   | (Shared f _, VStruct [VSymbol x]) \<Rightarrow> (f, KText x) # env
   | _ \<Rightarrow> env)"

definition selected :: "scope \<Rightarrow> string \<Rightarrow> (case_key \<times> schema list) list \<Rightarrow> schema list \<Rightarrow> schema list" where
  "selected env d cases dflt =
     (case Option.bind (map_of env d) (map_of cases) of None \<Rightarrow> dflt | Some ss \<Rightarrow> ss)"

definition count_of :: "scope \<Rightarrow> string \<Rightarrow> int" where
  "count_of env d = (case map_of env d of Some (KInt n) \<Rightarrow> n | _ \<Rightarrow> -1)"

section \<open>List lengths\<close>

definition read_count :: "scope \<Rightarrow> counter \<Rightarrow> string \<Rightarrow> int buffer_op" where
  "read_count env c p = (case c of
     Prefixed \<Rightarrow> read_collection_length p
   | Width k \<Rightarrow> bindB (read_field k p) (\<lambda>v.
       if wire_int k v < 0 then refuse p
       else bindB (validate_collection p (wire_int k v)) (\<lambda>_. returnB (wire_int k v)))
   | Of d \<Rightarrow>
       if count_of env d < 0 then refuse p
       else bindB (validate_collection p (count_of env d)) (\<lambda>_. returnB (count_of env d))
   | Const n \<Rightarrow> bindB (validate_collection p n) (\<lambda>_. returnB n))"

text \<open>The largest count an integer of the width can carry; \<open>len\<close> is never negative.\<close>

definition max_count :: "field_kind \<Rightarrow> int" where
  "max_count k = (if k = FI8 then 2 ^ 7 - 1 else if k = FI16 then 2 ^ 15 - 1 else 2 ^ 31 - 1)"

definition write_count :: "scope \<Rightarrow> counter \<Rightarrow> string \<Rightarrow> int \<Rightarrow> unit buffer_op" where
  "write_count env c p n = (case c of
     Prefixed \<Rightarrow> write_collection_length p n
   | Width k \<Rightarrow> bindB (validate_collection p n) (\<lambda>_.
       if max_count k < n then refuse p else write_field k p (int_wire k n))
   | Of d \<Rightarrow>
       if count_of env d < 0 then refuse p
       else bindB (validate_collection p (count_of env d)) (\<lambda>_.
         if n \<noteq> count_of env d then refuse p else returnB ())
   | Const m \<Rightarrow> bindB (validate_collection p m) (\<lambda>_. if n \<noteq> m then refuse p else returnB ()))"

section \<open>The loops\<close>

text \<open>The deferred \<open>LeaveNested\<close> runs however the function returns.\<close>

definition nested :: "string \<Rightarrow> 'a buffer_op \<Rightarrow> 'a buffer_op" where
  "nested name m = bindB (enter_nested name) (\<lambda>_ b. case m b of (r, b') \<Rightarrow> (r, snd (leave_nested b')))"

primrec repeatB :: "nat \<Rightarrow> 'a buffer_op \<Rightarrow> 'a list buffer_op" where
  "repeatB 0 m = returnB []"
| "repeatB (Suc n) m = bindB m (\<lambda>v. bindB (repeatB n m) (\<lambda>vs. returnB (v # vs)))"

text \<open>
  The loop over a terminated list. Every round checks the length it would reach against the
  collection limit, so the fuel of \<open>terminated\<close> is one more round than can pass.
\<close>

primrec until_terminator :: "nat \<Rightarrow> string \<Rightarrow> byte \<Rightarrow> int \<Rightarrow> 'a buffer_op \<Rightarrow> 'a list buffer_op" where
  "until_terminator 0 p t n m = refuse p"
| "until_terminator (Suc fuel) p t n m = bindB (read_terminator p t) (\<lambda>done.
     if done then returnB []
     else bindB (validate_collection p (n + 1)) (\<lambda>_. bindB m (\<lambda>v.
       bindB (until_terminator fuel p t (n + 1) m) (\<lambda>vs. returnB (v # vs)))))"

definition terminated :: "string \<Rightarrow> byte \<Rightarrow> 'a buffer_op \<Rightarrow> 'a list buffer_op" where
  "terminated p t m b = until_terminator (nat (collection_items (buf_limits b)) + 1) p t 0 m b"

section \<open>Decode\<close>

lemma selected_size:
  "size_list size (selected env d cases dflt)
   \<le> size_list (size_prod (\<lambda>_. 0) (size_list size)) cases + size_list size dflt"
proof -
  have "size_list size ss \<le> size_list (size_prod (\<lambda>_. 0) (size_list size)) cases"
    if "map_of cases k = Some ss" for k ss
    using map_of_SomeD [OF that] by (rule size_list_estimation') simp
  then show ?thesis
    by (auto simp: selected_def split: option.splits Option.bind_split intro: trans_le_add1)
qed

function (sequential) decode_field :: "shared_types \<Rightarrow> nat \<Rightarrow> scope \<Rightarrow> schema \<Rightarrow> field_value buffer_op"
  and decode_fields :: "shared_types \<Rightarrow> nat \<Rightarrow> scope \<Rightarrow> schema list \<Rightarrow> field_value list buffer_op" where
  "decode_field types fuel env (Field p k) = read_field k p"
| "decode_field types fuel env (Mapped p k by_wire by_name) = read_mapped p k by_wire"
| "decode_field types fuel env (Bits p k segs) = read_bits p k segs"
| "decode_field types fuel env (Flags p k flags) = read_flags p k flags"
| "decode_field types fuel env (Items p c ss) = bindB (read_count env c p) (\<lambda>n.
     mapB VItems (repeatB (nat n) (decode_fields types fuel env ss)))"
| "decode_field types fuel env (Raw p c) = bindB (read_count env c p) (\<lambda>n.
     mapB VBytes (buf_read_buffer p n))"
| "decode_field types fuel env (Maybe p ss) = bindB (buf_read_bool p) (\<lambda>present.
     if present then mapB (VMaybe \<circ> Some) (decode_fields types fuel env ss)
     else returnB (VMaybe None))"
| "decode_field types 0 env (Shared f t) = (case map_of types t of
     None \<Rightarrow> refuse t
   | Some (name, ss) \<Rightarrow> nested name (refuse t))"
| "decode_field types (Suc fuel) env (Shared f t) = (case map_of types t of
     None \<Rightarrow> refuse t
   | Some (name, ss) \<Rightarrow> nested name (mapB VStruct (decode_fields types fuel [] ss)))"
| "decode_field types fuel env (Switch d cases dflt) =
     mapB VCase (decode_fields types fuel env (selected env d cases dflt))"
| "decode_field types fuel env (Holder p ss) = bindB (read_holder p) (\<lambda>(hid, inline).
     if inline then mapB VInline (decode_fields types fuel env ss) else returnB (VId hid))"
| "decode_field types fuel env (Holder_Set p ss) = bindB (read_holder_set p) (\<lambda>(n, tagged).
     if tagged then mapB VBytes (buf_read_string (p @ ''.tag''))
     else mapB VItems (repeatB (nat n) (decode_fields types fuel env ss)))"
| "decode_field types fuel env (Terminated p t ss) =
     mapB VItems (terminated p t (decode_fields types fuel env ss))"
| "decode_fields types fuel env [] = returnB []"
| "decode_fields types fuel env (s # ss) = bindB (decode_field types fuel env s) (\<lambda>v.
     mapB ((#) v) (decode_fields types fuel (noted s v env) ss))"
  by pat_completeness auto

termination
  by (relation "measures [case_sum (\<lambda>(_, f, _). f) (\<lambda>(_, f, _). f),
      case_sum (\<lambda>(_, _, _, s). size s) (\<lambda>(_, _, _, ss). size_list size ss)]")
    (simp_all add: le_imp_less_Suc selected_size)

section \<open>Encode\<close>

fun encode_field :: "shared_types \<Rightarrow> scope \<Rightarrow> schema \<Rightarrow> field_value \<Rightarrow> unit buffer_op"
  and encode_fields :: "shared_types \<Rightarrow> scope \<Rightarrow> schema list \<Rightarrow> field_value list \<Rightarrow> unit buffer_op"
  and encode_items :: "shared_types \<Rightarrow> scope \<Rightarrow> schema list \<Rightarrow> field_value list list \<Rightarrow> unit buffer_op" where
  "encode_field types env (Field p k) v = write_field k p v"
| "encode_field types env (Mapped p k by_wire by_name) v = write_mapped p k by_name v"
| "encode_field types env (Bits p k segs) v = write_bits p k segs v"
| "encode_field types env (Flags p k flags) v = write_flags p k flags v"
| "encode_field types env (Items p c ss) v = (case v of
     VItems vss \<Rightarrow> bindB (write_count env c p (int (length vss))) (\<lambda>_. encode_items types env ss vss)
   | _ \<Rightarrow> refuse p)"
| "encode_field types env (Raw p c) v = (case v of
     VBytes bs \<Rightarrow> bindB (write_count env c p (int (length bs))) (\<lambda>_. buf_write_buffer p bs)
   | _ \<Rightarrow> refuse p)"
| "encode_field types env (Maybe p ss) v = (case v of
     VMaybe None \<Rightarrow> buf_write_bool p False
   | VMaybe (Some vs) \<Rightarrow> bindB (buf_write_bool p True) (\<lambda>_. encode_fields types env ss vs)
   | _ \<Rightarrow> refuse p)"
| "encode_field types env (Shared f t) v = (case v of
     VStruct vs \<Rightarrow> (case map_of types t of
       None \<Rightarrow> refuse t
     | Some (_, ss) \<Rightarrow> encode_fields types [] ss vs)
   | _ \<Rightarrow> refuse t)"
| "encode_field types env (Switch d cases dflt) v = (case v of
     VCase vs \<Rightarrow> encode_fields types env (selected env d cases dflt) vs
   | _ \<Rightarrow> refuse d)"
| "encode_field types env (Holder p ss) v = (case v of
     VInline vs \<Rightarrow> bindB (write_holder p 0 True) (\<lambda>_. encode_fields types env ss vs)
   | VId hid \<Rightarrow> write_holder p hid False
   | _ \<Rightarrow> refuse p)"
| "encode_field types env (Holder_Set p ss) v = (case v of
     VBytes tag \<Rightarrow> bindB (write_holder_set p 0 True) (\<lambda>_. buf_write_string (p @ ''.tag'') tag)
   | VItems vss \<Rightarrow> bindB (write_holder_set p (int (length vss)) False) (\<lambda>_.
       encode_items types env ss vss)
   | _ \<Rightarrow> refuse p)"
| "encode_field types env (Terminated p t ss) v = (case v of
     VItems vss \<Rightarrow> bindB (validate_collection p (int (length vss))) (\<lambda>_.
       bindB (encode_items types env ss vss) (\<lambda>_. write_terminator p t))
   | _ \<Rightarrow> refuse p)"
| "encode_fields types env [] vs = (if vs = [] then returnB () else refuse [])"
| "encode_fields types env (s # ss) vs = (case vs of
     [] \<Rightarrow> refuse []
   | v # vs' \<Rightarrow> bindB (encode_field types env s v) (\<lambda>_. encode_fields types (noted s v env) ss vs'))"
| "encode_items types env ss [] = returnB ()"
| "encode_items types env ss (vs # vss) =
     bindB (encode_fields types env ss vs) (\<lambda>_. encode_items types env ss vss)"


section \<open>Bodies and keys\<close>

text \<open>
  The part of encodePacketBody and DecodeFrame that runs a codec: a fresh buffer, the codec, and on
  the way in \<open>RequireEmpty\<close> under the packet's name.
\<close>

definition encode_body :: "shared_types \<Rightarrow> schema list \<Rightarrow> limits \<Rightarrow> field_value list \<Rightarrow> bytes result" where
  "encode_body types ss lim vs = bindR (new_write_buffer lim) (\<lambda>b.
     case encode_fields types [] ss vs b of
       (Inl e, _) \<Rightarrow> Inl e
     | (Inr _, b') \<Rightarrow> Inr (buf_data b'))"

definition decode_body_with ::
    "nat \<Rightarrow> shared_types \<Rightarrow> schema list \<Rightarrow> string \<Rightarrow> limits \<Rightarrow> bytes \<Rightarrow> field_value list result" where
  "decode_body_with fuel types ss name lim payload = bindR (new_read_buffer payload lim) (\<lambda>b.
     case decode_fields types fuel [] ss b of
       (Inl e, _) \<Rightarrow> Inl e
     | (Inr vs, b') \<Rightarrow> (case require_empty name b' of
         (Inl e, _) \<Rightarrow> Inl e
       | (Inr _, _) \<Rightarrow> Inr vs))"

definition decode_body ::
    "shared_types \<Rightarrow> schema list \<Rightarrow> string \<Rightarrow> limits \<Rightarrow> bytes \<Rightarrow> field_value list result" where
  "decode_body types ss name lim = decode_body_with (nat (recursion_depth lim)) types ss name lim"

text \<open>packetKey: a state, a direction and an ID.\<close>

type_synonym packet_key = "string \<times> byte \<times> i32"

definition clientbound :: byte where "clientbound = 1"
definition serverbound :: byte where "serverbound = 2"

end
