(* ===== verification/Packet_Laws.thy ===== *)
theory Packet_Laws
  imports Packet_Schema
begin

unbundle bit_operations_syntax

text \<open>
  What a codec promises: \<open>carries lim k tail w r v\<close> says that whenever the writer \<open>w\<close> succeeds, the
  reader \<open>r\<close> gives \<open>v\<close> back from the bytes written, with \<open>k\<close> nesting levels to spare and
  whatever follows; with \<open>tail\<close>, when nothing follows. The combinators of Packet_Schema keep
  the promise, and so every declaration does (\<open>fields_carry\<close>).
\<close>

section \<open>The promise\<close>

definition writing :: "limits \<Rightarrow> buffer \<Rightarrow> bool" where
  "writing lim b \<longleftrightarrow> buf_limits b = lim \<and> buf_mode b = WriteMode \<and>
     int (length (buf_data b)) \<le> frame_bytes lim"

definition reading :: "limits \<Rightarrow> nat \<Rightarrow> bytes \<Rightarrow> buffer \<Rightarrow> bool" where
  "reading lim k bs c \<longleftrightarrow> buf_limits c = lim \<and> buf_mode c = ReadMode \<and>
     0 \<le> buf_depth c \<and> buf_depth c + int k \<le> recursion_depth lim \<and>
     buf_offset c \<le> length (buf_data c) \<and> drop (buf_offset c) (buf_data c) = bs"

definition reads :: "limits \<Rightarrow> nat \<Rightarrow> bool \<Rightarrow> 'a buffer_op \<Rightarrow> 'a \<Rightarrow> bytes \<Rightarrow> bool" where
  "reads lim k tail r v e \<longleftrightarrow> (\<forall>c rest. reading lim k (e @ rest) c \<longrightarrow> (tail \<longrightarrow> rest = []) \<longrightarrow>
     r c = (Inr v, c\<lparr>buf_offset := buf_offset c + length e\<rparr>))"

definition carries :: "limits \<Rightarrow> nat \<Rightarrow> bool \<Rightarrow> unit buffer_op \<Rightarrow> 'a buffer_op \<Rightarrow> 'a \<Rightarrow> bool" where
  "carries lim k tail w r v \<longleftrightarrow> (\<forall>b b'. writing lim b \<longrightarrow> w b = (Inr (), b') \<longrightarrow>
     (\<exists>e. b' = b\<lparr>buf_data := buf_data b @ e\<rparr> \<and> writing lim b' \<and> reads lim k tail r v e))"

lemma carriesI:
  assumes "\<And>b b'. writing lim b \<Longrightarrow> w b = (Inr (), b') \<Longrightarrow>
    \<exists>e. b' = b\<lparr>buf_data := buf_data b @ e\<rparr> \<and> writing lim b' \<and> reads lim k tail r v e"
  shows "carries lim k tail w r v"
  using assms by (simp add: carries_def)

lemma carriesE:
  assumes "carries lim k tail w r v" "writing lim b" "w b = (Inr (), b')"
  obtains e where "b' = b\<lparr>buf_data := buf_data b @ e\<rparr>" "writing lim b'" "reads lim k tail r v e"
  using assms by (auto simp: carries_def)

lemma readsI:
  assumes "\<And>c rest. reading lim k (e @ rest) c \<Longrightarrow> (tail \<Longrightarrow> rest = []) \<Longrightarrow>
    r c = (Inr v, c\<lparr>buf_offset := buf_offset c + length e\<rparr>)"
  shows "reads lim k tail r v e"
  using assms by (auto simp: reads_def)

lemma readsD:
  assumes "reads lim k tail r v e" "reading lim k (e @ rest) c" "tail \<Longrightarrow> rest = []"
  shows "r c = (Inr v, c\<lparr>buf_offset := buf_offset c + length e\<rparr>)"
  using assms by (simp add: reads_def)

lemma reading_mono: "reading lim k bs c \<Longrightarrow> j \<le> k \<Longrightarrow> reading lim j bs c"
  by (auto simp: reading_def)

lemma reading_advance:
  "reading lim k (e @ rest) c \<Longrightarrow> reading lim k rest (c\<lparr>buf_offset := buf_offset c + length e\<rparr>)"
proof -
  assume r: "reading lim k (e @ rest) c"
  then have "length (buf_data c) - buf_offset c = length e + length rest"
    unfolding reading_def by (metis length_append length_drop)
  moreover have "drop (buf_offset c + length e) (buf_data c) = rest"
    using r unfolding reading_def by (metis add.commute append_eq_conv_conj drop_drop)
  ultimately show ?thesis using r by (auto simp: reading_def)
qed

lemma reads_mono:
  assumes "reads lim j tail r v e" "j \<le> k" "tail \<Longrightarrow> tail'"
  shows "reads lim k tail' r v e"
proof (rule readsI)
  fix c rest assume "reading lim k (e @ rest) c" "tail' \<Longrightarrow> rest = []"
  with assms(2,3) show "r c = (Inr v, c\<lparr>buf_offset := buf_offset c + length e\<rparr>)"
    by (intro readsD [where rest = rest, OF assms(1) reading_mono]) auto
qed

lemma carries_mono:
  assumes "carries lim j tail w r v" "j \<le> k" "tail \<Longrightarrow> tail'"
  shows "carries lim k tail' w r v"
proof (rule carriesI)
  fix b b' assume "writing lim b" "w b = (Inr (), b')"
  with assms(1) show "\<exists>e. b' = b\<lparr>buf_data := buf_data b @ e\<rparr> \<and> writing lim b' \<and> reads lim k tail' r v e"
    by (rule carriesE) (use assms(2,3) in \<open>blast intro: reads_mono\<close>)
qed

section \<open>The combinators\<close>

named_theorems carried \<open>how the promise is composed\<close>

lemma reads_return: "reads lim k tail (returnB v) v []"
  by (rule readsI) (simp add: returnB_def)

lemma reads_bind:
  assumes "reads lim k False r v e" "reads lim k tail (f v) u e'"
  shows "reads lim k tail (bindB r f) u (e @ e')"
proof (rule readsI)
  fix c rest assume c: "reading lim k ((e @ e') @ rest) c" and "tail \<Longrightarrow> rest = []"
  moreover from c have "r c = (Inr v, c\<lparr>buf_offset := buf_offset c + length e\<rparr>)"
    by (intro readsD [OF assms(1), of "e' @ rest"]) simp_all
  ultimately show "bindB r f c = (Inr u, c\<lparr>buf_offset := buf_offset c + length (e @ e')\<rparr>)"
    using readsD [OF assms(2) reading_advance [of lim k e "e' @ rest" c]]
    by (simp add: bindB_def add.assoc)
qed

lemma reads_map: "reads lim k tail r v e \<Longrightarrow> reads lim k tail (mapB f r) (f v) e"
  by (auto simp: reads_def mapB_def bindB_def returnB_def)

lemma carries_return [carried]: "carries lim k tail (returnB ()) (returnB v) v"
  using reads_return by (intro carriesI exI [of _ "[]"]) (auto simp: returnB_def)

lemma carries_refuse [carried, simp]: "carries lim k tail (refuse p) r v"
  by (rule carriesI) (simp add: refuse_def)

lemma bindB_Inr_iff:
  "bindB m f b = (Inr v, b') \<longleftrightarrow> (\<exists>u b''. m b = (Inr u, b'') \<and> f u b'' = (Inr v, b'))"
  by (auto simp: bindB_def split: prod.splits sum.splits)

lemma carries_bind:
  assumes "carries lim k False w r v" "carries lim k tail w' (f v) u"
  shows "carries lim k tail (bindB w (\<lambda>_. w')) (bindB r f) u"
proof (rule carriesI)
  fix b b' assume b: "writing lim b" and "bindB w (\<lambda>_. w') b = (Inr (), b')"
  then obtain b'' where w: "w b = (Inr (), b'')" and w': "w' b'' = (Inr (), b')"
    by (auto simp: bindB_Inr_iff)
  from assms(1) b w obtain e where e: "b'' = b\<lparr>buf_data := buf_data b @ e\<rparr>" "writing lim b''"
    "reads lim k False r v e" by (rule carriesE)
  from assms(2) e(2) w' obtain e' where "b' = b''\<lparr>buf_data := buf_data b'' @ e'\<rparr>" "writing lim b'"
    "reads lim k tail (f v) u e'" by (rule carriesE)
  with e show "\<exists>e. b' = b\<lparr>buf_data := buf_data b @ e\<rparr> \<and> writing lim b' \<and>
      reads lim k tail (bindB r f) u e"
    by (intro exI [of _ "e @ e'"]) (auto intro: reads_bind)
qed

lemma carries_map [carried]: "carries lim k tail w r v \<Longrightarrow> carries lim k tail w (mapB f r) (f v)"
  unfolding carries_def by (meson reads_map)

lemma carries_then_return:
  "carries lim k tail w r v \<Longrightarrow> carries lim k tail w (bindB r (\<lambda>v. returnB (f v))) (f v)"
  using carries_map [of lim k tail w r v f] by (simp add: mapB_def)

text \<open>A writer or a reader that only checks, between two others.\<close>

lemma carries_check_write:
  "(\<And>b u b'. c b = (Inr u, b') \<Longrightarrow> b' = b) \<Longrightarrow> carries lim k tail w r v \<Longrightarrow>
   carries lim k tail (bindB c (\<lambda>_. w)) r v"
  unfolding carries_def by (auto simp: bindB_Inr_iff) blast

lemma carries_nested:
  assumes "carries lim k tail w r v" "limits_ok lim"
  shows "carries lim (Suc k) tail w (nested name r) v"
proof (rule carriesI)
  fix b b' assume "writing lim b" "w b = (Inr (), b')"
  with assms(1) show "\<exists>e. b' = b\<lparr>buf_data := buf_data b @ e\<rparr> \<and> writing lim b' \<and>
      reads lim (Suc k) tail (nested name r) v e"
  proof (rule carriesE, intro exI conjI)
    fix e assume e: "reads lim k tail r v e"
    show "reads lim (Suc k) tail (nested name r) v e"
    proof (rule readsI)
      fix c rest assume c: "reading lim (Suc k) (e @ rest) c" and rest: "tail \<Longrightarrow> rest = []"
      let ?d = "c\<lparr>buf_depth := buf_depth c + 1\<rparr>"
      from c have "enter_nested name c = (Inr (), ?d)"
        using limits_okD(1) [OF assms(2)] by (simp add: enter_nested_def reading_def returnB_def)
      moreover from c have "reading lim k (e @ rest) ?d" by (simp add: reading_def)
      from readsD [OF e this rest] have "r ?d = (Inr v, ?d\<lparr>buf_offset := buf_offset c + length e\<rparr>)"
        by simp
      ultimately show "nested name r c = (Inr v, c\<lparr>buf_offset := buf_offset c + length e\<rparr>)"
        using c by (simp add: nested_def bindB_def leave_nested_def returnB_def reading_def)
    qed
  qed auto
qed

section \<open>Values\<close>

lemma carries_value:
  assumes "limits_ok lim"
    and "\<And>n e. wr [] = (n, None, e) \<Longrightarrow> (\<forall>rest. rd (e @ rest) = Inr (v, rest))"
  shows "carries lim k tail (write_value p wr) (read_value p rd) v"
proof (rule carriesI)
  fix b b' assume b: "writing lim b" and w: "write_value p wr b = (Inr (), b')"
  then obtain n e where e: "wr [] = (n, None, e)"
    by (auto simp: write_value_def bindB_def require_mode_def returnB_def failB_def
        split: if_splits prod.splits option.splits)
  with b w have "b' = b\<lparr>buf_data := buf_data b @ e\<rparr>" "writing lim b'"
    by (auto simp: write_value_def append_value_def bindB_def require_mode_def returnB_def failB_def
        writing_def split: if_splits)
  moreover have "reads lim k tail (read_value p rd) v e"
  proof (rule readsI)
    fix c rest assume c: "reading lim k (e @ rest) c"
    then have "length (buf_data c) - buf_offset c = length e + length rest"
      unfolding reading_def by (metis length_append length_drop)
    with c assms(2) [OF e] limits_okD(1) [OF assms(1)]
    show "read_value p rd c = (Inr v, c\<lparr>buf_offset := buf_offset c + length e\<rparr>)"
      by (simp add: read_value_def require_mode_ok reading_def returnB_def buffer_remaining_def)
  qed
  ultimately show "\<exists>e. b' = b\<lparr>buf_data := buf_data b @ e\<rparr> \<and> writing lim b' \<and>
      reads lim k tail (read_value p rd) v e" by blast
qed

lemma carries_append:
  assumes "reads lim k tail r v e"
  shows "carries lim k tail (append_value p e) r v"
  using assms by (intro carriesI exI [of _ e])
    (auto simp: append_value_def bindB_def require_mode_def returnB_def failB_def writing_def
      split: if_splits)

lemmas write_defs = write_varint_def write_u8_def write_i8_def write_u16_def write_i16_def
  write_u32_def write_i32_def write_u64_def write_i64_def write_f32_def write_f64_def
  write_bool_def write_uuid_def

lemma carries_varint: "limits_ok lim \<Longrightarrow> carries lim k tail (buf_write_varint p v) (buf_read_varint p) v"
  unfolding buf_write_varint_def buf_read_varint_def
  by (rule carries_value) (auto simp: write_varint_def varint.dec_enc)

lemma dec_varlong_write: "dec_varlong (the (write_varlong v) @ rest) = Inr (v, rest)"
  using length_put_varlong [of v] read_var_put [of 0 v 9 ErrVarLongTooLong 0 rest]
  by (simp add: write_varlong_def write_varlong_from_put_var dec_varlong_def read_varlong_def)

lemma carries_varlong: "limits_ok lim \<Longrightarrow> carries lim k tail (buf_write_varlong p v) (buf_read_varlong p) v"
  unfolding buf_write_varlong_def buf_read_varlong_def
  by (rule carries_value) (auto simp: dec_varlong_write)

lemma carries_fixed:
  assumes "limits_ok lim"
  shows "carries lim k tail (buf_write_i8 p b) (buf_read_i8 p) b"
    "carries lim k tail (buf_write_u8 p b) (buf_read_u8 p) b"
    "carries lim k tail (buf_write_i16 p h) (buf_read_i16 p) h"
    "carries lim k tail (buf_write_u16 p h) (buf_read_u16 p) h"
    "carries lim k tail (buf_write_i32 p v) (buf_read_i32 p) v"
    "carries lim k tail (buf_write_u32 p v) (buf_read_u32 p) v"
    "carries lim k tail (buf_write_i64 p l) (buf_read_i64 p) l"
    "carries lim k tail (buf_write_u64 p l) (buf_read_u64 p) l"
    "carries lim k tail (buf_write_f32 p v) (buf_read_f32 p) v"
    "carries lim k tail (buf_write_f64 p l) (buf_read_f64 p) l"
  unfolding buf_write_i8_def buf_read_i8_def buf_write_u8_def buf_read_u8_def buf_write_i16_def
    buf_read_i16_def buf_write_u16_def buf_read_u16_def buf_write_i32_def buf_read_i32_def
    buf_write_u32_def buf_read_u32_def buf_write_i64_def buf_read_i64_def buf_write_u64_def
    buf_read_u64_def buf_write_f32_def buf_read_f32_def buf_write_f64_def buf_read_f64_def
  by (rule carries_value [OF assms];
      auto simp: write_defs read_i8_def read_i16_def read_i32_def read_i64_def read_f32_def
        read_f64_def u8.dec_enc u16.dec_enc u32.dec_enc u64.dec_enc)+

lemma carries_bool: "limits_ok lim \<Longrightarrow> carries lim k tail (buf_write_bool p v) (buf_read_bool p) v"
  unfolding buf_write_bool_def buf_read_bool_def
  by (rule carries_value) (auto simp: write_defs read_bool_def split: if_splits)

lemma carries_uuid: "limits_ok lim \<Longrightarrow> carries lim k tail (write_array16 p v) (buf_read_uuid p) v"
proof (cases "length v = 16")
  case True
  then show "limits_ok lim \<Longrightarrow> ?thesis"
    unfolding write_array16_def buf_write_uuid_def buf_read_uuid_def
    by (simp, intro carries_value) (auto simp: write_defs uuid.dec_enc)
qed (simp add: write_array16_def)

lemma write_string_buffer:
  "write_string buffer_write lim [] v = (n, None, e) \<Longrightarrow> limits_ok lim \<Longrightarrow> e = prefixed v \<and> string_fits lim v"
  "write_byte_array buffer_write lim [] v = (n, None, e) \<Longrightarrow> limits_ok lim \<Longrightarrow>
   e = prefixed v \<and> byte_array_fits lim v"
  by (auto simp: write_string_def write_byte_array_def write_prefixed_buffer validate_limits_def
      string_fits_def byte_array_fits_def limits_okD(1) split: if_splits)

lemma carries_at_limits:
  "(carries lim k tail (\<lambda>b. w lim b) (\<lambda>b. r lim b) v) \<Longrightarrow>
   carries lim k tail (\<lambda>b. w (buf_limits b) b) (\<lambda>b. r (buf_limits b) b) v"
  unfolding carries_def reads_def by (auto simp: writing_def reading_def)

lemma carries_string: "limits_ok lim \<Longrightarrow> carries lim k tail (buf_write_string p v) (buf_read_string p) v"
  unfolding buf_write_string_def [abs_def] buf_read_string_def [abs_def]
  by (rule carries_at_limits, rule carries_value) (auto dest: write_string_buffer intro: string_codec.dec_enc)

lemma carries_byte_array:
  "limits_ok lim \<Longrightarrow> carries lim k tail (buf_write_byte_array p v) (buf_read_byte_array p) v"
  unfolding buf_write_byte_array_def [abs_def] buf_read_byte_array_def [abs_def]
  by (rule carries_at_limits, rule carries_value) (auto dest: write_string_buffer intro: byte_array_codec.dec_enc)


text \<open>NBT delimits itself: a validated value is read back whatever follows it.\<close>

lemma named_nbt_prefix:
  assumes "limits_ok lim" "validate_nbt v lim = Inr (int (length v))"
  shows "validate_nbt (v @ rest) lim = Inr (int (length v))" and "v \<noteq> []" "hd v \<noteq> tag_end"
proof -
  from assms obtain name es where w: "v = tag_compound # nbt_string name @ nbt_enc (NCompound es)"
    "nbt_string_ok lim name" "nbt_ok lim 1 (NCompound es)" "int (length v) \<le> nbt_bytes lim"
    by (auto simp: validate_nbt_tree)
  then show "validate_nbt (v @ rest) lim = Inr (int (length v))"
    unfolding validate_nbt_tree [OF assms(1)]
    by (intro exI [of _ name] exI [of _ es] exI [of _ rest]) simp
  show "v \<noteq> []" "hd v \<noteq> tag_end" using w by (auto simp: tag_defs)
qed

lemma write_nbt_with_Inr:
  assumes "write_nbt_with (new_nbt_with name validate) p v b = (Inr (), b')" "limits_ok (buf_limits b)"
  shows "append_value p v b = (Inr (), b') \<and> int (length v) \<le> nbt_bytes (buf_limits b) \<and>
    validate v (buf_limits b) = Inr (int (length v))"
  using assms
  by (auto simp: write_nbt_with_def bindB_def require_mode_def returnB_def failB_def
      new_nbt_with_Inr_iff limits_okD(1) split: if_splits sum.splits)

lemma carries_nbt_with:
  assumes "limits_ok lim"
    and "validate v lim = Inr (int (length v)) \<Longrightarrow> int (length v) \<le> nbt_bytes lim \<Longrightarrow> reads lim k tail r u v"
  shows "carries lim k tail (write_nbt_with (new_nbt_with name validate) p v) r u"
proof (rule carriesI)
  fix b b' assume b: "writing lim b" and w: "write_nbt_with (new_nbt_with name validate) p v b = (Inr (), b')"
  with assms(1) have n: "append_value p v b = (Inr (), b')" "int (length v) \<le> nbt_bytes lim"
    "validate v lim = Inr (int (length v))"
    using write_nbt_with_Inr [OF w] by (auto simp: writing_def)
  from carriesE [OF carries_append [OF assms(2) [OF n(3,2)]] b n(1)]
  show "\<exists>e. b' = b\<lparr>buf_data := buf_data b @ e\<rparr> \<and> writing lim b' \<and> reads lim k tail r u e" by blast
qed

lemma reads_nbt:
  assumes "limits_ok lim" "validate_nbt v lim = Inr (int (length v))"
  shows "reads lim k tail (read_nbt p) v v"
  using named_nbt_prefix [OF assms] limits_okD(1) [OF assms(1)]
  by (intro readsI) (auto simp: read_nbt_def read_nbt_with_def require_mode_ok reading_def returnB_def)

lemma reads_anonymous_nbt:
  assumes "limits_ok lim" "validate_network_nbt v lim = Inr (int (length v))" "int (length v) \<le> nbt_bytes lim"
  shows "reads lim k tail (read_anonymous_nbt p) v v"
  using network_nbt_prefix [OF assms(1,2)] limits_okD(1) [OF assms(1)] assms(3)
  by (intro readsI) (auto simp: read_anonymous_nbt_def require_mode_ok reading_def returnB_def)

lemma drop_Cons_nth: "drop n xs = y # ys \<Longrightarrow> n < length xs \<and> xs ! n = y"
  by (metis Cons_nth_drop_Suc drop_all linorder_not_less list.discI list.inject)

lemma reads_optional:
  assumes "limits_ok lim" "reads lim k tail (rd p) v v" "v \<noteq> []" "hd v \<noteq> tag_end"
  shows "reads lim k tail (read_optional_with rd p) (Some v) v"
proof (rule readsI)
  fix c rest assume c: "reading lim k (v @ rest) c" and rest: "tail \<Longrightarrow> rest = []"
  then have "buf_offset c < length (buf_data c)" "buf_data c ! buf_offset c = hd v"
    using assms(3) drop_Cons_nth [of "buf_offset c" "buf_data c" "hd v" "tl v @ rest"]
    by (simp_all add: reading_def)
  with c readsD [OF assms(2) c rest] assms(4) limits_okD(1) [OF assms(1)]
  show "read_optional_with rd p c = (Inr (Some v), c\<lparr>buf_offset := buf_offset c + length v\<rparr>)"
    by (simp add: read_optional_with_def require_mode_ok reading_def buffer_remaining_def bindB_def
        [of "rd p"] returnB_def)
qed

lemma reads_absent:
  assumes "limits_ok lim"
  shows "reads lim k tail (read_optional_with rd p) None [tag_end]"
proof (rule readsI)
  fix c rest assume c: "reading lim k ([tag_end] @ rest) c"
  then have "buf_offset c < length (buf_data c)" "buf_data c ! buf_offset c = tag_end"
    using drop_Cons_nth [of "buf_offset c" "buf_data c"] by (simp_all add: reading_def)
  with c limits_okD(1) [OF assms(1)]
  show "read_optional_with rd p c = (Inr None, c\<lparr>buf_offset := buf_offset c + length [tag_end]\<rparr>)"
    by (simp add: read_optional_with_def require_mode_ok reading_def buffer_remaining_def returnB_def)
qed


lemma carries_nbt:
  assumes "limits_ok lim"
  shows "carries lim k tail (write_nbt p v) (read_nbt p) v"
    "carries lim k tail (write_anonymous_nbt p v) (read_anonymous_nbt p) v"
  unfolding write_nbt_def write_anonymous_nbt_def new_nbt_def [abs_def] new_network_nbt_def [abs_def]
  by (auto intro!: carries_nbt_with [OF assms] reads_nbt [OF assms] reads_anonymous_nbt [OF assms])

lemma carries_optional_nbt:
  assumes "limits_ok lim"
  shows "carries lim k tail (write_optional_nbt p v) (read_optional_nbt p) v"
    "carries lim k tail (write_anon_optional_nbt p v) (read_anon_optional_nbt p) v"
proof -
  have absent: "carries lim k tail (buf_write_u8 p tag_end) (read_optional_with rd p) None" for rd :: "string \<Rightarrow> bytes buffer_op"
  proof (rule carriesI)
    fix b b' assume b: "writing lim b" "buf_write_u8 p tag_end b = (Inr (), b')"
    then have "append_value p [tag_end] b = (Inr (), b')"
      by (auto simp: buf_write_u8_def write_value_def write_u8_def bindB_def require_mode_def
          returnB_def failB_def writing_def split: if_splits)
    from carriesE [OF carries_append [OF reads_absent [OF assms]] b(1) this]
    show "\<exists>e. b' = b\<lparr>buf_data := buf_data b @ e\<rparr> \<and> writing lim b' \<and>
        reads lim k tail (read_optional_with rd p) None e" by blast
  qed
  show "carries lim k tail (write_optional_nbt p v) (read_optional_nbt p) v"
  proof (cases v)
    case (Some x)
    show ?thesis
      unfolding Some write_optional_nbt_def read_optional_nbt_def write_nbt_def new_nbt_def [abs_def]
      by (simp, rule carries_nbt_with [OF assms])
        (intro reads_optional [OF assms] reads_nbt [OF assms] named_nbt_prefix [OF assms])
  qed (simp add: write_optional_nbt_def read_optional_nbt_def absent)
  show "carries lim k tail (write_anon_optional_nbt p v) (read_anon_optional_nbt p) v"
  proof (cases v)
    case (Some x)
    show ?thesis
      unfolding Some write_anon_optional_nbt_def read_anon_optional_nbt_def write_anonymous_nbt_def
        new_network_nbt_def [abs_def]
      by (simp, rule carries_nbt_with [OF assms])
        (intro reads_optional [OF assms] reads_anonymous_nbt [OF assms] network_nbt_prefix [OF assms])
  qed (simp add: write_anon_optional_nbt_def read_anon_optional_nbt_def absent)
qed

text \<open>The fields that take all that is left.\<close>

lemma reading_remaining: "reading lim k (e @ rest) c \<Longrightarrow> buffer_remaining c = length e + length rest"
  by (auto simp: reading_def buffer_remaining_def) (metis length_append length_drop)

lemma reads_bytes:
  assumes "limits_ok lim"
  shows "reads lim k tail (read_bytes p (int (length e))) e e"
  using limits_okD(1) [OF assms]
  by (intro readsI) (auto dest: reading_remaining simp: reading_remaining read_bytes_def require_mode_ok reading_def returnB_def)

lemma carries_buffer:
  assumes "limits_ok lim"
  shows "carries lim k tail (buf_write_buffer p v) (buf_read_buffer p (int (length v))) v"
proof (rule carriesI)
  fix b b' assume b: "writing lim b" "buf_write_buffer p v b = (Inr (), b')"
  then have c: "append_value p v b = (Inr (), b')" "int (length v) \<le> collection_items lim"
    by (auto simp: buf_write_buffer_def bindB_def validate_collection_def returnB_def failB_def
        writing_def split: if_splits)
  have "reads lim k tail (buf_read_buffer p (int (length v))) v v"
    using reads_bytes [OF assms, of k tail p v] c(2) limits_okD(1) [OF assms]
    by (auto simp: reads_def buf_read_buffer_def bindB_def validate_collection_def returnB_def reading_def)
  from carriesE [OF carries_append [OF this] b(1) c(1)]
  show "\<exists>e. b' = b\<lparr>buf_data := buf_data b @ e\<rparr> \<and> writing lim b' \<and>
      reads lim k tail (buf_read_buffer p (int (length v))) v e" by blast
qed

lemma reads_rest:
  assumes "limits_ok lim"
  shows "reads lim k True (read_rest_buffer p) e e"
    "int (length e) \<le> plugin_bytes lim \<Longrightarrow> reads lim k True (read_plugin_payload p) e e"
proof -
  have all: "read_bytes p (int (buffer_remaining c)) c = (Inr e, c\<lparr>buf_offset := buf_offset c + length e\<rparr>)"
    if "reading lim k (e @ []) c" for c
    using readsD [OF reads_bytes [OF assms] that] reading_remaining [OF that] by simp
  show "reads lim k True (read_rest_buffer p) e e"
    using all limits_okD(1) [OF assms]
    by (intro readsI) (auto simp: read_rest_buffer_def require_mode_ok reading_def)
  show "reads lim k True (read_plugin_payload p) e e" if "int (length e) \<le> plugin_bytes lim"
    using all limits_okD(1) [OF assms] that reading_remaining [of lim k e "[]"]
    by (intro readsI) (auto simp: read_plugin_payload_def require_mode_ok reading_def)
qed

lemma carries_rest:
  assumes "limits_ok lim"
  shows "carries lim k True (write_rest_buffer p v) (read_rest_buffer p) v"
    "carries lim k True (write_plugin_payload p v) (read_plugin_payload p) v"
proof -
  show "carries lim k True (write_rest_buffer p v) (read_rest_buffer p) v"
    unfolding write_rest_buffer_def by (rule carries_append [OF reads_rest(1) [OF assms]])
  show "carries lim k True (write_plugin_payload p v) (read_plugin_payload p) v"
  proof (rule carriesI)
    fix b b' assume b: "writing lim b" "write_plugin_payload p v b = (Inr (), b')"
    then have c: "append_value p v b = (Inr (), b')" "int (length v) \<le> plugin_bytes lim"
      by (auto simp: write_plugin_payload_def bindB_def require_mode_def returnB_def failB_def
          writing_def split: if_splits)
    from carriesE [OF carries_append [OF reads_rest(2) [OF assms c(2)]] b(1) c(1)]
    show "\<exists>e. b' = b\<lparr>buf_data := buf_data b @ e\<rparr> \<and> writing lim b' \<and>
        reads lim k True (read_plugin_payload p) v e" by blast
  qed
qed

section \<open>Declarations\<close>

definition takes_rest :: "field_kind \<Rightarrow> bool" where
  "takes_rest k \<longleftrightarrow> k = FPlugin \<or> k = FRest"

lemma carries_field:
  assumes "limits_ok lim"
  shows "carries lim k (takes_rest f) (write_field f p v) (read_field f p) v"
  using carries_rest [OF assms] carries_nbt [OF assms] carries_optional_nbt [OF assms]
    carries_fixed [OF assms] carries_bool [OF assms] carries_uuid [OF assms]
    carries_string [OF assms] carries_byte_array [OF assms]
    carries_varint [OF assms] carries_varlong [OF assms]
  by (cases f) (auto simp: on_kind_defs takes_rest_def intro: carries_map split: field_value.splits)


lemma carries_integer:
  "limits_ok lim \<Longrightarrow> carries lim k tail (write_field f p (int_wire f i)) (read_field f p) (int_wire f i)"
proof (cases "takes_rest f")
  case True
  then show ?thesis by (auto simp: takes_rest_def on_kind_defs int_wire_def)
next
  case False
  then show "limits_ok lim \<Longrightarrow> ?thesis" using carries_field [of lim k f] by (auto intro: carries_mono)
qed

lemma carries_then:
  assumes "carries lim k False w r v" "reads lim k tail (f v) u []"
  shows "carries lim k tail w (bindB r f) u"
proof (rule carriesI)
  fix b b' assume "writing lim b" "w b = (Inr (), b')"
  with assms(1) obtain e where "b' = b\<lparr>buf_data := buf_data b @ e\<rparr>" "writing lim b'" "reads lim k False r v e"
    by (rule carriesE)
  moreover from this(3) have "reads lim k tail (bindB r f) u (e @ [])"
    by (rule reads_bind) (rule assms(2))
  ultimately show "\<exists>e. b' = b\<lparr>buf_data := buf_data b @ e\<rparr> \<and> writing lim b' \<and> reads lim k tail (bindB r f) u e"
    by auto
qed

text \<open>
  Mapped integers: the two tables are inverse, the integers ascend and are of the width.
\<close>

fun ascending :: "int list \<Rightarrow> bool" where
  "ascending (x # y # xs) \<longleftrightarrow> x < y \<and> ascending (y # xs)"
| "ascending _ \<longleftrightarrow> True"

lemma ascending_distinct: "ascending xs \<Longrightarrow> distinct xs \<and> (xs \<noteq> [] \<longrightarrow> (\<forall>x \<in> set xs. hd xs \<le> x))"
  by (induction xs rule: ascending.induct) force+

definition mapped_ok :: "field_kind \<Rightarrow> (int \<times> string) list \<Rightarrow> (string \<times> int) list \<Rightarrow> bool" where
  "mapped_ok k by_wire by_name \<longleftrightarrow> map (\<lambda>(i, name). (name, i)) by_wire = by_name \<and>
     ascending (map fst by_wire) \<and> list_all (\<lambda>(i, _). wire_int k (int_wire k i) = i) by_wire"

lemma mapped_okD:
  assumes "mapped_ok k by_wire by_name" "map_of by_name name = Some i"
  shows "wire_int k (int_wire k i) = i" "map_of by_wire i = Some name"
proof -
  from map_of_SomeD [OF assms(2)] assms(1) have "(i, name) \<in> set by_wire"
    by (auto simp: mapped_ok_def)
  with assms(1) ascending_distinct show "wire_int k (int_wire k i) = i" "map_of by_wire i = Some name"
    by (auto simp: mapped_ok_def list_all_iff intro: map_of_is_SomeI)
qed

lemma carries_mapped:
  assumes "limits_ok lim" "mapped_ok f by_wire by_name"
  shows "carries lim k tail (write_mapped p f by_name v) (read_mapped p f by_wire) v"
proof (cases v)
  case (VSymbol name)
  show ?thesis
  proof (cases "map_of by_name name")
    case (Some i)
    with mapped_okD [OF assms(2) this] show ?thesis
      unfolding write_mapped_def read_mapped_def VSymbol
      by (simp add: Some) (rule carries_then [OF carries_integer [OF assms(1)]], simp add: reads_return)
  qed (simp add: write_mapped_def VSymbol)
qed (simp_all add: write_mapped_def)

text \<open>Bit fields: the segments do not overlap and lie inside an unsigned integer.\<close>

definition unsigned_bits :: "field_kind \<Rightarrow> nat" where
  "unsigned_bits k = (case k of FU8 \<Rightarrow> 8 | FU16 \<Rightarrow> 16 | FU32 \<Rightarrow> 32 | FU64 \<Rightarrow> 64 | _ \<Rightarrow> 0)"

lemma wire_int_wire:
  "0 \<le> i \<Longrightarrow> i < 2 ^ unsigned_bits k \<Longrightarrow> 0 < unsigned_bits k \<Longrightarrow> wire_int k (int_wire k i) = i"
  by (cases k) (simp_all add: unsigned_bits_def wire_int_def int_wire_def unsigned_of_int take_bit_int_eq_self)

definition apart :: "bit_segment \<Rightarrow> bit_segment \<Rightarrow> bool" where
  "apart s t \<longleftrightarrow> seg_offset s + seg_width s \<le> seg_offset t \<or> seg_offset t + seg_width t \<le> seg_offset s"

fun bits_ok :: "nat \<Rightarrow> bit_segment list \<Rightarrow> bool" where
  "bits_ok n [] \<longleftrightarrow> 0 < n"
| "bits_ok n (s # ss) \<longleftrightarrow> 0 < seg_width s \<and> seg_offset s + seg_width s \<le> n \<and>
     list_all (apart s) ss \<and> bits_ok n ss"

abbreviation raw_bits :: "bit_segment \<Rightarrow> int \<Rightarrow> int" where
  "raw_bits s x \<equiv> take_bit (seg_width s) (drop_bit (seg_offset s) x)"

abbreviation placed :: "bit_segment \<Rightarrow> int \<Rightarrow> int" where
  "placed s v \<equiv> push_bit (seg_offset s) (take_bit (seg_width s) v)"

lemma raw_bits_placed: "raw_bits s (placed s v) = take_bit (seg_width s) v"
  by (rule bit_eqI) (auto simp: bit_simps)

lemma raw_bits_apart: "apart s t \<Longrightarrow> raw_bits s (placed t v) = 0"
  by (rule bit_eqI) (auto simp: bit_simps apart_def)

lemma raw_bits_packed_apart: "list_all (apart s) ss \<Longrightarrow> raw_bits s (packed ss vs) = 0"
  by (induction ss vs rule: packed.induct) (simp_all add: drop_bit_or take_bit_or raw_bits_apart)

lemma apart_sym: "apart s t \<Longrightarrow> apart t s"
  by (auto simp: apart_def)

lemma packed_range: "bits_ok n ss \<Longrightarrow> 0 \<le> packed ss vs \<and> packed ss vs < 2 ^ n"
proof (induction ss vs rule: packed.induct)
  case (1 s ss v vs)
  have "placed s v < 2 ^ (seg_width s + seg_offset s)"
    using mult_strict_right_mono [OF take_bit_int_less_exp [of "seg_width s" v], of "2 ^ seg_offset s"]
    by (simp add: push_bit_eq_mult power_add)
  also have "(2 :: int) ^ (seg_width s + seg_offset s) \<le> 2 ^ n"
    using 1 by (intro power_increasing) auto
  finally show ?case using 1 by (auto simp: push_bit_eq_mult intro!: OR_upper)
qed auto

lemma truncated_fits:
  "fits s v \<Longrightarrow> 0 < seg_width s \<Longrightarrow>
   (if seg_signed s then signed_take_bit (seg_width s - 1) (take_bit (seg_width s) v)
    else take_bit (seg_width s) v) = v"
  by (simp add: fits_def signed_take_bit_take_bit take_bit_int_eq_self signed_take_bit_int_eq_self
      split: if_splits)

lemma segment_raw:
  assumes "fits s v" "0 < seg_width s" "raw_bits s x = take_bit (seg_width s) v"
  shows "segment s x = v"
  unfolding segment_def Let_def assms(3) by (rule truncated_fits [OF assms(1,2)])

lemma raw_bits_packed:
  "bits_ok n ss \<Longrightarrow> length vs = length ss \<Longrightarrow>
   list_all2 (\<lambda>s v. raw_bits s (packed ss vs) = take_bit (seg_width s) v) ss vs"
proof (induction ss vs rule: packed.induct)
  case (1 s ss v vs)
  have "apart t s" if "t \<in> set ss" for t
    using 1(2) that by (auto simp: list_all_iff apart_def)
  then have other: "raw_bits t (placed s v) = 0" if "t \<in> set ss" for t
    using that by (intro raw_bits_apart)
  have "list_all2 (\<lambda>t u. raw_bits t (packed ss vs) = take_bit (seg_width t) u) ss vs"
    using 1 by simp
  then have "list_all2 (\<lambda>t u. raw_bits t (packed (s # ss) (v # vs)) = take_bit (seg_width t) u) ss vs"
    by (rule list.rel_mono_strong) (simp add: drop_bit_or take_bit_or other)
  with 1(2) show ?case by (simp add: drop_bit_or take_bit_or raw_bits_placed raw_bits_packed_apart)
qed auto

lemma segments_packed:
  assumes "bits_ok n ss" "list_all2 fits ss vs"
  shows "map (\<lambda>s. segment s (packed ss vs)) ss = vs"
proof -
  have "0 < seg_width s" if "bits_ok n ss" "s \<in> set ss" for s
    using that by (induction ss) auto
  with raw_bits_packed [OF assms(1), of vs] assms show ?thesis
    by (intro nth_equalityI) (auto simp: list_all2_conv_all_nth intro!: segment_raw)
qed

lemma carries_bits:
  assumes "limits_ok lim" "bits_ok (unsigned_bits f) segs"
  shows "carries lim k tail (write_bits p f segs v) (read_bits p f segs) v"
proof (cases v)
  case (VInts xs)
  show ?thesis
  proof (cases "length xs = length segs \<and> find (\<lambda>(s, i). \<not> fits s i) (zip segs xs) = None")
    case True
    then have "list_all2 fits segs xs"
      by (auto simp: find_None_iff list_all2_conv_all_nth set_zip) blast
    from segments_packed [OF assms(2) this] packed_range [OF assms(2), of "xs"] assms(2)
    have "map (\<lambda>s. segment s (wire_int f (int_wire f (packed segs xs)))) segs = xs"
      by (subst wire_int_wire) (auto elim: bits_ok.elims)
    with True show ?thesis
      unfolding write_bits_def read_bits_def VInts
      by simp (rule carries_then [OF carries_integer [OF assms(1)]], simp add: reads_return)
  next
    case False
    then show ?thesis by (auto simp: write_bits_def VInts split: option.splits)
  qed
qed (simp_all add: write_bits_def)


fun flags_ok :: "nat \<Rightarrow> (string \<times> int) list \<Rightarrow> bool" where
  "flags_ok n [] \<longleftrightarrow> 0 < n"
| "flags_ok n ((_, m) # fs) \<longleftrightarrow> 0 < m \<and> m < 2 ^ n \<and> list_all (\<lambda>(_, m'). m AND m' = 0) fs \<and> flags_ok n fs"

lemma packed_flags_apart: "list_all (\<lambda>(_, m'). m AND m' = 0) fs \<Longrightarrow> m AND packed_flags fs bs = 0"
  by (induction fs bs rule: packed_flags.induct) (auto simp: bit.conj_disj_distrib)

lemma packed_flags_range: "flags_ok n fs \<Longrightarrow> 0 \<le> packed_flags fs bs \<and> packed_flags fs bs < 2 ^ n"
  by (induction fs bs rule: packed_flags.induct) (auto intro!: OR_upper)

lemma flags_packed:
  "flags_ok n fs \<Longrightarrow> length bs = length fs \<Longrightarrow>
   map (\<lambda>(_, m). packed_flags fs bs AND m \<noteq> 0) fs = bs"
proof (induction fs bs rule: packed_flags.induct)
  case (1 name m fs b bs)
  then have own: "m AND packed_flags fs bs = 0" by (intro packed_flags_apart) simp
  have "(m OR packed_flags fs bs) AND m' \<noteq> 0 \<longleftrightarrow> packed_flags fs bs AND m' \<noteq> 0"
    if "(n', m') \<in> set fs" for n' m'
    using 1(2) that by (auto simp: list_all_iff bit.conj_disj_distrib2)
  then have "map (\<lambda>(_, m'). (m OR packed_flags fs bs) AND m' \<noteq> 0) fs =
      map (\<lambda>(_, m'). packed_flags fs bs AND m' \<noteq> 0) fs"
    by (intro map_cong) auto
  with 1 own show ?case by (auto simp: bit.conj_disj_distrib and.commute [of _ m])
qed auto

lemma flags_ok_pos: "flags_ok n fs \<Longrightarrow> 0 < n"
  by (induction n fs rule: flags_ok.induct) auto

lemma carries_flags:
  assumes "limits_ok lim" "flags_ok (unsigned_bits f) fs"
  shows "carries lim k tail (write_flags p f fs v) (read_flags p f fs) v"
proof (cases v)
  case (VFlags bs)
  show ?thesis
  proof (cases "length bs = length fs")
    case True
    from flags_packed [OF assms(2) True] packed_flags_range [OF assms(2), of bs] assms(2)
    have "map (\<lambda>(_, m). wire_int f (int_wire f (packed_flags fs bs)) AND m \<noteq> 0) fs = bs"
      by (subst wire_int_wire) (auto intro: flags_ok_pos)
    with True show ?thesis
      unfolding write_flags_def read_flags_def VFlags
      by simp (rule carries_then [OF carries_integer [OF assms(1)]], simp add: reads_return)
  qed (simp add: write_flags_def VFlags)
qed (simp_all add: write_flags_def)

section \<open>Lengths and holders\<close>

lemma validate_Inr: "validate_collection p n b = (Inr u, b') \<longleftrightarrow>
    b' = b \<and> valid (buf_limits b) \<and> 0 \<le> n \<and> n \<le> collection_items (buf_limits b)"
  by (auto simp: validate_collection_def returnB_def failB_def split: if_splits)

lemma carries_validated:
  assumes "0 \<le> n \<Longrightarrow> n \<le> collection_items lim \<Longrightarrow> carries lim k tail w r v"
  shows "carries lim k tail (bindB (validate_collection p n) (\<lambda>_. w)) r v"
  using assms unfolding carries_def bindB_Inr_iff validate_Inr by (auto simp: writing_def)

lemma reads_validated:
  assumes "limits_ok lim" "0 \<le> n" "n \<le> collection_items lim" "reads lim k tail (f ()) v e"
  shows "reads lim k tail (bindB (validate_collection p n) f) v e"
  using assms limits_okD(1) [OF assms(1)]
  by (auto simp: reads_def reading_def bindB_def validate_collection_def returnB_def)

lemma carries_collection_length:
  assumes "limits_ok lim"
  shows "carries lim k tail (write_collection_length p n) (read_collection_length p) n"
  unfolding write_collection_length_def
proof (rule carries_validated)
  assume n: "0 \<le> n" "n \<le> collection_items lim"
  show "carries lim k tail (if 2 ^ 31 - 1 < n then failB p ErrValueOutOfRange
      else buf_write_varint p (int32_of n)) (read_collection_length p) n"
  proof (cases "2 ^ 31 - 1 < n")
    case False
    with n have "sint (int32_of n) = n" by simp
    with n show ?thesis
      using False reads_return [of lim k tail n] unfolding read_collection_length_def
      by simp (rule carries_then [OF carries_varint [OF assms]], simp add: reads_validated assms)
  qed (simp add: carries_def failB_def)
qed

definition counter_ok :: "counter \<Rightarrow> bool" where
  "counter_ok c \<longleftrightarrow> (case c of Width k \<Rightarrow> k \<in> {FI8, FI16, FI32} | _ \<Rightarrow> True)"

lemma carries_count:
  assumes "limits_ok lim" "counter_ok c" "0 \<le> n"
  shows "carries lim k tail (write_count env c p n) (read_count env c p) n"
proof (cases c)
  case Prefixed
  then show ?thesis by (simp add: write_count_def read_count_def carries_collection_length assms)
next
  case (Width f)
  have int: "wire_int f (int_wire f n) = n" if "\<not> max_count f < n"
    using assms that Width
    by (auto simp: counter_ok_def max_count_def wire_int_def int_wire_def signed_of_int
        signed_take_bit_int_eq_self)
  have "carries lim k tail (if max_count f < n then refuse p else write_field f p (int_wire f n))
      (read_count env c p) n" if n: "n \<le> collection_items lim"
  proof (cases "max_count f < n")
    case False
    with int assms n show ?thesis
      using reads_return [of lim k tail n] unfolding read_count_def Width
      by simp (rule carries_then [OF carries_integer [OF assms(1)]], simp add: reads_validated)
  qed simp
  then show ?thesis unfolding write_count_def Width by (simp add: carries_validated)
next
  case (Of d)
  show ?thesis
  proof (cases "count_of env d < 0 \<or> n \<noteq> count_of env d")
    case True
    then show ?thesis
      unfolding write_count_def Of by (auto intro: carries_validated)
  next
    case False
    then have "carries lim k tail (returnB ()) (bindB (validate_collection p n) (\<lambda>_. returnB n)) n"
      if "n \<le> collection_items lim"
      using that assms by (intro carriesI exI [of _ "[]"])
        (auto simp: returnB_def [of "()"] intro: reads_validated reads_return)
    then have "carries lim k tail (bindB (validate_collection p n) (\<lambda>_. returnB ())) (read_count env c p) n"
      using False by (intro carries_validated) (simp add: read_count_def Of)
    with False show ?thesis by (simp add: write_count_def Of)
  qed
next
  case (Const m)
  have "carries lim k tail (if n \<noteq> m then refuse p else returnB ()) (read_count env c p) n"
    if "0 \<le> m" "m \<le> collection_items lim"
    using that assms by (auto simp: read_count_def Const carries_def returnB_def [of "()"] refuse_def
        intro!: exI [of _ "[]"] reads_validated reads_return)
  then show ?thesis unfolding write_count_def Const by (simp add: carries_validated)
qed


lemma carries_holder:
  assumes "limits_ok lim"
  shows "carries lim k tail (write_holder p hid False) (read_holder p) (hid, False)"
    "carries lim k tail (write_holder p 0 True) (read_holder p) (0, True)"
proof -
  show "carries lim k tail (write_holder p 0 True) (read_holder p) (0, True)"
    unfolding write_holder_def read_holder_def
    by (simp, rule carries_then [OF carries_varint [OF assms]]) (simp add: reads_return)
  show "carries lim k tail (write_holder p hid False) (read_holder p) (hid, False)"
  proof (cases "sint hid < 0 \<or> max_holder_id < sint hid")
    case True
    then show ?thesis by (auto simp: write_holder_def carries_def failB_def)
  next
    case False
    then have "sint (hid + 1) = sint hid + 1" by (intro sint_bias) (auto simp: max_holder_id_def)
    with False have "hid + 1 \<noteq> 0" "\<not> sint (hid + 1) < 0" by auto
    with False show ?thesis
      unfolding write_holder_def read_holder_def
      by (simp, intro carries_then [OF carries_varint [OF assms]]) (simp add: reads_return)
  qed
qed

text \<open>
  The VarInt of a holder set is the count plus one, which needs the count below \<open>2 ^ 31 - 1\<close>: the
  collection limit is at most \<open>2 ^ 24\<close>.
\<close>

lemma carries_holder_set:
  assumes "limits_ok lim"
  shows "carries lim k tail (write_holder_set p n False) (read_holder_set p) (n, False)"
    "carries lim k tail (write_holder_set p 0 True) (read_holder_set p) (0, True)"
proof -
  show "carries lim k tail (write_holder_set p 0 True) (read_holder_set p) (0, True)"
    unfolding write_holder_set_def read_holder_set_def
    by (simp, rule carries_then [OF carries_varint [OF assms]]) (simp add: reads_return)
  have "carries lim k tail (buf_write_varint p (int32_of n + 1)) (read_holder_set p) (n, False)"
    if n: "0 \<le> n" "n \<le> collection_items lim"
  proof -
    have small: "n < 2 ^ 31 - 1" using n limits_okD [OF assms] by (simp add: hard_limits_def)
    then have s: "sint (int32_of n) = n" using n by simp
    then have "sint (int32_of n + 1) = n + 1" using small n by (subst sint_bias) auto
    then have "int32_of n + 1 \<noteq> 0" "\<not> sint (int32_of n + 1) < 0" using n by auto
    then show ?thesis
      unfolding read_holder_set_def using s n
      by (intro carries_then [OF carries_varint [OF assms]])
        (simp add: reads_validated reads_return assms)
  qed
  then show "carries lim k tail (write_holder_set p n False) (read_holder_set p) (n, False)"
    unfolding write_holder_set_def by (simp add: carries_validated)
qed

section \<open>Declarations carry their values\<close>

fun opens :: "schema \<Rightarrow> bool" where
  "opens (Field p k) = takes_rest k"
| "opens (Maybe p ss) = list_ex opens ss"
| "opens (Switch d cases dflt) = (list_ex (\<lambda>(_, ss). list_ex opens ss) cases \<or> list_ex opens dflt)"
| "opens (Holder p ss) = list_ex opens ss"
| "opens _ = False"

text \<open>
  A declaration is sound when only its last field takes the rest of the packet, its mappers and bit
  fields can be read back, and it names no shared type of the excluded ones. A terminated list is
  not: its element may begin with the terminator's byte (\<open>metadata_terminator_clash\<close>).
\<close>

fun sound :: "string list \<Rightarrow> schema \<Rightarrow> bool"
  and sound_fields :: "string list \<Rightarrow> schema list \<Rightarrow> bool" where
  "sound ex (Field p k) = True"
| "sound ex (Mapped p k by_wire by_name) = mapped_ok k by_wire by_name"
| "sound ex (Bits p k segs) = bits_ok (unsigned_bits k) segs"
| "sound ex (Flags p k fs) = flags_ok (unsigned_bits k) fs"
| "sound ex (Items p c ss) = (counter_ok c \<and> sound_fields ex ss \<and> \<not> list_ex opens ss)"
| "sound ex (Raw p c) = counter_ok c"
| "sound ex (Maybe p ss) = sound_fields ex ss"
| "sound ex (Shared f t) = (t \<notin> set ex)"
| "sound ex (Switch d cases dflt) =
     (list_all (\<lambda>(_, ss). sound_fields ex ss) cases \<and> sound_fields ex dflt)"
| "sound ex (Holder p ss) = sound_fields ex ss"
| "sound ex (Holder_Set p ss) = (sound_fields ex ss \<and> \<not> list_ex opens ss)"
| "sound ex (Terminated p t ss) = False"
| "sound_fields ex [] = True"
| "sound_fields ex (s # ss) = (sound ex s \<and> sound_fields ex ss \<and> (opens s \<longrightarrow> ss = []))"

definition sound_types :: "string list \<Rightarrow> shared_types \<Rightarrow> bool" where
  "sound_types ex types \<longleftrightarrow>
     list_all (\<lambda>(t, _, ss). t \<in> set ex \<or> sound_fields ex ss \<and> \<not> list_ex opens ss) types"

text \<open>The value needs at most that many nesting levels.\<close>

fun within_levels :: "nat \<Rightarrow> field_value \<Rightarrow> bool" where
  "within_levels k (VStruct vs) = (case k of 0 \<Rightarrow> False | Suc j \<Rightarrow> list_all (within_levels j) vs)"
| "within_levels k (VCase vs) = list_all (within_levels k) vs"
| "within_levels k (VInline vs) = list_all (within_levels k) vs"
| "within_levels k (VItems vss) = list_all (list_all (within_levels k)) vss"
| "within_levels k (VMaybe (Some vs)) = list_all (within_levels k) vs"
| "within_levels k _ = True"

lemma carries_tail: "carries lim k False w r v \<Longrightarrow> carries lim k tail w r v"
  by (erule carries_mono) auto

text \<open>The last field of a struct, which may take all that is left.\<close>

lemma carries_last:
  assumes "carries lim k tail w r v"
  shows "carries lim k tail (bindB w (\<lambda>_. encode_fields types env [] vs))
    (bindB r (\<lambda>v. mapB ((#) v) (decode_fields types j (env' v) []))) (v # vs)"
proof (cases "vs = []")
  case True
  have "bindB w (\<lambda>_. returnB ()) = w"
    by (auto simp: bindB_def returnB_def split: sum.splits prod.splits)
  moreover have "bindB r (\<lambda>v. mapB ((#) v) (returnB [])) = mapB (\<lambda>v. [v]) r"
    by (auto simp: mapB_def bindB_def returnB_def split: sum.splits prod.splits)
  ultimately show ?thesis using True carries_map [OF assms, of "\<lambda>v. [v]"] by simp
next
  case False
  then show ?thesis by (simp add: carries_def bindB_Inr_iff refuse_def)
qed

lemma opens_selected:
  "list_ex opens (selected env d cases dflt) \<Longrightarrow> opens (Switch d cases dflt)"
  by (force simp: selected_def list_ex_iff bind_eq_Some_conv dest!: map_of_SomeD split: option.splits)

lemma sound_selected:
  "sound ex (Switch d cases dflt) \<Longrightarrow> sound_fields ex (selected env d cases dflt)"
  by (auto simp: selected_def list_all_iff dest!: map_of_SomeD split: option.splits Option.bind_split)

lemma fields_carry_all:
  assumes "limits_ok lim"
  shows "sound_types ex types \<Longrightarrow> sound ex s \<Longrightarrow> within_levels k v \<Longrightarrow>
      carries lim k (opens s) (encode_field types env s v) (decode_field types k env s) v"
    and "sound_types ex types \<Longrightarrow> sound_fields ex ss \<Longrightarrow> list_all (within_levels k) vs \<Longrightarrow>
      carries lim k (list_ex opens ss) (encode_fields types env ss vs) (decode_fields types k env ss) vs"
    and "sound_types ex types \<Longrightarrow> sound_fields ex ss \<Longrightarrow> \<not> list_ex opens ss \<Longrightarrow>
      list_all (list_all (within_levels k)) vss \<Longrightarrow>
      carries lim k False (encode_items types env ss vss)
        (repeatB (length vss) (decode_fields types k env ss)) vss"
proof (induction types env s v and types env ss vs and types env ss vss arbitrary: k and k and k
    rule: encode_field_encode_fields_encode_items.induct)
  case (1 types env p f v)
  show ?case by (simp add: carries_field assms)
next
  case (2 types env p f by_wire by_name v)
  then show ?case by (simp add: carries_mapped assms)
next
  case (3 types env p f segs v)
  then show ?case by (simp add: carries_bits assms)
next
  case (4 types env p f fs v)
  then show ?case by (simp add: carries_flags assms)
next
  case (5 types env p c ss v)
  then show ?case
    by (cases v) (auto intro!: carries_bind [OF carries_count [OF assms(1)]] carries_map)
next
  case (6 types env p c v)
  then show ?case
    by (cases v) (auto intro!: carries_bind [OF carries_count [OF assms(1)]] carries_map carries_buffer assms)
next
  case (7 types env p ss v)
  have absent: "carries lim k (opens (Maybe p ss)) (buf_write_bool p False)
      (decode_field types k env (Maybe p ss)) (VMaybe None)"
    by (simp, rule carries_then [OF carries_bool [OF assms(1)]]) (simp add: reads_return)
  have present: "carries lim k (opens (Maybe p ss))
      (bindB (buf_write_bool p True) (\<lambda>_. encode_fields types env ss vs))
      (decode_field types k env (Maybe p ss)) (VMaybe (Some vs))" if "v = VMaybe (Some vs)" for vs
    using 7 that carries_map [of lim k _ _ _ vs "VMaybe \<circ> Some"]
    by (simp, intro carries_bind [OF carries_bool [OF assms(1)]]) simp
  show ?case
  proof (cases v)
    case (VMaybe m)
    with absent present show ?thesis by (cases m) auto
  qed simp_all
next
  case (8 types env f t v)
  show ?case
  proof (cases v)
    case (VStruct vs)
    with 8 obtain j where k: "k = Suc j" "list_all (within_levels j) vs" by (cases k) auto
    show ?thesis
    proof (cases "map_of types t")
      case (Some tt)
      obtain name ss where tt: "tt = (name, ss)" by (cases tt)
      from "8.prems"(2) have "t \<notin> set ex" by simp
      with map_of_SomeD [OF Some] tt "8.prems"(1) have "sound_fields ex ss" "\<not> list_ex opens ss"
        by (auto simp: sound_types_def list_all_iff)
      with 8(1) [OF VStruct Some tt [symmetric], of j] 8(2) k have
        "carries lim j False (encode_fields types [] ss vs) (decode_fields types j [] ss) vs" by simp
      then show ?thesis
        using VStruct Some tt k by (simp add: carries_nested carries_map assms)
    qed (simp add: VStruct)
  qed simp_all
next
  case (9 types env d cases dflt v)
  show ?case
  proof (cases v)
    case (VCase vs)
    have "carries lim k (list_ex opens (selected env d cases dflt))
        (encode_fields types env (selected env d cases dflt) vs)
        (decode_fields types k env (selected env d cases dflt)) vs"
      using "9.prems" VCase by (intro "9.IH") (auto intro: sound_selected)
    then have "carries lim k (opens (Switch d cases dflt))
        (encode_fields types env (selected env d cases dflt) vs)
        (decode_fields types k env (selected env d cases dflt)) vs"
      by (rule carries_mono) (simp, rule opens_selected)
    then show ?thesis using VCase by (simp add: carries_map)
  qed simp_all
next
  case (10 types env p ss v)
  show ?case
  proof (cases v)
    case (VId hid)
    then show ?thesis
      by (simp, intro carries_then [OF carries_holder(1) [OF assms(1)]]) (simp add: reads_return)
  next
    case (VInline vs)
    with 10 show ?thesis
      by (simp, intro carries_bind [OF carries_holder(2) [OF assms(1)]]) (simp add: carries_map)
  qed simp_all
next
  case (11 types env p ss v)
  show ?case
  proof (cases v)
    case (VBytes tag)
    then show ?thesis
      by (simp, intro carries_bind [OF carries_holder_set(2) [OF assms(1)]])
        (simp add: carries_map carries_string assms)
  next
    case (VItems vss)
    with 11 show ?thesis
      by (simp, intro carries_bind [OF carries_holder_set(1) [OF assms(1)]]) (simp add: carries_map)
  qed simp_all
next
  case (12 types env p t ss v)
  then show ?case by simp
next
  case (13 types env vs)
  show ?case by (simp add: carries_return)
next
  case (14 types env s ss vs)
  show ?case
  proof (cases vs)
    case (Cons v vs')
    show ?thesis
    proof (cases "opens s")
      case False
      with 14 Cons have "carries lim k False (encode_field types env s v) (decode_field types k env s) v"
        and rest: "carries lim k (list_ex opens ss) (encode_fields types (noted s v env) ss vs')
          (decode_fields types k (noted s v env) ss) vs'"
        by simp_all
      then have "carries lim k (list_ex opens ss)
          (bindB (encode_field types env s v) (\<lambda>_. encode_fields types (noted s v env) ss vs'))
          (bindB (decode_field types k env s) (\<lambda>v. mapB ((#) v) (decode_fields types k (noted s v env) ss)))
          (v # vs')"
        by (elim carries_bind) (rule carries_map)
      with False Cons show ?thesis by simp
    next
      case True
      with "14.prems"(2) have "ss = []" by simp
      with 14 Cons carries_last [OF "14.IH"(1) [OF Cons]] show ?thesis by simp
    qed
  qed simp
next
  case (15 types env ss)
  show ?case by (simp add: carries_return)
next
  case (16 types env ss vs vss)
  then have "carries lim k False (encode_fields types env ss vs) (decode_fields types k env ss) vs"
    "carries lim k False (encode_items types env ss vss)
      (repeatB (length vss) (decode_fields types k env ss)) vss" by simp_all
  then show ?case by simp (elim carries_bind, rule carries_then_return)
qed


section \<open>Bodies\<close>

lemma body_roundtrip:
  assumes "limits_ok lim" "sound_types ex types" "sound_fields ex ss"
    and "list_all (within_levels (nat (recursion_depth lim))) vs"
    and "encode_body types ss lim vs = Inr payload"
  shows "decode_body types ss name lim payload = Inr vs"
proof -
  define b where "b = \<lparr>buf_data = [], buf_offset = 0, buf_limits = lim, buf_mode = WriteMode, buf_depth = 0\<rparr>"
  have new: "new_write_buffer lim = Inr b"
    using limits_okD(1) [OF assms(1)] by (simp add: new_write_buffer_def validate_limits_def b_def)
  with assms(5) obtain b' where enc: "encode_fields types [] ss vs b = (Inr (), b')" "payload = buf_data b'"
    by (auto simp: encode_body_def split: prod.splits sum.splits)
  have "writing lim b" using limits_okD(2) [OF assms(1)] by (simp add: writing_def b_def)
  from fields_carry_all(2) [OF assms(1-4)] this enc(1) obtain e where e: "b' = b\<lparr>buf_data := buf_data b @ e\<rparr>"
    and r: "writing lim b'" "reads lim (nat (recursion_depth lim)) (list_ex opens ss)
      (decode_fields types (nat (recursion_depth lim)) [] ss) vs e" by (rule carriesE)
  from e enc(2) have [simp]: "e = payload" by (simp add: b_def)
  define c where "c = \<lparr>buf_data = payload, buf_offset = 0, buf_limits = lim, buf_mode = ReadMode, buf_depth = 0\<rparr>"
  have "reading lim (nat (recursion_depth lim)) (payload @ []) c"
    using limits_okD [OF assms(1)] by (simp add: reading_def c_def)
  from readsD [OF r(2) this [folded \<open>e = payload\<close>]] have "decode_fields types (nat (recursion_depth lim)) [] ss c =
      (Inr vs, c\<lparr>buf_offset := length payload\<rparr>)" by (simp add: c_def)
  moreover have "new_read_buffer payload lim = Inr c"
    using r(1) enc(2) limits_okD(1) [OF assms(1)]
    by (simp add: new_read_buffer_def validate_limits_def c_def writing_def)
  ultimately show ?thesis
    using limits_okD(1) [OF assms(1)]
    by (simp add: decode_body_def decode_body_with_def require_empty_def require_mode_ok buffer_remaining_def returnB_def c_def)
qed

end
