(* ===== verification/Packet_Fuel.thy ===== *)
theory Packet_Fuel
  imports Packet_Laws
begin

text \<open>
  The decoder's fuel is never what ends a decode: with as many units as nesting levels are left,
  more fuel changes nothing, because entering a level fails first. The proof follows a decode
  through the buffer operations, none of which changes the depth once it has returned
  (\<open>depth_kept\<close>).
\<close>

section \<open>Depth\<close>

named_theorems depth_kept_intros \<open>operations that leave the nesting depth as it was\<close>

definition depth_kept :: "'a buffer_op \<Rightarrow> bool" where
  "depth_kept m \<longleftrightarrow> (\<forall>b. 0 \<le> buf_depth b \<longrightarrow>
     buf_depth (snd (m b)) = buf_depth b \<and> buf_limits (snd (m b)) = buf_limits b)"

lemma depth_keptI:
  "(\<And>b. 0 \<le> buf_depth b \<Longrightarrow> buf_depth (snd (m b)) = buf_depth b \<and> buf_limits (snd (m b)) = buf_limits b)
   \<Longrightarrow> depth_kept m"
  by (simp add: depth_kept_def)

lemma depth_keptD: "depth_kept m \<Longrightarrow> m b = (r, b') \<Longrightarrow> 0 \<le> buf_depth b \<Longrightarrow>
    buf_depth b' = buf_depth b \<and> buf_limits b' = buf_limits b"
  unfolding depth_kept_def by (metis snd_conv)

lemma depth_kept_return [depth_kept_intros]: "depth_kept (returnB v)" "depth_kept (failB p e)" "depth_kept (refuse p)"
  by (auto simp: depth_kept_def returnB_def failB_def refuse_def)

lemma depth_kept_bind [depth_kept_intros]: "depth_kept m \<Longrightarrow> (\<And>v. depth_kept (f v)) \<Longrightarrow> depth_kept (bindB m f)"
  unfolding depth_kept_def bindB_def by (auto split: prod.splits sum.splits)

lemma depth_kept_map [depth_kept_intros]: "depth_kept m \<Longrightarrow> depth_kept (mapB f m)"
  unfolding mapB_def by (intro depth_kept_intros)

lemma depth_kept_if [depth_kept_intros]: "depth_kept m \<Longrightarrow> depth_kept m' \<Longrightarrow> depth_kept (if c then m else m')"
  by simp

lemma depth_kept_require [depth_kept_intros]: "depth_kept (require_mode mode p)"
  by (auto simp: depth_kept_def require_mode_def returnB_def failB_def)

lemma depth_kept_require_bind: "(\<And>b. depth_kept (\<lambda>b. f () b)) \<Longrightarrow> depth_kept (bindB (require_mode mode p) f)"
  by (rule depth_kept_bind [OF depth_kept_require]) simp

lemma depth_kept_read_value [depth_kept_intros]: "depth_kept (read_value p rd)"
  unfolding read_value_def
  by (rule depth_kept_require_bind, rule depth_keptI) (auto simp: returnB_def failB_def split: sum.splits)

lemma depth_kept_read_bytes [depth_kept_intros]: "depth_kept (read_bytes p n)"
  unfolding read_bytes_def
  by (rule depth_kept_require_bind, rule depth_keptI) (auto simp: returnB_def failB_def)

lemma depth_kept_validate [depth_kept_intros]: "depth_kept (validate_collection p n)"
  by (rule depth_keptI) (auto simp: validate_collection_def returnB_def failB_def)

lemma depth_kept_at: "(\<And>l. depth_kept (\<lambda>b. m l b)) \<Longrightarrow> depth_kept (\<lambda>b. m (g b) b)"
  by (auto simp: depth_kept_def)

lemma depth_kept_buffer_read [depth_kept_intros]: "depth_kept (buf_read_buffer p n)"
  unfolding buf_read_buffer_def by (intro depth_kept_intros)

lemma depth_kept_rest [depth_kept_intros]: "depth_kept (read_rest_buffer p)" "depth_kept (read_plugin_payload p)"
  unfolding read_rest_buffer_def read_plugin_payload_def
  by ((rule depth_kept_require_bind, rule depth_keptI,
      use depth_kept_read_bytes [unfolded depth_kept_def] in \<open>auto simp: failB_def\<close>)+)

lemma depth_kept_nbt [depth_kept_intros]: "depth_kept (read_nbt p)" "depth_kept (read_anonymous_nbt p)"
  unfolding read_nbt_def read_nbt_with_def read_anonymous_nbt_def
  by ((rule depth_kept_require_bind, rule depth_keptI, auto simp: returnB_def failB_def split: sum.splits)+)

lemma depth_kept_optional:
  assumes "\<And>p. depth_kept (rd p)"
  shows "depth_kept (read_optional_with rd p)"
proof -
  have s: "depth_kept (bindB (rd p) (\<lambda>v. returnB (Some v)))" by (intro depth_kept_intros assms)
  show ?thesis
    unfolding read_optional_with_def
    by (rule depth_kept_require_bind, rule depth_keptI)
      (simp add: returnB_def [of None] failB_def s [unfolded depth_kept_def])
qed

lemma depth_kept_optional_nbt [depth_kept_intros]: "depth_kept (read_optional_nbt p)" "depth_kept (read_anon_optional_nbt p)"
  unfolding read_optional_nbt_def read_anon_optional_nbt_def by (intro depth_kept_optional depth_kept_nbt)+

lemma depth_kept_limited [depth_kept_intros]: "depth_kept (buf_read_string p)" "depth_kept (buf_read_byte_array p)"
  unfolding buf_read_string_def [abs_def] buf_read_byte_array_def [abs_def]
  by (rule depth_kept_at [where m = "\<lambda>l. read_value p (read_string l)"], rule depth_kept_read_value)
    (rule depth_kept_at [where m = "\<lambda>l. read_value p (read_byte_array l)"], rule depth_kept_read_value)

lemma depth_kept_plain [depth_kept_intros]: "depth_kept (buf_read_varint p)" "depth_kept (buf_read_varlong p)"
    "depth_kept (buf_read_i8 p)" "depth_kept (buf_read_u8 p)" "depth_kept (buf_read_i16 p)" "depth_kept (buf_read_u16 p)"
    "depth_kept (buf_read_i32 p)" "depth_kept (buf_read_u32 p)" "depth_kept (buf_read_i64 p)" "depth_kept (buf_read_u64 p)"
    "depth_kept (buf_read_f32 p)" "depth_kept (buf_read_f64 p)" "depth_kept (buf_read_bool p)" "depth_kept (buf_read_uuid p)"
  unfolding buf_read_varint_def buf_read_varlong_def buf_read_i8_def buf_read_u8_def
      buf_read_i16_def buf_read_u16_def buf_read_i32_def buf_read_u32_def buf_read_i64_def
      buf_read_u64_def buf_read_f32_def buf_read_f64_def buf_read_bool_def buf_read_uuid_def
  by (rule depth_kept_read_value)+

lemma depth_kept_field [depth_kept_intros]: "depth_kept (read_field k p)"
  by (cases k) (simp_all add: depth_kept_intros)

lemma depth_kept_length [depth_kept_intros]: "depth_kept (read_collection_length p)" "depth_kept (read_count env c p)"
  "depth_kept (read_holder p)" "depth_kept (read_holder_set p)"
proof -
  show len: "depth_kept (read_collection_length p)"
    unfolding read_collection_length_def by (intro depth_kept_intros)
  show "depth_kept (read_count env c p)"
    unfolding read_count_def by (cases c) (simp_all add: len depth_kept_intros)
  show "depth_kept (read_holder p)" "depth_kept (read_holder_set p)"
    unfolding read_holder_def read_holder_set_def by (intro depth_kept_intros)+
qed

lemma depth_kept_repeat [depth_kept_intros]: "depth_kept m \<Longrightarrow> depth_kept (repeatB n m)"
  by (induction n) (simp_all add: depth_kept_intros)

lemma depth_kept_terminator [depth_kept_intros]: "depth_kept (read_terminator p t)"
  unfolding read_terminator_def
  by (rule depth_kept_require_bind, rule depth_keptI) (auto simp: returnB_def failB_def)

lemma depth_kept_until: "depth_kept m \<Longrightarrow> depth_kept (until_terminator n p t i m)"
  by (induction n arbitrary: i) (simp_all add: depth_kept_intros)

lemma depth_kept_terminated [depth_kept_intros]: "depth_kept m \<Longrightarrow> depth_kept (terminated p t m)"
  unfolding terminated_def [abs_def]
  by (rule depth_kept_at [where m = "\<lambda>n. until_terminator n p t 0 m"]) (rule depth_kept_until)

lemma depth_kept_nested [depth_kept_intros]:
  assumes "depth_kept m"
  shows "depth_kept (nested name m)"
proof (rule depth_keptI)
  fix b :: buffer assume b: "0 \<le> buf_depth b"
  let ?d = "b\<lparr>buf_depth := buf_depth b + 1\<rparr>"
  obtain r c where c: "m ?d = (r, c)" by fastforce
  with depth_keptD [OF assms c] b show "buf_depth (snd (nested name m b)) = buf_depth b \<and>
      buf_limits (snd (nested name m b)) = buf_limits b"
    by (simp add: nested_def bindB_def enter_nested_def leave_nested_def returnB_def failB_def)
qed

lemma depth_kept_decode:
  "depth_kept (decode_field types fuel env s)" "depth_kept (decode_fields types fuel env ss)"
  by (induction types fuel env s and types fuel env ss rule: decode_field_decode_fields.induct)
    (auto simp: read_mapped_def read_bits_def read_flags_def intro!: depth_kept_intros split: option.splits)

section \<open>Fuel\<close>

text \<open>Two operations that agree on every buffer with at most \<open>n\<close> levels left.\<close>

definition agree :: "nat \<Rightarrow> 'a buffer_op \<Rightarrow> 'a buffer_op \<Rightarrow> bool" where
  "agree n m m' \<longleftrightarrow> (\<forall>b. 0 \<le> buf_depth b \<longrightarrow>
     recursion_depth (buf_limits b) \<le> buf_depth b + int n \<longrightarrow> m b = m' b)"

lemma agree_refl [simp]: "agree n m m"
  by (simp add: agree_def)

lemma agree_bind:
  assumes "agree n m m'" "depth_kept m'" "\<And>v. agree n (f v) (f' v)"
  shows "agree n (bindB m f) (bindB m' f')"
  unfolding agree_def
proof (intro allI impI)
  fix b :: buffer
  assume b: "0 \<le> buf_depth b" "recursion_depth (buf_limits b) \<le> buf_depth b + int n"
  obtain r c where c: "m' b = (r, c)" by fastforce
  have "f v c = f' v c" for v
    using assms(3) depth_keptD [OF assms(2) c b(1)] b by (simp add: agree_def)
  with c assms(1) b show "bindB m f b = bindB m' f' b"
    by (simp add: bindB_def agree_def split: sum.splits)
qed

lemma agree_map: "agree n m m' \<Longrightarrow> agree n (mapB f m) (mapB f m')"
  by (simp add: agree_def mapB_def bindB_def)

lemma agree_repeat: "agree n m m' \<Longrightarrow> depth_kept m' \<Longrightarrow> agree n (repeatB k m) (repeatB k m')"
  by (induction k) (simp_all add: agree_bind depth_kept_repeat)

lemma agree_until:
  "agree n m m' \<Longrightarrow> depth_kept m' \<Longrightarrow> agree n (until_terminator k p t i m) (until_terminator k p t i m')"
  by (induction k arbitrary: i) (simp_all add: agree_bind depth_kept_until depth_kept_intros)

lemma agree_terminated:
  "agree n m m' \<Longrightarrow> depth_kept m' \<Longrightarrow> agree n (terminated p t m) (terminated p t m')"
  using agree_until unfolding agree_def terminated_def by blast

lemma agree_nested:
  assumes "n = Suc k \<Longrightarrow> agree k m m'" "n = 0 \<or> n = Suc k"
  shows "agree n (nested name m) (nested name m')"
  using assms by (auto simp: agree_def nested_def bindB_def enter_nested_def returnB_def failB_def)

lemma decode_agree:
  "n \<le> fuel \<Longrightarrow> n \<le> fuel' \<Longrightarrow> agree n (decode_field types fuel env s) (decode_field types fuel' env s)"
  "n \<le> fuel \<Longrightarrow> n \<le> fuel' \<Longrightarrow> agree n (decode_fields types fuel env ss) (decode_fields types fuel' env ss)"
proof (induction types fuel env s and types fuel env ss arbitrary: n fuel' and n fuel'
    rule: decode_field_decode_fields.induct)
  case (8 types env f t)
  then show ?case
    by (cases fuel') (auto intro!: agree_nested split: option.splits)
next
  case (9 types fuel env f t)
  show ?case
  proof (cases fuel')
    case 0
    with 9 show ?thesis by (auto intro!: agree_nested split: option.splits)
  next
    case (Suc k)
    have "agree n (nested name (mapB VStruct (decode_fields types fuel [] ss)))
        (nested name (mapB VStruct (decode_fields types k [] ss)))"
      if "map_of types t = Some (name, ss)" for name ss
      using 9 Suc that by (intro agree_nested [where k = "n - 1"]) (auto intro!: agree_map)
    with Suc show ?thesis by (auto split: option.splits)
  qed
qed (auto intro!: agree_bind agree_map agree_repeat agree_terminated depth_kept_intros depth_kept_decode)

section \<open>Property\<close>

text \<open>
  C21: a generated decoder ends on every payload. Shared types refer to each other in a cycle, so its recursion
  is bounded by the nesting levels of the buffer only; the model's fuel, one unit a level, is never what
  ends it: with at least as many units as the recursion limit has levels, the result is the one of the limit's.
\<close>

theorem decode_fuel_enough:
  assumes "nat (recursion_depth lim) \<le> fuel"
  shows "decode_body_with fuel types ss name lim payload = decode_body types ss name lim payload"
proof (cases "new_read_buffer payload lim")
  case (Inl e)
  then show ?thesis by (simp add: decode_body_def decode_body_with_def)
next
  case (Inr b)
  then have "buf_depth b = 0" "buf_limits b = lim"
    by (auto simp: new_read_buffer_def Let_def result_simps split: if_splits)
  with decode_agree(2) [OF assms order_refl] have
    "decode_fields types fuel [] ss b = decode_fields types (nat (recursion_depth lim)) [] ss b"
    by (simp add: agree_def)
  with Inr show ?thesis by (simp add: decode_body_def decode_body_with_def)
qed

text \<open>A type that contains itself, on a payload that nests it deeper than the limit of two levels.\<close>

definition nest_limits :: limits where
  "nest_limits = default_limits\<lparr>recursion_depth := 2\<rparr>"

definition nodes :: shared_types where
  "nodes = [(''Node'', ''node'', [Maybe ''node.next'' [Shared ''Next'' ''Node'']])]"

theorem decode_fuel_enough_witness:
  "decode_body_with 9 nodes [Shared ''Root'' ''Node''] ''chain'' nest_limits [1, 1, 1, 0] =
   decode_body nodes [Shared ''Root'' ''Node''] ''chain'' nest_limits [1, 1, 1, 0]"
  by (rule decode_fuel_enough) (simp add: nest_limits_def)

end
