(* ===== verification/Java_Session.thy ===== *)
theory Java_Session
  imports Packet_Fuel Wire_Compression
begin

text \<open>
  generated/java/v1_8/protocol.go and generated/java/v26_1/protocol.go: the session of one
  connection. The two files are the same code over different tables, so the operations take the
  tables as a \<open>version\<close>; Session_V47 and Session_V775 have each version's tables and what
  differs between the files (transitions, disconnects, login roles). A session performs no I/O: it
  turns frame payloads into packets and back, and packets into transitions that the stream commits.

  compress/zlib is the parameter of Wire_Compression. A packet type without a schema, as the six of
  protocol 775 whose codec is not modelled, decodes and encodes through \<open>vn_decode\<close> and
  \<open>vn_encode\<close>. The locale \<open>packet_registry\<close> states what a version's tables promise and derives
  the round trip of frames from it; \<open>transition_rules\<close> does so for the state machine. The
  session's framer is in Wire_Framer, and a nil pointer to a generated struct, on which its
  Encode panics, is not a value here.
\<close>

section \<open>Versions and packets\<close>

text \<open>A packet value: nil, an UnknownPacket (or a nil pointer to one), a generated struct by the name of its type, or a value of another type.\<close>

datatype packet_value =
    NoValue
  | Unknown "bytes option"
  | Known string "field_value list"
  | Foreign

record protocol_packet =
  gp_state :: string
  gp_direction :: byte
  gp_id :: i32
  gp_name :: string
  gp_payload :: bytes
  gp_value :: packet_value

record version =
  vn_states :: "string list"
  vn_factories :: "(packet_key \<times> string) list"
  vn_value_keys :: "(string \<times> packet_key) list"
  vn_names :: "(packet_key \<times> string) list"
  vn_schemas :: "(string \<times> schema list) list"
  vn_types :: shared_types
  vn_decode :: "string \<Rightarrow> string \<Rightarrow> limits \<Rightarrow> bytes \<Rightarrow> field_value list result"
  vn_encode :: "string \<Rightarrow> limits \<Rightarrow> field_value list \<Rightarrow> bytes result"

section \<open>The session\<close>

record java_session =
  js_limits :: limits
  js_role :: byte
  js_state :: string
  js_inbound :: byte
  js_outbound :: byte
  js_compression :: compression_control

definition role_client :: byte where "role_client = 1"
definition role_server :: byte where "role_server = 2"

definition new_session :: "byte \<Rightarrow> limits \<Rightarrow> java_session result" where
  "new_session role lim =
     (if \<not> valid lim then Inl ErrInvalidLimits
      else if role = role_client then
        Inr \<lparr>js_limits = lim, js_role = role, js_state = ''handshaking'', js_inbound = clientbound,
          js_outbound = serverbound,
          js_compression = \<lparr>enabled = False, threshold = 0, policy = Some strict_compression\<rparr>\<rparr>
      else if role = role_server then
        Inr \<lparr>js_limits = lim, js_role = role, js_state = ''handshaking'', js_inbound = serverbound,
          js_outbound = clientbound,
          js_compression = \<lparr>enabled = False, threshold = 0, policy = Some strict_compression\<rparr>\<rparr>
      else Inl ErrSession)"

definition validate_state :: "version \<Rightarrow> string \<Rightarrow> unit result" where
  "validate_state vn st = (if st \<in> set (vn_states vn) then Inr () else Inl ErrSession)"

definition set_state :: "string \<Rightarrow> java_session \<Rightarrow> java_session" where
  "set_state st s = s\<lparr>js_state := st\<rparr>"

section \<open>Frames\<close>

definition decode_value ::
    "version \<Rightarrow> string \<Rightarrow> string \<Rightarrow> limits \<Rightarrow> bytes \<Rightarrow> field_value list result" where
  "decode_value vn t name lim payload = (case map_of (vn_schemas vn) t of
     Some ss \<Rightarrow> decode_body (vn_types vn) ss name lim payload
   | None \<Rightarrow> vn_decode vn t name lim payload)"

definition encode_value :: "version \<Rightarrow> string \<Rightarrow> limits \<Rightarrow> field_value list \<Rightarrow> bytes result" where
  "encode_value vn t lim vs = (case map_of (vn_schemas vn) t of
     Some ss \<Rightarrow> encode_body (vn_types vn) ss lim vs
   | None \<Rightarrow> vn_encode vn t lim vs)"

definition decode_frame ::
    "inflater \<Rightarrow> version \<Rightarrow> java_session \<Rightarrow> bytes \<Rightarrow> protocol_packet result" where
  "decode_frame inflate vn s frame =
     bindR (decode_compression inflate frame (js_compression s) (js_limits s)) (\<lambda>body.
     bindR (split_packet_body body) (\<lambda>raw.
       let key = (js_state s, js_inbound s, packet_id raw);
           p = \<lparr>gp_state = js_state s, gp_direction = js_inbound s, gp_id = packet_id raw,
             gp_name = [], gp_payload = packet_payload raw, gp_value = NoValue\<rparr>
       in case map_of (vn_factories vn) key of
         None \<Rightarrow> Inr (p\<lparr>gp_value := Unknown (Some (packet_payload raw))\<rparr>)
       | Some t \<Rightarrow> (case map_of (vn_names vn) key of
           None \<Rightarrow> Inl ErrSession
         | Some name \<Rightarrow> bindR (decode_value vn t name (js_limits s) (packet_payload raw)) (\<lambda>vs.
             Inr (p\<lparr>gp_name := name, gp_value := Known t vs\<rparr>)))))"

text \<open>The \<open>PacketID\<close> of a value type is the ID of its key.\<close>

definition encode_packet_body :: "version \<Rightarrow> java_session \<Rightarrow> protocol_packet \<Rightarrow> bytes result" where
  "encode_packet_body vn s p =
     (let key = (js_state s, js_outbound s, gp_id p);
          join = (\<lambda>payload. join_packet_body \<lparr>packet_id = gp_id p, packet_payload = payload\<rparr> (js_limits s))
      in case gp_value p of
        Known t vs \<Rightarrow> (case map_of (vn_value_keys vn) t of
            None \<Rightarrow> Inl ErrSession
          | Some value_key \<Rightarrow>
              if value_key \<noteq> key then Inl ErrSession
              else if map_of (vn_factories vn) key = None then Inl ErrSession
              else bindR (encode_value vn t (js_limits s) vs) join)
      | NoValue \<Rightarrow> join (gp_payload p)
      | Unknown None \<Rightarrow> Inl ErrSession
      | Unknown (Some payload) \<Rightarrow> join payload
      | Foreign \<Rightarrow> Inl ErrSession)"

definition encode_frame :: "deflater \<Rightarrow> version \<Rightarrow> java_session \<Rightarrow> protocol_packet \<Rightarrow> bytes result" where
  "encode_frame deflate vn s p =
     (if gp_state p \<noteq> js_state s then Inl ErrSession
      else if gp_direction p \<noteq> js_outbound s then Inl ErrSession
      else bindR (encode_packet_body vn s p) (\<lambda>body.
        encode_compression deflate body (js_compression s) (js_limits s)))"

section \<open>Controls and transitions\<close>

datatype session_control =
    StateControl string
  | CompressionControl compression_control
  | NilControl
  | OtherControl

definition validate_session_control :: "version \<Rightarrow> session_control \<Rightarrow> unit result" where
  "validate_session_control vn c = (case c of
     StateControl st \<Rightarrow> validate_state vn st
   | CompressionControl k \<Rightarrow>
       if \<not> enabled k then Inr ()
       else if sint (threshold k) < 0 then Inl ErrSession
       else if policy k = None then Inl ErrSession
       else Inr ()
   | NilControl \<Rightarrow> Inl ErrSession
   | OtherControl \<Rightarrow> Inl ErrSession)"

definition apply_control :: "session_control \<Rightarrow> java_session \<Rightarrow> java_session" where
  "apply_control c s = (case c of
     StateControl st \<Rightarrow> s\<lparr>js_state := st\<rparr>
   | CompressionControl k \<Rightarrow> s\<lparr>js_compression := k\<rparr>
   | _ \<Rightarrow> s)"

record session_transition =
  tr_state :: "string option"
  tr_control :: "session_control option"

definition validate_transition :: "version \<Rightarrow> session_transition \<Rightarrow> unit result" where
  "validate_transition vn tr =
     bindR (case tr_state tr of None \<Rightarrow> Inr () | Some st \<Rightarrow> validate_state vn st) (\<lambda>_.
       case tr_control tr of None \<Rightarrow> Inr () | Some c \<Rightarrow> validate_session_control vn c)"

definition apply_transition :: "session_transition \<Rightarrow> java_session \<Rightarrow> java_session" where
  "apply_transition tr s =
     (let s' = (case tr_state tr of None \<Rightarrow> s | Some st \<Rightarrow> s\<lparr>js_state := st\<rparr>)
      in case tr_control tr of None \<Rightarrow> s' | Some c \<Rightarrow> apply_control c s')"

definition compression_for_threshold :: "i32 \<Rightarrow> java_session \<Rightarrow> compression_control" where
  "compression_for_threshold n s =
     (if 0 \<le> sint n then \<lparr>enabled = True, threshold = n, policy = policy (js_compression s)\<rparr>
      else \<lparr>enabled = False, threshold = 0, policy = policy (js_compression s)\<rparr>)"

text \<open>The int32 field of a struct at a position; the value type fixes the fields.\<close>

definition int_field :: "nat \<Rightarrow> field_value list \<Rightarrow> int" where
  "int_field i vs = (if i < length vs then wire_int FVarInt (vs ! i) else 0)"

definition to_state :: "string \<Rightarrow> java_session \<Rightarrow> string \<Rightarrow> session_transition option result" where
  "to_state from s st =
     (if js_state s \<noteq> from then Inl ErrSession
      else Inr (Some \<lparr>tr_state = Some st, tr_control = None\<rparr>))"

definition to_compression :: "string \<Rightarrow> java_session \<Rightarrow> field_value list \<Rightarrow> session_transition option result" where
  "to_compression from s vs =
     (if js_state s \<noteq> from then Inl ErrSession
      else Inr (Some \<lparr>tr_state = None, tr_control = Some (CompressionControl
        (compression_for_threshold (word_of_int (int_field 0 vs)) s))\<rparr>))"

definition propose_handshake :: "java_session \<Rightarrow> field_value list \<Rightarrow> session_transition option result" where
  "propose_handshake s vs =
     (if js_state s \<noteq> ''handshaking'' then Inl ErrSession
      else if int_field 3 vs = 1 then Inr (Some \<lparr>tr_state = Some ''status'', tr_control = None\<rparr>)
      else if int_field 3 vs = 2 then Inr (Some \<lparr>tr_state = Some ''login'', tr_control = None\<rparr>)
      else Inl ErrSession)"


section \<open>Snapshots, sensitive packets, lookups\<close>

fun decimal :: "nat \<Rightarrow> string" where
  "decimal n = (if n < 10 then [char_of (48 + n)] else decimal (n div 10) @ [char_of (48 + n mod 10)])"

declare decimal.simps [simp del]

definition format_int :: "int \<Rightarrow> string" where
  "format_int i = (if i < 0 then ''-'' @ decimal (nat (- i)) else decimal (nat i))"

record snapshot =
  sn_state :: string
  sn_pipeline :: "string \<rightharpoonup> string"

text \<open>The name of a policy is a method of its Go type, here an argument.\<close>

definition session_snapshot :: "(compression_policy \<Rightarrow> string) \<Rightarrow> java_session \<Rightarrow> snapshot" where
  "session_snapshot policy_name s = \<lparr>sn_state = js_state s, sn_pipeline =
     [''compression.enabled'' \<mapsto> (if enabled (js_compression s) then ''true'' else ''false''),
      ''compression.threshold'' \<mapsto> format_int (sint (threshold (js_compression s))),
      ''compression.policy'' \<mapsto>
        (case policy (js_compression s) of None \<Rightarrow> [] | Some q \<Rightarrow> policy_name q)]\<rparr>"

definition secret_types :: "string list" where
  "secret_types = [''LoginClientboundEncryptionBegin'', ''LoginServerboundEncryptionBegin'']"

definition sensitive :: "protocol_packet \<Rightarrow> bool" where
  "sensitive p = (case gp_value p of
     Known t _ \<Rightarrow> t \<in> set secret_types
   | _ \<Rightarrow> False)"

definition sensitive_frames :: "packet_key list" where
  "sensitive_frames = [(''login'', clientbound, 1), (''login'', serverbound, 1)]"

definition sensitive_frame :: "inflater \<Rightarrow> java_session \<Rightarrow> byte \<Rightarrow> bytes \<Rightarrow> bool" where
  "sensitive_frame inflate s dir frame =
     (if js_state s \<noteq> ''login'' then False
      else case decode_compression inflate frame (js_compression s) (js_limits s) of
        Inl _ \<Rightarrow> True
      | Inr body \<Rightarrow> (case split_packet_body body of
          Inl _ \<Rightarrow> True
        | Inr raw \<Rightarrow> (''login'', dir, packet_id raw) \<in> set sensitive_frames))"

datatype login_role =
    LoginStart
  | EncryptionRequest
  | EncryptionResponse
  | SetCompression
  | LoginSuccess
  | LoginAcknowledged
  | KnownPacks
  | ConfigurationFinished

definition packet_name :: "version \<Rightarrow> string \<Rightarrow> byte \<Rightarrow> i32 \<Rightarrow> string option" where
  "packet_name vn st dir i = map_of (vn_names vn) (st, dir, i)"

text \<open>
  packetIDs is filled from packetNames in the order of a Go map; no two packets of a state and
  direction have one name, so the order is of no account.
\<close>

definition packet_number :: "version \<Rightarrow> string \<Rightarrow> byte \<Rightarrow> string \<Rightarrow> i32 option" where
  "packet_number vn st dir name =
     map_of (map (\<lambda>((st, dir, i), name). ((st, dir, name), i)) (vn_names vn)) (st, dir, name)"

text \<open>The type of the empty struct that \<open>NewPacketValue\<close> makes.\<close>

definition new_packet_value :: "version \<Rightarrow> string \<Rightarrow> byte \<Rightarrow> i32 \<Rightarrow> string option" where
  "new_packet_value vn st dir i = map_of (vn_factories vn) (st, dir, i)"

definition disconnect_packet :: "string \<Rightarrow> java_session \<Rightarrow> i32 \<Rightarrow> string \<Rightarrow> field_value \<Rightarrow> protocol_packet" where
  "disconnect_packet st s i t reason = \<lparr>gp_state = st, gp_direction = js_outbound s, gp_id = i,
     gp_name = [], gp_payload = [], gp_value = Known t [reason]\<rparr>"

section \<open>What a version's tables promise\<close>

text \<open>The other end of a connection: what one side writes the other reads, with the same settings.\<close>

definition mirrors :: "java_session \<Rightarrow> java_session \<Rightarrow> bool" where
  "mirrors s s' \<longleftrightarrow> js_state s' = js_state s \<and> js_inbound s' = js_outbound s \<and>
     js_compression s' = js_compression s \<and> js_limits s' = js_limits s"

definition own_policy :: "compression_control \<Rightarrow> bool" where
  "own_policy c \<longleftrightarrow> policy c = Some strict_compression \<or> policy c = Some compatible_compression"

lemma join_packet_body_Nil: "join_packet_body p lim \<noteq> Inr []"
proof
  assume "join_packet_body p lim = Inr []"
  then have "split_packet_body [] = Inr p" by (rule split_join)
  then show False by (simp add: split_packet_body_def read_varint_def)
qed

text \<open>The envelope and the ID come off the way they went on.\<close>

lemma body_arrives:
  assumes "limits_ok (js_limits s)" "zlib_agrees inflate deflate" "own_policy (js_compression s)"
    and "join_packet_body raw (js_limits s) = Inr body"
    and "encode_compression deflate body (js_compression s) (js_limits s) = Inr frame"
  shows "decode_compression inflate frame (js_compression s) (js_limits s) = Inr body"
    and "split_packet_body body = Inr raw"
proof -
  from assms(4) join_packet_body_Nil have "body \<noteq> []" by metis
  with compression_inverse [OF assms(1,2) assms(3) [unfolded own_policy_def] assms(5)]
  show "decode_compression inflate frame (js_compression s) (js_limits s) = Inr body" by simp
  from assms(4) show "split_packet_body body = Inr raw" by (rule split_join)
qed

text \<open>The place of a key in a table sorted by state, direction and ID.\<close>

fun position_in :: "string list \<Rightarrow> string \<Rightarrow> int" where
  "position_in [] st = 0"
| "position_in (x # xs) st = (if x = st then 0 else 1 + position_in xs st)"

definition key_rank :: "string list \<Rightarrow> packet_key \<Rightarrow> int" where
  "key_rank states key = (case key of (st, dir, i) \<Rightarrow>
     position_in states st * 2 ^ 40 + uint dir * 2 ^ 32 + uint i)"

lemma ascending_keys:
  assumes "ascending (map (key_rank states) keys)"
  shows "distinct keys"
  using ascending_distinct [OF assms] by (simp add: distinct_map)

lemma map_of_swapped:
  assumes "distinct (map fst table)" "map_of (map (\<lambda>(key, t). (t, key)) table) t = Some key"
  shows "map_of table key = Some t"
  using map_of_SomeD [OF assms(2)] assms(1) by (auto intro: map_of_is_SomeI)

locale packet_registry =
  fixes vn :: version and ex :: "string list" and exempt :: "string list"
  assumes keyed: "map_of (vn_value_keys vn) t = Some key \<Longrightarrow> map_of (vn_factories vn) key = Some t"
    and named: "map_of (vn_factories vn) key = Some t \<Longrightarrow> \<exists>name. map_of (vn_names vn) key = Some name"
    and names_keyed: "distinct (map fst (vn_names vn))"
    and types_sound: "sound_types ex (vn_types vn)"
    and schemas_sound: "map_of (vn_schemas vn) t = Some ss \<Longrightarrow> t \<notin> set exempt \<Longrightarrow> sound_fields ex ss"
    and secrets: "map_of (vn_factories vn) key = Some t \<Longrightarrow> t \<in> set secret_types \<Longrightarrow> key \<in> set sensitive_frames"
begin

lemma value_arrives:
  assumes "limits_ok lim" "t \<in> fst ` set (vn_schemas vn)" "t \<notin> set exempt"
    and "list_all (within_levels (nat (recursion_depth lim))) vs"
    and "encode_value vn t lim vs = Inr payload"
  shows "decode_value vn t name lim payload = Inr vs"
proof -
  from assms(2) obtain ss where ss: "map_of (vn_schemas vn) t = Some ss"
    by (auto dest: weak_map_of_SomeI)
  with assms schemas_sound [OF ss assms(3)] show ?thesis
    by (simp add: encode_value_def decode_value_def body_roundtrip [OF _ types_sound])
qed

lemma frame_known:
  assumes "limits_ok (js_limits s)" "zlib_agrees inflate deflate" "own_policy (js_compression s)"
    and "mirrors s s'" "gp_value p = Known t vs" "t \<in> fst ` set (vn_schemas vn)" "t \<notin> set exempt"
    and "list_all (within_levels (nat (recursion_depth (js_limits s)))) vs"
    and "encode_frame deflate vn s p = Inr frame"
  shows "\<exists>name payload. packet_name vn (gp_state p) (gp_direction p) (gp_id p) = Some name \<and>
    decode_frame inflate vn s' frame = Inr (p\<lparr>gp_name := name, gp_payload := payload\<rparr>)"
proof -
  from assms(5,9) obtain payload body where at: "gp_state p = js_state s" "gp_direction p = js_outbound s"
    and key: "map_of (vn_value_keys vn) t = Some (js_state s, js_outbound s, gp_id p)"
    and payload: "encode_value vn t (js_limits s) vs = Inr payload"
    and body: "join_packet_body \<lparr>packet_id = gp_id p, packet_payload = payload\<rparr> (js_limits s) = Inr body"
    and frame: "encode_compression deflate body (js_compression s) (js_limits s) = Inr frame"
    by (auto simp: encode_frame_def encode_packet_body_def Let_def result_simps split: if_splits option.splits)
  from keyed [OF key] named obtain name
    where "map_of (vn_names vn) (js_state s, js_outbound s, gp_id p) = Some name" by blast
  with at body_arrives [OF assms(1-3) body frame] keyed [OF key] assms(4,5)
    value_arrives [OF assms(1,6-8) payload]
  show ?thesis
    by (intro exI [of _ name] exI [of _ payload])
      (cases p, simp add: decode_frame_def mirrors_def packet_name_def)
qed

lemma frame_unknown:
  assumes "limits_ok (js_limits s)" "zlib_agrees inflate deflate" "own_policy (js_compression s)"
    and "mirrors s s'" "gp_value p = Unknown (Some payload)"
    and "new_packet_value vn (gp_state p) (gp_direction p) (gp_id p) = None"
    and "encode_frame deflate vn s p = Inr frame"
  shows "decode_frame inflate vn s' frame = Inr (p\<lparr>gp_name := [], gp_payload := payload\<rparr>)"
proof -
  from assms(5,7) obtain body where at: "gp_state p = js_state s" "gp_direction p = js_outbound s"
    and body: "join_packet_body \<lparr>packet_id = gp_id p, packet_payload = payload\<rparr> (js_limits s) = Inr body"
    and frame: "encode_compression deflate body (js_compression s) (js_limits s) = Inr frame"
    by (auto simp: encode_frame_def encode_packet_body_def Let_def result_simps split: if_splits)
  with body_arrives [OF assms(1-3) body frame] assms(4-6) show ?thesis
    by (cases p) (simp add: decode_frame_def mirrors_def new_packet_value_def)
qed

lemma sensitive_withheld:
  assumes "decode_frame inflate vn s frame = Inr p" "sensitive p"
  shows "sensitive_frame inflate s (js_inbound s) frame"
proof -
  from assms(2) obtain t vs where t: "gp_value p = Known t vs" "t \<in> set secret_types"
    by (auto simp: sensitive_def split: packet_value.splits)
  with assms(1) obtain body raw where
    "decode_compression inflate frame (js_compression s) (js_limits s) = Inr body"
    "split_packet_body body = Inr raw"
    "map_of (vn_factories vn) (js_state s, js_inbound s, packet_id raw) = Some t"
    by (auto simp: decode_frame_def Let_def bindR_def split: option.split_asm sum.split_asm)
  with secrets t(2) have "(js_state s, js_inbound s, packet_id raw) \<in> set sensitive_frames" by blast
  with \<open>split_packet_body body = Inr raw\<close>
    \<open>decode_compression inflate frame (js_compression s) (js_limits s) = Inr body\<close>
  show ?thesis by (auto simp: sensitive_frame_def sensitive_frames_def)
qed

lemma sensitive_withheld_out:
  assumes "limits_ok (js_limits s)" "zlib_agrees inflate deflate" "own_policy (js_compression s)"
    and "encode_frame deflate vn s p = Inr frame" "sensitive p"
  shows "sensitive_frame inflate s (js_outbound s) frame"
proof -
  from assms(5) obtain t vs where t: "gp_value p = Known t vs" "t \<in> set secret_types"
    by (auto simp: sensitive_def split: packet_value.splits)
  with assms(4) obtain payload body where
    key: "map_of (vn_value_keys vn) t = Some (js_state s, js_outbound s, gp_id p)"
    and body: "join_packet_body \<lparr>packet_id = gp_id p, packet_payload = payload\<rparr> (js_limits s) = Inr body"
    and frame: "encode_compression deflate body (js_compression s) (js_limits s) = Inr frame"
    by (auto simp: encode_frame_def encode_packet_body_def Let_def result_simps split: if_splits option.splits)
  from secrets [OF keyed [OF key] t(2)] body_arrives [OF assms(1-3) body frame] show ?thesis
    by (auto simp: sensitive_frame_def sensitive_frames_def)
qed

text \<open>A name has its number, and every packet the decoder makes has a name.\<close>

lemma lookups_agree:
  "(packet_number vn st dir name = Some i \<longrightarrow> packet_name vn st dir i = Some name) \<and>
   (new_packet_value vn st dir i = Some t \<longrightarrow> packet_name vn st dir i \<noteq> None)"
  using named map_of_is_SomeI [OF names_keyed]
  by (fastforce simp: packet_number_def packet_name_def new_packet_value_def dest!: map_of_SomeD)

end

section \<open>The state machine\<close>

text \<open>
  A transition that the stream commits: the packet that crossed implies it, and it was validated
  before it was applied. \<open>session_runs\<close> is what any sequence of packets makes of a session.
\<close>

type_synonym proposer = "java_session \<Rightarrow> protocol_packet \<Rightarrow> session_transition option result"

inductive session_runs :: "version \<Rightarrow> proposer \<Rightarrow> java_session \<Rightarrow> java_session \<Rightarrow> bool"
  for vn propose s0 where
  start: "session_runs vn propose s0 s0"
| commit: "session_runs vn propose s0 s \<Longrightarrow> propose s p = Inr (Some tr) \<Longrightarrow>
    validate_transition vn tr = Inr () \<Longrightarrow> session_runs vn propose s0 (apply_transition tr s)"

definition session_ok :: "version \<Rightarrow> java_session \<Rightarrow> bool" where
  "session_ok vn s \<longleftrightarrow> js_state s \<in> set (vn_states vn) \<and> own_policy (js_compression s) \<and>
     (enabled (js_compression s) \<longrightarrow> 0 \<le> sint (threshold (js_compression s)))"

definition same_session :: "java_session \<Rightarrow> java_session \<Rightarrow> bool" where
  "same_session s s' \<longleftrightarrow> js_limits s' = js_limits s \<and> js_role s' = js_role s \<and>
     js_inbound s' = js_inbound s \<and> js_outbound s' = js_outbound s \<and>
     policy (js_compression s') = policy (js_compression s)"

lemma compression_for_threshold_ok [simp]:
  "policy (compression_for_threshold n s) = policy (js_compression s)"
  "enabled (compression_for_threshold n s) \<longleftrightarrow> 0 \<le> sint n"
  "0 \<le> sint (threshold (compression_for_threshold n s))"
  "\<not> sint (threshold (compression_for_threshold n s)) < 0"
  by (simp_all add: compression_for_threshold_def)

lemma to_state_iff:
  "to_state from s st = Inr r \<longleftrightarrow>
     js_state s = from \<and> r = Some \<lparr>tr_state = Some st, tr_control = None\<rparr>"
  by (auto simp: to_state_def)

lemma to_compression_iff:
  "to_compression from s vs = Inr r \<longleftrightarrow> js_state s = from \<and>
     r = Some \<lparr>tr_state = None, tr_control = Some (CompressionControl
       (compression_for_threshold (word_of_int (int_field 0 vs)) s))\<rparr>"
  by (auto simp: to_compression_def)

lemma propose_handshake_iff:
  "propose_handshake s vs = Inr r \<longleftrightarrow> js_state s = ''handshaking'' \<and>
     (int_field 3 vs = 1 \<and> r = Some \<lparr>tr_state = Some ''status'', tr_control = None\<rparr> \<or>
      int_field 3 vs = 2 \<and> r = Some \<lparr>tr_state = Some ''login'', tr_control = None\<rparr>)"
  by (auto simp: propose_handshake_def)

lemmas proposals = to_state_iff to_compression_iff propose_handshake_iff

locale transition_rules =
  fixes vn :: version and propose :: proposer and moves :: "(string \<times> string) list"
  assumes proposed_state: "propose s p = Inr (Some tr) \<Longrightarrow> tr_state tr = Some st \<Longrightarrow>
      (js_state s, st) \<in> set moves"
    and proposed_control: "propose s p = Inr (Some tr) \<Longrightarrow> tr_control tr = Some c \<Longrightarrow>
      \<exists>n. c = CompressionControl (compression_for_threshold n s)"
    and moves_valid: "(from, st) \<in> set moves \<Longrightarrow> st \<in> set (vn_states vn)"
begin

lemma proposed_valid:
  assumes "own_policy (js_compression s)" "propose s p = Inr (Some tr)"
  shows "validate_transition vn tr = Inr ()"
  using assms proposed_state [OF assms(2)] proposed_control [OF assms(2)] moves_valid
  by (auto simp: validate_transition_def validate_state_def validate_session_control_def own_policy_def
      split: option.splits)

lemma apply_keeps:
  assumes "session_ok vn s" "propose s p = Inr (Some tr)"
  shows "session_ok vn (apply_transition tr s)" "same_session s (apply_transition tr s)"
    "js_state (apply_transition tr s) = js_state s \<or> (js_state s, js_state (apply_transition tr s)) \<in> set moves"
  using assms(1) proposed_state [OF assms(2)] proposed_control [OF assms(2)] moves_valid
  by (auto simp: apply_transition_def apply_control_def session_ok_def same_session_def own_policy_def
      split: option.splits)

lemma run_ok:
  assumes "session_runs vn propose s0 s" "session_ok vn s0"
  shows "session_ok vn s \<and> same_session s0 s \<and> (js_state s0, js_state s) \<in> (set moves)\<^sup>*"
  using assms
proof induction
  case start
  then show ?case by (simp add: same_session_def)
next
  case (commit s p tr)
  then have "session_ok vn s" "same_session s0 s" "(js_state s0, js_state s) \<in> (set moves)\<^sup>*" by auto
  with apply_keeps [OF _ commit.hyps(2)] show ?case
    by (force simp: same_session_def intro: rtrancl_into_rtrancl)
qed

text \<open>A set of states that no move leaves is never left.\<close>

lemma run_stays:
  assumes "session_runs vn propose s0 s" "session_ok vn s0" "js_state s0 \<in> S"
    and closed: "\<And>from st. (from, st) \<in> set moves \<Longrightarrow> from \<in> S \<Longrightarrow> st \<in> S"
  shows "js_state s \<in> S"
proof -
  from run_ok [OF assms(1,2)] have "(js_state s0, js_state s) \<in> (set moves)\<^sup>*" by blast
  then show ?thesis using assms(3) by induction (auto intro: closed)
qed

end

lemma new_session_Inr_iff:
  "new_session role lim = Inr s \<longleftrightarrow> valid lim \<and> (role = role_client \<or> role = role_server) \<and>
     s = \<lparr>js_limits = lim, js_role = role, js_state = ''handshaking'',
       js_inbound = (if role = role_client then clientbound else serverbound),
       js_outbound = (if role = role_client then serverbound else clientbound),
       js_compression = \<lparr>enabled = False, threshold = 0, policy = Some strict_compression\<rparr>\<rparr>"
  by (auto simp: new_session_def role_client_def role_server_def)

end
