(* ===== verification/Packets_V47.thy ===== *)
theory Packets_V47
  imports Packet_Schema
begin

text \<open>
  generated/java/v1_8/codec.go, descriptor.go and packetNames of protocol.go: the packets of protocol
  47. Every definition of a packet or shared type is what its Decode reads and its Encode writes,
  in their order, with the paths of its fields; the tables at the end are the registry.
\<close>

section \<open>Mapped integers\<close>

definition play_clientbound_player_info_action_mapper_by_wire_47 :: "(int \<times> string) list" where
  "play_clientbound_player_info_action_mapper_by_wire_47 = [
     (0, ''add_player''), (1, ''update_game_mode''), (2, ''update_latency''),
     (3, ''update_display_name''), (4, ''remove_player'')]"

definition play_clientbound_player_info_action_mapper_by_name_47 :: "(string \<times> int) list" where
  "play_clientbound_player_info_action_mapper_by_name_47 = [
     (''add_player'', 0), (''update_game_mode'', 1), (''update_latency'', 2),
     (''update_display_name'', 3), (''remove_player'', 4)]"

section \<open>Shared types\<close>

definition entity_metadata_47 :: "string \<times> schema list" where
  "entity_metadata_47 = (''entityMetadata'', [
     Terminated ''play.toClient.entityMetadata'' 127 [
       Bits ''play.toClient.entityMetadata[].anonymousBitField1'' FU8
         [bits ''type'' 5 3 False,
          bits ''key'' 0 5 False],
       Switch ''play.toClient.entityMetadata[].anonymousBitField1#type''
         [(KInt 0, [
            Field ''play.toClient.entityMetadata[].value'' FI8]),
          (KInt 1, [
            Field ''play.toClient.entityMetadata[].value'' FI16]),
          (KInt 2, [
            Field ''play.toClient.entityMetadata[].value'' FI32]),
          (KInt 3, [
            Field ''play.toClient.entityMetadata[].value'' FF32]),
          (KInt 4, [
            Field ''play.toClient.entityMetadata[].value'' FString]),
          (KInt 5, [
            Shared ''Value.Case5'' ''Slot'']),
          (KInt 6, [
            Field ''play.toClient.entityMetadata[].value.x'' FI32,
            Field ''play.toClient.entityMetadata[].value.y'' FI32,
            Field ''play.toClient.entityMetadata[].value.z'' FI32]),
          (KInt 7, [
            Field ''play.toClient.entityMetadata[].value.pitch'' FF32,
            Field ''play.toClient.entityMetadata[].value.yaw'' FF32,
            Field ''play.toClient.entityMetadata[].value.roll'' FF32])]
         []]])"

definition position_47 :: "string \<times> schema list" where
  "position_47 = (''position'', [
     Bits ''play.toClient.position'' FU64
       [bits ''x'' 38 26 True,
        bits ''y'' 26 12 True,
        bits ''z'' 0 26 True]])"

definition slot_47 :: "string \<times> schema list" where
  "slot_47 = (''slot'', [
     Field ''play.toClient.slot.blockId'' FI16,
     Switch ''play.toClient.slot.blockId''
       [(KInt (-1), [])]
       [
        Field ''play.toClient.slot.anonymousSwitch1.itemCount'' FI8,
        Field ''play.toClient.slot.anonymousSwitch1.itemDamage'' FI16,
        Field ''play.toClient.slot.anonymousSwitch1.nbtData'' FOptionalNBT]])"

text \<open>The shared types, by the name of the Go type.\<close>

definition shared_types_47 :: shared_types where
  "shared_types_47 = [
     (''EntityMetadata'', entity_metadata_47),
     (''Position'', position_47),
     (''Slot'', slot_47)]"

section \<open>Packets\<close>

definition handshaking_serverbound_set_protocol_47 :: "schema list" where
  "handshaking_serverbound_set_protocol_47 = [
     Field ''handshaking.toServer.set_protocol.protocolVersion'' FVarInt,
     Field ''handshaking.toServer.set_protocol.serverHost'' FString,
     Field ''handshaking.toServer.set_protocol.serverPort'' FU16,
     Field ''handshaking.toServer.set_protocol.nextState'' FVarInt]"

definition status_clientbound_server_info_47 :: "schema list" where
  "status_clientbound_server_info_47 = [
     Field ''status.toClient.server_info.response'' FString]"

definition status_clientbound_ping_47 :: "schema list" where
  "status_clientbound_ping_47 = [
     Field ''status.toClient.ping.time'' FI64]"

definition status_serverbound_ping_start_47 :: "schema list" where
  "status_serverbound_ping_start_47 = []"

definition status_serverbound_ping_47 :: "schema list" where
  "status_serverbound_ping_47 = [
     Field ''status.toServer.ping.time'' FI64]"

definition login_clientbound_disconnect_47 :: "schema list" where
  "login_clientbound_disconnect_47 = [
     Field ''login.toClient.disconnect.reason'' FString]"

definition login_clientbound_encryption_begin_47 :: "schema list" where
  "login_clientbound_encryption_begin_47 = [
     Field ''login.toClient.encryption_begin.serverId'' FString,
     Field ''login.toClient.encryption_begin.publicKey'' FByteArray,
     Field ''login.toClient.encryption_begin.verifyToken'' FByteArray]"

definition login_clientbound_success_47 :: "schema list" where
  "login_clientbound_success_47 = [
     Field ''login.toClient.success.uuid'' FString,
     Field ''login.toClient.success.username'' FString]"

definition login_clientbound_compress_47 :: "schema list" where
  "login_clientbound_compress_47 = [
     Field ''login.toClient.compress.threshold'' FVarInt]"

definition login_serverbound_login_start_47 :: "schema list" where
  "login_serverbound_login_start_47 = [
     Field ''login.toServer.login_start.username'' FString]"

definition login_serverbound_encryption_begin_47 :: "schema list" where
  "login_serverbound_encryption_begin_47 = [
     Field ''login.toServer.encryption_begin.sharedSecret'' FByteArray,
     Field ''login.toServer.encryption_begin.verifyToken'' FByteArray]"

definition play_clientbound_keep_alive_47 :: "schema list" where
  "play_clientbound_keep_alive_47 = [
     Field ''play.toClient.keep_alive.keepAliveId'' FVarInt]"

definition play_clientbound_login_47 :: "schema list" where
  "play_clientbound_login_47 = [
     Field ''play.toClient.login.entityId'' FI32,
     Field ''play.toClient.login.gameMode'' FU8,
     Field ''play.toClient.login.dimension'' FI8,
     Field ''play.toClient.login.difficulty'' FU8,
     Field ''play.toClient.login.maxPlayers'' FU8,
     Field ''play.toClient.login.levelType'' FString,
     Field ''play.toClient.login.reducedDebugInfo'' FBool]"

definition play_clientbound_chat_47 :: "schema list" where
  "play_clientbound_chat_47 = [
     Field ''play.toClient.chat.message'' FString,
     Field ''play.toClient.chat.position'' FI8]"

definition play_clientbound_update_time_47 :: "schema list" where
  "play_clientbound_update_time_47 = [
     Field ''play.toClient.update_time.age'' FI64,
     Field ''play.toClient.update_time.time'' FI64]"

definition play_clientbound_entity_equipment_47 :: "schema list" where
  "play_clientbound_entity_equipment_47 = [
     Field ''play.toClient.entity_equipment.entityId'' FVarInt,
     Field ''play.toClient.entity_equipment.slot'' FI16,
     Shared ''Item'' ''Slot'']"

definition play_clientbound_spawn_position_47 :: "schema list" where
  "play_clientbound_spawn_position_47 = [
     Shared ''Location'' ''Position'']"

definition play_clientbound_update_health_47 :: "schema list" where
  "play_clientbound_update_health_47 = [
     Field ''play.toClient.update_health.health'' FF32,
     Field ''play.toClient.update_health.food'' FVarInt,
     Field ''play.toClient.update_health.foodSaturation'' FF32]"

definition play_clientbound_respawn_47 :: "schema list" where
  "play_clientbound_respawn_47 = [
     Field ''play.toClient.respawn.dimension'' FI32,
     Field ''play.toClient.respawn.difficulty'' FU8,
     Field ''play.toClient.respawn.gamemode'' FU8,
     Field ''play.toClient.respawn.levelType'' FString]"

definition play_clientbound_position_47 :: "schema list" where
  "play_clientbound_position_47 = [
     Field ''play.toClient.position.x'' FF64,
     Field ''play.toClient.position.y'' FF64,
     Field ''play.toClient.position.z'' FF64,
     Field ''play.toClient.position.yaw'' FF32,
     Field ''play.toClient.position.pitch'' FF32,
     Field ''play.toClient.position.flags'' FI8]"

definition play_clientbound_held_item_slot_47 :: "schema list" where
  "play_clientbound_held_item_slot_47 = [
     Field ''play.toClient.held_item_slot.slot'' FI8]"

definition play_clientbound_bed_47 :: "schema list" where
  "play_clientbound_bed_47 = [
     Field ''play.toClient.bed.entityId'' FVarInt,
     Shared ''Location'' ''Position'']"

definition play_clientbound_animation_47 :: "schema list" where
  "play_clientbound_animation_47 = [
     Field ''play.toClient.animation.entityId'' FVarInt,
     Field ''play.toClient.animation.animation'' FU8]"

definition play_clientbound_named_entity_spawn_47 :: "schema list" where
  "play_clientbound_named_entity_spawn_47 = [
     Field ''play.toClient.named_entity_spawn.entityId'' FVarInt,
     Field ''play.toClient.named_entity_spawn.playerUUID'' FUUID,
     Field ''play.toClient.named_entity_spawn.x'' FI32,
     Field ''play.toClient.named_entity_spawn.y'' FI32,
     Field ''play.toClient.named_entity_spawn.z'' FI32,
     Field ''play.toClient.named_entity_spawn.yaw'' FI8,
     Field ''play.toClient.named_entity_spawn.pitch'' FI8,
     Field ''play.toClient.named_entity_spawn.currentItem'' FI16,
     Shared ''Metadata'' ''EntityMetadata'']"

definition play_clientbound_collect_47 :: "schema list" where
  "play_clientbound_collect_47 = [
     Field ''play.toClient.collect.collectedEntityId'' FVarInt,
     Field ''play.toClient.collect.collectorEntityId'' FVarInt]"

definition play_clientbound_spawn_entity_47 :: "schema list" where
  "play_clientbound_spawn_entity_47 = [
     Field ''play.toClient.spawn_entity.entityId'' FVarInt,
     Field ''play.toClient.spawn_entity.type'' FI8,
     Field ''play.toClient.spawn_entity.x'' FI32,
     Field ''play.toClient.spawn_entity.y'' FI32,
     Field ''play.toClient.spawn_entity.z'' FI32,
     Field ''play.toClient.spawn_entity.pitch'' FI8,
     Field ''play.toClient.spawn_entity.yaw'' FI8,
     Field ''play.toClient.spawn_entity.intField'' FI32,
     Switch ''play.toClient.spawn_entity.intField''
       [(KInt 0, [])]
       [
        Field ''play.toClient.spawn_entity.objectData.velocityX'' FI16,
        Field ''play.toClient.spawn_entity.objectData.velocityY'' FI16,
        Field ''play.toClient.spawn_entity.objectData.velocityZ'' FI16]]"

definition play_clientbound_spawn_entity_living_47 :: "schema list" where
  "play_clientbound_spawn_entity_living_47 = [
     Field ''play.toClient.spawn_entity_living.entityId'' FVarInt,
     Field ''play.toClient.spawn_entity_living.type'' FU8,
     Field ''play.toClient.spawn_entity_living.x'' FI32,
     Field ''play.toClient.spawn_entity_living.y'' FI32,
     Field ''play.toClient.spawn_entity_living.z'' FI32,
     Field ''play.toClient.spawn_entity_living.yaw'' FI8,
     Field ''play.toClient.spawn_entity_living.pitch'' FI8,
     Field ''play.toClient.spawn_entity_living.headPitch'' FI8,
     Field ''play.toClient.spawn_entity_living.velocityX'' FI16,
     Field ''play.toClient.spawn_entity_living.velocityY'' FI16,
     Field ''play.toClient.spawn_entity_living.velocityZ'' FI16,
     Shared ''Metadata'' ''EntityMetadata'']"

definition play_clientbound_spawn_entity_painting_47 :: "schema list" where
  "play_clientbound_spawn_entity_painting_47 = [
     Field ''play.toClient.spawn_entity_painting.entityId'' FVarInt,
     Field ''play.toClient.spawn_entity_painting.title'' FString,
     Shared ''Location'' ''Position'',
     Field ''play.toClient.spawn_entity_painting.direction'' FU8]"

definition play_clientbound_spawn_entity_experience_orb_47 :: "schema list" where
  "play_clientbound_spawn_entity_experience_orb_47 = [
     Field ''play.toClient.spawn_entity_experience_orb.entityId'' FVarInt,
     Field ''play.toClient.spawn_entity_experience_orb.x'' FI32,
     Field ''play.toClient.spawn_entity_experience_orb.y'' FI32,
     Field ''play.toClient.spawn_entity_experience_orb.z'' FI32,
     Field ''play.toClient.spawn_entity_experience_orb.count'' FI16]"

definition play_clientbound_entity_velocity_47 :: "schema list" where
  "play_clientbound_entity_velocity_47 = [
     Field ''play.toClient.entity_velocity.entityId'' FVarInt,
     Field ''play.toClient.entity_velocity.velocityX'' FI16,
     Field ''play.toClient.entity_velocity.velocityY'' FI16,
     Field ''play.toClient.entity_velocity.velocityZ'' FI16]"

definition play_clientbound_entity_destroy_47 :: "schema list" where
  "play_clientbound_entity_destroy_47 = [
     Items ''play.toClient.entity_destroy.entityIds'' Prefixed [
       Field ''play.toClient.entity_destroy.entityIds[]'' FVarInt]]"

definition play_clientbound_entity_47 :: "schema list" where
  "play_clientbound_entity_47 = [
     Field ''play.toClient.entity.entityId'' FVarInt]"

definition play_clientbound_rel_entity_move_47 :: "schema list" where
  "play_clientbound_rel_entity_move_47 = [
     Field ''play.toClient.rel_entity_move.entityId'' FVarInt,
     Field ''play.toClient.rel_entity_move.dX'' FI8,
     Field ''play.toClient.rel_entity_move.dY'' FI8,
     Field ''play.toClient.rel_entity_move.dZ'' FI8,
     Field ''play.toClient.rel_entity_move.onGround'' FBool]"

definition play_clientbound_entity_look_47 :: "schema list" where
  "play_clientbound_entity_look_47 = [
     Field ''play.toClient.entity_look.entityId'' FVarInt,
     Field ''play.toClient.entity_look.yaw'' FI8,
     Field ''play.toClient.entity_look.pitch'' FI8,
     Field ''play.toClient.entity_look.onGround'' FBool]"

definition play_clientbound_entity_move_look_47 :: "schema list" where
  "play_clientbound_entity_move_look_47 = [
     Field ''play.toClient.entity_move_look.entityId'' FVarInt,
     Field ''play.toClient.entity_move_look.dX'' FI8,
     Field ''play.toClient.entity_move_look.dY'' FI8,
     Field ''play.toClient.entity_move_look.dZ'' FI8,
     Field ''play.toClient.entity_move_look.yaw'' FI8,
     Field ''play.toClient.entity_move_look.pitch'' FI8,
     Field ''play.toClient.entity_move_look.onGround'' FBool]"

definition play_clientbound_entity_teleport_47 :: "schema list" where
  "play_clientbound_entity_teleport_47 = [
     Field ''play.toClient.entity_teleport.entityId'' FVarInt,
     Field ''play.toClient.entity_teleport.x'' FI32,
     Field ''play.toClient.entity_teleport.y'' FI32,
     Field ''play.toClient.entity_teleport.z'' FI32,
     Field ''play.toClient.entity_teleport.yaw'' FI8,
     Field ''play.toClient.entity_teleport.pitch'' FI8,
     Field ''play.toClient.entity_teleport.onGround'' FBool]"

definition play_clientbound_entity_head_rotation_47 :: "schema list" where
  "play_clientbound_entity_head_rotation_47 = [
     Field ''play.toClient.entity_head_rotation.entityId'' FVarInt,
     Field ''play.toClient.entity_head_rotation.headYaw'' FI8]"

definition play_clientbound_entity_status_47 :: "schema list" where
  "play_clientbound_entity_status_47 = [
     Field ''play.toClient.entity_status.entityId'' FI32,
     Field ''play.toClient.entity_status.entityStatus'' FI8]"

definition play_clientbound_attach_entity_47 :: "schema list" where
  "play_clientbound_attach_entity_47 = [
     Field ''play.toClient.attach_entity.entityId'' FI32,
     Field ''play.toClient.attach_entity.vehicleId'' FI32,
     Field ''play.toClient.attach_entity.leash'' FBool]"

definition play_clientbound_entity_metadata_47 :: "schema list" where
  "play_clientbound_entity_metadata_47 = [
     Field ''play.toClient.entity_metadata.entityId'' FVarInt,
     Shared ''Metadata'' ''EntityMetadata'']"

definition play_clientbound_entity_effect_47 :: "schema list" where
  "play_clientbound_entity_effect_47 = [
     Field ''play.toClient.entity_effect.entityId'' FVarInt,
     Field ''play.toClient.entity_effect.effectId'' FI8,
     Field ''play.toClient.entity_effect.amplifier'' FI8,
     Field ''play.toClient.entity_effect.duration'' FVarInt,
     Field ''play.toClient.entity_effect.hideParticles'' FBool]"

definition play_clientbound_remove_entity_effect_47 :: "schema list" where
  "play_clientbound_remove_entity_effect_47 = [
     Field ''play.toClient.remove_entity_effect.entityId'' FVarInt,
     Field ''play.toClient.remove_entity_effect.effectId'' FI8]"

definition play_clientbound_experience_47 :: "schema list" where
  "play_clientbound_experience_47 = [
     Field ''play.toClient.experience.experienceBar'' FF32,
     Field ''play.toClient.experience.level'' FVarInt,
     Field ''play.toClient.experience.totalExperience'' FVarInt]"

definition play_clientbound_update_attributes_47 :: "schema list" where
  "play_clientbound_update_attributes_47 = [
     Field ''play.toClient.update_attributes.entityId'' FVarInt,
     Items ''play.toClient.update_attributes.properties'' (Width FI32) [
       Field ''play.toClient.update_attributes.properties[].key'' FString,
       Field ''play.toClient.update_attributes.properties[].value'' FF64,
       Items ''play.toClient.update_attributes.properties[].modifiers'' Prefixed [
         Field ''play.toClient.update_attributes.properties[].modifiers[].uuid'' FUUID,
         Field ''play.toClient.update_attributes.properties[].modifiers[].amount'' FF64,
         Field ''play.toClient.update_attributes.properties[].modifiers[].operation'' FI8]]]"

definition play_clientbound_map_chunk_47 :: "schema list" where
  "play_clientbound_map_chunk_47 = [
     Field ''play.toClient.map_chunk.x'' FI32,
     Field ''play.toClient.map_chunk.z'' FI32,
     Field ''play.toClient.map_chunk.groundUp'' FBool,
     Field ''play.toClient.map_chunk.bitMap'' FU16,
     Field ''play.toClient.map_chunk.chunkData'' FByteArray]"

definition play_clientbound_multi_block_change_47 :: "schema list" where
  "play_clientbound_multi_block_change_47 = [
     Field ''play.toClient.multi_block_change.chunkX'' FI32,
     Field ''play.toClient.multi_block_change.chunkZ'' FI32,
     Items ''play.toClient.multi_block_change.records'' Prefixed [
       Field ''play.toClient.multi_block_change.records[].horizontalPos'' FU8,
       Field ''play.toClient.multi_block_change.records[].y'' FU8,
       Field ''play.toClient.multi_block_change.records[].blockId'' FVarInt]]"

definition play_clientbound_block_change_47 :: "schema list" where
  "play_clientbound_block_change_47 = [
     Shared ''Location'' ''Position'',
     Field ''play.toClient.block_change.type'' FVarInt]"

definition play_clientbound_block_action_47 :: "schema list" where
  "play_clientbound_block_action_47 = [
     Shared ''Location'' ''Position'',
     Field ''play.toClient.block_action.byte1'' FU8,
     Field ''play.toClient.block_action.byte2'' FU8,
     Field ''play.toClient.block_action.blockId'' FVarInt]"

definition play_clientbound_block_break_animation_47 :: "schema list" where
  "play_clientbound_block_break_animation_47 = [
     Field ''play.toClient.block_break_animation.entityId'' FVarInt,
     Shared ''Location'' ''Position'',
     Field ''play.toClient.block_break_animation.destroyStage'' FI8]"

definition play_clientbound_map_chunk_bulk_47 :: "schema list" where
  "play_clientbound_map_chunk_bulk_47 = [
     Field ''play.toClient.map_chunk_bulk.skyLightSent'' FBool,
     Items ''play.toClient.map_chunk_bulk.meta'' Prefixed [
       Field ''play.toClient.map_chunk_bulk.meta[].x'' FI32,
       Field ''play.toClient.map_chunk_bulk.meta[].z'' FI32,
       Field ''play.toClient.map_chunk_bulk.meta[].bitMap'' FU16],
     Field ''play.toClient.map_chunk_bulk.data'' FRest]"

definition play_clientbound_explosion_47 :: "schema list" where
  "play_clientbound_explosion_47 = [
     Field ''play.toClient.explosion.x'' FF32,
     Field ''play.toClient.explosion.y'' FF32,
     Field ''play.toClient.explosion.z'' FF32,
     Field ''play.toClient.explosion.radius'' FF32,
     Items ''play.toClient.explosion.affectedBlockOffsets'' (Width FI32) [
       Field ''play.toClient.explosion.affectedBlockOffsets[].x'' FI8,
       Field ''play.toClient.explosion.affectedBlockOffsets[].y'' FI8,
       Field ''play.toClient.explosion.affectedBlockOffsets[].z'' FI8],
     Field ''play.toClient.explosion.playerMotionX'' FF32,
     Field ''play.toClient.explosion.playerMotionY'' FF32,
     Field ''play.toClient.explosion.playerMotionZ'' FF32]"

definition play_clientbound_world_event_47 :: "schema list" where
  "play_clientbound_world_event_47 = [
     Field ''play.toClient.world_event.effectId'' FI32,
     Shared ''Location'' ''Position'',
     Field ''play.toClient.world_event.data'' FI32,
     Field ''play.toClient.world_event.global'' FBool]"

definition play_clientbound_named_sound_effect_47 :: "schema list" where
  "play_clientbound_named_sound_effect_47 = [
     Field ''play.toClient.named_sound_effect.soundName'' FString,
     Field ''play.toClient.named_sound_effect.x'' FI32,
     Field ''play.toClient.named_sound_effect.y'' FI32,
     Field ''play.toClient.named_sound_effect.z'' FI32,
     Field ''play.toClient.named_sound_effect.volume'' FF32,
     Field ''play.toClient.named_sound_effect.pitch'' FU8]"

definition play_clientbound_world_particles_47 :: "schema list" where
  "play_clientbound_world_particles_47 = [
     Field ''play.toClient.world_particles.particleId'' FI32,
     Field ''play.toClient.world_particles.longDistance'' FBool,
     Field ''play.toClient.world_particles.x'' FF32,
     Field ''play.toClient.world_particles.y'' FF32,
     Field ''play.toClient.world_particles.z'' FF32,
     Field ''play.toClient.world_particles.offsetX'' FF32,
     Field ''play.toClient.world_particles.offsetY'' FF32,
     Field ''play.toClient.world_particles.offsetZ'' FF32,
     Field ''play.toClient.world_particles.particleData'' FF32,
     Field ''play.toClient.world_particles.particles'' FI32,
     Switch ''play.toClient.world_particles.particleId''
       [(KInt 36, [
          Items ''play.toClient.world_particles.data'' (Const 2) [
            Field ''play.toClient.world_particles.data[]'' FVarInt]]),
        (KInt 37, [
          Items ''play.toClient.world_particles.data'' (Const 1) [
            Field ''play.toClient.world_particles.data[]'' FVarInt]]),
        (KInt 38, [
          Items ''play.toClient.world_particles.data'' (Const 1) [
            Field ''play.toClient.world_particles.data[]'' FVarInt]])]
       []]"

definition play_clientbound_game_state_change_47 :: "schema list" where
  "play_clientbound_game_state_change_47 = [
     Field ''play.toClient.game_state_change.reason'' FU8,
     Field ''play.toClient.game_state_change.gameMode'' FF32]"

definition play_clientbound_spawn_entity_weather_47 :: "schema list" where
  "play_clientbound_spawn_entity_weather_47 = [
     Field ''play.toClient.spawn_entity_weather.entityId'' FVarInt,
     Field ''play.toClient.spawn_entity_weather.type'' FI8,
     Field ''play.toClient.spawn_entity_weather.x'' FI32,
     Field ''play.toClient.spawn_entity_weather.y'' FI32,
     Field ''play.toClient.spawn_entity_weather.z'' FI32]"

definition play_clientbound_open_window_47 :: "schema list" where
  "play_clientbound_open_window_47 = [
     Field ''play.toClient.open_window.windowId'' FU8,
     Field ''play.toClient.open_window.inventoryType'' FString,
     Field ''play.toClient.open_window.windowTitle'' FString,
     Field ''play.toClient.open_window.slotCount'' FU8,
     Switch ''play.toClient.open_window.inventoryType''
       [(KText ''EntityHorse'', [
          Field ''play.toClient.open_window.entityId'' FI32])]
       []]"

definition play_clientbound_close_window_47 :: "schema list" where
  "play_clientbound_close_window_47 = [
     Field ''play.toClient.close_window.windowId'' FU8]"

definition play_clientbound_set_slot_47 :: "schema list" where
  "play_clientbound_set_slot_47 = [
     Field ''play.toClient.set_slot.windowId'' FI8,
     Field ''play.toClient.set_slot.slot'' FI16,
     Shared ''Item'' ''Slot'']"

definition play_clientbound_window_items_47 :: "schema list" where
  "play_clientbound_window_items_47 = [
     Field ''play.toClient.window_items.windowId'' FU8,
     Items ''play.toClient.window_items.items'' (Width FI16) [
       Shared ''Items'' ''Slot'']]"

definition play_clientbound_craft_progress_bar_47 :: "schema list" where
  "play_clientbound_craft_progress_bar_47 = [
     Field ''play.toClient.craft_progress_bar.windowId'' FU8,
     Field ''play.toClient.craft_progress_bar.property'' FI16,
     Field ''play.toClient.craft_progress_bar.value'' FI16]"

definition play_clientbound_transaction_47 :: "schema list" where
  "play_clientbound_transaction_47 = [
     Field ''play.toClient.transaction.windowId'' FI8,
     Field ''play.toClient.transaction.action'' FI16,
     Field ''play.toClient.transaction.accepted'' FBool]"

definition play_clientbound_update_sign_47 :: "schema list" where
  "play_clientbound_update_sign_47 = [
     Shared ''Location'' ''Position'',
     Field ''play.toClient.update_sign.text1'' FString,
     Field ''play.toClient.update_sign.text2'' FString,
     Field ''play.toClient.update_sign.text3'' FString,
     Field ''play.toClient.update_sign.text4'' FString]"

definition play_clientbound_map_47 :: "schema list" where
  "play_clientbound_map_47 = [
     Field ''play.toClient.map.itemDamage'' FVarInt,
     Field ''play.toClient.map.scale'' FI8,
     Items ''play.toClient.map.icons'' Prefixed [
       Field ''play.toClient.map.icons[].directionAndType'' FI8,
       Field ''play.toClient.map.icons[].x'' FI8,
       Field ''play.toClient.map.icons[].z'' FI8],
     Field ''play.toClient.map.columns'' FI8,
     Switch ''play.toClient.map.columns''
       [(KInt 0, [])]
       [
        Field ''play.toClient.map.rows'' FI8],
     Switch ''play.toClient.map.columns''
       [(KInt 0, [])]
       [
        Field ''play.toClient.map.x'' FI8],
     Switch ''play.toClient.map.columns''
       [(KInt 0, [])]
       [
        Field ''play.toClient.map.y'' FI8],
     Switch ''play.toClient.map.columns''
       [(KInt 0, [])]
       [
        Field ''play.toClient.map.data'' FByteArray]]"

definition play_clientbound_tile_entity_data_47 :: "schema list" where
  "play_clientbound_tile_entity_data_47 = [
     Shared ''Location'' ''Position'',
     Field ''play.toClient.tile_entity_data.action'' FU8,
     Field ''play.toClient.tile_entity_data.nbtData'' FOptionalNBT]"

definition play_clientbound_open_sign_entity_47 :: "schema list" where
  "play_clientbound_open_sign_entity_47 = [
     Shared ''Location'' ''Position'']"

definition play_clientbound_statistics_47 :: "schema list" where
  "play_clientbound_statistics_47 = [
     Items ''play.toClient.statistics.entries'' Prefixed [
       Field ''play.toClient.statistics.entries[].name'' FString,
       Field ''play.toClient.statistics.entries[].value'' FVarInt]]"

definition play_clientbound_player_info_47 :: "schema list" where
  "play_clientbound_player_info_47 = [
     Mapped ''play.toClient.player_info.action'' FVarInt play_clientbound_player_info_action_mapper_by_wire_47 play_clientbound_player_info_action_mapper_by_name_47,
     Items ''play.toClient.player_info.data'' Prefixed [
       Field ''play.toClient.player_info.data[].uuid'' FUUID,
       Switch ''play.toClient.player_info.action''
         [(KText ''add_player'', [
            Field ''play.toClient.player_info.data[].anonymousSwitch1.name'' FString,
            Items ''play.toClient.player_info.data[].anonymousSwitch1.properties'' Prefixed [
              Field ''play.toClient.player_info.data[].anonymousSwitch1.properties[].name'' FString,
              Field ''play.toClient.player_info.data[].anonymousSwitch1.properties[].value'' FString,
              Maybe ''play.toClient.player_info.data[].anonymousSwitch1.properties[].signature'' [
                Field ''play.toClient.player_info.data[].anonymousSwitch1.properties[].signature'' FString]],
            Field ''play.toClient.player_info.data[].anonymousSwitch1.gamemode'' FVarInt,
            Field ''play.toClient.player_info.data[].anonymousSwitch1.ping'' FVarInt,
            Maybe ''play.toClient.player_info.data[].anonymousSwitch1.displayName'' [
              Field ''play.toClient.player_info.data[].anonymousSwitch1.displayName'' FString]]),
          (KText ''remove_player'', []),
          (KText ''update_display_name'', [
            Maybe ''play.toClient.player_info.data[].anonymousSwitch1.displayName'' [
              Field ''play.toClient.player_info.data[].anonymousSwitch1.displayName'' FString]]),
          (KText ''update_game_mode'', [
            Field ''play.toClient.player_info.data[].anonymousSwitch1.gamemode'' FVarInt]),
          (KText ''update_latency'', [
            Field ''play.toClient.player_info.data[].anonymousSwitch1.ping'' FVarInt])]
         []]]"

definition play_clientbound_abilities_47 :: "schema list" where
  "play_clientbound_abilities_47 = [
     Field ''play.toClient.abilities.flags'' FI8,
     Field ''play.toClient.abilities.flyingSpeed'' FF32,
     Field ''play.toClient.abilities.walkingSpeed'' FF32]"

definition play_clientbound_tab_complete_47 :: "schema list" where
  "play_clientbound_tab_complete_47 = [
     Items ''play.toClient.tab_complete.matches'' Prefixed [
       Field ''play.toClient.tab_complete.matches[]'' FString]]"

definition play_clientbound_scoreboard_objective_47 :: "schema list" where
  "play_clientbound_scoreboard_objective_47 = [
     Field ''play.toClient.scoreboard_objective.name'' FString,
     Field ''play.toClient.scoreboard_objective.action'' FI8,
     Switch ''play.toClient.scoreboard_objective.action''
       [(KInt 0, [
          Field ''play.toClient.scoreboard_objective.displayText'' FString]),
        (KInt 2, [
          Field ''play.toClient.scoreboard_objective.displayText'' FString])]
       [],
     Switch ''play.toClient.scoreboard_objective.action''
       [(KInt 0, [
          Field ''play.toClient.scoreboard_objective.type'' FString]),
        (KInt 2, [
          Field ''play.toClient.scoreboard_objective.type'' FString])]
       []]"

definition play_clientbound_scoreboard_score_47 :: "schema list" where
  "play_clientbound_scoreboard_score_47 = [
     Field ''play.toClient.scoreboard_score.itemName'' FString,
     Field ''play.toClient.scoreboard_score.action'' FVarInt,
     Field ''play.toClient.scoreboard_score.scoreName'' FString,
     Switch ''play.toClient.scoreboard_score.action''
       [(KInt 1, [])]
       [
        Field ''play.toClient.scoreboard_score.value'' FVarInt]]"

definition play_clientbound_scoreboard_display_objective_47 :: "schema list" where
  "play_clientbound_scoreboard_display_objective_47 = [
     Field ''play.toClient.scoreboard_display_objective.position'' FI8,
     Field ''play.toClient.scoreboard_display_objective.name'' FString]"

definition play_clientbound_scoreboard_team_47 :: "schema list" where
  "play_clientbound_scoreboard_team_47 = [
     Field ''play.toClient.scoreboard_team.team'' FString,
     Field ''play.toClient.scoreboard_team.mode'' FI8,
     Switch ''play.toClient.scoreboard_team.mode''
       [(KInt 0, [
          Field ''play.toClient.scoreboard_team.name'' FString]),
        (KInt 2, [
          Field ''play.toClient.scoreboard_team.name'' FString])]
       [],
     Switch ''play.toClient.scoreboard_team.mode''
       [(KInt 0, [
          Field ''play.toClient.scoreboard_team.prefix'' FString]),
        (KInt 2, [
          Field ''play.toClient.scoreboard_team.prefix'' FString])]
       [],
     Switch ''play.toClient.scoreboard_team.mode''
       [(KInt 0, [
          Field ''play.toClient.scoreboard_team.suffix'' FString]),
        (KInt 2, [
          Field ''play.toClient.scoreboard_team.suffix'' FString])]
       [],
     Switch ''play.toClient.scoreboard_team.mode''
       [(KInt 0, [
          Field ''play.toClient.scoreboard_team.friendlyFire'' FI8]),
        (KInt 2, [
          Field ''play.toClient.scoreboard_team.friendlyFire'' FI8])]
       [],
     Switch ''play.toClient.scoreboard_team.mode''
       [(KInt 0, [
          Field ''play.toClient.scoreboard_team.nameTagVisibility'' FString]),
        (KInt 2, [
          Field ''play.toClient.scoreboard_team.nameTagVisibility'' FString])]
       [],
     Switch ''play.toClient.scoreboard_team.mode''
       [(KInt 0, [
          Field ''play.toClient.scoreboard_team.color'' FI8]),
        (KInt 2, [
          Field ''play.toClient.scoreboard_team.color'' FI8])]
       [],
     Switch ''play.toClient.scoreboard_team.mode''
       [(KInt 0, [
          Items ''play.toClient.scoreboard_team.players'' Prefixed [
            Field ''play.toClient.scoreboard_team.players[]'' FString]]),
        (KInt 3, [
          Items ''play.toClient.scoreboard_team.players'' Prefixed [
            Field ''play.toClient.scoreboard_team.players[]'' FString]]),
        (KInt 4, [
          Items ''play.toClient.scoreboard_team.players'' Prefixed [
            Field ''play.toClient.scoreboard_team.players[]'' FString]])]
       []]"

definition play_clientbound_custom_payload_47 :: "schema list" where
  "play_clientbound_custom_payload_47 = [
     Field ''play.toClient.custom_payload.channel'' FString,
     Field ''play.toClient.custom_payload.data'' FPlugin]"

definition play_clientbound_kick_disconnect_47 :: "schema list" where
  "play_clientbound_kick_disconnect_47 = [
     Field ''play.toClient.kick_disconnect.reason'' FString]"

definition play_clientbound_difficulty_47 :: "schema list" where
  "play_clientbound_difficulty_47 = [
     Field ''play.toClient.difficulty.difficulty'' FU8]"

definition play_clientbound_combat_event_47 :: "schema list" where
  "play_clientbound_combat_event_47 = [
     Field ''play.toClient.combat_event.event'' FVarInt,
     Switch ''play.toClient.combat_event.event''
       [(KInt 1, [
          Field ''play.toClient.combat_event.duration'' FVarInt])]
       [],
     Switch ''play.toClient.combat_event.event''
       [(KInt 2, [
          Field ''play.toClient.combat_event.playerId'' FVarInt])]
       [],
     Switch ''play.toClient.combat_event.event''
       [(KInt 1, [
          Field ''play.toClient.combat_event.entityId'' FI32]),
        (KInt 2, [
          Field ''play.toClient.combat_event.entityId'' FI32])]
       [],
     Switch ''play.toClient.combat_event.event''
       [(KInt 2, [
          Field ''play.toClient.combat_event.message'' FString])]
       []]"

definition play_clientbound_camera_47 :: "schema list" where
  "play_clientbound_camera_47 = [
     Field ''play.toClient.camera.cameraId'' FVarInt]"

definition play_clientbound_world_border_47 :: "schema list" where
  "play_clientbound_world_border_47 = [
     Field ''play.toClient.world_border.action'' FVarInt,
     Switch ''play.toClient.world_border.action''
       [(KInt 0, [
          Field ''play.toClient.world_border.radius'' FF64])]
       [],
     Switch ''play.toClient.world_border.action''
       [(KInt 2, [
          Field ''play.toClient.world_border.x'' FF64]),
        (KInt 3, [
          Field ''play.toClient.world_border.x'' FF64])]
       [],
     Switch ''play.toClient.world_border.action''
       [(KInt 2, [
          Field ''play.toClient.world_border.z'' FF64]),
        (KInt 3, [
          Field ''play.toClient.world_border.z'' FF64])]
       [],
     Switch ''play.toClient.world_border.action''
       [(KInt 1, [
          Field ''play.toClient.world_border.old_radius'' FF64]),
        (KInt 3, [
          Field ''play.toClient.world_border.old_radius'' FF64])]
       [],
     Switch ''play.toClient.world_border.action''
       [(KInt 1, [
          Field ''play.toClient.world_border.new_radius'' FF64]),
        (KInt 3, [
          Field ''play.toClient.world_border.new_radius'' FF64])]
       [],
     Switch ''play.toClient.world_border.action''
       [(KInt 1, [
          Field ''play.toClient.world_border.speed'' FVarLong]),
        (KInt 3, [
          Field ''play.toClient.world_border.speed'' FVarLong])]
       [],
     Switch ''play.toClient.world_border.action''
       [(KInt 3, [
          Field ''play.toClient.world_border.portalBoundary'' FVarInt])]
       [],
     Switch ''play.toClient.world_border.action''
       [(KInt 3, [
          Field ''play.toClient.world_border.warning_time'' FVarInt]),
        (KInt 4, [
          Field ''play.toClient.world_border.warning_time'' FVarInt])]
       [],
     Switch ''play.toClient.world_border.action''
       [(KInt 3, [
          Field ''play.toClient.world_border.warning_blocks'' FVarInt]),
        (KInt 5, [
          Field ''play.toClient.world_border.warning_blocks'' FVarInt])]
       []]"

definition play_clientbound_title_47 :: "schema list" where
  "play_clientbound_title_47 = [
     Field ''play.toClient.title.action'' FVarInt,
     Switch ''play.toClient.title.action''
       [(KInt 0, [
          Field ''play.toClient.title.text'' FString]),
        (KInt 1, [
          Field ''play.toClient.title.text'' FString])]
       [],
     Switch ''play.toClient.title.action''
       [(KInt 2, [
          Field ''play.toClient.title.fadeIn'' FI32])]
       [],
     Switch ''play.toClient.title.action''
       [(KInt 2, [
          Field ''play.toClient.title.stay'' FI32])]
       [],
     Switch ''play.toClient.title.action''
       [(KInt 2, [
          Field ''play.toClient.title.fadeOut'' FI32])]
       []]"

definition play_clientbound_set_compression_47 :: "schema list" where
  "play_clientbound_set_compression_47 = [
     Field ''play.toClient.set_compression.threshold'' FVarInt]"

definition play_clientbound_playerlist_header_47 :: "schema list" where
  "play_clientbound_playerlist_header_47 = [
     Field ''play.toClient.playerlist_header.header'' FString,
     Field ''play.toClient.playerlist_header.footer'' FString]"

definition play_clientbound_resource_pack_send_47 :: "schema list" where
  "play_clientbound_resource_pack_send_47 = [
     Field ''play.toClient.resource_pack_send.url'' FString,
     Field ''play.toClient.resource_pack_send.hash'' FString]"

definition play_clientbound_update_entity_nbt_47 :: "schema list" where
  "play_clientbound_update_entity_nbt_47 = [
     Field ''play.toClient.update_entity_nbt.entityId'' FVarInt,
     Field ''play.toClient.update_entity_nbt.tag'' FNBT]"

definition play_serverbound_keep_alive_47 :: "schema list" where
  "play_serverbound_keep_alive_47 = [
     Field ''play.toServer.keep_alive.keepAliveId'' FVarInt]"

definition play_serverbound_chat_47 :: "schema list" where
  "play_serverbound_chat_47 = [
     Field ''play.toServer.chat.message'' FString]"

definition play_serverbound_use_entity_47 :: "schema list" where
  "play_serverbound_use_entity_47 = [
     Field ''play.toServer.use_entity.target'' FVarInt,
     Field ''play.toServer.use_entity.mouse'' FVarInt,
     Switch ''play.toServer.use_entity.mouse''
       [(KInt 2, [
          Field ''play.toServer.use_entity.x'' FF32])]
       [],
     Switch ''play.toServer.use_entity.mouse''
       [(KInt 2, [
          Field ''play.toServer.use_entity.y'' FF32])]
       [],
     Switch ''play.toServer.use_entity.mouse''
       [(KInt 2, [
          Field ''play.toServer.use_entity.z'' FF32])]
       []]"

definition play_serverbound_flying_47 :: "schema list" where
  "play_serverbound_flying_47 = [
     Field ''play.toServer.flying.onGround'' FBool]"

definition play_serverbound_position_47 :: "schema list" where
  "play_serverbound_position_47 = [
     Field ''play.toServer.position.x'' FF64,
     Field ''play.toServer.position.y'' FF64,
     Field ''play.toServer.position.z'' FF64,
     Field ''play.toServer.position.onGround'' FBool]"

definition play_serverbound_look_47 :: "schema list" where
  "play_serverbound_look_47 = [
     Field ''play.toServer.look.yaw'' FF32,
     Field ''play.toServer.look.pitch'' FF32,
     Field ''play.toServer.look.onGround'' FBool]"

definition play_serverbound_position_look_47 :: "schema list" where
  "play_serverbound_position_look_47 = [
     Field ''play.toServer.position_look.x'' FF64,
     Field ''play.toServer.position_look.y'' FF64,
     Field ''play.toServer.position_look.z'' FF64,
     Field ''play.toServer.position_look.yaw'' FF32,
     Field ''play.toServer.position_look.pitch'' FF32,
     Field ''play.toServer.position_look.onGround'' FBool]"

definition play_serverbound_block_dig_47 :: "schema list" where
  "play_serverbound_block_dig_47 = [
     Field ''play.toServer.block_dig.status'' FVarInt,
     Shared ''Location'' ''Position'',
     Field ''play.toServer.block_dig.face'' FI8]"

definition play_serverbound_block_place_47 :: "schema list" where
  "play_serverbound_block_place_47 = [
     Shared ''Location'' ''Position'',
     Field ''play.toServer.block_place.direction'' FI8,
     Shared ''HeldItem'' ''Slot'',
     Field ''play.toServer.block_place.cursorX'' FI8,
     Field ''play.toServer.block_place.cursorY'' FI8,
     Field ''play.toServer.block_place.cursorZ'' FI8]"

definition play_serverbound_held_item_slot_47 :: "schema list" where
  "play_serverbound_held_item_slot_47 = [
     Field ''play.toServer.held_item_slot.slotId'' FI16]"

definition play_serverbound_arm_animation_47 :: "schema list" where
  "play_serverbound_arm_animation_47 = []"

definition play_serverbound_entity_action_47 :: "schema list" where
  "play_serverbound_entity_action_47 = [
     Field ''play.toServer.entity_action.entityId'' FVarInt,
     Field ''play.toServer.entity_action.actionId'' FVarInt,
     Field ''play.toServer.entity_action.jumpBoost'' FVarInt]"

definition play_serverbound_steer_vehicle_47 :: "schema list" where
  "play_serverbound_steer_vehicle_47 = [
     Field ''play.toServer.steer_vehicle.sideways'' FF32,
     Field ''play.toServer.steer_vehicle.forward'' FF32,
     Field ''play.toServer.steer_vehicle.jump'' FU8]"

definition play_serverbound_close_window_47 :: "schema list" where
  "play_serverbound_close_window_47 = [
     Field ''play.toServer.close_window.windowId'' FU8]"

definition play_serverbound_window_click_47 :: "schema list" where
  "play_serverbound_window_click_47 = [
     Field ''play.toServer.window_click.windowId'' FU8,
     Field ''play.toServer.window_click.slot'' FI16,
     Field ''play.toServer.window_click.mouseButton'' FI8,
     Field ''play.toServer.window_click.action'' FI16,
     Field ''play.toServer.window_click.mode'' FI8,
     Shared ''Item'' ''Slot'']"

definition play_serverbound_transaction_47 :: "schema list" where
  "play_serverbound_transaction_47 = [
     Field ''play.toServer.transaction.windowId'' FI8,
     Field ''play.toServer.transaction.action'' FI16,
     Field ''play.toServer.transaction.accepted'' FBool]"

definition play_serverbound_set_creative_slot_47 :: "schema list" where
  "play_serverbound_set_creative_slot_47 = [
     Field ''play.toServer.set_creative_slot.slot'' FI16,
     Shared ''Item'' ''Slot'']"

definition play_serverbound_enchant_item_47 :: "schema list" where
  "play_serverbound_enchant_item_47 = [
     Field ''play.toServer.enchant_item.windowId'' FI8,
     Field ''play.toServer.enchant_item.enchantment'' FI8]"

definition play_serverbound_update_sign_47 :: "schema list" where
  "play_serverbound_update_sign_47 = [
     Shared ''Location'' ''Position'',
     Field ''play.toServer.update_sign.text1'' FString,
     Field ''play.toServer.update_sign.text2'' FString,
     Field ''play.toServer.update_sign.text3'' FString,
     Field ''play.toServer.update_sign.text4'' FString]"

definition play_serverbound_abilities_47 :: "schema list" where
  "play_serverbound_abilities_47 = [
     Field ''play.toServer.abilities.flags'' FI8,
     Field ''play.toServer.abilities.flyingSpeed'' FF32,
     Field ''play.toServer.abilities.walkingSpeed'' FF32]"

definition play_serverbound_tab_complete_47 :: "schema list" where
  "play_serverbound_tab_complete_47 = [
     Field ''play.toServer.tab_complete.text'' FString,
     Maybe ''play.toServer.tab_complete.block'' [
       Shared ''Block'' ''Position'']]"

definition play_serverbound_settings_47 :: "schema list" where
  "play_serverbound_settings_47 = [
     Field ''play.toServer.settings.locale'' FString,
     Field ''play.toServer.settings.viewDistance'' FI8,
     Field ''play.toServer.settings.chatFlags'' FI8,
     Field ''play.toServer.settings.chatColors'' FBool,
     Field ''play.toServer.settings.skinParts'' FU8]"

definition play_serverbound_client_command_47 :: "schema list" where
  "play_serverbound_client_command_47 = [
     Field ''play.toServer.client_command.payload'' FVarInt]"

definition play_serverbound_custom_payload_47 :: "schema list" where
  "play_serverbound_custom_payload_47 = [
     Field ''play.toServer.custom_payload.channel'' FString,
     Field ''play.toServer.custom_payload.data'' FPlugin]"

definition play_serverbound_spectate_47 :: "schema list" where
  "play_serverbound_spectate_47 = [
     Field ''play.toServer.spectate.target'' FUUID]"

definition play_serverbound_resource_pack_receive_47 :: "schema list" where
  "play_serverbound_resource_pack_receive_47 = [
     Field ''play.toServer.resource_pack_receive.hash'' FString,
     Field ''play.toServer.resource_pack_receive.result'' FVarInt]"

section \<open>The registry\<close>

text \<open>The value type \<open>newPacket\<close> makes for a key.\<close>

definition packet_factories_47 :: "(packet_key \<times> string) list" where
  "packet_factories_47 = [
     ((''handshaking'', serverbound, 0), ''HandshakingServerboundSetProtocol''),
     ((''status'', clientbound, 0), ''StatusClientboundServerInfo''),
     ((''status'', clientbound, 1), ''StatusClientboundPing''),
     ((''status'', serverbound, 0), ''StatusServerboundPingStart''),
     ((''status'', serverbound, 1), ''StatusServerboundPing''),
     ((''login'', clientbound, 0), ''LoginClientboundDisconnect''),
     ((''login'', clientbound, 1), ''LoginClientboundEncryptionBegin''),
     ((''login'', clientbound, 2), ''LoginClientboundSuccess''),
     ((''login'', clientbound, 3), ''LoginClientboundCompress''),
     ((''login'', serverbound, 0), ''LoginServerboundLoginStart''),
     ((''login'', serverbound, 1), ''LoginServerboundEncryptionBegin''),
     ((''play'', clientbound, 0), ''PlayClientboundKeepAlive''),
     ((''play'', clientbound, 1), ''PlayClientboundLogin''),
     ((''play'', clientbound, 2), ''PlayClientboundChat''),
     ((''play'', clientbound, 3), ''PlayClientboundUpdateTime''),
     ((''play'', clientbound, 4), ''PlayClientboundEntityEquipment''),
     ((''play'', clientbound, 5), ''PlayClientboundSpawnPosition''),
     ((''play'', clientbound, 6), ''PlayClientboundUpdateHealth''),
     ((''play'', clientbound, 7), ''PlayClientboundRespawn''),
     ((''play'', clientbound, 8), ''PlayClientboundPosition''),
     ((''play'', clientbound, 9), ''PlayClientboundHeldItemSlot''),
     ((''play'', clientbound, 10), ''PlayClientboundBed''),
     ((''play'', clientbound, 11), ''PlayClientboundAnimation''),
     ((''play'', clientbound, 12), ''PlayClientboundNamedEntitySpawn''),
     ((''play'', clientbound, 13), ''PlayClientboundCollect''),
     ((''play'', clientbound, 14), ''PlayClientboundSpawnEntity''),
     ((''play'', clientbound, 15), ''PlayClientboundSpawnEntityLiving''),
     ((''play'', clientbound, 16), ''PlayClientboundSpawnEntityPainting''),
     ((''play'', clientbound, 17), ''PlayClientboundSpawnEntityExperienceOrb''),
     ((''play'', clientbound, 18), ''PlayClientboundEntityVelocity''),
     ((''play'', clientbound, 19), ''PlayClientboundEntityDestroy''),
     ((''play'', clientbound, 20), ''PlayClientboundEntity''),
     ((''play'', clientbound, 21), ''PlayClientboundRelEntityMove''),
     ((''play'', clientbound, 22), ''PlayClientboundEntityLook''),
     ((''play'', clientbound, 23), ''PlayClientboundEntityMoveLook''),
     ((''play'', clientbound, 24), ''PlayClientboundEntityTeleport''),
     ((''play'', clientbound, 25), ''PlayClientboundEntityHeadRotation''),
     ((''play'', clientbound, 26), ''PlayClientboundEntityStatus''),
     ((''play'', clientbound, 27), ''PlayClientboundAttachEntity''),
     ((''play'', clientbound, 28), ''PlayClientboundEntityMetadata''),
     ((''play'', clientbound, 29), ''PlayClientboundEntityEffect''),
     ((''play'', clientbound, 30), ''PlayClientboundRemoveEntityEffect''),
     ((''play'', clientbound, 31), ''PlayClientboundExperience''),
     ((''play'', clientbound, 32), ''PlayClientboundUpdateAttributes''),
     ((''play'', clientbound, 33), ''PlayClientboundMapChunk''),
     ((''play'', clientbound, 34), ''PlayClientboundMultiBlockChange''),
     ((''play'', clientbound, 35), ''PlayClientboundBlockChange''),
     ((''play'', clientbound, 36), ''PlayClientboundBlockAction''),
     ((''play'', clientbound, 37), ''PlayClientboundBlockBreakAnimation''),
     ((''play'', clientbound, 38), ''PlayClientboundMapChunkBulk''),
     ((''play'', clientbound, 39), ''PlayClientboundExplosion''),
     ((''play'', clientbound, 40), ''PlayClientboundWorldEvent''),
     ((''play'', clientbound, 41), ''PlayClientboundNamedSoundEffect''),
     ((''play'', clientbound, 42), ''PlayClientboundWorldParticles''),
     ((''play'', clientbound, 43), ''PlayClientboundGameStateChange''),
     ((''play'', clientbound, 44), ''PlayClientboundSpawnEntityWeather''),
     ((''play'', clientbound, 45), ''PlayClientboundOpenWindow''),
     ((''play'', clientbound, 46), ''PlayClientboundCloseWindow''),
     ((''play'', clientbound, 47), ''PlayClientboundSetSlot''),
     ((''play'', clientbound, 48), ''PlayClientboundWindowItems''),
     ((''play'', clientbound, 49), ''PlayClientboundCraftProgressBar''),
     ((''play'', clientbound, 50), ''PlayClientboundTransaction''),
     ((''play'', clientbound, 51), ''PlayClientboundUpdateSign''),
     ((''play'', clientbound, 52), ''PlayClientboundMap''),
     ((''play'', clientbound, 53), ''PlayClientboundTileEntityData''),
     ((''play'', clientbound, 54), ''PlayClientboundOpenSignEntity''),
     ((''play'', clientbound, 55), ''PlayClientboundStatistics''),
     ((''play'', clientbound, 56), ''PlayClientboundPlayerInfo''),
     ((''play'', clientbound, 57), ''PlayClientboundAbilities''),
     ((''play'', clientbound, 58), ''PlayClientboundTabComplete''),
     ((''play'', clientbound, 59), ''PlayClientboundScoreboardObjective''),
     ((''play'', clientbound, 60), ''PlayClientboundScoreboardScore''),
     ((''play'', clientbound, 61), ''PlayClientboundScoreboardDisplayObjective''),
     ((''play'', clientbound, 62), ''PlayClientboundScoreboardTeam''),
     ((''play'', clientbound, 63), ''PlayClientboundCustomPayload''),
     ((''play'', clientbound, 64), ''PlayClientboundKickDisconnect''),
     ((''play'', clientbound, 65), ''PlayClientboundDifficulty''),
     ((''play'', clientbound, 66), ''PlayClientboundCombatEvent''),
     ((''play'', clientbound, 67), ''PlayClientboundCamera''),
     ((''play'', clientbound, 68), ''PlayClientboundWorldBorder''),
     ((''play'', clientbound, 69), ''PlayClientboundTitle''),
     ((''play'', clientbound, 70), ''PlayClientboundSetCompression''),
     ((''play'', clientbound, 71), ''PlayClientboundPlayerlistHeader''),
     ((''play'', clientbound, 72), ''PlayClientboundResourcePackSend''),
     ((''play'', clientbound, 73), ''PlayClientboundUpdateEntityNBT''),
     ((''play'', serverbound, 0), ''PlayServerboundKeepAlive''),
     ((''play'', serverbound, 1), ''PlayServerboundChat''),
     ((''play'', serverbound, 2), ''PlayServerboundUseEntity''),
     ((''play'', serverbound, 3), ''PlayServerboundFlying''),
     ((''play'', serverbound, 4), ''PlayServerboundPosition''),
     ((''play'', serverbound, 5), ''PlayServerboundLook''),
     ((''play'', serverbound, 6), ''PlayServerboundPositionLook''),
     ((''play'', serverbound, 7), ''PlayServerboundBlockDig''),
     ((''play'', serverbound, 8), ''PlayServerboundBlockPlace''),
     ((''play'', serverbound, 9), ''PlayServerboundHeldItemSlot''),
     ((''play'', serverbound, 10), ''PlayServerboundArmAnimation''),
     ((''play'', serverbound, 11), ''PlayServerboundEntityAction''),
     ((''play'', serverbound, 12), ''PlayServerboundSteerVehicle''),
     ((''play'', serverbound, 13), ''PlayServerboundCloseWindow''),
     ((''play'', serverbound, 14), ''PlayServerboundWindowClick''),
     ((''play'', serverbound, 15), ''PlayServerboundTransaction''),
     ((''play'', serverbound, 16), ''PlayServerboundSetCreativeSlot''),
     ((''play'', serverbound, 17), ''PlayServerboundEnchantItem''),
     ((''play'', serverbound, 18), ''PlayServerboundUpdateSign''),
     ((''play'', serverbound, 19), ''PlayServerboundAbilities''),
     ((''play'', serverbound, 20), ''PlayServerboundTabComplete''),
     ((''play'', serverbound, 21), ''PlayServerboundSettings''),
     ((''play'', serverbound, 22), ''PlayServerboundClientCommand''),
     ((''play'', serverbound, 23), ''PlayServerboundCustomPayload''),
     ((''play'', serverbound, 24), ''PlayServerboundSpectate''),
     ((''play'', serverbound, 25), ''PlayServerboundResourcePackReceive'')]"

text \<open>The key \<open>packetKeyForValue\<close> finds for a value type.\<close>

definition packet_value_keys_47 :: "(string \<times> packet_key) list" where
  "packet_value_keys_47 = [
     (''HandshakingServerboundSetProtocol'', (''handshaking'', serverbound, 0)),
     (''StatusClientboundServerInfo'', (''status'', clientbound, 0)),
     (''StatusClientboundPing'', (''status'', clientbound, 1)),
     (''StatusServerboundPingStart'', (''status'', serverbound, 0)),
     (''StatusServerboundPing'', (''status'', serverbound, 1)),
     (''LoginClientboundDisconnect'', (''login'', clientbound, 0)),
     (''LoginClientboundEncryptionBegin'', (''login'', clientbound, 1)),
     (''LoginClientboundSuccess'', (''login'', clientbound, 2)),
     (''LoginClientboundCompress'', (''login'', clientbound, 3)),
     (''LoginServerboundLoginStart'', (''login'', serverbound, 0)),
     (''LoginServerboundEncryptionBegin'', (''login'', serverbound, 1)),
     (''PlayClientboundKeepAlive'', (''play'', clientbound, 0)),
     (''PlayClientboundLogin'', (''play'', clientbound, 1)),
     (''PlayClientboundChat'', (''play'', clientbound, 2)),
     (''PlayClientboundUpdateTime'', (''play'', clientbound, 3)),
     (''PlayClientboundEntityEquipment'', (''play'', clientbound, 4)),
     (''PlayClientboundSpawnPosition'', (''play'', clientbound, 5)),
     (''PlayClientboundUpdateHealth'', (''play'', clientbound, 6)),
     (''PlayClientboundRespawn'', (''play'', clientbound, 7)),
     (''PlayClientboundPosition'', (''play'', clientbound, 8)),
     (''PlayClientboundHeldItemSlot'', (''play'', clientbound, 9)),
     (''PlayClientboundBed'', (''play'', clientbound, 10)),
     (''PlayClientboundAnimation'', (''play'', clientbound, 11)),
     (''PlayClientboundNamedEntitySpawn'', (''play'', clientbound, 12)),
     (''PlayClientboundCollect'', (''play'', clientbound, 13)),
     (''PlayClientboundSpawnEntity'', (''play'', clientbound, 14)),
     (''PlayClientboundSpawnEntityLiving'', (''play'', clientbound, 15)),
     (''PlayClientboundSpawnEntityPainting'', (''play'', clientbound, 16)),
     (''PlayClientboundSpawnEntityExperienceOrb'', (''play'', clientbound, 17)),
     (''PlayClientboundEntityVelocity'', (''play'', clientbound, 18)),
     (''PlayClientboundEntityDestroy'', (''play'', clientbound, 19)),
     (''PlayClientboundEntity'', (''play'', clientbound, 20)),
     (''PlayClientboundRelEntityMove'', (''play'', clientbound, 21)),
     (''PlayClientboundEntityLook'', (''play'', clientbound, 22)),
     (''PlayClientboundEntityMoveLook'', (''play'', clientbound, 23)),
     (''PlayClientboundEntityTeleport'', (''play'', clientbound, 24)),
     (''PlayClientboundEntityHeadRotation'', (''play'', clientbound, 25)),
     (''PlayClientboundEntityStatus'', (''play'', clientbound, 26)),
     (''PlayClientboundAttachEntity'', (''play'', clientbound, 27)),
     (''PlayClientboundEntityMetadata'', (''play'', clientbound, 28)),
     (''PlayClientboundEntityEffect'', (''play'', clientbound, 29)),
     (''PlayClientboundRemoveEntityEffect'', (''play'', clientbound, 30)),
     (''PlayClientboundExperience'', (''play'', clientbound, 31)),
     (''PlayClientboundUpdateAttributes'', (''play'', clientbound, 32)),
     (''PlayClientboundMapChunk'', (''play'', clientbound, 33)),
     (''PlayClientboundMultiBlockChange'', (''play'', clientbound, 34)),
     (''PlayClientboundBlockChange'', (''play'', clientbound, 35)),
     (''PlayClientboundBlockAction'', (''play'', clientbound, 36)),
     (''PlayClientboundBlockBreakAnimation'', (''play'', clientbound, 37)),
     (''PlayClientboundMapChunkBulk'', (''play'', clientbound, 38)),
     (''PlayClientboundExplosion'', (''play'', clientbound, 39)),
     (''PlayClientboundWorldEvent'', (''play'', clientbound, 40)),
     (''PlayClientboundNamedSoundEffect'', (''play'', clientbound, 41)),
     (''PlayClientboundWorldParticles'', (''play'', clientbound, 42)),
     (''PlayClientboundGameStateChange'', (''play'', clientbound, 43)),
     (''PlayClientboundSpawnEntityWeather'', (''play'', clientbound, 44)),
     (''PlayClientboundOpenWindow'', (''play'', clientbound, 45)),
     (''PlayClientboundCloseWindow'', (''play'', clientbound, 46)),
     (''PlayClientboundSetSlot'', (''play'', clientbound, 47)),
     (''PlayClientboundWindowItems'', (''play'', clientbound, 48)),
     (''PlayClientboundCraftProgressBar'', (''play'', clientbound, 49)),
     (''PlayClientboundTransaction'', (''play'', clientbound, 50)),
     (''PlayClientboundUpdateSign'', (''play'', clientbound, 51)),
     (''PlayClientboundMap'', (''play'', clientbound, 52)),
     (''PlayClientboundTileEntityData'', (''play'', clientbound, 53)),
     (''PlayClientboundOpenSignEntity'', (''play'', clientbound, 54)),
     (''PlayClientboundStatistics'', (''play'', clientbound, 55)),
     (''PlayClientboundPlayerInfo'', (''play'', clientbound, 56)),
     (''PlayClientboundAbilities'', (''play'', clientbound, 57)),
     (''PlayClientboundTabComplete'', (''play'', clientbound, 58)),
     (''PlayClientboundScoreboardObjective'', (''play'', clientbound, 59)),
     (''PlayClientboundScoreboardScore'', (''play'', clientbound, 60)),
     (''PlayClientboundScoreboardDisplayObjective'', (''play'', clientbound, 61)),
     (''PlayClientboundScoreboardTeam'', (''play'', clientbound, 62)),
     (''PlayClientboundCustomPayload'', (''play'', clientbound, 63)),
     (''PlayClientboundKickDisconnect'', (''play'', clientbound, 64)),
     (''PlayClientboundDifficulty'', (''play'', clientbound, 65)),
     (''PlayClientboundCombatEvent'', (''play'', clientbound, 66)),
     (''PlayClientboundCamera'', (''play'', clientbound, 67)),
     (''PlayClientboundWorldBorder'', (''play'', clientbound, 68)),
     (''PlayClientboundTitle'', (''play'', clientbound, 69)),
     (''PlayClientboundSetCompression'', (''play'', clientbound, 70)),
     (''PlayClientboundPlayerlistHeader'', (''play'', clientbound, 71)),
     (''PlayClientboundResourcePackSend'', (''play'', clientbound, 72)),
     (''PlayClientboundUpdateEntityNBT'', (''play'', clientbound, 73)),
     (''PlayServerboundKeepAlive'', (''play'', serverbound, 0)),
     (''PlayServerboundChat'', (''play'', serverbound, 1)),
     (''PlayServerboundUseEntity'', (''play'', serverbound, 2)),
     (''PlayServerboundFlying'', (''play'', serverbound, 3)),
     (''PlayServerboundPosition'', (''play'', serverbound, 4)),
     (''PlayServerboundLook'', (''play'', serverbound, 5)),
     (''PlayServerboundPositionLook'', (''play'', serverbound, 6)),
     (''PlayServerboundBlockDig'', (''play'', serverbound, 7)),
     (''PlayServerboundBlockPlace'', (''play'', serverbound, 8)),
     (''PlayServerboundHeldItemSlot'', (''play'', serverbound, 9)),
     (''PlayServerboundArmAnimation'', (''play'', serverbound, 10)),
     (''PlayServerboundEntityAction'', (''play'', serverbound, 11)),
     (''PlayServerboundSteerVehicle'', (''play'', serverbound, 12)),
     (''PlayServerboundCloseWindow'', (''play'', serverbound, 13)),
     (''PlayServerboundWindowClick'', (''play'', serverbound, 14)),
     (''PlayServerboundTransaction'', (''play'', serverbound, 15)),
     (''PlayServerboundSetCreativeSlot'', (''play'', serverbound, 16)),
     (''PlayServerboundEnchantItem'', (''play'', serverbound, 17)),
     (''PlayServerboundUpdateSign'', (''play'', serverbound, 18)),
     (''PlayServerboundAbilities'', (''play'', serverbound, 19)),
     (''PlayServerboundTabComplete'', (''play'', serverbound, 20)),
     (''PlayServerboundSettings'', (''play'', serverbound, 21)),
     (''PlayServerboundClientCommand'', (''play'', serverbound, 22)),
     (''PlayServerboundCustomPayload'', (''play'', serverbound, 23)),
     (''PlayServerboundSpectate'', (''play'', serverbound, 24)),
     (''PlayServerboundResourcePackReceive'', (''play'', serverbound, 25))]"

text \<open>The names of the packets.\<close>

definition packet_names_47 :: "(packet_key \<times> string) list" where
  "packet_names_47 = [
     ((''handshaking'', serverbound, 0), ''set_protocol''),
     ((''status'', clientbound, 0), ''server_info''),
     ((''status'', clientbound, 1), ''ping''),
     ((''status'', serverbound, 0), ''ping_start''),
     ((''status'', serverbound, 1), ''ping''),
     ((''login'', clientbound, 0), ''disconnect''),
     ((''login'', clientbound, 1), ''encryption_begin''),
     ((''login'', clientbound, 2), ''success''),
     ((''login'', clientbound, 3), ''compress''),
     ((''login'', serverbound, 0), ''login_start''),
     ((''login'', serverbound, 1), ''encryption_begin''),
     ((''play'', clientbound, 0), ''keep_alive''),
     ((''play'', clientbound, 1), ''login''),
     ((''play'', clientbound, 2), ''chat''),
     ((''play'', clientbound, 3), ''update_time''),
     ((''play'', clientbound, 4), ''entity_equipment''),
     ((''play'', clientbound, 5), ''spawn_position''),
     ((''play'', clientbound, 6), ''update_health''),
     ((''play'', clientbound, 7), ''respawn''),
     ((''play'', clientbound, 8), ''position''),
     ((''play'', clientbound, 9), ''held_item_slot''),
     ((''play'', clientbound, 10), ''bed''),
     ((''play'', clientbound, 11), ''animation''),
     ((''play'', clientbound, 12), ''named_entity_spawn''),
     ((''play'', clientbound, 13), ''collect''),
     ((''play'', clientbound, 14), ''spawn_entity''),
     ((''play'', clientbound, 15), ''spawn_entity_living''),
     ((''play'', clientbound, 16), ''spawn_entity_painting''),
     ((''play'', clientbound, 17), ''spawn_entity_experience_orb''),
     ((''play'', clientbound, 18), ''entity_velocity''),
     ((''play'', clientbound, 19), ''entity_destroy''),
     ((''play'', clientbound, 20), ''entity''),
     ((''play'', clientbound, 21), ''rel_entity_move''),
     ((''play'', clientbound, 22), ''entity_look''),
     ((''play'', clientbound, 23), ''entity_move_look''),
     ((''play'', clientbound, 24), ''entity_teleport''),
     ((''play'', clientbound, 25), ''entity_head_rotation''),
     ((''play'', clientbound, 26), ''entity_status''),
     ((''play'', clientbound, 27), ''attach_entity''),
     ((''play'', clientbound, 28), ''entity_metadata''),
     ((''play'', clientbound, 29), ''entity_effect''),
     ((''play'', clientbound, 30), ''remove_entity_effect''),
     ((''play'', clientbound, 31), ''experience''),
     ((''play'', clientbound, 32), ''update_attributes''),
     ((''play'', clientbound, 33), ''map_chunk''),
     ((''play'', clientbound, 34), ''multi_block_change''),
     ((''play'', clientbound, 35), ''block_change''),
     ((''play'', clientbound, 36), ''block_action''),
     ((''play'', clientbound, 37), ''block_break_animation''),
     ((''play'', clientbound, 38), ''map_chunk_bulk''),
     ((''play'', clientbound, 39), ''explosion''),
     ((''play'', clientbound, 40), ''world_event''),
     ((''play'', clientbound, 41), ''named_sound_effect''),
     ((''play'', clientbound, 42), ''world_particles''),
     ((''play'', clientbound, 43), ''game_state_change''),
     ((''play'', clientbound, 44), ''spawn_entity_weather''),
     ((''play'', clientbound, 45), ''open_window''),
     ((''play'', clientbound, 46), ''close_window''),
     ((''play'', clientbound, 47), ''set_slot''),
     ((''play'', clientbound, 48), ''window_items''),
     ((''play'', clientbound, 49), ''craft_progress_bar''),
     ((''play'', clientbound, 50), ''transaction''),
     ((''play'', clientbound, 51), ''update_sign''),
     ((''play'', clientbound, 52), ''map''),
     ((''play'', clientbound, 53), ''tile_entity_data''),
     ((''play'', clientbound, 54), ''open_sign_entity''),
     ((''play'', clientbound, 55), ''statistics''),
     ((''play'', clientbound, 56), ''player_info''),
     ((''play'', clientbound, 57), ''abilities''),
     ((''play'', clientbound, 58), ''tab_complete''),
     ((''play'', clientbound, 59), ''scoreboard_objective''),
     ((''play'', clientbound, 60), ''scoreboard_score''),
     ((''play'', clientbound, 61), ''scoreboard_display_objective''),
     ((''play'', clientbound, 62), ''scoreboard_team''),
     ((''play'', clientbound, 63), ''custom_payload''),
     ((''play'', clientbound, 64), ''kick_disconnect''),
     ((''play'', clientbound, 65), ''difficulty''),
     ((''play'', clientbound, 66), ''combat_event''),
     ((''play'', clientbound, 67), ''camera''),
     ((''play'', clientbound, 68), ''world_border''),
     ((''play'', clientbound, 69), ''title''),
     ((''play'', clientbound, 70), ''set_compression''),
     ((''play'', clientbound, 71), ''playerlist_header''),
     ((''play'', clientbound, 72), ''resource_pack_send''),
     ((''play'', clientbound, 73), ''update_entity_nbt''),
     ((''play'', serverbound, 0), ''keep_alive''),
     ((''play'', serverbound, 1), ''chat''),
     ((''play'', serverbound, 2), ''use_entity''),
     ((''play'', serverbound, 3), ''flying''),
     ((''play'', serverbound, 4), ''position''),
     ((''play'', serverbound, 5), ''look''),
     ((''play'', serverbound, 6), ''position_look''),
     ((''play'', serverbound, 7), ''block_dig''),
     ((''play'', serverbound, 8), ''block_place''),
     ((''play'', serverbound, 9), ''held_item_slot''),
     ((''play'', serverbound, 10), ''arm_animation''),
     ((''play'', serverbound, 11), ''entity_action''),
     ((''play'', serverbound, 12), ''steer_vehicle''),
     ((''play'', serverbound, 13), ''close_window''),
     ((''play'', serverbound, 14), ''window_click''),
     ((''play'', serverbound, 15), ''transaction''),
     ((''play'', serverbound, 16), ''set_creative_slot''),
     ((''play'', serverbound, 17), ''enchant_item''),
     ((''play'', serverbound, 18), ''update_sign''),
     ((''play'', serverbound, 19), ''abilities''),
     ((''play'', serverbound, 20), ''tab_complete''),
     ((''play'', serverbound, 21), ''settings''),
     ((''play'', serverbound, 22), ''client_command''),
     ((''play'', serverbound, 23), ''custom_payload''),
     ((''play'', serverbound, 24), ''spectate''),
     ((''play'', serverbound, 25), ''resource_pack_receive'')]"

text \<open>The codec of a value type, by the name of its Go type.\<close>

definition packet_schemas_47 :: "(string \<times> schema list) list" where
  "packet_schemas_47 = [
     (''HandshakingServerboundSetProtocol'', handshaking_serverbound_set_protocol_47),
     (''StatusClientboundServerInfo'', status_clientbound_server_info_47),
     (''StatusClientboundPing'', status_clientbound_ping_47),
     (''StatusServerboundPingStart'', status_serverbound_ping_start_47),
     (''StatusServerboundPing'', status_serverbound_ping_47),
     (''LoginClientboundDisconnect'', login_clientbound_disconnect_47),
     (''LoginClientboundEncryptionBegin'', login_clientbound_encryption_begin_47),
     (''LoginClientboundSuccess'', login_clientbound_success_47),
     (''LoginClientboundCompress'', login_clientbound_compress_47),
     (''LoginServerboundLoginStart'', login_serverbound_login_start_47),
     (''LoginServerboundEncryptionBegin'', login_serverbound_encryption_begin_47),
     (''PlayClientboundKeepAlive'', play_clientbound_keep_alive_47),
     (''PlayClientboundLogin'', play_clientbound_login_47),
     (''PlayClientboundChat'', play_clientbound_chat_47),
     (''PlayClientboundUpdateTime'', play_clientbound_update_time_47),
     (''PlayClientboundEntityEquipment'', play_clientbound_entity_equipment_47),
     (''PlayClientboundSpawnPosition'', play_clientbound_spawn_position_47),
     (''PlayClientboundUpdateHealth'', play_clientbound_update_health_47),
     (''PlayClientboundRespawn'', play_clientbound_respawn_47),
     (''PlayClientboundPosition'', play_clientbound_position_47),
     (''PlayClientboundHeldItemSlot'', play_clientbound_held_item_slot_47),
     (''PlayClientboundBed'', play_clientbound_bed_47),
     (''PlayClientboundAnimation'', play_clientbound_animation_47),
     (''PlayClientboundNamedEntitySpawn'', play_clientbound_named_entity_spawn_47),
     (''PlayClientboundCollect'', play_clientbound_collect_47),
     (''PlayClientboundSpawnEntity'', play_clientbound_spawn_entity_47),
     (''PlayClientboundSpawnEntityLiving'', play_clientbound_spawn_entity_living_47),
     (''PlayClientboundSpawnEntityPainting'', play_clientbound_spawn_entity_painting_47),
     (''PlayClientboundSpawnEntityExperienceOrb'', play_clientbound_spawn_entity_experience_orb_47),
     (''PlayClientboundEntityVelocity'', play_clientbound_entity_velocity_47),
     (''PlayClientboundEntityDestroy'', play_clientbound_entity_destroy_47),
     (''PlayClientboundEntity'', play_clientbound_entity_47),
     (''PlayClientboundRelEntityMove'', play_clientbound_rel_entity_move_47),
     (''PlayClientboundEntityLook'', play_clientbound_entity_look_47),
     (''PlayClientboundEntityMoveLook'', play_clientbound_entity_move_look_47),
     (''PlayClientboundEntityTeleport'', play_clientbound_entity_teleport_47),
     (''PlayClientboundEntityHeadRotation'', play_clientbound_entity_head_rotation_47),
     (''PlayClientboundEntityStatus'', play_clientbound_entity_status_47),
     (''PlayClientboundAttachEntity'', play_clientbound_attach_entity_47),
     (''PlayClientboundEntityMetadata'', play_clientbound_entity_metadata_47),
     (''PlayClientboundEntityEffect'', play_clientbound_entity_effect_47),
     (''PlayClientboundRemoveEntityEffect'', play_clientbound_remove_entity_effect_47),
     (''PlayClientboundExperience'', play_clientbound_experience_47),
     (''PlayClientboundUpdateAttributes'', play_clientbound_update_attributes_47),
     (''PlayClientboundMapChunk'', play_clientbound_map_chunk_47),
     (''PlayClientboundMultiBlockChange'', play_clientbound_multi_block_change_47),
     (''PlayClientboundBlockChange'', play_clientbound_block_change_47),
     (''PlayClientboundBlockAction'', play_clientbound_block_action_47),
     (''PlayClientboundBlockBreakAnimation'', play_clientbound_block_break_animation_47),
     (''PlayClientboundMapChunkBulk'', play_clientbound_map_chunk_bulk_47),
     (''PlayClientboundExplosion'', play_clientbound_explosion_47),
     (''PlayClientboundWorldEvent'', play_clientbound_world_event_47),
     (''PlayClientboundNamedSoundEffect'', play_clientbound_named_sound_effect_47),
     (''PlayClientboundWorldParticles'', play_clientbound_world_particles_47),
     (''PlayClientboundGameStateChange'', play_clientbound_game_state_change_47),
     (''PlayClientboundSpawnEntityWeather'', play_clientbound_spawn_entity_weather_47),
     (''PlayClientboundOpenWindow'', play_clientbound_open_window_47),
     (''PlayClientboundCloseWindow'', play_clientbound_close_window_47),
     (''PlayClientboundSetSlot'', play_clientbound_set_slot_47),
     (''PlayClientboundWindowItems'', play_clientbound_window_items_47),
     (''PlayClientboundCraftProgressBar'', play_clientbound_craft_progress_bar_47),
     (''PlayClientboundTransaction'', play_clientbound_transaction_47),
     (''PlayClientboundUpdateSign'', play_clientbound_update_sign_47),
     (''PlayClientboundMap'', play_clientbound_map_47),
     (''PlayClientboundTileEntityData'', play_clientbound_tile_entity_data_47),
     (''PlayClientboundOpenSignEntity'', play_clientbound_open_sign_entity_47),
     (''PlayClientboundStatistics'', play_clientbound_statistics_47),
     (''PlayClientboundPlayerInfo'', play_clientbound_player_info_47),
     (''PlayClientboundAbilities'', play_clientbound_abilities_47),
     (''PlayClientboundTabComplete'', play_clientbound_tab_complete_47),
     (''PlayClientboundScoreboardObjective'', play_clientbound_scoreboard_objective_47),
     (''PlayClientboundScoreboardScore'', play_clientbound_scoreboard_score_47),
     (''PlayClientboundScoreboardDisplayObjective'', play_clientbound_scoreboard_display_objective_47),
     (''PlayClientboundScoreboardTeam'', play_clientbound_scoreboard_team_47),
     (''PlayClientboundCustomPayload'', play_clientbound_custom_payload_47),
     (''PlayClientboundKickDisconnect'', play_clientbound_kick_disconnect_47),
     (''PlayClientboundDifficulty'', play_clientbound_difficulty_47),
     (''PlayClientboundCombatEvent'', play_clientbound_combat_event_47),
     (''PlayClientboundCamera'', play_clientbound_camera_47),
     (''PlayClientboundWorldBorder'', play_clientbound_world_border_47),
     (''PlayClientboundTitle'', play_clientbound_title_47),
     (''PlayClientboundSetCompression'', play_clientbound_set_compression_47),
     (''PlayClientboundPlayerlistHeader'', play_clientbound_playerlist_header_47),
     (''PlayClientboundResourcePackSend'', play_clientbound_resource_pack_send_47),
     (''PlayClientboundUpdateEntityNBT'', play_clientbound_update_entity_nbt_47),
     (''PlayServerboundKeepAlive'', play_serverbound_keep_alive_47),
     (''PlayServerboundChat'', play_serverbound_chat_47),
     (''PlayServerboundUseEntity'', play_serverbound_use_entity_47),
     (''PlayServerboundFlying'', play_serverbound_flying_47),
     (''PlayServerboundPosition'', play_serverbound_position_47),
     (''PlayServerboundLook'', play_serverbound_look_47),
     (''PlayServerboundPositionLook'', play_serverbound_position_look_47),
     (''PlayServerboundBlockDig'', play_serverbound_block_dig_47),
     (''PlayServerboundBlockPlace'', play_serverbound_block_place_47),
     (''PlayServerboundHeldItemSlot'', play_serverbound_held_item_slot_47),
     (''PlayServerboundArmAnimation'', play_serverbound_arm_animation_47),
     (''PlayServerboundEntityAction'', play_serverbound_entity_action_47),
     (''PlayServerboundSteerVehicle'', play_serverbound_steer_vehicle_47),
     (''PlayServerboundCloseWindow'', play_serverbound_close_window_47),
     (''PlayServerboundWindowClick'', play_serverbound_window_click_47),
     (''PlayServerboundTransaction'', play_serverbound_transaction_47),
     (''PlayServerboundSetCreativeSlot'', play_serverbound_set_creative_slot_47),
     (''PlayServerboundEnchantItem'', play_serverbound_enchant_item_47),
     (''PlayServerboundUpdateSign'', play_serverbound_update_sign_47),
     (''PlayServerboundAbilities'', play_serverbound_abilities_47),
     (''PlayServerboundTabComplete'', play_serverbound_tab_complete_47),
     (''PlayServerboundSettings'', play_serverbound_settings_47),
     (''PlayServerboundClientCommand'', play_serverbound_client_command_47),
     (''PlayServerboundCustomPayload'', play_serverbound_custom_payload_47),
     (''PlayServerboundSpectate'', play_serverbound_spectate_47),
     (''PlayServerboundResourcePackReceive'', play_serverbound_resource_pack_receive_47)]"

end
