(* ===== verification/Session_V47.thy ===== *)
theory Session_V47
  imports Java_Session Packets_V47
begin

text \<open>
  generated/java/v1_8/protocol.go: the session of protocol 47 on its own tables, its transitions,
  disconnects and login roles, and the two contracts of Java_Session discharged for it.
\<close>

section \<open>The version\<close>

definition version_47 :: version where
  "version_47 = \<lparr>vn_states = [''handshaking'', ''status'', ''login'', ''play''],
     vn_factories = packet_factories_47, vn_value_keys = packet_value_keys_47,
     vn_names = packet_names_47, vn_schemas = packet_schemas_47, vn_types = shared_types_47,
     vn_decode = (\<lambda>_ _ _ _. Inl ErrSession), vn_encode = (\<lambda>_ _ _. Inl ErrSession)\<rparr>"

section \<open>Transitions, disconnects, roles\<close>

definition propose_transition_47 :: "java_session \<Rightarrow> protocol_packet \<Rightarrow> session_transition option result" where
  "propose_transition_47 s p = (case gp_value p of
     Known t vs \<Rightarrow>
       if t = ''HandshakingServerboundSetProtocol'' then propose_handshake s vs
       else if t = ''LoginClientboundSuccess'' then to_state ''login'' s ''play''
       else if t = ''LoginClientboundCompress'' then to_compression ''login'' s vs
       else if t = ''PlayClientboundSetCompression'' then to_compression ''play'' s vs
       else Inr None
   | _ \<Rightarrow> Inr None)"

definition disconnect_47 :: "java_session \<Rightarrow> bytes \<Rightarrow> protocol_packet option" where
  "disconnect_47 s reason =
     (if js_role s \<noteq> role_server then None
      else if js_state s = ''login'' then
        Some (disconnect_packet ''login'' s 0 ''LoginClientboundDisconnect'' (VBytes reason))
      else if js_state s = ''play'' then
        Some (disconnect_packet ''play'' s 64 ''PlayClientboundKickDisconnect'' (VBytes reason))
      else None)"

definition login_roles_47 :: "(packet_key \<times> login_role) list" where
  "login_roles_47 = [
     ((''login'', clientbound, 1), EncryptionRequest),
     ((''login'', clientbound, 2), LoginSuccess),
     ((''login'', clientbound, 3), SetCompression),
     ((''login'', serverbound, 0), LoginStart),
     ((''login'', serverbound, 1), EncryptionResponse)]"

definition login_role_47 :: "string \<Rightarrow> byte \<Rightarrow> i32 \<Rightarrow> login_role option" where
  "login_role_47 st dir i = map_of login_roles_47 (st, dir, i)"

section \<open>The registry\<close>

text \<open>Keys of the tables ascend by state, direction and ID.\<close>

lemma factories_ascend_47: "ascending (map (key_rank (vn_states version_47)) (map fst packet_factories_47))"
  by code_simp

lemma value_keys_swap_47: "packet_value_keys_47 = map (\<lambda>(key, t). (t, key)) packet_factories_47"
  by code_simp

lemma names_cover_47: "map fst packet_names_47 = map fst packet_factories_47"
  by code_simp

text \<open>
  The entity metadata of three packets ends at a byte that its own items may start with, see
  \<open>metadata_ends_early\<close>; the other packets round-trip.
\<close>

definition metadata_packets_47 :: "string list" where
  "metadata_packets_47 = [''PlayClientboundNamedEntitySpawn'', ''PlayClientboundSpawnEntityLiving'',
     ''PlayClientboundEntityMetadata'']"

lemma types_sound_47: "sound_types [''EntityMetadata''] shared_types_47"
  by code_simp

lemma schemas_sound_47: "list_all (\<lambda>(t, ss). t \<in> set metadata_packets_47 \<or> sound_fields [''EntityMetadata''] ss)
    packet_schemas_47"
  by code_simp

lemma keys_distinct_47: "distinct (map fst packet_factories_47)"
  using factories_ascend_47 by (rule ascending_keys)

lemma version_47_tables [simp]:
  "vn_factories version_47 = packet_factories_47" "vn_value_keys version_47 = packet_value_keys_47"
  "vn_names version_47 = packet_names_47" "vn_schemas version_47 = packet_schemas_47"
  "vn_types version_47 = shared_types_47"
  by (simp_all add: version_47_def)

lemma keyed_47:
  "map_of packet_value_keys_47 t = Some key \<Longrightarrow> map_of packet_factories_47 key = Some t"
  unfolding value_keys_swap_47 by (rule map_of_swapped [OF keys_distinct_47])

lemma named_47:
  assumes "map_of packet_factories_47 key = Some t"
  shows "\<exists>name. map_of packet_names_47 key = Some name"
proof -
  from map_of_SomeD [OF assms] have "key \<in> set (map fst packet_factories_47)" by force
  then have "key \<in> set (map fst packet_names_47)" by (simp only: names_cover_47)
  then show ?thesis by (auto dest: weak_map_of_SomeI)
qed

lemma secrets_47: "map_of packet_factories_47 key = Some t \<Longrightarrow> t \<in> set secret_types \<Longrightarrow> key \<in> set sensitive_frames"
proof -
  have "list_all (\<lambda>(key, t). t \<in> set secret_types \<longrightarrow> key \<in> set sensitive_frames) packet_factories_47" by code_simp
  then show "map_of packet_factories_47 key = Some t \<Longrightarrow> t \<in> set secret_types \<Longrightarrow> key \<in> set sensitive_frames"
    by (auto simp only: list_all_iff dest!: map_of_SomeD)
qed

lemma sound_47:
  assumes "map_of packet_schemas_47 t = Some ss" "t \<notin> set metadata_packets_47"
  shows "sound_fields [''EntityMetadata''] ss"
  using schemas_sound_47 map_of_SomeD [OF assms(1)] assms(2) by (auto simp only: list_all_iff)

interpretation registry_47: packet_registry version_47 "[''EntityMetadata'']" metadata_packets_47
  by (unfold_locales, unfold version_47_tables names_cover_47)
    (erule keyed_47 named_47 | rule keys_distinct_47 types_sound_47 | erule (1) sound_47 secrets_47)+

section \<open>The state machine\<close>

definition moves_47 :: "(string \<times> string) list" where
  "moves_47 = [(''handshaking'', ''status''), (''handshaking'', ''login''), (''login'', ''play'')]"

interpretation machine_47: transition_rules version_47 propose_transition_47 moves_47
  by unfold_locales
    (auto simp: propose_transition_47_def proposals moves_47_def version_47_def
      split: packet_value.splits if_splits)

section \<open>Properties\<close>

text \<open>
  C3: a packet of protocol 47 that one side's session encodes, the other side's session decodes to
  the same packet, with the name and the payload filled in: for every packet type of the registry
  but the three with entity metadata, under every compression setting of the two policies the
  package has, and for every codec that inflates what it deflates.
\<close>

theorem frame_roundtrip_47:
  assumes "limits_ok (js_limits s)" and "zlib_agrees inflate deflate" and "own_policy (js_compression s)"
    and "mirrors s s'" and "gp_value p = Known t vs" and "t \<notin> set metadata_packets_47"
    and "list_all (within_levels (nat (recursion_depth (js_limits s)))) vs"
    and "encode_frame deflate version_47 s p = Inr frame"
  shows "\<exists>name payload. packet_name version_47 (gp_state p) (gp_direction p) (gp_id p) = Some name \<and>
    decode_frame inflate version_47 s' frame = Inr (p\<lparr>gp_name := name, gp_payload := payload\<rparr>)"
proof -
  from assms(5,8) obtain payload where "encode_value version_47 t (js_limits s) vs = Inr payload"
    by (auto simp: encode_frame_def encode_packet_body_def Let_def result_simps split: if_splits option.splits)
  then have "t \<in> fst ` set (vn_schemas version_47)"
    by (auto simp: encode_value_def version_47_def split: option.splits dest: map_of_SomeD intro: rev_image_eqI)
  with assms show ?thesis by (intro registry_47.frame_known)
qed

definition greeting_47 :: protocol_packet where
  "greeting_47 = \<lparr>gp_state = ''handshaking'', gp_direction = serverbound, gp_id = 0, gp_name = [],
     gp_payload = [], gp_value = Known ''HandshakingServerboundSetProtocol''
       [V32 47, VBytes [104, 105], V16 25565, V32 2]\<rparr>"

definition fresh_47 :: "byte \<Rightarrow> java_session" where
  "fresh_47 role = (case new_session role default_limits of Inr s \<Rightarrow> s)"

lemma fresh_47: "fresh_47 role_client = \<lparr>js_limits = default_limits, js_role = role_client,
    js_state = ''handshaking'', js_inbound = clientbound, js_outbound = serverbound,
    js_compression = \<lparr>enabled = False, threshold = 0, policy = Some strict_compression\<rparr>\<rparr>"
  "fresh_47 role_server = \<lparr>js_limits = default_limits, js_role = role_server,
    js_state = ''handshaking'', js_inbound = serverbound, js_outbound = clientbound,
    js_compression = \<lparr>enabled = False, threshold = 0, policy = Some strict_compression\<rparr>\<rparr>"
  by (simp_all add: fresh_47_def new_session_def limits_okD(1) role_client_def role_server_def)

lemma fresh_session_47: "new_session role_server default_limits = Inr (fresh_47 role_server)"
  unfolding new_session_Inr_iff fresh_47 by (simp add: limits_okD(1) role_client_def role_server_def)

lemma greeting_frame_47: "encode_frame stored_deflate version_47 (fresh_47 role_client) greeting_47 =
    Inr [0, 47, 2, 104, 105, 99, 221, 2]"
  unfolding fresh_47 by code_simp

theorem frame_roundtrip_47_witness:
  "\<exists>name payload. packet_name version_47 ''handshaking'' serverbound 0 = Some name \<and>
    decode_frame stored_inflate version_47 (fresh_47 role_server) [0, 47, 2, 104, 105, 99, 221, 2] =
      Inr (greeting_47\<lparr>gp_name := name, gp_payload := payload\<rparr>)"
  using frame_roundtrip_47 [OF _ zlib_agrees_stored _ _ _ _ _ greeting_frame_47,
      of "fresh_47 role_server" "''HandshakingServerboundSetProtocol''" "[V32 47, VBytes [104, 105], V16 25565, V32 2]"]
  by (simp add: fresh_47 mirrors_def own_policy_def metadata_packets_47_def) (simp add: greeting_47_def)

definition clashing_metadata_47 :: "field_value list" where
  "clashing_metadata_47 = [V32 1, VStruct [VItems [[VInts [3, 31], VCase [V32 0]]]]]"

definition small_limits :: limits where
  "small_limits = default_limits\<lparr>collection_items := 4, recursion_depth := 2\<rparr>"



definition played_47 :: java_session where
  "played_47 = (fresh_47 role_server)\<lparr>js_state := ''play''\<rparr>"

lemma run_to_play_47:
  "session_runs version_47 propose_transition_47 (fresh_47 role_server) ((fresh_47 role_server)\<lparr>js_state := ''login''\<rparr>)"
  "session_runs version_47 propose_transition_47 ((fresh_47 role_server)\<lparr>js_state := ''login''\<rparr>) played_47"
  using session_runs.commit [OF session_runs.start, of propose_transition_47 "fresh_47 role_server" greeting_47
      "\<lparr>tr_state = Some ''login'', tr_control = None\<rparr>" version_47]
    session_runs.commit [OF session_runs.start, of propose_transition_47 "(fresh_47 role_server)\<lparr>js_state := ''login''\<rparr>"
      "greeting_47\<lparr>gp_value := Known ''LoginClientboundSuccess'' [VBytes [], VBytes []]\<rparr>"
      "\<lparr>tr_state = Some ''play'', tr_control = None\<rparr>" version_47]
  by (simp_all add: propose_transition_47_def proposals greeting_47_def fresh_47 int_field_def wire_int_def
      validate_transition_def validate_state_def version_47_def apply_transition_def played_47_def)


text \<open>
  C13: the key exchange of protocol 47 stays out of captures. A packet that \<open>Sensitive\<close> names, whether the
  session decodes or encodes it, travels in a frame that \<open>SensitiveFrame\<close> names too, which is judged
  while nothing but its compression envelope and its packet ID has been read.
\<close>

theorem key_exchange_withheld_47:
  assumes "limits_ok (js_limits s)" and "zlib_agrees inflate deflate" and "own_policy (js_compression s)"
    and "sensitive p"
    and "decode_frame inflate version_47 s frame = Inr p \<and> dir = js_inbound s \<or>
      encode_frame deflate version_47 s p = Inr frame \<and> dir = js_outbound s"
  shows "sensitive_frame inflate s dir frame"
  using assms registry_47.sensitive_withheld registry_47.sensitive_withheld_out by blast

definition key_request_47 :: protocol_packet where
  "key_request_47 = \<lparr>gp_state = ''login'', gp_direction = clientbound, gp_id = 1, gp_name = [],
     gp_payload = [], gp_value = Known ''LoginClientboundEncryptionBegin''
       [VBytes [], VBytes [7], VBytes [9]]\<rparr>"

lemma key_request_frame_47: "encode_frame stored_deflate version_47
    ((fresh_47 role_server)\<lparr>js_state := ''login''\<rparr>) key_request_47 = Inr [1, 0, 1, 7, 1, 9]"
  unfolding fresh_47 by code_simp

theorem key_exchange_withheld_47_witness:
  "sensitive_frame stored_inflate ((fresh_47 role_server)\<lparr>js_state := ''login''\<rparr>) clientbound [1, 0, 1, 7, 1, 9]"
  using key_exchange_withheld_47 [OF _ zlib_agrees_stored _ _ disjI2 [OF conjI [OF key_request_frame_47]]]
  by (simp add: fresh_47 own_policy_def sensitive_def key_request_47_def secret_types_def)

end
