(* ===== verification/Packets_V775_Types.thy ===== *)
theory Packets_V775_Types
  imports Packet_Schema
begin

text \<open>
  generated/java/v26_1/codec.go: the mapper tables and the shared types of protocol 775, item
  stacks and their components among them.
\<close>

section \<open>Mapped integers\<close>

definition slot_anonymous_switch1_switch_default_remove_components_item_type_mapper_by_wire_775 :: "(int \<times> string) list" where
  "slot_anonymous_switch1_switch_default_remove_components_item_type_mapper_by_wire_775 = [
     (0, ''custom_data''), (1, ''max_stack_size''), (2, ''max_damage''), (3, ''damage''),
     (4, ''unbreakable''), (5, ''use_effects''), (6, ''custom_name''),
     (7, ''minimum_attack_charge''), (8, ''damage_type''), (9, ''item_name''),
     (10, ''item_model''), (11, ''lore''), (12, ''rarity''), (13, ''enchantments''),
     (14, ''can_place_on''), (15, ''can_break''), (16, ''attribute_modifiers''),
     (17, ''custom_model_data''), (18, ''tooltip_display''), (19, ''repair_cost''),
     (20, ''creative_slot_lock''), (21, ''enchantment_glint_override''),
     (22, ''intangible_projectile''), (23, ''food''), (24, ''consumable''),
     (25, ''use_remainder''), (26, ''use_cooldown''), (27, ''damage_resistant''),
     (28, ''tool''), (29, ''weapon''), (30, ''attack_range''), (31, ''enchantable''),
     (32, ''equippable''), (33, ''repairable''), (34, ''glider''), (35, ''tooltip_style''),
     (36, ''death_protection''), (37, ''blocks_attacks''), (38, ''piercing_weapon''),
     (39, ''kinetic_weapon''), (40, ''swing_animation''), (41, ''additional_trade_cost''),
     (42, ''stored_enchantments''), (43, ''dye''), (44, ''dyed_color''), (45, ''map_color''),
     (46, ''map_id''), (47, ''map_decorations''), (48, ''map_post_processing''),
     (49, ''charged_projectiles''), (50, ''bundle_contents''), (51, ''potion_contents''),
     (52, ''potion_duration_scale''), (53, ''suspicious_stew_effects''),
     (54, ''writable_book_content''), (55, ''written_book_content''), (56, ''trim''),
     (57, ''debug_stick_state''), (58, ''entity_data''), (59, ''bucket_entity_data''),
     (60, ''block_entity_data''), (61, ''instrument''), (62, ''provides_trim_material''),
     (63, ''ominous_bottle_amplifier''), (64, ''jukebox_playable''),
     (65, ''provides_banner_patterns''), (66, ''recipes''), (67, ''lodestone_tracker''),
     (68, ''firework_explosion''), (69, ''fireworks''), (70, ''profile''),
     (71, ''note_block_sound''), (72, ''banner_patterns''), (73, ''base_color''),
     (74, ''pot_decorations''), (75, ''container''), (76, ''block_state''), (77, ''bees''),
     (78, ''lock''), (79, ''container_loot''), (80, ''break_sound''),
     (81, ''villager/variant''), (82, ''wolf/variant''), (83, ''wolf/sound_variant''),
     (84, ''wolf/collar''), (85, ''fox/variant''), (86, ''salmon/size''),
     (87, ''parrot/variant''), (88, ''tropical_fish/pattern''),
     (89, ''tropical_fish/base_color''), (90, ''tropical_fish/pattern_color''),
     (91, ''mooshroom/variant''), (92, ''rabbit/variant''), (93, ''pig/variant''),
     (94, ''pig/sound_variant''), (95, ''cow/variant''), (96, ''cow/sound_variant''),
     (97, ''chicken/variant''), (98, ''chicken/sound_variant''),
     (99, ''zomie_nautilus/variant''), (100, ''frog/variant''), (101, ''horse/variant''),
     (102, ''painting/variant''), (103, ''llama/variant''), (104, ''axolotl/variant''),
     (105, ''cat/variant''), (106, ''cat/sound_variant''), (107, ''cat/collar''),
     (108, ''sheep/color''), (109, ''shulker/color'')]"

definition slot_anonymous_switch1_switch_default_remove_components_item_type_mapper_by_name_775 :: "(string \<times> int) list" where
  "slot_anonymous_switch1_switch_default_remove_components_item_type_mapper_by_name_775 = [
     (''custom_data'', 0), (''max_stack_size'', 1), (''max_damage'', 2), (''damage'', 3),
     (''unbreakable'', 4), (''use_effects'', 5), (''custom_name'', 6),
     (''minimum_attack_charge'', 7), (''damage_type'', 8), (''item_name'', 9),
     (''item_model'', 10), (''lore'', 11), (''rarity'', 12), (''enchantments'', 13),
     (''can_place_on'', 14), (''can_break'', 15), (''attribute_modifiers'', 16),
     (''custom_model_data'', 17), (''tooltip_display'', 18), (''repair_cost'', 19),
     (''creative_slot_lock'', 20), (''enchantment_glint_override'', 21),
     (''intangible_projectile'', 22), (''food'', 23), (''consumable'', 24),
     (''use_remainder'', 25), (''use_cooldown'', 26), (''damage_resistant'', 27),
     (''tool'', 28), (''weapon'', 29), (''attack_range'', 30), (''enchantable'', 31),
     (''equippable'', 32), (''repairable'', 33), (''glider'', 34), (''tooltip_style'', 35),
     (''death_protection'', 36), (''blocks_attacks'', 37), (''piercing_weapon'', 38),
     (''kinetic_weapon'', 39), (''swing_animation'', 40), (''additional_trade_cost'', 41),
     (''stored_enchantments'', 42), (''dye'', 43), (''dyed_color'', 44), (''map_color'', 45),
     (''map_id'', 46), (''map_decorations'', 47), (''map_post_processing'', 48),
     (''charged_projectiles'', 49), (''bundle_contents'', 50), (''potion_contents'', 51),
     (''potion_duration_scale'', 52), (''suspicious_stew_effects'', 53),
     (''writable_book_content'', 54), (''written_book_content'', 55), (''trim'', 56),
     (''debug_stick_state'', 57), (''entity_data'', 58), (''bucket_entity_data'', 59),
     (''block_entity_data'', 60), (''instrument'', 61), (''provides_trim_material'', 62),
     (''ominous_bottle_amplifier'', 63), (''jukebox_playable'', 64),
     (''provides_banner_patterns'', 65), (''recipes'', 66), (''lodestone_tracker'', 67),
     (''firework_explosion'', 68), (''fireworks'', 69), (''profile'', 70),
     (''note_block_sound'', 71), (''banner_patterns'', 72), (''base_color'', 73),
     (''pot_decorations'', 74), (''container'', 75), (''block_state'', 76), (''bees'', 77),
     (''lock'', 78), (''container_loot'', 79), (''break_sound'', 80),
     (''villager/variant'', 81), (''wolf/variant'', 82), (''wolf/sound_variant'', 83),
     (''wolf/collar'', 84), (''fox/variant'', 85), (''salmon/size'', 86),
     (''parrot/variant'', 87), (''tropical_fish/pattern'', 88),
     (''tropical_fish/base_color'', 89), (''tropical_fish/pattern_color'', 90),
     (''mooshroom/variant'', 91), (''rabbit/variant'', 92), (''pig/variant'', 93),
     (''pig/sound_variant'', 94), (''cow/variant'', 95), (''cow/sound_variant'', 96),
     (''chicken/variant'', 97), (''chicken/sound_variant'', 98),
     (''zomie_nautilus/variant'', 99), (''frog/variant'', 100), (''horse/variant'', 101),
     (''painting/variant'', 102), (''llama/variant'', 103), (''axolotl/variant'', 104),
     (''cat/variant'', 105), (''cat/sound_variant'', 106), (''cat/collar'', 107),
     (''sheep/color'', 108), (''shulker/color'', 109)]"

definition slot_component_type_mapper_by_wire_775 :: "(int \<times> string) list" where
  "slot_component_type_mapper_by_wire_775 = [
     (0, ''custom_data''), (1, ''max_stack_size''), (2, ''max_damage''), (3, ''damage''),
     (4, ''unbreakable''), (5, ''use_effects''), (6, ''custom_name''),
     (7, ''minimum_attack_charge''), (8, ''damage_type''), (9, ''item_name''),
     (10, ''item_model''), (11, ''lore''), (12, ''rarity''), (13, ''enchantments''),
     (14, ''can_place_on''), (15, ''can_break''), (16, ''attribute_modifiers''),
     (17, ''custom_model_data''), (18, ''tooltip_display''), (19, ''repair_cost''),
     (20, ''creative_slot_lock''), (21, ''enchantment_glint_override''),
     (22, ''intangible_projectile''), (23, ''food''), (24, ''consumable''),
     (25, ''use_remainder''), (26, ''use_cooldown''), (27, ''damage_resistant''),
     (28, ''tool''), (29, ''weapon''), (30, ''attack_range''), (31, ''enchantable''),
     (32, ''equippable''), (33, ''repairable''), (34, ''glider''), (35, ''tooltip_style''),
     (36, ''death_protection''), (37, ''blocks_attacks''), (38, ''piercing_weapon''),
     (39, ''kinetic_weapon''), (40, ''swing_animation''), (41, ''additional_trade_cost''),
     (42, ''stored_enchantments''), (43, ''dye''), (44, ''dyed_color''), (45, ''map_color''),
     (46, ''map_id''), (47, ''map_decorations''), (48, ''map_post_processing''),
     (49, ''charged_projectiles''), (50, ''bundle_contents''), (51, ''potion_contents''),
     (52, ''potion_duration_scale''), (53, ''suspicious_stew_effects''),
     (54, ''writable_book_content''), (55, ''written_book_content''), (56, ''trim''),
     (57, ''debug_stick_state''), (58, ''entity_data''), (59, ''bucket_entity_data''),
     (60, ''block_entity_data''), (61, ''instrument''), (62, ''provides_trim_material''),
     (63, ''ominous_bottle_amplifier''), (64, ''jukebox_playable''),
     (65, ''provides_banner_patterns''), (66, ''recipes''), (67, ''lodestone_tracker''),
     (68, ''firework_explosion''), (69, ''fireworks''), (70, ''profile''),
     (71, ''note_block_sound''), (72, ''banner_patterns''), (73, ''base_color''),
     (74, ''pot_decorations''), (75, ''container''), (76, ''block_state''), (77, ''bees''),
     (78, ''lock''), (79, ''container_loot''), (80, ''break_sound''),
     (81, ''villager/variant''), (82, ''wolf/variant''), (83, ''wolf/sound_variant''),
     (84, ''wolf/collar''), (85, ''fox/variant''), (86, ''salmon/size''),
     (87, ''parrot/variant''), (88, ''tropical_fish/pattern''),
     (89, ''tropical_fish/base_color''), (90, ''tropical_fish/pattern_color''),
     (91, ''mooshroom/variant''), (92, ''rabbit/variant''), (93, ''pig/variant''),
     (94, ''pig/sound_variant''), (95, ''cow/variant''), (96, ''cow/sound_variant''),
     (97, ''chicken/variant''), (98, ''chicken/sound_variant''),
     (99, ''zomie_nautilus/variant''), (100, ''frog/variant''), (101, ''horse/variant''),
     (102, ''painting/variant''), (103, ''llama/variant''), (104, ''axolotl/variant''),
     (105, ''cat/variant''), (106, ''cat/sound_variant''), (107, ''cat/collar''),
     (108, ''sheep/color''), (109, ''shulker/color'')]"

definition slot_component_type_mapper_by_name_775 :: "(string \<times> int) list" where
  "slot_component_type_mapper_by_name_775 = [
     (''custom_data'', 0), (''max_stack_size'', 1), (''max_damage'', 2), (''damage'', 3),
     (''unbreakable'', 4), (''use_effects'', 5), (''custom_name'', 6),
     (''minimum_attack_charge'', 7), (''damage_type'', 8), (''item_name'', 9),
     (''item_model'', 10), (''lore'', 11), (''rarity'', 12), (''enchantments'', 13),
     (''can_place_on'', 14), (''can_break'', 15), (''attribute_modifiers'', 16),
     (''custom_model_data'', 17), (''tooltip_display'', 18), (''repair_cost'', 19),
     (''creative_slot_lock'', 20), (''enchantment_glint_override'', 21),
     (''intangible_projectile'', 22), (''food'', 23), (''consumable'', 24),
     (''use_remainder'', 25), (''use_cooldown'', 26), (''damage_resistant'', 27),
     (''tool'', 28), (''weapon'', 29), (''attack_range'', 30), (''enchantable'', 31),
     (''equippable'', 32), (''repairable'', 33), (''glider'', 34), (''tooltip_style'', 35),
     (''death_protection'', 36), (''blocks_attacks'', 37), (''piercing_weapon'', 38),
     (''kinetic_weapon'', 39), (''swing_animation'', 40), (''additional_trade_cost'', 41),
     (''stored_enchantments'', 42), (''dye'', 43), (''dyed_color'', 44), (''map_color'', 45),
     (''map_id'', 46), (''map_decorations'', 47), (''map_post_processing'', 48),
     (''charged_projectiles'', 49), (''bundle_contents'', 50), (''potion_contents'', 51),
     (''potion_duration_scale'', 52), (''suspicious_stew_effects'', 53),
     (''writable_book_content'', 54), (''written_book_content'', 55), (''trim'', 56),
     (''debug_stick_state'', 57), (''entity_data'', 58), (''bucket_entity_data'', 59),
     (''block_entity_data'', 60), (''instrument'', 61), (''provides_trim_material'', 62),
     (''ominous_bottle_amplifier'', 63), (''jukebox_playable'', 64),
     (''provides_banner_patterns'', 65), (''recipes'', 66), (''lodestone_tracker'', 67),
     (''firework_explosion'', 68), (''fireworks'', 69), (''profile'', 70),
     (''note_block_sound'', 71), (''banner_patterns'', 72), (''base_color'', 73),
     (''pot_decorations'', 74), (''container'', 75), (''block_state'', 76), (''bees'', 77),
     (''lock'', 78), (''container_loot'', 79), (''break_sound'', 80),
     (''villager/variant'', 81), (''wolf/variant'', 82), (''wolf/sound_variant'', 83),
     (''wolf/collar'', 84), (''fox/variant'', 85), (''salmon/size'', 86),
     (''parrot/variant'', 87), (''tropical_fish/pattern'', 88),
     (''tropical_fish/base_color'', 89), (''tropical_fish/pattern_color'', 90),
     (''mooshroom/variant'', 91), (''rabbit/variant'', 92), (''pig/variant'', 93),
     (''pig/sound_variant'', 94), (''cow/variant'', 95), (''cow/sound_variant'', 96),
     (''chicken/variant'', 97), (''chicken/sound_variant'', 98),
     (''zomie_nautilus/variant'', 99), (''frog/variant'', 100), (''horse/variant'', 101),
     (''painting/variant'', 102), (''llama/variant'', 103), (''axolotl/variant'', 104),
     (''cat/variant'', 105), (''cat/sound_variant'', 106), (''cat/collar'', 107),
     (''sheep/color'', 108), (''shulker/color'', 109)]"

definition slot_component_data_switch_attribute_modifiers_item_operation_mapper_by_wire_775 :: "(int \<times> string) list" where
  "slot_component_data_switch_attribute_modifiers_item_operation_mapper_by_wire_775 = [
     (0, ''add''), (1, ''multiply_base''), (2, ''multiply_total'')]"

definition slot_component_data_switch_attribute_modifiers_item_operation_mapper_by_name_775 :: "(string \<times> int) list" where
  "slot_component_data_switch_attribute_modifiers_item_operation_mapper_by_name_775 = [
     (''add'', 0), (''multiply_base'', 1), (''multiply_total'', 2)]"

definition slot_component_data_switch_attribute_modifiers_item_slot_mapper_by_wire_775 :: "(int \<times> string) list" where
  "slot_component_data_switch_attribute_modifiers_item_slot_mapper_by_wire_775 = [
     (0, ''any''), (1, ''main_hand''), (2, ''off_hand''), (3, ''hand''), (4, ''feet''),
     (5, ''legs''), (6, ''chest''), (7, ''head''), (8, ''armor''), (9, ''body''),
     (10, ''saddle'')]"

definition slot_component_data_switch_attribute_modifiers_item_slot_mapper_by_name_775 :: "(string \<times> int) list" where
  "slot_component_data_switch_attribute_modifiers_item_slot_mapper_by_name_775 = [
     (''any'', 0), (''main_hand'', 1), (''off_hand'', 2), (''hand'', 3), (''feet'', 4),
     (''legs'', 5), (''chest'', 6), (''head'', 7), (''armor'', 8), (''body'', 9),
     (''saddle'', 10)]"

definition slot_component_data_switch_attribute_modifiers_item_display_type_mapper_by_wire_775 :: "(int \<times> string) list" where
  "slot_component_data_switch_attribute_modifiers_item_display_type_mapper_by_wire_775 = [
     (0, ''default''), (1, ''hidden''), (2, ''override'')]"

definition slot_component_data_switch_attribute_modifiers_item_display_type_mapper_by_name_775 :: "(string \<times> int) list" where
  "slot_component_data_switch_attribute_modifiers_item_display_type_mapper_by_name_775 = [
     (''default'', 0), (''hidden'', 1), (''override'', 2)]"

definition slot_component_data_switch_base_color_mapper_by_wire_775 :: "(int \<times> string) list" where
  "slot_component_data_switch_base_color_mapper_by_wire_775 = [
     (0, ''white''), (1, ''orange''), (2, ''magenta''), (3, ''light_blue''), (4, ''yellow''),
     (5, ''lime''), (6, ''pink''), (7, ''gray''), (8, ''light_gray''), (9, ''cyan''),
     (10, ''purple''), (11, ''blue''), (12, ''brown''), (13, ''green''), (14, ''red''),
     (15, ''black'')]"

definition slot_component_data_switch_base_color_mapper_by_name_775 :: "(string \<times> int) list" where
  "slot_component_data_switch_base_color_mapper_by_name_775 = [
     (''white'', 0), (''orange'', 1), (''magenta'', 2), (''light_blue'', 3), (''yellow'', 4),
     (''lime'', 5), (''pink'', 6), (''gray'', 7), (''light_gray'', 8), (''cyan'', 9),
     (''purple'', 10), (''blue'', 11), (''brown'', 12), (''green'', 13), (''red'', 14),
     (''black'', 15)]"

definition slot_component_data_switch_cat_collar_mapper_by_wire_775 :: "(int \<times> string) list" where
  "slot_component_data_switch_cat_collar_mapper_by_wire_775 = [
     (0, ''white''), (1, ''orange''), (2, ''magenta''), (3, ''light_blue''), (4, ''yellow''),
     (5, ''lime''), (6, ''pink''), (7, ''gray''), (8, ''light_gray''), (9, ''cyan''),
     (10, ''purple''), (11, ''blue''), (12, ''brown''), (13, ''green''), (14, ''red''),
     (15, ''black'')]"

definition slot_component_data_switch_cat_collar_mapper_by_name_775 :: "(string \<times> int) list" where
  "slot_component_data_switch_cat_collar_mapper_by_name_775 = [
     (''white'', 0), (''orange'', 1), (''magenta'', 2), (''light_blue'', 3), (''yellow'', 4),
     (''lime'', 5), (''pink'', 6), (''gray'', 7), (''light_gray'', 8), (''cyan'', 9),
     (''purple'', 10), (''blue'', 11), (''brown'', 12), (''green'', 13), (''red'', 14),
     (''black'', 15)]"

definition slot_component_data_switch_consumable_animation_mapper_by_wire_775 :: "(int \<times> string) list" where
  "slot_component_data_switch_consumable_animation_mapper_by_wire_775 = [
     (0, ''none''), (1, ''eat''), (2, ''drink''), (3, ''block''), (4, ''bow''),
     (5, ''spear''), (6, ''crossbow''), (7, ''spyglass''), (8, ''toot_horn''), (9, ''brush''),
     (10, ''bundle'')]"

definition slot_component_data_switch_consumable_animation_mapper_by_name_775 :: "(string \<times> int) list" where
  "slot_component_data_switch_consumable_animation_mapper_by_name_775 = [
     (''none'', 0), (''eat'', 1), (''drink'', 2), (''block'', 3), (''bow'', 4),
     (''spear'', 5), (''crossbow'', 6), (''spyglass'', 7), (''toot_horn'', 8), (''brush'', 9),
     (''bundle'', 10)]"

definition slot_component_data_switch_consumable_effects_item_type_mapper_by_wire_775 :: "(int \<times> string) list" where
  "slot_component_data_switch_consumable_effects_item_type_mapper_by_wire_775 = [
     (0, ''apply_effects''), (1, ''remove_effects''), (2, ''clear_all_effects''),
     (3, ''teleport_randomly''), (4, ''play_sound'')]"

definition slot_component_data_switch_consumable_effects_item_type_mapper_by_name_775 :: "(string \<times> int) list" where
  "slot_component_data_switch_consumable_effects_item_type_mapper_by_name_775 = [
     (''apply_effects'', 0), (''remove_effects'', 1), (''clear_all_effects'', 2),
     (''teleport_randomly'', 3), (''play_sound'', 4)]"

definition slot_component_data_switch_damage_type_damage_type_switch_true_inline_scaling_mapper_by_wire_775 :: "(int \<times> string) list" where
  "slot_component_data_switch_damage_type_damage_type_switch_true_inline_scaling_mapper_by_wire_775 = [
     (0, ''never''), (1, ''when_caused_by_living_non_player''), (2, ''always'')]"

definition slot_component_data_switch_damage_type_damage_type_switch_true_inline_scaling_mapper_by_name_775 :: "(string \<times> int) list" where
  "slot_component_data_switch_damage_type_damage_type_switch_true_inline_scaling_mapper_by_name_775 = [
     (''never'', 0), (''when_caused_by_living_non_player'', 1), (''always'', 2)]"

definition slot_component_data_switch_damage_type_damage_type_switch_true_inline_effects_mapper_by_wire_775 :: "(int \<times> string) list" where
  "slot_component_data_switch_damage_type_damage_type_switch_true_inline_effects_mapper_by_wire_775 = [
     (0, ''hurt''), (1, ''thorns''), (2, ''drowning''), (3, ''burning''), (4, ''poking''),
     (5, ''freezing'')]"

definition slot_component_data_switch_damage_type_damage_type_switch_true_inline_effects_mapper_by_name_775 :: "(string \<times> int) list" where
  "slot_component_data_switch_damage_type_damage_type_switch_true_inline_effects_mapper_by_name_775 = [
     (''hurt'', 0), (''thorns'', 1), (''drowning'', 2), (''burning'', 3), (''poking'', 4),
     (''freezing'', 5)]"

definition slot_component_data_switch_damage_type_damage_type_switch_true_inline_death_message_type_mapper_by_wire_775 :: "(int \<times> string) list" where
  "slot_component_data_switch_damage_type_damage_type_switch_true_inline_death_message_type_mapper_by_wire_775 = [
     (0, ''default''), (1, ''fall_variants''), (2, ''intentional_game_design'')]"

definition slot_component_data_switch_damage_type_damage_type_switch_true_inline_death_message_type_mapper_by_name_775 :: "(string \<times> int) list" where
  "slot_component_data_switch_damage_type_damage_type_switch_true_inline_death_message_type_mapper_by_name_775 = [
     (''default'', 0), (''fall_variants'', 1), (''intentional_game_design'', 2)]"

definition slot_component_data_switch_death_protection_effects_item_type_mapper_by_wire_775 :: "(int \<times> string) list" where
  "slot_component_data_switch_death_protection_effects_item_type_mapper_by_wire_775 = [
     (0, ''apply_effects''), (1, ''remove_effects''), (2, ''clear_all_effects''),
     (3, ''teleport_randomly''), (4, ''play_sound'')]"

definition slot_component_data_switch_death_protection_effects_item_type_mapper_by_name_775 :: "(string \<times> int) list" where
  "slot_component_data_switch_death_protection_effects_item_type_mapper_by_name_775 = [
     (''apply_effects'', 0), (''remove_effects'', 1), (''clear_all_effects'', 2),
     (''teleport_randomly'', 3), (''play_sound'', 4)]"

definition slot_component_data_switch_dye_mapper_by_wire_775 :: "(int \<times> string) list" where
  "slot_component_data_switch_dye_mapper_by_wire_775 = [
     (0, ''white''), (1, ''orange''), (2, ''magenta''), (3, ''light_blue''), (4, ''yellow''),
     (5, ''lime''), (6, ''pink''), (7, ''gray''), (8, ''light_gray''), (9, ''cyan''),
     (10, ''purple''), (11, ''blue''), (12, ''brown''), (13, ''green''), (14, ''red''),
     (15, ''black'')]"

definition slot_component_data_switch_dye_mapper_by_name_775 :: "(string \<times> int) list" where
  "slot_component_data_switch_dye_mapper_by_name_775 = [
     (''white'', 0), (''orange'', 1), (''magenta'', 2), (''light_blue'', 3), (''yellow'', 4),
     (''lime'', 5), (''pink'', 6), (''gray'', 7), (''light_gray'', 8), (''cyan'', 9),
     (''purple'', 10), (''blue'', 11), (''brown'', 12), (''green'', 13), (''red'', 14),
     (''black'', 15)]"

definition slot_component_data_switch_equippable_slot_mapper_by_wire_775 :: "(int \<times> string) list" where
  "slot_component_data_switch_equippable_slot_mapper_by_wire_775 = [
     (0, ''main_hand''), (1, ''off_hand''), (2, ''feet''), (3, ''legs''), (4, ''chest''),
     (5, ''head''), (6, ''body''), (7, ''saddle'')]"

definition slot_component_data_switch_equippable_slot_mapper_by_name_775 :: "(string \<times> int) list" where
  "slot_component_data_switch_equippable_slot_mapper_by_name_775 = [
     (''main_hand'', 0), (''off_hand'', 1), (''feet'', 2), (''legs'', 3), (''chest'', 4),
     (''head'', 5), (''body'', 6), (''saddle'', 7)]"

definition slot_component_data_switch_firework_explosion_shape_mapper_by_wire_775 :: "(int \<times> string) list" where
  "slot_component_data_switch_firework_explosion_shape_mapper_by_wire_775 = [
     (0, ''small_ball''), (1, ''large_ball''), (2, ''star''), (3, ''creeper''),
     (4, ''burst'')]"

definition slot_component_data_switch_firework_explosion_shape_mapper_by_name_775 :: "(string \<times> int) list" where
  "slot_component_data_switch_firework_explosion_shape_mapper_by_name_775 = [
     (''small_ball'', 0), (''large_ball'', 1), (''star'', 2), (''creeper'', 3),
     (''burst'', 4)]"

definition slot_component_data_switch_fireworks_explosions_item_shape_mapper_by_wire_775 :: "(int \<times> string) list" where
  "slot_component_data_switch_fireworks_explosions_item_shape_mapper_by_wire_775 = [
     (0, ''small_ball''), (1, ''large_ball''), (2, ''star''), (3, ''creeper''),
     (4, ''burst'')]"

definition slot_component_data_switch_fireworks_explosions_item_shape_mapper_by_name_775 :: "(string \<times> int) list" where
  "slot_component_data_switch_fireworks_explosions_item_shape_mapper_by_name_775 = [
     (''small_ball'', 0), (''large_ball'', 1), (''star'', 2), (''creeper'', 3),
     (''burst'', 4)]"

definition slot_component_data_switch_profile_type_mapper_by_wire_775 :: "(int \<times> string) list" where
  "slot_component_data_switch_profile_type_mapper_by_wire_775 = [
     (0, ''partial''), (1, ''complete'')]"

definition slot_component_data_switch_profile_type_mapper_by_name_775 :: "(string \<times> int) list" where
  "slot_component_data_switch_profile_type_mapper_by_name_775 = [
     (''partial'', 0), (''complete'', 1)]"

definition slot_component_data_switch_profile_skin_patch_model_value_mapper_by_wire_775 :: "(int \<times> string) list" where
  "slot_component_data_switch_profile_skin_patch_model_value_mapper_by_wire_775 = [
     (0, ''wide''), (1, ''slim'')]"

definition slot_component_data_switch_profile_skin_patch_model_value_mapper_by_name_775 :: "(string \<times> int) list" where
  "slot_component_data_switch_profile_skin_patch_model_value_mapper_by_name_775 = [
     (''wide'', 0), (''slim'', 1)]"

definition slot_component_data_switch_rarity_mapper_by_wire_775 :: "(int \<times> string) list" where
  "slot_component_data_switch_rarity_mapper_by_wire_775 = [
     (0, ''common''), (1, ''uncommon''), (2, ''rare''), (3, ''epic'')]"

definition slot_component_data_switch_rarity_mapper_by_name_775 :: "(string \<times> int) list" where
  "slot_component_data_switch_rarity_mapper_by_name_775 = [
     (''common'', 0), (''uncommon'', 1), (''rare'', 2), (''epic'', 3)]"

definition slot_component_data_switch_sheep_color_mapper_by_wire_775 :: "(int \<times> string) list" where
  "slot_component_data_switch_sheep_color_mapper_by_wire_775 = [
     (0, ''white''), (1, ''orange''), (2, ''magenta''), (3, ''light_blue''), (4, ''yellow''),
     (5, ''lime''), (6, ''pink''), (7, ''gray''), (8, ''light_gray''), (9, ''cyan''),
     (10, ''purple''), (11, ''blue''), (12, ''brown''), (13, ''green''), (14, ''red''),
     (15, ''black'')]"

definition slot_component_data_switch_sheep_color_mapper_by_name_775 :: "(string \<times> int) list" where
  "slot_component_data_switch_sheep_color_mapper_by_name_775 = [
     (''white'', 0), (''orange'', 1), (''magenta'', 2), (''light_blue'', 3), (''yellow'', 4),
     (''lime'', 5), (''pink'', 6), (''gray'', 7), (''light_gray'', 8), (''cyan'', 9),
     (''purple'', 10), (''blue'', 11), (''brown'', 12), (''green'', 13), (''red'', 14),
     (''black'', 15)]"

definition slot_component_data_switch_shulker_color_mapper_by_wire_775 :: "(int \<times> string) list" where
  "slot_component_data_switch_shulker_color_mapper_by_wire_775 = [
     (0, ''white''), (1, ''orange''), (2, ''magenta''), (3, ''light_blue''), (4, ''yellow''),
     (5, ''lime''), (6, ''pink''), (7, ''gray''), (8, ''light_gray''), (9, ''cyan''),
     (10, ''purple''), (11, ''blue''), (12, ''brown''), (13, ''green''), (14, ''red''),
     (15, ''black'')]"

definition slot_component_data_switch_shulker_color_mapper_by_name_775 :: "(string \<times> int) list" where
  "slot_component_data_switch_shulker_color_mapper_by_name_775 = [
     (''white'', 0), (''orange'', 1), (''magenta'', 2), (''light_blue'', 3), (''yellow'', 4),
     (''lime'', 5), (''pink'', 6), (''gray'', 7), (''light_gray'', 8), (''cyan'', 9),
     (''purple'', 10), (''blue'', 11), (''brown'', 12), (''green'', 13), (''red'', 14),
     (''black'', 15)]"

definition slot_component_data_switch_swing_animation_type_mapper_by_wire_775 :: "(int \<times> string) list" where
  "slot_component_data_switch_swing_animation_type_mapper_by_wire_775 = [
     (0, ''none''), (1, ''whack''), (2, ''stab'')]"

definition slot_component_data_switch_swing_animation_type_mapper_by_name_775 :: "(string \<times> int) list" where
  "slot_component_data_switch_swing_animation_type_mapper_by_name_775 = [
     (''none'', 0), (''whack'', 1), (''stab'', 2)]"

definition slot_component_data_switch_tropical_fish_base_color_mapper_by_wire_775 :: "(int \<times> string) list" where
  "slot_component_data_switch_tropical_fish_base_color_mapper_by_wire_775 = [
     (0, ''white''), (1, ''orange''), (2, ''magenta''), (3, ''light_blue''), (4, ''yellow''),
     (5, ''lime''), (6, ''pink''), (7, ''gray''), (8, ''light_gray''), (9, ''cyan''),
     (10, ''purple''), (11, ''blue''), (12, ''brown''), (13, ''green''), (14, ''red''),
     (15, ''black'')]"

definition slot_component_data_switch_tropical_fish_base_color_mapper_by_name_775 :: "(string \<times> int) list" where
  "slot_component_data_switch_tropical_fish_base_color_mapper_by_name_775 = [
     (''white'', 0), (''orange'', 1), (''magenta'', 2), (''light_blue'', 3), (''yellow'', 4),
     (''lime'', 5), (''pink'', 6), (''gray'', 7), (''light_gray'', 8), (''cyan'', 9),
     (''purple'', 10), (''blue'', 11), (''brown'', 12), (''green'', 13), (''red'', 14),
     (''black'', 15)]"

definition slot_component_data_switch_tropical_fish_pattern_color_mapper_by_wire_775 :: "(int \<times> string) list" where
  "slot_component_data_switch_tropical_fish_pattern_color_mapper_by_wire_775 = [
     (0, ''white''), (1, ''orange''), (2, ''magenta''), (3, ''light_blue''), (4, ''yellow''),
     (5, ''lime''), (6, ''pink''), (7, ''gray''), (8, ''light_gray''), (9, ''cyan''),
     (10, ''purple''), (11, ''blue''), (12, ''brown''), (13, ''green''), (14, ''red''),
     (15, ''black'')]"

definition slot_component_data_switch_tropical_fish_pattern_color_mapper_by_name_775 :: "(string \<times> int) list" where
  "slot_component_data_switch_tropical_fish_pattern_color_mapper_by_name_775 = [
     (''white'', 0), (''orange'', 1), (''magenta'', 2), (''light_blue'', 3), (''yellow'', 4),
     (''lime'', 5), (''pink'', 6), (''gray'', 7), (''light_gray'', 8), (''cyan'', 9),
     (''purple'', 10), (''blue'', 11), (''brown'', 12), (''green'', 13), (''red'', 14),
     (''black'', 15)]"

definition slot_component_data_switch_wolf_collar_mapper_by_wire_775 :: "(int \<times> string) list" where
  "slot_component_data_switch_wolf_collar_mapper_by_wire_775 = [
     (0, ''white''), (1, ''orange''), (2, ''magenta''), (3, ''light_blue''), (4, ''yellow''),
     (5, ''lime''), (6, ''pink''), (7, ''gray''), (8, ''light_gray''), (9, ''cyan''),
     (10, ''purple''), (11, ''blue''), (12, ''brown''), (13, ''green''), (14, ''red''),
     (15, ''black'')]"

definition slot_component_data_switch_wolf_collar_mapper_by_name_775 :: "(string \<times> int) list" where
  "slot_component_data_switch_wolf_collar_mapper_by_name_775 = [
     (''white'', 0), (''orange'', 1), (''magenta'', 2), (''light_blue'', 3), (''yellow'', 4),
     (''lime'', 5), (''pink'', 6), (''gray'', 7), (''light_gray'', 8), (''cyan'', 9),
     (''purple'', 10), (''blue'', 11), (''brown'', 12), (''green'', 13), (''red'', 14),
     (''black'', 15)]"

definition chat_type_parameter_type_mapper_by_wire_775 :: "(int \<times> string) list" where
  "chat_type_parameter_type_mapper_by_wire_775 = [
     (0, ''content''), (1, ''sender''), (2, ''target'')]"

definition chat_type_parameter_type_mapper_by_name_775 :: "(string \<times> int) list" where
  "chat_type_parameter_type_mapper_by_name_775 = [
     (''content'', 0), (''sender'', 1), (''target'', 2)]"

definition damage_type_data_scaling_mapper_by_wire_775 :: "(int \<times> string) list" where
  "damage_type_data_scaling_mapper_by_wire_775 = [
     (0, ''never''), (1, ''when_caused_by_living_non_player''), (2, ''always'')]"

definition damage_type_data_scaling_mapper_by_name_775 :: "(string \<times> int) list" where
  "damage_type_data_scaling_mapper_by_name_775 = [
     (''never'', 0), (''when_caused_by_living_non_player'', 1), (''always'', 2)]"

definition damage_type_data_effects_mapper_by_wire_775 :: "(int \<times> string) list" where
  "damage_type_data_effects_mapper_by_wire_775 = [
     (0, ''hurt''), (1, ''thorns''), (2, ''drowning''), (3, ''burning''), (4, ''poking''),
     (5, ''freezing'')]"

definition damage_type_data_effects_mapper_by_name_775 :: "(string \<times> int) list" where
  "damage_type_data_effects_mapper_by_name_775 = [
     (''hurt'', 0), (''thorns'', 1), (''drowning'', 2), (''burning'', 3), (''poking'', 4),
     (''freezing'', 5)]"

definition damage_type_data_death_message_type_mapper_by_wire_775 :: "(int \<times> string) list" where
  "damage_type_data_death_message_type_mapper_by_wire_775 = [
     (0, ''default''), (1, ''fall_variants''), (2, ''intentional_game_design'')]"

definition damage_type_data_death_message_type_mapper_by_name_775 :: "(string \<times> int) list" where
  "damage_type_data_death_message_type_mapper_by_name_775 = [
     (''default'', 0), (''fall_variants'', 1), (''intentional_game_design'', 2)]"

definition debug_subscription_data_type_mapper_by_wire_775 :: "(int \<times> string) list" where
  "debug_subscription_data_type_mapper_by_wire_775 = [
     (0, ''DedicatedServerTickTime''), (1, ''Bees''), (2, ''Brains''), (3, ''Breezes''),
     (4, ''GoalSelectors''), (5, ''EntityPaths''), (6, ''EntityBlockIntersections''),
     (7, ''BeeHives''), (8, ''Pois''), (9, ''RedstoneWireOrientations''),
     (10, ''VillageSections''), (11, ''Raids''), (12, ''Structures''),
     (13, ''GameEventListeners''), (14, ''NeighborUpdates''), (15, ''GameEvents'')]"

definition debug_subscription_data_type_mapper_by_name_775 :: "(string \<times> int) list" where
  "debug_subscription_data_type_mapper_by_name_775 = [
     (''DedicatedServerTickTime'', 0), (''Bees'', 1), (''Brains'', 2), (''Breezes'', 3),
     (''GoalSelectors'', 4), (''EntityPaths'', 5), (''EntityBlockIntersections'', 6),
     (''BeeHives'', 7), (''Pois'', 8), (''RedstoneWireOrientations'', 9),
     (''VillageSections'', 10), (''Raids'', 11), (''Structures'', 12),
     (''GameEventListeners'', 13), (''NeighborUpdates'', 14), (''GameEvents'', 15)]"

definition dye_color_mapper_by_wire_775 :: "(int \<times> string) list" where
  "dye_color_mapper_by_wire_775 = [
     (0, ''white''), (1, ''orange''), (2, ''magenta''), (3, ''light_blue''), (4, ''yellow''),
     (5, ''lime''), (6, ''pink''), (7, ''gray''), (8, ''light_gray''), (9, ''cyan''),
     (10, ''purple''), (11, ''blue''), (12, ''brown''), (13, ''green''), (14, ''red''),
     (15, ''black'')]"

definition dye_color_mapper_by_name_775 :: "(string \<times> int) list" where
  "dye_color_mapper_by_name_775 = [
     (''white'', 0), (''orange'', 1), (''magenta'', 2), (''light_blue'', 3), (''yellow'', 4),
     (''lime'', 5), (''pink'', 6), (''gray'', 7), (''light_gray'', 8), (''cyan'', 9),
     (''purple'', 10), (''blue'', 11), (''brown'', 12), (''green'', 13), (''red'', 14),
     (''black'', 15)]"

definition item_consume_effect_type_mapper_by_wire_775 :: "(int \<times> string) list" where
  "item_consume_effect_type_mapper_by_wire_775 = [
     (0, ''apply_effects''), (1, ''remove_effects''), (2, ''clear_all_effects''),
     (3, ''teleport_randomly''), (4, ''play_sound'')]"

definition item_consume_effect_type_mapper_by_name_775 :: "(string \<times> int) list" where
  "item_consume_effect_type_mapper_by_name_775 = [
     (''apply_effects'', 0), (''remove_effects'', 1), (''clear_all_effects'', 2),
     (''teleport_randomly'', 3), (''play_sound'', 4)]"

definition item_firework_explosion_shape_mapper_by_wire_775 :: "(int \<times> string) list" where
  "item_firework_explosion_shape_mapper_by_wire_775 = [
     (0, ''small_ball''), (1, ''large_ball''), (2, ''star''), (3, ''creeper''),
     (4, ''burst'')]"

definition item_firework_explosion_shape_mapper_by_name_775 :: "(string \<times> int) list" where
  "item_firework_explosion_shape_mapper_by_name_775 = [
     (''small_ball'', 0), (''large_ball'', 1), (''star'', 2), (''creeper'', 3),
     (''burst'', 4)]"

definition node_type_mapper_by_wire_775 :: "(int \<times> string) list" where
  "node_type_mapper_by_wire_775 = [
     (0, ''blocked''), (1, ''open''), (2, ''walkable''), (3, ''walkable_door''),
     (4, ''trapdoor''), (5, ''powder_snow''), (6, ''danger_powder_snow''), (7, ''fence''),
     (8, ''lava''), (9, ''water''), (10, ''water_border''), (11, ''rail''),
     (12, ''unpassable_rail''), (13, ''danger_fire''), (14, ''damage_fire''),
     (15, ''danger_other''), (16, ''damage_other''), (17, ''door_open''),
     (18, ''door_wood_closed''), (19, ''door_iron_closed''), (20, ''breach''),
     (21, ''leaves''), (22, ''sticky_honey''), (23, ''cocoa''), (24, ''damage_cautious''),
     (25, ''danger_trapdoor'')]"

definition node_type_mapper_by_name_775 :: "(string \<times> int) list" where
  "node_type_mapper_by_name_775 = [
     (''blocked'', 0), (''open'', 1), (''walkable'', 2), (''walkable_door'', 3),
     (''trapdoor'', 4), (''powder_snow'', 5), (''danger_powder_snow'', 6), (''fence'', 7),
     (''lava'', 8), (''water'', 9), (''water_border'', 10), (''rail'', 11),
     (''unpassable_rail'', 12), (''danger_fire'', 13), (''damage_fire'', 14),
     (''danger_other'', 15), (''damage_other'', 16), (''door_open'', 17),
     (''door_wood_closed'', 18), (''door_iron_closed'', 19), (''breach'', 20),
     (''leaves'', 21), (''sticky_honey'', 22), (''cocoa'', 23), (''damage_cautious'', 24),
     (''danger_trapdoor'', 25)]"

definition particle_type_mapper_by_wire_775 :: "(int \<times> string) list" where
  "particle_type_mapper_by_wire_775 = [
     (0, ''angry_villager''), (1, ''block''), (2, ''block_marker''), (3, ''bubble''),
     (4, ''cloud''), (5, ''copper_fire_flame''), (6, ''crit''), (7, ''damage_indicator''),
     (8, ''dragon_breath''), (9, ''dripping_lava''), (10, ''falling_lava''),
     (11, ''landing_lava''), (12, ''dripping_water''), (13, ''falling_water''),
     (14, ''dust''), (15, ''dust_color_transition''), (16, ''effect''),
     (17, ''elder_guardian''), (18, ''enchanted_hit''), (19, ''enchant''), (20, ''end_rod''),
     (21, ''entity_effect''), (22, ''explosion_emitter''), (23, ''explosion''),
     (24, ''gust''), (25, ''small_gust''), (26, ''gust_emitter_large''),
     (27, ''gust_emitter_small''), (28, ''sonic_boom''), (29, ''falling_dust''),
     (30, ''firework''), (31, ''fishing''), (32, ''flame''), (33, ''infested''),
     (34, ''cherry_leaves''), (35, ''pale_oak_leaves''), (36, ''tinted_leaves''),
     (37, ''sculk_soul''), (38, ''sculk_charge''), (39, ''sculk_charge_pop''),
     (40, ''soul_fire_flame''), (41, ''soul''), (42, ''flash''), (43, ''happy_villager''),
     (44, ''composter''), (45, ''heart''), (46, ''instant_effect''), (47, ''item''),
     (48, ''vibration''), (49, ''trail''), (50, ''pause_mob_growth''),
     (51, ''reset_mob_growth''), (52, ''item_slime''), (53, ''item_cobweb''),
     (54, ''item_snowball''), (55, ''large_smoke''), (56, ''lava''), (57, ''mycelium''),
     (58, ''note''), (59, ''poof''), (60, ''portal''), (61, ''rain''), (62, ''smoke''),
     (63, ''white_smoke''), (64, ''sneeze''), (65, ''spit''), (66, ''squid_ink''),
     (67, ''sweep_attack''), (68, ''totem_of_undying''), (69, ''underwater''),
     (70, ''splash''), (71, ''witch''), (72, ''bubble_pop''), (73, ''current_down''),
     (74, ''bubble_column_up''), (75, ''nautilus''), (76, ''dolphin''),
     (77, ''campfire_cosy_smoke''), (78, ''campfire_signal_smoke''), (79, ''dripping_honey''),
     (80, ''falling_honey''), (81, ''landing_honey''), (82, ''falling_nectar''),
     (83, ''falling_spore_blossom''), (84, ''ash''), (85, ''crimson_spore''),
     (86, ''warped_spore''), (87, ''spore_blossom_air''), (88, ''dripping_obsidian_tear''),
     (89, ''falling_obsidian_tear''), (90, ''landing_obsidian_tear''),
     (91, ''reverse_portal''), (92, ''white_ash''), (93, ''small_flame''),
     (94, ''snowflake''), (95, ''dripping_dripstone_lava''), (96, ''falling_dripstone_lava''),
     (97, ''dripping_dripstone_water''), (98, ''falling_dripstone_water''),
     (99, ''glow_squid_ink''), (100, ''glow''), (101, ''wax_on''), (102, ''wax_off''),
     (103, ''electric_spark''), (104, ''scrape''), (105, ''shriek''), (106, ''egg_crack''),
     (107, ''dust_plume''), (108, ''trial_spawner_detected_player''),
     (109, ''trial_spawner_detected_player_ominous''), (110, ''vault_connection''),
     (111, ''dust_pillar''), (112, ''ominous_spawning''), (113, ''raid_omen''),
     (114, ''trial_omen''), (115, ''block_crumble''), (116, ''firefly'')]"

definition particle_type_mapper_by_name_775 :: "(string \<times> int) list" where
  "particle_type_mapper_by_name_775 = [
     (''angry_villager'', 0), (''block'', 1), (''block_marker'', 2), (''bubble'', 3),
     (''cloud'', 4), (''copper_fire_flame'', 5), (''crit'', 6), (''damage_indicator'', 7),
     (''dragon_breath'', 8), (''dripping_lava'', 9), (''falling_lava'', 10),
     (''landing_lava'', 11), (''dripping_water'', 12), (''falling_water'', 13),
     (''dust'', 14), (''dust_color_transition'', 15), (''effect'', 16),
     (''elder_guardian'', 17), (''enchanted_hit'', 18), (''enchant'', 19), (''end_rod'', 20),
     (''entity_effect'', 21), (''explosion_emitter'', 22), (''explosion'', 23),
     (''gust'', 24), (''small_gust'', 25), (''gust_emitter_large'', 26),
     (''gust_emitter_small'', 27), (''sonic_boom'', 28), (''falling_dust'', 29),
     (''firework'', 30), (''fishing'', 31), (''flame'', 32), (''infested'', 33),
     (''cherry_leaves'', 34), (''pale_oak_leaves'', 35), (''tinted_leaves'', 36),
     (''sculk_soul'', 37), (''sculk_charge'', 38), (''sculk_charge_pop'', 39),
     (''soul_fire_flame'', 40), (''soul'', 41), (''flash'', 42), (''happy_villager'', 43),
     (''composter'', 44), (''heart'', 45), (''instant_effect'', 46), (''item'', 47),
     (''vibration'', 48), (''trail'', 49), (''pause_mob_growth'', 50),
     (''reset_mob_growth'', 51), (''item_slime'', 52), (''item_cobweb'', 53),
     (''item_snowball'', 54), (''large_smoke'', 55), (''lava'', 56), (''mycelium'', 57),
     (''note'', 58), (''poof'', 59), (''portal'', 60), (''rain'', 61), (''smoke'', 62),
     (''white_smoke'', 63), (''sneeze'', 64), (''spit'', 65), (''squid_ink'', 66),
     (''sweep_attack'', 67), (''totem_of_undying'', 68), (''underwater'', 69),
     (''splash'', 70), (''witch'', 71), (''bubble_pop'', 72), (''current_down'', 73),
     (''bubble_column_up'', 74), (''nautilus'', 75), (''dolphin'', 76),
     (''campfire_cosy_smoke'', 77), (''campfire_signal_smoke'', 78), (''dripping_honey'', 79),
     (''falling_honey'', 80), (''landing_honey'', 81), (''falling_nectar'', 82),
     (''falling_spore_blossom'', 83), (''ash'', 84), (''crimson_spore'', 85),
     (''warped_spore'', 86), (''spore_blossom_air'', 87), (''dripping_obsidian_tear'', 88),
     (''falling_obsidian_tear'', 89), (''landing_obsidian_tear'', 90),
     (''reverse_portal'', 91), (''white_ash'', 92), (''small_flame'', 93),
     (''snowflake'', 94), (''dripping_dripstone_lava'', 95), (''falling_dripstone_lava'', 96),
     (''dripping_dripstone_water'', 97), (''falling_dripstone_water'', 98),
     (''glow_squid_ink'', 99), (''glow'', 100), (''wax_on'', 101), (''wax_off'', 102),
     (''electric_spark'', 103), (''scrape'', 104), (''shriek'', 105), (''egg_crack'', 106),
     (''dust_plume'', 107), (''trial_spawner_detected_player'', 108),
     (''trial_spawner_detected_player_ominous'', 109), (''vault_connection'', 110),
     (''dust_pillar'', 111), (''ominous_spawning'', 112), (''raid_omen'', 113),
     (''trial_omen'', 114), (''block_crumble'', 115), (''firefly'', 116)]"

definition particle_data_switch_vibration_position_type_mapper_by_wire_775 :: "(int \<times> string) list" where
  "particle_data_switch_vibration_position_type_mapper_by_wire_775 = [
     (0, ''block''), (1, ''entity'')]"

definition particle_data_switch_vibration_position_type_mapper_by_name_775 :: "(string \<times> int) list" where
  "particle_data_switch_vibration_position_type_mapper_by_name_775 = [
     (''block'', 0), (''entity'', 1)]"

definition player_skin_patch_model_value_mapper_by_wire_775 :: "(int \<times> string) list" where
  "player_skin_patch_model_value_mapper_by_wire_775 = [
     (0, ''wide''), (1, ''slim'')]"

definition player_skin_patch_model_value_mapper_by_name_775 :: "(string \<times> int) list" where
  "player_skin_patch_model_value_mapper_by_name_775 = [
     (''wide'', 0), (''slim'', 1)]"

definition recipe_display_type_mapper_by_wire_775 :: "(int \<times> string) list" where
  "recipe_display_type_mapper_by_wire_775 = [
     (0, ''crafting_shapeless''), (1, ''crafting_shaped''), (2, ''furnace''),
     (3, ''stonecutter''), (4, ''smithing'')]"

definition recipe_display_type_mapper_by_name_775 :: "(string \<times> int) list" where
  "recipe_display_type_mapper_by_name_775 = [
     (''crafting_shapeless'', 0), (''crafting_shaped'', 1), (''furnace'', 2),
     (''stonecutter'', 3), (''smithing'', 4)]"

definition resolvable_profile_type_mapper_by_wire_775 :: "(int \<times> string) list" where
  "resolvable_profile_type_mapper_by_wire_775 = [
     (0, ''partial''), (1, ''complete'')]"

definition resolvable_profile_type_mapper_by_name_775 :: "(string \<times> int) list" where
  "resolvable_profile_type_mapper_by_name_775 = [
     (''partial'', 0), (''complete'', 1)]"

definition slot_component_type_mapper2_by_wire_775 :: "(int \<times> string) list" where
  "slot_component_type_mapper2_by_wire_775 = [
     (0, ''custom_data''), (1, ''max_stack_size''), (2, ''max_damage''), (3, ''damage''),
     (4, ''unbreakable''), (5, ''use_effects''), (6, ''custom_name''),
     (7, ''minimum_attack_charge''), (8, ''damage_type''), (9, ''item_name''),
     (10, ''item_model''), (11, ''lore''), (12, ''rarity''), (13, ''enchantments''),
     (14, ''can_place_on''), (15, ''can_break''), (16, ''attribute_modifiers''),
     (17, ''custom_model_data''), (18, ''tooltip_display''), (19, ''repair_cost''),
     (20, ''creative_slot_lock''), (21, ''enchantment_glint_override''),
     (22, ''intangible_projectile''), (23, ''food''), (24, ''consumable''),
     (25, ''use_remainder''), (26, ''use_cooldown''), (27, ''damage_resistant''),
     (28, ''tool''), (29, ''weapon''), (30, ''attack_range''), (31, ''enchantable''),
     (32, ''equippable''), (33, ''repairable''), (34, ''glider''), (35, ''tooltip_style''),
     (36, ''death_protection''), (37, ''blocks_attacks''), (38, ''piercing_weapon''),
     (39, ''kinetic_weapon''), (40, ''swing_animation''), (41, ''additional_trade_cost''),
     (42, ''stored_enchantments''), (43, ''dye''), (44, ''dyed_color''), (45, ''map_color''),
     (46, ''map_id''), (47, ''map_decorations''), (48, ''map_post_processing''),
     (49, ''charged_projectiles''), (50, ''bundle_contents''), (51, ''potion_contents''),
     (52, ''potion_duration_scale''), (53, ''suspicious_stew_effects''),
     (54, ''writable_book_content''), (55, ''written_book_content''), (56, ''trim''),
     (57, ''debug_stick_state''), (58, ''entity_data''), (59, ''bucket_entity_data''),
     (60, ''block_entity_data''), (61, ''instrument''), (62, ''provides_trim_material''),
     (63, ''ominous_bottle_amplifier''), (64, ''jukebox_playable''),
     (65, ''provides_banner_patterns''), (66, ''recipes''), (67, ''lodestone_tracker''),
     (68, ''firework_explosion''), (69, ''fireworks''), (70, ''profile''),
     (71, ''note_block_sound''), (72, ''banner_patterns''), (73, ''base_color''),
     (74, ''pot_decorations''), (75, ''container''), (76, ''block_state''), (77, ''bees''),
     (78, ''lock''), (79, ''container_loot''), (80, ''break_sound''),
     (81, ''villager/variant''), (82, ''wolf/variant''), (83, ''wolf/sound_variant''),
     (84, ''wolf/collar''), (85, ''fox/variant''), (86, ''salmon/size''),
     (87, ''parrot/variant''), (88, ''tropical_fish/pattern''),
     (89, ''tropical_fish/base_color''), (90, ''tropical_fish/pattern_color''),
     (91, ''mooshroom/variant''), (92, ''rabbit/variant''), (93, ''pig/variant''),
     (94, ''pig/sound_variant''), (95, ''cow/variant''), (96, ''cow/sound_variant''),
     (97, ''chicken/variant''), (98, ''chicken/sound_variant''),
     (99, ''zomie_nautilus/variant''), (100, ''frog/variant''), (101, ''horse/variant''),
     (102, ''painting/variant''), (103, ''llama/variant''), (104, ''axolotl/variant''),
     (105, ''cat/variant''), (106, ''cat/sound_variant''), (107, ''cat/collar''),
     (108, ''sheep/color''), (109, ''shulker/color'')]"

definition slot_component_type_mapper2_by_name_775 :: "(string \<times> int) list" where
  "slot_component_type_mapper2_by_name_775 = [
     (''custom_data'', 0), (''max_stack_size'', 1), (''max_damage'', 2), (''damage'', 3),
     (''unbreakable'', 4), (''use_effects'', 5), (''custom_name'', 6),
     (''minimum_attack_charge'', 7), (''damage_type'', 8), (''item_name'', 9),
     (''item_model'', 10), (''lore'', 11), (''rarity'', 12), (''enchantments'', 13),
     (''can_place_on'', 14), (''can_break'', 15), (''attribute_modifiers'', 16),
     (''custom_model_data'', 17), (''tooltip_display'', 18), (''repair_cost'', 19),
     (''creative_slot_lock'', 20), (''enchantment_glint_override'', 21),
     (''intangible_projectile'', 22), (''food'', 23), (''consumable'', 24),
     (''use_remainder'', 25), (''use_cooldown'', 26), (''damage_resistant'', 27),
     (''tool'', 28), (''weapon'', 29), (''attack_range'', 30), (''enchantable'', 31),
     (''equippable'', 32), (''repairable'', 33), (''glider'', 34), (''tooltip_style'', 35),
     (''death_protection'', 36), (''blocks_attacks'', 37), (''piercing_weapon'', 38),
     (''kinetic_weapon'', 39), (''swing_animation'', 40), (''additional_trade_cost'', 41),
     (''stored_enchantments'', 42), (''dye'', 43), (''dyed_color'', 44), (''map_color'', 45),
     (''map_id'', 46), (''map_decorations'', 47), (''map_post_processing'', 48),
     (''charged_projectiles'', 49), (''bundle_contents'', 50), (''potion_contents'', 51),
     (''potion_duration_scale'', 52), (''suspicious_stew_effects'', 53),
     (''writable_book_content'', 54), (''written_book_content'', 55), (''trim'', 56),
     (''debug_stick_state'', 57), (''entity_data'', 58), (''bucket_entity_data'', 59),
     (''block_entity_data'', 60), (''instrument'', 61), (''provides_trim_material'', 62),
     (''ominous_bottle_amplifier'', 63), (''jukebox_playable'', 64),
     (''provides_banner_patterns'', 65), (''recipes'', 66), (''lodestone_tracker'', 67),
     (''firework_explosion'', 68), (''fireworks'', 69), (''profile'', 70),
     (''note_block_sound'', 71), (''banner_patterns'', 72), (''base_color'', 73),
     (''pot_decorations'', 74), (''container'', 75), (''block_state'', 76), (''bees'', 77),
     (''lock'', 78), (''container_loot'', 79), (''break_sound'', 80),
     (''villager/variant'', 81), (''wolf/variant'', 82), (''wolf/sound_variant'', 83),
     (''wolf/collar'', 84), (''fox/variant'', 85), (''salmon/size'', 86),
     (''parrot/variant'', 87), (''tropical_fish/pattern'', 88),
     (''tropical_fish/base_color'', 89), (''tropical_fish/pattern_color'', 90),
     (''mooshroom/variant'', 91), (''rabbit/variant'', 92), (''pig/variant'', 93),
     (''pig/sound_variant'', 94), (''cow/variant'', 95), (''cow/sound_variant'', 96),
     (''chicken/variant'', 97), (''chicken/sound_variant'', 98),
     (''zomie_nautilus/variant'', 99), (''frog/variant'', 100), (''horse/variant'', 101),
     (''painting/variant'', 102), (''llama/variant'', 103), (''axolotl/variant'', 104),
     (''cat/variant'', 105), (''cat/sound_variant'', 106), (''cat/collar'', 107),
     (''sheep/color'', 108), (''shulker/color'', 109)]"

definition slot_display_type_mapper_by_wire_775 :: "(int \<times> string) list" where
  "slot_display_type_mapper_by_wire_775 = [
     (0, ''empty''), (1, ''any_fuel''), (2, ''with_any_potion''),
     (3, ''only_with_component''), (4, ''item''), (5, ''item_stack''), (6, ''tag''),
     (7, ''dyed_slot_demo''), (8, ''smithing_trim''), (9, ''with_remainder''),
     (10, ''composite'')]"

definition slot_display_type_mapper_by_name_775 :: "(string \<times> int) list" where
  "slot_display_type_mapper_by_name_775 = [
     (''empty'', 0), (''any_fuel'', 1), (''with_any_potion'', 2),
     (''only_with_component'', 3), (''item'', 4), (''item_stack'', 5), (''tag'', 6),
     (''dyed_slot_demo'', 7), (''smithing_trim'', 8), (''with_remainder'', 9),
     (''composite'', 10)]"

definition spawn_info_gamemode_mapper_by_wire_775 :: "(int \<times> string) list" where
  "spawn_info_gamemode_mapper_by_wire_775 = [
     (0, ''survival''), (1, ''creative''), (2, ''adventure''), (3, ''spectator'')]"

definition spawn_info_gamemode_mapper_by_name_775 :: "(string \<times> int) list" where
  "spawn_info_gamemode_mapper_by_name_775 = [
     (''survival'', 0), (''creative'', 1), (''adventure'', 2), (''spectator'', 3)]"

definition sound_source_mapper_by_wire_775 :: "(int \<times> string) list" where
  "sound_source_mapper_by_wire_775 = [
     (0, ''master''), (1, ''music''), (2, ''record''), (3, ''weather''), (4, ''block''),
     (5, ''hostile''), (6, ''neutral''), (7, ''player''), (8, ''ambient''), (9, ''voice''),
     (10, ''ui'')]"

definition sound_source_mapper_by_name_775 :: "(string \<times> int) list" where
  "sound_source_mapper_by_name_775 = [
     (''master'', 0), (''music'', 1), (''record'', 2), (''weather'', 3), (''block'', 4),
     (''hostile'', 5), (''neutral'', 6), (''player'', 7), (''ambient'', 8), (''voice'', 9),
     (''ui'', 10)]"

definition play_clientbound_difficulty_difficulty_mapper_by_wire_775 :: "(int \<times> string) list" where
  "play_clientbound_difficulty_difficulty_mapper_by_wire_775 = [
     (0, ''peaceful''), (1, ''easy''), (2, ''normal''), (3, ''hard'')]"

definition play_clientbound_difficulty_difficulty_mapper_by_name_775 :: "(string \<times> int) list" where
  "play_clientbound_difficulty_difficulty_mapper_by_name_775 = [
     (''peaceful'', 0), (''easy'', 1), (''normal'', 2), (''hard'', 3)]"

definition play_clientbound_declare_commands_nodes_item_extra_node_data_switch_case2_parser_mapper_by_wire_775 :: "(int \<times> string) list" where
  "play_clientbound_declare_commands_nodes_item_extra_node_data_switch_case2_parser_mapper_by_wire_775 = [
     (0, ''brigadier:bool''), (1, ''brigadier:float''), (2, ''brigadier:double''),
     (3, ''brigadier:integer''), (4, ''brigadier:long''), (5, ''brigadier:string''),
     (6, ''minecraft:entity''), (7, ''minecraft:game_profile''), (8, ''minecraft:block_pos''),
     (9, ''minecraft:column_pos''), (10, ''minecraft:vec3''), (11, ''minecraft:vec2''),
     (12, ''minecraft:block_state''), (13, ''minecraft:block_predicate''),
     (14, ''minecraft:item_stack''), (15, ''minecraft:item_predicate''),
     (16, ''minecraft:color''), (17, ''minecraft:hex_color''), (18, ''minecraft:component''),
     (19, ''minecraft:style''), (20, ''minecraft:message''), (21, ''minecraft:nbt''),
     (22, ''minecraft:nbt_tag''), (23, ''minecraft:nbt_path''), (24, ''minecraft:objective''),
     (25, ''minecraft:objective_criteria''), (26, ''minecraft:operation''),
     (27, ''minecraft:particle''), (28, ''minecraft:angle''), (29, ''minecraft:rotation''),
     (30, ''minecraft:scoreboard_slot''), (31, ''minecraft:score_holder''),
     (32, ''minecraft:swizzle''), (33, ''minecraft:team''), (34, ''minecraft:item_slot''),
     (35, ''minecraft:item_slots''), (36, ''minecraft:resource_location''),
     (37, ''minecraft:function''), (38, ''minecraft:entity_anchor''),
     (39, ''minecraft:int_range''), (40, ''minecraft:float_range''),
     (41, ''minecraft:dimension''), (42, ''minecraft:gamemode''), (43, ''minecraft:time''),
     (44, ''minecraft:resource_or_tag''), (45, ''minecraft:resource_or_tag_key''),
     (46, ''minecraft:resource''), (47, ''minecraft:resource_key''),
     (48, ''minecraft:resource_selector''), (49, ''minecraft:template_mirror''),
     (50, ''minecraft:template_rotation''), (51, ''minecraft:heightmap''),
     (52, ''minecraft:loot_table''), (53, ''minecraft:loot_predicate''),
     (54, ''minecraft:loot_modifier''), (55, ''minecraft:dialog''), (56, ''minecraft:uuid'')]"

definition play_clientbound_declare_commands_nodes_item_extra_node_data_switch_case2_parser_mapper_by_name_775 :: "(string \<times> int) list" where
  "play_clientbound_declare_commands_nodes_item_extra_node_data_switch_case2_parser_mapper_by_name_775 = [
     (''brigadier:bool'', 0), (''brigadier:float'', 1), (''brigadier:double'', 2),
     (''brigadier:integer'', 3), (''brigadier:long'', 4), (''brigadier:string'', 5),
     (''minecraft:entity'', 6), (''minecraft:game_profile'', 7), (''minecraft:block_pos'', 8),
     (''minecraft:column_pos'', 9), (''minecraft:vec3'', 10), (''minecraft:vec2'', 11),
     (''minecraft:block_state'', 12), (''minecraft:block_predicate'', 13),
     (''minecraft:item_stack'', 14), (''minecraft:item_predicate'', 15),
     (''minecraft:color'', 16), (''minecraft:hex_color'', 17), (''minecraft:component'', 18),
     (''minecraft:style'', 19), (''minecraft:message'', 20), (''minecraft:nbt'', 21),
     (''minecraft:nbt_tag'', 22), (''minecraft:nbt_path'', 23), (''minecraft:objective'', 24),
     (''minecraft:objective_criteria'', 25), (''minecraft:operation'', 26),
     (''minecraft:particle'', 27), (''minecraft:angle'', 28), (''minecraft:rotation'', 29),
     (''minecraft:scoreboard_slot'', 30), (''minecraft:score_holder'', 31),
     (''minecraft:swizzle'', 32), (''minecraft:team'', 33), (''minecraft:item_slot'', 34),
     (''minecraft:item_slots'', 35), (''minecraft:resource_location'', 36),
     (''minecraft:function'', 37), (''minecraft:entity_anchor'', 38),
     (''minecraft:int_range'', 39), (''minecraft:float_range'', 40),
     (''minecraft:dimension'', 41), (''minecraft:gamemode'', 42), (''minecraft:time'', 43),
     (''minecraft:resource_or_tag'', 44), (''minecraft:resource_or_tag_key'', 45),
     (''minecraft:resource'', 46), (''minecraft:resource_key'', 47),
     (''minecraft:resource_selector'', 48), (''minecraft:template_mirror'', 49),
     (''minecraft:template_rotation'', 50), (''minecraft:heightmap'', 51),
     (''minecraft:loot_table'', 52), (''minecraft:loot_predicate'', 53),
     (''minecraft:loot_modifier'', 54), (''minecraft:dialog'', 55), (''minecraft:uuid'', 56)]"

definition play_clientbound_declare_commands_nodes_item_extra_node_data_switch_case2_properties_switch_brigadier_string_mapper_by_wire_775 :: "(int \<times> string) list" where
  "play_clientbound_declare_commands_nodes_item_extra_node_data_switch_case2_properties_switch_brigadier_string_mapper_by_wire_775 = [
     (0, ''SINGLE_WORD''), (1, ''QUOTABLE_PHRASE''), (2, ''GREEDY_PHRASE'')]"

definition play_clientbound_declare_commands_nodes_item_extra_node_data_switch_case2_properties_switch_brigadier_string_mapper_by_name_775 :: "(string \<times> int) list" where
  "play_clientbound_declare_commands_nodes_item_extra_node_data_switch_case2_properties_switch_brigadier_string_mapper_by_name_775 = [
     (''SINGLE_WORD'', 0), (''QUOTABLE_PHRASE'', 1), (''GREEDY_PHRASE'', 2)]"

definition play_clientbound_game_state_change_reason_mapper_by_wire_775 :: "(int \<times> string) list" where
  "play_clientbound_game_state_change_reason_mapper_by_wire_775 = [
     (0, ''no_respawn_block_available''), (1, ''start_raining''), (2, ''stop_raining''),
     (3, ''change_game_mode''), (4, ''win_game''), (5, ''demo_event''),
     (6, ''play_arrow_hit_sound''), (7, ''rain_level_change''), (8, ''thunder_level_change''),
     (9, ''puffer_fish_sting''), (10, ''guardian_elder_effect''), (11, ''immediate_respawn''),
     (12, ''limited_crafting''), (13, ''level_chunks_load_start'')]"

definition play_clientbound_game_state_change_reason_mapper_by_name_775 :: "(string \<times> int) list" where
  "play_clientbound_game_state_change_reason_mapper_by_name_775 = [
     (''no_respawn_block_available'', 0), (''start_raining'', 1), (''stop_raining'', 2),
     (''change_game_mode'', 3), (''win_game'', 4), (''demo_event'', 5),
     (''play_arrow_hit_sound'', 6), (''rain_level_change'', 7), (''thunder_level_change'', 8),
     (''puffer_fish_sting'', 9), (''guardian_elder_effect'', 10), (''immediate_respawn'', 11),
     (''limited_crafting'', 12), (''level_chunks_load_start'', 13)]"

definition play_clientbound_map_chunk_heightmaps_item_type_mapper_by_wire_775 :: "(int \<times> string) list" where
  "play_clientbound_map_chunk_heightmaps_item_type_mapper_by_wire_775 = [
     (0, ''world_surface_wg''), (1, ''world_surface''), (2, ''ocean_floor_wg''),
     (3, ''ocean_floor''), (4, ''motion_blocking''), (5, ''motion_blocking_no_leaves'')]"

definition play_clientbound_map_chunk_heightmaps_item_type_mapper_by_name_775 :: "(string \<times> int) list" where
  "play_clientbound_map_chunk_heightmaps_item_type_mapper_by_name_775 = [
     (''world_surface_wg'', 0), (''world_surface'', 1), (''ocean_floor_wg'', 2),
     (''ocean_floor'', 3), (''motion_blocking'', 4), (''motion_blocking_no_leaves'', 5)]"

definition play_clientbound_recipe_book_add_entries_item_recipe_category_mapper_by_wire_775 :: "(int \<times> string) list" where
  "play_clientbound_recipe_book_add_entries_item_recipe_category_mapper_by_wire_775 = [
     (0, ''crafting_building_blocks''), (1, ''crafting_redstone''),
     (2, ''crafting_equipment''), (3, ''crafting_misc''), (4, ''furnace_food''),
     (5, ''furnace_blocks''), (6, ''furnace_misc''), (7, ''blast_furnace_blocks''),
     (8, ''blast_furnace_misc''), (9, ''smoker_food''), (10, ''stonecutter''),
     (11, ''smithing''), (12, ''campfire'')]"

definition play_clientbound_recipe_book_add_entries_item_recipe_category_mapper_by_name_775 :: "(string \<times> int) list" where
  "play_clientbound_recipe_book_add_entries_item_recipe_category_mapper_by_name_775 = [
     (''crafting_building_blocks'', 0), (''crafting_redstone'', 1),
     (''crafting_equipment'', 2), (''crafting_misc'', 3), (''furnace_food'', 4),
     (''furnace_blocks'', 5), (''furnace_misc'', 6), (''blast_furnace_blocks'', 7),
     (''blast_furnace_misc'', 8), (''smoker_food'', 9), (''stonecutter'', 10),
     (''smithing'', 11), (''campfire'', 12)]"

definition play_clientbound_entity_metadata_metadata_item_type_mapper_by_wire_775 :: "(int \<times> string) list" where
  "play_clientbound_entity_metadata_metadata_item_type_mapper_by_wire_775 = [
     (0, ''byte''), (1, ''int''), (2, ''long''), (3, ''float''), (4, ''string''),
     (5, ''component''), (6, ''optional_component''), (7, ''item_stack''), (8, ''boolean''),
     (9, ''rotations''), (10, ''block_pos''), (11, ''optional_block_pos''),
     (12, ''direction''), (13, ''optional_uuid''), (14, ''block_state''),
     (15, ''optional_block_state''), (16, ''particle''), (17, ''particles''),
     (18, ''villager_data''), (19, ''optional_unsigned_int''), (20, ''pose''),
     (21, ''cat_variant''), (22, ''cat_sound_variant''), (23, ''cow_variant''),
     (24, ''cow_sound_variant''), (25, ''wolf_variant''), (26, ''wolf_sound_variant''),
     (27, ''frog_variant''), (28, ''pig_variant''), (29, ''pig_sound_variant''),
     (30, ''chicken_variant''), (31, ''chicken_sound_variant''),
     (32, ''zombie_nautilus_variant''), (33, ''optional_global_pos''),
     (34, ''painting_variant''), (35, ''sniffer_state''), (36, ''armadillo_state''),
     (37, ''copper_golem_state''), (38, ''weathering_copper_golem_state''), (39, ''vector3''),
     (40, ''quaternion''), (41, ''resolvable_profile''), (42, ''humanoid_arm'')]"

definition play_clientbound_entity_metadata_metadata_item_type_mapper_by_name_775 :: "(string \<times> int) list" where
  "play_clientbound_entity_metadata_metadata_item_type_mapper_by_name_775 = [
     (''byte'', 0), (''int'', 1), (''long'', 2), (''float'', 3), (''string'', 4),
     (''component'', 5), (''optional_component'', 6), (''item_stack'', 7), (''boolean'', 8),
     (''rotations'', 9), (''block_pos'', 10), (''optional_block_pos'', 11),
     (''direction'', 12), (''optional_uuid'', 13), (''block_state'', 14),
     (''optional_block_state'', 15), (''particle'', 16), (''particles'', 17),
     (''villager_data'', 18), (''optional_unsigned_int'', 19), (''pose'', 20),
     (''cat_variant'', 21), (''cat_sound_variant'', 22), (''cow_variant'', 23),
     (''cow_sound_variant'', 24), (''wolf_variant'', 25), (''wolf_sound_variant'', 26),
     (''frog_variant'', 27), (''pig_variant'', 28), (''pig_sound_variant'', 29),
     (''chicken_variant'', 30), (''chicken_sound_variant'', 31),
     (''zombie_nautilus_variant'', 32), (''optional_global_pos'', 33),
     (''painting_variant'', 34), (''sniffer_state'', 35), (''armadillo_state'', 36),
     (''copper_golem_state'', 37), (''weathering_copper_golem_state'', 38), (''vector3'', 39),
     (''quaternion'', 40), (''resolvable_profile'', 41), (''humanoid_arm'', 42)]"

definition play_clientbound_entity_metadata_metadata_item_value_switch_humanoid_arm_mapper_by_wire_775 :: "(int \<times> string) list" where
  "play_clientbound_entity_metadata_metadata_item_value_switch_humanoid_arm_mapper_by_wire_775 = [
     (0, ''left''), (1, ''right'')]"

definition play_clientbound_entity_metadata_metadata_item_value_switch_humanoid_arm_mapper_by_name_775 :: "(string \<times> int) list" where
  "play_clientbound_entity_metadata_metadata_item_value_switch_humanoid_arm_mapper_by_name_775 = [
     (''left'', 0), (''right'', 1)]"

definition play_clientbound_teams_mode_mapper_by_wire_775 :: "(int \<times> string) list" where
  "play_clientbound_teams_mode_mapper_by_wire_775 = [
     (0, ''add''), (1, ''remove''), (2, ''change''), (3, ''join''), (4, ''leave'')]"

definition play_clientbound_teams_mode_mapper_by_name_775 :: "(string \<times> int) list" where
  "play_clientbound_teams_mode_mapper_by_name_775 = [
     (''add'', 0), (''remove'', 1), (''change'', 2), (''join'', 3), (''leave'', 4)]"

definition play_clientbound_teams_anonymous_switch1_switch_add_name_tag_visibility_mapper_by_wire_775 :: "(int \<times> string) list" where
  "play_clientbound_teams_anonymous_switch1_switch_add_name_tag_visibility_mapper_by_wire_775 = [
     (0, ''always''), (1, ''never''), (2, ''hide_for_other_teams''),
     (3, ''hide_for_own_team'')]"

definition play_clientbound_teams_anonymous_switch1_switch_add_name_tag_visibility_mapper_by_name_775 :: "(string \<times> int) list" where
  "play_clientbound_teams_anonymous_switch1_switch_add_name_tag_visibility_mapper_by_name_775 = [
     (''always'', 0), (''never'', 1), (''hide_for_other_teams'', 2),
     (''hide_for_own_team'', 3)]"

definition play_clientbound_teams_anonymous_switch1_switch_add_collision_rule_mapper_by_wire_775 :: "(int \<times> string) list" where
  "play_clientbound_teams_anonymous_switch1_switch_add_collision_rule_mapper_by_wire_775 = [
     (0, ''always''), (1, ''never''), (2, ''push_other_teams''), (3, ''push_own_team'')]"

definition play_clientbound_teams_anonymous_switch1_switch_add_collision_rule_mapper_by_name_775 :: "(string \<times> int) list" where
  "play_clientbound_teams_anonymous_switch1_switch_add_collision_rule_mapper_by_name_775 = [
     (''always'', 0), (''never'', 1), (''push_other_teams'', 2), (''push_own_team'', 3)]"

definition play_clientbound_teams_anonymous_switch1_switch_change_name_tag_visibility_mapper_by_wire_775 :: "(int \<times> string) list" where
  "play_clientbound_teams_anonymous_switch1_switch_change_name_tag_visibility_mapper_by_wire_775 = [
     (0, ''always''), (1, ''never''), (2, ''hide_for_other_teams''),
     (3, ''hide_for_own_team'')]"

definition play_clientbound_teams_anonymous_switch1_switch_change_name_tag_visibility_mapper_by_name_775 :: "(string \<times> int) list" where
  "play_clientbound_teams_anonymous_switch1_switch_change_name_tag_visibility_mapper_by_name_775 = [
     (''always'', 0), (''never'', 1), (''hide_for_other_teams'', 2),
     (''hide_for_own_team'', 3)]"

definition play_clientbound_teams_anonymous_switch1_switch_change_collision_rule_mapper_by_wire_775 :: "(int \<times> string) list" where
  "play_clientbound_teams_anonymous_switch1_switch_change_collision_rule_mapper_by_wire_775 = [
     (0, ''always''), (1, ''never''), (2, ''push_other_teams''), (3, ''push_own_team'')]"

definition play_clientbound_teams_anonymous_switch1_switch_change_collision_rule_mapper_by_name_775 :: "(string \<times> int) list" where
  "play_clientbound_teams_anonymous_switch1_switch_change_collision_rule_mapper_by_name_775 = [
     (''always'', 0), (''never'', 1), (''push_other_teams'', 2), (''push_own_team'', 3)]"

definition play_clientbound_entity_update_attributes_properties_item_key_mapper_by_wire_775 :: "(int \<times> string) list" where
  "play_clientbound_entity_update_attributes_properties_item_key_mapper_by_wire_775 = [
     (0, ''generic.armor''), (1, ''generic.armor_toughness''), (2, ''generic.attack_damage''),
     (3, ''generic.attack_knockback''), (4, ''generic.attack_speed''),
     (5, ''player.block_break_speed''), (6, ''player.block_interaction_range''),
     (7, ''burning_time''), (8, ''camera_distance''), (9, ''explosion_knockback_resistance''),
     (10, ''player.entity_interaction_range''), (11, ''generic.fall_damage_multiplier''),
     (12, ''generic.flying_speed''), (13, ''generic.follow_range''),
     (14, ''generic.gravity''), (15, ''generic.jump_strength''),
     (16, ''generic.knockback_resistance''), (17, ''generic.luck''),
     (18, ''generic.max_absorption''), (19, ''generic.max_health''),
     (20, ''generic.movement_speed''), (21, ''generic.safe_fall_distance''),
     (22, ''generic.scale''), (23, ''zombie.spawn_reinforcements''),
     (24, ''generic.step_height''), (25, ''submerged_mining_speed''),
     (26, ''sweeping_damage_ratio''), (27, ''tempt_range''),
     (28, ''water_movement_efficiency''), (29, ''waypoint_transmit_range''),
     (30, ''waypoint_receive_range'')]"

definition play_clientbound_entity_update_attributes_properties_item_key_mapper_by_name_775 :: "(string \<times> int) list" where
  "play_clientbound_entity_update_attributes_properties_item_key_mapper_by_name_775 = [
     (''generic.armor'', 0), (''generic.armor_toughness'', 1), (''generic.attack_damage'', 2),
     (''generic.attack_knockback'', 3), (''generic.attack_speed'', 4),
     (''player.block_break_speed'', 5), (''player.block_interaction_range'', 6),
     (''burning_time'', 7), (''camera_distance'', 8), (''explosion_knockback_resistance'', 9),
     (''player.entity_interaction_range'', 10), (''generic.fall_damage_multiplier'', 11),
     (''generic.flying_speed'', 12), (''generic.follow_range'', 13),
     (''generic.gravity'', 14), (''generic.jump_strength'', 15),
     (''generic.knockback_resistance'', 16), (''generic.luck'', 17),
     (''generic.max_absorption'', 18), (''generic.max_health'', 19),
     (''generic.movement_speed'', 20), (''generic.safe_fall_distance'', 21),
     (''generic.scale'', 22), (''zombie.spawn_reinforcements'', 23),
     (''generic.step_height'', 24), (''submerged_mining_speed'', 25),
     (''sweeping_damage_ratio'', 26), (''tempt_range'', 27),
     (''water_movement_efficiency'', 28), (''waypoint_transmit_range'', 29),
     (''waypoint_receive_range'', 30)]"

definition play_clientbound_server_links_links_item_known_type_switch_true_mapper_by_wire_775 :: "(int \<times> string) list" where
  "play_clientbound_server_links_links_item_known_type_switch_true_mapper_by_wire_775 = [
     (0, ''bug_report''), (1, ''community_guidelines''), (2, ''support''), (3, ''status''),
     (4, ''feedback''), (5, ''community''), (6, ''website''), (7, ''forums''), (8, ''news''),
     (9, ''announcements'')]"

definition play_clientbound_server_links_links_item_known_type_switch_true_mapper_by_name_775 :: "(string \<times> int) list" where
  "play_clientbound_server_links_links_item_known_type_switch_true_mapper_by_name_775 = [
     (''bug_report'', 0), (''community_guidelines'', 1), (''support'', 2), (''status'', 3),
     (''feedback'', 4), (''community'', 5), (''website'', 6), (''forums'', 7), (''news'', 8),
     (''announcements'', 9)]"

definition play_clientbound_tracked_waypoint_operation_mapper_by_wire_775 :: "(int \<times> string) list" where
  "play_clientbound_tracked_waypoint_operation_mapper_by_wire_775 = [
     (0, ''track''), (1, ''untrack''), (2, ''update'')]"

definition play_clientbound_tracked_waypoint_operation_mapper_by_name_775 :: "(string \<times> int) list" where
  "play_clientbound_tracked_waypoint_operation_mapper_by_name_775 = [
     (''track'', 0), (''untrack'', 1), (''update'', 2)]"

definition play_clientbound_tracked_waypoint_waypoint_type_mapper_by_wire_775 :: "(int \<times> string) list" where
  "play_clientbound_tracked_waypoint_waypoint_type_mapper_by_wire_775 = [
     (0, ''empty''), (1, ''vec3i''), (2, ''chunk''), (3, ''azimuth'')]"

definition play_clientbound_tracked_waypoint_waypoint_type_mapper_by_name_775 :: "(string \<times> int) list" where
  "play_clientbound_tracked_waypoint_waypoint_type_mapper_by_name_775 = [
     (''empty'', 0), (''vec3i'', 1), (''chunk'', 2), (''azimuth'', 3)]"

definition play_serverbound_set_difficulty_new_difficulty_mapper_by_wire_775 :: "(int \<times> string) list" where
  "play_serverbound_set_difficulty_new_difficulty_mapper_by_wire_775 = [
     (0, ''peaceful''), (1, ''easy''), (2, ''normal''), (3, ''hard'')]"

definition play_serverbound_set_difficulty_new_difficulty_mapper_by_name_775 :: "(string \<times> int) list" where
  "play_serverbound_set_difficulty_new_difficulty_mapper_by_name_775 = [
     (''peaceful'', 0), (''easy'', 1), (''normal'', 2), (''hard'', 3)]"

definition play_serverbound_change_gamemode_mode_mapper_by_wire_775 :: "(int \<times> string) list" where
  "play_serverbound_change_gamemode_mode_mapper_by_wire_775 = [
     (0, ''survival''), (1, ''creative''), (2, ''adventure''), (3, ''spectator'')]"

definition play_serverbound_change_gamemode_mode_mapper_by_name_775 :: "(string \<times> int) list" where
  "play_serverbound_change_gamemode_mode_mapper_by_name_775 = [
     (''survival'', 0), (''creative'', 1), (''adventure'', 2), (''spectator'', 3)]"

definition play_serverbound_client_command_action_id_mapper_by_wire_775 :: "(int \<times> string) list" where
  "play_serverbound_client_command_action_id_mapper_by_wire_775 = [
     (0, ''perform_respawn''), (1, ''request_stats''), (2, ''request_gamerule_values'')]"

definition play_serverbound_client_command_action_id_mapper_by_name_775 :: "(string \<times> int) list" where
  "play_serverbound_client_command_action_id_mapper_by_name_775 = [
     (''perform_respawn'', 0), (''request_stats'', 1), (''request_gamerule_values'', 2)]"

definition play_serverbound_settings_particle_status_mapper_by_wire_775 :: "(int \<times> string) list" where
  "play_serverbound_settings_particle_status_mapper_by_wire_775 = [
     (0, ''all''), (1, ''decreased''), (2, ''minimal'')]"

definition play_serverbound_settings_particle_status_mapper_by_name_775 :: "(string \<times> int) list" where
  "play_serverbound_settings_particle_status_mapper_by_name_775 = [
     (''all'', 0), (''decreased'', 1), (''minimal'', 2)]"

definition play_serverbound_use_entity_hand_mapper_by_wire_775 :: "(int \<times> string) list" where
  "play_serverbound_use_entity_hand_mapper_by_wire_775 = [
     (0, ''main_hand''), (1, ''off_hand'')]"

definition play_serverbound_use_entity_hand_mapper_by_name_775 :: "(string \<times> int) list" where
  "play_serverbound_use_entity_hand_mapper_by_name_775 = [
     (''main_hand'', 0), (''off_hand'', 1)]"

definition play_serverbound_entity_action_action_id_mapper_by_wire_775 :: "(int \<times> string) list" where
  "play_serverbound_entity_action_action_id_mapper_by_wire_775 = [
     (0, ''leave_bed''), (1, ''start_sprinting''), (2, ''stop_sprinting''),
     (3, ''start_horse_jump''), (4, ''stop_horse_jump''), (5, ''open_vehicle_inventory''),
     (6, ''start_elytra_flying'')]"

definition play_serverbound_entity_action_action_id_mapper_by_name_775 :: "(string \<times> int) list" where
  "play_serverbound_entity_action_action_id_mapper_by_name_775 = [
     (''leave_bed'', 0), (''start_sprinting'', 1), (''stop_sprinting'', 2),
     (''start_horse_jump'', 3), (''stop_horse_jump'', 4), (''open_vehicle_inventory'', 5),
     (''start_elytra_flying'', 6)]"

definition play_serverbound_update_structure_block_flags_mapper_by_wire_775 :: "(int \<times> string) list" where
  "play_serverbound_update_structure_block_flags_mapper_by_wire_775 = [
     (0, ''ignore_entities''), (1, ''show_air''), (2, ''show_bounding_box''), (3, ''strict'')]"

definition play_serverbound_update_structure_block_flags_mapper_by_name_775 :: "(string \<times> int) list" where
  "play_serverbound_update_structure_block_flags_mapper_by_name_775 = [
     (''ignore_entities'', 0), (''show_air'', 1), (''show_bounding_box'', 2), (''strict'', 3)]"

definition configuration_clientbound_server_links_links_item_known_type_switch_true_mapper_by_wire_775 :: "(int \<times> string) list" where
  "configuration_clientbound_server_links_links_item_known_type_switch_true_mapper_by_wire_775 = [
     (0, ''bug_report''), (1, ''community_guidelines''), (2, ''support''), (3, ''status''),
     (4, ''feedback''), (5, ''community''), (6, ''website''), (7, ''forums''), (8, ''news''),
     (9, ''announcements'')]"

definition configuration_clientbound_server_links_links_item_known_type_switch_true_mapper_by_name_775 :: "(string \<times> int) list" where
  "configuration_clientbound_server_links_links_item_known_type_switch_true_mapper_by_name_775 = [
     (''bug_report'', 0), (''community_guidelines'', 1), (''support'', 2), (''status'', 3),
     (''feedback'', 4), (''community'', 5), (''website'', 6), (''forums'', 7), (''news'', 8),
     (''announcements'', 9)]"

definition configuration_serverbound_settings_particle_status_mapper_by_wire_775 :: "(int \<times> string) list" where
  "configuration_serverbound_settings_particle_status_mapper_by_wire_775 = [
     (0, ''all''), (1, ''decreased''), (2, ''minimal'')]"

definition configuration_serverbound_settings_particle_status_mapper_by_name_775 :: "(string \<times> int) list" where
  "configuration_serverbound_settings_particle_status_mapper_by_name_775 = [
     (''all'', 0), (''decreased'', 1), (''minimal'', 2)]"

section \<open>Shared types\<close>

definition data_component_matchers_775 :: "string \<times> schema list" where
  "data_component_matchers_775 = (''DataComponentMatchers'', [
     Shared ''ExactMatchers'' ''ExactComponentMatcher'',
     Items ''handshaking.toClient.DataComponentMatchers.partialMatchers'' Prefixed [
       Field ''handshaking.toClient.DataComponentMatchers.partialMatchers[]'' FVarInt]])"

definition exact_component_matcher_775 :: "string \<times> schema list" where
  "exact_component_matcher_775 = (''ExactComponentMatcher'', [
     Items ''handshaking.toClient.ExactComponentMatcher'' Prefixed [
       Shared ''element'' ''SlotComponent'']])"

definition item_block_predicate_775 :: "string \<times> schema list" where
  "item_block_predicate_775 = (''ItemBlockPredicate'', [
     Maybe ''handshaking.toClient.ItemBlockPredicate.blockSet'' [
       Holder_Set ''handshaking.toClient.ItemBlockPredicate.blockSet'' [
         Field ''handshaking.toClient.ItemBlockPredicate.blockSet.ids[]'' FVarInt]],
     Maybe ''handshaking.toClient.ItemBlockPredicate.properties'' [
       Items ''handshaking.toClient.ItemBlockPredicate.properties'' Prefixed [
         Field ''handshaking.toClient.ItemBlockPredicate.properties[].name'' FString,
         Field ''handshaking.toClient.ItemBlockPredicate.properties[].isExactMatch'' FBool,
         Switch ''handshaking.toClient.ItemBlockPredicate.properties[].isExactMatch''
           [(KBool False, [
              Field ''handshaking.toClient.ItemBlockPredicate.properties[].value.minValue'' FString,
              Field ''handshaking.toClient.ItemBlockPredicate.properties[].value.maxValue'' FString]),
            (KBool True, [
              Field ''handshaking.toClient.ItemBlockPredicate.properties[].value.exactValue'' FString])]
           []]],
     Field ''handshaking.toClient.ItemBlockPredicate.nbt'' FAnonOptionalNBT,
     Shared ''Components'' ''DataComponentMatchers''])"

definition item_effect_detail_775 :: "string \<times> schema list" where
  "item_effect_detail_775 = (''ItemEffectDetail'', [
     Field ''handshaking.toClient.ItemEffectDetail.amplifier'' FVarInt,
     Field ''handshaking.toClient.ItemEffectDetail.duration'' FVarInt,
     Field ''handshaking.toClient.ItemEffectDetail.ambient'' FBool,
     Field ''handshaking.toClient.ItemEffectDetail.showParticles'' FBool,
     Field ''handshaking.toClient.ItemEffectDetail.showIcon'' FBool,
     Maybe ''handshaking.toClient.ItemEffectDetail.hiddenEffect'' [
       Shared ''HiddenEffect'' ''ItemEffectDetail'']])"

definition slot_775 :: "string \<times> schema list" where
  "slot_775 = (''Slot'', [
     Field ''handshaking.toClient.Slot.itemCount'' FVarInt,
     Switch ''handshaking.toClient.Slot.itemCount''
       [(KInt 0, [])]
       [
        Field ''handshaking.toClient.Slot.anonymousSwitch1.itemId'' FVarInt,
        Field ''handshaking.toClient.Slot.anonymousSwitch1.addedComponentCount'' FVarInt,
        Field ''handshaking.toClient.Slot.anonymousSwitch1.removedComponentCount'' FVarInt,
        Items ''handshaking.toClient.Slot.anonymousSwitch1.components'' (Of ''handshaking.toClient.Slot.anonymousSwitch1.addedComponentCount'') [
          Shared ''AnonymousSwitch1.Default.Components'' ''SlotComponent''],
        Items ''handshaking.toClient.Slot.anonymousSwitch1.removeComponents'' (Of ''handshaking.toClient.Slot.anonymousSwitch1.removedComponentCount'') [
          Mapped ''handshaking.toClient.Slot.anonymousSwitch1.removeComponents[].type'' FVarInt slot_anonymous_switch1_switch_default_remove_components_item_type_mapper_by_wire_775 slot_anonymous_switch1_switch_default_remove_components_item_type_mapper_by_name_775]]])"

definition slot_component_775 :: "string \<times> schema list" where
  "slot_component_775 = (''SlotComponent'', [
     Mapped ''handshaking.toClient.SlotComponent.type'' FVarInt slot_component_type_mapper_by_wire_775 slot_component_type_mapper_by_name_775,
     Switch ''handshaking.toClient.SlotComponent.type''
       [(KText ''additional_trade_cost'', [
          Field ''handshaking.toClient.SlotComponent.data'' FVarInt]),
        (KText ''attack_range'', [
          Field ''handshaking.toClient.SlotComponent.data.minRange'' FF32,
          Field ''handshaking.toClient.SlotComponent.data.maxRange'' FF32,
          Field ''handshaking.toClient.SlotComponent.data.minCreativeRange'' FF32,
          Field ''handshaking.toClient.SlotComponent.data.maxCreativeRange'' FF32,
          Field ''handshaking.toClient.SlotComponent.data.hitboxMargin'' FF32,
          Field ''handshaking.toClient.SlotComponent.data.mobFactor'' FF32]),
        (KText ''attribute_modifiers'', [
          Items ''handshaking.toClient.SlotComponent.data'' Prefixed [
            Field ''handshaking.toClient.SlotComponent.data[].typeId'' FVarInt,
            Field ''handshaking.toClient.SlotComponent.data[].name'' FString,
            Field ''handshaking.toClient.SlotComponent.data[].value'' FF64,
            Mapped ''handshaking.toClient.SlotComponent.data[].operation'' FVarInt slot_component_data_switch_attribute_modifiers_item_operation_mapper_by_wire_775 slot_component_data_switch_attribute_modifiers_item_operation_mapper_by_name_775,
            Mapped ''handshaking.toClient.SlotComponent.data[].slot'' FVarInt slot_component_data_switch_attribute_modifiers_item_slot_mapper_by_wire_775 slot_component_data_switch_attribute_modifiers_item_slot_mapper_by_name_775,
            Mapped ''handshaking.toClient.SlotComponent.data[].display.type'' FVarInt slot_component_data_switch_attribute_modifiers_item_display_type_mapper_by_wire_775 slot_component_data_switch_attribute_modifiers_item_display_type_mapper_by_name_775,
            Switch ''handshaking.toClient.SlotComponent.data[].display.type''
              [(KText ''override'', [
                 Field ''handshaking.toClient.SlotComponent.data[].display.component'' FAnonymousNBT])]
              []]]),
        (KText ''axolotl/variant'', [
          Field ''handshaking.toClient.SlotComponent.data'' FVarInt]),
        (KText ''banner_patterns'', [
          Items ''handshaking.toClient.SlotComponent.data.layers'' Prefixed [
            Holder ''handshaking.toClient.SlotComponent.data.layers[].pattern'' [
              Field ''handshaking.toClient.SlotComponent.data.layers[].pattern.inline.assetId'' FString,
              Field ''handshaking.toClient.SlotComponent.data.layers[].pattern.inline.translationKey'' FString],
            Field ''handshaking.toClient.SlotComponent.data.layers[].colorId'' FVarInt]]),
        (KText ''base_color'', [
          Mapped ''handshaking.toClient.SlotComponent.data'' FVarInt slot_component_data_switch_base_color_mapper_by_wire_775 slot_component_data_switch_base_color_mapper_by_name_775]),
        (KText ''bees'', [
          Items ''handshaking.toClient.SlotComponent.data.bees'' Prefixed [
            Field ''handshaking.toClient.SlotComponent.data.bees[].nbtData'' FAnonymousNBT,
            Field ''handshaking.toClient.SlotComponent.data.bees[].ticksInHive'' FVarInt,
            Field ''handshaking.toClient.SlotComponent.data.bees[].minTicksInHive'' FVarInt]]),
        (KText ''block_entity_data'', [
          Field ''handshaking.toClient.SlotComponent.data.type'' FVarInt,
          Field ''handshaking.toClient.SlotComponent.data.data'' FAnonymousNBT]),
        (KText ''block_state'', [
          Items ''handshaking.toClient.SlotComponent.data.properties'' Prefixed [
            Field ''handshaking.toClient.SlotComponent.data.properties[].name'' FString,
            Field ''handshaking.toClient.SlotComponent.data.properties[].value'' FString]]),
        (KText ''blocks_attacks'', [
          Field ''handshaking.toClient.SlotComponent.data.blockDelaySeconds'' FF32,
          Field ''handshaking.toClient.SlotComponent.data.disableCooldownScale'' FF32,
          Items ''handshaking.toClient.SlotComponent.data.damageReductions'' Prefixed [
            Field ''handshaking.toClient.SlotComponent.data.damageReductions[].horizontalBlockingAngle'' FF32,
            Maybe ''handshaking.toClient.SlotComponent.data.damageReductions[].type'' [
              Holder_Set ''handshaking.toClient.SlotComponent.data.damageReductions[].type'' [
                Field ''handshaking.toClient.SlotComponent.data.damageReductions[].type.ids[]'' FVarInt]],
            Field ''handshaking.toClient.SlotComponent.data.damageReductions[].base'' FF32,
            Field ''handshaking.toClient.SlotComponent.data.damageReductions[].factor'' FF32],
          Field ''handshaking.toClient.SlotComponent.data.itemDamage.threshold'' FF32,
          Field ''handshaking.toClient.SlotComponent.data.itemDamage.base'' FF32,
          Field ''handshaking.toClient.SlotComponent.data.itemDamage.factor'' FF32,
          Maybe ''handshaking.toClient.SlotComponent.data.bypassedBy'' [
            Field ''handshaking.toClient.SlotComponent.data.bypassedBy'' FString],
          Maybe ''handshaking.toClient.SlotComponent.data.blockSound'' [
            Holder ''handshaking.toClient.SlotComponent.data.blockSound'' [
              Field ''handshaking.toClient.SlotComponent.data.blockSound.inline.soundName'' FString,
              Maybe ''handshaking.toClient.SlotComponent.data.blockSound.inline.fixedRange'' [
                Field ''handshaking.toClient.SlotComponent.data.blockSound.inline.fixedRange'' FF32]]],
          Maybe ''handshaking.toClient.SlotComponent.data.disableSound'' [
            Holder ''handshaking.toClient.SlotComponent.data.disableSound'' [
              Field ''handshaking.toClient.SlotComponent.data.disableSound.inline.soundName'' FString,
              Maybe ''handshaking.toClient.SlotComponent.data.disableSound.inline.fixedRange'' [
                Field ''handshaking.toClient.SlotComponent.data.disableSound.inline.fixedRange'' FF32]]]]),
        (KText ''break_sound'', [
          Holder ''handshaking.toClient.SlotComponent.data'' [
            Field ''handshaking.toClient.SlotComponent.data.inline.soundName'' FString,
            Maybe ''handshaking.toClient.SlotComponent.data.inline.fixedRange'' [
              Field ''handshaking.toClient.SlotComponent.data.inline.fixedRange'' FF32]]]),
        (KText ''bucket_entity_data'', [
          Field ''handshaking.toClient.SlotComponent.data'' FAnonymousNBT]),
        (KText ''bundle_contents'', [
          Items ''handshaking.toClient.SlotComponent.data.contents'' Prefixed [
            Shared ''Data.BundleContents.Contents'' ''Slot'']]),
        (KText ''can_break'', [
          Items ''handshaking.toClient.SlotComponent.data.predicates'' Prefixed [
            Shared ''Data.CanBreak.Predicates'' ''ItemBlockPredicate'']]),
        (KText ''can_place_on'', [
          Items ''handshaking.toClient.SlotComponent.data.predicates'' Prefixed [
            Shared ''Data.CanPlaceOn.Predicates'' ''ItemBlockPredicate'']]),
        (KText ''cat/collar'', [
          Mapped ''handshaking.toClient.SlotComponent.data'' FVarInt slot_component_data_switch_cat_collar_mapper_by_wire_775 slot_component_data_switch_cat_collar_mapper_by_name_775]),
        (KText ''cat/sound_variant'', [
          Field ''handshaking.toClient.SlotComponent.data'' FVarInt]),
        (KText ''cat/variant'', [
          Field ''handshaking.toClient.SlotComponent.data'' FVarInt]),
        (KText ''charged_projectiles'', [
          Items ''handshaking.toClient.SlotComponent.data.projectiles'' Prefixed [
            Shared ''Data.ChargedProjectiles.Projectiles'' ''Slot'']]),
        (KText ''chicken/sound_variant'', [
          Holder ''handshaking.toClient.SlotComponent.data'' [
            Field ''handshaking.toClient.SlotComponent.data.inline'' FString]]),
        (KText ''chicken/variant'', [
          Holder ''handshaking.toClient.SlotComponent.data'' [
            Field ''handshaking.toClient.SlotComponent.data.inline'' FString]]),
        (KText ''consumable'', [
          Field ''handshaking.toClient.SlotComponent.data.consume_seconds'' FF32,
          Mapped ''handshaking.toClient.SlotComponent.data.animation'' FVarInt slot_component_data_switch_consumable_animation_mapper_by_wire_775 slot_component_data_switch_consumable_animation_mapper_by_name_775,
          Holder ''handshaking.toClient.SlotComponent.data.sound'' [
            Field ''handshaking.toClient.SlotComponent.data.sound.inline.soundName'' FString,
            Maybe ''handshaking.toClient.SlotComponent.data.sound.inline.fixedRange'' [
              Field ''handshaking.toClient.SlotComponent.data.sound.inline.fixedRange'' FF32]],
          Field ''handshaking.toClient.SlotComponent.data.makes_particles'' FBool,
          Items ''handshaking.toClient.SlotComponent.data.effects'' Prefixed [
            Mapped ''handshaking.toClient.SlotComponent.data.effects[].type'' FVarInt slot_component_data_switch_consumable_effects_item_type_mapper_by_wire_775 slot_component_data_switch_consumable_effects_item_type_mapper_by_name_775,
            Switch ''handshaking.toClient.SlotComponent.data.effects[].type''
              [(KText ''apply_effects'', [
                 Items ''handshaking.toClient.SlotComponent.data.effects[].anonymousSwitch1.effects'' Prefixed [
                   Field ''handshaking.toClient.SlotComponent.data.effects[].anonymousSwitch1.effects[].id'' FVarInt,
                   Shared ''Data.Consumable.Effects.AnonymousSwitch1.ApplyEffects.Effects.Details'' ''ItemEffectDetail''],
                 Field ''handshaking.toClient.SlotComponent.data.effects[].anonymousSwitch1.probability'' FF32]),
               (KText ''clear_all_effects'', []),
               (KText ''play_sound'', [
                 Holder ''handshaking.toClient.SlotComponent.data.effects[].anonymousSwitch1.sound'' [
                   Field ''handshaking.toClient.SlotComponent.data.effects[].anonymousSwitch1.sound.inline.soundName'' FString,
                   Maybe ''handshaking.toClient.SlotComponent.data.effects[].anonymousSwitch1.sound.inline.fixedRange'' [
                     Field ''handshaking.toClient.SlotComponent.data.effects[].anonymousSwitch1.sound.inline.fixedRange'' FF32]]]),
               (KText ''remove_effects'', [
                 Holder_Set ''handshaking.toClient.SlotComponent.data.effects[].anonymousSwitch1.effects'' [
                   Field ''handshaking.toClient.SlotComponent.data.effects[].anonymousSwitch1.effects.ids[]'' FVarInt]]),
               (KText ''teleport_randomly'', [
                 Field ''handshaking.toClient.SlotComponent.data.effects[].anonymousSwitch1.diameter'' FF32])]
              []]]),
        (KText ''container'', [
          Items ''handshaking.toClient.SlotComponent.data.contents'' Prefixed [
            Shared ''Data.Container.Contents'' ''Slot'']]),
        (KText ''container_loot'', [
          Field ''handshaking.toClient.SlotComponent.data'' FAnonymousNBT]),
        (KText ''cow/sound_variant'', [
          Field ''handshaking.toClient.SlotComponent.data'' FVarInt]),
        (KText ''cow/variant'', [
          Field ''handshaking.toClient.SlotComponent.data'' FVarInt]),
        (KText ''creative_slot_lock'', []),
        (KText ''custom_data'', [
          Field ''handshaking.toClient.SlotComponent.data'' FAnonymousNBT]),
        (KText ''custom_model_data'', [
          Items ''handshaking.toClient.SlotComponent.data.floats'' Prefixed [
            Field ''handshaking.toClient.SlotComponent.data.floats[]'' FF32],
          Items ''handshaking.toClient.SlotComponent.data.flags'' Prefixed [
            Field ''handshaking.toClient.SlotComponent.data.flags[]'' FBool],
          Items ''handshaking.toClient.SlotComponent.data.strings'' Prefixed [
            Field ''handshaking.toClient.SlotComponent.data.strings[]'' FString],
          Items ''handshaking.toClient.SlotComponent.data.colors'' Prefixed [
            Field ''handshaking.toClient.SlotComponent.data.colors[]'' FI32]]),
        (KText ''custom_name'', [
          Field ''handshaking.toClient.SlotComponent.data'' FAnonymousNBT]),
        (KText ''damage'', [
          Field ''handshaking.toClient.SlotComponent.data'' FVarInt]),
        (KText ''damage_resistant'', [
          Field ''handshaking.toClient.SlotComponent.data'' FString]),
        (KText ''damage_type'', [
          Field ''handshaking.toClient.SlotComponent.data.hasHolder'' FBool,
          Switch ''handshaking.toClient.SlotComponent.data.hasHolder''
            [(KBool False, [
               Field ''handshaking.toClient.SlotComponent.data.damageType'' FString]),
             (KBool True, [
               Holder ''handshaking.toClient.SlotComponent.data.damageType'' [
                 Field ''handshaking.toClient.SlotComponent.data.damageType.inline.msgId'' FString,
                 Mapped ''handshaking.toClient.SlotComponent.data.damageType.inline.scaling'' FVarInt slot_component_data_switch_damage_type_damage_type_switch_true_inline_scaling_mapper_by_wire_775 slot_component_data_switch_damage_type_damage_type_switch_true_inline_scaling_mapper_by_name_775,
                 Field ''handshaking.toClient.SlotComponent.data.damageType.inline.exhaustion'' FF32,
                 Mapped ''handshaking.toClient.SlotComponent.data.damageType.inline.effects'' FVarInt slot_component_data_switch_damage_type_damage_type_switch_true_inline_effects_mapper_by_wire_775 slot_component_data_switch_damage_type_damage_type_switch_true_inline_effects_mapper_by_name_775,
                 Mapped ''handshaking.toClient.SlotComponent.data.damageType.inline.deathMessageType'' FVarInt slot_component_data_switch_damage_type_damage_type_switch_true_inline_death_message_type_mapper_by_wire_775 slot_component_data_switch_damage_type_damage_type_switch_true_inline_death_message_type_mapper_by_name_775]])]
            []]),
        (KText ''death_protection'', [
          Items ''handshaking.toClient.SlotComponent.data.effects'' Prefixed [
            Mapped ''handshaking.toClient.SlotComponent.data.effects[].type'' FVarInt slot_component_data_switch_death_protection_effects_item_type_mapper_by_wire_775 slot_component_data_switch_death_protection_effects_item_type_mapper_by_name_775,
            Switch ''handshaking.toClient.SlotComponent.data.effects[].type''
              [(KText ''apply_effects'', [
                 Items ''handshaking.toClient.SlotComponent.data.effects[].anonymousSwitch1.effects'' Prefixed [
                   Field ''handshaking.toClient.SlotComponent.data.effects[].anonymousSwitch1.effects[].id'' FVarInt,
                   Shared ''Data.DeathProtection.Effects.AnonymousSwitch1.ApplyEffects.Effects.Details'' ''ItemEffectDetail''],
                 Field ''handshaking.toClient.SlotComponent.data.effects[].anonymousSwitch1.probability'' FF32]),
               (KText ''clear_all_effects'', []),
               (KText ''play_sound'', [
                 Holder ''handshaking.toClient.SlotComponent.data.effects[].anonymousSwitch1.sound'' [
                   Field ''handshaking.toClient.SlotComponent.data.effects[].anonymousSwitch1.sound.inline.soundName'' FString,
                   Maybe ''handshaking.toClient.SlotComponent.data.effects[].anonymousSwitch1.sound.inline.fixedRange'' [
                     Field ''handshaking.toClient.SlotComponent.data.effects[].anonymousSwitch1.sound.inline.fixedRange'' FF32]]]),
               (KText ''remove_effects'', [
                 Holder_Set ''handshaking.toClient.SlotComponent.data.effects[].anonymousSwitch1.effects'' [
                   Field ''handshaking.toClient.SlotComponent.data.effects[].anonymousSwitch1.effects.ids[]'' FVarInt]]),
               (KText ''teleport_randomly'', [
                 Field ''handshaking.toClient.SlotComponent.data.effects[].anonymousSwitch1.diameter'' FF32])]
              []]]),
        (KText ''debug_stick_state'', [
          Field ''handshaking.toClient.SlotComponent.data'' FAnonymousNBT]),
        (KText ''dye'', [
          Mapped ''handshaking.toClient.SlotComponent.data'' FVarInt slot_component_data_switch_dye_mapper_by_wire_775 slot_component_data_switch_dye_mapper_by_name_775]),
        (KText ''dyed_color'', [
          Field ''handshaking.toClient.SlotComponent.data'' FI32]),
        (KText ''enchantable'', [
          Field ''handshaking.toClient.SlotComponent.data'' FVarInt]),
        (KText ''enchantment_glint_override'', [
          Field ''handshaking.toClient.SlotComponent.data'' FBool]),
        (KText ''enchantments'', [
          Items ''handshaking.toClient.SlotComponent.data.enchantments'' Prefixed [
            Field ''handshaking.toClient.SlotComponent.data.enchantments[].id'' FVarInt,
            Field ''handshaking.toClient.SlotComponent.data.enchantments[].level'' FVarInt]]),
        (KText ''entity_data'', [
          Field ''handshaking.toClient.SlotComponent.data.type'' FVarInt,
          Field ''handshaking.toClient.SlotComponent.data.data'' FAnonymousNBT]),
        (KText ''equippable'', [
          Mapped ''handshaking.toClient.SlotComponent.data.slot'' FVarInt slot_component_data_switch_equippable_slot_mapper_by_wire_775 slot_component_data_switch_equippable_slot_mapper_by_name_775,
          Holder ''handshaking.toClient.SlotComponent.data.sound'' [
            Field ''handshaking.toClient.SlotComponent.data.sound.inline.soundName'' FString,
            Maybe ''handshaking.toClient.SlotComponent.data.sound.inline.fixedRange'' [
              Field ''handshaking.toClient.SlotComponent.data.sound.inline.fixedRange'' FF32]],
          Maybe ''handshaking.toClient.SlotComponent.data.model'' [
            Field ''handshaking.toClient.SlotComponent.data.model'' FString],
          Maybe ''handshaking.toClient.SlotComponent.data.cameraOverlay'' [
            Field ''handshaking.toClient.SlotComponent.data.cameraOverlay'' FString],
          Maybe ''handshaking.toClient.SlotComponent.data.allowedEntities'' [
            Holder_Set ''handshaking.toClient.SlotComponent.data.allowedEntities'' [
              Field ''handshaking.toClient.SlotComponent.data.allowedEntities.ids[]'' FVarInt]],
          Field ''handshaking.toClient.SlotComponent.data.dispensable'' FBool,
          Field ''handshaking.toClient.SlotComponent.data.swappable'' FBool,
          Field ''handshaking.toClient.SlotComponent.data.damageable'' FBool,
          Field ''handshaking.toClient.SlotComponent.data.equipOnInteract'' FBool,
          Field ''handshaking.toClient.SlotComponent.data.shearable'' FBool,
          Holder ''handshaking.toClient.SlotComponent.data.shearingSound'' [
            Field ''handshaking.toClient.SlotComponent.data.shearingSound.inline.soundName'' FString,
            Maybe ''handshaking.toClient.SlotComponent.data.shearingSound.inline.fixedRange'' [
              Field ''handshaking.toClient.SlotComponent.data.shearingSound.inline.fixedRange'' FF32]]]),
        (KText ''firework_explosion'', [
          Mapped ''handshaking.toClient.SlotComponent.data.shape'' FVarInt slot_component_data_switch_firework_explosion_shape_mapper_by_wire_775 slot_component_data_switch_firework_explosion_shape_mapper_by_name_775,
          Items ''handshaking.toClient.SlotComponent.data.colors'' Prefixed [
            Field ''handshaking.toClient.SlotComponent.data.colors[]'' FI32],
          Items ''handshaking.toClient.SlotComponent.data.fadeColors'' Prefixed [
            Field ''handshaking.toClient.SlotComponent.data.fadeColors[]'' FI32],
          Field ''handshaking.toClient.SlotComponent.data.hasTrail'' FBool,
          Field ''handshaking.toClient.SlotComponent.data.hasTwinkle'' FBool]),
        (KText ''fireworks'', [
          Field ''handshaking.toClient.SlotComponent.data.flightDuration'' FVarInt,
          Items ''handshaking.toClient.SlotComponent.data.explosions'' Prefixed [
            Mapped ''handshaking.toClient.SlotComponent.data.explosions[].shape'' FVarInt slot_component_data_switch_fireworks_explosions_item_shape_mapper_by_wire_775 slot_component_data_switch_fireworks_explosions_item_shape_mapper_by_name_775,
            Items ''handshaking.toClient.SlotComponent.data.explosions[].colors'' Prefixed [
              Field ''handshaking.toClient.SlotComponent.data.explosions[].colors[]'' FI32],
            Items ''handshaking.toClient.SlotComponent.data.explosions[].fadeColors'' Prefixed [
              Field ''handshaking.toClient.SlotComponent.data.explosions[].fadeColors[]'' FI32],
            Field ''handshaking.toClient.SlotComponent.data.explosions[].hasTrail'' FBool,
            Field ''handshaking.toClient.SlotComponent.data.explosions[].hasTwinkle'' FBool]]),
        (KText ''food'', [
          Field ''handshaking.toClient.SlotComponent.data.nutrition'' FVarInt,
          Field ''handshaking.toClient.SlotComponent.data.saturationModifier'' FF32,
          Field ''handshaking.toClient.SlotComponent.data.canAlwaysEat'' FBool]),
        (KText ''fox/variant'', [
          Field ''handshaking.toClient.SlotComponent.data'' FVarInt]),
        (KText ''frog/variant'', [
          Field ''handshaking.toClient.SlotComponent.data'' FVarInt]),
        (KText ''glider'', []),
        (KText ''horse/variant'', [
          Field ''handshaking.toClient.SlotComponent.data'' FVarInt]),
        (KText ''instrument'', [
          Field ''handshaking.toClient.SlotComponent.data.hasHolder'' FBool,
          Switch ''handshaking.toClient.SlotComponent.data.hasHolder''
            [(KBool False, [
               Field ''handshaking.toClient.SlotComponent.data.data'' FString]),
             (KBool True, [
               Holder ''handshaking.toClient.SlotComponent.data.data'' [
                 Holder ''handshaking.toClient.SlotComponent.data.data.inline.soundEvent'' [
                   Field ''handshaking.toClient.SlotComponent.data.data.inline.soundEvent.inline.soundName'' FString,
                   Maybe ''handshaking.toClient.SlotComponent.data.data.inline.soundEvent.inline.fixedRange'' [
                     Field ''handshaking.toClient.SlotComponent.data.data.inline.soundEvent.inline.fixedRange'' FF32]],
                 Field ''handshaking.toClient.SlotComponent.data.data.inline.useDuration'' FF32,
                 Field ''handshaking.toClient.SlotComponent.data.data.inline.range'' FF32,
                 Field ''handshaking.toClient.SlotComponent.data.data.inline.description'' FAnonymousNBT]])]
            []]),
        (KText ''intangible_projectile'', []),
        (KText ''item_model'', [
          Field ''handshaking.toClient.SlotComponent.data'' FString]),
        (KText ''item_name'', [
          Field ''handshaking.toClient.SlotComponent.data'' FAnonymousNBT]),
        (KText ''jukebox_playable'', [
          Field ''handshaking.toClient.SlotComponent.data.hasHolder'' FBool,
          Switch ''handshaking.toClient.SlotComponent.data.hasHolder''
            [(KBool False, [
               Field ''handshaking.toClient.SlotComponent.data.song'' FString]),
             (KBool True, [
               Holder ''handshaking.toClient.SlotComponent.data.song'' [
                 Holder ''handshaking.toClient.SlotComponent.data.song.inline.soundEvent'' [
                   Field ''handshaking.toClient.SlotComponent.data.song.inline.soundEvent.inline.soundName'' FString,
                   Maybe ''handshaking.toClient.SlotComponent.data.song.inline.soundEvent.inline.fixedRange'' [
                     Field ''handshaking.toClient.SlotComponent.data.song.inline.soundEvent.inline.fixedRange'' FF32]],
                 Field ''handshaking.toClient.SlotComponent.data.song.inline.description'' FAnonymousNBT,
                 Field ''handshaking.toClient.SlotComponent.data.song.inline.lengthInSeconds'' FF32,
                 Field ''handshaking.toClient.SlotComponent.data.song.inline.comparatorOutput'' FVarInt]])]
            []]),
        (KText ''kinetic_weapon'', [
          Field ''handshaking.toClient.SlotComponent.data.contactCooldownTicks'' FVarInt,
          Field ''handshaking.toClient.SlotComponent.data.delayTicks'' FVarInt,
          Maybe ''handshaking.toClient.SlotComponent.data.dismountConditions'' [
            Field ''handshaking.toClient.SlotComponent.data.dismountConditions.maxDurationTicks'' FVarInt,
            Field ''handshaking.toClient.SlotComponent.data.dismountConditions.minSpeed'' FF32,
            Field ''handshaking.toClient.SlotComponent.data.dismountConditions.minRelativeSpeed'' FF32],
          Maybe ''handshaking.toClient.SlotComponent.data.knockbackConditions'' [
            Field ''handshaking.toClient.SlotComponent.data.knockbackConditions.maxDurationTicks'' FVarInt,
            Field ''handshaking.toClient.SlotComponent.data.knockbackConditions.minSpeed'' FF32,
            Field ''handshaking.toClient.SlotComponent.data.knockbackConditions.minRelativeSpeed'' FF32],
          Maybe ''handshaking.toClient.SlotComponent.data.damageConditions'' [
            Field ''handshaking.toClient.SlotComponent.data.damageConditions.maxDurationTicks'' FVarInt,
            Field ''handshaking.toClient.SlotComponent.data.damageConditions.minSpeed'' FF32,
            Field ''handshaking.toClient.SlotComponent.data.damageConditions.minRelativeSpeed'' FF32],
          Field ''handshaking.toClient.SlotComponent.data.forwardMovement'' FF32,
          Field ''handshaking.toClient.SlotComponent.data.damageMultiplier'' FF32,
          Maybe ''handshaking.toClient.SlotComponent.data.sound'' [
            Holder ''handshaking.toClient.SlotComponent.data.sound'' [
              Field ''handshaking.toClient.SlotComponent.data.sound.inline.soundName'' FString,
              Maybe ''handshaking.toClient.SlotComponent.data.sound.inline.fixedRange'' [
                Field ''handshaking.toClient.SlotComponent.data.sound.inline.fixedRange'' FF32]]],
          Maybe ''handshaking.toClient.SlotComponent.data.hitSound'' [
            Holder ''handshaking.toClient.SlotComponent.data.hitSound'' [
              Field ''handshaking.toClient.SlotComponent.data.hitSound.inline.soundName'' FString,
              Maybe ''handshaking.toClient.SlotComponent.data.hitSound.inline.fixedRange'' [
                Field ''handshaking.toClient.SlotComponent.data.hitSound.inline.fixedRange'' FF32]]]]),
        (KText ''llama/variant'', [
          Field ''handshaking.toClient.SlotComponent.data'' FVarInt]),
        (KText ''lock'', [
          Field ''handshaking.toClient.SlotComponent.data'' FAnonymousNBT]),
        (KText ''lodestone_tracker'', [
          Maybe ''handshaking.toClient.SlotComponent.data.globalPosition'' [
            Field ''handshaking.toClient.SlotComponent.data.globalPosition.dimensionName'' FString,
            Bits ''handshaking.toClient.SlotComponent.data.globalPosition.location'' FU64
              [bits ''x'' 38 26 True,
               bits ''z'' 12 26 True,
               bits ''y'' 0 12 True]],
          Field ''handshaking.toClient.SlotComponent.data.tracked'' FBool]),
        (KText ''lore'', [
          Items ''handshaking.toClient.SlotComponent.data'' Prefixed [
            Field ''handshaking.toClient.SlotComponent.data[]'' FAnonymousNBT]]),
        (KText ''map_color'', [
          Field ''handshaking.toClient.SlotComponent.data'' FI32]),
        (KText ''map_decorations'', [
          Field ''handshaking.toClient.SlotComponent.data'' FAnonymousNBT]),
        (KText ''map_id'', [
          Field ''handshaking.toClient.SlotComponent.data'' FVarInt]),
        (KText ''map_post_processing'', [
          Field ''handshaking.toClient.SlotComponent.data'' FVarInt]),
        (KText ''max_damage'', [
          Field ''handshaking.toClient.SlotComponent.data'' FVarInt]),
        (KText ''max_stack_size'', [
          Field ''handshaking.toClient.SlotComponent.data'' FVarInt]),
        (KText ''minimum_attack_charge'', [
          Field ''handshaking.toClient.SlotComponent.data'' FF32]),
        (KText ''mooshroom/variant'', [
          Field ''handshaking.toClient.SlotComponent.data'' FVarInt]),
        (KText ''note_block_sound'', [
          Field ''handshaking.toClient.SlotComponent.data'' FString]),
        (KText ''ominous_bottle_amplifier'', [
          Field ''handshaking.toClient.SlotComponent.data'' FVarInt]),
        (KText ''painting/variant'', [
          Holder ''handshaking.toClient.SlotComponent.data'' [
            Field ''handshaking.toClient.SlotComponent.data.inline.width'' FI32,
            Field ''handshaking.toClient.SlotComponent.data.inline.height'' FI32,
            Field ''handshaking.toClient.SlotComponent.data.inline.assetId'' FString,
            Maybe ''handshaking.toClient.SlotComponent.data.inline.title'' [
              Field ''handshaking.toClient.SlotComponent.data.inline.title'' FAnonymousNBT],
            Maybe ''handshaking.toClient.SlotComponent.data.inline.author'' [
              Field ''handshaking.toClient.SlotComponent.data.inline.author'' FAnonymousNBT]]]),
        (KText ''parrot/variant'', [
          Field ''handshaking.toClient.SlotComponent.data'' FVarInt]),
        (KText ''piercing_weapon'', [
          Field ''handshaking.toClient.SlotComponent.data.dealsKnockback'' FBool,
          Field ''handshaking.toClient.SlotComponent.data.dismounts'' FBool,
          Maybe ''handshaking.toClient.SlotComponent.data.sound'' [
            Holder ''handshaking.toClient.SlotComponent.data.sound'' [
              Field ''handshaking.toClient.SlotComponent.data.sound.inline.soundName'' FString,
              Maybe ''handshaking.toClient.SlotComponent.data.sound.inline.fixedRange'' [
                Field ''handshaking.toClient.SlotComponent.data.sound.inline.fixedRange'' FF32]]],
          Maybe ''handshaking.toClient.SlotComponent.data.hitSound'' [
            Holder ''handshaking.toClient.SlotComponent.data.hitSound'' [
              Field ''handshaking.toClient.SlotComponent.data.hitSound.inline.soundName'' FString,
              Maybe ''handshaking.toClient.SlotComponent.data.hitSound.inline.fixedRange'' [
                Field ''handshaking.toClient.SlotComponent.data.hitSound.inline.fixedRange'' FF32]]]]),
        (KText ''pig/sound_variant'', [
          Field ''handshaking.toClient.SlotComponent.data'' FVarInt]),
        (KText ''pig/variant'', [
          Field ''handshaking.toClient.SlotComponent.data'' FVarInt]),
        (KText ''pot_decorations'', [
          Items ''handshaking.toClient.SlotComponent.data.decorations'' Prefixed [
            Field ''handshaking.toClient.SlotComponent.data.decorations[]'' FVarInt]]),
        (KText ''potion_contents'', [
          Maybe ''handshaking.toClient.SlotComponent.data.potionId'' [
            Field ''handshaking.toClient.SlotComponent.data.potionId'' FVarInt],
          Maybe ''handshaking.toClient.SlotComponent.data.customColor'' [
            Field ''handshaking.toClient.SlotComponent.data.customColor'' FI32],
          Items ''handshaking.toClient.SlotComponent.data.customEffects'' Prefixed [
            Field ''handshaking.toClient.SlotComponent.data.customEffects[].id'' FVarInt,
            Shared ''Data.PotionContents.CustomEffects.Details'' ''ItemEffectDetail''],
          Maybe ''handshaking.toClient.SlotComponent.data.customName'' [
            Field ''handshaking.toClient.SlotComponent.data.customName'' FString]]),
        (KText ''potion_duration_scale'', [
          Field ''handshaking.toClient.SlotComponent.data'' FF32]),
        (KText ''profile'', [
          Mapped ''handshaking.toClient.SlotComponent.data.type'' FVarInt slot_component_data_switch_profile_type_mapper_by_wire_775 slot_component_data_switch_profile_type_mapper_by_name_775,
          Switch ''handshaking.toClient.SlotComponent.data.type''
            [(KText ''complete'', [
               Field ''handshaking.toClient.SlotComponent.data.anonymousSwitch1.uuid'' FUUID,
               Field ''handshaking.toClient.SlotComponent.data.anonymousSwitch1.name'' FString,
               Items ''handshaking.toClient.SlotComponent.data.anonymousSwitch1.properties'' Prefixed [
                 Field ''handshaking.toClient.SlotComponent.data.anonymousSwitch1.properties[].name'' FString,
                 Field ''handshaking.toClient.SlotComponent.data.anonymousSwitch1.properties[].value'' FString,
                 Maybe ''handshaking.toClient.SlotComponent.data.anonymousSwitch1.properties[].signature'' [
                   Field ''handshaking.toClient.SlotComponent.data.anonymousSwitch1.properties[].signature'' FString]]]),
             (KText ''partial'', [
               Maybe ''handshaking.toClient.SlotComponent.data.anonymousSwitch1.name'' [
                 Field ''handshaking.toClient.SlotComponent.data.anonymousSwitch1.name'' FString],
               Maybe ''handshaking.toClient.SlotComponent.data.anonymousSwitch1.uuid'' [
                 Field ''handshaking.toClient.SlotComponent.data.anonymousSwitch1.uuid'' FUUID],
               Items ''handshaking.toClient.SlotComponent.data.anonymousSwitch1.properties'' Prefixed [
                 Field ''handshaking.toClient.SlotComponent.data.anonymousSwitch1.properties[].name'' FString,
                 Field ''handshaking.toClient.SlotComponent.data.anonymousSwitch1.properties[].value'' FString,
                 Maybe ''handshaking.toClient.SlotComponent.data.anonymousSwitch1.properties[].signature'' [
                   Field ''handshaking.toClient.SlotComponent.data.anonymousSwitch1.properties[].signature'' FString]]])]
            [],
          Maybe ''handshaking.toClient.SlotComponent.data.skinPatch.body'' [
            Field ''handshaking.toClient.SlotComponent.data.skinPatch.body'' FString],
          Maybe ''handshaking.toClient.SlotComponent.data.skinPatch.cape'' [
            Field ''handshaking.toClient.SlotComponent.data.skinPatch.cape'' FString],
          Maybe ''handshaking.toClient.SlotComponent.data.skinPatch.elytra'' [
            Field ''handshaking.toClient.SlotComponent.data.skinPatch.elytra'' FString],
          Maybe ''handshaking.toClient.SlotComponent.data.skinPatch.model'' [
            Mapped ''handshaking.toClient.SlotComponent.data.skinPatch.model'' FVarInt slot_component_data_switch_profile_skin_patch_model_value_mapper_by_wire_775 slot_component_data_switch_profile_skin_patch_model_value_mapper_by_name_775]]),
        (KText ''provides_banner_patterns'', [
          Field ''handshaking.toClient.SlotComponent.data'' FString]),
        (KText ''provides_trim_material'', [
          Field ''handshaking.toClient.SlotComponent.data.hasHolder'' FBool,
          Switch ''handshaking.toClient.SlotComponent.data.hasHolder''
            [(KBool False, [
               Field ''handshaking.toClient.SlotComponent.data.material'' FString]),
             (KBool True, [
               Holder ''handshaking.toClient.SlotComponent.data.material'' [
                 Field ''handshaking.toClient.SlotComponent.data.material.inline.assetBase'' FString,
                 Items ''handshaking.toClient.SlotComponent.data.material.inline.overrideArmorAssets'' Prefixed [
                   Field ''handshaking.toClient.SlotComponent.data.material.inline.overrideArmorAssets[].key'' FString,
                   Field ''handshaking.toClient.SlotComponent.data.material.inline.overrideArmorAssets[].value'' FString],
                 Field ''handshaking.toClient.SlotComponent.data.material.inline.description'' FAnonymousNBT]])]
            []]),
        (KText ''rabbit/variant'', [
          Field ''handshaking.toClient.SlotComponent.data'' FVarInt]),
        (KText ''rarity'', [
          Mapped ''handshaking.toClient.SlotComponent.data'' FVarInt slot_component_data_switch_rarity_mapper_by_wire_775 slot_component_data_switch_rarity_mapper_by_name_775]),
        (KText ''recipes'', [
          Field ''handshaking.toClient.SlotComponent.data'' FAnonymousNBT]),
        (KText ''repair_cost'', [
          Field ''handshaking.toClient.SlotComponent.data'' FVarInt]),
        (KText ''repairable'', [
          Holder_Set ''handshaking.toClient.SlotComponent.data.items'' [
            Field ''handshaking.toClient.SlotComponent.data.items.ids[]'' FVarInt]]),
        (KText ''salmon/size'', [
          Field ''handshaking.toClient.SlotComponent.data'' FVarInt]),
        (KText ''sheep/color'', [
          Mapped ''handshaking.toClient.SlotComponent.data'' FVarInt slot_component_data_switch_sheep_color_mapper_by_wire_775 slot_component_data_switch_sheep_color_mapper_by_name_775]),
        (KText ''shulker/color'', [
          Mapped ''handshaking.toClient.SlotComponent.data'' FVarInt slot_component_data_switch_shulker_color_mapper_by_wire_775 slot_component_data_switch_shulker_color_mapper_by_name_775]),
        (KText ''stored_enchantments'', [
          Items ''handshaking.toClient.SlotComponent.data.enchantments'' Prefixed [
            Field ''handshaking.toClient.SlotComponent.data.enchantments[].id'' FVarInt,
            Field ''handshaking.toClient.SlotComponent.data.enchantments[].level'' FVarInt]]),
        (KText ''suspicious_stew_effects'', [
          Items ''handshaking.toClient.SlotComponent.data.effects'' Prefixed [
            Field ''handshaking.toClient.SlotComponent.data.effects[].effect'' FVarInt,
            Field ''handshaking.toClient.SlotComponent.data.effects[].duration'' FVarInt]]),
        (KText ''swing_animation'', [
          Mapped ''handshaking.toClient.SlotComponent.data.type'' FVarInt slot_component_data_switch_swing_animation_type_mapper_by_wire_775 slot_component_data_switch_swing_animation_type_mapper_by_name_775,
          Field ''handshaking.toClient.SlotComponent.data.duration'' FVarInt]),
        (KText ''tool'', [
          Items ''handshaking.toClient.SlotComponent.data.rules'' Prefixed [
            Holder_Set ''handshaking.toClient.SlotComponent.data.rules[].blocks'' [
              Field ''handshaking.toClient.SlotComponent.data.rules[].blocks.ids[]'' FVarInt],
            Maybe ''handshaking.toClient.SlotComponent.data.rules[].speed'' [
              Field ''handshaking.toClient.SlotComponent.data.rules[].speed'' FF32],
            Maybe ''handshaking.toClient.SlotComponent.data.rules[].correctDropForBlocks'' [
              Field ''handshaking.toClient.SlotComponent.data.rules[].correctDropForBlocks'' FBool]],
          Field ''handshaking.toClient.SlotComponent.data.defaultMiningSpeed'' FF32,
          Field ''handshaking.toClient.SlotComponent.data.damagePerBlock'' FVarInt,
          Field ''handshaking.toClient.SlotComponent.data.canDestroyBlocksInCreative'' FBool]),
        (KText ''tooltip_display'', [
          Field ''handshaking.toClient.SlotComponent.data.hideTooltip'' FBool,
          Items ''handshaking.toClient.SlotComponent.data.hiddenComponents'' Prefixed [
            Field ''handshaking.toClient.SlotComponent.data.hiddenComponents[]'' FVarInt]]),
        (KText ''tooltip_style'', [
          Field ''handshaking.toClient.SlotComponent.data'' FString]),
        (KText ''trim'', [
          Holder ''handshaking.toClient.SlotComponent.data.material'' [
            Field ''handshaking.toClient.SlotComponent.data.material.inline.assetBase'' FString,
            Items ''handshaking.toClient.SlotComponent.data.material.inline.overrideArmorAssets'' Prefixed [
              Field ''handshaking.toClient.SlotComponent.data.material.inline.overrideArmorAssets[].key'' FString,
              Field ''handshaking.toClient.SlotComponent.data.material.inline.overrideArmorAssets[].value'' FString],
            Field ''handshaking.toClient.SlotComponent.data.material.inline.description'' FAnonymousNBT],
          Holder ''handshaking.toClient.SlotComponent.data.pattern'' [
            Field ''handshaking.toClient.SlotComponent.data.pattern.inline.assetId'' FString,
            Field ''handshaking.toClient.SlotComponent.data.pattern.inline.description'' FAnonymousNBT,
            Field ''handshaking.toClient.SlotComponent.data.pattern.inline.decal'' FBool]]),
        (KText ''tropical_fish/base_color'', [
          Mapped ''handshaking.toClient.SlotComponent.data'' FVarInt slot_component_data_switch_tropical_fish_base_color_mapper_by_wire_775 slot_component_data_switch_tropical_fish_base_color_mapper_by_name_775]),
        (KText ''tropical_fish/pattern'', [
          Field ''handshaking.toClient.SlotComponent.data'' FVarInt]),
        (KText ''tropical_fish/pattern_color'', [
          Mapped ''handshaking.toClient.SlotComponent.data'' FVarInt slot_component_data_switch_tropical_fish_pattern_color_mapper_by_wire_775 slot_component_data_switch_tropical_fish_pattern_color_mapper_by_name_775]),
        (KText ''unbreakable'', []),
        (KText ''use_cooldown'', [
          Field ''handshaking.toClient.SlotComponent.data.seconds'' FF32,
          Maybe ''handshaking.toClient.SlotComponent.data.cooldownGroup'' [
            Field ''handshaking.toClient.SlotComponent.data.cooldownGroup'' FString]]),
        (KText ''use_effects'', [
          Field ''handshaking.toClient.SlotComponent.data.can_sprint'' FBool,
          Field ''handshaking.toClient.SlotComponent.data.interact_vibrations'' FBool,
          Field ''handshaking.toClient.SlotComponent.data.speed_multiplier'' FF32]),
        (KText ''use_remainder'', [
          Shared ''Data.UseRemainder'' ''Slot'']),
        (KText ''villager/variant'', [
          Field ''handshaking.toClient.SlotComponent.data'' FVarInt]),
        (KText ''weapon'', [
          Field ''handshaking.toClient.SlotComponent.data.itemDamagePerAttack'' FVarInt,
          Field ''handshaking.toClient.SlotComponent.data.disableBlockingForSeconds'' FF32]),
        (KText ''wolf/collar'', [
          Mapped ''handshaking.toClient.SlotComponent.data'' FVarInt slot_component_data_switch_wolf_collar_mapper_by_wire_775 slot_component_data_switch_wolf_collar_mapper_by_name_775]),
        (KText ''wolf/sound_variant'', [
          Field ''handshaking.toClient.SlotComponent.data'' FVarInt]),
        (KText ''wolf/variant'', [
          Field ''handshaking.toClient.SlotComponent.data'' FVarInt]),
        (KText ''writable_book_content'', [
          Items ''handshaking.toClient.SlotComponent.data.pages'' Prefixed [
            Field ''handshaking.toClient.SlotComponent.data.pages[].content'' FString,
            Maybe ''handshaking.toClient.SlotComponent.data.pages[].filteredContent'' [
              Field ''handshaking.toClient.SlotComponent.data.pages[].filteredContent'' FString]]]),
        (KText ''written_book_content'', [
          Field ''handshaking.toClient.SlotComponent.data.rawTitle'' FString,
          Maybe ''handshaking.toClient.SlotComponent.data.filteredTitle'' [
            Field ''handshaking.toClient.SlotComponent.data.filteredTitle'' FString],
          Field ''handshaking.toClient.SlotComponent.data.author'' FString,
          Field ''handshaking.toClient.SlotComponent.data.generation'' FVarInt,
          Items ''handshaking.toClient.SlotComponent.data.pages'' Prefixed [
            Field ''handshaking.toClient.SlotComponent.data.pages[].content'' FAnonymousNBT,
            Field ''handshaking.toClient.SlotComponent.data.pages[].filteredContent'' FAnonOptionalNBT],
          Field ''handshaking.toClient.SlotComponent.data.resolved'' FBool]),
        (KText ''zombie_nautilus/variant'', [
          Holder ''handshaking.toClient.SlotComponent.data'' [
            Field ''handshaking.toClient.SlotComponent.data.inline'' FString]])]
       []])"

definition armor_trim_material_775 :: "string \<times> schema list" where
  "armor_trim_material_775 = (''ArmorTrimMaterial'', [
     Field ''play.toClient.ArmorTrimMaterial.assetBase'' FString,
     Items ''play.toClient.ArmorTrimMaterial.overrideArmorAssets'' Prefixed [
       Field ''play.toClient.ArmorTrimMaterial.overrideArmorAssets[].key'' FString,
       Field ''play.toClient.ArmorTrimMaterial.overrideArmorAssets[].value'' FString],
     Field ''play.toClient.ArmorTrimMaterial.description'' FAnonymousNBT])"

definition armor_trim_pattern_775 :: "string \<times> schema list" where
  "armor_trim_pattern_775 = (''ArmorTrimPattern'', [
     Field ''play.toClient.ArmorTrimPattern.assetId'' FString,
     Field ''play.toClient.ArmorTrimPattern.description'' FAnonymousNBT,
     Field ''play.toClient.ArmorTrimPattern.decal'' FBool])"

definition banner_pattern_775 :: "string \<times> schema list" where
  "banner_pattern_775 = (''BannerPattern'', [
     Field ''play.toClient.BannerPattern.assetId'' FString,
     Field ''play.toClient.BannerPattern.translationKey'' FString])"

definition banner_pattern_layer_775 :: "string \<times> schema list" where
  "banner_pattern_layer_775 = (''BannerPatternLayer'', [
     Holder ''play.toClient.BannerPatternLayer.pattern'' [
       Shared ''Pattern.Inline'' ''BannerPattern''],
     Field ''play.toClient.BannerPatternLayer.colorId'' FVarInt])"

definition byte_array_775 :: "string \<times> schema list" where
  "byte_array_775 = (''ByteArray'', [
     Field ''play.toClient.ByteArray'' FByteArray])"

definition chat_type_775 :: "string \<times> schema list" where
  "chat_type_775 = (''ChatType'', [
     Field ''play.toClient.ChatType.translationKey'' FString,
     Items ''play.toClient.ChatType.parameters'' Prefixed [
       Shared ''Parameters'' ''ChatTypeParameterType''],
     Field ''play.toClient.ChatType.style'' FAnonymousNBT])"

definition chat_type_parameter_type_775 :: "string \<times> schema list" where
  "chat_type_parameter_type_775 = (''ChatTypeParameterType'', [
     Mapped ''play.toClient.ChatTypeParameterType'' FVarInt chat_type_parameter_type_mapper_by_wire_775 chat_type_parameter_type_mapper_by_name_775])"

definition chat_types_775 :: "string \<times> schema list" where
  "chat_types_775 = (''ChatTypes'', [
     Shared ''Chat'' ''ChatType'',
     Shared ''Narration'' ''ChatType''])"

definition chat_types_holder_775 :: "string \<times> schema list" where
  "chat_types_holder_775 = (''ChatTypesHolder'', [
     Holder ''play.toClient.ChatTypesHolder'' [
       Shared ''Inline'' ''ChatTypes'']])"

definition damage_type_data_775 :: "string \<times> schema list" where
  "damage_type_data_775 = (''DamageTypeData'', [
     Field ''play.toClient.DamageTypeData.msgId'' FString,
     Mapped ''play.toClient.DamageTypeData.scaling'' FVarInt damage_type_data_scaling_mapper_by_wire_775 damage_type_data_scaling_mapper_by_name_775,
     Field ''play.toClient.DamageTypeData.exhaustion'' FF32,
     Mapped ''play.toClient.DamageTypeData.effects'' FVarInt damage_type_data_effects_mapper_by_wire_775 damage_type_data_effects_mapper_by_name_775,
     Mapped ''play.toClient.DamageTypeData.deathMessageType'' FVarInt damage_type_data_death_message_type_mapper_by_wire_775 damage_type_data_death_message_type_mapper_by_name_775])"

definition debug_structure_info_775 :: "string \<times> schema list" where
  "debug_structure_info_775 = (''DebugStructureInfo'', [
     Shared ''BoundingBoxMin'' ''Position'',
     Shared ''BoundingBoxMax'' ''Position'',
     Items ''play.toClient.DebugStructureInfo.pieces'' Prefixed [
       Shared ''Pieces.BoundingBoxMin'' ''Position'',
       Shared ''Pieces.BoundingBoxMax'' ''Position'',
       Field ''play.toClient.DebugStructureInfo.pieces[].isStart'' FBool]])"

definition debug_subscription_data_type_775 :: "string \<times> schema list" where
  "debug_subscription_data_type_775 = (''DebugSubscriptionDataType'', [
     Mapped ''play.toClient.DebugSubscriptionDataType'' FVarInt debug_subscription_data_type_mapper_by_wire_775 debug_subscription_data_type_mapper_by_name_775])"

definition debug_subscription_update_775 :: "string \<times> schema list" where
  "debug_subscription_update_775 = (''DebugSubscriptionUpdate'', [
     Shared ''Type'' ''DebugSubscriptionDataType'',
     Switch ''Type''
       [(KText ''DedicatedServerTickTime'', [])]
       [
        Maybe ''play.toClient.DebugSubscriptionUpdate.anonymousSwitch1.payload'' [
          Switch ''Type''
            [(KText ''BeeHives'', [
               Field ''play.toClient.DebugSubscriptionUpdate.anonymousSwitch1.payload.type'' FVarInt,
               Field ''play.toClient.DebugSubscriptionUpdate.anonymousSwitch1.payload.occupantCount'' FVarInt,
               Field ''play.toClient.DebugSubscriptionUpdate.anonymousSwitch1.payload.honeyLevel'' FVarInt,
               Field ''play.toClient.DebugSubscriptionUpdate.anonymousSwitch1.payload.sedated'' FBool]),
             (KText ''Bees'', [
               Maybe ''play.toClient.DebugSubscriptionUpdate.anonymousSwitch1.payload.hivePos'' [
                 Shared ''AnonymousSwitch1.Default.Payload.Bees.HivePos'' ''Position''],
               Maybe ''play.toClient.DebugSubscriptionUpdate.anonymousSwitch1.payload.flowerPos'' [
                 Shared ''AnonymousSwitch1.Default.Payload.Bees.FlowerPos'' ''Position''],
               Field ''play.toClient.DebugSubscriptionUpdate.anonymousSwitch1.payload.travelTicks'' FVarInt,
               Items ''play.toClient.DebugSubscriptionUpdate.anonymousSwitch1.payload.blacklistedHives'' Prefixed [
                 Shared ''AnonymousSwitch1.Default.Payload.Bees.BlacklistedHives'' ''Position'']]),
             (KText ''Brains'', [
               Field ''play.toClient.DebugSubscriptionUpdate.anonymousSwitch1.payload.name'' FString,
               Field ''play.toClient.DebugSubscriptionUpdate.anonymousSwitch1.payload.profession'' FString,
               Field ''play.toClient.DebugSubscriptionUpdate.anonymousSwitch1.payload.xp'' FI32,
               Field ''play.toClient.DebugSubscriptionUpdate.anonymousSwitch1.payload.health'' FF32,
               Field ''play.toClient.DebugSubscriptionUpdate.anonymousSwitch1.payload.maxHealth'' FF32,
               Field ''play.toClient.DebugSubscriptionUpdate.anonymousSwitch1.payload.inventory'' FString,
               Field ''play.toClient.DebugSubscriptionUpdate.anonymousSwitch1.payload.wantsGolem'' FBool,
               Field ''play.toClient.DebugSubscriptionUpdate.anonymousSwitch1.payload.angerLevel'' FI32,
               Items ''play.toClient.DebugSubscriptionUpdate.anonymousSwitch1.payload.activities'' Prefixed [
                 Field ''play.toClient.DebugSubscriptionUpdate.anonymousSwitch1.payload.activities[]'' FString],
               Items ''play.toClient.DebugSubscriptionUpdate.anonymousSwitch1.payload.behaviors'' Prefixed [
                 Field ''play.toClient.DebugSubscriptionUpdate.anonymousSwitch1.payload.behaviors[]'' FString],
               Items ''play.toClient.DebugSubscriptionUpdate.anonymousSwitch1.payload.memories'' Prefixed [
                 Field ''play.toClient.DebugSubscriptionUpdate.anonymousSwitch1.payload.memories[]'' FString],
               Items ''play.toClient.DebugSubscriptionUpdate.anonymousSwitch1.payload.gossips'' Prefixed [
                 Field ''play.toClient.DebugSubscriptionUpdate.anonymousSwitch1.payload.gossips[]'' FString],
               Items ''play.toClient.DebugSubscriptionUpdate.anonymousSwitch1.payload.pois'' Prefixed [
                 Shared ''AnonymousSwitch1.Default.Payload.Brains.Pois'' ''Position''],
               Items ''play.toClient.DebugSubscriptionUpdate.anonymousSwitch1.payload.potentialPois'' Prefixed [
                 Shared ''AnonymousSwitch1.Default.Payload.Brains.PotentialPois'' ''Position'']]),
             (KText ''Breezes'', [
               Maybe ''play.toClient.DebugSubscriptionUpdate.anonymousSwitch1.payload.attackTarget'' [
                 Field ''play.toClient.DebugSubscriptionUpdate.anonymousSwitch1.payload.attackTarget'' FVarInt],
               Maybe ''play.toClient.DebugSubscriptionUpdate.anonymousSwitch1.payload.jumpTarget'' [
                 Shared ''AnonymousSwitch1.Default.Payload.Breezes.JumpTarget'' ''Position'']]),
             (KText ''DedicatedServerTickTime'', []),
             (KText ''EntityBlockIntersections'', [
               Field ''play.toClient.DebugSubscriptionUpdate.anonymousSwitch1.payload.id'' FVarInt]),
             (KText ''EntityPaths'', [
               Shared ''AnonymousSwitch1.Default.Payload.EntityPaths.Path'' ''Path'',
               Field ''play.toClient.DebugSubscriptionUpdate.anonymousSwitch1.payload.maxNodeDistance'' FF32]),
             (KText ''GameEventListeners'', [
               Field ''play.toClient.DebugSubscriptionUpdate.anonymousSwitch1.payload.listenerRadius'' FVarInt]),
             (KText ''GameEvents'', [
               Field ''play.toClient.DebugSubscriptionUpdate.anonymousSwitch1.payload.event'' FVarInt,
               Shared ''AnonymousSwitch1.Default.Payload.GameEvents.Pos'' ''Vec3f64'']),
             (KText ''GoalSelectors'', [
               Items ''play.toClient.DebugSubscriptionUpdate.anonymousSwitch1.payload.goals'' Prefixed [
                 Field ''play.toClient.DebugSubscriptionUpdate.anonymousSwitch1.payload.goals[].priority'' FVarInt,
                 Field ''play.toClient.DebugSubscriptionUpdate.anonymousSwitch1.payload.goals[].running'' FBool,
                 Field ''play.toClient.DebugSubscriptionUpdate.anonymousSwitch1.payload.goals[].name'' FString]]),
             (KText ''NeighborUpdates'', [
               Shared ''AnonymousSwitch1.Default.Payload.NeighborUpdates.Pos'' ''Position'']),
             (KText ''Pois'', [
               Shared ''AnonymousSwitch1.Default.Payload.Pois.Pos'' ''Position'',
               Field ''play.toClient.DebugSubscriptionUpdate.anonymousSwitch1.payload.poiType'' FVarInt,
               Field ''play.toClient.DebugSubscriptionUpdate.anonymousSwitch1.payload.freeTicketCount'' FVarInt]),
             (KText ''Raids'', [
               Items ''play.toClient.DebugSubscriptionUpdate.anonymousSwitch1.payload.positions'' Prefixed [
                 Shared ''AnonymousSwitch1.Default.Payload.Raids.Positions'' ''Position'']]),
             (KText ''RedstoneWireOrientations'', [
               Field ''play.toClient.DebugSubscriptionUpdate.anonymousSwitch1.payload.index'' FVarInt]),
             (KText ''Structures'', [
               Items ''play.toClient.DebugSubscriptionUpdate.anonymousSwitch1.payload.structures'' Prefixed [
                 Shared ''AnonymousSwitch1.Default.Payload.Structures.Structures'' ''DebugStructureInfo'']]),
             (KText ''VillageSections'', [])]
            []]]])"

definition dye_color_775 :: "string \<times> schema list" where
  "dye_color_775 = (''DyeColor'', [
     Mapped ''play.toClient.DyeColor'' FVarInt dye_color_mapper_by_wire_775 dye_color_mapper_by_name_775])"

definition entity_metadata_painting_variant_775 :: "string \<times> schema list" where
  "entity_metadata_painting_variant_775 = (''EntityMetadataPaintingVariant'', [
     Field ''play.toClient.EntityMetadataPaintingVariant.width'' FI32,
     Field ''play.toClient.EntityMetadataPaintingVariant.height'' FI32,
     Field ''play.toClient.EntityMetadataPaintingVariant.assetId'' FString,
     Maybe ''play.toClient.EntityMetadataPaintingVariant.title'' [
       Field ''play.toClient.EntityMetadataPaintingVariant.title'' FAnonymousNBT],
     Maybe ''play.toClient.EntityMetadataPaintingVariant.author'' [
       Field ''play.toClient.EntityMetadataPaintingVariant.author'' FAnonymousNBT]])"

definition game_profile_775 :: "string \<times> schema list" where
  "game_profile_775 = (''GameProfile'', [
     Field ''play.toClient.GameProfile.uuid'' FUUID,
     Field ''play.toClient.GameProfile.name'' FString,
     Items ''play.toClient.GameProfile.properties'' Prefixed [
       Shared ''Properties'' ''GameProfileProperty'']])"

definition game_profile_property_775 :: "string \<times> schema list" where
  "game_profile_property_775 = (''GameProfileProperty'', [
     Field ''play.toClient.GameProfileProperty.name'' FString,
     Field ''play.toClient.GameProfileProperty.value'' FString,
     Maybe ''play.toClient.GameProfileProperty.signature'' [
       Field ''play.toClient.GameProfileProperty.signature'' FString]])"

definition global_pos_775 :: "string \<times> schema list" where
  "global_pos_775 = (''GlobalPos'', [
     Field ''play.toClient.GlobalPos.dimensionName'' FString,
     Shared ''Location'' ''Position''])"

definition id_set_775 :: "string \<times> schema list" where
  "id_set_775 = (''IDSet'', [
     Holder_Set ''play.toClient.IDSet'' [
       Field ''play.toClient.IDSet.ids[]'' FVarInt]])"

definition instrument_data_775 :: "string \<times> schema list" where
  "instrument_data_775 = (''InstrumentData'', [
     Shared ''SoundEvent'' ''ItemSoundHolder'',
     Field ''play.toClient.InstrumentData.useDuration'' FF32,
     Field ''play.toClient.InstrumentData.range'' FF32,
     Field ''play.toClient.InstrumentData.description'' FAnonymousNBT])"

definition item_block_property_775 :: "string \<times> schema list" where
  "item_block_property_775 = (''ItemBlockProperty'', [
     Field ''play.toClient.ItemBlockProperty.name'' FString,
     Field ''play.toClient.ItemBlockProperty.isExactMatch'' FBool,
     Switch ''play.toClient.ItemBlockProperty.isExactMatch''
       [(KBool False, [
          Field ''play.toClient.ItemBlockProperty.value.minValue'' FString,
          Field ''play.toClient.ItemBlockProperty.value.maxValue'' FString]),
        (KBool True, [
          Field ''play.toClient.ItemBlockProperty.value.exactValue'' FString])]
       []])"

definition item_book_page_775 :: "string \<times> schema list" where
  "item_book_page_775 = (''ItemBookPage'', [
     Field ''play.toClient.ItemBookPage.content'' FString,
     Maybe ''play.toClient.ItemBookPage.filteredContent'' [
       Field ''play.toClient.ItemBookPage.filteredContent'' FString]])"

definition item_consume_effect_775 :: "string \<times> schema list" where
  "item_consume_effect_775 = (''ItemConsumeEffect'', [
     Mapped ''play.toClient.ItemConsumeEffect.type'' FVarInt item_consume_effect_type_mapper_by_wire_775 item_consume_effect_type_mapper_by_name_775,
     Switch ''play.toClient.ItemConsumeEffect.type''
       [(KText ''apply_effects'', [
          Items ''play.toClient.ItemConsumeEffect.anonymousSwitch1.effects'' Prefixed [
            Shared ''AnonymousSwitch1.ApplyEffects.Effects'' ''ItemPotionEffect''],
          Field ''play.toClient.ItemConsumeEffect.anonymousSwitch1.probability'' FF32]),
        (KText ''clear_all_effects'', []),
        (KText ''play_sound'', [
          Shared ''AnonymousSwitch1.PlaySound.Sound'' ''ItemSoundHolder'']),
        (KText ''remove_effects'', [
          Shared ''AnonymousSwitch1.RemoveEffects.Effects'' ''IDSet'']),
        (KText ''teleport_randomly'', [
          Field ''play.toClient.ItemConsumeEffect.anonymousSwitch1.diameter'' FF32])]
       []])"

definition item_firework_explosion_775 :: "string \<times> schema list" where
  "item_firework_explosion_775 = (''ItemFireworkExplosion'', [
     Mapped ''play.toClient.ItemFireworkExplosion.shape'' FVarInt item_firework_explosion_shape_mapper_by_wire_775 item_firework_explosion_shape_mapper_by_name_775,
     Items ''play.toClient.ItemFireworkExplosion.colors'' Prefixed [
       Field ''play.toClient.ItemFireworkExplosion.colors[]'' FI32],
     Items ''play.toClient.ItemFireworkExplosion.fadeColors'' Prefixed [
       Field ''play.toClient.ItemFireworkExplosion.fadeColors[]'' FI32],
     Field ''play.toClient.ItemFireworkExplosion.hasTrail'' FBool,
     Field ''play.toClient.ItemFireworkExplosion.hasTwinkle'' FBool])"

definition item_potion_effect_775 :: "string \<times> schema list" where
  "item_potion_effect_775 = (''ItemPotionEffect'', [
     Field ''play.toClient.ItemPotionEffect.id'' FVarInt,
     Shared ''Details'' ''ItemEffectDetail''])"

definition item_sound_event_775 :: "string \<times> schema list" where
  "item_sound_event_775 = (''ItemSoundEvent'', [
     Field ''play.toClient.ItemSoundEvent.soundName'' FString,
     Maybe ''play.toClient.ItemSoundEvent.fixedRange'' [
       Field ''play.toClient.ItemSoundEvent.fixedRange'' FF32]])"

definition item_sound_holder_775 :: "string \<times> schema list" where
  "item_sound_holder_775 = (''ItemSoundHolder'', [
     Holder ''play.toClient.ItemSoundHolder'' [
       Shared ''Inline'' ''ItemSoundEvent'']])"

definition item_written_book_page_775 :: "string \<times> schema list" where
  "item_written_book_page_775 = (''ItemWrittenBookPage'', [
     Field ''play.toClient.ItemWrittenBookPage.content'' FAnonymousNBT,
     Field ''play.toClient.ItemWrittenBookPage.filteredContent'' FAnonOptionalNBT])"

definition jukebox_song_data_775 :: "string \<times> schema list" where
  "jukebox_song_data_775 = (''JukeboxSongData'', [
     Shared ''SoundEvent'' ''ItemSoundHolder'',
     Field ''play.toClient.JukeboxSongData.description'' FAnonymousNBT,
     Field ''play.toClient.JukeboxSongData.lengthInSeconds'' FF32,
     Field ''play.toClient.JukeboxSongData.comparatorOutput'' FVarInt])"

definition kinetic_weapon_condition_775 :: "string \<times> schema list" where
  "kinetic_weapon_condition_775 = (''KineticWeaponCondition'', [
     Field ''play.toClient.KineticWeaponCondition.maxDurationTicks'' FVarInt,
     Field ''play.toClient.KineticWeaponCondition.minSpeed'' FF32,
     Field ''play.toClient.KineticWeaponCondition.minRelativeSpeed'' FF32])"

definition node_775 :: "string \<times> schema list" where
  "node_775 = (''Node'', [
     Shared ''Position'' ''Vec3i32'',
     Field ''play.toClient.Node.walkedDistance'' FF32,
     Field ''play.toClient.Node.costMalus'' FF32,
     Field ''play.toClient.Node.closed'' FBool,
     Mapped ''play.toClient.Node.type'' FVarInt node_type_mapper_by_wire_775 node_type_mapper_by_name_775,
     Field ''play.toClient.Node.f'' FF32])"

definition partial_resolvable_profile_775 :: "string \<times> schema list" where
  "partial_resolvable_profile_775 = (''PartialResolvableProfile'', [
     Maybe ''play.toClient.PartialResolvableProfile.name'' [
       Field ''play.toClient.PartialResolvableProfile.name'' FString],
     Maybe ''play.toClient.PartialResolvableProfile.uuid'' [
       Field ''play.toClient.PartialResolvableProfile.uuid'' FUUID],
     Items ''play.toClient.PartialResolvableProfile.properties'' Prefixed [
       Shared ''Properties'' ''GameProfileProperty'']])"

definition particle_775 :: "string \<times> schema list" where
  "particle_775 = (''Particle'', [
     Mapped ''play.toClient.Particle.type'' FVarInt particle_type_mapper_by_wire_775 particle_type_mapper_by_name_775,
     Switch ''play.toClient.Particle.type''
       [(KText ''block'', [
          Field ''play.toClient.Particle.data'' FVarInt]),
        (KText ''block_crumble'', [
          Field ''play.toClient.Particle.data'' FVarInt]),
        (KText ''block_marker'', [
          Field ''play.toClient.Particle.data'' FVarInt]),
        (KText ''dragon_breath'', [
          Field ''play.toClient.Particle.data.power'' FF32]),
        (KText ''dust'', [
          Field ''play.toClient.Particle.data.red'' FF32,
          Field ''play.toClient.Particle.data.green'' FF32,
          Field ''play.toClient.Particle.data.blue'' FF32,
          Field ''play.toClient.Particle.data.scale'' FF32]),
        (KText ''dust_color_transition'', [
          Field ''play.toClient.Particle.data.fromRed'' FF32,
          Field ''play.toClient.Particle.data.fromGreen'' FF32,
          Field ''play.toClient.Particle.data.fromBlue'' FF32,
          Field ''play.toClient.Particle.data.scale'' FF32,
          Field ''play.toClient.Particle.data.toRed'' FF32,
          Field ''play.toClient.Particle.data.toGreen'' FF32,
          Field ''play.toClient.Particle.data.toBlue'' FF32]),
        (KText ''dust_pillar'', [
          Field ''play.toClient.Particle.data'' FVarInt]),
        (KText ''effect'', [
          Field ''play.toClient.Particle.data.color'' FI32,
          Field ''play.toClient.Particle.data.power'' FF32]),
        (KText ''entity_effect'', [
          Field ''play.toClient.Particle.data'' FI32]),
        (KText ''falling_dust'', [
          Field ''play.toClient.Particle.data'' FVarInt]),
        (KText ''firefly'', []),
        (KText ''flash'', [
          Field ''play.toClient.Particle.data'' FI32]),
        (KText ''instant_effect'', [
          Field ''play.toClient.Particle.data.color'' FI32,
          Field ''play.toClient.Particle.data.power'' FF32]),
        (KText ''item'', [
          Shared ''Data.Item'' ''Slot'']),
        (KText ''sculk_charge'', [
          Field ''play.toClient.Particle.data'' FF32]),
        (KText ''shriek'', [
          Field ''play.toClient.Particle.data'' FVarInt]),
        (KText ''tinted_leaves'', [
          Field ''play.toClient.Particle.data'' FI32]),
        (KText ''trail'', [
          Shared ''Data.Trail.Target'' ''Vec3f64'',
          Field ''play.toClient.Particle.data.color'' FU8]),
        (KText ''vibration'', [
          Mapped ''play.toClient.Particle.data.positionType'' FVarInt particle_data_switch_vibration_position_type_mapper_by_wire_775 particle_data_switch_vibration_position_type_mapper_by_name_775,
          Switch ''play.toClient.Particle.data.positionType''
            [(KText ''block'', [
               Shared ''Data.Vibration.Position.Block'' ''Position'']),
             (KText ''entity'', [
               Field ''play.toClient.Particle.data.position.entityId'' FVarInt,
               Field ''play.toClient.Particle.data.position.entityEyeHeight'' FF32])]
            [],
          Field ''play.toClient.Particle.data.ticks'' FVarInt])]
       []])"

definition path_775 :: "string \<times> schema list" where
  "path_775 = (''Path'', [
     Field ''play.toClient.Path.reached'' FBool,
     Field ''play.toClient.Path.nextNodeIndex'' FI32,
     Shared ''Target'' ''Position'',
     Items ''play.toClient.Path.nodes'' Prefixed [
       Shared ''Nodes'' ''Node''],
     Shared ''DebugData'' ''PathDebugData''])"

definition path_debug_data_775 :: "string \<times> schema list" where
  "path_debug_data_775 = (''PathDebugData'', [
     Items ''play.toClient.PathDebugData.openSet'' Prefixed [
       Shared ''OpenSet'' ''Node''],
     Items ''play.toClient.PathDebugData.closedSet'' Prefixed [
       Shared ''ClosedSet'' ''Node''],
     Items ''play.toClient.PathDebugData.targetNodes'' Prefixed [
       Shared ''TargetNodes'' ''Node'']])"

definition player_skin_patch_775 :: "string \<times> schema list" where
  "player_skin_patch_775 = (''PlayerSkinPatch'', [
     Maybe ''play.toClient.PlayerSkinPatch.body'' [
       Field ''play.toClient.PlayerSkinPatch.body'' FString],
     Maybe ''play.toClient.PlayerSkinPatch.cape'' [
       Field ''play.toClient.PlayerSkinPatch.cape'' FString],
     Maybe ''play.toClient.PlayerSkinPatch.elytra'' [
       Field ''play.toClient.PlayerSkinPatch.elytra'' FString],
     Maybe ''play.toClient.PlayerSkinPatch.model'' [
       Mapped ''play.toClient.PlayerSkinPatch.model'' FVarInt player_skin_patch_model_value_mapper_by_wire_775 player_skin_patch_model_value_mapper_by_name_775]])"

definition recipe_display_775 :: "string \<times> schema list" where
  "recipe_display_775 = (''RecipeDisplay'', [
     Mapped ''play.toClient.RecipeDisplay.type'' FVarInt recipe_display_type_mapper_by_wire_775 recipe_display_type_mapper_by_name_775,
     Switch ''play.toClient.RecipeDisplay.type''
       [(KText ''crafting_shaped'', [
          Field ''play.toClient.RecipeDisplay.data.width'' FVarInt,
          Field ''play.toClient.RecipeDisplay.data.height'' FVarInt,
          Items ''play.toClient.RecipeDisplay.data.ingredients'' Prefixed [
            Shared ''Data.CraftingShaped.Ingredients'' ''SlotDisplay''],
          Shared ''Data.CraftingShaped.Result'' ''SlotDisplay'',
          Shared ''Data.CraftingShaped.CraftingStation'' ''SlotDisplay'']),
        (KText ''crafting_shapeless'', [
          Items ''play.toClient.RecipeDisplay.data.ingredients'' Prefixed [
            Shared ''Data.CraftingShapeless.Ingredients'' ''SlotDisplay''],
          Shared ''Data.CraftingShapeless.Result'' ''SlotDisplay'',
          Shared ''Data.CraftingShapeless.CraftingStation'' ''SlotDisplay'']),
        (KText ''furnace'', [
          Shared ''Data.Furnace.Ingredient'' ''SlotDisplay'',
          Shared ''Data.Furnace.Fuel'' ''SlotDisplay'',
          Shared ''Data.Furnace.Result'' ''SlotDisplay'',
          Shared ''Data.Furnace.CraftingStation'' ''SlotDisplay'',
          Field ''play.toClient.RecipeDisplay.data.duration'' FVarInt,
          Field ''play.toClient.RecipeDisplay.data.experience'' FF32]),
        (KText ''smithing'', [
          Shared ''Data.Smithing.Template'' ''SlotDisplay'',
          Shared ''Data.Smithing.Base'' ''SlotDisplay'',
          Shared ''Data.Smithing.Addition'' ''SlotDisplay'',
          Shared ''Data.Smithing.Result'' ''SlotDisplay'',
          Shared ''Data.Smithing.CraftingStation'' ''SlotDisplay'']),
        (KText ''stonecutter'', [
          Shared ''Data.Stonecutter.Ingredient'' ''SlotDisplay'',
          Shared ''Data.Stonecutter.Result'' ''SlotDisplay'',
          Shared ''Data.Stonecutter.CraftingStation'' ''SlotDisplay''])]
       []])"

definition resolvable_profile_775 :: "string \<times> schema list" where
  "resolvable_profile_775 = (''ResolvableProfile'', [
     Mapped ''play.toClient.ResolvableProfile.type'' FVarInt resolvable_profile_type_mapper_by_wire_775 resolvable_profile_type_mapper_by_name_775,
     Switch ''play.toClient.ResolvableProfile.type''
       [(KText ''complete'', [
          Shared ''AnonymousSwitch1.Complete'' ''GameProfile'']),
        (KText ''partial'', [
          Shared ''AnonymousSwitch1.Partial'' ''PartialResolvableProfile''])]
       [],
     Shared ''SkinPatch'' ''PlayerSkinPatch''])"

definition slot_component_type_775 :: "string \<times> schema list" where
  "slot_component_type_775 = (''SlotComponentType'', [
     Mapped ''play.toClient.SlotComponentType'' FVarInt slot_component_type_mapper2_by_wire_775 slot_component_type_mapper2_by_name_775])"

definition slot_display_775 :: "string \<times> schema list" where
  "slot_display_775 = (''SlotDisplay'', [
     Mapped ''play.toClient.SlotDisplay.type'' FVarInt slot_display_type_mapper_by_wire_775 slot_display_type_mapper_by_name_775,
     Switch ''play.toClient.SlotDisplay.type''
       [(KText ''any_fuel'', []),
        (KText ''composite'', [
          Items ''play.toClient.SlotDisplay.data'' Prefixed [
            Shared ''Data.Composite'' ''SlotDisplay'']]),
        (KText ''dyed_slot_demo'', [
          Shared ''Data.DyedSlotDemo.Dye'' ''SlotDisplay'',
          Shared ''Data.DyedSlotDemo.Target'' ''SlotDisplay'']),
        (KText ''empty'', []),
        (KText ''item'', [
          Field ''play.toClient.SlotDisplay.data'' FVarInt]),
        (KText ''item_stack'', [
          Shared ''Data.ItemStack'' ''Slot'']),
        (KText ''only_with_component'', [
          Shared ''Data.OnlyWithComponent.Source'' ''SlotDisplay'',
          Shared ''Data.OnlyWithComponent.Component'' ''SlotComponentType'']),
        (KText ''smithing_trim'', [
          Shared ''Data.SmithingTrim.Base'' ''SlotDisplay'',
          Shared ''Data.SmithingTrim.Material'' ''SlotDisplay'',
          Holder ''play.toClient.SlotDisplay.data.pattern'' [
            Shared ''Data.SmithingTrim.Pattern.Inline'' ''ArmorTrimPattern'']]),
        (KText ''tag'', [
          Field ''play.toClient.SlotDisplay.data'' FString]),
        (KText ''with_any_potion'', [
          Shared ''Data.WithAnyPotion.Base'' ''SlotDisplay'']),
        (KText ''with_remainder'', [
          Shared ''Data.WithRemainder.Input'' ''SlotDisplay'',
          Shared ''Data.WithRemainder.Remainder'' ''SlotDisplay''])]
       []])"

definition spawn_info_775 :: "string \<times> schema list" where
  "spawn_info_775 = (''SpawnInfo'', [
     Field ''play.toClient.SpawnInfo.dimension'' FVarInt,
     Field ''play.toClient.SpawnInfo.name'' FString,
     Field ''play.toClient.SpawnInfo.hashedSeed'' FI64,
     Mapped ''play.toClient.SpawnInfo.gamemode'' FI8 spawn_info_gamemode_mapper_by_wire_775 spawn_info_gamemode_mapper_by_name_775,
     Field ''play.toClient.SpawnInfo.previousGamemode'' FU8,
     Field ''play.toClient.SpawnInfo.isDebug'' FBool,
     Field ''play.toClient.SpawnInfo.isFlat'' FBool,
     Maybe ''play.toClient.SpawnInfo.death'' [
       Shared ''Death'' ''GlobalPos''],
     Field ''play.toClient.SpawnInfo.portalCooldown'' FVarInt,
     Field ''play.toClient.SpawnInfo.seaLevel'' FVarInt])"

definition packed_chunk_pos_775 :: "string \<times> schema list" where
  "packed_chunk_pos_775 = (''packedChunkPos'', [
     Field ''play.toClient.packedChunkPos.z'' FI32,
     Field ''play.toClient.packedChunkPos.x'' FI32])"

definition position_775 :: "string \<times> schema list" where
  "position_775 = (''position'', [
     Bits ''play.toClient.position'' FU64
       [bits ''x'' 38 26 True,
        bits ''z'' 12 26 True,
        bits ''y'' 0 12 True]])"

definition sound_source_775 :: "string \<times> schema list" where
  "sound_source_775 = (''soundSource'', [
     Mapped ''play.toClient.soundSource'' FVarInt sound_source_mapper_by_wire_775 sound_source_mapper_by_name_775])"

definition vec3f_775 :: "string \<times> schema list" where
  "vec3f_775 = (''vec3f'', [
     Field ''play.toClient.vec3f.x'' FF32,
     Field ''play.toClient.vec3f.y'' FF32,
     Field ''play.toClient.vec3f.z'' FF32])"

definition vec3f64_775 :: "string \<times> schema list" where
  "vec3f64_775 = (''vec3f64'', [
     Field ''play.toClient.vec3f64.x'' FF64,
     Field ''play.toClient.vec3f64.y'' FF64,
     Field ''play.toClient.vec3f64.z'' FF64])"

definition vec3i_775 :: "string \<times> schema list" where
  "vec3i_775 = (''vec3i'', [
     Field ''play.toClient.vec3i.x'' FVarInt,
     Field ''play.toClient.vec3i.y'' FVarInt,
     Field ''play.toClient.vec3i.z'' FVarInt])"

definition vec3i32_775 :: "string \<times> schema list" where
  "vec3i32_775 = (''vec3i32'', [
     Field ''play.toClient.vec3i32.x'' FI32,
     Field ''play.toClient.vec3i32.y'' FI32,
     Field ''play.toClient.vec3i32.z'' FI32])"

definition movement_flags_775 :: "string \<times> schema list" where
  "movement_flags_775 = (''MovementFlags'', [
     Flags ''play.toServer.MovementFlags'' FU8
       [(''OnGround'', 1),
        (''HasHorizontalCollision'', 2)]])"

text \<open>The shared types, by the name of the Go type.\<close>

definition shared_types_775 :: shared_types where
  "shared_types_775 = [
     (''DataComponentMatchers'', data_component_matchers_775),
     (''ExactComponentMatcher'', exact_component_matcher_775),
     (''ItemBlockPredicate'', item_block_predicate_775),
     (''ItemEffectDetail'', item_effect_detail_775),
     (''Slot'', slot_775),
     (''SlotComponent'', slot_component_775),
     (''ArmorTrimMaterial'', armor_trim_material_775),
     (''ArmorTrimPattern'', armor_trim_pattern_775),
     (''BannerPattern'', banner_pattern_775),
     (''BannerPatternLayer'', banner_pattern_layer_775),
     (''ByteArray'', byte_array_775),
     (''ChatType'', chat_type_775),
     (''ChatTypeParameterType'', chat_type_parameter_type_775),
     (''ChatTypes'', chat_types_775),
     (''ChatTypesHolder'', chat_types_holder_775),
     (''DamageTypeData'', damage_type_data_775),
     (''DebugStructureInfo'', debug_structure_info_775),
     (''DebugSubscriptionDataType'', debug_subscription_data_type_775),
     (''DebugSubscriptionUpdate'', debug_subscription_update_775),
     (''DyeColor'', dye_color_775),
     (''EntityMetadataPaintingVariant'', entity_metadata_painting_variant_775),
     (''GameProfile'', game_profile_775),
     (''GameProfileProperty'', game_profile_property_775),
     (''GlobalPos'', global_pos_775),
     (''IDSet'', id_set_775),
     (''InstrumentData'', instrument_data_775),
     (''ItemBlockProperty'', item_block_property_775),
     (''ItemBookPage'', item_book_page_775),
     (''ItemConsumeEffect'', item_consume_effect_775),
     (''ItemFireworkExplosion'', item_firework_explosion_775),
     (''ItemPotionEffect'', item_potion_effect_775),
     (''ItemSoundEvent'', item_sound_event_775),
     (''ItemSoundHolder'', item_sound_holder_775),
     (''ItemWrittenBookPage'', item_written_book_page_775),
     (''JukeboxSongData'', jukebox_song_data_775),
     (''KineticWeaponCondition'', kinetic_weapon_condition_775),
     (''Node'', node_775),
     (''PartialResolvableProfile'', partial_resolvable_profile_775),
     (''Particle'', particle_775),
     (''Path'', path_775),
     (''PathDebugData'', path_debug_data_775),
     (''PlayerSkinPatch'', player_skin_patch_775),
     (''RecipeDisplay'', recipe_display_775),
     (''ResolvableProfile'', resolvable_profile_775),
     (''SlotComponentType'', slot_component_type_775),
     (''SlotDisplay'', slot_display_775),
     (''SpawnInfo'', spawn_info_775),
     (''PackedChunkPos'', packed_chunk_pos_775),
     (''Position'', position_775),
     (''SoundSource'', sound_source_775),
     (''Vec3f'', vec3f_775),
     (''Vec3f64'', vec3f64_775),
     (''Vec3i'', vec3i_775),
     (''Vec3i32'', vec3i32_775),
     (''MovementFlags'', movement_flags_775)]"

end
