(* ===== verification/Packets_V775_Clientbound.thy ===== *)
theory Packets_V775_Clientbound
  imports Packets_V775_Types
begin

text \<open>
  generated/java/v26_1/codec.go: what a server of protocol 775 sends in play.
\<close>

definition play_clientbound_bundle_delimiter_775 :: "schema list" where
  "play_clientbound_bundle_delimiter_775 = []"

definition play_clientbound_animation_775 :: "schema list" where
  "play_clientbound_animation_775 = [
     Field ''play.toClient.animation.entityId'' FVarInt,
     Field ''play.toClient.animation.animation'' FU8]"

definition play_clientbound_statistics_775 :: "schema list" where
  "play_clientbound_statistics_775 = [
     Items ''play.toClient.statistics.entries'' Prefixed [
       Field ''play.toClient.statistics.entries[].categoryId'' FVarInt,
       Field ''play.toClient.statistics.entries[].statisticId'' FVarInt,
       Field ''play.toClient.statistics.entries[].value'' FVarInt]]"

definition play_clientbound_acknowledge_player_digging_775 :: "schema list" where
  "play_clientbound_acknowledge_player_digging_775 = [
     Field ''play.toClient.acknowledge_player_digging.sequenceId'' FVarInt]"

definition play_clientbound_block_break_animation_775 :: "schema list" where
  "play_clientbound_block_break_animation_775 = [
     Field ''play.toClient.block_break_animation.entityId'' FVarInt,
     Shared ''Location'' ''Position'',
     Field ''play.toClient.block_break_animation.destroyStage'' FI8]"

definition play_clientbound_tile_entity_data_775 :: "schema list" where
  "play_clientbound_tile_entity_data_775 = [
     Shared ''Location'' ''Position'',
     Field ''play.toClient.tile_entity_data.action'' FVarInt,
     Field ''play.toClient.tile_entity_data.nbtData'' FAnonOptionalNBT]"

definition play_clientbound_block_action_775 :: "schema list" where
  "play_clientbound_block_action_775 = [
     Shared ''Location'' ''Position'',
     Field ''play.toClient.block_action.byte1'' FU8,
     Field ''play.toClient.block_action.byte2'' FU8,
     Field ''play.toClient.block_action.blockId'' FVarInt]"

definition play_clientbound_block_change_775 :: "schema list" where
  "play_clientbound_block_change_775 = [
     Shared ''Location'' ''Position'',
     Field ''play.toClient.block_change.type'' FVarInt]"

definition play_clientbound_boss_bar_775 :: "schema list" where
  "play_clientbound_boss_bar_775 = [
     Field ''play.toClient.boss_bar.entityUUID'' FUUID,
     Field ''play.toClient.boss_bar.action'' FVarInt,
     Switch ''play.toClient.boss_bar.action''
       [(KInt 0, [
          Field ''play.toClient.boss_bar.title'' FAnonymousNBT]),
        (KInt 3, [
          Field ''play.toClient.boss_bar.title'' FAnonymousNBT])]
       [],
     Switch ''play.toClient.boss_bar.action''
       [(KInt 0, [
          Field ''play.toClient.boss_bar.health'' FF32]),
        (KInt 2, [
          Field ''play.toClient.boss_bar.health'' FF32])]
       [],
     Switch ''play.toClient.boss_bar.action''
       [(KInt 0, [
          Field ''play.toClient.boss_bar.color'' FVarInt]),
        (KInt 4, [
          Field ''play.toClient.boss_bar.color'' FVarInt])]
       [],
     Switch ''play.toClient.boss_bar.action''
       [(KInt 0, [
          Field ''play.toClient.boss_bar.dividers'' FVarInt]),
        (KInt 4, [
          Field ''play.toClient.boss_bar.dividers'' FVarInt])]
       [],
     Switch ''play.toClient.boss_bar.action''
       [(KInt 0, [
          Field ''play.toClient.boss_bar.flags'' FU8]),
        (KInt 5, [
          Field ''play.toClient.boss_bar.flags'' FU8])]
       []]"

definition play_clientbound_difficulty_775 :: "schema list" where
  "play_clientbound_difficulty_775 = [
     Mapped ''play.toClient.difficulty.difficulty'' FVarInt play_clientbound_difficulty_difficulty_mapper_by_wire_775 play_clientbound_difficulty_difficulty_mapper_by_name_775,
     Field ''play.toClient.difficulty.difficultyLocked'' FBool]"

definition play_clientbound_chunk_batch_finished_775 :: "schema list" where
  "play_clientbound_chunk_batch_finished_775 = [
     Field ''play.toClient.chunk_batch_finished.batchSize'' FVarInt]"

definition play_clientbound_chunk_batch_start_775 :: "schema list" where
  "play_clientbound_chunk_batch_start_775 = []"

definition play_clientbound_chunk_biomes_775 :: "schema list" where
  "play_clientbound_chunk_biomes_775 = [
     Items ''play.toClient.chunk_biomes.biomes'' Prefixed [
       Shared ''Biomes.Position'' ''PackedChunkPos'',
       Shared ''Biomes.Data'' ''ByteArray'']]"

definition play_clientbound_clear_titles_775 :: "schema list" where
  "play_clientbound_clear_titles_775 = [
     Field ''play.toClient.clear_titles.reset'' FBool]"

definition play_clientbound_tab_complete_775 :: "schema list" where
  "play_clientbound_tab_complete_775 = [
     Field ''play.toClient.tab_complete.transactionId'' FVarInt,
     Field ''play.toClient.tab_complete.start'' FVarInt,
     Field ''play.toClient.tab_complete.length'' FVarInt,
     Items ''play.toClient.tab_complete.matches'' Prefixed [
       Field ''play.toClient.tab_complete.matches[].match'' FString,
       Maybe ''play.toClient.tab_complete.matches[].tooltip'' [
         Field ''play.toClient.tab_complete.matches[].tooltip'' FAnonymousNBT]]]"

definition play_clientbound_declare_commands_775 :: "schema list" where
  "play_clientbound_declare_commands_775 = [
     Items ''play.toClient.declare_commands.nodes'' Prefixed [
       Bits ''play.toClient.declare_commands.nodes[].flags'' FU8
         [bits ''unused'' 6 2 False,
          bits ''allows_restricted'' 5 1 False,
          bits ''has_custom_suggestions'' 4 1 False,
          bits ''has_redirect_node'' 3 1 False,
          bits ''has_command'' 2 1 False,
          bits ''command_node_type'' 0 2 False],
       Items ''play.toClient.declare_commands.nodes[].children'' Prefixed [
         Field ''play.toClient.declare_commands.nodes[].children[]'' FVarInt],
       Switch ''play.toClient.declare_commands.nodes[].flags#has_redirect_node''
         [(KInt 1, [
            Field ''play.toClient.declare_commands.nodes[].redirectNode'' FVarInt])]
         [],
       Switch ''play.toClient.declare_commands.nodes[].flags#command_node_type''
         [(KInt 0, []),
          (KInt 1, [
            Field ''play.toClient.declare_commands.nodes[].extraNodeData.name'' FString]),
          (KInt 2, [
            Field ''play.toClient.declare_commands.nodes[].extraNodeData.name'' FString,
            Mapped ''play.toClient.declare_commands.nodes[].extraNodeData.parser'' FVarInt play_clientbound_declare_commands_nodes_item_extra_node_data_switch_case2_parser_mapper_by_wire_775 play_clientbound_declare_commands_nodes_item_extra_node_data_switch_case2_parser_mapper_by_name_775,
            Switch ''play.toClient.declare_commands.nodes[].extraNodeData.parser''
              [(KText ''brigadier:bool'', []),
               (KText ''brigadier:double'', [
                 Bits ''play.toClient.declare_commands.nodes[].extraNodeData.properties.flags'' FU8
                   [bits ''unused'' 2 6 False,
                    bits ''max_present'' 1 1 False,
                    bits ''min_present'' 0 1 False],
                 Switch ''play.toClient.declare_commands.nodes[].extraNodeData.properties.flags#min_present''
                   [(KInt 1, [
                      Field ''play.toClient.declare_commands.nodes[].extraNodeData.properties.min'' FF64])]
                   [],
                 Switch ''play.toClient.declare_commands.nodes[].extraNodeData.properties.flags#max_present''
                   [(KInt 1, [
                      Field ''play.toClient.declare_commands.nodes[].extraNodeData.properties.max'' FF64])]
                   []]),
               (KText ''brigadier:float'', [
                 Bits ''play.toClient.declare_commands.nodes[].extraNodeData.properties.flags'' FU8
                   [bits ''unused'' 2 6 False,
                    bits ''max_present'' 1 1 False,
                    bits ''min_present'' 0 1 False],
                 Switch ''play.toClient.declare_commands.nodes[].extraNodeData.properties.flags#min_present''
                   [(KInt 1, [
                      Field ''play.toClient.declare_commands.nodes[].extraNodeData.properties.min'' FF32])]
                   [],
                 Switch ''play.toClient.declare_commands.nodes[].extraNodeData.properties.flags#max_present''
                   [(KInt 1, [
                      Field ''play.toClient.declare_commands.nodes[].extraNodeData.properties.max'' FF32])]
                   []]),
               (KText ''brigadier:integer'', [
                 Bits ''play.toClient.declare_commands.nodes[].extraNodeData.properties.flags'' FU8
                   [bits ''unused'' 2 6 False,
                    bits ''max_present'' 1 1 False,
                    bits ''min_present'' 0 1 False],
                 Switch ''play.toClient.declare_commands.nodes[].extraNodeData.properties.flags#min_present''
                   [(KInt 1, [
                      Field ''play.toClient.declare_commands.nodes[].extraNodeData.properties.min'' FI32])]
                   [],
                 Switch ''play.toClient.declare_commands.nodes[].extraNodeData.properties.flags#max_present''
                   [(KInt 1, [
                      Field ''play.toClient.declare_commands.nodes[].extraNodeData.properties.max'' FI32])]
                   []]),
               (KText ''brigadier:long'', [
                 Bits ''play.toClient.declare_commands.nodes[].extraNodeData.properties.flags'' FU8
                   [bits ''unused'' 2 6 False,
                    bits ''max_present'' 1 1 False,
                    bits ''min_present'' 0 1 False],
                 Switch ''play.toClient.declare_commands.nodes[].extraNodeData.properties.flags#min_present''
                   [(KInt 1, [
                      Field ''play.toClient.declare_commands.nodes[].extraNodeData.properties.min'' FI64])]
                   [],
                 Switch ''play.toClient.declare_commands.nodes[].extraNodeData.properties.flags#max_present''
                   [(KInt 1, [
                      Field ''play.toClient.declare_commands.nodes[].extraNodeData.properties.max'' FI64])]
                   []]),
               (KText ''brigadier:string'', [
                 Mapped ''play.toClient.declare_commands.nodes[].extraNodeData.properties'' FVarInt play_clientbound_declare_commands_nodes_item_extra_node_data_switch_case2_properties_switch_brigadier_string_mapper_by_wire_775 play_clientbound_declare_commands_nodes_item_extra_node_data_switch_case2_properties_switch_brigadier_string_mapper_by_name_775]),
               (KText ''minecraft:angle'', []),
               (KText ''minecraft:block_pos'', []),
               (KText ''minecraft:block_predicate'', []),
               (KText ''minecraft:block_state'', []),
               (KText ''minecraft:color'', []),
               (KText ''minecraft:column_pos'', []),
               (KText ''minecraft:component'', []),
               (KText ''minecraft:dialog'', []),
               (KText ''minecraft:dimension'', []),
               (KText ''minecraft:entity'', [
                 Bits ''play.toClient.declare_commands.nodes[].extraNodeData.properties'' FU8
                   [bits ''unused'' 2 6 False,
                    bits ''onlyAllowPlayers'' 1 1 False,
                    bits ''onlyAllowEntities'' 0 1 False]]),
               (KText ''minecraft:entity_anchor'', []),
               (KText ''minecraft:float_range'', []),
               (KText ''minecraft:function'', []),
               (KText ''minecraft:game_profile'', []),
               (KText ''minecraft:gamemode'', []),
               (KText ''minecraft:heightmap'', []),
               (KText ''minecraft:hex_color'', []),
               (KText ''minecraft:int_range'', []),
               (KText ''minecraft:item_predicate'', []),
               (KText ''minecraft:item_slot'', []),
               (KText ''minecraft:item_stack'', []),
               (KText ''minecraft:message'', []),
               (KText ''minecraft:nbt'', []),
               (KText ''minecraft:nbt_path'', []),
               (KText ''minecraft:objective'', []),
               (KText ''minecraft:objective_criteria'', []),
               (KText ''minecraft:operation'', []),
               (KText ''minecraft:particle'', []),
               (KText ''minecraft:resource'', [
                 Field ''play.toClient.declare_commands.nodes[].extraNodeData.properties.registry'' FString]),
               (KText ''minecraft:resource_key'', [
                 Field ''play.toClient.declare_commands.nodes[].extraNodeData.properties.registry'' FString]),
               (KText ''minecraft:resource_location'', []),
               (KText ''minecraft:resource_or_tag'', [
                 Field ''play.toClient.declare_commands.nodes[].extraNodeData.properties.registry'' FString]),
               (KText ''minecraft:resource_or_tag_key'', [
                 Field ''play.toClient.declare_commands.nodes[].extraNodeData.properties.registry'' FString]),
               (KText ''minecraft:resource_selector'', [
                 Field ''play.toClient.declare_commands.nodes[].extraNodeData.properties.registry'' FString]),
               (KText ''minecraft:rotation'', []),
               (KText ''minecraft:score_holder'', [
                 Bits ''play.toClient.declare_commands.nodes[].extraNodeData.properties'' FU8
                   [bits ''unused'' 1 7 False,
                    bits ''allowMultiple'' 0 1 False]]),
               (KText ''minecraft:scoreboard_slot'', []),
               (KText ''minecraft:swizzle'', []),
               (KText ''minecraft:team'', []),
               (KText ''minecraft:template_mirror'', []),
               (KText ''minecraft:template_rotation'', []),
               (KText ''minecraft:time'', [
                 Field ''play.toClient.declare_commands.nodes[].extraNodeData.properties.min'' FI32]),
               (KText ''minecraft:uuid'', []),
               (KText ''minecraft:vec2'', []),
               (KText ''minecraft:vec3'', [])]
              [],
            Switch ''play.toClient.declare_commands.nodes[].flags#has_custom_suggestions''
              [(KInt 1, [
                 Field ''play.toClient.declare_commands.nodes[].extraNodeData.suggestionType'' FString])]
              []])]
         []],
     Field ''play.toClient.declare_commands.rootIndex'' FVarInt]"

definition play_clientbound_close_window_775 :: "schema list" where
  "play_clientbound_close_window_775 = [
     Field ''play.toClient.close_window.windowId'' FVarInt]"

definition play_clientbound_window_items_775 :: "schema list" where
  "play_clientbound_window_items_775 = [
     Field ''play.toClient.window_items.windowId'' FVarInt,
     Field ''play.toClient.window_items.stateId'' FVarInt,
     Items ''play.toClient.window_items.items'' Prefixed [
       Shared ''Items'' ''Slot''],
     Shared ''CarriedItem'' ''Slot'']"

definition play_clientbound_craft_progress_bar_775 :: "schema list" where
  "play_clientbound_craft_progress_bar_775 = [
     Field ''play.toClient.craft_progress_bar.windowId'' FVarInt,
     Field ''play.toClient.craft_progress_bar.property'' FI16,
     Field ''play.toClient.craft_progress_bar.value'' FI16]"

definition play_clientbound_set_slot_775 :: "schema list" where
  "play_clientbound_set_slot_775 = [
     Field ''play.toClient.set_slot.windowId'' FVarInt,
     Field ''play.toClient.set_slot.stateId'' FVarInt,
     Field ''play.toClient.set_slot.slot'' FI16,
     Shared ''Item'' ''Slot'']"

definition play_clientbound_cookie_request_775 :: "schema list" where
  "play_clientbound_cookie_request_775 = [
     Field ''play.toClient.cookie_request.cookie'' FString]"

definition play_clientbound_set_cooldown_775 :: "schema list" where
  "play_clientbound_set_cooldown_775 = [
     Field ''play.toClient.set_cooldown.cooldownGroup'' FString,
     Field ''play.toClient.set_cooldown.cooldownTicks'' FVarInt]"

definition play_clientbound_chat_suggestions_775 :: "schema list" where
  "play_clientbound_chat_suggestions_775 = [
     Field ''play.toClient.chat_suggestions.action'' FVarInt,
     Items ''play.toClient.chat_suggestions.entries'' Prefixed [
       Field ''play.toClient.chat_suggestions.entries[]'' FString]]"

definition play_clientbound_custom_payload_775 :: "schema list" where
  "play_clientbound_custom_payload_775 = [
     Field ''play.toClient.custom_payload.channel'' FString,
     Field ''play.toClient.custom_payload.data'' FPlugin]"

definition play_clientbound_damage_event_775 :: "schema list" where
  "play_clientbound_damage_event_775 = [
     Field ''play.toClient.damage_event.entityId'' FVarInt,
     Field ''play.toClient.damage_event.sourceTypeId'' FVarInt,
     Field ''play.toClient.damage_event.sourceCauseId'' FVarInt,
     Field ''play.toClient.damage_event.sourceDirectId'' FVarInt,
     Maybe ''play.toClient.damage_event.sourcePosition'' [
       Shared ''SourcePosition'' ''Vec3f64'']]"

definition play_clientbound_debug_block_value_775 :: "schema list" where
  "play_clientbound_debug_block_value_775 = [
     Shared ''BlockPos'' ''Position'',
     Shared ''Update'' ''DebugSubscriptionUpdate'']"

definition play_clientbound_debug_chunk_value_775 :: "schema list" where
  "play_clientbound_debug_chunk_value_775 = [
     Shared ''ChunkPos'' ''PackedChunkPos'',
     Shared ''Update'' ''DebugSubscriptionUpdate'']"

definition play_clientbound_debug_entity_value_775 :: "schema list" where
  "play_clientbound_debug_entity_value_775 = [
     Field ''play.toClient.debug_entity_value.entityId'' FVarInt,
     Shared ''Update'' ''DebugSubscriptionUpdate'']"

definition play_clientbound_debug_event_775 :: "schema list" where
  "play_clientbound_debug_event_775 = [
     Shared ''Event.Type'' ''DebugSubscriptionDataType'',
     Switch ''Event.Type''
       [(KText ''BeeHives'', [
          Field ''play.toClient.debug_event.event.value.type'' FVarInt,
          Field ''play.toClient.debug_event.event.value.occupantCount'' FVarInt,
          Field ''play.toClient.debug_event.event.value.honeyLevel'' FVarInt,
          Field ''play.toClient.debug_event.event.value.sedated'' FBool]),
        (KText ''Bees'', [
          Maybe ''play.toClient.debug_event.event.value.hivePos'' [
            Shared ''Event.Value.Bees.HivePos'' ''Position''],
          Maybe ''play.toClient.debug_event.event.value.flowerPos'' [
            Shared ''Event.Value.Bees.FlowerPos'' ''Position''],
          Field ''play.toClient.debug_event.event.value.travelTicks'' FVarInt,
          Items ''play.toClient.debug_event.event.value.blacklistedHives'' Prefixed [
            Shared ''Event.Value.Bees.BlacklistedHives'' ''Position'']]),
        (KText ''Brains'', [
          Field ''play.toClient.debug_event.event.value.name'' FString,
          Field ''play.toClient.debug_event.event.value.profession'' FString,
          Field ''play.toClient.debug_event.event.value.xp'' FI32,
          Field ''play.toClient.debug_event.event.value.health'' FF32,
          Field ''play.toClient.debug_event.event.value.maxHealth'' FF32,
          Field ''play.toClient.debug_event.event.value.inventory'' FString,
          Field ''play.toClient.debug_event.event.value.wantsGolem'' FBool,
          Field ''play.toClient.debug_event.event.value.angerLevel'' FI32,
          Items ''play.toClient.debug_event.event.value.activities'' Prefixed [
            Field ''play.toClient.debug_event.event.value.activities[]'' FString],
          Items ''play.toClient.debug_event.event.value.behaviors'' Prefixed [
            Field ''play.toClient.debug_event.event.value.behaviors[]'' FString],
          Items ''play.toClient.debug_event.event.value.memories'' Prefixed [
            Field ''play.toClient.debug_event.event.value.memories[]'' FString],
          Items ''play.toClient.debug_event.event.value.gossips'' Prefixed [
            Field ''play.toClient.debug_event.event.value.gossips[]'' FString],
          Items ''play.toClient.debug_event.event.value.pois'' Prefixed [
            Shared ''Event.Value.Brains.Pois'' ''Position''],
          Items ''play.toClient.debug_event.event.value.potentialPois'' Prefixed [
            Shared ''Event.Value.Brains.PotentialPois'' ''Position'']]),
        (KText ''Breezes'', [
          Maybe ''play.toClient.debug_event.event.value.attackTarget'' [
            Field ''play.toClient.debug_event.event.value.attackTarget'' FVarInt],
          Maybe ''play.toClient.debug_event.event.value.jumpTarget'' [
            Shared ''Event.Value.Breezes.JumpTarget'' ''Position'']]),
        (KText ''DedicatedServerTickTime'', []),
        (KText ''EntityBlockIntersections'', [
          Field ''play.toClient.debug_event.event.value.id'' FVarInt]),
        (KText ''EntityPaths'', [
          Shared ''Event.Value.EntityPaths.Path'' ''Path'',
          Field ''play.toClient.debug_event.event.value.maxNodeDistance'' FF32]),
        (KText ''GameEventListeners'', [
          Field ''play.toClient.debug_event.event.value.listenerRadius'' FVarInt]),
        (KText ''GameEvents'', [
          Field ''play.toClient.debug_event.event.value.event'' FVarInt,
          Shared ''Event.Value.GameEvents.Pos'' ''Vec3f64'']),
        (KText ''GoalSelectors'', [
          Field ''play.toClient.debug_event.event.value.priority'' FVarInt,
          Field ''play.toClient.debug_event.event.value.running'' FBool,
          Field ''play.toClient.debug_event.event.value.name'' FString]),
        (KText ''NeighborUpdates'', [
          Shared ''Event.Value.NeighborUpdates.Pos'' ''Position'']),
        (KText ''Pois'', [
          Shared ''Event.Value.Pois.Pos'' ''Position'',
          Field ''play.toClient.debug_event.event.value.poiType'' FVarInt,
          Field ''play.toClient.debug_event.event.value.freeTicketCount'' FVarInt]),
        (KText ''Raids'', [
          Items ''play.toClient.debug_event.event.value.positions'' Prefixed [
            Shared ''Event.Value.Raids.Positions'' ''Position'']]),
        (KText ''RedstoneWireOrientations'', [
          Field ''play.toClient.debug_event.event.value.index'' FVarInt]),
        (KText ''Structures'', [
          Items ''play.toClient.debug_event.event.value.structures'' Prefixed [
            Shared ''Event.Value.Structures.Structures'' ''DebugStructureInfo'']]),
        (KText ''VillageSections'', [])]
       []]"

definition play_clientbound_debug_sample_775 :: "schema list" where
  "play_clientbound_debug_sample_775 = [
     Items ''play.toClient.debug_sample.sample'' Prefixed [
       Field ''play.toClient.debug_sample.sample[]'' FI64],
     Field ''play.toClient.debug_sample.type'' FVarInt]"

definition play_clientbound_hide_message_775 :: "schema list" where
  "play_clientbound_hide_message_775 = [
     Field ''play.toClient.hide_message.id'' FVarInt,
     Switch ''play.toClient.hide_message.id''
       [(KInt 0, [
          Raw ''play.toClient.hide_message.signature'' (Const 256)])]
       []]"

definition play_clientbound_kick_disconnect_775 :: "schema list" where
  "play_clientbound_kick_disconnect_775 = [
     Field ''play.toClient.kick_disconnect.reason'' FAnonymousNBT]"

definition play_clientbound_profileless_chat_775 :: "schema list" where
  "play_clientbound_profileless_chat_775 = [
     Field ''play.toClient.profileless_chat.message'' FAnonymousNBT,
     Shared ''Type'' ''ChatTypesHolder'',
     Field ''play.toClient.profileless_chat.name'' FAnonymousNBT,
     Maybe ''play.toClient.profileless_chat.target'' [
       Field ''play.toClient.profileless_chat.target'' FAnonymousNBT]]"

definition play_clientbound_entity_status_775 :: "schema list" where
  "play_clientbound_entity_status_775 = [
     Field ''play.toClient.entity_status.entityId'' FI32,
     Field ''play.toClient.entity_status.entityStatus'' FI8]"

definition play_clientbound_sync_entity_position_775 :: "schema list" where
  "play_clientbound_sync_entity_position_775 = [
     Field ''play.toClient.sync_entity_position.entityId'' FVarInt,
     Field ''play.toClient.sync_entity_position.x'' FF64,
     Field ''play.toClient.sync_entity_position.y'' FF64,
     Field ''play.toClient.sync_entity_position.z'' FF64,
     Field ''play.toClient.sync_entity_position.dx'' FF64,
     Field ''play.toClient.sync_entity_position.dy'' FF64,
     Field ''play.toClient.sync_entity_position.dz'' FF64,
     Field ''play.toClient.sync_entity_position.yaw'' FF32,
     Field ''play.toClient.sync_entity_position.pitch'' FF32,
     Field ''play.toClient.sync_entity_position.onGround'' FBool]"

definition play_clientbound_explosion_775 :: "schema list" where
  "play_clientbound_explosion_775 = [
     Shared ''Center'' ''Vec3f64'',
     Field ''play.toClient.explosion.radius'' FF32,
     Field ''play.toClient.explosion.blockCount'' FI32,
     Maybe ''play.toClient.explosion.playerKnockback'' [
       Shared ''PlayerKnockback'' ''Vec3f64''],
     Shared ''ExplosionParticle'' ''Particle'',
     Shared ''Sound'' ''ItemSoundHolder'',
     Items ''play.toClient.explosion.blockParticles'' Prefixed [
       Shared ''BlockParticles.Data.Particle'' ''Particle'',
       Field ''play.toClient.explosion.blockParticles[].data.scaling'' FF32,
       Field ''play.toClient.explosion.blockParticles[].data.speed'' FF32,
       Field ''play.toClient.explosion.blockParticles[].weight'' FVarInt]]"

definition play_clientbound_unload_chunk_775 :: "schema list" where
  "play_clientbound_unload_chunk_775 = [
     Field ''play.toClient.unload_chunk.chunkZ'' FI32,
     Field ''play.toClient.unload_chunk.chunkX'' FI32]"

definition play_clientbound_game_state_change_775 :: "schema list" where
  "play_clientbound_game_state_change_775 = [
     Mapped ''play.toClient.game_state_change.reason'' FU8 play_clientbound_game_state_change_reason_mapper_by_wire_775 play_clientbound_game_state_change_reason_mapper_by_name_775,
     Field ''play.toClient.game_state_change.gameMode'' FF32]"

definition play_clientbound_game_rule_values_775 :: "schema list" where
  "play_clientbound_game_rule_values_775 = [
     Items ''play.toClient.game_rule_values.values'' Prefixed [
       Field ''play.toClient.game_rule_values.values[].name'' FString,
       Field ''play.toClient.game_rule_values.values[].value'' FString]]"

definition play_clientbound_game_test_highlight_pos_775 :: "schema list" where
  "play_clientbound_game_test_highlight_pos_775 = [
     Shared ''AbsolutePos'' ''Position'',
     Shared ''RelativePos'' ''Position'']"

definition play_clientbound_open_horse_window_775 :: "schema list" where
  "play_clientbound_open_horse_window_775 = [
     Field ''play.toClient.open_horse_window.windowId'' FVarInt,
     Field ''play.toClient.open_horse_window.nbSlots'' FVarInt,
     Field ''play.toClient.open_horse_window.entityId'' FI32]"

definition play_clientbound_hurt_animation_775 :: "schema list" where
  "play_clientbound_hurt_animation_775 = [
     Field ''play.toClient.hurt_animation.entityId'' FVarInt,
     Field ''play.toClient.hurt_animation.yaw'' FF32]"

definition play_clientbound_initialize_world_border_775 :: "schema list" where
  "play_clientbound_initialize_world_border_775 = [
     Field ''play.toClient.initialize_world_border.x'' FF64,
     Field ''play.toClient.initialize_world_border.z'' FF64,
     Field ''play.toClient.initialize_world_border.oldDiameter'' FF64,
     Field ''play.toClient.initialize_world_border.newDiameter'' FF64,
     Field ''play.toClient.initialize_world_border.speed'' FVarInt,
     Field ''play.toClient.initialize_world_border.portalTeleportBoundary'' FVarInt,
     Field ''play.toClient.initialize_world_border.warningBlocks'' FVarInt,
     Field ''play.toClient.initialize_world_border.warningTime'' FVarInt]"

definition play_clientbound_keep_alive_775 :: "schema list" where
  "play_clientbound_keep_alive_775 = [
     Field ''play.toClient.keep_alive.keepAliveId'' FI64]"

definition play_clientbound_map_chunk_775 :: "schema list" where
  "play_clientbound_map_chunk_775 = [
     Field ''play.toClient.map_chunk.x'' FI32,
     Field ''play.toClient.map_chunk.z'' FI32,
     Items ''play.toClient.map_chunk.heightmaps'' Prefixed [
       Mapped ''play.toClient.map_chunk.heightmaps[].type'' FVarInt play_clientbound_map_chunk_heightmaps_item_type_mapper_by_wire_775 play_clientbound_map_chunk_heightmaps_item_type_mapper_by_name_775,
       Items ''play.toClient.map_chunk.heightmaps[].data'' Prefixed [
         Field ''play.toClient.map_chunk.heightmaps[].data[]'' FI64]],
     Shared ''ChunkData'' ''ByteArray'',
     Items ''play.toClient.map_chunk.blockEntities'' Prefixed [
       Bits ''play.toClient.map_chunk.blockEntities[].anonymousBitField1'' FU8
         [bits ''x'' 4 4 False,
          bits ''z'' 0 4 False],
       Field ''play.toClient.map_chunk.blockEntities[].y'' FI16,
       Field ''play.toClient.map_chunk.blockEntities[].type'' FVarInt,
       Field ''play.toClient.map_chunk.blockEntities[].nbtData'' FAnonOptionalNBT],
     Items ''play.toClient.map_chunk.skyLightMask'' Prefixed [
       Field ''play.toClient.map_chunk.skyLightMask[]'' FI64],
     Items ''play.toClient.map_chunk.blockLightMask'' Prefixed [
       Field ''play.toClient.map_chunk.blockLightMask[]'' FI64],
     Items ''play.toClient.map_chunk.emptySkyLightMask'' Prefixed [
       Field ''play.toClient.map_chunk.emptySkyLightMask[]'' FI64],
     Items ''play.toClient.map_chunk.emptyBlockLightMask'' Prefixed [
       Field ''play.toClient.map_chunk.emptyBlockLightMask[]'' FI64],
     Items ''play.toClient.map_chunk.skyLight'' Prefixed [
       Items ''play.toClient.map_chunk.skyLight[]'' Prefixed [
         Field ''play.toClient.map_chunk.skyLight[][]'' FU8]],
     Items ''play.toClient.map_chunk.blockLight'' Prefixed [
       Items ''play.toClient.map_chunk.blockLight[]'' Prefixed [
         Field ''play.toClient.map_chunk.blockLight[][]'' FU8]]]"

definition play_clientbound_world_event_775 :: "schema list" where
  "play_clientbound_world_event_775 = [
     Field ''play.toClient.world_event.effectId'' FI32,
     Shared ''Location'' ''Position'',
     Field ''play.toClient.world_event.data'' FI32,
     Field ''play.toClient.world_event.global'' FBool]"

definition play_clientbound_world_particles_775 :: "schema list" where
  "play_clientbound_world_particles_775 = [
     Field ''play.toClient.world_particles.longDistance'' FBool,
     Field ''play.toClient.world_particles.alwaysShow'' FBool,
     Field ''play.toClient.world_particles.x'' FF64,
     Field ''play.toClient.world_particles.y'' FF64,
     Field ''play.toClient.world_particles.z'' FF64,
     Field ''play.toClient.world_particles.offsetX'' FF32,
     Field ''play.toClient.world_particles.offsetY'' FF32,
     Field ''play.toClient.world_particles.offsetZ'' FF32,
     Field ''play.toClient.world_particles.velocityOffset'' FF32,
     Field ''play.toClient.world_particles.amount'' FI32,
     Shared ''Particle'' ''Particle'']"

definition play_clientbound_update_light_775 :: "schema list" where
  "play_clientbound_update_light_775 = [
     Field ''play.toClient.update_light.chunkX'' FVarInt,
     Field ''play.toClient.update_light.chunkZ'' FVarInt,
     Items ''play.toClient.update_light.skyLightMask'' Prefixed [
       Field ''play.toClient.update_light.skyLightMask[]'' FI64],
     Items ''play.toClient.update_light.blockLightMask'' Prefixed [
       Field ''play.toClient.update_light.blockLightMask[]'' FI64],
     Items ''play.toClient.update_light.emptySkyLightMask'' Prefixed [
       Field ''play.toClient.update_light.emptySkyLightMask[]'' FI64],
     Items ''play.toClient.update_light.emptyBlockLightMask'' Prefixed [
       Field ''play.toClient.update_light.emptyBlockLightMask[]'' FI64],
     Items ''play.toClient.update_light.skyLight'' Prefixed [
       Items ''play.toClient.update_light.skyLight[]'' Prefixed [
         Field ''play.toClient.update_light.skyLight[][]'' FU8]],
     Items ''play.toClient.update_light.blockLight'' Prefixed [
       Items ''play.toClient.update_light.blockLight[]'' Prefixed [
         Field ''play.toClient.update_light.blockLight[][]'' FU8]]]"

definition play_clientbound_login_775 :: "schema list" where
  "play_clientbound_login_775 = [
     Field ''play.toClient.login.entityId'' FI32,
     Field ''play.toClient.login.isHardcore'' FBool,
     Items ''play.toClient.login.worldNames'' Prefixed [
       Field ''play.toClient.login.worldNames[]'' FString],
     Field ''play.toClient.login.maxPlayers'' FVarInt,
     Field ''play.toClient.login.viewDistance'' FVarInt,
     Field ''play.toClient.login.simulationDistance'' FVarInt,
     Field ''play.toClient.login.reducedDebugInfo'' FBool,
     Field ''play.toClient.login.enableRespawnScreen'' FBool,
     Field ''play.toClient.login.doLimitedCrafting'' FBool,
     Shared ''WorldState'' ''SpawnInfo'',
     Field ''play.toClient.login.enforcesSecureChat'' FBool]"

definition play_clientbound_low_disk_space_warning_775 :: "schema list" where
  "play_clientbound_low_disk_space_warning_775 = []"

definition play_clientbound_map_775 :: "schema list" where
  "play_clientbound_map_775 = [
     Field ''play.toClient.map.itemDamage'' FVarInt,
     Field ''play.toClient.map.scale'' FI8,
     Field ''play.toClient.map.locked'' FBool,
     Maybe ''play.toClient.map.icons'' [
       Items ''play.toClient.map.icons'' Prefixed [
         Field ''play.toClient.map.icons[].type'' FVarInt,
         Field ''play.toClient.map.icons[].x'' FI8,
         Field ''play.toClient.map.icons[].z'' FI8,
         Field ''play.toClient.map.icons[].direction'' FU8,
         Maybe ''play.toClient.map.icons[].displayName'' [
           Field ''play.toClient.map.icons[].displayName'' FAnonymousNBT]]],
     Field ''play.toClient.map.columns'' FU8,
     Switch ''play.toClient.map.columns''
       [(KInt 0, [])]
       [
        Field ''play.toClient.map.rows'' FU8],
     Switch ''play.toClient.map.columns''
       [(KInt 0, [])]
       [
        Field ''play.toClient.map.x'' FU8],
     Switch ''play.toClient.map.columns''
       [(KInt 0, [])]
       [
        Field ''play.toClient.map.y'' FU8],
     Switch ''play.toClient.map.columns''
       [(KInt 0, [])]
       [
        Field ''play.toClient.map.data'' FByteArray]]"

definition play_clientbound_trade_list_775 :: "schema list" where
  "play_clientbound_trade_list_775 = [
     Field ''play.toClient.trade_list.windowId'' FVarInt,
     Items ''play.toClient.trade_list.trades'' Prefixed [
       Field ''play.toClient.trade_list.trades[].inputItem1.itemId'' FVarInt,
       Field ''play.toClient.trade_list.trades[].inputItem1.itemCount'' FVarInt,
       Shared ''Trades.InputItem1.Components'' ''ExactComponentMatcher'',
       Shared ''Trades.OutputItem'' ''Slot'',
       Maybe ''play.toClient.trade_list.trades[].inputItem2'' [
         Field ''play.toClient.trade_list.trades[].inputItem2.itemId'' FVarInt,
         Field ''play.toClient.trade_list.trades[].inputItem2.itemCount'' FVarInt,
         Shared ''Trades.InputItem2.Components'' ''ExactComponentMatcher''],
       Field ''play.toClient.trade_list.trades[].tradeDisabled'' FBool,
       Field ''play.toClient.trade_list.trades[].nbTradeUses'' FI32,
       Field ''play.toClient.trade_list.trades[].maximumNbTradeUses'' FI32,
       Field ''play.toClient.trade_list.trades[].xp'' FI32,
       Field ''play.toClient.trade_list.trades[].specialPrice'' FI32,
       Field ''play.toClient.trade_list.trades[].priceMultiplier'' FF32,
       Field ''play.toClient.trade_list.trades[].demand'' FI32],
     Field ''play.toClient.trade_list.villagerLevel'' FVarInt,
     Field ''play.toClient.trade_list.experience'' FVarInt,
     Field ''play.toClient.trade_list.isRegularVillager'' FBool,
     Field ''play.toClient.trade_list.canRestock'' FBool]"

definition play_clientbound_rel_entity_move_775 :: "schema list" where
  "play_clientbound_rel_entity_move_775 = [
     Field ''play.toClient.rel_entity_move.entityId'' FVarInt,
     Field ''play.toClient.rel_entity_move.dX'' FI16,
     Field ''play.toClient.rel_entity_move.dY'' FI16,
     Field ''play.toClient.rel_entity_move.dZ'' FI16,
     Field ''play.toClient.rel_entity_move.onGround'' FBool]"

definition play_clientbound_entity_move_look_775 :: "schema list" where
  "play_clientbound_entity_move_look_775 = [
     Field ''play.toClient.entity_move_look.entityId'' FVarInt,
     Field ''play.toClient.entity_move_look.dX'' FI16,
     Field ''play.toClient.entity_move_look.dY'' FI16,
     Field ''play.toClient.entity_move_look.dZ'' FI16,
     Field ''play.toClient.entity_move_look.yaw'' FI8,
     Field ''play.toClient.entity_move_look.pitch'' FI8,
     Field ''play.toClient.entity_move_look.onGround'' FBool]"

definition play_clientbound_move_minecart_775 :: "schema list" where
  "play_clientbound_move_minecart_775 = [
     Field ''play.toClient.move_minecart.entityId'' FVarInt,
     Items ''play.toClient.move_minecart.steps'' Prefixed [
       Shared ''Steps.Position'' ''Vec3f'',
       Shared ''Steps.Velocity'' ''Vec3f'',
       Field ''play.toClient.move_minecart.steps[].yaw'' FF32,
       Field ''play.toClient.move_minecart.steps[].pitch'' FF32,
       Field ''play.toClient.move_minecart.steps[].weight'' FF32]]"

definition play_clientbound_entity_look_775 :: "schema list" where
  "play_clientbound_entity_look_775 = [
     Field ''play.toClient.entity_look.entityId'' FVarInt,
     Field ''play.toClient.entity_look.yaw'' FI8,
     Field ''play.toClient.entity_look.pitch'' FI8,
     Field ''play.toClient.entity_look.onGround'' FBool]"

definition play_clientbound_vehicle_move_775 :: "schema list" where
  "play_clientbound_vehicle_move_775 = [
     Field ''play.toClient.vehicle_move.x'' FF64,
     Field ''play.toClient.vehicle_move.y'' FF64,
     Field ''play.toClient.vehicle_move.z'' FF64,
     Field ''play.toClient.vehicle_move.yaw'' FF32,
     Field ''play.toClient.vehicle_move.pitch'' FF32]"

definition play_clientbound_open_book_775 :: "schema list" where
  "play_clientbound_open_book_775 = [
     Field ''play.toClient.open_book.hand'' FVarInt]"

definition play_clientbound_open_window_775 :: "schema list" where
  "play_clientbound_open_window_775 = [
     Field ''play.toClient.open_window.windowId'' FVarInt,
     Field ''play.toClient.open_window.inventoryType'' FVarInt,
     Field ''play.toClient.open_window.windowTitle'' FAnonymousNBT]"

definition play_clientbound_open_sign_entity_775 :: "schema list" where
  "play_clientbound_open_sign_entity_775 = [
     Shared ''Location'' ''Position'',
     Field ''play.toClient.open_sign_entity.isFrontText'' FBool]"

definition play_clientbound_ping_775 :: "schema list" where
  "play_clientbound_ping_775 = [
     Field ''play.toClient.ping.id'' FI32]"

definition play_clientbound_ping_response_775 :: "schema list" where
  "play_clientbound_ping_response_775 = [
     Field ''play.toClient.ping_response.id'' FI64]"

definition play_clientbound_craft_recipe_response_775 :: "schema list" where
  "play_clientbound_craft_recipe_response_775 = [
     Field ''play.toClient.craft_recipe_response.windowId'' FVarInt,
     Shared ''RecipeDisplay'' ''RecipeDisplay'']"

definition play_clientbound_abilities_775 :: "schema list" where
  "play_clientbound_abilities_775 = [
     Field ''play.toClient.abilities.flags'' FI8,
     Field ''play.toClient.abilities.flyingSpeed'' FF32,
     Field ''play.toClient.abilities.walkingSpeed'' FF32]"

definition play_clientbound_player_chat_775 :: "schema list" where
  "play_clientbound_player_chat_775 = [
     Field ''play.toClient.player_chat.globalIndex'' FVarInt,
     Field ''play.toClient.player_chat.senderUuid'' FUUID,
     Field ''play.toClient.player_chat.index'' FVarInt,
     Maybe ''play.toClient.player_chat.signature'' [
       Raw ''play.toClient.player_chat.signature'' (Const 256)],
     Field ''play.toClient.player_chat.plainMessage'' FString,
     Field ''play.toClient.player_chat.timestamp'' FI64,
     Field ''play.toClient.player_chat.salt'' FI64,
     Items ''play.toClient.player_chat.previousMessages'' Prefixed [
       Field ''play.toClient.player_chat.previousMessages[].id'' FVarInt,
       Switch ''play.toClient.player_chat.previousMessages[].id''
         [(KInt 0, [
            Raw ''play.toClient.player_chat.previousMessages[].signature'' (Const 256)])]
         []],
     Maybe ''play.toClient.player_chat.unsignedChatContent'' [
       Field ''play.toClient.player_chat.unsignedChatContent'' FAnonymousNBT],
     Field ''play.toClient.player_chat.filterType'' FVarInt,
     Switch ''play.toClient.player_chat.filterType''
       [(KInt 2, [
          Items ''play.toClient.player_chat.filterTypeMask'' Prefixed [
            Field ''play.toClient.player_chat.filterTypeMask[]'' FI64]])]
       [],
     Shared ''Type'' ''ChatTypesHolder'',
     Field ''play.toClient.player_chat.networkName'' FAnonymousNBT,
     Maybe ''play.toClient.player_chat.networkTargetName'' [
       Field ''play.toClient.player_chat.networkTargetName'' FAnonymousNBT]]"

definition play_clientbound_end_combat_event_775 :: "schema list" where
  "play_clientbound_end_combat_event_775 = [
     Field ''play.toClient.end_combat_event.duration'' FVarInt]"

definition play_clientbound_enter_combat_event_775 :: "schema list" where
  "play_clientbound_enter_combat_event_775 = []"

definition play_clientbound_death_combat_event_775 :: "schema list" where
  "play_clientbound_death_combat_event_775 = [
     Field ''play.toClient.death_combat_event.playerId'' FVarInt,
     Field ''play.toClient.death_combat_event.message'' FAnonymousNBT]"

definition play_clientbound_player_remove_775 :: "schema list" where
  "play_clientbound_player_remove_775 = [
     Items ''play.toClient.player_remove.players'' Prefixed [
       Field ''play.toClient.player_remove.players[]'' FUUID]]"

definition play_clientbound_player_info_775 :: "schema list" where
  "play_clientbound_player_info_775 = [
     Flags ''play.toClient.player_info.action'' FU8
       [(''AddPlayer'', 1),
        (''InitializeChat'', 2),
        (''UpdateGameMode'', 4),
        (''UpdateListed'', 8),
        (''UpdateLatency'', 16),
        (''UpdateDisplayName'', 32),
        (''UpdateHat'', 64),
        (''UpdateListOrder'', 128)],
     Items ''play.toClient.player_info.data'' Prefixed [
       Field ''play.toClient.player_info.data[].uuid'' FUUID,
       Switch ''play.toClient.player_info.action#AddPlayer''
         [(KBool True, [
            Field ''play.toClient.player_info.data[].player.name'' FString,
            Items ''play.toClient.player_info.data[].player.properties'' Prefixed [
              Shared ''Data.Player.True.Properties'' ''GameProfileProperty'']])]
         [],
       Switch ''play.toClient.player_info.action#InitializeChat''
         [(KBool True, [
            Maybe ''play.toClient.player_info.data[].chatSession'' [
              Field ''play.toClient.player_info.data[].chatSession.uuid'' FUUID,
              Field ''play.toClient.player_info.data[].chatSession.publicKey.expireTime'' FI64,
              Field ''play.toClient.player_info.data[].chatSession.publicKey.keyBytes'' FByteArray,
              Field ''play.toClient.player_info.data[].chatSession.publicKey.keySignature'' FByteArray]])]
         [],
       Switch ''play.toClient.player_info.action#UpdateGameMode''
         [(KBool True, [
            Field ''play.toClient.player_info.data[].gamemode'' FVarInt])]
         [],
       Switch ''play.toClient.player_info.action#UpdateListed''
         [(KBool True, [
            Field ''play.toClient.player_info.data[].listed'' FVarInt])]
         [],
       Switch ''play.toClient.player_info.action#UpdateLatency''
         [(KBool True, [
            Field ''play.toClient.player_info.data[].latency'' FVarInt])]
         [],
       Switch ''play.toClient.player_info.action#UpdateDisplayName''
         [(KBool True, [
            Maybe ''play.toClient.player_info.data[].displayName'' [
              Field ''play.toClient.player_info.data[].displayName'' FAnonymousNBT]])]
         [],
       Switch ''play.toClient.player_info.action#UpdateListOrder''
         [(KBool True, [
            Field ''play.toClient.player_info.data[].listPriority'' FVarInt])]
         [],
       Switch ''play.toClient.player_info.action#UpdateHat''
         [(KBool True, [
            Field ''play.toClient.player_info.data[].showHat'' FBool])]
         []]]"

definition play_clientbound_face_player_775 :: "schema list" where
  "play_clientbound_face_player_775 = [
     Field ''play.toClient.face_player.feet_eyes'' FVarInt,
     Field ''play.toClient.face_player.x'' FF64,
     Field ''play.toClient.face_player.y'' FF64,
     Field ''play.toClient.face_player.z'' FF64,
     Field ''play.toClient.face_player.isEntity'' FBool,
     Switch ''play.toClient.face_player.isEntity''
       [(KBool True, [
          Field ''play.toClient.face_player.entityId'' FVarInt])]
       [],
     Switch ''play.toClient.face_player.isEntity''
       [(KBool True, [
          Field ''play.toClient.face_player.entity_feet_eyes'' FVarInt])]
       []]"

definition play_clientbound_position_775 :: "schema list" where
  "play_clientbound_position_775 = [
     Field ''play.toClient.position.teleportId'' FVarInt,
     Field ''play.toClient.position.x'' FF64,
     Field ''play.toClient.position.y'' FF64,
     Field ''play.toClient.position.z'' FF64,
     Field ''play.toClient.position.dx'' FF64,
     Field ''play.toClient.position.dy'' FF64,
     Field ''play.toClient.position.dz'' FF64,
     Field ''play.toClient.position.yaw'' FF32,
     Field ''play.toClient.position.pitch'' FF32,
     Flags ''play.toClient.position.flags'' FU32
       [(''X'', 1),
        (''Y'', 2),
        (''Z'', 4),
        (''Yaw'', 8),
        (''Pitch'', 16),
        (''Dx'', 32),
        (''Dy'', 64),
        (''Dz'', 128),
        (''YawDelta'', 256)]]"

definition play_clientbound_player_rotation_775 :: "schema list" where
  "play_clientbound_player_rotation_775 = [
     Field ''play.toClient.player_rotation.yaw'' FF32,
     Field ''play.toClient.player_rotation.relativeYaw'' FBool,
     Field ''play.toClient.player_rotation.pitch'' FF32,
     Field ''play.toClient.player_rotation.relativePitch'' FBool]"

definition play_clientbound_recipe_book_add_775 :: "schema list" where
  "play_clientbound_recipe_book_add_775 = [
     Items ''play.toClient.recipe_book_add.entries'' Prefixed [
       Field ''play.toClient.recipe_book_add.entries[].recipe.displayId'' FVarInt,
       Shared ''Entries.Recipe.Display'' ''RecipeDisplay'',
       Field ''play.toClient.recipe_book_add.entries[].recipe.group'' FVarInt,
       Mapped ''play.toClient.recipe_book_add.entries[].recipe.category'' FVarInt play_clientbound_recipe_book_add_entries_item_recipe_category_mapper_by_wire_775 play_clientbound_recipe_book_add_entries_item_recipe_category_mapper_by_name_775,
       Maybe ''play.toClient.recipe_book_add.entries[].recipe.craftingRequirements'' [
         Items ''play.toClient.recipe_book_add.entries[].recipe.craftingRequirements'' Prefixed [
           Shared ''Entries.Recipe.CraftingRequirements'' ''IDSet'']],
       Flags ''play.toClient.recipe_book_add.entries[].flags'' FU8
         [(''Notification'', 1),
          (''Highlight'', 2)]],
     Field ''play.toClient.recipe_book_add.replace'' FBool]"

definition play_clientbound_recipe_book_remove_775 :: "schema list" where
  "play_clientbound_recipe_book_remove_775 = [
     Items ''play.toClient.recipe_book_remove.recipeIds'' Prefixed [
       Field ''play.toClient.recipe_book_remove.recipeIds[]'' FVarInt]]"

definition play_clientbound_recipe_book_settings_775 :: "schema list" where
  "play_clientbound_recipe_book_settings_775 = [
     Field ''play.toClient.recipe_book_settings.crafting.open'' FBool,
     Field ''play.toClient.recipe_book_settings.crafting.filtering'' FBool,
     Field ''play.toClient.recipe_book_settings.furnace.open'' FBool,
     Field ''play.toClient.recipe_book_settings.furnace.filtering'' FBool,
     Field ''play.toClient.recipe_book_settings.blast.open'' FBool,
     Field ''play.toClient.recipe_book_settings.blast.filtering'' FBool,
     Field ''play.toClient.recipe_book_settings.smoker.open'' FBool,
     Field ''play.toClient.recipe_book_settings.smoker.filtering'' FBool]"

definition play_clientbound_entity_destroy_775 :: "schema list" where
  "play_clientbound_entity_destroy_775 = [
     Items ''play.toClient.entity_destroy.entityIds'' Prefixed [
       Field ''play.toClient.entity_destroy.entityIds[]'' FVarInt]]"

definition play_clientbound_remove_entity_effect_775 :: "schema list" where
  "play_clientbound_remove_entity_effect_775 = [
     Field ''play.toClient.remove_entity_effect.entityId'' FVarInt,
     Field ''play.toClient.remove_entity_effect.effectId'' FVarInt]"

definition play_clientbound_reset_score_775 :: "schema list" where
  "play_clientbound_reset_score_775 = [
     Field ''play.toClient.reset_score.entity_name'' FString,
     Maybe ''play.toClient.reset_score.objective_name'' [
       Field ''play.toClient.reset_score.objective_name'' FString]]"

definition play_clientbound_remove_resource_pack_775 :: "schema list" where
  "play_clientbound_remove_resource_pack_775 = [
     Maybe ''play.toClient.remove_resource_pack.uuid'' [
       Field ''play.toClient.remove_resource_pack.uuid'' FUUID]]"

definition play_clientbound_add_resource_pack_775 :: "schema list" where
  "play_clientbound_add_resource_pack_775 = [
     Field ''play.toClient.add_resource_pack.uuid'' FUUID,
     Field ''play.toClient.add_resource_pack.url'' FString,
     Field ''play.toClient.add_resource_pack.hash'' FString,
     Field ''play.toClient.add_resource_pack.forced'' FBool,
     Maybe ''play.toClient.add_resource_pack.promptMessage'' [
       Field ''play.toClient.add_resource_pack.promptMessage'' FAnonymousNBT]]"

definition play_clientbound_respawn_775 :: "schema list" where
  "play_clientbound_respawn_775 = [
     Shared ''WorldState'' ''SpawnInfo'',
     Field ''play.toClient.respawn.copyMetadata'' FU8]"

definition play_clientbound_entity_head_rotation_775 :: "schema list" where
  "play_clientbound_entity_head_rotation_775 = [
     Field ''play.toClient.entity_head_rotation.entityId'' FVarInt,
     Field ''play.toClient.entity_head_rotation.headYaw'' FI8]"

definition play_clientbound_multi_block_change_775 :: "schema list" where
  "play_clientbound_multi_block_change_775 = [
     Bits ''play.toClient.multi_block_change.chunkCoordinates'' FU64
       [bits ''x'' 42 22 True,
        bits ''z'' 20 22 True,
        bits ''y'' 0 20 True],
     Items ''play.toClient.multi_block_change.records'' Prefixed [
       Field ''play.toClient.multi_block_change.records[]'' FVarInt]]"

definition play_clientbound_select_advancement_tab_775 :: "schema list" where
  "play_clientbound_select_advancement_tab_775 = [
     Maybe ''play.toClient.select_advancement_tab.id'' [
       Field ''play.toClient.select_advancement_tab.id'' FString]]"

definition play_clientbound_server_data_775 :: "schema list" where
  "play_clientbound_server_data_775 = [
     Field ''play.toClient.server_data.motd'' FAnonymousNBT,
     Maybe ''play.toClient.server_data.iconBytes'' [
       Shared ''IconBytes'' ''ByteArray'']]"

definition play_clientbound_action_bar_775 :: "schema list" where
  "play_clientbound_action_bar_775 = [
     Field ''play.toClient.action_bar.text'' FAnonymousNBT]"

definition play_clientbound_world_border_center_775 :: "schema list" where
  "play_clientbound_world_border_center_775 = [
     Field ''play.toClient.world_border_center.x'' FF64,
     Field ''play.toClient.world_border_center.z'' FF64]"

definition play_clientbound_world_border_lerp_size_775 :: "schema list" where
  "play_clientbound_world_border_lerp_size_775 = [
     Field ''play.toClient.world_border_lerp_size.oldDiameter'' FF64,
     Field ''play.toClient.world_border_lerp_size.newDiameter'' FF64,
     Field ''play.toClient.world_border_lerp_size.speed'' FVarInt]"

definition play_clientbound_world_border_size_775 :: "schema list" where
  "play_clientbound_world_border_size_775 = [
     Field ''play.toClient.world_border_size.diameter'' FF64]"

definition play_clientbound_world_border_warning_delay_775 :: "schema list" where
  "play_clientbound_world_border_warning_delay_775 = [
     Field ''play.toClient.world_border_warning_delay.warningTime'' FVarInt]"

definition play_clientbound_world_border_warning_reach_775 :: "schema list" where
  "play_clientbound_world_border_warning_reach_775 = [
     Field ''play.toClient.world_border_warning_reach.warningBlocks'' FVarInt]"

definition play_clientbound_camera_775 :: "schema list" where
  "play_clientbound_camera_775 = [
     Field ''play.toClient.camera.cameraId'' FVarInt]"

definition play_clientbound_update_view_position_775 :: "schema list" where
  "play_clientbound_update_view_position_775 = [
     Field ''play.toClient.update_view_position.chunkX'' FVarInt,
     Field ''play.toClient.update_view_position.chunkZ'' FVarInt]"

definition play_clientbound_update_view_distance_775 :: "schema list" where
  "play_clientbound_update_view_distance_775 = [
     Field ''play.toClient.update_view_distance.viewDistance'' FVarInt]"

definition play_clientbound_set_cursor_item_775 :: "schema list" where
  "play_clientbound_set_cursor_item_775 = [
     Shared ''Contents'' ''Slot'']"

definition play_clientbound_spawn_position_775 :: "schema list" where
  "play_clientbound_spawn_position_775 = [
     Shared ''GlobalPos'' ''GlobalPos'',
     Field ''play.toClient.spawn_position.yaw'' FF32,
     Field ''play.toClient.spawn_position.pitch'' FF32]"

definition play_clientbound_scoreboard_display_objective_775 :: "schema list" where
  "play_clientbound_scoreboard_display_objective_775 = [
     Field ''play.toClient.scoreboard_display_objective.position'' FVarInt,
     Field ''play.toClient.scoreboard_display_objective.name'' FString]"

definition play_clientbound_entity_metadata_775 :: "schema list" where
  "play_clientbound_entity_metadata_775 = [
     Field ''play.toClient.entity_metadata.entityId'' FVarInt,
     Terminated ''play.toClient.entity_metadata.metadata'' 255 [
       Field ''play.toClient.entity_metadata.metadata[].key'' FU8,
       Mapped ''play.toClient.entity_metadata.metadata[].type'' FVarInt play_clientbound_entity_metadata_metadata_item_type_mapper_by_wire_775 play_clientbound_entity_metadata_metadata_item_type_mapper_by_name_775,
       Switch ''play.toClient.entity_metadata.metadata[].type''
         [(KText ''armadillo_state'', [
            Field ''play.toClient.entity_metadata.metadata[].value'' FVarInt]),
          (KText ''block_pos'', [
            Shared ''Metadata.Value.BlockPos'' ''Position'']),
          (KText ''block_state'', [
            Field ''play.toClient.entity_metadata.metadata[].value'' FVarInt]),
          (KText ''boolean'', [
            Field ''play.toClient.entity_metadata.metadata[].value'' FBool]),
          (KText ''byte'', [
            Field ''play.toClient.entity_metadata.metadata[].value'' FI8]),
          (KText ''cat_sound_variant'', [
            Field ''play.toClient.entity_metadata.metadata[].value'' FVarInt]),
          (KText ''cat_variant'', [
            Field ''play.toClient.entity_metadata.metadata[].value'' FVarInt]),
          (KText ''chicken_sound_variant'', [
            Field ''play.toClient.entity_metadata.metadata[].value'' FVarInt]),
          (KText ''chicken_variant'', [
            Field ''play.toClient.entity_metadata.metadata[].value'' FVarInt]),
          (KText ''component'', [
            Field ''play.toClient.entity_metadata.metadata[].value'' FAnonymousNBT]),
          (KText ''copper_golem_state'', [
            Field ''play.toClient.entity_metadata.metadata[].value'' FVarInt]),
          (KText ''cow_sound_variant'', [
            Field ''play.toClient.entity_metadata.metadata[].value'' FVarInt]),
          (KText ''cow_variant'', [
            Field ''play.toClient.entity_metadata.metadata[].value'' FVarInt]),
          (KText ''direction'', [
            Field ''play.toClient.entity_metadata.metadata[].value'' FVarInt]),
          (KText ''float'', [
            Field ''play.toClient.entity_metadata.metadata[].value'' FF32]),
          (KText ''frog_variant'', [
            Field ''play.toClient.entity_metadata.metadata[].value'' FVarInt]),
          (KText ''humanoid_arm'', [
            Mapped ''play.toClient.entity_metadata.metadata[].value'' FVarInt play_clientbound_entity_metadata_metadata_item_value_switch_humanoid_arm_mapper_by_wire_775 play_clientbound_entity_metadata_metadata_item_value_switch_humanoid_arm_mapper_by_name_775]),
          (KText ''int'', [
            Field ''play.toClient.entity_metadata.metadata[].value'' FVarInt]),
          (KText ''item_stack'', [
            Shared ''Metadata.Value.ItemStack'' ''Slot'']),
          (KText ''long'', [
            Field ''play.toClient.entity_metadata.metadata[].value'' FVarLong]),
          (KText ''optional_block_pos'', [
            Maybe ''play.toClient.entity_metadata.metadata[].value'' [
              Shared ''Metadata.Value.OptionalBlockPos'' ''Position'']]),
          (KText ''optional_block_state'', [
            Field ''play.toClient.entity_metadata.metadata[].value'' FVarInt]),
          (KText ''optional_component'', [
            Maybe ''play.toClient.entity_metadata.metadata[].value'' [
              Field ''play.toClient.entity_metadata.metadata[].value'' FAnonymousNBT]]),
          (KText ''optional_global_pos'', [
            Maybe ''play.toClient.entity_metadata.metadata[].value'' [
              Shared ''Metadata.Value.OptionalGlobalPos'' ''GlobalPos'']]),
          (KText ''optional_unsigned_int'', [
            Field ''play.toClient.entity_metadata.metadata[].value'' FVarInt]),
          (KText ''optional_uuid'', [
            Maybe ''play.toClient.entity_metadata.metadata[].value'' [
              Field ''play.toClient.entity_metadata.metadata[].value'' FUUID]]),
          (KText ''painting_variant'', [
            Holder ''play.toClient.entity_metadata.metadata[].value'' [
              Shared ''Metadata.Value.PaintingVariant.Inline'' ''EntityMetadataPaintingVariant'']]),
          (KText ''particle'', [
            Shared ''Metadata.Value.Particle'' ''Particle'']),
          (KText ''particles'', [
            Items ''play.toClient.entity_metadata.metadata[].value'' Prefixed [
              Shared ''Metadata.Value.Particles'' ''Particle'']]),
          (KText ''pig_sound_variant'', [
            Field ''play.toClient.entity_metadata.metadata[].value'' FVarInt]),
          (KText ''pig_variant'', [
            Field ''play.toClient.entity_metadata.metadata[].value'' FVarInt]),
          (KText ''pose'', [
            Field ''play.toClient.entity_metadata.metadata[].value'' FVarInt]),
          (KText ''quaternion'', [
            Field ''play.toClient.entity_metadata.metadata[].value.x'' FF32,
            Field ''play.toClient.entity_metadata.metadata[].value.y'' FF32,
            Field ''play.toClient.entity_metadata.metadata[].value.z'' FF32,
            Field ''play.toClient.entity_metadata.metadata[].value.w'' FF32]),
          (KText ''resolvable_profile'', [
            Shared ''Metadata.Value.ResolvableProfile'' ''ResolvableProfile'']),
          (KText ''rotations'', [
            Field ''play.toClient.entity_metadata.metadata[].value.pitch'' FF32,
            Field ''play.toClient.entity_metadata.metadata[].value.yaw'' FF32,
            Field ''play.toClient.entity_metadata.metadata[].value.roll'' FF32]),
          (KText ''sniffer_state'', [
            Field ''play.toClient.entity_metadata.metadata[].value'' FVarInt]),
          (KText ''string'', [
            Field ''play.toClient.entity_metadata.metadata[].value'' FString]),
          (KText ''vector3'', [
            Shared ''Metadata.Value.Vector3'' ''Vec3f'']),
          (KText ''villager_data'', [
            Field ''play.toClient.entity_metadata.metadata[].value.villagerType'' FVarInt,
            Field ''play.toClient.entity_metadata.metadata[].value.villagerProfession'' FVarInt,
            Field ''play.toClient.entity_metadata.metadata[].value.level'' FVarInt]),
          (KText ''weathering_copper_golem_state'', [
            Field ''play.toClient.entity_metadata.metadata[].value'' FVarInt]),
          (KText ''wolf_sound_variant'', [
            Field ''play.toClient.entity_metadata.metadata[].value'' FVarInt]),
          (KText ''wolf_variant'', [
            Field ''play.toClient.entity_metadata.metadata[].value'' FVarInt]),
          (KText ''zombie_nautilus_variant'', [
            Field ''play.toClient.entity_metadata.metadata[].value'' FVarInt])]
         []]]"

definition play_clientbound_attach_entity_775 :: "schema list" where
  "play_clientbound_attach_entity_775 = [
     Field ''play.toClient.attach_entity.entityId'' FI32,
     Field ''play.toClient.attach_entity.vehicleId'' FI32]"

definition play_clientbound_experience_775 :: "schema list" where
  "play_clientbound_experience_775 = [
     Field ''play.toClient.experience.experienceBar'' FF32,
     Field ''play.toClient.experience.level'' FVarInt,
     Field ''play.toClient.experience.totalExperience'' FVarInt]"

definition play_clientbound_update_health_775 :: "schema list" where
  "play_clientbound_update_health_775 = [
     Field ''play.toClient.update_health.health'' FF32,
     Field ''play.toClient.update_health.food'' FVarInt,
     Field ''play.toClient.update_health.foodSaturation'' FF32]"

definition play_clientbound_held_item_slot_775 :: "schema list" where
  "play_clientbound_held_item_slot_775 = [
     Field ''play.toClient.held_item_slot.slot'' FVarInt]"

definition play_clientbound_set_passengers_775 :: "schema list" where
  "play_clientbound_set_passengers_775 = [
     Field ''play.toClient.set_passengers.entityId'' FVarInt,
     Items ''play.toClient.set_passengers.passengers'' Prefixed [
       Field ''play.toClient.set_passengers.passengers[]'' FVarInt]]"

definition play_clientbound_set_player_inventory_775 :: "schema list" where
  "play_clientbound_set_player_inventory_775 = [
     Field ''play.toClient.set_player_inventory.slotId'' FVarInt,
     Shared ''Contents'' ''Slot'']"

definition play_clientbound_teams_775 :: "schema list" where
  "play_clientbound_teams_775 = [
     Field ''play.toClient.teams.team'' FString,
     Mapped ''play.toClient.teams.mode'' FI8 play_clientbound_teams_mode_mapper_by_wire_775 play_clientbound_teams_mode_mapper_by_name_775,
     Switch ''play.toClient.teams.mode''
       [(KText ''add'', [
          Field ''play.toClient.teams.anonymousSwitch1.name'' FAnonymousNBT,
          Flags ''play.toClient.teams.anonymousSwitch1.flags'' FU8
            [(''FriendlyFire'', 1),
             (''SeeFriendlyInvisible'', 2)],
          Mapped ''play.toClient.teams.anonymousSwitch1.nameTagVisibility'' FVarInt play_clientbound_teams_anonymous_switch1_switch_add_name_tag_visibility_mapper_by_wire_775 play_clientbound_teams_anonymous_switch1_switch_add_name_tag_visibility_mapper_by_name_775,
          Mapped ''play.toClient.teams.anonymousSwitch1.collisionRule'' FVarInt play_clientbound_teams_anonymous_switch1_switch_add_collision_rule_mapper_by_wire_775 play_clientbound_teams_anonymous_switch1_switch_add_collision_rule_mapper_by_name_775,
          Field ''play.toClient.teams.anonymousSwitch1.formatting'' FVarInt,
          Field ''play.toClient.teams.anonymousSwitch1.prefix'' FAnonymousNBT,
          Field ''play.toClient.teams.anonymousSwitch1.suffix'' FAnonymousNBT]),
        (KText ''change'', [
          Field ''play.toClient.teams.anonymousSwitch1.name'' FAnonymousNBT,
          Flags ''play.toClient.teams.anonymousSwitch1.flags'' FU8
            [(''FriendlyFire'', 1),
             (''SeeFriendlyInvisible'', 2)],
          Mapped ''play.toClient.teams.anonymousSwitch1.nameTagVisibility'' FVarInt play_clientbound_teams_anonymous_switch1_switch_change_name_tag_visibility_mapper_by_wire_775 play_clientbound_teams_anonymous_switch1_switch_change_name_tag_visibility_mapper_by_name_775,
          Mapped ''play.toClient.teams.anonymousSwitch1.collisionRule'' FVarInt play_clientbound_teams_anonymous_switch1_switch_change_collision_rule_mapper_by_wire_775 play_clientbound_teams_anonymous_switch1_switch_change_collision_rule_mapper_by_name_775,
          Field ''play.toClient.teams.anonymousSwitch1.formatting'' FVarInt,
          Field ''play.toClient.teams.anonymousSwitch1.prefix'' FAnonymousNBT,
          Field ''play.toClient.teams.anonymousSwitch1.suffix'' FAnonymousNBT])]
       [],
     Switch ''play.toClient.teams.mode''
       [(KText ''add'', [
          Items ''play.toClient.teams.players'' Prefixed [
            Field ''play.toClient.teams.players[]'' FString]]),
        (KText ''join'', [
          Items ''play.toClient.teams.players'' Prefixed [
            Field ''play.toClient.teams.players[]'' FString]]),
        (KText ''leave'', [
          Items ''play.toClient.teams.players'' Prefixed [
            Field ''play.toClient.teams.players[]'' FString]])]
       []]"

definition play_clientbound_simulation_distance_775 :: "schema list" where
  "play_clientbound_simulation_distance_775 = [
     Field ''play.toClient.simulation_distance.distance'' FVarInt]"

definition play_clientbound_set_title_subtitle_775 :: "schema list" where
  "play_clientbound_set_title_subtitle_775 = [
     Field ''play.toClient.set_title_subtitle.text'' FAnonymousNBT]"

definition play_clientbound_update_time_775 :: "schema list" where
  "play_clientbound_update_time_775 = [
     Field ''play.toClient.update_time.age'' FI64,
     Items ''play.toClient.update_time.clockUpdates'' Prefixed [
       Field ''play.toClient.update_time.clockUpdates[].id'' FVarInt,
       Field ''play.toClient.update_time.clockUpdates[].totalTicks'' FVarLong,
       Field ''play.toClient.update_time.clockUpdates[].partialTick'' FF32,
       Field ''play.toClient.update_time.clockUpdates[].rate'' FF32]]"

definition play_clientbound_set_title_text_775 :: "schema list" where
  "play_clientbound_set_title_text_775 = [
     Field ''play.toClient.set_title_text.text'' FAnonymousNBT]"

definition play_clientbound_set_title_time_775 :: "schema list" where
  "play_clientbound_set_title_time_775 = [
     Field ''play.toClient.set_title_time.fadeIn'' FI32,
     Field ''play.toClient.set_title_time.stay'' FI32,
     Field ''play.toClient.set_title_time.fadeOut'' FI32]"

definition play_clientbound_entity_sound_effect_775 :: "schema list" where
  "play_clientbound_entity_sound_effect_775 = [
     Shared ''Sound'' ''ItemSoundHolder'',
     Shared ''SoundCategory'' ''SoundSource'',
     Field ''play.toClient.entity_sound_effect.entityId'' FVarInt,
     Field ''play.toClient.entity_sound_effect.volume'' FF32,
     Field ''play.toClient.entity_sound_effect.pitch'' FF32,
     Field ''play.toClient.entity_sound_effect.seed'' FI64]"

definition play_clientbound_sound_effect_775 :: "schema list" where
  "play_clientbound_sound_effect_775 = [
     Shared ''Sound'' ''ItemSoundHolder'',
     Shared ''SoundCategory'' ''SoundSource'',
     Field ''play.toClient.sound_effect.x'' FI32,
     Field ''play.toClient.sound_effect.y'' FI32,
     Field ''play.toClient.sound_effect.z'' FI32,
     Field ''play.toClient.sound_effect.volume'' FF32,
     Field ''play.toClient.sound_effect.pitch'' FF32,
     Field ''play.toClient.sound_effect.seed'' FI64]"

definition play_clientbound_start_configuration_775 :: "schema list" where
  "play_clientbound_start_configuration_775 = []"

definition play_clientbound_stop_sound_775 :: "schema list" where
  "play_clientbound_stop_sound_775 = [
     Field ''play.toClient.stop_sound.flags'' FI8,
     Switch ''play.toClient.stop_sound.flags''
       [(KInt 1, [
          Field ''play.toClient.stop_sound.source'' FVarInt]),
        (KInt 3, [
          Field ''play.toClient.stop_sound.source'' FVarInt])]
       [],
     Switch ''play.toClient.stop_sound.flags''
       [(KInt 2, [
          Field ''play.toClient.stop_sound.sound'' FString]),
        (KInt 3, [
          Field ''play.toClient.stop_sound.sound'' FString])]
       []]"

definition play_clientbound_store_cookie_775 :: "schema list" where
  "play_clientbound_store_cookie_775 = [
     Field ''play.toClient.store_cookie.key'' FString,
     Shared ''Value'' ''ByteArray'']"

definition play_clientbound_system_chat_775 :: "schema list" where
  "play_clientbound_system_chat_775 = [
     Field ''play.toClient.system_chat.content'' FAnonymousNBT,
     Field ''play.toClient.system_chat.isActionBar'' FBool]"

definition play_clientbound_playerlist_header_775 :: "schema list" where
  "play_clientbound_playerlist_header_775 = [
     Field ''play.toClient.playerlist_header.header'' FAnonymousNBT,
     Field ''play.toClient.playerlist_header.footer'' FAnonymousNBT]"

definition play_clientbound_nbt_query_response_775 :: "schema list" where
  "play_clientbound_nbt_query_response_775 = [
     Field ''play.toClient.nbt_query_response.transactionId'' FVarInt,
     Field ''play.toClient.nbt_query_response.nbt'' FAnonOptionalNBT]"

definition play_clientbound_collect_775 :: "schema list" where
  "play_clientbound_collect_775 = [
     Field ''play.toClient.collect.collectedEntityId'' FVarInt,
     Field ''play.toClient.collect.collectorEntityId'' FVarInt,
     Field ''play.toClient.collect.pickupItemCount'' FVarInt]"

definition play_clientbound_entity_teleport_775 :: "schema list" where
  "play_clientbound_entity_teleport_775 = [
     Field ''play.toClient.entity_teleport.entityId'' FVarInt,
     Field ''play.toClient.entity_teleport.x'' FF64,
     Field ''play.toClient.entity_teleport.y'' FF64,
     Field ''play.toClient.entity_teleport.z'' FF64,
     Field ''play.toClient.entity_teleport.yaw'' FI8,
     Field ''play.toClient.entity_teleport.pitch'' FI8,
     Field ''play.toClient.entity_teleport.onGround'' FBool]"

definition play_clientbound_test_instance_block_status_775 :: "schema list" where
  "play_clientbound_test_instance_block_status_775 = [
     Field ''play.toClient.test_instance_block_status.status'' FAnonymousNBT,
     Maybe ''play.toClient.test_instance_block_status.size'' [
       Shared ''Size'' ''Vec3i'']]"

definition play_clientbound_set_ticking_state_775 :: "schema list" where
  "play_clientbound_set_ticking_state_775 = [
     Field ''play.toClient.set_ticking_state.tick_rate'' FF32,
     Field ''play.toClient.set_ticking_state.is_frozen'' FBool]"

definition play_clientbound_step_tick_775 :: "schema list" where
  "play_clientbound_step_tick_775 = [
     Field ''play.toClient.step_tick.tick_steps'' FVarInt]"

definition play_clientbound_transfer_775 :: "schema list" where
  "play_clientbound_transfer_775 = [
     Field ''play.toClient.transfer.host'' FString,
     Field ''play.toClient.transfer.port'' FVarInt]"

definition play_clientbound_advancements_775 :: "schema list" where
  "play_clientbound_advancements_775 = [
     Field ''play.toClient.advancements.reset'' FBool,
     Items ''play.toClient.advancements.advancementMapping'' Prefixed [
       Field ''play.toClient.advancements.advancementMapping[].key'' FString,
       Maybe ''play.toClient.advancements.advancementMapping[].value.parentId'' [
         Field ''play.toClient.advancements.advancementMapping[].value.parentId'' FString],
       Maybe ''play.toClient.advancements.advancementMapping[].value.displayData'' [
         Field ''play.toClient.advancements.advancementMapping[].value.displayData.title'' FAnonymousNBT,
         Field ''play.toClient.advancements.advancementMapping[].value.displayData.description'' FAnonymousNBT,
         Shared ''AdvancementMapping.Value.DisplayData.Icon'' ''Slot'',
         Field ''play.toClient.advancements.advancementMapping[].value.displayData.frameType'' FVarInt,
         Bits ''play.toClient.advancements.advancementMapping[].value.displayData.flags'' FU32
           [bits ''unused'' 3 29 False,
            bits ''hidden'' 2 1 False,
            bits ''show_toast'' 1 1 False,
            bits ''has_background_texture'' 0 1 False],
         Switch ''play.toClient.advancements.advancementMapping[].value.displayData.flags#has_background_texture''
           [(KInt 1, [
              Field ''play.toClient.advancements.advancementMapping[].value.displayData.backgroundTexture'' FString])]
           [],
         Field ''play.toClient.advancements.advancementMapping[].value.displayData.xCord'' FF32,
         Field ''play.toClient.advancements.advancementMapping[].value.displayData.yCord'' FF32],
       Items ''play.toClient.advancements.advancementMapping[].value.requirements'' Prefixed [
         Items ''play.toClient.advancements.advancementMapping[].value.requirements[]'' Prefixed [
           Field ''play.toClient.advancements.advancementMapping[].value.requirements[][]'' FString]],
       Field ''play.toClient.advancements.advancementMapping[].value.sendsTelemtryData'' FBool],
     Items ''play.toClient.advancements.identifiers'' Prefixed [
       Field ''play.toClient.advancements.identifiers[]'' FString],
     Items ''play.toClient.advancements.progressMapping'' Prefixed [
       Field ''play.toClient.advancements.progressMapping[].key'' FString,
       Items ''play.toClient.advancements.progressMapping[].value'' Prefixed [
         Field ''play.toClient.advancements.progressMapping[].value[].criterionIdentifier'' FString,
         Maybe ''play.toClient.advancements.progressMapping[].value[].criterionProgress'' [
           Field ''play.toClient.advancements.progressMapping[].value[].criterionProgress'' FI64]]],
     Field ''play.toClient.advancements.showAdvancements'' FBool]"

definition play_clientbound_entity_update_attributes_775 :: "schema list" where
  "play_clientbound_entity_update_attributes_775 = [
     Field ''play.toClient.entity_update_attributes.entityId'' FVarInt,
     Items ''play.toClient.entity_update_attributes.properties'' Prefixed [
       Mapped ''play.toClient.entity_update_attributes.properties[].key'' FVarInt play_clientbound_entity_update_attributes_properties_item_key_mapper_by_wire_775 play_clientbound_entity_update_attributes_properties_item_key_mapper_by_name_775,
       Field ''play.toClient.entity_update_attributes.properties[].value'' FF64,
       Items ''play.toClient.entity_update_attributes.properties[].modifiers'' Prefixed [
         Field ''play.toClient.entity_update_attributes.properties[].modifiers[].uuid'' FString,
         Field ''play.toClient.entity_update_attributes.properties[].modifiers[].amount'' FF64,
         Field ''play.toClient.entity_update_attributes.properties[].modifiers[].operation'' FI8]]]"

definition play_clientbound_entity_effect_775 :: "schema list" where
  "play_clientbound_entity_effect_775 = [
     Field ''play.toClient.entity_effect.entityId'' FVarInt,
     Field ''play.toClient.entity_effect.effectId'' FVarInt,
     Field ''play.toClient.entity_effect.amplifier'' FVarInt,
     Field ''play.toClient.entity_effect.duration'' FVarInt,
     Field ''play.toClient.entity_effect.flags'' FU8]"

definition play_clientbound_declare_recipes_775 :: "schema list" where
  "play_clientbound_declare_recipes_775 = [
     Items ''play.toClient.declare_recipes.recipes'' Prefixed [
       Field ''play.toClient.declare_recipes.recipes[].name'' FString,
       Items ''play.toClient.declare_recipes.recipes[].items'' Prefixed [
         Field ''play.toClient.declare_recipes.recipes[].items[]'' FVarInt]],
     Items ''play.toClient.declare_recipes.stoneCutterRecipes'' Prefixed [
       Shared ''StoneCutterRecipes.Input'' ''IDSet'',
       Shared ''StoneCutterRecipes.SlotDisplay'' ''SlotDisplay'']]"

definition play_clientbound_tags_775 :: "schema list" where
  "play_clientbound_tags_775 = [
     Items ''play.toClient.tags.tags'' Prefixed [
       Field ''play.toClient.tags.tags[].tagType'' FString,
       Items ''play.toClient.tags.tags[].tags'' Prefixed [
         Field ''play.toClient.tags.tags[].tags[].tagName'' FString,
         Items ''play.toClient.tags.tags[].tags[].entries'' Prefixed [
           Field ''play.toClient.tags.tags[].tags[].entries[]'' FVarInt]]]]"

definition play_clientbound_set_projectile_power_775 :: "schema list" where
  "play_clientbound_set_projectile_power_775 = [
     Field ''play.toClient.set_projectile_power.id'' FVarInt,
     Field ''play.toClient.set_projectile_power.accelerationPower'' FF64]"

definition play_clientbound_custom_report_details_775 :: "schema list" where
  "play_clientbound_custom_report_details_775 = [
     Items ''play.toClient.custom_report_details.details'' Prefixed [
       Field ''play.toClient.custom_report_details.details[].key'' FString,
       Field ''play.toClient.custom_report_details.details[].value'' FString]]"

definition play_clientbound_server_links_775 :: "schema list" where
  "play_clientbound_server_links_775 = [
     Items ''play.toClient.server_links.links'' Prefixed [
       Field ''play.toClient.server_links.links[].hasKnownType'' FBool,
       Switch ''play.toClient.server_links.links[].hasKnownType''
         [(KBool True, [
            Mapped ''play.toClient.server_links.links[].knownType'' FVarInt play_clientbound_server_links_links_item_known_type_switch_true_mapper_by_wire_775 play_clientbound_server_links_links_item_known_type_switch_true_mapper_by_name_775])]
         [],
       Switch ''play.toClient.server_links.links[].hasKnownType''
         [(KBool False, [
            Field ''play.toClient.server_links.links[].unknownType'' FAnonymousNBT])]
         [],
       Field ''play.toClient.server_links.links[].link'' FString]]"

definition play_clientbound_tracked_waypoint_775 :: "schema list" where
  "play_clientbound_tracked_waypoint_775 = [
     Mapped ''play.toClient.tracked_waypoint.operation'' FVarInt play_clientbound_tracked_waypoint_operation_mapper_by_wire_775 play_clientbound_tracked_waypoint_operation_mapper_by_name_775,
     Field ''play.toClient.tracked_waypoint.waypoint.hasUUID'' FBool,
     Switch ''play.toClient.tracked_waypoint.waypoint.hasUUID''
       [(KBool False, [
          Field ''play.toClient.tracked_waypoint.waypoint.anonymousSwitch1.id'' FString]),
        (KBool True, [
          Field ''play.toClient.tracked_waypoint.waypoint.anonymousSwitch1.uuid'' FUUID])]
       [],
     Field ''play.toClient.tracked_waypoint.waypoint.icon.style'' FString,
     Maybe ''play.toClient.tracked_waypoint.waypoint.icon.color'' [
       Field ''play.toClient.tracked_waypoint.waypoint.icon.color.red'' FU8,
       Field ''play.toClient.tracked_waypoint.waypoint.icon.color.green'' FU8,
       Field ''play.toClient.tracked_waypoint.waypoint.icon.color.blue'' FU8],
     Mapped ''play.toClient.tracked_waypoint.waypoint.type'' FVarInt play_clientbound_tracked_waypoint_waypoint_type_mapper_by_wire_775 play_clientbound_tracked_waypoint_waypoint_type_mapper_by_name_775,
     Switch ''play.toClient.tracked_waypoint.waypoint.type''
       [(KText ''azimuth'', [
          Field ''play.toClient.tracked_waypoint.waypoint.data'' FF32]),
        (KText ''chunk'', [
          Field ''play.toClient.tracked_waypoint.waypoint.data.chunkX'' FVarInt,
          Field ''play.toClient.tracked_waypoint.waypoint.data.chunkZ'' FVarInt]),
        (KText ''vec3i'', [
          Shared ''Waypoint.Data.Vec3i'' ''Vec3i''])]
       []]"

definition play_clientbound_clear_dialog_775 :: "schema list" where
  "play_clientbound_clear_dialog_775 = []"

definition play_clientbound_show_dialog_775 :: "schema list" where
  "play_clientbound_show_dialog_775 = [
     Holder ''play.toClient.show_dialog.dialog'' [
       Field ''play.toClient.show_dialog.dialog.inline'' FAnonymousNBT]]"

end
