(* ===== verification/Packets_V775.thy ===== *)
theory Packets_V775
  imports Packets_V775_Clientbound
begin

text \<open>
  generated/java/v26_1/codec.go, descriptor.go and packetNames of protocol.go: the other packets of
  protocol 775 and its registry.
\<close>

section \<open>Packets\<close>

definition handshaking_serverbound_set_protocol_775 :: "schema list" where
  "handshaking_serverbound_set_protocol_775 = [
     Field ''handshaking.toServer.set_protocol.protocolVersion'' FVarInt,
     Field ''handshaking.toServer.set_protocol.serverHost'' FString,
     Field ''handshaking.toServer.set_protocol.serverPort'' FU16,
     Field ''handshaking.toServer.set_protocol.nextState'' FVarInt]"

definition status_clientbound_server_info_775 :: "schema list" where
  "status_clientbound_server_info_775 = [
     Field ''status.toClient.server_info.response'' FString]"

definition status_clientbound_ping_775 :: "schema list" where
  "status_clientbound_ping_775 = [
     Field ''status.toClient.ping.time'' FI64]"

definition status_serverbound_ping_start_775 :: "schema list" where
  "status_serverbound_ping_start_775 = []"

definition status_serverbound_ping_775 :: "schema list" where
  "status_serverbound_ping_775 = [
     Field ''status.toServer.ping.time'' FI64]"

definition login_clientbound_disconnect_775 :: "schema list" where
  "login_clientbound_disconnect_775 = [
     Field ''login.toClient.disconnect.reason'' FString]"

definition login_clientbound_encryption_begin_775 :: "schema list" where
  "login_clientbound_encryption_begin_775 = [
     Field ''login.toClient.encryption_begin.serverId'' FString,
     Field ''login.toClient.encryption_begin.publicKey'' FByteArray,
     Field ''login.toClient.encryption_begin.verifyToken'' FByteArray,
     Field ''login.toClient.encryption_begin.shouldAuthenticate'' FBool]"

definition login_clientbound_success_775 :: "schema list" where
  "login_clientbound_success_775 = [
     Field ''login.toClient.success.uuid'' FUUID,
     Field ''login.toClient.success.username'' FString,
     Items ''login.toClient.success.properties'' Prefixed [
       Field ''login.toClient.success.properties[].name'' FString,
       Field ''login.toClient.success.properties[].value'' FString,
       Maybe ''login.toClient.success.properties[].signature'' [
         Field ''login.toClient.success.properties[].signature'' FString]]]"

definition login_clientbound_compress_775 :: "schema list" where
  "login_clientbound_compress_775 = [
     Field ''login.toClient.compress.threshold'' FVarInt]"

definition login_clientbound_login_plugin_request_775 :: "schema list" where
  "login_clientbound_login_plugin_request_775 = [
     Field ''login.toClient.login_plugin_request.messageId'' FVarInt,
     Field ''login.toClient.login_plugin_request.channel'' FString,
     Field ''login.toClient.login_plugin_request.data'' FRest]"

definition login_clientbound_cookie_request_775 :: "schema list" where
  "login_clientbound_cookie_request_775 = [
     Field ''login.toClient.cookie_request.cookie'' FString]"

definition login_serverbound_login_start_775 :: "schema list" where
  "login_serverbound_login_start_775 = [
     Field ''login.toServer.login_start.username'' FString,
     Field ''login.toServer.login_start.playerUUID'' FUUID]"

definition login_serverbound_encryption_begin_775 :: "schema list" where
  "login_serverbound_encryption_begin_775 = [
     Field ''login.toServer.encryption_begin.sharedSecret'' FByteArray,
     Field ''login.toServer.encryption_begin.verifyToken'' FByteArray]"

definition login_serverbound_login_plugin_response_775 :: "schema list" where
  "login_serverbound_login_plugin_response_775 = [
     Field ''login.toServer.login_plugin_response.messageId'' FVarInt,
     Maybe ''login.toServer.login_plugin_response.data'' [
       Field ''login.toServer.login_plugin_response.data'' FRest]]"

definition login_serverbound_login_acknowledged_775 :: "schema list" where
  "login_serverbound_login_acknowledged_775 = []"

definition login_serverbound_cookie_response_775 :: "schema list" where
  "login_serverbound_cookie_response_775 = [
     Field ''login.toServer.cookie_response.key'' FString,
     Maybe ''login.toServer.cookie_response.value'' [
       Field ''login.toServer.cookie_response.value'' FByteArray]]"

definition play_serverbound_teleport_confirm_775 :: "schema list" where
  "play_serverbound_teleport_confirm_775 = [
     Field ''play.toServer.teleport_confirm.teleportId'' FVarInt]"

definition play_serverbound_attack_775 :: "schema list" where
  "play_serverbound_attack_775 = [
     Field ''play.toServer.attack.entityId'' FVarInt]"

definition play_serverbound_query_block_nbt_775 :: "schema list" where
  "play_serverbound_query_block_nbt_775 = [
     Field ''play.toServer.query_block_nbt.transactionId'' FVarInt,
     Shared ''Location'' ''Position'']"

definition play_serverbound_select_bundle_item_775 :: "schema list" where
  "play_serverbound_select_bundle_item_775 = [
     Field ''play.toServer.select_bundle_item.slotId'' FVarInt,
     Field ''play.toServer.select_bundle_item.selectedItemIndex'' FVarInt]"

definition play_serverbound_set_difficulty_775 :: "schema list" where
  "play_serverbound_set_difficulty_775 = [
     Mapped ''play.toServer.set_difficulty.newDifficulty'' FVarInt play_serverbound_set_difficulty_new_difficulty_mapper_by_wire_775 play_serverbound_set_difficulty_new_difficulty_mapper_by_name_775]"

definition play_serverbound_change_gamemode_775 :: "schema list" where
  "play_serverbound_change_gamemode_775 = [
     Mapped ''play.toServer.change_gamemode.mode'' FVarInt play_serverbound_change_gamemode_mode_mapper_by_wire_775 play_serverbound_change_gamemode_mode_mapper_by_name_775]"

definition play_serverbound_message_acknowledgement_775 :: "schema list" where
  "play_serverbound_message_acknowledgement_775 = [
     Field ''play.toServer.message_acknowledgement.count'' FVarInt]"

definition play_serverbound_chat_command_775 :: "schema list" where
  "play_serverbound_chat_command_775 = [
     Field ''play.toServer.chat_command.command'' FString]"

definition play_serverbound_chat_command_signed_775 :: "schema list" where
  "play_serverbound_chat_command_signed_775 = [
     Field ''play.toServer.chat_command_signed.command'' FString,
     Field ''play.toServer.chat_command_signed.timestamp'' FI64,
     Field ''play.toServer.chat_command_signed.salt'' FI64,
     Items ''play.toServer.chat_command_signed.argumentSignatures'' Prefixed [
       Field ''play.toServer.chat_command_signed.argumentSignatures[].argumentName'' FString,
       Raw ''play.toServer.chat_command_signed.argumentSignatures[].signature'' (Const 256)],
     Field ''play.toServer.chat_command_signed.messageCount'' FVarInt,
     Raw ''play.toServer.chat_command_signed.acknowledged'' (Const 3),
     Field ''play.toServer.chat_command_signed.checksum'' FU8]"

definition play_serverbound_chat_message_775 :: "schema list" where
  "play_serverbound_chat_message_775 = [
     Field ''play.toServer.chat_message.message'' FString,
     Field ''play.toServer.chat_message.timestamp'' FI64,
     Field ''play.toServer.chat_message.salt'' FI64,
     Maybe ''play.toServer.chat_message.signature'' [
       Raw ''play.toServer.chat_message.signature'' (Const 256)],
     Field ''play.toServer.chat_message.offset'' FVarInt,
     Raw ''play.toServer.chat_message.acknowledged'' (Const 3),
     Field ''play.toServer.chat_message.checksum'' FU8]"

definition play_serverbound_chat_session_update_775 :: "schema list" where
  "play_serverbound_chat_session_update_775 = [
     Field ''play.toServer.chat_session_update.sessionUUID'' FUUID,
     Field ''play.toServer.chat_session_update.expireTime'' FI64,
     Shared ''PublicKey'' ''ByteArray'',
     Shared ''Signature'' ''ByteArray'']"

definition play_serverbound_chunk_batch_received_775 :: "schema list" where
  "play_serverbound_chunk_batch_received_775 = [
     Field ''play.toServer.chunk_batch_received.chunksPerTick'' FF32]"

definition play_serverbound_client_command_775 :: "schema list" where
  "play_serverbound_client_command_775 = [
     Mapped ''play.toServer.client_command.actionId'' FVarInt play_serverbound_client_command_action_id_mapper_by_wire_775 play_serverbound_client_command_action_id_mapper_by_name_775]"

definition play_serverbound_tick_end_775 :: "schema list" where
  "play_serverbound_tick_end_775 = []"

definition play_serverbound_settings_775 :: "schema list" where
  "play_serverbound_settings_775 = [
     Field ''play.toServer.settings.locale'' FString,
     Field ''play.toServer.settings.viewDistance'' FI8,
     Field ''play.toServer.settings.chatFlags'' FVarInt,
     Field ''play.toServer.settings.chatColors'' FBool,
     Field ''play.toServer.settings.skinParts'' FU8,
     Field ''play.toServer.settings.mainHand'' FVarInt,
     Field ''play.toServer.settings.enableTextFiltering'' FBool,
     Field ''play.toServer.settings.enableServerListing'' FBool,
     Mapped ''play.toServer.settings.particleStatus'' FVarInt play_serverbound_settings_particle_status_mapper_by_wire_775 play_serverbound_settings_particle_status_mapper_by_name_775]"

definition play_serverbound_tab_complete_775 :: "schema list" where
  "play_serverbound_tab_complete_775 = [
     Field ''play.toServer.tab_complete.transactionId'' FVarInt,
     Field ''play.toServer.tab_complete.text'' FString]"

definition play_serverbound_configuration_acknowledged_775 :: "schema list" where
  "play_serverbound_configuration_acknowledged_775 = []"

definition play_serverbound_enchant_item_775 :: "schema list" where
  "play_serverbound_enchant_item_775 = [
     Field ''play.toServer.enchant_item.windowId'' FVarInt,
     Field ''play.toServer.enchant_item.enchantment'' FVarInt]"

definition play_serverbound_window_click_775 :: "schema list" where
  "play_serverbound_window_click_775 = [
     Field ''play.toServer.window_click.windowId'' FVarInt,
     Field ''play.toServer.window_click.stateId'' FVarInt,
     Field ''play.toServer.window_click.slot'' FI16,
     Field ''play.toServer.window_click.mouseButton'' FI8,
     Field ''play.toServer.window_click.mode'' FVarInt,
     Items ''play.toServer.window_click.changedSlots'' Prefixed [
       Field ''play.toServer.window_click.changedSlots[].location'' FI16,
       Maybe ''play.toServer.window_click.changedSlots[].item'' [
         Field ''play.toServer.window_click.changedSlots[].item.itemId'' FVarInt,
         Field ''play.toServer.window_click.changedSlots[].item.itemCount'' FVarInt,
         Items ''play.toServer.window_click.changedSlots[].item.components'' Prefixed [
           Shared ''ChangedSlots.Item.Components.Type'' ''SlotComponentType'',
           Field ''play.toServer.window_click.changedSlots[].item.components[].hash'' FI32],
         Items ''play.toServer.window_click.changedSlots[].item.removeComponents'' Prefixed [
           Shared ''ChangedSlots.Item.RemoveComponents.Type'' ''SlotComponentType'']]],
     Maybe ''play.toServer.window_click.cursorItem'' [
       Field ''play.toServer.window_click.cursorItem.itemId'' FVarInt,
       Field ''play.toServer.window_click.cursorItem.itemCount'' FVarInt,
       Items ''play.toServer.window_click.cursorItem.components'' Prefixed [
         Shared ''CursorItem.Components.Type'' ''SlotComponentType'',
         Field ''play.toServer.window_click.cursorItem.components[].hash'' FI32],
       Items ''play.toServer.window_click.cursorItem.removeComponents'' Prefixed [
         Shared ''CursorItem.RemoveComponents.Type'' ''SlotComponentType'']]]"

definition play_serverbound_close_window_775 :: "schema list" where
  "play_serverbound_close_window_775 = [
     Field ''play.toServer.close_window.windowId'' FVarInt]"

definition play_serverbound_set_slot_state_775 :: "schema list" where
  "play_serverbound_set_slot_state_775 = [
     Field ''play.toServer.set_slot_state.slot_id'' FVarInt,
     Field ''play.toServer.set_slot_state.window_id'' FVarInt,
     Field ''play.toServer.set_slot_state.state'' FBool]"

definition play_serverbound_cookie_response_775 :: "schema list" where
  "play_serverbound_cookie_response_775 = [
     Field ''play.toServer.cookie_response.key'' FString,
     Maybe ''play.toServer.cookie_response.value'' [
       Shared ''Value'' ''ByteArray'']]"

definition play_serverbound_custom_payload_775 :: "schema list" where
  "play_serverbound_custom_payload_775 = [
     Field ''play.toServer.custom_payload.channel'' FString,
     Field ''play.toServer.custom_payload.data'' FPlugin]"

definition play_serverbound_debug_subscription_request_775 :: "schema list" where
  "play_serverbound_debug_subscription_request_775 = [
     Items ''play.toServer.debug_subscription_request.subscriptions'' Prefixed [
       Shared ''Subscriptions'' ''DebugSubscriptionDataType'']]"

definition play_serverbound_edit_book_775 :: "schema list" where
  "play_serverbound_edit_book_775 = [
     Field ''play.toServer.edit_book.hand'' FVarInt,
     Items ''play.toServer.edit_book.pages'' Prefixed [
       Field ''play.toServer.edit_book.pages[]'' FString],
     Maybe ''play.toServer.edit_book.title'' [
       Field ''play.toServer.edit_book.title'' FString]]"

definition play_serverbound_query_entity_nbt_775 :: "schema list" where
  "play_serverbound_query_entity_nbt_775 = [
     Field ''play.toServer.query_entity_nbt.transactionId'' FVarInt,
     Field ''play.toServer.query_entity_nbt.entityId'' FVarInt]"

definition play_serverbound_generate_structure_775 :: "schema list" where
  "play_serverbound_generate_structure_775 = [
     Shared ''Location'' ''Position'',
     Field ''play.toServer.generate_structure.levels'' FVarInt,
     Field ''play.toServer.generate_structure.keepJigsaws'' FBool]"

definition play_serverbound_keep_alive_775 :: "schema list" where
  "play_serverbound_keep_alive_775 = [
     Field ''play.toServer.keep_alive.keepAliveId'' FI64]"

definition play_serverbound_lock_difficulty_775 :: "schema list" where
  "play_serverbound_lock_difficulty_775 = [
     Field ''play.toServer.lock_difficulty.locked'' FBool]"

definition play_serverbound_position_775 :: "schema list" where
  "play_serverbound_position_775 = [
     Field ''play.toServer.position.x'' FF64,
     Field ''play.toServer.position.y'' FF64,
     Field ''play.toServer.position.z'' FF64,
     Shared ''Flags'' ''MovementFlags'']"

definition play_serverbound_position_look_775 :: "schema list" where
  "play_serverbound_position_look_775 = [
     Field ''play.toServer.position_look.x'' FF64,
     Field ''play.toServer.position_look.y'' FF64,
     Field ''play.toServer.position_look.z'' FF64,
     Field ''play.toServer.position_look.yaw'' FF32,
     Field ''play.toServer.position_look.pitch'' FF32,
     Shared ''Flags'' ''MovementFlags'']"

definition play_serverbound_look_775 :: "schema list" where
  "play_serverbound_look_775 = [
     Field ''play.toServer.look.yaw'' FF32,
     Field ''play.toServer.look.pitch'' FF32,
     Shared ''Flags'' ''MovementFlags'']"

definition play_serverbound_flying_775 :: "schema list" where
  "play_serverbound_flying_775 = [
     Shared ''Flags'' ''MovementFlags'']"

definition play_serverbound_vehicle_move_775 :: "schema list" where
  "play_serverbound_vehicle_move_775 = [
     Field ''play.toServer.vehicle_move.x'' FF64,
     Field ''play.toServer.vehicle_move.y'' FF64,
     Field ''play.toServer.vehicle_move.z'' FF64,
     Field ''play.toServer.vehicle_move.yaw'' FF32,
     Field ''play.toServer.vehicle_move.pitch'' FF32,
     Field ''play.toServer.vehicle_move.onGround'' FBool]"

definition play_serverbound_steer_boat_775 :: "schema list" where
  "play_serverbound_steer_boat_775 = [
     Field ''play.toServer.steer_boat.leftPaddle'' FBool,
     Field ''play.toServer.steer_boat.rightPaddle'' FBool]"

definition play_serverbound_pick_item_from_block_775 :: "schema list" where
  "play_serverbound_pick_item_from_block_775 = [
     Shared ''Position'' ''Position'',
     Field ''play.toServer.pick_item_from_block.includeData'' FBool]"

definition play_serverbound_pick_item_from_entity_775 :: "schema list" where
  "play_serverbound_pick_item_from_entity_775 = [
     Field ''play.toServer.pick_item_from_entity.entityId'' FVarInt,
     Field ''play.toServer.pick_item_from_entity.includeData'' FBool]"

definition play_serverbound_ping_request_775 :: "schema list" where
  "play_serverbound_ping_request_775 = [
     Field ''play.toServer.ping_request.id'' FI64]"

definition play_serverbound_craft_recipe_request_775 :: "schema list" where
  "play_serverbound_craft_recipe_request_775 = [
     Field ''play.toServer.craft_recipe_request.windowId'' FVarInt,
     Field ''play.toServer.craft_recipe_request.recipeId'' FVarInt,
     Field ''play.toServer.craft_recipe_request.makeAll'' FBool]"

definition play_serverbound_abilities_775 :: "schema list" where
  "play_serverbound_abilities_775 = [
     Field ''play.toServer.abilities.flags'' FI8]"

definition play_serverbound_block_dig_775 :: "schema list" where
  "play_serverbound_block_dig_775 = [
     Field ''play.toServer.block_dig.status'' FVarInt,
     Shared ''Location'' ''Position'',
     Field ''play.toServer.block_dig.face'' FI8,
     Field ''play.toServer.block_dig.sequence'' FVarInt]"

definition play_serverbound_entity_action_775 :: "schema list" where
  "play_serverbound_entity_action_775 = [
     Field ''play.toServer.entity_action.entityId'' FVarInt,
     Mapped ''play.toServer.entity_action.actionId'' FVarInt play_serverbound_entity_action_action_id_mapper_by_wire_775 play_serverbound_entity_action_action_id_mapper_by_name_775,
     Field ''play.toServer.entity_action.jumpBoost'' FVarInt]"

definition play_serverbound_player_input_775 :: "schema list" where
  "play_serverbound_player_input_775 = [
     Flags ''play.toServer.player_input.inputs'' FU8
       [(''Forward'', 1),
        (''Backward'', 2),
        (''Left'', 4),
        (''Right'', 8),
        (''Jump'', 16),
        (''Shift'', 32),
        (''Sprint'', 64)]]"

definition play_serverbound_player_loaded_775 :: "schema list" where
  "play_serverbound_player_loaded_775 = []"

definition play_serverbound_pong_775 :: "schema list" where
  "play_serverbound_pong_775 = [
     Field ''play.toServer.pong.id'' FI32]"

definition play_serverbound_recipe_book_775 :: "schema list" where
  "play_serverbound_recipe_book_775 = [
     Field ''play.toServer.recipe_book.bookId'' FVarInt,
     Field ''play.toServer.recipe_book.bookOpen'' FBool,
     Field ''play.toServer.recipe_book.filterActive'' FBool]"

definition play_serverbound_displayed_recipe_775 :: "schema list" where
  "play_serverbound_displayed_recipe_775 = [
     Field ''play.toServer.displayed_recipe.recipeId'' FVarInt]"

definition play_serverbound_name_item_775 :: "schema list" where
  "play_serverbound_name_item_775 = [
     Field ''play.toServer.name_item.name'' FString]"

definition play_serverbound_resource_pack_receive_775 :: "schema list" where
  "play_serverbound_resource_pack_receive_775 = [
     Field ''play.toServer.resource_pack_receive.uuid'' FUUID,
     Field ''play.toServer.resource_pack_receive.result'' FVarInt]"

definition play_serverbound_advancement_tab_775 :: "schema list" where
  "play_serverbound_advancement_tab_775 = [
     Field ''play.toServer.advancement_tab.action'' FVarInt,
     Switch ''play.toServer.advancement_tab.action''
       [(KInt 0, [
          Field ''play.toServer.advancement_tab.tabId'' FString]),
        (KInt 1, [])]
       []]"

definition play_serverbound_select_trade_775 :: "schema list" where
  "play_serverbound_select_trade_775 = [
     Field ''play.toServer.select_trade.slot'' FVarInt]"

definition play_serverbound_set_beacon_effect_775 :: "schema list" where
  "play_serverbound_set_beacon_effect_775 = [
     Maybe ''play.toServer.set_beacon_effect.primary_effect'' [
       Field ''play.toServer.set_beacon_effect.primary_effect'' FVarInt],
     Maybe ''play.toServer.set_beacon_effect.secondary_effect'' [
       Field ''play.toServer.set_beacon_effect.secondary_effect'' FVarInt]]"

definition play_serverbound_held_item_slot_775 :: "schema list" where
  "play_serverbound_held_item_slot_775 = [
     Field ''play.toServer.held_item_slot.slotId'' FI16]"

definition play_serverbound_update_command_block_775 :: "schema list" where
  "play_serverbound_update_command_block_775 = [
     Shared ''Location'' ''Position'',
     Field ''play.toServer.update_command_block.command'' FString,
     Field ''play.toServer.update_command_block.mode'' FVarInt,
     Field ''play.toServer.update_command_block.flags'' FU8]"

definition play_serverbound_update_command_block_minecart_775 :: "schema list" where
  "play_serverbound_update_command_block_minecart_775 = [
     Field ''play.toServer.update_command_block_minecart.entityId'' FVarInt,
     Field ''play.toServer.update_command_block_minecart.command'' FString,
     Field ''play.toServer.update_command_block_minecart.track_output'' FBool]"

definition play_serverbound_set_creative_slot_775 :: "schema list" where
  "play_serverbound_set_creative_slot_775 = [
     Field ''play.toServer.set_creative_slot.slot'' FI16,
     Field ''play.toServer.set_creative_slot.item.itemCount'' FVarInt,
     Switch ''play.toServer.set_creative_slot.item.itemCount''
       [(KInt 0, [])]
       [
        Field ''play.toServer.set_creative_slot.item.anonymousSwitch1.itemId'' FVarInt,
        Field ''play.toServer.set_creative_slot.item.anonymousSwitch1.addedComponentCount'' FVarInt,
        Field ''play.toServer.set_creative_slot.item.anonymousSwitch1.removedComponentCount'' FVarInt,
        Items ''play.toServer.set_creative_slot.item.anonymousSwitch1.components'' (Of ''play.toServer.set_creative_slot.item.anonymousSwitch1.addedComponentCount'') [
          Shared ''Item.AnonymousSwitch1.Default.Components.Type'' ''SlotComponentType'',
          Shared ''Item.AnonymousSwitch1.Default.Components.Data'' ''ByteArray''],
        Items ''play.toServer.set_creative_slot.item.anonymousSwitch1.removeComponents'' (Of ''play.toServer.set_creative_slot.item.anonymousSwitch1.removedComponentCount'') [
          Shared ''Item.AnonymousSwitch1.Default.RemoveComponents.Type'' ''SlotComponentType'']]]"

definition play_serverbound_set_game_rule_775 :: "schema list" where
  "play_serverbound_set_game_rule_775 = [
     Items ''play.toServer.set_game_rule.entries'' Prefixed [
       Field ''play.toServer.set_game_rule.entries[].name'' FString,
       Field ''play.toServer.set_game_rule.entries[].value'' FString]]"

definition play_serverbound_update_jigsaw_block_775 :: "schema list" where
  "play_serverbound_update_jigsaw_block_775 = [
     Shared ''Location'' ''Position'',
     Field ''play.toServer.update_jigsaw_block.name'' FString,
     Field ''play.toServer.update_jigsaw_block.target'' FString,
     Field ''play.toServer.update_jigsaw_block.pool'' FString,
     Field ''play.toServer.update_jigsaw_block.finalState'' FString,
     Field ''play.toServer.update_jigsaw_block.jointType'' FString,
     Field ''play.toServer.update_jigsaw_block.selection_priority'' FVarInt,
     Field ''play.toServer.update_jigsaw_block.placement_priority'' FVarInt]"

definition play_serverbound_update_structure_block_775 :: "schema list" where
  "play_serverbound_update_structure_block_775 = [
     Shared ''Location'' ''Position'',
     Field ''play.toServer.update_structure_block.action'' FVarInt,
     Field ''play.toServer.update_structure_block.mode'' FVarInt,
     Field ''play.toServer.update_structure_block.name'' FString,
     Field ''play.toServer.update_structure_block.offset_x'' FI8,
     Field ''play.toServer.update_structure_block.offset_y'' FI8,
     Field ''play.toServer.update_structure_block.offset_z'' FI8,
     Field ''play.toServer.update_structure_block.size_x'' FI8,
     Field ''play.toServer.update_structure_block.size_y'' FI8,
     Field ''play.toServer.update_structure_block.size_z'' FI8,
     Field ''play.toServer.update_structure_block.mirror'' FVarInt,
     Field ''play.toServer.update_structure_block.rotation'' FVarInt,
     Field ''play.toServer.update_structure_block.metadata'' FString,
     Field ''play.toServer.update_structure_block.integrity'' FF32,
     Field ''play.toServer.update_structure_block.seed'' FVarInt,
     Mapped ''play.toServer.update_structure_block.flags'' FU8 play_serverbound_update_structure_block_flags_mapper_by_wire_775 play_serverbound_update_structure_block_flags_mapper_by_name_775]"

definition play_serverbound_set_test_block_775 :: "schema list" where
  "play_serverbound_set_test_block_775 = [
     Shared ''Position'' ''Position'',
     Field ''play.toServer.set_test_block.mode'' FVarInt,
     Field ''play.toServer.set_test_block.message'' FString]"

definition play_serverbound_update_sign_775 :: "schema list" where
  "play_serverbound_update_sign_775 = [
     Shared ''Location'' ''Position'',
     Field ''play.toServer.update_sign.isFrontText'' FBool,
     Field ''play.toServer.update_sign.text1'' FString,
     Field ''play.toServer.update_sign.text2'' FString,
     Field ''play.toServer.update_sign.text3'' FString,
     Field ''play.toServer.update_sign.text4'' FString]"

definition play_serverbound_spectate_entity_775 :: "schema list" where
  "play_serverbound_spectate_entity_775 = [
     Field ''play.toServer.spectate_entity.entityId'' FVarInt]"

definition play_serverbound_arm_animation_775 :: "schema list" where
  "play_serverbound_arm_animation_775 = [
     Field ''play.toServer.arm_animation.hand'' FVarInt]"

definition play_serverbound_spectate_775 :: "schema list" where
  "play_serverbound_spectate_775 = [
     Field ''play.toServer.spectate.target'' FUUID]"

definition play_serverbound_test_instance_block_action_775 :: "schema list" where
  "play_serverbound_test_instance_block_action_775 = [
     Shared ''Pos'' ''Position'',
     Field ''play.toServer.test_instance_block_action.action'' FVarInt,
     Maybe ''play.toServer.test_instance_block_action.data.test'' [
       Field ''play.toServer.test_instance_block_action.data.test'' FString],
     Shared ''Data.Size'' ''Vec3i'',
     Field ''play.toServer.test_instance_block_action.data.rotation'' FVarInt,
     Field ''play.toServer.test_instance_block_action.data.ignoreEntities'' FBool,
     Field ''play.toServer.test_instance_block_action.data.status'' FVarInt,
     Maybe ''play.toServer.test_instance_block_action.data.errorMessage'' [
       Field ''play.toServer.test_instance_block_action.data.errorMessage'' FAnonymousNBT]]"

definition play_serverbound_block_place_775 :: "schema list" where
  "play_serverbound_block_place_775 = [
     Field ''play.toServer.block_place.hand'' FVarInt,
     Shared ''Location'' ''Position'',
     Field ''play.toServer.block_place.direction'' FVarInt,
     Field ''play.toServer.block_place.cursorX'' FF32,
     Field ''play.toServer.block_place.cursorY'' FF32,
     Field ''play.toServer.block_place.cursorZ'' FF32,
     Field ''play.toServer.block_place.insideBlock'' FBool,
     Field ''play.toServer.block_place.worldBorderHit'' FBool,
     Field ''play.toServer.block_place.sequence'' FVarInt]"

definition play_serverbound_use_item_775 :: "schema list" where
  "play_serverbound_use_item_775 = [
     Field ''play.toServer.use_item.hand'' FVarInt,
     Field ''play.toServer.use_item.sequence'' FVarInt,
     Field ''play.toServer.use_item.rotation.x'' FF32,
     Field ''play.toServer.use_item.rotation.y'' FF32]"

definition play_serverbound_custom_click_action_775 :: "schema list" where
  "play_serverbound_custom_click_action_775 = [
     Field ''play.toServer.custom_click_action.id'' FString,
     Maybe ''play.toServer.custom_click_action.nbt'' [
       Field ''play.toServer.custom_click_action.nbt'' FAnonymousNBT]]"

definition configuration_clientbound_cookie_request_775 :: "schema list" where
  "configuration_clientbound_cookie_request_775 = [
     Field ''configuration.toClient.cookie_request.cookie'' FString]"

definition configuration_clientbound_custom_payload_775 :: "schema list" where
  "configuration_clientbound_custom_payload_775 = [
     Field ''configuration.toClient.custom_payload.channel'' FString,
     Field ''configuration.toClient.custom_payload.data'' FPlugin]"

definition configuration_clientbound_disconnect_775 :: "schema list" where
  "configuration_clientbound_disconnect_775 = [
     Field ''configuration.toClient.disconnect.reason'' FAnonymousNBT]"

definition configuration_clientbound_finish_configuration_775 :: "schema list" where
  "configuration_clientbound_finish_configuration_775 = []"

definition configuration_clientbound_keep_alive_775 :: "schema list" where
  "configuration_clientbound_keep_alive_775 = [
     Field ''configuration.toClient.keep_alive.keepAliveId'' FI64]"

definition configuration_clientbound_ping_775 :: "schema list" where
  "configuration_clientbound_ping_775 = [
     Field ''configuration.toClient.ping.id'' FI32]"

definition configuration_clientbound_reset_chat_775 :: "schema list" where
  "configuration_clientbound_reset_chat_775 = []"

definition configuration_clientbound_registry_data_775 :: "schema list" where
  "configuration_clientbound_registry_data_775 = [
     Field ''configuration.toClient.registry_data.id'' FString,
     Items ''configuration.toClient.registry_data.entries'' Prefixed [
       Field ''configuration.toClient.registry_data.entries[].key'' FString,
       Maybe ''configuration.toClient.registry_data.entries[].value'' [
         Field ''configuration.toClient.registry_data.entries[].value'' FAnonymousNBT]]]"

definition configuration_clientbound_remove_resource_pack_775 :: "schema list" where
  "configuration_clientbound_remove_resource_pack_775 = [
     Maybe ''configuration.toClient.remove_resource_pack.uuid'' [
       Field ''configuration.toClient.remove_resource_pack.uuid'' FUUID]]"

definition configuration_clientbound_add_resource_pack_775 :: "schema list" where
  "configuration_clientbound_add_resource_pack_775 = [
     Field ''configuration.toClient.add_resource_pack.uuid'' FUUID,
     Field ''configuration.toClient.add_resource_pack.url'' FString,
     Field ''configuration.toClient.add_resource_pack.hash'' FString,
     Field ''configuration.toClient.add_resource_pack.forced'' FBool,
     Maybe ''configuration.toClient.add_resource_pack.promptMessage'' [
       Field ''configuration.toClient.add_resource_pack.promptMessage'' FAnonymousNBT]]"

definition configuration_clientbound_store_cookie_775 :: "schema list" where
  "configuration_clientbound_store_cookie_775 = [
     Field ''configuration.toClient.store_cookie.key'' FString,
     Shared ''Value'' ''ByteArray'']"

definition configuration_clientbound_transfer_775 :: "schema list" where
  "configuration_clientbound_transfer_775 = [
     Field ''configuration.toClient.transfer.host'' FString,
     Field ''configuration.toClient.transfer.port'' FVarInt]"

definition configuration_clientbound_feature_flags_775 :: "schema list" where
  "configuration_clientbound_feature_flags_775 = [
     Items ''configuration.toClient.feature_flags.features'' Prefixed [
       Field ''configuration.toClient.feature_flags.features[]'' FString]]"

definition configuration_clientbound_tags_775 :: "schema list" where
  "configuration_clientbound_tags_775 = [
     Items ''configuration.toClient.tags.tags'' Prefixed [
       Field ''configuration.toClient.tags.tags[].tagType'' FString,
       Items ''configuration.toClient.tags.tags[].tags'' Prefixed [
         Field ''configuration.toClient.tags.tags[].tags[].tagName'' FString,
         Items ''configuration.toClient.tags.tags[].tags[].entries'' Prefixed [
           Field ''configuration.toClient.tags.tags[].tags[].entries[]'' FVarInt]]]]"

definition configuration_clientbound_select_known_packs_775 :: "schema list" where
  "configuration_clientbound_select_known_packs_775 = [
     Items ''configuration.toClient.select_known_packs.packs'' Prefixed [
       Field ''configuration.toClient.select_known_packs.packs[].namespace'' FString,
       Field ''configuration.toClient.select_known_packs.packs[].id'' FString,
       Field ''configuration.toClient.select_known_packs.packs[].version'' FString]]"

definition configuration_clientbound_custom_report_details_775 :: "schema list" where
  "configuration_clientbound_custom_report_details_775 = [
     Items ''configuration.toClient.custom_report_details.details'' Prefixed [
       Field ''configuration.toClient.custom_report_details.details[].key'' FString,
       Field ''configuration.toClient.custom_report_details.details[].value'' FString]]"

definition configuration_clientbound_server_links_775 :: "schema list" where
  "configuration_clientbound_server_links_775 = [
     Items ''configuration.toClient.server_links.links'' Prefixed [
       Field ''configuration.toClient.server_links.links[].hasKnownType'' FBool,
       Switch ''configuration.toClient.server_links.links[].hasKnownType''
         [(KBool True, [
            Mapped ''configuration.toClient.server_links.links[].knownType'' FVarInt configuration_clientbound_server_links_links_item_known_type_switch_true_mapper_by_wire_775 configuration_clientbound_server_links_links_item_known_type_switch_true_mapper_by_name_775])]
         [],
       Switch ''configuration.toClient.server_links.links[].hasKnownType''
         [(KBool False, [
            Field ''configuration.toClient.server_links.links[].unknownType'' FAnonymousNBT])]
         [],
       Field ''configuration.toClient.server_links.links[].link'' FString]]"

definition configuration_clientbound_clear_dialog_775 :: "schema list" where
  "configuration_clientbound_clear_dialog_775 = []"

definition configuration_clientbound_show_dialog_775 :: "schema list" where
  "configuration_clientbound_show_dialog_775 = [
     Field ''configuration.toClient.show_dialog.dialog'' FAnonymousNBT]"

definition configuration_clientbound_code_of_conduct_775 :: "schema list" where
  "configuration_clientbound_code_of_conduct_775 = [
     Field ''configuration.toClient.code_of_conduct.contents'' FString]"

definition configuration_serverbound_settings_775 :: "schema list" where
  "configuration_serverbound_settings_775 = [
     Field ''configuration.toServer.settings.locale'' FString,
     Field ''configuration.toServer.settings.viewDistance'' FI8,
     Field ''configuration.toServer.settings.chatFlags'' FVarInt,
     Field ''configuration.toServer.settings.chatColors'' FBool,
     Field ''configuration.toServer.settings.skinParts'' FU8,
     Field ''configuration.toServer.settings.mainHand'' FVarInt,
     Field ''configuration.toServer.settings.enableTextFiltering'' FBool,
     Field ''configuration.toServer.settings.enableServerListing'' FBool,
     Mapped ''configuration.toServer.settings.particleStatus'' FVarInt configuration_serverbound_settings_particle_status_mapper_by_wire_775 configuration_serverbound_settings_particle_status_mapper_by_name_775]"

definition configuration_serverbound_cookie_response_775 :: "schema list" where
  "configuration_serverbound_cookie_response_775 = [
     Field ''configuration.toServer.cookie_response.key'' FString,
     Maybe ''configuration.toServer.cookie_response.value'' [
       Shared ''Value'' ''ByteArray'']]"

definition configuration_serverbound_custom_payload_775 :: "schema list" where
  "configuration_serverbound_custom_payload_775 = [
     Field ''configuration.toServer.custom_payload.channel'' FString,
     Field ''configuration.toServer.custom_payload.data'' FPlugin]"

definition configuration_serverbound_finish_configuration_775 :: "schema list" where
  "configuration_serverbound_finish_configuration_775 = []"

definition configuration_serverbound_keep_alive_775 :: "schema list" where
  "configuration_serverbound_keep_alive_775 = [
     Field ''configuration.toServer.keep_alive.keepAliveId'' FI64]"

definition configuration_serverbound_pong_775 :: "schema list" where
  "configuration_serverbound_pong_775 = [
     Field ''configuration.toServer.pong.id'' FI32]"

definition configuration_serverbound_resource_pack_receive_775 :: "schema list" where
  "configuration_serverbound_resource_pack_receive_775 = [
     Field ''configuration.toServer.resource_pack_receive.uuid'' FUUID,
     Field ''configuration.toServer.resource_pack_receive.result'' FVarInt]"

definition configuration_serverbound_select_known_packs_775 :: "schema list" where
  "configuration_serverbound_select_known_packs_775 = [
     Items ''configuration.toServer.select_known_packs.packs'' Prefixed [
       Field ''configuration.toServer.select_known_packs.packs[].namespace'' FString,
       Field ''configuration.toServer.select_known_packs.packs[].id'' FString,
       Field ''configuration.toServer.select_known_packs.packs[].version'' FString]]"

definition configuration_serverbound_custom_click_action_775 :: "schema list" where
  "configuration_serverbound_custom_click_action_775 = [
     Field ''configuration.toServer.custom_click_action.id'' FString,
     Maybe ''configuration.toServer.custom_click_action.nbt'' [
       Field ''configuration.toServer.custom_click_action.nbt'' FAnonymousNBT]]"

definition configuration_serverbound_accept_code_of_conduct_775 :: "schema list" where
  "configuration_serverbound_accept_code_of_conduct_775 = []"

section \<open>The registry\<close>

text \<open>The value type \<open>newPacket\<close> makes for a key.\<close>

definition packet_factories_775 :: "(packet_key \<times> string) list" where
  "packet_factories_775 = [
     ((''handshaking'', serverbound, 0), ''HandshakingServerboundSetProtocol''),
     ((''status'', clientbound, 0), ''StatusClientboundServerInfo''),
     ((''status'', clientbound, 1), ''StatusClientboundPing''),
     ((''status'', serverbound, 0), ''StatusServerboundPingStart''),
     ((''status'', serverbound, 1), ''StatusServerboundPing''),
     ((''login'', clientbound, 0), ''LoginClientboundDisconnect''),
     ((''login'', clientbound, 1), ''LoginClientboundEncryptionBegin''),
     ((''login'', clientbound, 2), ''LoginClientboundSuccess''),
     ((''login'', clientbound, 3), ''LoginClientboundCompress''),
     ((''login'', clientbound, 4), ''LoginClientboundLoginPluginRequest''),
     ((''login'', clientbound, 5), ''LoginClientboundCookieRequest''),
     ((''login'', serverbound, 0), ''LoginServerboundLoginStart''),
     ((''login'', serverbound, 1), ''LoginServerboundEncryptionBegin''),
     ((''login'', serverbound, 2), ''LoginServerboundLoginPluginResponse''),
     ((''login'', serverbound, 3), ''LoginServerboundLoginAcknowledged''),
     ((''login'', serverbound, 4), ''LoginServerboundCookieResponse''),
     ((''play'', clientbound, 0), ''PlayClientboundBundleDelimiter''),
     ((''play'', clientbound, 1), ''PlayClientboundSpawnEntity''),
     ((''play'', clientbound, 2), ''PlayClientboundAnimation''),
     ((''play'', clientbound, 3), ''PlayClientboundStatistics''),
     ((''play'', clientbound, 4), ''PlayClientboundAcknowledgePlayerDigging''),
     ((''play'', clientbound, 5), ''PlayClientboundBlockBreakAnimation''),
     ((''play'', clientbound, 6), ''PlayClientboundTileEntityData''),
     ((''play'', clientbound, 7), ''PlayClientboundBlockAction''),
     ((''play'', clientbound, 8), ''PlayClientboundBlockChange''),
     ((''play'', clientbound, 9), ''PlayClientboundBossBar''),
     ((''play'', clientbound, 10), ''PlayClientboundDifficulty''),
     ((''play'', clientbound, 11), ''PlayClientboundChunkBatchFinished''),
     ((''play'', clientbound, 12), ''PlayClientboundChunkBatchStart''),
     ((''play'', clientbound, 13), ''PlayClientboundChunkBiomes''),
     ((''play'', clientbound, 14), ''PlayClientboundClearTitles''),
     ((''play'', clientbound, 15), ''PlayClientboundTabComplete''),
     ((''play'', clientbound, 16), ''PlayClientboundDeclareCommands''),
     ((''play'', clientbound, 17), ''PlayClientboundCloseWindow''),
     ((''play'', clientbound, 18), ''PlayClientboundWindowItems''),
     ((''play'', clientbound, 19), ''PlayClientboundCraftProgressBar''),
     ((''play'', clientbound, 20), ''PlayClientboundSetSlot''),
     ((''play'', clientbound, 21), ''PlayClientboundCookieRequest''),
     ((''play'', clientbound, 22), ''PlayClientboundSetCooldown''),
     ((''play'', clientbound, 23), ''PlayClientboundChatSuggestions''),
     ((''play'', clientbound, 24), ''PlayClientboundCustomPayload''),
     ((''play'', clientbound, 25), ''PlayClientboundDamageEvent''),
     ((''play'', clientbound, 26), ''PlayClientboundDebugBlockValue''),
     ((''play'', clientbound, 27), ''PlayClientboundDebugChunkValue''),
     ((''play'', clientbound, 28), ''PlayClientboundDebugEntityValue''),
     ((''play'', clientbound, 29), ''PlayClientboundDebugEvent''),
     ((''play'', clientbound, 30), ''PlayClientboundDebugSample''),
     ((''play'', clientbound, 31), ''PlayClientboundHideMessage''),
     ((''play'', clientbound, 32), ''PlayClientboundKickDisconnect''),
     ((''play'', clientbound, 33), ''PlayClientboundProfilelessChat''),
     ((''play'', clientbound, 34), ''PlayClientboundEntityStatus''),
     ((''play'', clientbound, 35), ''PlayClientboundSyncEntityPosition''),
     ((''play'', clientbound, 36), ''PlayClientboundExplosion''),
     ((''play'', clientbound, 37), ''PlayClientboundUnloadChunk''),
     ((''play'', clientbound, 38), ''PlayClientboundGameStateChange''),
     ((''play'', clientbound, 39), ''PlayClientboundGameRuleValues''),
     ((''play'', clientbound, 40), ''PlayClientboundGameTestHighlightPos''),
     ((''play'', clientbound, 41), ''PlayClientboundOpenHorseWindow''),
     ((''play'', clientbound, 42), ''PlayClientboundHurtAnimation''),
     ((''play'', clientbound, 43), ''PlayClientboundInitializeWorldBorder''),
     ((''play'', clientbound, 44), ''PlayClientboundKeepAlive''),
     ((''play'', clientbound, 45), ''PlayClientboundMapChunk''),
     ((''play'', clientbound, 46), ''PlayClientboundWorldEvent''),
     ((''play'', clientbound, 47), ''PlayClientboundWorldParticles''),
     ((''play'', clientbound, 48), ''PlayClientboundUpdateLight''),
     ((''play'', clientbound, 49), ''PlayClientboundLogin''),
     ((''play'', clientbound, 50), ''PlayClientboundLowDiskSpaceWarning''),
     ((''play'', clientbound, 51), ''PlayClientboundMap''),
     ((''play'', clientbound, 52), ''PlayClientboundTradeList''),
     ((''play'', clientbound, 53), ''PlayClientboundRelEntityMove''),
     ((''play'', clientbound, 54), ''PlayClientboundEntityMoveLook''),
     ((''play'', clientbound, 55), ''PlayClientboundMoveMinecart''),
     ((''play'', clientbound, 56), ''PlayClientboundEntityLook''),
     ((''play'', clientbound, 57), ''PlayClientboundVehicleMove''),
     ((''play'', clientbound, 58), ''PlayClientboundOpenBook''),
     ((''play'', clientbound, 59), ''PlayClientboundOpenWindow''),
     ((''play'', clientbound, 60), ''PlayClientboundOpenSignEntity''),
     ((''play'', clientbound, 61), ''PlayClientboundPing''),
     ((''play'', clientbound, 62), ''PlayClientboundPingResponse''),
     ((''play'', clientbound, 63), ''PlayClientboundCraftRecipeResponse''),
     ((''play'', clientbound, 64), ''PlayClientboundAbilities''),
     ((''play'', clientbound, 65), ''PlayClientboundPlayerChat''),
     ((''play'', clientbound, 66), ''PlayClientboundEndCombatEvent''),
     ((''play'', clientbound, 67), ''PlayClientboundEnterCombatEvent''),
     ((''play'', clientbound, 68), ''PlayClientboundDeathCombatEvent''),
     ((''play'', clientbound, 69), ''PlayClientboundPlayerRemove''),
     ((''play'', clientbound, 70), ''PlayClientboundPlayerInfo''),
     ((''play'', clientbound, 71), ''PlayClientboundFacePlayer''),
     ((''play'', clientbound, 72), ''PlayClientboundPosition''),
     ((''play'', clientbound, 73), ''PlayClientboundPlayerRotation''),
     ((''play'', clientbound, 74), ''PlayClientboundRecipeBookAdd''),
     ((''play'', clientbound, 75), ''PlayClientboundRecipeBookRemove''),
     ((''play'', clientbound, 76), ''PlayClientboundRecipeBookSettings''),
     ((''play'', clientbound, 77), ''PlayClientboundEntityDestroy''),
     ((''play'', clientbound, 78), ''PlayClientboundRemoveEntityEffect''),
     ((''play'', clientbound, 79), ''PlayClientboundResetScore''),
     ((''play'', clientbound, 80), ''PlayClientboundRemoveResourcePack''),
     ((''play'', clientbound, 81), ''PlayClientboundAddResourcePack''),
     ((''play'', clientbound, 82), ''PlayClientboundRespawn''),
     ((''play'', clientbound, 83), ''PlayClientboundEntityHeadRotation''),
     ((''play'', clientbound, 84), ''PlayClientboundMultiBlockChange''),
     ((''play'', clientbound, 85), ''PlayClientboundSelectAdvancementTab''),
     ((''play'', clientbound, 86), ''PlayClientboundServerData''),
     ((''play'', clientbound, 87), ''PlayClientboundActionBar''),
     ((''play'', clientbound, 88), ''PlayClientboundWorldBorderCenter''),
     ((''play'', clientbound, 89), ''PlayClientboundWorldBorderLerpSize''),
     ((''play'', clientbound, 90), ''PlayClientboundWorldBorderSize''),
     ((''play'', clientbound, 91), ''PlayClientboundWorldBorderWarningDelay''),
     ((''play'', clientbound, 92), ''PlayClientboundWorldBorderWarningReach''),
     ((''play'', clientbound, 93), ''PlayClientboundCamera''),
     ((''play'', clientbound, 94), ''PlayClientboundUpdateViewPosition''),
     ((''play'', clientbound, 95), ''PlayClientboundUpdateViewDistance''),
     ((''play'', clientbound, 96), ''PlayClientboundSetCursorItem''),
     ((''play'', clientbound, 97), ''PlayClientboundSpawnPosition''),
     ((''play'', clientbound, 98), ''PlayClientboundScoreboardDisplayObjective''),
     ((''play'', clientbound, 99), ''PlayClientboundEntityMetadata''),
     ((''play'', clientbound, 100), ''PlayClientboundAttachEntity''),
     ((''play'', clientbound, 101), ''PlayClientboundEntityVelocity''),
     ((''play'', clientbound, 102), ''PlayClientboundEntityEquipment''),
     ((''play'', clientbound, 103), ''PlayClientboundExperience''),
     ((''play'', clientbound, 104), ''PlayClientboundUpdateHealth''),
     ((''play'', clientbound, 105), ''PlayClientboundHeldItemSlot''),
     ((''play'', clientbound, 106), ''PlayClientboundScoreboardObjective''),
     ((''play'', clientbound, 107), ''PlayClientboundSetPassengers''),
     ((''play'', clientbound, 108), ''PlayClientboundSetPlayerInventory''),
     ((''play'', clientbound, 109), ''PlayClientboundTeams''),
     ((''play'', clientbound, 110), ''PlayClientboundScoreboardScore''),
     ((''play'', clientbound, 111), ''PlayClientboundSimulationDistance''),
     ((''play'', clientbound, 112), ''PlayClientboundSetTitleSubtitle''),
     ((''play'', clientbound, 113), ''PlayClientboundUpdateTime''),
     ((''play'', clientbound, 114), ''PlayClientboundSetTitleText''),
     ((''play'', clientbound, 115), ''PlayClientboundSetTitleTime''),
     ((''play'', clientbound, 116), ''PlayClientboundEntitySoundEffect''),
     ((''play'', clientbound, 117), ''PlayClientboundSoundEffect''),
     ((''play'', clientbound, 118), ''PlayClientboundStartConfiguration''),
     ((''play'', clientbound, 119), ''PlayClientboundStopSound''),
     ((''play'', clientbound, 120), ''PlayClientboundStoreCookie''),
     ((''play'', clientbound, 121), ''PlayClientboundSystemChat''),
     ((''play'', clientbound, 122), ''PlayClientboundPlayerlistHeader''),
     ((''play'', clientbound, 123), ''PlayClientboundNBTQueryResponse''),
     ((''play'', clientbound, 124), ''PlayClientboundCollect''),
     ((''play'', clientbound, 125), ''PlayClientboundEntityTeleport''),
     ((''play'', clientbound, 126), ''PlayClientboundTestInstanceBlockStatus''),
     ((''play'', clientbound, 127), ''PlayClientboundSetTickingState''),
     ((''play'', clientbound, 128), ''PlayClientboundStepTick''),
     ((''play'', clientbound, 129), ''PlayClientboundTransfer''),
     ((''play'', clientbound, 130), ''PlayClientboundAdvancements''),
     ((''play'', clientbound, 131), ''PlayClientboundEntityUpdateAttributes''),
     ((''play'', clientbound, 132), ''PlayClientboundEntityEffect''),
     ((''play'', clientbound, 133), ''PlayClientboundDeclareRecipes''),
     ((''play'', clientbound, 134), ''PlayClientboundTags''),
     ((''play'', clientbound, 135), ''PlayClientboundSetProjectilePower''),
     ((''play'', clientbound, 136), ''PlayClientboundCustomReportDetails''),
     ((''play'', clientbound, 137), ''PlayClientboundServerLinks''),
     ((''play'', clientbound, 138), ''PlayClientboundTrackedWaypoint''),
     ((''play'', clientbound, 139), ''PlayClientboundClearDialog''),
     ((''play'', clientbound, 140), ''PlayClientboundShowDialog''),
     ((''play'', serverbound, 0), ''PlayServerboundTeleportConfirm''),
     ((''play'', serverbound, 1), ''PlayServerboundAttack''),
     ((''play'', serverbound, 2), ''PlayServerboundQueryBlockNBT''),
     ((''play'', serverbound, 3), ''PlayServerboundSelectBundleItem''),
     ((''play'', serverbound, 4), ''PlayServerboundSetDifficulty''),
     ((''play'', serverbound, 5), ''PlayServerboundChangeGamemode''),
     ((''play'', serverbound, 6), ''PlayServerboundMessageAcknowledgement''),
     ((''play'', serverbound, 7), ''PlayServerboundChatCommand''),
     ((''play'', serverbound, 8), ''PlayServerboundChatCommandSigned''),
     ((''play'', serverbound, 9), ''PlayServerboundChatMessage''),
     ((''play'', serverbound, 10), ''PlayServerboundChatSessionUpdate''),
     ((''play'', serverbound, 11), ''PlayServerboundChunkBatchReceived''),
     ((''play'', serverbound, 12), ''PlayServerboundClientCommand''),
     ((''play'', serverbound, 13), ''PlayServerboundTickEnd''),
     ((''play'', serverbound, 14), ''PlayServerboundSettings''),
     ((''play'', serverbound, 15), ''PlayServerboundTabComplete''),
     ((''play'', serverbound, 16), ''PlayServerboundConfigurationAcknowledged''),
     ((''play'', serverbound, 17), ''PlayServerboundEnchantItem''),
     ((''play'', serverbound, 18), ''PlayServerboundWindowClick''),
     ((''play'', serverbound, 19), ''PlayServerboundCloseWindow''),
     ((''play'', serverbound, 20), ''PlayServerboundSetSlotState''),
     ((''play'', serverbound, 21), ''PlayServerboundCookieResponse''),
     ((''play'', serverbound, 22), ''PlayServerboundCustomPayload''),
     ((''play'', serverbound, 23), ''PlayServerboundDebugSubscriptionRequest''),
     ((''play'', serverbound, 24), ''PlayServerboundEditBook''),
     ((''play'', serverbound, 25), ''PlayServerboundQueryEntityNBT''),
     ((''play'', serverbound, 26), ''PlayServerboundUseEntity''),
     ((''play'', serverbound, 27), ''PlayServerboundGenerateStructure''),
     ((''play'', serverbound, 28), ''PlayServerboundKeepAlive''),
     ((''play'', serverbound, 29), ''PlayServerboundLockDifficulty''),
     ((''play'', serverbound, 30), ''PlayServerboundPosition''),
     ((''play'', serverbound, 31), ''PlayServerboundPositionLook''),
     ((''play'', serverbound, 32), ''PlayServerboundLook''),
     ((''play'', serverbound, 33), ''PlayServerboundFlying''),
     ((''play'', serverbound, 34), ''PlayServerboundVehicleMove''),
     ((''play'', serverbound, 35), ''PlayServerboundSteerBoat''),
     ((''play'', serverbound, 36), ''PlayServerboundPickItemFromBlock''),
     ((''play'', serverbound, 37), ''PlayServerboundPickItemFromEntity''),
     ((''play'', serverbound, 38), ''PlayServerboundPingRequest''),
     ((''play'', serverbound, 39), ''PlayServerboundCraftRecipeRequest''),
     ((''play'', serverbound, 40), ''PlayServerboundAbilities''),
     ((''play'', serverbound, 41), ''PlayServerboundBlockDig''),
     ((''play'', serverbound, 42), ''PlayServerboundEntityAction''),
     ((''play'', serverbound, 43), ''PlayServerboundPlayerInput''),
     ((''play'', serverbound, 44), ''PlayServerboundPlayerLoaded''),
     ((''play'', serverbound, 45), ''PlayServerboundPong''),
     ((''play'', serverbound, 46), ''PlayServerboundRecipeBook''),
     ((''play'', serverbound, 47), ''PlayServerboundDisplayedRecipe''),
     ((''play'', serverbound, 48), ''PlayServerboundNameItem''),
     ((''play'', serverbound, 49), ''PlayServerboundResourcePackReceive''),
     ((''play'', serverbound, 50), ''PlayServerboundAdvancementTab''),
     ((''play'', serverbound, 51), ''PlayServerboundSelectTrade''),
     ((''play'', serverbound, 52), ''PlayServerboundSetBeaconEffect''),
     ((''play'', serverbound, 53), ''PlayServerboundHeldItemSlot''),
     ((''play'', serverbound, 54), ''PlayServerboundUpdateCommandBlock''),
     ((''play'', serverbound, 55), ''PlayServerboundUpdateCommandBlockMinecart''),
     ((''play'', serverbound, 56), ''PlayServerboundSetCreativeSlot''),
     ((''play'', serverbound, 57), ''PlayServerboundSetGameRule''),
     ((''play'', serverbound, 58), ''PlayServerboundUpdateJigsawBlock''),
     ((''play'', serverbound, 59), ''PlayServerboundUpdateStructureBlock''),
     ((''play'', serverbound, 60), ''PlayServerboundSetTestBlock''),
     ((''play'', serverbound, 61), ''PlayServerboundUpdateSign''),
     ((''play'', serverbound, 62), ''PlayServerboundSpectateEntity''),
     ((''play'', serverbound, 63), ''PlayServerboundArmAnimation''),
     ((''play'', serverbound, 64), ''PlayServerboundSpectate''),
     ((''play'', serverbound, 65), ''PlayServerboundTestInstanceBlockAction''),
     ((''play'', serverbound, 66), ''PlayServerboundBlockPlace''),
     ((''play'', serverbound, 67), ''PlayServerboundUseItem''),
     ((''play'', serverbound, 68), ''PlayServerboundCustomClickAction''),
     ((''configuration'', clientbound, 0), ''ConfigurationClientboundCookieRequest''),
     ((''configuration'', clientbound, 1), ''ConfigurationClientboundCustomPayload''),
     ((''configuration'', clientbound, 2), ''ConfigurationClientboundDisconnect''),
     ((''configuration'', clientbound, 3), ''ConfigurationClientboundFinishConfiguration''),
     ((''configuration'', clientbound, 4), ''ConfigurationClientboundKeepAlive''),
     ((''configuration'', clientbound, 5), ''ConfigurationClientboundPing''),
     ((''configuration'', clientbound, 6), ''ConfigurationClientboundResetChat''),
     ((''configuration'', clientbound, 7), ''ConfigurationClientboundRegistryData''),
     ((''configuration'', clientbound, 8), ''ConfigurationClientboundRemoveResourcePack''),
     ((''configuration'', clientbound, 9), ''ConfigurationClientboundAddResourcePack''),
     ((''configuration'', clientbound, 10), ''ConfigurationClientboundStoreCookie''),
     ((''configuration'', clientbound, 11), ''ConfigurationClientboundTransfer''),
     ((''configuration'', clientbound, 12), ''ConfigurationClientboundFeatureFlags''),
     ((''configuration'', clientbound, 13), ''ConfigurationClientboundTags''),
     ((''configuration'', clientbound, 14), ''ConfigurationClientboundSelectKnownPacks''),
     ((''configuration'', clientbound, 15), ''ConfigurationClientboundCustomReportDetails''),
     ((''configuration'', clientbound, 16), ''ConfigurationClientboundServerLinks''),
     ((''configuration'', clientbound, 17), ''ConfigurationClientboundClearDialog''),
     ((''configuration'', clientbound, 18), ''ConfigurationClientboundShowDialog''),
     ((''configuration'', clientbound, 19), ''ConfigurationClientboundCodeOfConduct''),
     ((''configuration'', serverbound, 0), ''ConfigurationServerboundSettings''),
     ((''configuration'', serverbound, 1), ''ConfigurationServerboundCookieResponse''),
     ((''configuration'', serverbound, 2), ''ConfigurationServerboundCustomPayload''),
     ((''configuration'', serverbound, 3), ''ConfigurationServerboundFinishConfiguration''),
     ((''configuration'', serverbound, 4), ''ConfigurationServerboundKeepAlive''),
     ((''configuration'', serverbound, 5), ''ConfigurationServerboundPong''),
     ((''configuration'', serverbound, 6), ''ConfigurationServerboundResourcePackReceive''),
     ((''configuration'', serverbound, 7), ''ConfigurationServerboundSelectKnownPacks''),
     ((''configuration'', serverbound, 8), ''ConfigurationServerboundCustomClickAction''),
     ((''configuration'', serverbound, 9), ''ConfigurationServerboundAcceptCodeOfConduct'')]"

text \<open>The key \<open>packetKeyForValue\<close> finds for a value type.\<close>

definition packet_value_keys_775 :: "(string \<times> packet_key) list" where
  "packet_value_keys_775 = [
     (''HandshakingServerboundSetProtocol'', (''handshaking'', serverbound, 0)),
     (''StatusClientboundServerInfo'', (''status'', clientbound, 0)),
     (''StatusClientboundPing'', (''status'', clientbound, 1)),
     (''StatusServerboundPingStart'', (''status'', serverbound, 0)),
     (''StatusServerboundPing'', (''status'', serverbound, 1)),
     (''LoginClientboundDisconnect'', (''login'', clientbound, 0)),
     (''LoginClientboundEncryptionBegin'', (''login'', clientbound, 1)),
     (''LoginClientboundSuccess'', (''login'', clientbound, 2)),
     (''LoginClientboundCompress'', (''login'', clientbound, 3)),
     (''LoginClientboundLoginPluginRequest'', (''login'', clientbound, 4)),
     (''LoginClientboundCookieRequest'', (''login'', clientbound, 5)),
     (''LoginServerboundLoginStart'', (''login'', serverbound, 0)),
     (''LoginServerboundEncryptionBegin'', (''login'', serverbound, 1)),
     (''LoginServerboundLoginPluginResponse'', (''login'', serverbound, 2)),
     (''LoginServerboundLoginAcknowledged'', (''login'', serverbound, 3)),
     (''LoginServerboundCookieResponse'', (''login'', serverbound, 4)),
     (''PlayClientboundBundleDelimiter'', (''play'', clientbound, 0)),
     (''PlayClientboundSpawnEntity'', (''play'', clientbound, 1)),
     (''PlayClientboundAnimation'', (''play'', clientbound, 2)),
     (''PlayClientboundStatistics'', (''play'', clientbound, 3)),
     (''PlayClientboundAcknowledgePlayerDigging'', (''play'', clientbound, 4)),
     (''PlayClientboundBlockBreakAnimation'', (''play'', clientbound, 5)),
     (''PlayClientboundTileEntityData'', (''play'', clientbound, 6)),
     (''PlayClientboundBlockAction'', (''play'', clientbound, 7)),
     (''PlayClientboundBlockChange'', (''play'', clientbound, 8)),
     (''PlayClientboundBossBar'', (''play'', clientbound, 9)),
     (''PlayClientboundDifficulty'', (''play'', clientbound, 10)),
     (''PlayClientboundChunkBatchFinished'', (''play'', clientbound, 11)),
     (''PlayClientboundChunkBatchStart'', (''play'', clientbound, 12)),
     (''PlayClientboundChunkBiomes'', (''play'', clientbound, 13)),
     (''PlayClientboundClearTitles'', (''play'', clientbound, 14)),
     (''PlayClientboundTabComplete'', (''play'', clientbound, 15)),
     (''PlayClientboundDeclareCommands'', (''play'', clientbound, 16)),
     (''PlayClientboundCloseWindow'', (''play'', clientbound, 17)),
     (''PlayClientboundWindowItems'', (''play'', clientbound, 18)),
     (''PlayClientboundCraftProgressBar'', (''play'', clientbound, 19)),
     (''PlayClientboundSetSlot'', (''play'', clientbound, 20)),
     (''PlayClientboundCookieRequest'', (''play'', clientbound, 21)),
     (''PlayClientboundSetCooldown'', (''play'', clientbound, 22)),
     (''PlayClientboundChatSuggestions'', (''play'', clientbound, 23)),
     (''PlayClientboundCustomPayload'', (''play'', clientbound, 24)),
     (''PlayClientboundDamageEvent'', (''play'', clientbound, 25)),
     (''PlayClientboundDebugBlockValue'', (''play'', clientbound, 26)),
     (''PlayClientboundDebugChunkValue'', (''play'', clientbound, 27)),
     (''PlayClientboundDebugEntityValue'', (''play'', clientbound, 28)),
     (''PlayClientboundDebugEvent'', (''play'', clientbound, 29)),
     (''PlayClientboundDebugSample'', (''play'', clientbound, 30)),
     (''PlayClientboundHideMessage'', (''play'', clientbound, 31)),
     (''PlayClientboundKickDisconnect'', (''play'', clientbound, 32)),
     (''PlayClientboundProfilelessChat'', (''play'', clientbound, 33)),
     (''PlayClientboundEntityStatus'', (''play'', clientbound, 34)),
     (''PlayClientboundSyncEntityPosition'', (''play'', clientbound, 35)),
     (''PlayClientboundExplosion'', (''play'', clientbound, 36)),
     (''PlayClientboundUnloadChunk'', (''play'', clientbound, 37)),
     (''PlayClientboundGameStateChange'', (''play'', clientbound, 38)),
     (''PlayClientboundGameRuleValues'', (''play'', clientbound, 39)),
     (''PlayClientboundGameTestHighlightPos'', (''play'', clientbound, 40)),
     (''PlayClientboundOpenHorseWindow'', (''play'', clientbound, 41)),
     (''PlayClientboundHurtAnimation'', (''play'', clientbound, 42)),
     (''PlayClientboundInitializeWorldBorder'', (''play'', clientbound, 43)),
     (''PlayClientboundKeepAlive'', (''play'', clientbound, 44)),
     (''PlayClientboundMapChunk'', (''play'', clientbound, 45)),
     (''PlayClientboundWorldEvent'', (''play'', clientbound, 46)),
     (''PlayClientboundWorldParticles'', (''play'', clientbound, 47)),
     (''PlayClientboundUpdateLight'', (''play'', clientbound, 48)),
     (''PlayClientboundLogin'', (''play'', clientbound, 49)),
     (''PlayClientboundLowDiskSpaceWarning'', (''play'', clientbound, 50)),
     (''PlayClientboundMap'', (''play'', clientbound, 51)),
     (''PlayClientboundTradeList'', (''play'', clientbound, 52)),
     (''PlayClientboundRelEntityMove'', (''play'', clientbound, 53)),
     (''PlayClientboundEntityMoveLook'', (''play'', clientbound, 54)),
     (''PlayClientboundMoveMinecart'', (''play'', clientbound, 55)),
     (''PlayClientboundEntityLook'', (''play'', clientbound, 56)),
     (''PlayClientboundVehicleMove'', (''play'', clientbound, 57)),
     (''PlayClientboundOpenBook'', (''play'', clientbound, 58)),
     (''PlayClientboundOpenWindow'', (''play'', clientbound, 59)),
     (''PlayClientboundOpenSignEntity'', (''play'', clientbound, 60)),
     (''PlayClientboundPing'', (''play'', clientbound, 61)),
     (''PlayClientboundPingResponse'', (''play'', clientbound, 62)),
     (''PlayClientboundCraftRecipeResponse'', (''play'', clientbound, 63)),
     (''PlayClientboundAbilities'', (''play'', clientbound, 64)),
     (''PlayClientboundPlayerChat'', (''play'', clientbound, 65)),
     (''PlayClientboundEndCombatEvent'', (''play'', clientbound, 66)),
     (''PlayClientboundEnterCombatEvent'', (''play'', clientbound, 67)),
     (''PlayClientboundDeathCombatEvent'', (''play'', clientbound, 68)),
     (''PlayClientboundPlayerRemove'', (''play'', clientbound, 69)),
     (''PlayClientboundPlayerInfo'', (''play'', clientbound, 70)),
     (''PlayClientboundFacePlayer'', (''play'', clientbound, 71)),
     (''PlayClientboundPosition'', (''play'', clientbound, 72)),
     (''PlayClientboundPlayerRotation'', (''play'', clientbound, 73)),
     (''PlayClientboundRecipeBookAdd'', (''play'', clientbound, 74)),
     (''PlayClientboundRecipeBookRemove'', (''play'', clientbound, 75)),
     (''PlayClientboundRecipeBookSettings'', (''play'', clientbound, 76)),
     (''PlayClientboundEntityDestroy'', (''play'', clientbound, 77)),
     (''PlayClientboundRemoveEntityEffect'', (''play'', clientbound, 78)),
     (''PlayClientboundResetScore'', (''play'', clientbound, 79)),
     (''PlayClientboundRemoveResourcePack'', (''play'', clientbound, 80)),
     (''PlayClientboundAddResourcePack'', (''play'', clientbound, 81)),
     (''PlayClientboundRespawn'', (''play'', clientbound, 82)),
     (''PlayClientboundEntityHeadRotation'', (''play'', clientbound, 83)),
     (''PlayClientboundMultiBlockChange'', (''play'', clientbound, 84)),
     (''PlayClientboundSelectAdvancementTab'', (''play'', clientbound, 85)),
     (''PlayClientboundServerData'', (''play'', clientbound, 86)),
     (''PlayClientboundActionBar'', (''play'', clientbound, 87)),
     (''PlayClientboundWorldBorderCenter'', (''play'', clientbound, 88)),
     (''PlayClientboundWorldBorderLerpSize'', (''play'', clientbound, 89)),
     (''PlayClientboundWorldBorderSize'', (''play'', clientbound, 90)),
     (''PlayClientboundWorldBorderWarningDelay'', (''play'', clientbound, 91)),
     (''PlayClientboundWorldBorderWarningReach'', (''play'', clientbound, 92)),
     (''PlayClientboundCamera'', (''play'', clientbound, 93)),
     (''PlayClientboundUpdateViewPosition'', (''play'', clientbound, 94)),
     (''PlayClientboundUpdateViewDistance'', (''play'', clientbound, 95)),
     (''PlayClientboundSetCursorItem'', (''play'', clientbound, 96)),
     (''PlayClientboundSpawnPosition'', (''play'', clientbound, 97)),
     (''PlayClientboundScoreboardDisplayObjective'', (''play'', clientbound, 98)),
     (''PlayClientboundEntityMetadata'', (''play'', clientbound, 99)),
     (''PlayClientboundAttachEntity'', (''play'', clientbound, 100)),
     (''PlayClientboundEntityVelocity'', (''play'', clientbound, 101)),
     (''PlayClientboundEntityEquipment'', (''play'', clientbound, 102)),
     (''PlayClientboundExperience'', (''play'', clientbound, 103)),
     (''PlayClientboundUpdateHealth'', (''play'', clientbound, 104)),
     (''PlayClientboundHeldItemSlot'', (''play'', clientbound, 105)),
     (''PlayClientboundScoreboardObjective'', (''play'', clientbound, 106)),
     (''PlayClientboundSetPassengers'', (''play'', clientbound, 107)),
     (''PlayClientboundSetPlayerInventory'', (''play'', clientbound, 108)),
     (''PlayClientboundTeams'', (''play'', clientbound, 109)),
     (''PlayClientboundScoreboardScore'', (''play'', clientbound, 110)),
     (''PlayClientboundSimulationDistance'', (''play'', clientbound, 111)),
     (''PlayClientboundSetTitleSubtitle'', (''play'', clientbound, 112)),
     (''PlayClientboundUpdateTime'', (''play'', clientbound, 113)),
     (''PlayClientboundSetTitleText'', (''play'', clientbound, 114)),
     (''PlayClientboundSetTitleTime'', (''play'', clientbound, 115)),
     (''PlayClientboundEntitySoundEffect'', (''play'', clientbound, 116)),
     (''PlayClientboundSoundEffect'', (''play'', clientbound, 117)),
     (''PlayClientboundStartConfiguration'', (''play'', clientbound, 118)),
     (''PlayClientboundStopSound'', (''play'', clientbound, 119)),
     (''PlayClientboundStoreCookie'', (''play'', clientbound, 120)),
     (''PlayClientboundSystemChat'', (''play'', clientbound, 121)),
     (''PlayClientboundPlayerlistHeader'', (''play'', clientbound, 122)),
     (''PlayClientboundNBTQueryResponse'', (''play'', clientbound, 123)),
     (''PlayClientboundCollect'', (''play'', clientbound, 124)),
     (''PlayClientboundEntityTeleport'', (''play'', clientbound, 125)),
     (''PlayClientboundTestInstanceBlockStatus'', (''play'', clientbound, 126)),
     (''PlayClientboundSetTickingState'', (''play'', clientbound, 127)),
     (''PlayClientboundStepTick'', (''play'', clientbound, 128)),
     (''PlayClientboundTransfer'', (''play'', clientbound, 129)),
     (''PlayClientboundAdvancements'', (''play'', clientbound, 130)),
     (''PlayClientboundEntityUpdateAttributes'', (''play'', clientbound, 131)),
     (''PlayClientboundEntityEffect'', (''play'', clientbound, 132)),
     (''PlayClientboundDeclareRecipes'', (''play'', clientbound, 133)),
     (''PlayClientboundTags'', (''play'', clientbound, 134)),
     (''PlayClientboundSetProjectilePower'', (''play'', clientbound, 135)),
     (''PlayClientboundCustomReportDetails'', (''play'', clientbound, 136)),
     (''PlayClientboundServerLinks'', (''play'', clientbound, 137)),
     (''PlayClientboundTrackedWaypoint'', (''play'', clientbound, 138)),
     (''PlayClientboundClearDialog'', (''play'', clientbound, 139)),
     (''PlayClientboundShowDialog'', (''play'', clientbound, 140)),
     (''PlayServerboundTeleportConfirm'', (''play'', serverbound, 0)),
     (''PlayServerboundAttack'', (''play'', serverbound, 1)),
     (''PlayServerboundQueryBlockNBT'', (''play'', serverbound, 2)),
     (''PlayServerboundSelectBundleItem'', (''play'', serverbound, 3)),
     (''PlayServerboundSetDifficulty'', (''play'', serverbound, 4)),
     (''PlayServerboundChangeGamemode'', (''play'', serverbound, 5)),
     (''PlayServerboundMessageAcknowledgement'', (''play'', serverbound, 6)),
     (''PlayServerboundChatCommand'', (''play'', serverbound, 7)),
     (''PlayServerboundChatCommandSigned'', (''play'', serverbound, 8)),
     (''PlayServerboundChatMessage'', (''play'', serverbound, 9)),
     (''PlayServerboundChatSessionUpdate'', (''play'', serverbound, 10)),
     (''PlayServerboundChunkBatchReceived'', (''play'', serverbound, 11)),
     (''PlayServerboundClientCommand'', (''play'', serverbound, 12)),
     (''PlayServerboundTickEnd'', (''play'', serverbound, 13)),
     (''PlayServerboundSettings'', (''play'', serverbound, 14)),
     (''PlayServerboundTabComplete'', (''play'', serverbound, 15)),
     (''PlayServerboundConfigurationAcknowledged'', (''play'', serverbound, 16)),
     (''PlayServerboundEnchantItem'', (''play'', serverbound, 17)),
     (''PlayServerboundWindowClick'', (''play'', serverbound, 18)),
     (''PlayServerboundCloseWindow'', (''play'', serverbound, 19)),
     (''PlayServerboundSetSlotState'', (''play'', serverbound, 20)),
     (''PlayServerboundCookieResponse'', (''play'', serverbound, 21)),
     (''PlayServerboundCustomPayload'', (''play'', serverbound, 22)),
     (''PlayServerboundDebugSubscriptionRequest'', (''play'', serverbound, 23)),
     (''PlayServerboundEditBook'', (''play'', serverbound, 24)),
     (''PlayServerboundQueryEntityNBT'', (''play'', serverbound, 25)),
     (''PlayServerboundUseEntity'', (''play'', serverbound, 26)),
     (''PlayServerboundGenerateStructure'', (''play'', serverbound, 27)),
     (''PlayServerboundKeepAlive'', (''play'', serverbound, 28)),
     (''PlayServerboundLockDifficulty'', (''play'', serverbound, 29)),
     (''PlayServerboundPosition'', (''play'', serverbound, 30)),
     (''PlayServerboundPositionLook'', (''play'', serverbound, 31)),
     (''PlayServerboundLook'', (''play'', serverbound, 32)),
     (''PlayServerboundFlying'', (''play'', serverbound, 33)),
     (''PlayServerboundVehicleMove'', (''play'', serverbound, 34)),
     (''PlayServerboundSteerBoat'', (''play'', serverbound, 35)),
     (''PlayServerboundPickItemFromBlock'', (''play'', serverbound, 36)),
     (''PlayServerboundPickItemFromEntity'', (''play'', serverbound, 37)),
     (''PlayServerboundPingRequest'', (''play'', serverbound, 38)),
     (''PlayServerboundCraftRecipeRequest'', (''play'', serverbound, 39)),
     (''PlayServerboundAbilities'', (''play'', serverbound, 40)),
     (''PlayServerboundBlockDig'', (''play'', serverbound, 41)),
     (''PlayServerboundEntityAction'', (''play'', serverbound, 42)),
     (''PlayServerboundPlayerInput'', (''play'', serverbound, 43)),
     (''PlayServerboundPlayerLoaded'', (''play'', serverbound, 44)),
     (''PlayServerboundPong'', (''play'', serverbound, 45)),
     (''PlayServerboundRecipeBook'', (''play'', serverbound, 46)),
     (''PlayServerboundDisplayedRecipe'', (''play'', serverbound, 47)),
     (''PlayServerboundNameItem'', (''play'', serverbound, 48)),
     (''PlayServerboundResourcePackReceive'', (''play'', serverbound, 49)),
     (''PlayServerboundAdvancementTab'', (''play'', serverbound, 50)),
     (''PlayServerboundSelectTrade'', (''play'', serverbound, 51)),
     (''PlayServerboundSetBeaconEffect'', (''play'', serverbound, 52)),
     (''PlayServerboundHeldItemSlot'', (''play'', serverbound, 53)),
     (''PlayServerboundUpdateCommandBlock'', (''play'', serverbound, 54)),
     (''PlayServerboundUpdateCommandBlockMinecart'', (''play'', serverbound, 55)),
     (''PlayServerboundSetCreativeSlot'', (''play'', serverbound, 56)),
     (''PlayServerboundSetGameRule'', (''play'', serverbound, 57)),
     (''PlayServerboundUpdateJigsawBlock'', (''play'', serverbound, 58)),
     (''PlayServerboundUpdateStructureBlock'', (''play'', serverbound, 59)),
     (''PlayServerboundSetTestBlock'', (''play'', serverbound, 60)),
     (''PlayServerboundUpdateSign'', (''play'', serverbound, 61)),
     (''PlayServerboundSpectateEntity'', (''play'', serverbound, 62)),
     (''PlayServerboundArmAnimation'', (''play'', serverbound, 63)),
     (''PlayServerboundSpectate'', (''play'', serverbound, 64)),
     (''PlayServerboundTestInstanceBlockAction'', (''play'', serverbound, 65)),
     (''PlayServerboundBlockPlace'', (''play'', serverbound, 66)),
     (''PlayServerboundUseItem'', (''play'', serverbound, 67)),
     (''PlayServerboundCustomClickAction'', (''play'', serverbound, 68)),
     (''ConfigurationClientboundCookieRequest'', (''configuration'', clientbound, 0)),
     (''ConfigurationClientboundCustomPayload'', (''configuration'', clientbound, 1)),
     (''ConfigurationClientboundDisconnect'', (''configuration'', clientbound, 2)),
     (''ConfigurationClientboundFinishConfiguration'', (''configuration'', clientbound, 3)),
     (''ConfigurationClientboundKeepAlive'', (''configuration'', clientbound, 4)),
     (''ConfigurationClientboundPing'', (''configuration'', clientbound, 5)),
     (''ConfigurationClientboundResetChat'', (''configuration'', clientbound, 6)),
     (''ConfigurationClientboundRegistryData'', (''configuration'', clientbound, 7)),
     (''ConfigurationClientboundRemoveResourcePack'', (''configuration'', clientbound, 8)),
     (''ConfigurationClientboundAddResourcePack'', (''configuration'', clientbound, 9)),
     (''ConfigurationClientboundStoreCookie'', (''configuration'', clientbound, 10)),
     (''ConfigurationClientboundTransfer'', (''configuration'', clientbound, 11)),
     (''ConfigurationClientboundFeatureFlags'', (''configuration'', clientbound, 12)),
     (''ConfigurationClientboundTags'', (''configuration'', clientbound, 13)),
     (''ConfigurationClientboundSelectKnownPacks'', (''configuration'', clientbound, 14)),
     (''ConfigurationClientboundCustomReportDetails'', (''configuration'', clientbound, 15)),
     (''ConfigurationClientboundServerLinks'', (''configuration'', clientbound, 16)),
     (''ConfigurationClientboundClearDialog'', (''configuration'', clientbound, 17)),
     (''ConfigurationClientboundShowDialog'', (''configuration'', clientbound, 18)),
     (''ConfigurationClientboundCodeOfConduct'', (''configuration'', clientbound, 19)),
     (''ConfigurationServerboundSettings'', (''configuration'', serverbound, 0)),
     (''ConfigurationServerboundCookieResponse'', (''configuration'', serverbound, 1)),
     (''ConfigurationServerboundCustomPayload'', (''configuration'', serverbound, 2)),
     (''ConfigurationServerboundFinishConfiguration'', (''configuration'', serverbound, 3)),
     (''ConfigurationServerboundKeepAlive'', (''configuration'', serverbound, 4)),
     (''ConfigurationServerboundPong'', (''configuration'', serverbound, 5)),
     (''ConfigurationServerboundResourcePackReceive'', (''configuration'', serverbound, 6)),
     (''ConfigurationServerboundSelectKnownPacks'', (''configuration'', serverbound, 7)),
     (''ConfigurationServerboundCustomClickAction'', (''configuration'', serverbound, 8)),
     (''ConfigurationServerboundAcceptCodeOfConduct'', (''configuration'', serverbound, 9))]"

text \<open>The names of the packets.\<close>

definition packet_names_775 :: "(packet_key \<times> string) list" where
  "packet_names_775 = [
     ((''handshaking'', serverbound, 0), ''set_protocol''),
     ((''status'', clientbound, 0), ''server_info''),
     ((''status'', clientbound, 1), ''ping''),
     ((''status'', serverbound, 0), ''ping_start''),
     ((''status'', serverbound, 1), ''ping''),
     ((''login'', clientbound, 0), ''disconnect''),
     ((''login'', clientbound, 1), ''encryption_begin''),
     ((''login'', clientbound, 2), ''success''),
     ((''login'', clientbound, 3), ''compress''),
     ((''login'', clientbound, 4), ''login_plugin_request''),
     ((''login'', clientbound, 5), ''cookie_request''),
     ((''login'', serverbound, 0), ''login_start''),
     ((''login'', serverbound, 1), ''encryption_begin''),
     ((''login'', serverbound, 2), ''login_plugin_response''),
     ((''login'', serverbound, 3), ''login_acknowledged''),
     ((''login'', serverbound, 4), ''cookie_response''),
     ((''configuration'', clientbound, 0), ''cookie_request''),
     ((''configuration'', clientbound, 1), ''custom_payload''),
     ((''configuration'', clientbound, 2), ''disconnect''),
     ((''configuration'', clientbound, 3), ''finish_configuration''),
     ((''configuration'', clientbound, 4), ''keep_alive''),
     ((''configuration'', clientbound, 5), ''ping''),
     ((''configuration'', clientbound, 6), ''reset_chat''),
     ((''configuration'', clientbound, 7), ''registry_data''),
     ((''configuration'', clientbound, 8), ''remove_resource_pack''),
     ((''configuration'', clientbound, 9), ''add_resource_pack''),
     ((''configuration'', clientbound, 10), ''store_cookie''),
     ((''configuration'', clientbound, 11), ''transfer''),
     ((''configuration'', clientbound, 12), ''feature_flags''),
     ((''configuration'', clientbound, 13), ''tags''),
     ((''configuration'', clientbound, 14), ''select_known_packs''),
     ((''configuration'', clientbound, 15), ''custom_report_details''),
     ((''configuration'', clientbound, 16), ''server_links''),
     ((''configuration'', clientbound, 17), ''clear_dialog''),
     ((''configuration'', clientbound, 18), ''show_dialog''),
     ((''configuration'', clientbound, 19), ''code_of_conduct''),
     ((''configuration'', serverbound, 0), ''settings''),
     ((''configuration'', serverbound, 1), ''cookie_response''),
     ((''configuration'', serverbound, 2), ''custom_payload''),
     ((''configuration'', serverbound, 3), ''finish_configuration''),
     ((''configuration'', serverbound, 4), ''keep_alive''),
     ((''configuration'', serverbound, 5), ''pong''),
     ((''configuration'', serverbound, 6), ''resource_pack_receive''),
     ((''configuration'', serverbound, 7), ''select_known_packs''),
     ((''configuration'', serverbound, 8), ''custom_click_action''),
     ((''configuration'', serverbound, 9), ''accept_code_of_conduct''),
     ((''play'', clientbound, 0), ''bundle_delimiter''),
     ((''play'', clientbound, 1), ''spawn_entity''),
     ((''play'', clientbound, 2), ''animation''),
     ((''play'', clientbound, 3), ''statistics''),
     ((''play'', clientbound, 4), ''acknowledge_player_digging''),
     ((''play'', clientbound, 5), ''block_break_animation''),
     ((''play'', clientbound, 6), ''tile_entity_data''),
     ((''play'', clientbound, 7), ''block_action''),
     ((''play'', clientbound, 8), ''block_change''),
     ((''play'', clientbound, 9), ''boss_bar''),
     ((''play'', clientbound, 10), ''difficulty''),
     ((''play'', clientbound, 11), ''chunk_batch_finished''),
     ((''play'', clientbound, 12), ''chunk_batch_start''),
     ((''play'', clientbound, 13), ''chunk_biomes''),
     ((''play'', clientbound, 14), ''clear_titles''),
     ((''play'', clientbound, 15), ''tab_complete''),
     ((''play'', clientbound, 16), ''declare_commands''),
     ((''play'', clientbound, 17), ''close_window''),
     ((''play'', clientbound, 18), ''window_items''),
     ((''play'', clientbound, 19), ''craft_progress_bar''),
     ((''play'', clientbound, 20), ''set_slot''),
     ((''play'', clientbound, 21), ''cookie_request''),
     ((''play'', clientbound, 22), ''set_cooldown''),
     ((''play'', clientbound, 23), ''chat_suggestions''),
     ((''play'', clientbound, 24), ''custom_payload''),
     ((''play'', clientbound, 25), ''damage_event''),
     ((''play'', clientbound, 26), ''debug_block_value''),
     ((''play'', clientbound, 27), ''debug_chunk_value''),
     ((''play'', clientbound, 28), ''debug_entity_value''),
     ((''play'', clientbound, 29), ''debug_event''),
     ((''play'', clientbound, 30), ''debug_sample''),
     ((''play'', clientbound, 31), ''hide_message''),
     ((''play'', clientbound, 32), ''kick_disconnect''),
     ((''play'', clientbound, 33), ''profileless_chat''),
     ((''play'', clientbound, 34), ''entity_status''),
     ((''play'', clientbound, 35), ''sync_entity_position''),
     ((''play'', clientbound, 36), ''explosion''),
     ((''play'', clientbound, 37), ''unload_chunk''),
     ((''play'', clientbound, 38), ''game_state_change''),
     ((''play'', clientbound, 39), ''game_rule_values''),
     ((''play'', clientbound, 40), ''game_test_highlight_pos''),
     ((''play'', clientbound, 41), ''open_horse_window''),
     ((''play'', clientbound, 42), ''hurt_animation''),
     ((''play'', clientbound, 43), ''initialize_world_border''),
     ((''play'', clientbound, 44), ''keep_alive''),
     ((''play'', clientbound, 45), ''map_chunk''),
     ((''play'', clientbound, 46), ''world_event''),
     ((''play'', clientbound, 47), ''world_particles''),
     ((''play'', clientbound, 48), ''update_light''),
     ((''play'', clientbound, 49), ''login''),
     ((''play'', clientbound, 50), ''low_disk_space_warning''),
     ((''play'', clientbound, 51), ''map''),
     ((''play'', clientbound, 52), ''trade_list''),
     ((''play'', clientbound, 53), ''rel_entity_move''),
     ((''play'', clientbound, 54), ''entity_move_look''),
     ((''play'', clientbound, 55), ''move_minecart''),
     ((''play'', clientbound, 56), ''entity_look''),
     ((''play'', clientbound, 57), ''vehicle_move''),
     ((''play'', clientbound, 58), ''open_book''),
     ((''play'', clientbound, 59), ''open_window''),
     ((''play'', clientbound, 60), ''open_sign_entity''),
     ((''play'', clientbound, 61), ''ping''),
     ((''play'', clientbound, 62), ''ping_response''),
     ((''play'', clientbound, 63), ''craft_recipe_response''),
     ((''play'', clientbound, 64), ''abilities''),
     ((''play'', clientbound, 65), ''player_chat''),
     ((''play'', clientbound, 66), ''end_combat_event''),
     ((''play'', clientbound, 67), ''enter_combat_event''),
     ((''play'', clientbound, 68), ''death_combat_event''),
     ((''play'', clientbound, 69), ''player_remove''),
     ((''play'', clientbound, 70), ''player_info''),
     ((''play'', clientbound, 71), ''face_player''),
     ((''play'', clientbound, 72), ''position''),
     ((''play'', clientbound, 73), ''player_rotation''),
     ((''play'', clientbound, 74), ''recipe_book_add''),
     ((''play'', clientbound, 75), ''recipe_book_remove''),
     ((''play'', clientbound, 76), ''recipe_book_settings''),
     ((''play'', clientbound, 77), ''entity_destroy''),
     ((''play'', clientbound, 78), ''remove_entity_effect''),
     ((''play'', clientbound, 79), ''reset_score''),
     ((''play'', clientbound, 80), ''remove_resource_pack''),
     ((''play'', clientbound, 81), ''add_resource_pack''),
     ((''play'', clientbound, 82), ''respawn''),
     ((''play'', clientbound, 83), ''entity_head_rotation''),
     ((''play'', clientbound, 84), ''multi_block_change''),
     ((''play'', clientbound, 85), ''select_advancement_tab''),
     ((''play'', clientbound, 86), ''server_data''),
     ((''play'', clientbound, 87), ''action_bar''),
     ((''play'', clientbound, 88), ''world_border_center''),
     ((''play'', clientbound, 89), ''world_border_lerp_size''),
     ((''play'', clientbound, 90), ''world_border_size''),
     ((''play'', clientbound, 91), ''world_border_warning_delay''),
     ((''play'', clientbound, 92), ''world_border_warning_reach''),
     ((''play'', clientbound, 93), ''camera''),
     ((''play'', clientbound, 94), ''update_view_position''),
     ((''play'', clientbound, 95), ''update_view_distance''),
     ((''play'', clientbound, 96), ''set_cursor_item''),
     ((''play'', clientbound, 97), ''spawn_position''),
     ((''play'', clientbound, 98), ''scoreboard_display_objective''),
     ((''play'', clientbound, 99), ''entity_metadata''),
     ((''play'', clientbound, 100), ''attach_entity''),
     ((''play'', clientbound, 101), ''entity_velocity''),
     ((''play'', clientbound, 102), ''entity_equipment''),
     ((''play'', clientbound, 103), ''experience''),
     ((''play'', clientbound, 104), ''update_health''),
     ((''play'', clientbound, 105), ''held_item_slot''),
     ((''play'', clientbound, 106), ''scoreboard_objective''),
     ((''play'', clientbound, 107), ''set_passengers''),
     ((''play'', clientbound, 108), ''set_player_inventory''),
     ((''play'', clientbound, 109), ''teams''),
     ((''play'', clientbound, 110), ''scoreboard_score''),
     ((''play'', clientbound, 111), ''simulation_distance''),
     ((''play'', clientbound, 112), ''set_title_subtitle''),
     ((''play'', clientbound, 113), ''update_time''),
     ((''play'', clientbound, 114), ''set_title_text''),
     ((''play'', clientbound, 115), ''set_title_time''),
     ((''play'', clientbound, 116), ''entity_sound_effect''),
     ((''play'', clientbound, 117), ''sound_effect''),
     ((''play'', clientbound, 118), ''start_configuration''),
     ((''play'', clientbound, 119), ''stop_sound''),
     ((''play'', clientbound, 120), ''store_cookie''),
     ((''play'', clientbound, 121), ''system_chat''),
     ((''play'', clientbound, 122), ''playerlist_header''),
     ((''play'', clientbound, 123), ''nbt_query_response''),
     ((''play'', clientbound, 124), ''collect''),
     ((''play'', clientbound, 125), ''entity_teleport''),
     ((''play'', clientbound, 126), ''test_instance_block_status''),
     ((''play'', clientbound, 127), ''set_ticking_state''),
     ((''play'', clientbound, 128), ''step_tick''),
     ((''play'', clientbound, 129), ''transfer''),
     ((''play'', clientbound, 130), ''advancements''),
     ((''play'', clientbound, 131), ''entity_update_attributes''),
     ((''play'', clientbound, 132), ''entity_effect''),
     ((''play'', clientbound, 133), ''declare_recipes''),
     ((''play'', clientbound, 134), ''tags''),
     ((''play'', clientbound, 135), ''set_projectile_power''),
     ((''play'', clientbound, 136), ''custom_report_details''),
     ((''play'', clientbound, 137), ''server_links''),
     ((''play'', clientbound, 138), ''tracked_waypoint''),
     ((''play'', clientbound, 139), ''clear_dialog''),
     ((''play'', clientbound, 140), ''show_dialog''),
     ((''play'', serverbound, 0), ''teleport_confirm''),
     ((''play'', serverbound, 1), ''attack''),
     ((''play'', serverbound, 2), ''query_block_nbt''),
     ((''play'', serverbound, 3), ''select_bundle_item''),
     ((''play'', serverbound, 4), ''set_difficulty''),
     ((''play'', serverbound, 5), ''change_gamemode''),
     ((''play'', serverbound, 6), ''message_acknowledgement''),
     ((''play'', serverbound, 7), ''chat_command''),
     ((''play'', serverbound, 8), ''chat_command_signed''),
     ((''play'', serverbound, 9), ''chat_message''),
     ((''play'', serverbound, 10), ''chat_session_update''),
     ((''play'', serverbound, 11), ''chunk_batch_received''),
     ((''play'', serverbound, 12), ''client_command''),
     ((''play'', serverbound, 13), ''tick_end''),
     ((''play'', serverbound, 14), ''settings''),
     ((''play'', serverbound, 15), ''tab_complete''),
     ((''play'', serverbound, 16), ''configuration_acknowledged''),
     ((''play'', serverbound, 17), ''enchant_item''),
     ((''play'', serverbound, 18), ''window_click''),
     ((''play'', serverbound, 19), ''close_window''),
     ((''play'', serverbound, 20), ''set_slot_state''),
     ((''play'', serverbound, 21), ''cookie_response''),
     ((''play'', serverbound, 22), ''custom_payload''),
     ((''play'', serverbound, 23), ''debug_subscription_request''),
     ((''play'', serverbound, 24), ''edit_book''),
     ((''play'', serverbound, 25), ''query_entity_nbt''),
     ((''play'', serverbound, 26), ''use_entity''),
     ((''play'', serverbound, 27), ''generate_structure''),
     ((''play'', serverbound, 28), ''keep_alive''),
     ((''play'', serverbound, 29), ''lock_difficulty''),
     ((''play'', serverbound, 30), ''position''),
     ((''play'', serverbound, 31), ''position_look''),
     ((''play'', serverbound, 32), ''look''),
     ((''play'', serverbound, 33), ''flying''),
     ((''play'', serverbound, 34), ''vehicle_move''),
     ((''play'', serverbound, 35), ''steer_boat''),
     ((''play'', serverbound, 36), ''pick_item_from_block''),
     ((''play'', serverbound, 37), ''pick_item_from_entity''),
     ((''play'', serverbound, 38), ''ping_request''),
     ((''play'', serverbound, 39), ''craft_recipe_request''),
     ((''play'', serverbound, 40), ''abilities''),
     ((''play'', serverbound, 41), ''block_dig''),
     ((''play'', serverbound, 42), ''entity_action''),
     ((''play'', serverbound, 43), ''player_input''),
     ((''play'', serverbound, 44), ''player_loaded''),
     ((''play'', serverbound, 45), ''pong''),
     ((''play'', serverbound, 46), ''recipe_book''),
     ((''play'', serverbound, 47), ''displayed_recipe''),
     ((''play'', serverbound, 48), ''name_item''),
     ((''play'', serverbound, 49), ''resource_pack_receive''),
     ((''play'', serverbound, 50), ''advancement_tab''),
     ((''play'', serverbound, 51), ''select_trade''),
     ((''play'', serverbound, 52), ''set_beacon_effect''),
     ((''play'', serverbound, 53), ''held_item_slot''),
     ((''play'', serverbound, 54), ''update_command_block''),
     ((''play'', serverbound, 55), ''update_command_block_minecart''),
     ((''play'', serverbound, 56), ''set_creative_slot''),
     ((''play'', serverbound, 57), ''set_game_rule''),
     ((''play'', serverbound, 58), ''update_jigsaw_block''),
     ((''play'', serverbound, 59), ''update_structure_block''),
     ((''play'', serverbound, 60), ''set_test_block''),
     ((''play'', serverbound, 61), ''update_sign''),
     ((''play'', serverbound, 62), ''spectate_entity''),
     ((''play'', serverbound, 63), ''arm_animation''),
     ((''play'', serverbound, 64), ''spectate''),
     ((''play'', serverbound, 65), ''test_instance_block_action''),
     ((''play'', serverbound, 66), ''block_place''),
     ((''play'', serverbound, 67), ''use_item''),
     ((''play'', serverbound, 68), ''custom_click_action'')]"

text \<open>The codec of a value type, by the name of its Go type.\<close>

definition packet_schemas_775 :: "(string \<times> schema list) list" where
  "packet_schemas_775 = [
     (''HandshakingServerboundSetProtocol'', handshaking_serverbound_set_protocol_775),
     (''StatusClientboundServerInfo'', status_clientbound_server_info_775),
     (''StatusClientboundPing'', status_clientbound_ping_775),
     (''StatusServerboundPingStart'', status_serverbound_ping_start_775),
     (''StatusServerboundPing'', status_serverbound_ping_775),
     (''LoginClientboundDisconnect'', login_clientbound_disconnect_775),
     (''LoginClientboundEncryptionBegin'', login_clientbound_encryption_begin_775),
     (''LoginClientboundSuccess'', login_clientbound_success_775),
     (''LoginClientboundCompress'', login_clientbound_compress_775),
     (''LoginClientboundLoginPluginRequest'', login_clientbound_login_plugin_request_775),
     (''LoginClientboundCookieRequest'', login_clientbound_cookie_request_775),
     (''LoginServerboundLoginStart'', login_serverbound_login_start_775),
     (''LoginServerboundEncryptionBegin'', login_serverbound_encryption_begin_775),
     (''LoginServerboundLoginPluginResponse'', login_serverbound_login_plugin_response_775),
     (''LoginServerboundLoginAcknowledged'', login_serverbound_login_acknowledged_775),
     (''LoginServerboundCookieResponse'', login_serverbound_cookie_response_775),
     (''PlayClientboundBundleDelimiter'', play_clientbound_bundle_delimiter_775),
     (''PlayClientboundAnimation'', play_clientbound_animation_775),
     (''PlayClientboundStatistics'', play_clientbound_statistics_775),
     (''PlayClientboundAcknowledgePlayerDigging'', play_clientbound_acknowledge_player_digging_775),
     (''PlayClientboundBlockBreakAnimation'', play_clientbound_block_break_animation_775),
     (''PlayClientboundTileEntityData'', play_clientbound_tile_entity_data_775),
     (''PlayClientboundBlockAction'', play_clientbound_block_action_775),
     (''PlayClientboundBlockChange'', play_clientbound_block_change_775),
     (''PlayClientboundBossBar'', play_clientbound_boss_bar_775),
     (''PlayClientboundDifficulty'', play_clientbound_difficulty_775),
     (''PlayClientboundChunkBatchFinished'', play_clientbound_chunk_batch_finished_775),
     (''PlayClientboundChunkBatchStart'', play_clientbound_chunk_batch_start_775),
     (''PlayClientboundChunkBiomes'', play_clientbound_chunk_biomes_775),
     (''PlayClientboundClearTitles'', play_clientbound_clear_titles_775),
     (''PlayClientboundTabComplete'', play_clientbound_tab_complete_775),
     (''PlayClientboundDeclareCommands'', play_clientbound_declare_commands_775),
     (''PlayClientboundCloseWindow'', play_clientbound_close_window_775),
     (''PlayClientboundWindowItems'', play_clientbound_window_items_775),
     (''PlayClientboundCraftProgressBar'', play_clientbound_craft_progress_bar_775),
     (''PlayClientboundSetSlot'', play_clientbound_set_slot_775),
     (''PlayClientboundCookieRequest'', play_clientbound_cookie_request_775),
     (''PlayClientboundSetCooldown'', play_clientbound_set_cooldown_775),
     (''PlayClientboundChatSuggestions'', play_clientbound_chat_suggestions_775),
     (''PlayClientboundCustomPayload'', play_clientbound_custom_payload_775),
     (''PlayClientboundDamageEvent'', play_clientbound_damage_event_775),
     (''PlayClientboundDebugBlockValue'', play_clientbound_debug_block_value_775),
     (''PlayClientboundDebugChunkValue'', play_clientbound_debug_chunk_value_775),
     (''PlayClientboundDebugEntityValue'', play_clientbound_debug_entity_value_775),
     (''PlayClientboundDebugEvent'', play_clientbound_debug_event_775),
     (''PlayClientboundDebugSample'', play_clientbound_debug_sample_775),
     (''PlayClientboundHideMessage'', play_clientbound_hide_message_775),
     (''PlayClientboundKickDisconnect'', play_clientbound_kick_disconnect_775),
     (''PlayClientboundProfilelessChat'', play_clientbound_profileless_chat_775),
     (''PlayClientboundEntityStatus'', play_clientbound_entity_status_775),
     (''PlayClientboundSyncEntityPosition'', play_clientbound_sync_entity_position_775),
     (''PlayClientboundExplosion'', play_clientbound_explosion_775),
     (''PlayClientboundUnloadChunk'', play_clientbound_unload_chunk_775),
     (''PlayClientboundGameStateChange'', play_clientbound_game_state_change_775),
     (''PlayClientboundGameRuleValues'', play_clientbound_game_rule_values_775),
     (''PlayClientboundGameTestHighlightPos'', play_clientbound_game_test_highlight_pos_775),
     (''PlayClientboundOpenHorseWindow'', play_clientbound_open_horse_window_775),
     (''PlayClientboundHurtAnimation'', play_clientbound_hurt_animation_775),
     (''PlayClientboundInitializeWorldBorder'', play_clientbound_initialize_world_border_775),
     (''PlayClientboundKeepAlive'', play_clientbound_keep_alive_775),
     (''PlayClientboundMapChunk'', play_clientbound_map_chunk_775),
     (''PlayClientboundWorldEvent'', play_clientbound_world_event_775),
     (''PlayClientboundWorldParticles'', play_clientbound_world_particles_775),
     (''PlayClientboundUpdateLight'', play_clientbound_update_light_775),
     (''PlayClientboundLogin'', play_clientbound_login_775),
     (''PlayClientboundLowDiskSpaceWarning'', play_clientbound_low_disk_space_warning_775),
     (''PlayClientboundMap'', play_clientbound_map_775),
     (''PlayClientboundTradeList'', play_clientbound_trade_list_775),
     (''PlayClientboundRelEntityMove'', play_clientbound_rel_entity_move_775),
     (''PlayClientboundEntityMoveLook'', play_clientbound_entity_move_look_775),
     (''PlayClientboundMoveMinecart'', play_clientbound_move_minecart_775),
     (''PlayClientboundEntityLook'', play_clientbound_entity_look_775),
     (''PlayClientboundVehicleMove'', play_clientbound_vehicle_move_775),
     (''PlayClientboundOpenBook'', play_clientbound_open_book_775),
     (''PlayClientboundOpenWindow'', play_clientbound_open_window_775),
     (''PlayClientboundOpenSignEntity'', play_clientbound_open_sign_entity_775),
     (''PlayClientboundPing'', play_clientbound_ping_775),
     (''PlayClientboundPingResponse'', play_clientbound_ping_response_775),
     (''PlayClientboundCraftRecipeResponse'', play_clientbound_craft_recipe_response_775),
     (''PlayClientboundAbilities'', play_clientbound_abilities_775),
     (''PlayClientboundPlayerChat'', play_clientbound_player_chat_775),
     (''PlayClientboundEndCombatEvent'', play_clientbound_end_combat_event_775),
     (''PlayClientboundEnterCombatEvent'', play_clientbound_enter_combat_event_775),
     (''PlayClientboundDeathCombatEvent'', play_clientbound_death_combat_event_775),
     (''PlayClientboundPlayerRemove'', play_clientbound_player_remove_775),
     (''PlayClientboundPlayerInfo'', play_clientbound_player_info_775),
     (''PlayClientboundFacePlayer'', play_clientbound_face_player_775),
     (''PlayClientboundPosition'', play_clientbound_position_775),
     (''PlayClientboundPlayerRotation'', play_clientbound_player_rotation_775),
     (''PlayClientboundRecipeBookAdd'', play_clientbound_recipe_book_add_775),
     (''PlayClientboundRecipeBookRemove'', play_clientbound_recipe_book_remove_775),
     (''PlayClientboundRecipeBookSettings'', play_clientbound_recipe_book_settings_775),
     (''PlayClientboundEntityDestroy'', play_clientbound_entity_destroy_775),
     (''PlayClientboundRemoveEntityEffect'', play_clientbound_remove_entity_effect_775),
     (''PlayClientboundResetScore'', play_clientbound_reset_score_775),
     (''PlayClientboundRemoveResourcePack'', play_clientbound_remove_resource_pack_775),
     (''PlayClientboundAddResourcePack'', play_clientbound_add_resource_pack_775),
     (''PlayClientboundRespawn'', play_clientbound_respawn_775),
     (''PlayClientboundEntityHeadRotation'', play_clientbound_entity_head_rotation_775),
     (''PlayClientboundMultiBlockChange'', play_clientbound_multi_block_change_775),
     (''PlayClientboundSelectAdvancementTab'', play_clientbound_select_advancement_tab_775),
     (''PlayClientboundServerData'', play_clientbound_server_data_775),
     (''PlayClientboundActionBar'', play_clientbound_action_bar_775),
     (''PlayClientboundWorldBorderCenter'', play_clientbound_world_border_center_775),
     (''PlayClientboundWorldBorderLerpSize'', play_clientbound_world_border_lerp_size_775),
     (''PlayClientboundWorldBorderSize'', play_clientbound_world_border_size_775),
     (''PlayClientboundWorldBorderWarningDelay'', play_clientbound_world_border_warning_delay_775),
     (''PlayClientboundWorldBorderWarningReach'', play_clientbound_world_border_warning_reach_775),
     (''PlayClientboundCamera'', play_clientbound_camera_775),
     (''PlayClientboundUpdateViewPosition'', play_clientbound_update_view_position_775),
     (''PlayClientboundUpdateViewDistance'', play_clientbound_update_view_distance_775),
     (''PlayClientboundSetCursorItem'', play_clientbound_set_cursor_item_775),
     (''PlayClientboundSpawnPosition'', play_clientbound_spawn_position_775),
     (''PlayClientboundScoreboardDisplayObjective'', play_clientbound_scoreboard_display_objective_775),
     (''PlayClientboundEntityMetadata'', play_clientbound_entity_metadata_775),
     (''PlayClientboundAttachEntity'', play_clientbound_attach_entity_775),
     (''PlayClientboundExperience'', play_clientbound_experience_775),
     (''PlayClientboundUpdateHealth'', play_clientbound_update_health_775),
     (''PlayClientboundHeldItemSlot'', play_clientbound_held_item_slot_775),
     (''PlayClientboundSetPassengers'', play_clientbound_set_passengers_775),
     (''PlayClientboundSetPlayerInventory'', play_clientbound_set_player_inventory_775),
     (''PlayClientboundTeams'', play_clientbound_teams_775),
     (''PlayClientboundSimulationDistance'', play_clientbound_simulation_distance_775),
     (''PlayClientboundSetTitleSubtitle'', play_clientbound_set_title_subtitle_775),
     (''PlayClientboundUpdateTime'', play_clientbound_update_time_775),
     (''PlayClientboundSetTitleText'', play_clientbound_set_title_text_775),
     (''PlayClientboundSetTitleTime'', play_clientbound_set_title_time_775),
     (''PlayClientboundEntitySoundEffect'', play_clientbound_entity_sound_effect_775),
     (''PlayClientboundSoundEffect'', play_clientbound_sound_effect_775),
     (''PlayClientboundStartConfiguration'', play_clientbound_start_configuration_775),
     (''PlayClientboundStopSound'', play_clientbound_stop_sound_775),
     (''PlayClientboundStoreCookie'', play_clientbound_store_cookie_775),
     (''PlayClientboundSystemChat'', play_clientbound_system_chat_775),
     (''PlayClientboundPlayerlistHeader'', play_clientbound_playerlist_header_775),
     (''PlayClientboundNBTQueryResponse'', play_clientbound_nbt_query_response_775),
     (''PlayClientboundCollect'', play_clientbound_collect_775),
     (''PlayClientboundEntityTeleport'', play_clientbound_entity_teleport_775),
     (''PlayClientboundTestInstanceBlockStatus'', play_clientbound_test_instance_block_status_775),
     (''PlayClientboundSetTickingState'', play_clientbound_set_ticking_state_775),
     (''PlayClientboundStepTick'', play_clientbound_step_tick_775),
     (''PlayClientboundTransfer'', play_clientbound_transfer_775),
     (''PlayClientboundAdvancements'', play_clientbound_advancements_775),
     (''PlayClientboundEntityUpdateAttributes'', play_clientbound_entity_update_attributes_775),
     (''PlayClientboundEntityEffect'', play_clientbound_entity_effect_775),
     (''PlayClientboundDeclareRecipes'', play_clientbound_declare_recipes_775),
     (''PlayClientboundTags'', play_clientbound_tags_775),
     (''PlayClientboundSetProjectilePower'', play_clientbound_set_projectile_power_775),
     (''PlayClientboundCustomReportDetails'', play_clientbound_custom_report_details_775),
     (''PlayClientboundServerLinks'', play_clientbound_server_links_775),
     (''PlayClientboundTrackedWaypoint'', play_clientbound_tracked_waypoint_775),
     (''PlayClientboundClearDialog'', play_clientbound_clear_dialog_775),
     (''PlayClientboundShowDialog'', play_clientbound_show_dialog_775),
     (''PlayServerboundTeleportConfirm'', play_serverbound_teleport_confirm_775),
     (''PlayServerboundAttack'', play_serverbound_attack_775),
     (''PlayServerboundQueryBlockNBT'', play_serverbound_query_block_nbt_775),
     (''PlayServerboundSelectBundleItem'', play_serverbound_select_bundle_item_775),
     (''PlayServerboundSetDifficulty'', play_serverbound_set_difficulty_775),
     (''PlayServerboundChangeGamemode'', play_serverbound_change_gamemode_775),
     (''PlayServerboundMessageAcknowledgement'', play_serverbound_message_acknowledgement_775),
     (''PlayServerboundChatCommand'', play_serverbound_chat_command_775),
     (''PlayServerboundChatCommandSigned'', play_serverbound_chat_command_signed_775),
     (''PlayServerboundChatMessage'', play_serverbound_chat_message_775),
     (''PlayServerboundChatSessionUpdate'', play_serverbound_chat_session_update_775),
     (''PlayServerboundChunkBatchReceived'', play_serverbound_chunk_batch_received_775),
     (''PlayServerboundClientCommand'', play_serverbound_client_command_775),
     (''PlayServerboundTickEnd'', play_serverbound_tick_end_775),
     (''PlayServerboundSettings'', play_serverbound_settings_775),
     (''PlayServerboundTabComplete'', play_serverbound_tab_complete_775),
     (''PlayServerboundConfigurationAcknowledged'', play_serverbound_configuration_acknowledged_775),
     (''PlayServerboundEnchantItem'', play_serverbound_enchant_item_775),
     (''PlayServerboundWindowClick'', play_serverbound_window_click_775),
     (''PlayServerboundCloseWindow'', play_serverbound_close_window_775),
     (''PlayServerboundSetSlotState'', play_serverbound_set_slot_state_775),
     (''PlayServerboundCookieResponse'', play_serverbound_cookie_response_775),
     (''PlayServerboundCustomPayload'', play_serverbound_custom_payload_775),
     (''PlayServerboundDebugSubscriptionRequest'', play_serverbound_debug_subscription_request_775),
     (''PlayServerboundEditBook'', play_serverbound_edit_book_775),
     (''PlayServerboundQueryEntityNBT'', play_serverbound_query_entity_nbt_775),
     (''PlayServerboundGenerateStructure'', play_serverbound_generate_structure_775),
     (''PlayServerboundKeepAlive'', play_serverbound_keep_alive_775),
     (''PlayServerboundLockDifficulty'', play_serverbound_lock_difficulty_775),
     (''PlayServerboundPosition'', play_serverbound_position_775),
     (''PlayServerboundPositionLook'', play_serverbound_position_look_775),
     (''PlayServerboundLook'', play_serverbound_look_775),
     (''PlayServerboundFlying'', play_serverbound_flying_775),
     (''PlayServerboundVehicleMove'', play_serverbound_vehicle_move_775),
     (''PlayServerboundSteerBoat'', play_serverbound_steer_boat_775),
     (''PlayServerboundPickItemFromBlock'', play_serverbound_pick_item_from_block_775),
     (''PlayServerboundPickItemFromEntity'', play_serverbound_pick_item_from_entity_775),
     (''PlayServerboundPingRequest'', play_serverbound_ping_request_775),
     (''PlayServerboundCraftRecipeRequest'', play_serverbound_craft_recipe_request_775),
     (''PlayServerboundAbilities'', play_serverbound_abilities_775),
     (''PlayServerboundBlockDig'', play_serverbound_block_dig_775),
     (''PlayServerboundEntityAction'', play_serverbound_entity_action_775),
     (''PlayServerboundPlayerInput'', play_serverbound_player_input_775),
     (''PlayServerboundPlayerLoaded'', play_serverbound_player_loaded_775),
     (''PlayServerboundPong'', play_serverbound_pong_775),
     (''PlayServerboundRecipeBook'', play_serverbound_recipe_book_775),
     (''PlayServerboundDisplayedRecipe'', play_serverbound_displayed_recipe_775),
     (''PlayServerboundNameItem'', play_serverbound_name_item_775),
     (''PlayServerboundResourcePackReceive'', play_serverbound_resource_pack_receive_775),
     (''PlayServerboundAdvancementTab'', play_serverbound_advancement_tab_775),
     (''PlayServerboundSelectTrade'', play_serverbound_select_trade_775),
     (''PlayServerboundSetBeaconEffect'', play_serverbound_set_beacon_effect_775),
     (''PlayServerboundHeldItemSlot'', play_serverbound_held_item_slot_775),
     (''PlayServerboundUpdateCommandBlock'', play_serverbound_update_command_block_775),
     (''PlayServerboundUpdateCommandBlockMinecart'', play_serverbound_update_command_block_minecart_775),
     (''PlayServerboundSetCreativeSlot'', play_serverbound_set_creative_slot_775),
     (''PlayServerboundSetGameRule'', play_serverbound_set_game_rule_775),
     (''PlayServerboundUpdateJigsawBlock'', play_serverbound_update_jigsaw_block_775),
     (''PlayServerboundUpdateStructureBlock'', play_serverbound_update_structure_block_775),
     (''PlayServerboundSetTestBlock'', play_serverbound_set_test_block_775),
     (''PlayServerboundUpdateSign'', play_serverbound_update_sign_775),
     (''PlayServerboundSpectateEntity'', play_serverbound_spectate_entity_775),
     (''PlayServerboundArmAnimation'', play_serverbound_arm_animation_775),
     (''PlayServerboundSpectate'', play_serverbound_spectate_775),
     (''PlayServerboundTestInstanceBlockAction'', play_serverbound_test_instance_block_action_775),
     (''PlayServerboundBlockPlace'', play_serverbound_block_place_775),
     (''PlayServerboundUseItem'', play_serverbound_use_item_775),
     (''PlayServerboundCustomClickAction'', play_serverbound_custom_click_action_775),
     (''ConfigurationClientboundCookieRequest'', configuration_clientbound_cookie_request_775),
     (''ConfigurationClientboundCustomPayload'', configuration_clientbound_custom_payload_775),
     (''ConfigurationClientboundDisconnect'', configuration_clientbound_disconnect_775),
     (''ConfigurationClientboundFinishConfiguration'', configuration_clientbound_finish_configuration_775),
     (''ConfigurationClientboundKeepAlive'', configuration_clientbound_keep_alive_775),
     (''ConfigurationClientboundPing'', configuration_clientbound_ping_775),
     (''ConfigurationClientboundResetChat'', configuration_clientbound_reset_chat_775),
     (''ConfigurationClientboundRegistryData'', configuration_clientbound_registry_data_775),
     (''ConfigurationClientboundRemoveResourcePack'', configuration_clientbound_remove_resource_pack_775),
     (''ConfigurationClientboundAddResourcePack'', configuration_clientbound_add_resource_pack_775),
     (''ConfigurationClientboundStoreCookie'', configuration_clientbound_store_cookie_775),
     (''ConfigurationClientboundTransfer'', configuration_clientbound_transfer_775),
     (''ConfigurationClientboundFeatureFlags'', configuration_clientbound_feature_flags_775),
     (''ConfigurationClientboundTags'', configuration_clientbound_tags_775),
     (''ConfigurationClientboundSelectKnownPacks'', configuration_clientbound_select_known_packs_775),
     (''ConfigurationClientboundCustomReportDetails'', configuration_clientbound_custom_report_details_775),
     (''ConfigurationClientboundServerLinks'', configuration_clientbound_server_links_775),
     (''ConfigurationClientboundClearDialog'', configuration_clientbound_clear_dialog_775),
     (''ConfigurationClientboundShowDialog'', configuration_clientbound_show_dialog_775),
     (''ConfigurationClientboundCodeOfConduct'', configuration_clientbound_code_of_conduct_775),
     (''ConfigurationServerboundSettings'', configuration_serverbound_settings_775),
     (''ConfigurationServerboundCookieResponse'', configuration_serverbound_cookie_response_775),
     (''ConfigurationServerboundCustomPayload'', configuration_serverbound_custom_payload_775),
     (''ConfigurationServerboundFinishConfiguration'', configuration_serverbound_finish_configuration_775),
     (''ConfigurationServerboundKeepAlive'', configuration_serverbound_keep_alive_775),
     (''ConfigurationServerboundPong'', configuration_serverbound_pong_775),
     (''ConfigurationServerboundResourcePackReceive'', configuration_serverbound_resource_pack_receive_775),
     (''ConfigurationServerboundSelectKnownPacks'', configuration_serverbound_select_known_packs_775),
     (''ConfigurationServerboundCustomClickAction'', configuration_serverbound_custom_click_action_775),
     (''ConfigurationServerboundAcceptCodeOfConduct'', configuration_serverbound_accept_code_of_conduct_775)]"

end
