(* ===== verification/Packets_V775_Sound.thy ===== *)
theory Packets_V775_Sound
  imports Packet_Laws Packets_V775
begin

text \<open>
  The types and packets of protocol 775 satisfy the premises of \<open>body_roundtrip\<close>, by evaluation:
  tables of mappers are inverse and in the width of their field, bit fields fill their word, and
  only the last field of a packet takes the rest of it. The component of an item stack, whose mapper is by far the largest table, is
  evaluated apart from the other types.
\<close>

definition sound_type :: "string \<times> string \<times> schema list \<Rightarrow> bool" where
  "sound_type x \<longleftrightarrow> sound_fields [] (snd (snd x)) \<and> \<not> list_ex opens (snd (snd x))"

lemma slot_component_sound: "sound_type (''SlotComponent'', slot_component_775)"
  unfolding sound_type_def snd_conv by (rule conjI; code_simp)

lemma all_types_sound_775: "list_all sound_type shared_types_775"
  unfolding shared_types_775_def list.pred_inject
  by (intro conjI TrueI; (rule slot_component_sound | code_simp))

lemma types_sound_775: "sound_types [] shared_types_775"
  using all_types_sound_775 by (auto simp only: sound_types_def list_all_iff sound_type_def snd_conv)

text \<open>
  The entity metadata ends at a byte that an item's key may be, as in protocol 47; the other
  packets round-trip.
\<close>

definition metadata_packets_775 :: "string list" where
  "metadata_packets_775 = [''PlayClientboundEntityMetadata'']"

definition sound_packet :: "string \<times> schema list \<Rightarrow> bool" where
  "sound_packet x \<longleftrightarrow> fst x \<in> set metadata_packets_775 \<or> sound_fields [] (snd x)"

lemma schemas_sound_775: "list_all sound_packet packet_schemas_775"
  unfolding packet_schemas_775_def list.pred_inject
  by (intro conjI TrueI; code_simp)

lemma sound_775:
  assumes "map_of packet_schemas_775 t = Some ss" "t \<notin> set metadata_packets_775"
  shows "sound_fields [] ss"
proof -
  from map_of_SomeD [OF assms(1)] schemas_sound_775 have "sound_packet (t, ss)"
    by (auto simp only: list_all_iff)
  with assms(2) show ?thesis by (simp add: sound_packet_def)
qed

end
