(* ===== verification/Session_V775.thy ===== *)
theory Session_V775
  imports Java_Session Packets_V775_Sound
begin

text \<open>
  generated/java/v26_1/protocol.go: the session of protocol 775 on its own tables, its transitions,
  disconnects and login roles, and the two contracts of Java_Session discharged for it.
\<close>

section \<open>The version\<close>

definition version_775 ::
    "(string \<Rightarrow> string \<Rightarrow> limits \<Rightarrow> bytes \<Rightarrow> field_value list result) \<Rightarrow>
     (string \<Rightarrow> limits \<Rightarrow> field_value list \<Rightarrow> bytes result) \<Rightarrow> version" where
  "version_775 dec enc =
     \<lparr>vn_states = [''handshaking'', ''status'', ''login'', ''configuration'', ''play''],
     vn_factories = packet_factories_775, vn_value_keys = packet_value_keys_775,
     vn_names = packet_names_775, vn_schemas = packet_schemas_775, vn_types = shared_types_775,
     vn_decode = dec, vn_encode = enc\<rparr>"

section \<open>Transitions, disconnects, roles\<close>

definition propose_transition_775 :: "java_session \<Rightarrow> protocol_packet \<Rightarrow> session_transition option result" where
  "propose_transition_775 s p = (case gp_value p of
     Known t vs \<Rightarrow>
       if t = ''HandshakingServerboundSetProtocol'' then propose_handshake s vs
       else if t = ''LoginServerboundLoginAcknowledged'' then to_state ''login'' s ''configuration''
       else if t = ''ConfigurationServerboundFinishConfiguration'' then to_state ''configuration'' s ''play''
       else if t = ''PlayServerboundConfigurationAcknowledged'' then to_state ''play'' s ''configuration''
       else if t = ''LoginClientboundCompress'' then to_compression ''login'' s vs
       else Inr None
   | _ \<Rightarrow> Inr None)"
definition disconnect_775 :: "java_session \<Rightarrow> bytes \<Rightarrow> protocol_packet option result" where
  "disconnect_775 s reason =
     (if js_role s \<noteq> role_server then Inr None
      else if js_state s = ''login'' then
        Inr (Some (disconnect_packet ''login'' s 0 ''LoginClientboundDisconnect'' (VBytes reason)))
      else if js_state s = ''configuration'' then
        bindR (new_network_nbt_text reason (js_limits s)) (\<lambda>component. Inr (Some
          (disconnect_packet ''configuration'' s 2 ''ConfigurationClientboundDisconnect'' (VBytes component))))
      else if js_state s = ''play'' then
        bindR (new_network_nbt_text reason (js_limits s)) (\<lambda>component. Inr (Some
          (disconnect_packet ''play'' s 32 ''PlayClientboundKickDisconnect'' (VBytes component))))
      else Inr None)"

definition login_roles_775 :: "(packet_key \<times> login_role) list" where
  "login_roles_775 = [
     ((''login'', clientbound, 1), EncryptionRequest),
     ((''login'', clientbound, 2), LoginSuccess),
     ((''login'', clientbound, 3), SetCompression),
     ((''login'', serverbound, 0), LoginStart),
     ((''login'', serverbound, 1), EncryptionResponse),
     ((''login'', serverbound, 3), LoginAcknowledged),
     ((''configuration'', clientbound, 3), ConfigurationFinished),
     ((''configuration'', clientbound, 14), KnownPacks),
     ((''configuration'', serverbound, 3), ConfigurationFinished),
     ((''configuration'', serverbound, 7), KnownPacks)]"

definition login_role_775 :: "string \<Rightarrow> byte \<Rightarrow> i32 \<Rightarrow> login_role option" where
  "login_role_775 st dir i = map_of login_roles_775 (st, dir, i)"

section \<open>The registry\<close>

text \<open>Keys of the tables ascend by state, direction and ID; the names are in another order of states.\<close>

lemma factories_ascend_775: "ascending (map
    (key_rank [''handshaking'', ''status'', ''login'', ''play'', ''configuration'']) (map fst packet_factories_775))"
  by code_simp

lemma names_ascend_775: "ascending (map
    (key_rank [''handshaking'', ''status'', ''login'', ''configuration'', ''play'']) (map fst packet_names_775))"
  by code_simp

lemma value_keys_swap_775: "packet_value_keys_775 = map (\<lambda>(key, t). (t, key)) packet_factories_775"
  by code_simp

lemma names_rotate_775:
  "map fst packet_names_775 = (let ks = map fst packet_factories_775
     in take 16 ks @ drop 226 ks @ take 210 (drop 16 ks))"
  by code_simp

lemma set_rotate: "set (take m xs @ drop (m + n) xs @ take n (drop m xs)) = set xs"
proof -
  have "xs = take m xs @ take n (drop m xs) @ drop (m + n) xs"
    by (metis append_take_drop_id drop_drop add.commute)
  then show ?thesis by (metis set_append Un_commute)
qed

lemma names_cover_775: "set (map fst packet_names_775) = set (map fst packet_factories_775)"
  unfolding names_rotate_775 Let_def using set_rotate [of 16 "map fst packet_factories_775" 210]
  by (simp only: add_numeral_special numeral_plus_numeral add_num_simps arith_simps)

lemma named_775:
  assumes "map_of packet_factories_775 key = Some t"
  shows "\<exists>name. map_of packet_names_775 key = Some name"
proof -
  from map_of_SomeD [OF assms] have "key \<in> set (map fst packet_factories_775)" by force
  then have "key \<in> set (map fst packet_names_775)" by (simp only: names_cover_775)
  then show ?thesis by (auto dest: weak_map_of_SomeI)
qed

lemma keys_distinct_775:
  "distinct (map fst packet_factories_775)" "distinct (map fst packet_names_775)"
  by (rule ascending_keys [OF factories_ascend_775], rule ascending_keys [OF names_ascend_775])

lemma version_775_tables [simp]:
  "vn_factories (version_775 dec enc) = packet_factories_775"
  "vn_value_keys (version_775 dec enc) = packet_value_keys_775"
  "vn_names (version_775 dec enc) = packet_names_775"
  "vn_schemas (version_775 dec enc) = packet_schemas_775"
  "vn_types (version_775 dec enc) = shared_types_775"
  by (simp_all add: version_775_def)

lemma keyed_775:
  "map_of packet_value_keys_775 t = Some key \<Longrightarrow> map_of packet_factories_775 key = Some t"
  unfolding value_keys_swap_775 by (rule map_of_swapped [OF keys_distinct_775(1)])

lemma secrets_775: "map_of packet_factories_775 key = Some t \<Longrightarrow> t \<in> set secret_types \<Longrightarrow> key \<in> set sensitive_frames"
proof -
  have "list_all (\<lambda>(key, t). t \<in> set secret_types \<longrightarrow> key \<in> set sensitive_frames) packet_factories_775" by code_simp
  then show "map_of packet_factories_775 key = Some t \<Longrightarrow> t \<in> set secret_types \<Longrightarrow> key \<in> set sensitive_frames"
    by (auto simp only: list_all_iff dest!: map_of_SomeD)
qed

interpretation registry_775: packet_registry "version_775 dec enc" "[]" metadata_packets_775
  by (unfold_locales, unfold version_775_tables)
    (erule keyed_775 named_775 | rule keys_distinct_775 types_sound_775 | erule (1) sound_775 secrets_775)+

section \<open>The state machine\<close>

definition moves_775 :: "(string \<times> string) list" where
  "moves_775 = [(''handshaking'', ''status''), (''handshaking'', ''login''), (''login'', ''configuration''),
     (''configuration'', ''play''), (''play'', ''configuration'')]"

interpretation machine_775: transition_rules "version_775 dec enc" propose_transition_775 moves_775
  by unfold_locales
    (auto simp: propose_transition_775_def proposals moves_775_def version_775_def
      split: packet_value.splits if_splits)

section \<open>Properties\<close>


definition no_codec :: "version" where
  "no_codec = version_775 (\<lambda>_ _ _ _. Inl ErrSession) (\<lambda>_ _ _. Inl ErrSession)"

definition greeting_775 :: protocol_packet where
  "greeting_775 = \<lparr>gp_state = ''handshaking'', gp_direction = serverbound, gp_id = 0, gp_name = [],
     gp_payload = [], gp_value = Known ''HandshakingServerboundSetProtocol''
       [V32 775, VBytes [104, 105], V16 25565, V32 2]\<rparr>"

definition made_775 :: java_session where
  "made_775 = \<lparr>js_limits = default_limits, js_role = role_client, js_state = ''handshaking'',
     js_inbound = clientbound, js_outbound = serverbound,
     js_compression = \<lparr>enabled = False, threshold = 0, policy = Some strict_compression\<rparr>\<rparr>"

definition accepted_775 :: java_session where
  "accepted_775 = made_775\<lparr>js_role := role_server, js_inbound := serverbound, js_outbound := clientbound\<rparr>"

lemma greeting_tables:
  "map_of packet_value_keys_775 ''HandshakingServerboundSetProtocol'' = Some (''handshaking'', serverbound, 0)"
  "map_of packet_factories_775 (''handshaking'', serverbound, 0) = Some ''HandshakingServerboundSetProtocol''"
  "map_of packet_schemas_775 ''HandshakingServerboundSetProtocol'' = Some handshaking_serverbound_set_protocol_775"
  unfolding packet_value_keys_775_def packet_factories_775_def packet_schemas_775_def
  by (simp_all only: map_of.simps fst_conv snd_conv fun_upd_same)

lemma greeting_body_775:
  "encode_body types handshaking_serverbound_set_protocol_775 default_limits
     [V32 775, VBytes [104, 105], V16 25565, V32 2] = Inr [135, 6, 2, 104, 105, 99, 221, 2]"
  "join_packet_body \<lparr>packet_id = 0, packet_payload = [135, 6, 2, 104, 105, 99, 221, 2]\<rparr> default_limits =
     Inr [0, 135, 6, 2, 104, 105, 99, 221, 2]"
  "encode_compression stored_deflate [0, 135, 6, 2, 104, 105, 99, 221, 2]
     \<lparr>enabled = False, threshold = 0, policy = Some strict_compression\<rparr> default_limits =
     Inr [0, 135, 6, 2, 104, 105, 99, 221, 2]"
  by code_simp+

lemma greeting_frame_775:
  "encode_frame stored_deflate no_codec made_775 greeting_775 = Inr [0, 135, 6, 2, 104, 105, 99, 221, 2]"
  by (simp add: encode_frame_def encode_packet_body_def encode_value_def greeting_tables greeting_body_775
      no_codec_def made_775_def greeting_775_def)

lemma greeting_listed: "''HandshakingServerboundSetProtocol'' \<in> fst ` set packet_schemas_775"
  using map_of_SomeD [OF greeting_tables(3)] by (rule rev_image_eqI) simp


text \<open>
  in protocol 775 play is entered from configuration only, which a session reaches from login and
  from play; after login a session never leaves the three, and status is final. Whatever packets
  cross, the state is one of the version's, an enabled compression has a nonnegative threshold, and
  the limits, the role, the directions and the policy stay as the session was made.
\<close>

theorem session_runs_775:
  assumes "new_session role lim = Inr s0" and "session_runs (version_775 dec enc) propose_transition_775 s0 s"
    and "session_runs (version_775 dec enc) propose_transition_775 s s'"
  shows "session_ok (version_775 dec enc) s' \<and> same_session s0 s' \<and>
    (js_state s \<in> {''play'', ''configuration''} \<longrightarrow> js_state s' \<in> {''play'', ''configuration''}) \<and>
    (js_state s = ''status'' \<longrightarrow> js_state s' = ''status'') \<and>
    (propose_transition_775 s p = Inr (Some tr) \<longrightarrow> tr_state tr = Some ''play'' \<longrightarrow>
      js_state s = ''configuration'' \<and> (\<exists>vs. gp_value p = Known ''ConfigurationServerboundFinishConfiguration'' vs))"
proof -
  from assms(1) have "session_ok (version_775 dec enc) s0"
    by (auto simp: new_session_Inr_iff session_ok_def version_775_def own_policy_def)
  with machine_775.run_ok [OF assms(2)] have s: "session_ok (version_775 dec enc) s" "same_session s0 s" by auto
  from machine_775.run_ok [OF assms(3) s(1)] s(2) have "session_ok (version_775 dec enc) s'" "same_session s0 s'"
    by (auto simp: same_session_def)
  moreover have "js_state s' \<in> S" if "js_state s \<in> S" "list_all (\<lambda>(from, st). from \<in> S \<longrightarrow> st \<in> S) moves_775" for S
    using machine_775.run_stays [OF assms(3) s(1) that(1)] that(2) by (auto simp: list_all_iff)
  from this [of "{''status''}"] this [of "{''play'', ''configuration''}"]
  have "js_state s \<in> {''play'', ''configuration''} \<longrightarrow> js_state s' \<in> {''play'', ''configuration''}"
    "js_state s = ''status'' \<longrightarrow> js_state s' = ''status''"
    by (auto simp: moves_775_def)
  moreover have "propose_transition_775 s p = Inr (Some tr) \<longrightarrow> tr_state tr = Some ''play'' \<longrightarrow>
      js_state s = ''configuration'' \<and> (\<exists>vs. gp_value p = Known ''ConfigurationServerboundFinishConfiguration'' vs)"
    by (auto simp: propose_transition_775_def proposals split: packet_value.splits if_splits)
  ultimately show ?thesis by blast
qed

lemma run_to_login_775:
  "session_runs no_codec propose_transition_775 made_775 (made_775\<lparr>js_state := ''login''\<rparr>)"
  using session_runs.commit [OF session_runs.start, of propose_transition_775 made_775
      "greeting_775"
      "\<lparr>tr_state = Some ''login'', tr_control = None\<rparr>" no_codec]
  by (simp add: propose_transition_775_def proposals made_775_def int_field_def wire_int_def greeting_775_def
      validate_transition_def validate_state_def no_codec_def version_775_def apply_transition_def)

lemma made_775: "new_session role_client default_limits = Inr made_775"
  unfolding new_session_Inr_iff made_775_def by (simp add: limits_okD(1) role_client_def)

theorem session_runs_775_witness:
  "session_ok no_codec (made_775\<lparr>js_state := ''login''\<rparr>) \<and>
   same_session made_775 (made_775\<lparr>js_state := ''login''\<rparr>)"
  using session_runs_775 [OF made_775 session_runs.start run_to_login_775 [unfolded no_codec_def]]
  by (simp add: no_codec_def)

end
