(* ===== verification/Java_Identity.thy ===== *)
theory Java_Identity
  imports Wire_Cipher Modified_UTF8
begin

unbundle bit_operations_syntax

text \<open>
  wire/java/identity.go, keyexchange.go, the key functions of encryption.go and OfflineUUID of
  login/acceptor.go: account names, UUIDs, the server hash and the RSA key exchange.

  Packages crypto/rsa, x509, sha1 and md5 are the fields of \<open>crypto\<close>; what the code relies on of
  them is \<open>crypto_laws\<close>. A UUID is a list of sixteen bytes, a Go string a list of bytes.
\<close>

section \<open>Hexadecimal\<close>

definition hex_digit :: "nat \<Rightarrow> byte" where
  "hex_digit n = (if n < 10 then of_nat (48 + n) else of_nat (87 + n))"

definition hex_value :: "byte \<Rightarrow> nat option" where
  "hex_value b =
     (if 48 \<le> b \<and> b \<le> 57 then Some (unat b - 48)
      else if 97 \<le> b \<and> b \<le> 102 then Some (unat b - 87)
      else if 65 \<le> b \<and> b \<le> 70 then Some (unat b - 55)
      else None)"

fun hex_encode :: "bytes \<Rightarrow> bytes" where
  "hex_encode [] = []"
| "hex_encode (b # bs) = hex_digit (unat b div 16) # hex_digit (unat b mod 16) # hex_encode bs"

fun hex_decode :: "bytes \<Rightarrow> bytes option" where
  "hex_decode [] = Some []"
| "hex_decode [x] = None"
| "hex_decode (x # y # s) = (case (hex_value x, hex_value y, hex_decode s) of
     (Some i, Some j, Some bs) \<Rightarrow> Some (of_nat (16 * i + j) # bs)
   | _ \<Rightarrow> None)"

text \<open>
  strings.ToLower on a byte. On a byte of a longer rune it has no effect here: neither the rune nor
  the one it is mapped to has a hexadecimal digit, so the string is refused either way.
\<close>

definition lower :: "byte \<Rightarrow> byte" where
  "lower b = (if 65 \<le> b \<and> b \<le> 90 then b + 32 else b)"

section \<open>UUIDs\<close>

definition dash :: byte where "dash = 45"

definition uuid_dash_positions :: "nat list" where
  "uuid_dash_positions = [8, 13, 18, 23]"

definition uuid_of_compact :: "bytes \<Rightarrow> bytes result" where
  "uuid_of_compact compact = (case hex_decode (map lower compact) of
     None \<Rightarrow> Inl ErrInvalidUUID
   | Some u \<Rightarrow> Inr u)"

definition parse_uuid :: "bytes \<Rightarrow> bytes result" where
  "parse_uuid t =
     (if length t = 32 then uuid_of_compact t
      else if length t = 36 then
        if list_ex (\<lambda>i. t ! i \<noteq> dash) uuid_dash_positions then Inl ErrInvalidUUID
        else let compact = filter (\<lambda>b. b \<noteq> dash) t in
          if length compact \<noteq> 32 then Inl ErrInvalidUUID else uuid_of_compact compact
      else Inl ErrInvalidUUID)"

definition uuid_string :: "bytes \<Rightarrow> bytes" where
  "uuid_string u = (let e = hex_encode u in
     take 8 e @ [dash] @ take 4 (drop 8 e) @ [dash] @ take 4 (drop 12 e) @ [dash] @
     take 4 (drop 16 e) @ [dash] @ take 12 (drop 20 e))"

definition uuid_is_zero :: "bytes \<Rightarrow> bool" where
  "uuid_is_zero u \<longleftrightarrow> u = replicate 16 0"

section \<open>Usernames\<close>

definition max_username_bytes :: nat where
  "max_username_bytes = 16"

text \<open>utf8.ValidString: no byte of the string is one that starts no rune.\<close>

function valid_utf8 :: "bytes \<Rightarrow> bool" where
  "valid_utf8 s = (if s = [] then True else
     case first_rune s of (point, width) \<Rightarrow>
       \<not> (point = 0xFFFD \<and> width = 1) \<and> valid_utf8 (drop width s))"
  by pat_completeness auto
termination
  by (relation "measure length") (auto simp: first_rune_def split: list.splits if_splits)

declare valid_utf8.simps [simp del]

definition is_control :: "i32 \<Rightarrow> bool" where
  "is_control p \<longleftrightarrow> p < 0x20 \<or> 0x7F \<le> p \<and> p < 0xA0"

definition parse_username :: "bytes \<Rightarrow> bytes result" where
  "parse_username t =
     (if t = [] then Inl ErrInvalidUsername
      else if max_username_bytes < length t then Inl ErrInvalidUsername
      else if \<not> valid_utf8 t then Inl ErrInvalidUsername
      else if list_ex is_control (go_runes t) then Inl ErrInvalidUsername
      else Inr t)"

section \<open>The server hash\<close>

fun hex_of_nat :: "nat \<Rightarrow> bytes" where
  "hex_of_nat n = (if n < 16 then [hex_digit n] else hex_of_nat (n div 16) @ [hex_digit (n mod 16)])"

declare hex_of_nat.simps [simp del]

text \<open>big.Int: SetBytes and Text(16).\<close>

definition set_bytes :: "bytes \<Rightarrow> int" where
  "set_bytes = foldl (\<lambda>n b. n * 256 + uint b) 0"

definition text16 :: "int \<Rightarrow> bytes" where
  "text16 i = (if i < 0 then dash # hex_of_nat (nat (- i)) else hex_of_nat (nat i))"

definition java_digest :: "bytes \<Rightarrow> bytes" where
  "java_digest digest =
     (if 0 < length digest \<and> digest ! 0 AND 0x80 \<noteq> 0
      then text16 (set_bytes digest - 2 ^ (length digest * 8))
      else text16 (set_bytes digest))"

section \<open>Keys\<close>

text \<open>
  The crypto packages: PKIX encoding and decoding (None for a key that is not RSA), PKCS #1 v1.5
  with the randomness it draws, and the two hashes.
\<close>

record ('priv, 'pub) crypto =
  marshal_pkix :: "'pub \<Rightarrow> bytes result"
  parse_pkix :: "bytes \<Rightarrow> 'pub option result"
  rsa_encrypt :: "bytes \<Rightarrow> 'pub \<Rightarrow> bytes \<Rightarrow> bytes result"
  rsa_decrypt :: "'priv \<Rightarrow> bytes \<Rightarrow> bytes result"
  public_half :: "'priv \<Rightarrow> 'pub"
  sha1_sum :: "bytes \<Rightarrow> bytes"
  md5_sum :: "bytes \<Rightarrow> bytes"

definition parse_server_public_key :: "('priv, 'pub) crypto \<Rightarrow> bytes \<Rightarrow> 'pub result" where
  "parse_server_public_key cr der =
     (if der = [] then Inl ErrInvalidServerKey
      else case parse_pkix cr der of
        Inl _ \<Rightarrow> Inl ErrInvalidServerKey
      | Inr None \<Rightarrow> Inl ErrInvalidServerKey
      | Inr (Some key) \<Rightarrow> Inr key)"

text \<open>A key is None where the Go pointer is nil.\<close>

definition encode_server_public_key :: "('priv, 'pub) crypto \<Rightarrow> 'pub option \<Rightarrow> bytes result" where
  "encode_server_public_key cr key = (case key of
     None \<Rightarrow> Inl ErrInvalidServerKey
   | Some k \<Rightarrow> (case marshal_pkix cr k of Inl _ \<Rightarrow> Inl ErrInvalidServerKey | Inr der \<Rightarrow> Inr der))"

definition encrypt_to_server_key ::
    "('priv, 'pub) crypto \<Rightarrow> bytes \<Rightarrow> 'pub option \<Rightarrow> bytes \<Rightarrow> bytes result" where
  "encrypt_to_server_key cr rand key plain = (case key of
     None \<Rightarrow> Inl ErrInvalidServerKey
   | Some k \<Rightarrow> rsa_encrypt cr rand k plain)"

definition decrypt_from_server_key ::
    "('priv, 'pub) crypto \<Rightarrow> 'priv option \<Rightarrow> bytes \<Rightarrow> bytes result" where
  "decrypt_from_server_key cr key cipher = (case key of
     None \<Rightarrow> Inl ErrInvalidServerKey
   | Some k \<Rightarrow> rsa_decrypt cr k cipher)"

definition compute_server_hash ::
    "('priv, 'pub) crypto \<Rightarrow> bytes \<Rightarrow> bytes \<Rightarrow> 'pub option \<Rightarrow> bytes result" where
  "compute_server_hash cr server_id secret key =
     bindR (encode_server_public_key cr key) (\<lambda>der.
       Inr (java_digest (sha1_sum cr (server_id @ reveal secret @ der))))"

definition decrypt_shared_secret ::
    "('priv, 'pub) crypto \<Rightarrow> 'priv option \<Rightarrow> bytes \<Rightarrow> bytes result" where
  "decrypt_shared_secret cr key cipher =
     bindR (decrypt_from_server_key cr key cipher) shared_secret_from"

definition verify_token ::
    "('priv, 'pub) crypto \<Rightarrow> 'priv option \<Rightarrow> bytes \<Rightarrow> bytes \<Rightarrow> unit result" where
  "verify_token cr key expected encrypted =
     bindR (decrypt_from_server_key cr key encrypted) (\<lambda>returned.
       if length expected = 0 \<or> length expected \<noteq> length returned then Inl ErrVerifyTokenMismatch
       else if expected \<noteq> returned then Inl ErrVerifyTokenMismatch
       else Inr ())"

text \<open>The bytes of OfflinePlayer and a colon, before the name.\<close>

definition offline_prefix :: bytes where
  "offline_prefix = [79, 102, 102, 108, 105, 110, 101, 80, 108, 97, 121, 101, 114, 58]"

definition offline_uuid :: "('priv, 'pub) crypto \<Rightarrow> bytes \<Rightarrow> bytes" where
  "offline_uuid cr name =
     (let digest = md5_sum cr (offline_prefix @ name);
          digest = digest[6 := (digest ! 6 AND 0x0F) OR 0x30]
      in digest[8 := (digest ! 8 AND 0x3F) OR 0x80])"

section \<open>Hexadecimal, there and back\<close>

lemma unat_hex_digit: "n < 16 \<Longrightarrow> unat (hex_digit n) = (if n < 10 then 48 + n else 87 + n)"
  by (simp add: hex_digit_def unat_of_nat del: of_nat_add of_nat_Suc of_nat_numeral)

lemma hex_value_digit: "n < 16 \<Longrightarrow> hex_value (hex_digit n) = Some n"
  by (auto simp: hex_value_def word_le_nat_alt unat_hex_digit)

lemma lower_digit: "n < 16 \<Longrightarrow> lower (hex_digit n) = hex_digit n"
  by (auto simp: lower_def word_le_nat_alt unat_hex_digit)

lemma hex_value_Some:
  assumes "hex_value b = Some n"
  shows "n < 16" "lower b = hex_digit n"
proof -
  show n: "n < 16"
    using assms by (auto simp: hex_value_def word_le_nat_alt split: if_splits)
  have "unat (lower b) = unat (hex_digit n)"
    unfolding unat_hex_digit [OF n]
    using assms by (auto simp: hex_value_def lower_def word_le_nat_alt unat_word_ariths split: if_splits)
  then show "lower b = hex_digit n" by (simp only: word_unat_eq_iff)
qed

lemma unat_div_16: "unat (b :: byte) div 16 < 16"
  using unsigned_less [where ?'a = nat, of b] by simp

lemma hex_decode_encode: "hex_decode (hex_encode u) = Some u"
proof (induction u)
  case (Cons b u)
  have "of_nat (16 * (unat b div 16) + unat b mod 16) = b"
    by (simp only: mult_div_mod_eq unsigned_of_nat of_nat_unat ucast_id)
  with Cons show ?case
    by (simp only: hex_encode.simps hex_decode.simps hex_value_digit [OF unat_div_16]
        hex_value_digit [OF mod_less_divisor [of 16]] prod.case option.case)
qed simp

lemma hex_decode_Some: "hex_decode s = Some u \<Longrightarrow> map lower s = hex_encode u"
proof (induction s arbitrary: u rule: hex_decode.induct)
  case (3 x y s)
  then obtain i j bs where v: "hex_value x = Some i" "hex_value y = Some j" "hex_decode s = Some bs"
    and u: "u = of_nat (16 * i + j) # bs" by (auto split: option.splits)
  from v(1,2) have ij: "i < 16" "j < 16" by (auto dest: hex_value_Some(1))
  then have "unat (of_nat (16 * i + j) :: byte) = 16 * i + j"
    by (simp add: unat_of_nat del: of_nat_add of_nat_mult of_nat_numeral)
  with ij have "unat (of_nat (16 * i + j) :: byte) div 16 = i" "unat (of_nat (16 * i + j) :: byte) mod 16 = j"
    by simp_all
  with "3.IH" [OF v(3)] hex_value_Some(2) [OF v(1)] hex_value_Some(2) [OF v(2)] show ?case
    by (simp add: u)
qed simp_all

lemma length_hex_encode [simp]: "length (hex_encode u) = 2 * length u"
  by (induction u) simp_all

lemma lower_hex_encode: "map lower (hex_encode u) = hex_encode u"
  by (induction u) (simp_all add: lower_digit unat_div_16)

lemma lower_lower [simp]: "lower (lower b) = lower b"
proof -
  have "\<not> (65 \<le> b + 32 \<and> b + 32 \<le> 90)" if "65 \<le> b" "b \<le> 90"
    using that by (simp add: word_le_nat_alt unat_word_ariths)
  then show ?thesis by (auto simp: lower_def)
qed

lemma uuid_of_compact_iff: "uuid_of_compact s = Inr u \<longleftrightarrow> map lower s = hex_encode u"
proof
  assume "uuid_of_compact s = Inr u"
  then show "map lower s = hex_encode u"
    by (auto simp: uuid_of_compact_def comp_def split: option.splits dest: hex_decode_Some)
next
  assume "map lower s = hex_encode u"
  then show "uuid_of_compact s = Inr u" by (simp add: uuid_of_compact_def hex_decode_encode)
qed

section \<open>Dashes\<close>

lemma digit_not_dash: "n < 16 \<Longrightarrow> hex_digit n \<noteq> dash"
  by (simp add: word_unat_eq_iff unat_hex_digit dash_def)

lemma lower_dash: "lower b = dash \<longleftrightarrow> b = dash"
proof -
  have "b + 32 \<noteq> 45" if "65 \<le> b" "b \<le> 90"
    using that by (auto simp: word_le_nat_alt word_unat_eq_iff unat_word_ariths)
  then show ?thesis by (auto simp: lower_def dash_def)
qed

lemma hex_encode_no_dash: "dash \<notin> set (hex_encode u)"
  using digit_not_dash [OF unat_div_16] digit_not_dash [OF mod_less_divisor [of 16]]
  by (induction u) (auto simp: eq_commute [of dash])

text \<open>A text with dashes at the four positions, cut at them.\<close>

lemma cut_at_dashes:
  assumes "length t = 36" "\<not> list_ex (\<lambda>i. t ! i \<noteq> dash) uuid_dash_positions"
  obtains a b c d e where "t = a @ dash # b @ dash # c @ dash # d @ dash # e"
    "length a = 8" "length b = 4" "length c = 4" "length d = 4" "length e = 12"
proof -
  from assms(2) have d: "t ! 8 = dash" "t ! 13 = dash" "t ! 18 = dash" "t ! 23 = dash"
    by (simp_all add: uuid_dash_positions_def)
  have cut: "drop i t = take n (drop i t) @ t ! (i + n) # drop (i + n + 1) t" if "i + n < 36" for i n
    using that assms(1) by (metis Suc_eq_plus1 append_take_drop_id Cons_nth_drop_Suc drop_drop add.commute)
  from cut [of 0 8] cut [of 9 4] cut [of 14 4] cut [of 19 4] d
  have "t = take 8 t @ dash # take 4 (drop 9 t) @ dash # take 4 (drop 14 t) @ dash # take 4 (drop 19 t) @ dash # drop 24 t"
    by simp
  then show ?thesis by (rule that) (simp_all add: assms(1))
qed

lemma filter_id_length: "length (filter P xs) = length xs \<longleftrightarrow> list_all P xs"
proof (induction xs)
  case (Cons x xs)
  have "length (filter P xs) \<noteq> Suc (length xs)"
    using length_filter_le [of P xs] by linarith
  with Cons show ?case by auto
qed simp

lemma without_dash: "dash \<notin> set a \<Longrightarrow> filter (\<lambda>b. b \<noteq> dash) a = a"
  by (induction a) auto

lemma filter_no_dash:
  assumes "length (filter (\<lambda>b. b \<noteq> dash) (a @ dash # b @ dash # c @ dash # d @ dash # e)) = 32"
    "length a = 8" "length b = 4" "length c = 4" "length d = 4" "length e = 12"
  shows "filter (\<lambda>b. b \<noteq> dash) (a @ dash # b @ dash # c @ dash # d @ dash # e) = a @ b @ c @ d @ e"
proof -
  note le = length_filter_le [of "\<lambda>b. b \<noteq> dash"]
  from assms le [of a] le [of b] le [of c] le [of d] le [of e] have
    "length (filter (\<lambda>b. b \<noteq> dash) a) = length a" "length (filter (\<lambda>b. b \<noteq> dash) b) = length b"
    "length (filter (\<lambda>b. b \<noteq> dash) c) = length c" "length (filter (\<lambda>b. b \<noteq> dash) d) = length d"
    "length (filter (\<lambda>b. b \<noteq> dash) e) = length e" by auto
  then show ?thesis by (simp add: filter_id_length list_all_iff filter_id_conv)
qed

lemma uuid_string_cut:
  assumes "hex_encode u = a @ b @ c @ d @ e"
    "length a = 8" "length b = 4" "length c = 4" "length d = 4" "length e = 12"
  shows "uuid_string u = a @ dash # b @ dash # c @ dash # d @ dash # e"
  using assms by (simp add: uuid_string_def Let_def)

lemma hex_encode_cut:
  assumes "length u = 16"
  obtains a b c d e where "hex_encode u = a @ b @ c @ d @ e"
    "length a = 8" "length b = 4" "length c = 4" "length d = 4" "length e = 12"
proof -
  let ?h = "hex_encode u"
  have cut: "drop i ?h = take n (drop i ?h) @ drop (i + n) ?h" for i n
    by (metis append_take_drop_id drop_drop add.commute)
  from cut [of 0 8] cut [of 8 4] cut [of 12 4] cut [of 16 4]
  have "?h = take 8 ?h @ take 4 (drop 8 ?h) @ take 4 (drop 12 ?h) @ take 4 (drop 16 ?h) @ drop 20 ?h"
    by simp
  then show ?thesis by (rule that) (simp_all add: assms)
qed

lemma parse_uuid_iff:
  assumes "length u = 16"
  shows "parse_uuid t = Inr u \<longleftrightarrow> map lower t = uuid_string u \<or> map lower t = hex_encode u"
proof
  assume p: "parse_uuid t = Inr u"
  show "map lower t = uuid_string u \<or> map lower t = hex_encode u"
  proof (cases "length t = 32")
    case True
    with p show ?thesis by (simp add: parse_uuid_def uuid_of_compact_iff)
  next
    case False
    with p have t: "length t = 36" "\<not> list_ex (\<lambda>i. t ! i \<noteq> dash) uuid_dash_positions"
      and f: "length (filter (\<lambda>b. b \<noteq> dash) t) = 32"
      and u: "uuid_of_compact (filter (\<lambda>b. b \<noteq> dash) t) = Inr u"
      by (auto simp: parse_uuid_def Let_def split: if_splits)
    from t obtain a b c d e where cut: "t = a @ dash # b @ dash # c @ dash # d @ dash # e"
      and len: "length a = 8" "length b = 4" "length c = 4" "length d = 4" "length e = 12"
      by (rule cut_at_dashes)
    from filter_no_dash [OF f [unfolded cut] len] have "filter (\<lambda>b. b \<noteq> dash) t = a @ b @ c @ d @ e"
      by (simp only: cut)
    from u [unfolded this uuid_of_compact_iff] have
      "hex_encode u = map lower a @ map lower b @ map lower c @ map lower d @ map lower e" by simp
    from uuid_string_cut [OF this] len lower_dash [of dash] show ?thesis by (simp add: cut)
  qed
next
  obtain a b c d e where h: "hex_encode u = a @ b @ c @ d @ e"
    and len: "length a = 8" "length b = 4" "length c = 4" "length d = 4" "length e = 12"
    using assms by (rule hex_encode_cut)
  assume "map lower t = uuid_string u \<or> map lower t = hex_encode u"
  then show "parse_uuid t = Inr u"
  proof
    assume "map lower t = hex_encode u"
    moreover from this have "length t = 32" using assms by (metis length_hex_encode length_map mult_numeral_1_right numeral_times_numeral semiring_norm)
    ultimately show ?thesis by (simp add: parse_uuid_def uuid_of_compact_iff)
  next
    assume s: "map lower t = uuid_string u"
    then have s': "map lower t = a @ dash # b @ dash # c @ dash # d @ dash # e"
      by (simp add: uuid_string_cut [OF h len])
    from arg_cong [OF this, of length] len have t: "length t = 36" by simp
    have at: "t ! i = dash \<longleftrightarrow> map lower t ! i = dash" if "i < 36" for i
      using that t by (simp add: lower_dash)
    have dashes: "\<not> list_ex (\<lambda>i. t ! i \<noteq> dash) uuid_dash_positions"
      using len by (simp add: uuid_dash_positions_def at s' nth_append)
    have "map lower (filter (\<lambda>b. b \<noteq> dash) t) = filter (\<lambda>b. b \<noteq> dash) (map lower t)"
      by (simp add: filter_map comp_def lower_dash)
    also have "\<dots> = hex_encode u"
      using hex_encode_no_dash [of u] h by (simp add: s' without_dash)
    finally have "uuid_of_compact (filter (\<lambda>b. b \<noteq> dash) t) = Inr u"
      "length (filter (\<lambda>b. b \<noteq> dash) t) = 32"
      using assms by (auto simp: uuid_of_compact_iff dest: arg_cong [of _ _ length])
    with t dashes show ?thesis by (simp add: parse_uuid_def Let_def)
  qed
qed

lemma lower_uuid_string: "map lower (uuid_string u) = uuid_string u"
  by (simp add: uuid_string_def Let_def take_map [symmetric] drop_map [symmetric] lower_hex_encode lower_dash)

section \<open>Names\<close>

lemma tail_byte:
  "in_bytes 0x80 hi b \<Longrightarrow> 0x80 \<le> b" "in_bytes 0xA0 hi b \<Longrightarrow> 0x80 \<le> b"
  "in_bytes 0x90 hi b \<Longrightarrow> 0x80 \<le> b" "continuation b \<Longrightarrow> 0x80 \<le> b"
  by (auto simp: in_bytes_def continuation_def word_le_nat_alt)

lemma first_rune_high:
  assumes "first_rune (c # t) = (p, w)" "\<not> c < 0x80" "\<not> (p = 0xFFFD \<and> w = 1)"
  shows "w - 1 \<le> length t \<and> (\<forall>i < w - 1. 0x80 \<le> t ! i)"
proof -
  from assms consider (2) "w = 2" "1 \<le> length t" "continuation (t ! 0)"
    | (3) "w = 3" "2 \<le> length t" "0x80 \<le> t ! 0" "continuation (t ! 1)"
    | (4) "w = 4" "3 \<le> length t" "0x80 \<le> t ! 0" "continuation (t ! 1)" "continuation (t ! 2)"
    unfolding first_rune_def list.case by (auto split: if_split_asm dest: tail_byte)
  then show ?thesis
  proof cases
    case 2
    then show ?thesis by (simp add: tail_byte)
  next
    case 3
    then show ?thesis by (simp add: tail_byte less_2_cases_iff)
  next
    case 4
    then show ?thesis by (auto simp: eval_nat_numeral less_Suc_eq tail_byte)
  qed
qed

lemma valid_runes:
  assumes "valid_utf8 s" "\<not> list_ex is_control (go_runes s)" "b \<in> set s"
  shows "32 \<le> b \<and> b \<noteq> 127"
  using assms
proof (induction s rule: valid_utf8.induct)
  case (1 s)
  from "1.prems"(3) obtain c t where s: "s = c # t" by (cases s) auto
  then have ne: "s \<noteq> []" by simp
  obtain point width where f: "first_rune s = (point, width)" by fastforce
  from "1.prems"(1) have v: "\<not> (point = 0xFFFD \<and> width = 1)" "valid_utf8 (drop width s)"
    by (subst (asm) valid_utf8.simps, simp add: ne f)+
  from "1.prems"(2) have c: "\<not> is_control point" "\<not> list_ex is_control (go_runes (drop width s))"
    by (subst (asm) go_runes.simps, simp add: ne f)+
  have ascii: "32 \<le> x \<and> x \<noteq> 127" if "\<not> is_control (ucast x)" for x :: byte
  proof -
    have "uint x < 256" using uint_lt2p [of x] by simp
    then have "uint (ucast x :: i32) = uint x" by (simp add: uint_up_ucast is_up)
    with that show ?thesis by (auto simp: is_control_def word_le_def word_less_def word_uint_eq_iff)
  qed
  have high: "32 \<le> x \<and> x \<noteq> 127" if "0x80 \<le> x" for x :: byte
    using that by (auto simp: word_le_nat_alt)
  have "\<forall>x \<in> set (take width s). 32 \<le> x \<and> x \<noteq> 127"
  proof (cases "c < 0x80")
    case True
    with f s have "point = ucast c" "width = 1" by (auto simp: first_rune_def)
    with c(1) ascii [of c] s show ?thesis by simp
  next
    case False
    have "\<forall>x \<in> set (take (width - 1) t). 0x80 \<le> x"
      using first_rune_high [OF f [unfolded s] False v(1)] by (auto simp: in_set_conv_nth)
    moreover have "0x80 \<le> c" using False by simp
    moreover have "set (take width s) \<subseteq> insert c (set (take (width - 1) t))"
      by (cases width) (simp_all add: s)
    ultimately have "\<forall>x \<in> set (take width s). 0x80 \<le> x" by blast
    with high show ?thesis by blast
  qed
  moreover have "32 \<le> b \<and> b \<noteq> 127" if "b \<in> set (drop width s)"
    using "1.IH" ne f v c that by simp
  moreover have "b \<in> set (take width s) \<union> set (drop width s)"
    using "1.prems"(3) by (metis append_take_drop_id set_append)
  ultimately show ?case by blast
qed

section \<open>The digest\<close>

fun hex_nat :: "bytes \<Rightarrow> nat" where
  "hex_nat s = foldl (\<lambda>n b. 16 * n + the (hex_value b)) 0 s"

lemma hex_of_nat_back: "foldl (\<lambda>n b. 16 * n + the (hex_value b)) 0 (hex_of_nat n) = n"
proof (induction n rule: hex_of_nat.induct)
  case (1 n)
  then show ?case
    by (subst hex_of_nat.simps) (simp add: hex_value_digit)
qed

lemma hex_of_nat_inj: "hex_of_nat m = hex_of_nat n \<Longrightarrow> m = n"
  by (metis hex_of_nat_back)

lemma hex_of_nat_no_dash: "dash \<notin> set (hex_of_nat n)"
proof (induction n rule: hex_of_nat.induct)
  case (1 n)
  have "dash \<noteq> hex_digit n" if "n < 16" using digit_not_dash [OF that] by simp
  moreover have "dash \<noteq> hex_digit (n mod 16)" using digit_not_dash [of "n mod 16"] by simp
  ultimately show ?case
    using 1 by (subst hex_of_nat.simps) simp
qed

lemma signed_text_inj:
  assumes "(if i < 0 then dash # hex_of_nat (nat (- i)) else hex_of_nat (nat i)) =
    (if j < 0 then dash # hex_of_nat (nat (- j)) else hex_of_nat (nat j))"
  shows "i = j"
proof (cases "i < 0"; cases "j < 0")
  assume s: "i < 0" "j < 0"
  with assms have "hex_of_nat (nat (- i)) = hex_of_nat (nat (- j))" by simp
  from hex_of_nat_inj [OF this] s show "i = j" by linarith
next
  assume s: "i < 0" "\<not> j < 0"
  with assms have "dash # hex_of_nat (nat (- i)) = hex_of_nat (nat j)" by simp
  from arg_cong [OF this, of set] hex_of_nat_no_dash [of "nat j"] show "i = j" by (metis list.set_intros(1))
next
  assume s: "\<not> i < 0" "j < 0"
  with assms have "dash # hex_of_nat (nat (- j)) = hex_of_nat (nat i)" by simp
  from arg_cong [OF this, of set] hex_of_nat_no_dash [of "nat i"] show "i = j" by (metis list.set_intros(1))
next
  assume s: "\<not> i < 0" "\<not> j < 0"
  with assms have "hex_of_nat (nat i) = hex_of_nat (nat j)" by simp
  from hex_of_nat_inj [OF this] s show "i = j" by linarith
qed

lemma text16_inj: "text16 i = text16 j \<Longrightarrow> i = j"
  unfolding text16_def by (rule signed_text_inj)

lemma set_bytes_append: "set_bytes (xs @ [b]) = set_bytes xs * 256 + uint b"
  by (simp add: set_bytes_def)

lemma set_bytes_bounds: "0 \<le> set_bytes xs \<and> set_bytes xs < 2 ^ (length xs * 8)"
proof (induction xs rule: rev_induct)
  case (snoc b xs)
  then have "set_bytes xs * 256 + uint b < 2 ^ (length xs * 8) * 256"
    using uint_lt2p [of b] by simp
  with snoc show ?case by (simp add: set_bytes_append power_add)
qed (simp add: set_bytes_def)

lemma set_bytes_inj: "length xs = length ys \<Longrightarrow> set_bytes xs = set_bytes ys \<Longrightarrow> xs = ys"
proof (induction xs arbitrary: ys rule: rev_induct)
  case (snoc b xs)
  from snoc.prems(1) obtain zs c where ys: "ys = zs @ [c]" by (cases ys rule: rev_cases) auto
  with snoc.prems(2) have eq: "set_bytes xs * 256 + uint b = set_bytes zs * 256 + uint c"
    by (simp add: set_bytes_append)
  have "0 \<le> uint b" "uint b < 256" "0 \<le> uint c" "uint c < 256"
    using uint_lt2p [of b] uint_lt2p [of c] by simp_all
  then have "uint b = uint c" "set_bytes xs = set_bytes zs"
    using arg_cong [OF eq, of "\<lambda>n. n mod 256"] arg_cong [OF eq, of "\<lambda>n. n div 256"] by simp_all
  with snoc ys show ?case by (simp add: word_uint_eq_iff)
qed simp

text \<open>What the code relies on of the crypto packages: decoding and decryption undo the other side.\<close>

definition crypto_laws :: "('priv, 'pub) crypto \<Rightarrow> bool" where
  "crypto_laws cr \<longleftrightarrow>
     (\<forall>k der. marshal_pkix cr k = Inr der \<longrightarrow> der \<noteq> [] \<and> parse_pkix cr der = Inr (Some k)) \<and>
     (\<forall>rand k m c. rsa_encrypt cr rand (public_half cr k) m = Inr c \<longrightarrow> rsa_decrypt cr k c = Inr m) \<and>
     (\<forall>m. length (sha1_sum cr m) = 20) \<and> (\<forall>m. length (md5_sum cr m) = 16)"

lemma java_digest_inj:
  assumes "length a = length b" "java_digest a = java_digest b"
  shows "a = b"
proof -
  have neg: "set_bytes xs - 2 ^ (length xs * 8) < 0" "0 \<le> set_bytes xs" for xs
    using set_bytes_bounds [of xs] by simp_all
  have "set_bytes a = set_bytes b"
    using assms(2) neg [of a] neg [of b]
    by (auto simp: java_digest_def assms(1) split: if_splits dest!: text16_inj)
  with assms(1) show ?thesis by (rule set_bytes_inj)
qed

lemma length_offline_uuid [simp]: "crypto_laws cr \<Longrightarrow> length (offline_uuid cr name) = 16"
  by (simp add: offline_uuid_def Let_def crypto_laws_def)

lemma offline_uuid_version:
  assumes "crypto_laws cr"
  shows "offline_uuid cr name ! 6 AND 0xF0 = 0x30"
proof -
  have "(b AND 0x0F OR 0x30) AND 0xF0 = (0x30 :: byte)" for b
    by (simp only: bit.conj_disj_distrib2 and.assoc) simp
  with assms show ?thesis by (simp add: offline_uuid_def Let_def crypto_laws_def)
qed

lemma offline_uuid_nonzero: "crypto_laws cr \<Longrightarrow> \<not> uuid_is_zero (offline_uuid cr name)"
  using offline_uuid_version [of cr name] by (auto simp: uuid_is_zero_def)

section \<open>Properties\<close>

text \<open>
  C38: \<open>ParseUUID\<close> reads exactly two texts of each UUID, up to the case of their letters: the one
  that \<open>String\<close> writes, and the same without its dashes. Every other text of any length is refused
  with \<open>ErrInvalidUUID\<close>, and the UUID of each player without an account has its text read back.
\<close>

theorem parse_uuid_exact:
  assumes "length u = 16"
  shows "(parse_uuid t = Inr u \<longleftrightarrow> map lower t = uuid_string u \<or> map lower t = hex_encode u) \<and>
    parse_uuid (uuid_string u) = Inr u \<and> (parse_uuid t = Inl e \<longrightarrow> e = ErrInvalidUUID)"
  using parse_uuid_iff [OF assms] lower_uuid_string
  by (auto simp: parse_uuid_def uuid_of_compact_def Let_def split: if_splits option.splits)

theorem parse_uuid_exact_witness:
  "parse_uuid (uuid_string [0, 17, 34, 51, 68, 85, 102, 119, 136, 153, 170, 187, 204, 221, 238, 255]) =
     Inr [0, 17, 34, 51, 68, 85, 102, 119, 136, 153, 170, 187, 204, 221, 238, 255]"
  using parse_uuid_exact [of "[0, 17, 34, 51, 68, 85, 102, 119, 136, 153, 170, 187, 204, 221, 238, 255]"]
  by simp

text \<open>
  a name that \<open>ParseUsername\<close> accepts is the text it was given, of one to sixteen bytes, and none of its bytes is
  a control character of ASCII, although the code looks at runes: no name breaks a line of a log
  or ends a C string.
\<close>

theorem username_safe:
  assumes "parse_username t = Inr name"
  shows "name = t \<and> 1 \<le> length name \<and> length name \<le> 16 \<and> list_all (\<lambda>b. 32 \<le> b \<and> b \<noteq> 127) name"
  using assms valid_runes
  by (auto simp: parse_username_def max_username_bytes_def list_all_iff Suc_le_eq split: if_splits)

theorem username_safe_witness:
  "list_all (\<lambda>b. 32 \<le> b \<and> b \<noteq> 127) [78, 195, 169, 95, 49 :: byte]"
proof -
  have "parse_username [78, 195, 169, 95, 49] = Inr [78, 195, 169, 95, 49]" by code_simp
  from username_safe [OF this] show ?thesis by blast
qed


text \<open>A crypto package in which a ciphertext is the plaintext behind the key's byte.\<close>

definition plain_crypto :: "(byte, byte) crypto" where
  "plain_crypto = \<lparr>marshal_pkix = (\<lambda>k. Inr [k]),
     parse_pkix = (\<lambda>der. case der of [k] \<Rightarrow> Inr (Some k) | _ \<Rightarrow> Inl CryptoError),
     rsa_encrypt = (\<lambda>rand k m. Inr (k # m)),
     rsa_decrypt = (\<lambda>k c. case c of x # m \<Rightarrow> if x = k then Inr m else Inl CryptoError | [] \<Rightarrow> Inl CryptoError),
     public_half = (\<lambda>k. k), sha1_sum = (\<lambda>m. take 20 (m @ replicate 20 0)),
     md5_sum = (\<lambda>m. take 16 (m @ replicate 16 0))\<rparr>"

lemma plain_crypto_laws: "crypto_laws plain_crypto"
  by (auto simp: crypto_laws_def plain_crypto_def min_def)


end
