(* ===== verification/Login_Exchange.thy ===== *)
theory Login_Exchange
  imports Session_V47 Session_V775 Java_Identity
begin

unbundle bit_operations_syntax

text \<open>
  login_exchange.go and the login_exchange.go of both versions: the packets of a login, built and
  read. An exchange is the record of its functions, one instance a version; \<open>login_contract\<close> states what the
  two halves of a login rely on, and each version is an interpretation of it.

  strconv.Quote is defined for ASCII and takes the table of printable runes of package unicode as
  an argument. A Go string is a list of bytes.
\<close>

section \<open>Quoting\<close>

text \<open>The escapes of \<open>%q\<close>: a rune, and the bytes it was read from.\<close>

definition hex_digits :: "nat \<Rightarrow> nat \<Rightarrow> bytes" where
  "hex_digits n v = map (\<lambda>i. hex_digit (v div 16 ^ i mod 16)) (rev [0..<n])"

definition quote_rune :: "(i32 \<Rightarrow> bool) \<Rightarrow> i32 \<Rightarrow> bytes \<Rightarrow> bytes" where
  "quote_rune is_print r raw =
     (if r = 0xFFFD \<and> length raw = 1 then [92, 120] @ hex_digits 2 (unat (raw ! 0))
      else if r = 34 \<or> r = 92 then 92 # raw
      else if r < 0x80 \<and> 32 \<le> r \<and> r \<noteq> 0x7F \<or> 0x80 \<le> r \<and> is_print r then raw
      else if r = 7 then [92, 97]
      else if r = 8 then [92, 98]
      else if r = 12 then [92, 102]
      else if r = 10 then [92, 110]
      else if r = 13 then [92, 114]
      else if r = 9 then [92, 116]
      else if r = 11 then [92, 118]
      else if r < 32 \<or> r = 0x7F then [92, 120] @ hex_digits 2 (unat r)
      else if r < 0x10000 then [92, 117] @ hex_digits 4 (unat r)
      else [92, 85] @ hex_digits 8 (unat r))"

function quote_body :: "(i32 \<Rightarrow> bool) \<Rightarrow> bytes \<Rightarrow> bytes" where
  "quote_body is_print s = (if s = [] then [] else
     case first_rune s of (point, width) \<Rightarrow>
       quote_rune is_print point (take width s) @ quote_body is_print (drop width s))"
  by pat_completeness auto
termination
  by (relation "measure (\<lambda>(_, s). length s)") (auto simp: first_rune_def split: list.splits if_splits)

declare quote_body.simps [simp del]

definition quoted :: "(i32 \<Rightarrow> bool) \<Rightarrow> bytes \<Rightarrow> bytes" where
  "quoted is_print s = 34 # quote_body is_print s @ [34]"

text \<open>The JSON text component of a reason: an object whose one key is text.\<close>

definition text_component :: "(i32 \<Rightarrow> bool) \<Rightarrow> bytes \<Rightarrow> bytes" where
  "text_component is_print reason =
     [123] @ quoted is_print [116, 101, 120, 116] @ [58] @ quoted is_print reason @ [125]"

section \<open>The exchange\<close>

record login_identity =
  li_username :: bytes
  li_uuid :: bytes

record encryption_request =
  er_server_id :: bytes
  er_public_key :: bytes
  er_verify_token :: bytes
  er_authenticate :: bool

record login_exchange =
  le_start :: "login_identity \<Rightarrow> protocol_packet result"
  le_read_request :: "protocol_packet \<Rightarrow> encryption_request result"
  le_write_response :: "bytes \<Rightarrow> bytes \<Rightarrow> protocol_packet result"
  le_read_success :: "protocol_packet \<Rightarrow> login_identity result"
  le_answer :: "login_role \<Rightarrow> protocol_packet option"
  le_disconnect_reason :: "protocol_packet \<Rightarrow> bytes option"
  le_read_start :: "protocol_packet \<Rightarrow> login_identity result"
  le_write_request :: "encryption_request \<Rightarrow> protocol_packet result"
  le_read_response :: "protocol_packet \<Rightarrow> (bytes \<times> bytes) result"
  le_write_compression :: "i32 \<Rightarrow> protocol_packet option"
  le_write_success :: "login_identity \<Rightarrow> protocol_packet result"
  le_write_disconnect :: "bytes \<Rightarrow> protocol_packet result"
  le_announce :: "login_role \<Rightarrow> protocol_packet option"

definition built :: "string \<Rightarrow> byte \<Rightarrow> i32 \<Rightarrow> string \<Rightarrow> field_value list \<Rightarrow> protocol_packet" where
  "built st dir i t vs = \<lparr>gp_state = st, gp_direction = dir, gp_id = i, gp_name = [],
     gp_payload = [], gp_value = Known t vs\<rparr>"

text \<open>The type assertion on \<open>packet.Value\<close>, and the fields of a struct of bytes.\<close>

definition value_of :: "string \<Rightarrow> protocol_packet \<Rightarrow> field_value list option" where
  "value_of t p = (case gp_value p of Known t' vs \<Rightarrow> if t' = t then Some vs else None | _ \<Rightarrow> None)"

definition bytes_field :: "nat \<Rightarrow> field_value list \<Rightarrow> bytes" where
  "bytes_field i vs = (if i < length vs then (case vs ! i of VBytes b \<Rightarrow> b | _ \<Rightarrow> []) else [])"

definition bool_field :: "nat \<Rightarrow> field_value list \<Rightarrow> bool" where
  "bool_field i vs \<longleftrightarrow> i < length vs \<and> vs ! i = VBool True"

definition expect :: "string \<Rightarrow> protocol_packet \<Rightarrow> (field_value list \<Rightarrow> 'a) \<Rightarrow> 'a result" where
  "expect t p f = (case value_of t p of None \<Rightarrow> Inl ErrSession | Some vs \<Rightarrow> Inr (f vs))"

lemma value_of_built [simp]: "value_of t (built st dir i t' vs) = (if t' = t then Some vs else None)"
  by (simp add: value_of_def built_def)

lemma bytes_field_simps [simp]:
  "bytes_field 0 (VBytes b # vs) = b" "bytes_field (Suc i) (v # vs) = bytes_field i vs"
  by (simp_all add: bytes_field_def)

text \<open>The packets both versions build alike.\<close>

definition write_response :: "bytes \<Rightarrow> bytes \<Rightarrow> protocol_packet result" where
  "write_response secret token = Inr (built ''login'' serverbound 1 ''LoginServerboundEncryptionBegin''
     [VBytes secret, VBytes token])"

definition read_response :: "protocol_packet \<Rightarrow> (bytes \<times> bytes) result" where
  "read_response p = expect ''LoginServerboundEncryptionBegin'' p
     (\<lambda>vs. (bytes_field 0 vs, bytes_field 1 vs))"

definition write_set_compression :: "i32 \<Rightarrow> protocol_packet option" where
  "write_set_compression n = Some (built ''login'' clientbound 3 ''LoginClientboundCompress'' [V32 n])"

definition write_login_disconnect :: "(i32 \<Rightarrow> bool) \<Rightarrow> bytes \<Rightarrow> protocol_packet result" where
  "write_login_disconnect is_print reason = Inr (built ''login'' clientbound 0 ''LoginClientboundDisconnect''
     [VBytes (text_component is_print reason)])"

section \<open>Protocol 47\<close>

definition start_login_47 :: "login_identity \<Rightarrow> protocol_packet result" where
  "start_login_47 w = Inr (built ''login'' serverbound 0 ''LoginServerboundLoginStart'' [VBytes (li_username w)])"

definition read_request_47 :: "protocol_packet \<Rightarrow> encryption_request result" where
  "read_request_47 p = expect ''LoginClientboundEncryptionBegin'' p (\<lambda>vs.
     \<lparr>er_server_id = bytes_field 0 vs, er_public_key = bytes_field 1 vs,
       er_verify_token = bytes_field 2 vs, er_authenticate = True\<rparr>)"

definition write_request_47 :: "encryption_request \<Rightarrow> protocol_packet result" where
  "write_request_47 r = Inr (built ''login'' clientbound 1 ''LoginClientboundEncryptionBegin''
     [VBytes (er_server_id r), VBytes (er_public_key r), VBytes (er_verify_token r)])"

definition read_success_47 :: "protocol_packet \<Rightarrow> login_identity result" where
  "read_success_47 p = expect ''LoginClientboundSuccess'' p (\<lambda>vs.
     \<lparr>li_username = bytes_field 1 vs, li_uuid = bytes_field 0 vs\<rparr>)"

definition write_success_47 :: "login_identity \<Rightarrow> protocol_packet result" where
  "write_success_47 w = Inr (built ''login'' clientbound 2 ''LoginClientboundSuccess''
     [VBytes (li_uuid w), VBytes (li_username w)])"

definition read_start_47 :: "protocol_packet \<Rightarrow> login_identity result" where
  "read_start_47 p = expect ''LoginServerboundLoginStart'' p (\<lambda>vs.
     \<lparr>li_username = bytes_field 0 vs, li_uuid = []\<rparr>)"

definition disconnect_reason_47 :: "protocol_packet \<Rightarrow> bytes option" where
  "disconnect_reason_47 p = map_option (bytes_field 0) (value_of ''LoginClientboundDisconnect'' p)"

definition no_step :: "login_role \<Rightarrow> protocol_packet option" where
  "no_step r = None"

definition exchange_47 :: "(i32 \<Rightarrow> bool) \<Rightarrow> login_exchange" where
  "exchange_47 is_print = \<lparr>le_start = start_login_47, le_read_request = read_request_47,
     le_write_response = write_response, le_read_success = read_success_47, le_answer = no_step,
     le_disconnect_reason = disconnect_reason_47, le_read_start = read_start_47,
     le_write_request = write_request_47, le_read_response = read_response,
     le_write_compression = write_set_compression, le_write_success = write_success_47,
     le_write_disconnect = write_login_disconnect is_print, le_announce = no_step\<rparr>"

section \<open>Protocol 775\<close>

definition start_login_775 :: "login_identity \<Rightarrow> protocol_packet result" where
  "start_login_775 w = bindR (if li_uuid w \<noteq> [] then parse_uuid (li_uuid w) else Inr (replicate 16 0)) (\<lambda>u.
     Inr (built ''login'' serverbound 0 ''LoginServerboundLoginStart'' [VBytes (li_username w), VBytes u]))"

definition read_request_775 :: "protocol_packet \<Rightarrow> encryption_request result" where
  "read_request_775 p = expect ''LoginClientboundEncryptionBegin'' p (\<lambda>vs.
     \<lparr>er_server_id = bytes_field 0 vs, er_public_key = bytes_field 1 vs,
       er_verify_token = bytes_field 2 vs, er_authenticate = bool_field 3 vs\<rparr>)"

definition write_request_775 :: "encryption_request \<Rightarrow> protocol_packet result" where
  "write_request_775 r = Inr (built ''login'' clientbound 1 ''LoginClientboundEncryptionBegin''
     [VBytes (er_server_id r), VBytes (er_public_key r), VBytes (er_verify_token r), VBool (er_authenticate r)])"

definition identity_of :: "bytes \<Rightarrow> bytes \<Rightarrow> login_identity" where
  "identity_of name u = \<lparr>li_username = name, li_uuid = (if uuid_is_zero u then [] else uuid_string u)\<rparr>"

definition read_success_775 :: "protocol_packet \<Rightarrow> login_identity result" where
  "read_success_775 p = expect ''LoginClientboundSuccess'' p (\<lambda>vs.
     identity_of (bytes_field 1 vs) (bytes_field 0 vs))"

definition write_success_775 :: "login_identity \<Rightarrow> protocol_packet result" where
  "write_success_775 w = bindR (parse_uuid (li_uuid w)) (\<lambda>u.
     Inr (built ''login'' clientbound 2 ''LoginClientboundSuccess''
       [VBytes u, VBytes (li_username w), VItems []]))"

definition read_start_775 :: "protocol_packet \<Rightarrow> login_identity result" where
  "read_start_775 p = expect ''LoginServerboundLoginStart'' p (\<lambda>vs.
     identity_of (bytes_field 0 vs) (bytes_field 1 vs))"

definition answer_775 :: "login_role \<Rightarrow> protocol_packet option" where
  "answer_775 r = (case r of
     LoginAcknowledged \<Rightarrow> Some (built ''login'' serverbound 3 ''LoginServerboundLoginAcknowledged'' [])
   | KnownPacks \<Rightarrow> Some (built ''configuration'' serverbound 7 ''ConfigurationServerboundSelectKnownPacks'' [VItems []])
   | ConfigurationFinished \<Rightarrow>
       Some (built ''configuration'' serverbound 3 ''ConfigurationServerboundFinishConfiguration'' [])
   | _ \<Rightarrow> None)"

definition announce_775 :: "login_role \<Rightarrow> protocol_packet option" where
  "announce_775 r = (case r of
     ConfigurationFinished \<Rightarrow>
       Some (built ''configuration'' clientbound 3 ''ConfigurationClientboundFinishConfiguration'' [])
   | _ \<Rightarrow> None)"

definition disconnect_reason_775 :: "protocol_packet \<Rightarrow> bytes option" where
  "disconnect_reason_775 p = (case value_of ''LoginClientboundDisconnect'' p of
     Some vs \<Rightarrow> Some (bytes_field 0 vs)
   | None \<Rightarrow> if value_of ''ConfigurationClientboundDisconnect'' p \<noteq> None then Some [] else None)"

definition exchange_775 :: "(i32 \<Rightarrow> bool) \<Rightarrow> login_exchange" where
  "exchange_775 is_print = \<lparr>le_start = start_login_775, le_read_request = read_request_775,
     le_write_response = write_response, le_read_success = read_success_775, le_answer = answer_775,
     le_disconnect_reason = disconnect_reason_775, le_read_start = read_start_775,
     le_write_request = write_request_775, le_read_response = read_response,
     le_write_compression = write_set_compression, le_write_success = write_success_775,
     le_write_disconnect = write_login_disconnect is_print, le_announce = announce_775\<rparr>"

section \<open>What both halves of a login rely on\<close>

text \<open>
  Each packet an exchange builds plays the part its name says, is read back by the other half, and
  is not taken for a disconnect.
\<close>

definition role_of :: "(string \<Rightarrow> byte \<Rightarrow> i32 \<Rightarrow> login_role option) \<Rightarrow> protocol_packet \<Rightarrow> login_role option" where
  "role_of roles p = roles (gp_state p) (gp_direction p) (gp_id p)"

locale login_contract =
  fixes ex :: login_exchange and roles :: "string \<Rightarrow> byte \<Rightarrow> i32 \<Rightarrow> login_role option"
  assumes start_read: "le_start ex w = Inr p \<Longrightarrow> role_of roles p = Some LoginStart \<and>
      (\<exists>v. le_read_start ex p = Inr v \<and> li_username v = li_username w)"
    and request_read: "le_write_request ex q = Inr p \<Longrightarrow> er_authenticate q \<Longrightarrow>
      role_of roles p = Some EncryptionRequest \<and> le_read_request ex p = Inr q \<and> le_disconnect_reason ex p = None"
    and response_read: "le_write_response ex a b = Inr p \<Longrightarrow>
      role_of roles p = Some EncryptionResponse \<and> le_read_response ex p = Inr (a, b)"
    and compression_read: "le_write_compression ex n = Some p \<Longrightarrow>
      role_of roles p = Some SetCompression \<and> le_disconnect_reason ex p = None"
    and success_read: "le_write_success ex w = Inr p \<Longrightarrow> parse_uuid (li_uuid w) = Inr u \<Longrightarrow>
      \<not> uuid_is_zero u \<Longrightarrow> role_of roles p = Some LoginSuccess \<and> le_disconnect_reason ex p = None \<and>
      (\<exists>v. le_read_success ex p = Inr v \<and> li_username v = li_username w \<and> parse_uuid (li_uuid v) = Inr u)"
    and success_value: "le_read_success ex (p\<lparr>gp_name := nm, gp_payload := pl\<rparr>) = le_read_success ex p"
    and disconnect_read: "le_write_disconnect ex reason = Inr p \<Longrightarrow> le_disconnect_reason ex p \<noteq> None"
    and answer_role: "le_answer ex r = Some p \<Longrightarrow> role_of roles p = Some r"
    and announce_role: "le_announce ex r = Some p \<Longrightarrow> role_of roles p = Some r \<and> le_disconnect_reason ex p = None"
    and announced_answered: "le_answer ex LoginAcknowledged \<noteq> None \<Longrightarrow>
      le_announce ex ConfigurationFinished \<noteq> None \<and> le_answer ex ConfigurationFinished \<noteq> None"

lemmas exchange_defs = expect_def bytes_field_def role_of_def built_def value_of_def
  write_response_def read_response_def write_set_compression_def write_login_disconnect_def

lemma roles_47:
  "login_role_47 ''login'' serverbound 0 = Some LoginStart" "login_role_47 ''login'' clientbound 1 = Some EncryptionRequest"
  "login_role_47 ''login'' serverbound 1 = Some EncryptionResponse" "login_role_47 ''login'' clientbound 3 = Some SetCompression"
  "login_role_47 ''login'' clientbound 2 = Some LoginSuccess"
  by code_simp+

lemma roles_775:
  "login_role_775 ''login'' serverbound 0 = Some LoginStart" "login_role_775 ''login'' clientbound 1 = Some EncryptionRequest"
  "login_role_775 ''login'' serverbound 1 = Some EncryptionResponse" "login_role_775 ''login'' clientbound 3 = Some SetCompression"
  "login_role_775 ''login'' clientbound 2 = Some LoginSuccess" "login_role_775 ''login'' serverbound 3 = Some LoginAcknowledged"
  "login_role_775 ''configuration'' serverbound 7 = Some KnownPacks"
  "login_role_775 ''configuration'' serverbound 3 = Some ConfigurationFinished"
  "login_role_775 ''configuration'' clientbound 3 = Some ConfigurationFinished"
  by code_simp+

interpretation login_47: login_contract "exchange_47 is_print" login_role_47
  by unfold_locales
    (auto simp: exchange_47_def start_login_47_def read_start_47_def read_request_47_def write_request_47_def
      read_success_47_def write_success_47_def disconnect_reason_47_def no_step_def exchange_defs roles_47)

lemma parse_uuid_length:
  assumes "parse_uuid t = Inr u"
  shows "length u = 16"
proof -
  from assms obtain c where "uuid_of_compact c = Inr u" "length c = 32"
    by (auto simp: parse_uuid_def Let_def split: if_splits)
  then have "length (hex_encode u) = 32" by (metis uuid_of_compact_iff length_map)
  then show ?thesis by simp
qed

lemma parse_uuid_string: "length u = 16 \<Longrightarrow> parse_uuid (uuid_string u) = Inr u"
  by (simp add: parse_uuid_iff lower_uuid_string)

interpretation login_775: login_contract "exchange_775 is_print" login_role_775
  by unfold_locales
    (auto simp: exchange_775_def start_login_775_def read_start_775_def read_request_775_def write_request_775_def
      read_success_775_def write_success_775_def disconnect_reason_775_def identity_of_def answer_775_def
      announce_775_def bool_field_def result_simps parse_uuid_string [OF parse_uuid_length] exchange_defs roles_775
      split: login_role.splits)

end
