(* ===== verification/Login_Sequence.thy ===== *)
theory Login_Sequence
  imports Login_Exchange Stream_Conduit
begin

text \<open>
  login/negotiator.go and login/acceptor.go: the two halves of a login. Each is a program over what it is
  given: the stream's Read, Write, Control and Snapshot, the roles of packets, the authenticator or
  verifier, the configuration step, and randomness are the fields of \<open>login_env\<close>, operations on a
  state that the program does not look at. A run keeps a log of what it did, in order; the
  theorems of Login_Laws are about logs.

  The two loops read until the peer says otherwise, and a peer may send configuration content
  for ever: they take the number of packets to read as fuel, and answer None when it is used up.
\<close>

section \<open>Runs\<close>

record profile =
  pf_name :: bytes
  pf_uuid :: bytes

definition zero_profile :: profile where
  "zero_profile = \<lparr>pf_name = [], pf_uuid = replicate 16 0\<rparr>"

datatype login_event =
    Received protocol_packet
  | Wrote protocol_packet bool
  | Switched byte bytes bool
  | Joined bytes bool
  | Verified bytes bytes bool
  | Configured bool

record 's login_env =
  ev_read :: "'s \<Rightarrow> protocol_packet result \<times> 's"
  ev_write :: "protocol_packet \<Rightarrow> 's \<Rightarrow> unit result \<times> 's"
  ev_control :: "byte \<Rightarrow> bytes \<Rightarrow> 's \<Rightarrow> unit result \<times> 's"
  ev_roles :: "string \<Rightarrow> byte \<Rightarrow> i32 \<Rightarrow> login_role option"
  ev_snapshot :: "'s \<Rightarrow> string result \<times> 's"
  ev_random :: "nat \<Rightarrow> 's \<Rightarrow> bytes result \<times> 's"
  ev_join :: "bytes \<Rightarrow> 's \<Rightarrow> unit result \<times> 's"
  ev_verify :: "bytes \<Rightarrow> bytes \<Rightarrow> 's \<Rightarrow> profile result \<times> 's"
  ev_configure :: "('s \<Rightarrow> unit result \<times> 's) option"

type_synonym ('s, 'a) login_op = "'s \<times> login_event list \<Rightarrow> 'a result \<times> 's \<times> login_event list"

definition returnL :: "'a \<Rightarrow> ('s, 'a) login_op" where
  "returnL v s = (Inr v, s)"

definition failL :: "wire_error \<Rightarrow> ('s, 'a) login_op" where
  "failL e s = (Inl e, s)"

definition liftL :: "'a result \<Rightarrow> ('s, 'a) login_op" where
  "liftL r s = (r, s)"

definition bindL :: "('s, 'a) login_op \<Rightarrow> ('a \<Rightarrow> ('s, 'b) login_op) \<Rightarrow> ('s, 'b) login_op" where
  "bindL m f s = (case m s of (Inl e, s') \<Rightarrow> (Inl e, s') | (Inr v, s') \<Rightarrow> f v s')"

text \<open>An operation of the environment, and the event it leaves in the log; errors are replaced as the code wraps them.\<close>

definition act :: "('s \<Rightarrow> 'a result \<times> 's) \<Rightarrow> ('a result \<Rightarrow> login_event list) \<Rightarrow> ('s, 'a) login_op" where
  "act m note s = (case s of (e, log) \<Rightarrow> case m e of (r, e') \<Rightarrow> (r, e', log @ note r))"

definition succeeded :: "'a result \<Rightarrow> bool" where
  "succeeded r \<longleftrightarrow> \<not> isl r"

lemma succeeded_simps [simp]: "succeeded (Inr v)" "\<not> succeeded (Inl e)"
  by (simp_all add: succeeded_def)

definition do_read :: "'s login_env \<Rightarrow> ('s, protocol_packet) login_op" where
  "do_read ev = act (ev_read ev) (\<lambda>r. case r of Inr p \<Rightarrow> [Received p] | Inl _ \<Rightarrow> [])"

definition do_write :: "'s login_env \<Rightarrow> protocol_packet \<Rightarrow> ('s, unit) login_op" where
  "do_write ev p = act (ev_write ev p) (\<lambda>r. [Wrote p (succeeded r)])"

definition do_control :: "'s login_env \<Rightarrow> byte \<Rightarrow> bytes \<Rightarrow> ('s, unit) login_op" where
  "do_control ev half secret = act (ev_control ev half secret) (\<lambda>r. [Switched half secret (succeeded r)])"

definition do_join :: "'s login_env \<Rightarrow> bytes \<Rightarrow> ('s, unit) login_op" where
  "do_join ev hash = act (ev_join ev hash) (\<lambda>r. [Joined hash (succeeded r)])"

definition do_verify :: "'s login_env \<Rightarrow> bytes \<Rightarrow> bytes \<Rightarrow> ('s, profile) login_op" where
  "do_verify ev name hash = act (ev_verify ev name hash) (\<lambda>r. [Verified name hash (succeeded r)])"

definition do_random :: "'s login_env \<Rightarrow> nat \<Rightarrow> ('s, bytes) login_op" where
  "do_random ev n = act (ev_random ev n) (\<lambda>_. [])"

definition do_snapshot :: "'s login_env \<Rightarrow> ('s, string) login_op" where
  "do_snapshot ev = act (ev_snapshot ev) (\<lambda>_. [])"

text \<open>\<open>errors.As\<close> on one call: the error of an operation as another one.\<close>

definition wrapL :: "wire_error \<Rightarrow> ('s, 'a) login_op \<Rightarrow> ('s, 'a) login_op" where
  "wrapL e m s = (case m s of (Inl _, s') \<Rightarrow> (Inl e, s') | (Inr v, s') \<Rightarrow> (Inr v, s'))"

section \<open>The client\<close>

definition max_server_id_bytes :: nat where
  "max_server_id_bytes = 20"

definition validate_encryption_request :: "encryption_request \<Rightarrow> unit result" where
  "validate_encryption_request r =
     (if max_server_id_bytes < length (er_server_id r) then Inl ErrInvalidLoginField
      else if length (er_public_key r) = 0 then Inl ErrInvalidLoginField
      else if length (er_verify_token r) = 0 then Inl ErrInvalidLoginField
      else Inr ())"

definition parse_identity :: "login_identity \<Rightarrow> profile result" where
  "parse_identity w = bindR (parse_username (li_username w)) (\<lambda>name.
     bindR (parse_uuid (li_uuid w)) (\<lambda>u. Inr \<lparr>pf_name = name, pf_uuid = u\<rparr>))"

text \<open>
  \<open>exchangeKeys\<close> of the negotiator, up to the packet that answers the request, and then the order of
  the two switches around it. The value is the error of the outbound switch, which the caller tells
  from the others by its type. Encryption draws its padding from the same randomness.
\<close>

definition answer_request ::
    "'s login_env \<Rightarrow> ('priv, 'pub) crypto \<Rightarrow> login_exchange \<Rightarrow> protocol_packet \<Rightarrow>
      ('s, bytes \<times> protocol_packet) login_op" where
  "answer_request ev cr ex p =
     bindL (liftL (le_read_request ex p)) (\<lambda>req.
     bindL (liftL (validate_encryption_request req)) (\<lambda>_.
     bindL (liftL (parse_server_public_key cr (er_public_key req))) (\<lambda>key.
     bindL (do_random ev shared_secret_bytes) (\<lambda>secret.
     bindL (liftL (compute_server_hash cr (er_server_id req) secret (Some key))) (\<lambda>hash.
     bindL (if er_authenticate req then wrapL ErrAuthenticationRejected (do_join ev hash) else returnL ()) (\<lambda>_.
     bindL (do_random ev 0) (\<lambda>r1.
     bindL (liftL (encrypt_to_server_key cr r1 (Some key) (reveal secret))) (\<lambda>c1.
     bindL (do_random ev 0) (\<lambda>r2.
     bindL (liftL (encrypt_to_server_key cr r2 (Some key) (er_verify_token req))) (\<lambda>c2.
     bindL (liftL (le_write_response ex c1 c2)) (\<lambda>response.
     returnL (secret, response))))))))))))"

definition switch_ciphers :: "'s login_env \<Rightarrow> bytes \<Rightarrow> protocol_packet \<Rightarrow> ('s, wire_error option) login_op" where
  "switch_ciphers ev secret response =
     bindL (do_control ev encryption_inbound secret) (\<lambda>_.
     bindL (do_write ev response) (\<lambda>_ s.
       case do_control ev encryption_outbound secret s of
         (Inl e, s') \<Rightarrow> (Inr (Some e), s')
       | (Inr _, s') \<Rightarrow> (Inr None, s')))"

definition negotiate_keys ::
    "'s login_env \<Rightarrow> ('priv, 'pub) crypto \<Rightarrow> login_exchange \<Rightarrow> protocol_packet \<Rightarrow>
      ('s, wire_error option) login_op" where
  "negotiate_keys ev cr ex p =
     bindL (answer_request ev cr ex p) (\<lambda>(secret, response). switch_ciphers ev secret response)"

definition stops_at :: "string \<Rightarrow> string \<Rightarrow> bool" where
  "stops_at terminal st \<longleftrightarrow> terminal \<noteq> [] \<and> terminal = st"

text \<open>What one packet makes of the loop: a return, or the profile and the failure it goes on with.\<close>

datatype loop_step = Return profile | Continue profile "wire_error option"

definition answer_with ::
    "'s login_env \<Rightarrow> login_exchange \<Rightarrow> login_role \<Rightarrow> ('s, loop_step) login_op \<Rightarrow> ('s, loop_step) login_op" where
  "answer_with ev ex r after = (case le_answer ex r of
     None \<Rightarrow> failL ErrUnexpectedLoginPacket
   | Some answer \<Rightarrow> bindL (do_write ev answer) (\<lambda>_. after))"

definition on_success ::
    "'s login_env \<Rightarrow> login_exchange \<Rightarrow> string \<Rightarrow> wire_error option \<Rightarrow> protocol_packet \<Rightarrow>
      ('s, loop_step) login_op" where
  "on_success ev ex terminal unswitched p =
     bindL (liftL (le_read_success ex p)) (\<lambda>w.
     bindL (liftL (parse_identity w)) (\<lambda>confirmed.
       case le_answer ex LoginAcknowledged of
         None \<Rightarrow> returnL (Return confirmed)
       | Some answer \<Rightarrow>
           if stops_at terminal ''login'' then returnL (Return confirmed)
           else bindL (do_write ev answer) (\<lambda>_.
             if stops_at terminal ''configuration'' then returnL (Return confirmed)
             else returnL (Continue confirmed unswitched))))"

definition on_packet ::
    "'s login_env \<Rightarrow> ('priv, 'pub) crypto \<Rightarrow> login_exchange \<Rightarrow> string \<Rightarrow> profile \<Rightarrow> wire_error option \<Rightarrow>
      protocol_packet \<Rightarrow> ('s, loop_step) login_op" where
  "on_packet ev cr ex terminal confirmed unswitched p =
     (if le_disconnect_reason ex p \<noteq> None then failL ErrLoginDisconnected
      else case role_of (ev_roles ev) p of
        None \<Rightarrow> if gp_state p = ''configuration'' then returnL (Continue confirmed unswitched)
          else failL ErrUnexpectedLoginPacket
      | Some r \<Rightarrow>
          if r = EncryptionRequest then bindL (negotiate_keys ev cr ex p) (\<lambda>lost.
            returnL (Continue confirmed (if lost = None then unswitched else lost)))
          else if r = SetCompression then returnL (Continue confirmed unswitched)
          else if r = LoginSuccess then on_success ev ex terminal unswitched p
          else if r = KnownPacks then answer_with ev ex KnownPacks (returnL (Continue confirmed unswitched))
          else if r = ConfigurationFinished then answer_with ev ex ConfigurationFinished (returnL (Return confirmed))
          else failL ErrUnexpectedLoginPacket)"

primrec negotiate_loop ::
    "nat \<Rightarrow> 's login_env \<Rightarrow> ('priv, 'pub) crypto \<Rightarrow> login_exchange \<Rightarrow> string \<Rightarrow> profile \<Rightarrow> wire_error option \<Rightarrow>
      ('s, profile option) login_op" where
  "negotiate_loop 0 ev cr ex terminal confirmed unswitched = returnL None"
| "negotiate_loop (Suc fuel) ev cr ex terminal confirmed unswitched = (\<lambda>s.
     case do_read ev s of
       (Inl e, s') \<Rightarrow> (Inl (case unswitched of None \<Rightarrow> e | Some h \<Rightarrow> h), s')
     | (Inr p, s') \<Rightarrow> bindL (on_packet ev cr ex terminal confirmed unswitched p) (\<lambda>next_step.
         case next_step of
           Return pf \<Rightarrow> returnL (Some pf)
         | Continue pf h \<Rightarrow> negotiate_loop fuel ev cr ex terminal pf h) s')"

text \<open>NewNegotiator and Negotiate: the authenticator's name, and the stream's exchange if it has one.\<close>

definition new_negotiator :: "bytes option \<Rightarrow> bytes result" where
  "new_negotiator authenticator = (case authenticator of
     None \<Rightarrow> Inl ErrInvalidAuthenticator
   | Some name \<Rightarrow> if name = [] then Inl ErrInvalidAuthenticator else Inr name)"

definition new_offline :: "bytes \<Rightarrow> bytes result" where
  "new_offline name = parse_username name"

definition negotiate ::
    "nat \<Rightarrow> 's login_env \<Rightarrow> ('priv, 'pub) crypto \<Rightarrow> login_exchange option \<Rightarrow> string \<Rightarrow> bytes \<Rightarrow>
      ('s, profile option) login_op" where
  "negotiate fuel ev cr exchange terminal name = (case exchange of
     None \<Rightarrow> failL ErrUnsupportedProtocol
   | Some ex \<Rightarrow> bindL (liftL (le_start ex \<lparr>li_username = name, li_uuid = []\<rparr>)) (\<lambda>start.
       bindL (do_write ev start) (\<lambda>_. negotiate_loop fuel ev cr ex terminal zero_profile None)))"

section \<open>The server\<close>

definition verify_token_bytes :: nat where
  "verify_token_bytes = 4"

record 'priv acceptor =
  ac_key :: 'priv
  ac_online :: bool
  ac_server_id :: bytes
  ac_threshold :: i32
  ac_compress :: bool

text \<open>Options of an acceptor; a nil verifier or configuration step is None, and the step itself is in the environment.\<close>

datatype acceptor_option =
    WithVerifier bool
  | WithConfiguration bool
  | WithCompressionThreshold int
  | WithServerID bytes

definition apply_acceptor_option :: "acceptor_option \<Rightarrow> 'priv acceptor \<Rightarrow> 'priv acceptor result" where
  "apply_acceptor_option opt a = (case opt of
     WithVerifier given \<Rightarrow> if \<not> given then Inl ErrInvalidAuthenticator else Inr (a\<lparr>ac_online := True\<rparr>)
   | WithConfiguration given \<Rightarrow> if \<not> given then Inl ErrInvalidAuthenticator else Inr a
   | WithCompressionThreshold n \<Rightarrow>
       if n < 0 then Inr (a\<lparr>ac_compress := False\<rparr>)
       else Inr (a\<lparr>ac_compress := True, ac_threshold := word_of_int n\<rparr>)
   | WithServerID sid \<Rightarrow>
       if max_server_id_bytes < length sid then Inl ErrInvalidLoginField
       else Inr (a\<lparr>ac_server_id := sid\<rparr>))"

fun apply_acceptor_options :: "acceptor_option list \<Rightarrow> 'priv acceptor \<Rightarrow> 'priv acceptor result" where
  "apply_acceptor_options [] a = Inr a"
| "apply_acceptor_options (opt # opts) a = bindR (apply_acceptor_option opt a) (apply_acceptor_options opts)"

definition new_acceptor :: "'priv option \<Rightarrow> acceptor_option list \<Rightarrow> 'priv acceptor result" where
  "new_acceptor key opts = (case key of
     None \<Rightarrow> Inl ErrInvalidServerKey
   | Some k \<Rightarrow> apply_acceptor_options opts
       \<lparr>ac_key = k, ac_online = False, ac_server_id = [], ac_threshold = 0, ac_compress = False\<rparr>)"

definition expect_role :: "'s login_env \<Rightarrow> login_role \<Rightarrow> ('s, protocol_packet) login_op" where
  "expect_role ev r = bindL (do_read ev) (\<lambda>p.
     if role_of (ev_roles ev) p \<noteq> Some r then failL ErrUnexpectedLoginPacket else returnL p)"

definition read_login_start :: "'s login_env \<Rightarrow> login_exchange \<Rightarrow> ('s, bytes) login_op" where
  "read_login_start ev ex = bindL (expect_role ev LoginStart) (\<lambda>p.
     bindL (liftL (le_read_start ex p)) (\<lambda>w. liftL (parse_username (li_username w))))"

text \<open>\<open>exchangeKeys\<close> of the acceptor.\<close>

definition accept_keys ::
    "'s login_env \<Rightarrow> ('priv, 'pub) crypto \<Rightarrow> login_exchange \<Rightarrow> 'priv acceptor \<Rightarrow> bytes \<Rightarrow> ('s, profile) login_op" where
  "accept_keys ev cr ex a username =
     bindL (liftL (encode_server_public_key cr (Some (public_half cr (ac_key a))))) (\<lambda>der.
     bindL (do_random ev verify_token_bytes) (\<lambda>token.
     bindL (liftL (le_write_request ex \<lparr>er_server_id = ac_server_id a, er_public_key = der,
       er_verify_token = token, er_authenticate = True\<rparr>)) (\<lambda>request.
     bindL (do_write ev request) (\<lambda>_.
     bindL (expect_role ev EncryptionResponse) (\<lambda>p.
     bindL (liftL (le_read_response ex p)) (\<lambda>(encrypted_secret, encrypted_token).
     bindL (liftL (verify_token cr (Some (ac_key a)) token encrypted_token)) (\<lambda>_.
     bindL (liftL (decrypt_shared_secret cr (Some (ac_key a)) encrypted_secret)) (\<lambda>secret.
     bindL (liftL (compute_server_hash cr (ac_server_id a) secret (Some (public_half cr (ac_key a))))) (\<lambda>hash.
     bindL (do_control ev encryption_both secret) (\<lambda>_.
     bindL (wrapL ErrAuthenticationRejected (do_verify ev username hash)) (\<lambda>pf.
       let pf' = (if pf_name pf = [] then pf\<lparr>pf_name := username\<rparr> else pf) in
       if uuid_is_zero (pf_uuid pf') then failL ErrInvalidLoginField else returnL pf')))))))))))"

text \<open>Writing the reason of a failed login; its own failure is discarded, and the login's error stands.\<close>

definition disconnecting ::
    "'s login_env \<Rightarrow> login_exchange \<Rightarrow> bytes \<Rightarrow> ('s, 'a) login_op \<Rightarrow> ('s, 'a) login_op" where
  "disconnecting ev ex reason m s = (case m s of
     (Inr v, s') \<Rightarrow> (Inr v, s')
   | (Inl e, s') \<Rightarrow> (case le_write_disconnect ex reason of
       Inl _ \<Rightarrow> (Inl e, s')
     | Inr p \<Rightarrow> (Inl e, snd (do_write ev p s'))))"

primrec await_role :: "nat \<Rightarrow> 's login_env \<Rightarrow> login_role \<Rightarrow> ('s, unit option) login_op" where
  "await_role 0 ev want = returnL None"
| "await_role (Suc fuel) ev want = bindL (do_read ev) (\<lambda>p.
     case role_of (ev_roles ev) p of
       Some r \<Rightarrow> if r = want then returnL (Some ()) else failL ErrUnexpectedLoginPacket
     | None \<Rightarrow> if gp_state p = ''configuration'' then await_role fuel ev want
         else failL ErrUnexpectedLoginPacket)"

definition confirm_play :: "'s login_env \<Rightarrow> ('s, unit) login_op" where
  "confirm_play ev = bindL (do_snapshot ev) (\<lambda>st.
     if st \<noteq> ''play'' then failL ErrUnexpectedLoginPacket else returnL ())"

definition configure :: "'s login_env \<Rightarrow> ('s, unit) login_op" where
  "configure ev = (case ev_configure ev of
     None \<Rightarrow> returnL ()
   | Some step \<Rightarrow> act step (\<lambda>r. [Configured (succeeded r)]))"

text \<open>Waiting that ran out of fuel ends the program.\<close>

definition thenL :: "('s, unit option) login_op \<Rightarrow> ('s, unit option) login_op \<Rightarrow> ('s, unit option) login_op" where
  "thenL m m' = bindL m (\<lambda>r. if r = None then returnL None else m')"

definition reach_play :: "nat \<Rightarrow> 's login_env \<Rightarrow> login_exchange \<Rightarrow> ('s, unit option) login_op" where
  "reach_play fuel ev ex = (case le_answer ex LoginAcknowledged of
     None \<Rightarrow> bindL (confirm_play ev) (\<lambda>_. returnL (Some ()))
   | Some _ \<Rightarrow> thenL (await_role fuel ev LoginAcknowledged)
       (bindL (configure ev) (\<lambda>_. case le_announce ex ConfigurationFinished of
          None \<Rightarrow> failL ErrUnexpectedLoginPacket
        | Some finished \<Rightarrow> bindL (do_write ev finished) (\<lambda>_.
            thenL (await_role fuel ev ConfigurationFinished)
              (bindL (confirm_play ev) (\<lambda>_. returnL (Some ())))))))"

text \<open>The reason, Login failed.\<close>

definition login_failed :: bytes where
  "login_failed = [76, 111, 103, 105, 110, 32, 102, 97, 105, 108, 101, 100]"

definition compression_step :: "'s login_env \<Rightarrow> login_exchange \<Rightarrow> 'priv acceptor \<Rightarrow> ('s, unit) login_op" where
  "compression_step ev ex a =
     (if ac_compress a then (case le_write_compression ex (ac_threshold a) of
        None \<Rightarrow> failL ErrUnexpectedLoginPacket
      | Some p \<Rightarrow> do_write ev p)
      else returnL ())"

definition accept ::
    "nat \<Rightarrow> 's login_env \<Rightarrow> ('priv, 'pub) crypto \<Rightarrow> login_exchange option \<Rightarrow> 'priv acceptor \<Rightarrow>
      ('s, profile option) login_op" where
  "accept fuel ev cr exchange a = (case exchange of
     None \<Rightarrow> failL ErrUnsupportedProtocol
   | Some ex \<Rightarrow> bindL (read_login_start ev ex) (\<lambda>username.
       bindL (if ac_online a then disconnecting ev ex login_failed (accept_keys ev cr ex a username)
          else returnL \<lparr>pf_name = username, pf_uuid = offline_uuid cr username\<rparr>) (\<lambda>pf.
       bindL (compression_step ev ex a) (\<lambda>_.
       bindL (liftL (le_write_success ex
         \<lparr>li_username = pf_name pf, li_uuid = uuid_string (pf_uuid pf)\<rparr>)) (\<lambda>success.
       bindL (do_write ev success) (\<lambda>_.
       bindL (reach_play fuel ev ex) (\<lambda>r. returnL (map_option (\<lambda>_. pf) r))))))))"

end
