(* ===== verification/Login_Laws.thy ===== *)
theory Login_Laws
  imports Login_Sequence
begin

text \<open>
  What the two halves of a login did, from their logs: the exact course of a login that a server
  accepted, the order of a client's key exchange whatever fails in it, where a negotiated profile comes
  from, and, under the contract of the exchange, that both halves return the same account.
\<close>

section \<open>Logs\<close>

named_theorems login_runs \<open>what a step that returned did\<close>

lemma bindL_Inr [login_runs]:
  "bindL m f s = (Inr v, s') \<longleftrightarrow> (\<exists>x t. m s = (Inr x, t) \<and> f x t = (Inr v, s'))"
  by (auto simp: bindL_def split: prod.splits sum.splits)

lemma returnL_iff [login_runs]: "returnL v s = (r, s') \<longleftrightarrow> r = Inr v \<and> s' = s"
  by (auto simp: returnL_def)

lemma failL_iff [login_runs]: "failL e s = (r, s') \<longleftrightarrow> r = Inl e \<and> s' = s"
  by (auto simp: failL_def)

lemma liftL_iff [login_runs]: "liftL q s = (r, s') \<longleftrightarrow> q = r \<and> s' = s"
  by (auto simp: liftL_def)

lemma act_iff [login_runs]:
  "act m note (e, log) = (r, e', log') \<longleftrightarrow> m e = (r, e') \<and> log' = log @ note r"
  by (auto simp: act_def split: prod.splits)

lemma wrapL_Inr [login_runs]: "wrapL e m s = (Inr v, s') \<longleftrightarrow> m s = (Inr v, s')"
  by (auto simp: wrapL_def split: prod.splits sum.splits)

lemma disconnecting_Inr [login_runs]: "disconnecting ev ex reason m s = (Inr v, s') \<longleftrightarrow> m s = (Inr v, s')"
  by (auto simp: disconnecting_def split: prod.splits sum.splits)

lemmas login_acts = do_read_def do_write_def do_control_def do_join_def do_verify_def do_random_def do_snapshot_def

text \<open>An operation that adds to the log events of one kind only.\<close>

definition adds :: "(login_event \<Rightarrow> bool) \<Rightarrow> ('s, 'a) login_op \<Rightarrow> bool" where
  "adds P m \<longleftrightarrow> (\<forall>e log r e' log'. m (e, log) = (r, e', log') \<longrightarrow>
     (\<exists>l. log' = log @ l \<and> list_all P l))"

lemma addsD:
  assumes "adds P m" "m (e, log) = (r, e', log')"
  obtains l where "log' = log @ l" "list_all P l"
  using assms unfolding adds_def by blast

lemma adds_return [simp]: "adds P (returnL v)" "adds P (failL err)" "adds P (liftL q)"
  by (simp_all add: adds_def returnL_def failL_def liftL_def)

lemma adds_bind:
  assumes "adds P m" "\<And>x. adds P (f x)"
  shows "adds P (bindL m f)"
  unfolding adds_def
proof (intro allI impI)
  fix e log r e' log'
  assume b: "bindL m f (e, log) = (r, e', log')"
  obtain q e1 log1 where m: "m (e, log) = (q, e1, log1)" by (metis prod_cases3)
  from assms(1) m obtain l where l: "log1 = log @ l" "list_all P l" by (rule addsD)
  show "\<exists>l. log' = log @ l \<and> list_all P l"
  proof (cases q)
    case (Inl a)
    with b m l show ?thesis by (auto simp: bindL_def)
  next
    case (Inr x)
    with b m have "f x (e1, log1) = (r, e', log')" by (simp add: bindL_def)
    with assms(2) obtain l' where "log' = log1 @ l'" "list_all P l'" by (rule addsD)
    with l show ?thesis by (intro exI [of _ "l @ l'"]) simp
  qed
qed

lemma adds_act: "(\<And>r. list_all P (note r)) \<Longrightarrow> adds P (act m note)"
  by (auto simp: adds_def act_def split: prod.splits)

lemma adds_wrap: "adds P m \<Longrightarrow> adds P (wrapL e m)"
  unfolding adds_def wrapL_def by (fastforce split: prod.splits sum.splits)

lemma adds_mono: "adds P m \<Longrightarrow> (\<And>ev. P ev \<Longrightarrow> Q ev) \<Longrightarrow> adds Q m"
  unfolding adds_def by (metis list.pred_mono_strong)

section \<open>What the server did\<close>

definition only_finishes :: "login_exchange \<Rightarrow> login_event \<Rightarrow> bool" where
  "only_finishes ex x \<longleftrightarrow> (\<forall>p b. x = Wrote p b \<longrightarrow> le_announce ex ConfigurationFinished = Some p)"

lemma adds_await: "adds (only_finishes ex) (await_role fuel ev want)"
  by (induction fuel)
    (auto intro!: adds_bind adds_act simp: login_acts only_finishes_def split: option.splits sum.splits)

lemma adds_reach_play: "adds (only_finishes ex) (reach_play fuel ev ex)"
  unfolding reach_play_def thenL_def confirm_play_def configure_def login_acts
  by (auto intro!: adds_bind adds_act adds_await simp: only_finishes_def split: option.splits)

lemma accept_keys_Inr:
  assumes "accept_keys ev cr ex a username (e, log) = (Inr pf, e', log')"
  shows "\<exists>der token request response c1 c2 secret hash.
    encode_server_public_key cr (Some (public_half cr (ac_key a))) = Inr der \<and>
    le_write_request ex \<lparr>er_server_id = ac_server_id a, er_public_key = der,
      er_verify_token = token, er_authenticate = True\<rparr> = Inr request \<and>
    role_of (ev_roles ev) response = Some EncryptionResponse \<and>
    le_read_response ex response = Inr (c1, c2) \<and>
    verify_token cr (Some (ac_key a)) token c2 = Inr () \<and>
    decrypt_shared_secret cr (Some (ac_key a)) c1 = Inr secret \<and>
    compute_server_hash cr (ac_server_id a) secret (Some (public_half cr (ac_key a))) = Inr hash \<and>
    log' = log @ [Wrote request True, Received response, Switched encryption_both secret True,
      Verified username hash True] \<and> \<not> uuid_is_zero (pf_uuid pf)"
  using assms
  by (auto simp: accept_keys_def expect_role_def login_acts login_runs Let_def split: if_splits prod.splits)
    metis+

definition acceptance_keys ::
    "'s login_env \<Rightarrow> ('priv, 'pub) crypto \<Rightarrow> login_exchange \<Rightarrow> 'priv acceptor \<Rightarrow> bytes \<Rightarrow> profile \<Rightarrow>
      login_event list \<Rightarrow> bool" where
  "acceptance_keys ev cr ex a username pf keys \<longleftrightarrow>
     (if ac_online a then \<exists>der token request response c1 c2 secret hash.
        encode_server_public_key cr (Some (public_half cr (ac_key a))) = Inr der \<and>
        le_write_request ex \<lparr>er_server_id = ac_server_id a, er_public_key = der,
          er_verify_token = token, er_authenticate = True\<rparr> = Inr request \<and>
        role_of (ev_roles ev) response = Some EncryptionResponse \<and>
        le_read_response ex response = Inr (c1, c2) \<and>
        verify_token cr (Some (ac_key a)) token c2 = Inr () \<and>
        decrypt_shared_secret cr (Some (ac_key a)) c1 = Inr secret \<and>
        compute_server_hash cr (ac_server_id a) secret (Some (public_half cr (ac_key a))) = Inr hash \<and>
        keys = [Wrote request True, Received response, Switched encryption_both secret True,
          Verified username hash True] \<and> \<not> uuid_is_zero (pf_uuid pf)
      else keys = [] \<and> pf = \<lparr>pf_name = username, pf_uuid = offline_uuid cr username\<rparr>)"

text \<open>The whole of a login that a server accepted.\<close>

definition acceptance ::
    "'s login_env \<Rightarrow> ('priv, 'pub) crypto \<Rightarrow> login_exchange \<Rightarrow> 'priv acceptor \<Rightarrow> profile \<Rightarrow>
      login_event list \<Rightarrow> bool" where
  "acceptance ev cr ex a pf log \<longleftrightarrow> (\<exists>start w username keys compression success rest.
     log = Received start # keys @ compression @ Wrote success True # rest \<and>
     role_of (ev_roles ev) start = Some LoginStart \<and> le_read_start ex start = Inr w \<and>
     parse_username (li_username w) = Inr username \<and>
     acceptance_keys ev cr ex a username pf keys \<and>
     (if ac_compress a then \<exists>p. le_write_compression ex (ac_threshold a) = Some p \<and> compression = [Wrote p True]
      else compression = []) \<and>
     le_write_success ex \<lparr>li_username = pf_name pf, li_uuid = uuid_string (pf_uuid pf)\<rparr> = Inr success \<and>
     list_all (only_finishes ex) rest)"

lemma accept_keys_acceptance:
  assumes "accept_keys ev cr ex a username (e, log) = (Inr pf, e', log')" "ac_online a"
  obtains keys where "log' = log @ keys" "acceptance_keys ev cr ex a username pf keys"
proof -
  from accept_keys_Inr [OF assms(1)] obtain der token request response c1 c2 secret hash where
    k: "encode_server_public_key cr (Some (public_half cr (ac_key a))) = Inr der"
      "le_write_request ex \<lparr>er_server_id = ac_server_id a, er_public_key = der,
        er_verify_token = token, er_authenticate = True\<rparr> = Inr request"
      "role_of (ev_roles ev) response = Some EncryptionResponse" "le_read_response ex response = Inr (c1, c2)"
      "verify_token cr (Some (ac_key a)) token c2 = Inr ()"
      "decrypt_shared_secret cr (Some (ac_key a)) c1 = Inr secret"
      "compute_server_hash cr (ac_server_id a) secret (Some (public_half cr (ac_key a))) = Inr hash"
      "\<not> uuid_is_zero (pf_uuid pf)"
    and log: "log' = log @ [Wrote request True, Received response, Switched encryption_both secret True,
      Verified username hash True]" by blast
  have "acceptance_keys ev cr ex a username pf
      [Wrote request True, Received response, Switched encryption_both secret True, Verified username hash True]"
    unfolding acceptance_keys_def if_P [OF assms(2)] by (intro exI conjI) (fact k | rule refl)+
  with log show ?thesis by (rule that)
qed

lemma compression_step_Inr:
  assumes "compression_step ev ex a (e, log) = (Inr u, e', log')"
  shows "\<exists>l. log' = log @ l \<and>
    (if ac_compress a then \<exists>p. le_write_compression ex (ac_threshold a) = Some p \<and> l = [Wrote p True] else l = [])"
  using assms
  by (auto simp: compression_step_def login_acts login_runs split: if_splits option.splits)

lemma accept_Inr:
  assumes "accept fuel ev cr (Some ex) a (e, []) = (Inr r, e', log)"
  shows "\<exists>pf. (r = None \<or> r = Some pf) \<and> acceptance ev cr ex a pf log"
proof -
  from assms obtain username e1 log1 pf e2 log2 e3 log3 success e4 res
    where start: "read_login_start ev ex (e, []) = (Inr username, e1, log1)"
    and keys: "(if ac_online a then disconnecting ev ex login_failed (accept_keys ev cr ex a username)
        else returnL \<lparr>pf_name = username, pf_uuid = offline_uuid cr username\<rparr>) (e1, log1) = (Inr pf, e2, log2)"
    and comp: "compression_step ev ex a (e2, log2) = (Inr (), e3, log3)"
    and success: "le_write_success ex \<lparr>li_username = pf_name pf, li_uuid = uuid_string (pf_uuid pf)\<rparr> = Inr success"
    and wrote: "do_write ev success (e3, log3) = (Inr (), e4, log3 @ [Wrote success True])"
    and reach: "reach_play fuel ev ex (e4, log3 @ [Wrote success True]) = (Inr res, e', log)"
    and res: "r = map_option (\<lambda>_. pf) res"
    by (auto simp: accept_def bindL_Inr liftL_iff returnL_iff do_write_def act_iff)
  from start obtain p w where s: "log1 = [Received p]" "role_of (ev_roles ev) p = Some LoginStart"
    "le_read_start ex p = Inr w" "parse_username (li_username w) = Inr username"
    by (auto simp: read_login_start_def expect_role_def login_acts login_runs split: if_splits)
  from keys obtain kl where k: "log2 = log1 @ kl" "acceptance_keys ev cr ex a username pf kl"
  proof (cases "ac_online a")
    case True
    with keys have "accept_keys ev cr ex a username (e1, log1) = (Inr pf, e2, log2)"
      by (simp add: disconnecting_Inr)
    then show ?thesis using True that by (rule accept_keys_acceptance)
  next
    case False
    with keys that [of "[]"] show ?thesis by (simp add: returnL_iff acceptance_keys_def)
  qed
  from compression_step_Inr [OF comp] obtain cl where c: "log3 = log2 @ cl"
    "if ac_compress a then \<exists>p. le_write_compression ex (ac_threshold a) = Some p \<and> cl = [Wrote p True] else cl = []"
    by blast
  from adds_reach_play reach obtain rest where rest: "log = (log3 @ [Wrote success True]) @ rest"
    "list_all (only_finishes ex) rest" by (rule addsD)
  have "acceptance ev cr ex a pf log"
    unfolding acceptance_def using s k c success rest
    by (intro exI [of _ p] exI [of _ w] exI [of _ username] exI [of _ kl] exI [of _ cl] exI [of _ success] exI [of _ rest])
      simp
  with res show ?thesis by (cases res) auto
qed

section \<open>What the client did\<close>

definition is_join :: "login_event \<Rightarrow> bool" where
  "is_join x \<longleftrightarrow> (\<exists>hash b. x = Joined hash b)"

lemma adds_answer_request: "adds is_join (answer_request ev cr ex p)"
  unfolding answer_request_def login_acts
  by (auto intro!: adds_bind adds_act adds_wrap simp: is_join_def)

lemma answer_request_Inr:
  assumes "answer_request ev cr ex p (e, log) = (Inr (secret, response), e', log')"
  shows "\<exists>req. le_read_request ex p = Inr req \<and>
    (if er_authenticate req then \<exists>hash. log' = log @ [Joined hash True] else log' = log)"
  using assms
  by (auto simp: answer_request_def login_acts login_runs split: if_splits)

text \<open>The two switches around the response, whatever becomes of them.\<close>

definition switching :: "bytes \<Rightarrow> protocol_packet \<Rightarrow> login_event list \<Rightarrow> bool" where
  "switching secret response acts \<longleftrightarrow>
     acts = [Switched encryption_inbound secret False] \<or>
     acts = [Switched encryption_inbound secret True, Wrote response False] \<or>
     (\<exists>b. acts = [Switched encryption_inbound secret True, Wrote response True, Switched encryption_outbound secret b])"

lemma switch_ciphers_log:
  assumes "switch_ciphers ev secret response (e, log) = (r, e', log')"
  shows "\<exists>acts. log' = log @ acts \<and> switching secret response acts \<and>
    (\<forall>lost. r = Inr lost \<longrightarrow> acts = [Switched encryption_inbound secret True, Wrote response True,
         Switched encryption_outbound secret (lost = None)])"
  using assms
  by (auto simp: switch_ciphers_def switching_def bindL_def login_acts act_def split: prod.splits sum.splits)

lemma negotiate_keys_log:
  assumes "negotiate_keys ev cr ex p (e, log) = (r, e', log')"
  shows "\<exists>joins acts. log' = log @ joins @ acts \<and> list_all is_join joins \<and>
    (acts \<noteq> [] \<longrightarrow> (\<exists>req secret response. le_read_request ex p = Inr req \<and> switching secret response acts \<and>
       (if er_authenticate req then \<exists>hash. joins = [Joined hash True] else joins = []))) \<and>
    (\<forall>lost. r = Inr lost \<longrightarrow> acts \<noteq> [] \<and> (\<exists>secret. last acts = Switched encryption_outbound secret (lost = None)))"
proof -
  obtain q e1 log1 where a: "answer_request ev cr ex p (e, log) = (q, e1, log1)" by (metis prod_cases3)
  from adds_answer_request a obtain joins where j: "log1 = log @ joins" "list_all is_join joins" by (rule addsD)
  show ?thesis
  proof (cases q)
    case (Inl err)
    with assms a j show ?thesis
      by (intro exI [of _ joins] exI [of _ "[]"]) (auto simp: negotiate_keys_def bindL_def)
  next
    case (Inr v)
    obtain secret response where v: "v = (secret, response)" by fastforce
    with assms a Inr have "switch_ciphers ev secret response (e1, log1) = (r, e', log')"
      by (simp add: negotiate_keys_def bindL_def)
    from switch_ciphers_log [OF this] obtain acts where acts: "log' = log1 @ acts" "switching secret response acts"
      "\<forall>lost. r = Inr lost \<longrightarrow> acts = [Switched encryption_inbound secret True, Wrote response True,
         Switched encryption_outbound secret (lost = None)]" by blast
    from answer_request_Inr [OF a [unfolded Inr v]] j(1) obtain req where
      "le_read_request ex p = Inr req" "if er_authenticate req then \<exists>hash. joins = [Joined hash True] else joins = []"
      by (auto split: if_splits)
    with acts j show ?thesis
      by (intro exI [of _ joins] exI [of _ acts]) auto
  qed
qed

section \<open>What the client's loop makes of packets\<close>

definition confirmed_by :: "(string \<Rightarrow> byte \<Rightarrow> i32 \<Rightarrow> login_role option) \<Rightarrow> login_exchange \<Rightarrow> profile \<Rightarrow> protocol_packet \<Rightarrow> bool" where
  "confirmed_by roles ex pf p \<longleftrightarrow> role_of roles p = Some LoginSuccess \<and>
     (\<exists>w. le_read_success ex p = Inr w \<and> parse_identity w = Inr pf)"

definition step_profile :: "loop_step \<Rightarrow> profile" where
  "step_profile x = (case x of Return pf \<Rightarrow> pf | Continue pf h \<Rightarrow> pf)"

lemma on_packet_Inr:
  assumes "on_packet ev cr ex terminal confirmed unswitched p s = (Inr x, s')"
  shows "step_profile x = confirmed \<and> (le_answer ex ConfigurationFinished = None \<longrightarrow> (\<forall>pf. x \<noteq> Return pf)) \<or>
    confirmed_by (ev_roles ev) ex (step_profile x) p"
  using assms
  by (auto simp: on_packet_def on_success_def answer_with_def login_runs step_profile_def confirmed_by_def
      split: if_splits option.splits)

definition not_read :: "login_event \<Rightarrow> bool" where
  "not_read x \<longleftrightarrow> (\<forall>p. x \<noteq> Received p)"

lemma adds_negotiate_keys: "adds not_read (negotiate_keys ev cr ex p)"
  unfolding adds_def
proof (intro allI impI)
  fix e log r e' log'
  assume "negotiate_keys ev cr ex p (e, log) = (r, e', log')"
  from negotiate_keys_log [OF this] obtain joins acts where "log' = log @ joins @ acts" "list_all is_join joins"
    "acts = [] \<or> (\<exists>secret response. switching secret response acts)" by blast
  then show "\<exists>l. log' = log @ l \<and> list_all not_read l"
    by (intro exI [of _ "joins @ acts"])
      (auto simp: is_join_def not_read_def switching_def list_all_iff)
qed

lemma adds_on_packet: "adds not_read (on_packet ev cr ex terminal confirmed unswitched p)"
  unfolding on_packet_def on_success_def answer_with_def login_acts
  by (auto intro!: adds_bind adds_act adds_negotiate_keys simp: not_read_def split: option.splits)

text \<open>One turn of the loop: a packet is read, and what it makes of the log is no other packet.\<close>

lemma negotiate_loop_turn:
  assumes "negotiate_loop (Suc fuel) ev cr ex terminal confirmed unswitched (e, log) = (Inr r, e', log')"
  obtains p x e1 l where
    "on_packet ev cr ex terminal confirmed unswitched p (snd (ev_read ev e), log @ [Received p]) = (Inr x, e1, log @ Received p # l)"
    "list_all not_read l"
    "(case x of Return pf \<Rightarrow> r = Some pf \<and> log' = log @ Received p # l
      | Continue pf h \<Rightarrow> negotiate_loop fuel ev cr ex terminal pf h (e1, log @ Received p # l) = (Inr r, e', log'))"
proof -
  obtain q e0 where read: "ev_read ev e = (q, e0)" by fastforce
  with assms obtain p where q: "q = Inr p"
    by (cases q) (auto simp: do_read_def act_def)
  with assms read obtain x e1 log1 where step:
    "on_packet ev cr ex terminal confirmed unswitched p (e0, log @ [Received p]) = (Inr x, e1, log1)"
    and after: "(case x of Return pf \<Rightarrow> returnL (Some pf) | Continue pf h \<Rightarrow> negotiate_loop fuel ev cr ex terminal pf h)
      (e1, log1) = (Inr r, e', log')"
    by (auto simp: do_read_def act_def bindL_Inr)
  from adds_on_packet step obtain l where l: "log1 = (log @ [Received p]) @ l" "list_all not_read l" by (rule addsD)
  show ?thesis
    by (rule that [of p x e1 l]) (use step after l read in \<open>auto simp: returnL_iff split: loop_step.splits\<close>)
qed

lemma negotiate_loop_profile:
  assumes "negotiate_loop fuel ev cr ex terminal confirmed unswitched (e, log) = (Inr r, e', log')"
  shows "\<exists>l. log' = log @ l \<and> (\<forall>pf. r = Some pf \<longrightarrow>
    pf = confirmed \<and> le_answer ex ConfigurationFinished \<noteq> None \<or>
    (\<exists>p. Received p \<in> set l \<and> confirmed_by (ev_roles ev) ex pf p))"
  using assms
proof (induction fuel arbitrary: confirmed unswitched e log)
  case 0
  then show ?case by (simp add: returnL_iff)
next
  case (Suc fuel)
  from Suc.prems obtain p x e1 l where
    step: "on_packet ev cr ex terminal confirmed unswitched p (snd (ev_read ev e), log @ [Received p]) = (Inr x, e1, log @ Received p # l)"
    and after: "(case x of Return pf \<Rightarrow> r = Some pf \<and> log' = log @ Received p # l
      | Continue pf h \<Rightarrow> negotiate_loop fuel ev cr ex terminal pf h (e1, log @ Received p # l) = (Inr r, e', log'))"
    by (rule negotiate_loop_turn)
  note here = on_packet_Inr [OF step]
  show ?case
  proof (cases x)
    case (Return pf)
    with after here show ?thesis
      by (intro exI [of _ "Received p # l"]) (auto simp: step_profile_def)
  next
    case (Continue pf h)
    with after have "negotiate_loop fuel ev cr ex terminal pf h (e1, log @ Received p # l) = (Inr r, e', log')" by simp
    from Suc.IH [OF this] obtain l' where l': "log' = (log @ Received p # l) @ l'"
      "\<forall>pf'. r = Some pf' \<longrightarrow> pf' = pf \<and> le_answer ex ConfigurationFinished \<noteq> None \<or> (\<exists>p. Received p \<in> set l' \<and> confirmed_by (ev_roles ev) ex pf' p)" by blast
    with here Continue show ?thesis
      by (intro exI [of _ "Received p # l @ l'"]) (auto simp: step_profile_def)
  qed
qed

definition is_read :: "login_event \<Rightarrow> bool" where
  "is_read x \<longleftrightarrow> (\<exists>p. x = Received p)"

lemma is_read_iff: "is_read x = (case x of Received p \<Rightarrow> True | _ \<Rightarrow> False)"
  by (cases x) (simp_all add: is_read_def)

lemma not_read_filter: "list_all not_read l \<Longrightarrow> filter is_read l = []"
  by (auto simp: list_all_iff not_read_def is_read_def filter_empty_conv)

lemma negotiate_loop_reads:
  assumes "negotiate_loop fuel ev cr ex terminal confirmed unswitched (e, log) = (Inr None, e', log')"
  shows "length (filter is_read log') = length (filter is_read log) + fuel"
  using assms
proof (induction fuel arbitrary: confirmed unswitched e log)
  case 0
  then show ?case by (simp add: returnL_iff)
next
  case (Suc fuel)
  from Suc.prems obtain p x e1 l where l: "list_all not_read l" and
    after: "(case x of Return pf \<Rightarrow> None = Some pf \<and> log' = log @ Received p # l
      | Continue pf h \<Rightarrow> negotiate_loop fuel ev cr ex terminal pf h (e1, log @ Received p # l) = (Inr None, e', log'))"
    by (rule negotiate_loop_turn)
  then obtain pf h where
    "negotiate_loop fuel ev cr ex terminal pf h (e1, log @ Received p # l) = (Inr None, e', log')"
    by (cases x) auto
  moreover have "is_read (Received p)" by (simp add: is_read_def)
  ultimately show ?case using Suc.IH l by (fastforce simp: not_read_filter)
qed

section \<open>Both halves\<close>

text \<open>A packet as it arrives: what the session adds on the way in is the name and the payload.\<close>

definition arrives :: "protocol_packet \<Rightarrow> protocol_packet \<Rightarrow> bool" where
  "arrives p p' \<longleftrightarrow> p' = p\<lparr>gp_name := gp_name p', gp_payload := gp_payload p'\<rparr>"

text \<open>Every success that a log reads is one that the other log wrote.\<close>

definition wrote_it :: "protocol_packet \<Rightarrow> login_event \<Rightarrow> bool" where
  "wrote_it p' x = (case x of Wrote p ok \<Rightarrow> ok \<and> arrives p p' | _ \<Rightarrow> False)"

definition delivered ::
    "(string \<Rightarrow> byte \<Rightarrow> i32 \<Rightarrow> login_role option) \<Rightarrow> login_event list \<Rightarrow> login_event list \<Rightarrow> bool" where
  "delivered roles slog clog = list_all (\<lambda>x. case x of
     Received p' \<Rightarrow> role_of roles p' = Some LoginSuccess \<longrightarrow> list_ex (wrote_it p') slog
   | _ \<Rightarrow> True) clog"

lemma delivered_written:
  assumes "delivered roles slog clog" "Received p' \<in> set clog" "role_of roles p' = Some LoginSuccess"
  obtains p where "Wrote p True \<in> set slog" "arrives p p'"
proof -
  from assms obtain x where "x \<in> set slog" "wrote_it p' x"
    by (fastforce simp: delivered_def list_all_iff list_ex_iff)
  with that show thesis by (cases x) (auto simp: wrote_it_def)
qed

lemma arrives_role: "arrives p p' \<Longrightarrow> role_of roles p' = role_of roles p"
  unfolding arrives_def role_of_def by (metis protocol_packet.select_convs(1-3) protocol_packet.surjective
      protocol_packet.update_convs(4,5))

lemma negotiate_Inr:
  assumes "negotiate fuel ev cr (Some ex) terminal name (e, []) = (Inr r, e', log)"
  shows "\<exists>start l. log = Wrote start True # l \<and>
    le_start ex \<lparr>li_username = name, li_uuid = []\<rparr> = Inr start \<and> (\<forall>pf. r = Some pf \<longrightarrow>
      pf = zero_profile \<and> le_answer ex ConfigurationFinished \<noteq> None \<or>
      (\<exists>p. Received p \<in> set l \<and> confirmed_by (ev_roles ev) ex pf p))"
proof -
  from assms obtain start e1 where s: "le_start ex \<lparr>li_username = name, li_uuid = []\<rparr> = Inr start"
    and loop: "negotiate_loop fuel ev cr ex terminal zero_profile None (e1, [Wrote start True]) = (Inr r, e', log)"
    by (auto simp: negotiate_def login_acts bindL_Inr liftL_iff act_iff)
  from negotiate_loop_profile [OF loop] s show ?thesis by auto
qed

definition proper :: "profile \<Rightarrow> bool" where
  "proper pf \<longleftrightarrow> parse_username (pf_name pf) = Inr (pf_name pf) \<and> length (pf_uuid pf) = 16 \<and>
     \<not> uuid_is_zero (pf_uuid pf)"

context login_contract
begin

lemma written_success:
  assumes "acceptance ev cr ex a pf log" "ev_roles ev = roles"
    and "Wrote p True \<in> set log" "role_of roles p = Some LoginSuccess"
  shows "le_write_success ex \<lparr>li_username = pf_name pf, li_uuid = uuid_string (pf_uuid pf)\<rparr> = Inr p"
proof -
  from assms(1) obtain start username keys compression success rest where
    log: "log = Received start # keys @ compression @ Wrote success True # rest"
    and keys: "acceptance_keys ev cr ex a username pf keys"
    and comp: "if ac_compress a then \<exists>p. le_write_compression ex (ac_threshold a) = Some p \<and> compression = [Wrote p True]
      else compression = []"
    and success: "le_write_success ex \<lparr>li_username = pf_name pf, li_uuid = uuid_string (pf_uuid pf)\<rparr> = Inr success"
    and rest: "list_all (only_finishes ex) rest"
    unfolding acceptance_def by blast
  have "Wrote p True \<notin> set keys"
    using keys assms(4) request_read by (auto simp: acceptance_keys_def split: if_splits)
  moreover have "Wrote p True \<notin> set compression"
    using comp assms(4) compression_read by (auto split: if_splits)
  moreover have "Wrote p True \<notin> set rest"
    using rest assms(4) announce_role by (fastforce simp: list_all_iff only_finishes_def)
  ultimately show ?thesis using assms(3) log success by auto
qed

lemma success_agrees:
  assumes "le_write_success ex \<lparr>li_username = pf_name pf, li_uuid = uuid_string (pf_uuid pf)\<rparr> = Inr p"
    and "proper pf" "arrives p p'" "confirmed_by roles ex pf' p'"
  shows "pf' = pf"
proof -
  from assms(2) have u: "parse_uuid (uuid_string (pf_uuid pf)) = Inr (pf_uuid pf)"
    by (simp add: proper_def parse_uuid_string)
  with success_read [OF assms(1)] assms(2) obtain v where v: "le_read_success ex p = Inr v"
    "li_username v = pf_name pf" "parse_uuid (li_uuid v) = Inr (pf_uuid pf)"
    by (auto simp: proper_def)
  from assms(3) success_value have "le_read_success ex p' = le_read_success ex p"
    unfolding arrives_def by metis
  with assms(2,4) v show ?thesis by (auto simp: confirmed_by_def parse_identity_def proper_def)
qed

lemma halves_agree:
  assumes "accept fs evs crs (Some ex) a (es, []) = (Inr (Some pf), es', slog)" "ev_roles evs = roles"
    and "negotiate fc evc crc (Some ex) terminal name (ec, []) = (Inr (Some pf'), ec', clog)" "ev_roles evc = roles"
    and "delivered roles slog clog"
    and "proper pf"
  shows "pf' = pf \<or> pf' = zero_profile \<and> le_answer ex ConfigurationFinished \<noteq> None"
proof -
  from accept_Inr [OF assms(1)] have acc: "acceptance evs crs ex a pf slog" by auto
  from negotiate_Inr [OF assms(3)] assms(4) consider "pf' = zero_profile" "le_answer ex ConfigurationFinished \<noteq> None"
    | p' where "Received p' \<in> set clog" "confirmed_by roles ex pf' p'" by auto
  then show ?thesis
  proof cases
    case (2 p')
    then have r: "role_of roles p' = Some LoginSuccess" by (simp add: confirmed_by_def)
    from delivered_written [OF assms(5) 2(1) r] obtain p where p: "Wrote p True \<in> set slog" "arrives p p'" .
    from written_success [OF acc assms(2) p(1)] r arrives_role [OF p(2)] have
      "le_write_success ex \<lparr>li_username = pf_name pf, li_uuid = uuid_string (pf_uuid pf)\<rparr> = Inr p" by simp
    from success_agrees [OF this assms(6) p(2) 2(2)] show ?thesis by simp
  qed simp
qed

end

section \<open>A scripted environment\<close>

text \<open>The peer's packets are a list; one direction's switch may be made to fail. For witnesses.\<close>

definition scripted ::
    "(string \<Rightarrow> byte \<Rightarrow> i32 \<Rightarrow> login_role option) \<Rightarrow> byte \<Rightarrow> protocol_packet list login_env" where
  "scripted roles refused = \<lparr>
     ev_read = (\<lambda>s. case s of [] \<Rightarrow> (Inl EOF, []) | p # ps \<Rightarrow> (Inr p, ps)),
     ev_write = (\<lambda>p s. (Inr (), s)),
     ev_control = (\<lambda>half k s. (if half = refused then Inl ErrCanceled else Inr (), s)),
     ev_roles = roles, ev_snapshot = (\<lambda>s. (Inr ''play'', s)),
     ev_random = (\<lambda>n s. (Inr (replicate n 7), s)), ev_join = (\<lambda>h s. (Inr (), s)),
     ev_verify = (\<lambda>n h s. (Inr \<lparr>pf_name = [], pf_uuid = replicate 16 3\<rparr>, s)), ev_configure = None\<rparr>"

text \<open>The plain cryptography with a constant hash, so that no run computes with large numbers.\<close>

definition flat_crypto :: "(byte, byte) crypto" where
  "flat_crypto = plain_crypto\<lparr>sha1_sum := \<lambda>m. replicate 20 0\<rparr>"

definition no_print :: "i32 \<Rightarrow> bool" where "no_print r = False"

definition start_packet :: protocol_packet where
  "start_packet = built ''login'' serverbound 0 ''LoginServerboundLoginStart'' [VBytes [78, 111]]"

definition request_packet :: protocol_packet where
  "request_packet = built ''login'' clientbound 1 ''LoginClientboundEncryptionBegin''
     [VBytes [], VBytes [5], VBytes [1, 2, 3, 4]]"

definition response_packet :: protocol_packet where
  "response_packet = built ''login'' serverbound 1 ''LoginServerboundEncryptionBegin''
     [VBytes (5 # replicate 16 9), VBytes [5, 7, 7, 7, 7]]"

definition success_packet :: protocol_packet where
  "success_packet = built ''login'' clientbound 2 ''LoginClientboundSuccess''
     [VBytes (uuid_string (replicate 16 3)), VBytes [78, 111]]"

definition server :: "bool \<Rightarrow> byte acceptor" where
  "server online = \<lparr>ac_key = 5, ac_online = online, ac_server_id = [], ac_threshold = 256, ac_compress = True\<rparr>"

definition member :: profile where
  "member = \<lparr>pf_name = [78, 111], pf_uuid = replicate 16 3\<rparr>"

definition switches :: "login_event list \<Rightarrow> (byte \<times> bool) list" where
  "switches log = concat (map (\<lambda>x. case x of Switched half k ok \<Rightarrow> [(half, ok)] | _ \<Rightarrow> []) log)"

definition server_run :: "profile option result \<times> protocol_packet list \<times> login_event list" where
  "server_run = accept 0 (scripted login_role_47 9) flat_crypto (Some (exchange_47 no_print)) (server True)
     ([start_packet, response_packet], [])"

definition client_run :: "profile option result \<times> protocol_packet list \<times> login_event list" where
  "client_run = negotiate 3 (scripted login_role_47 9) flat_crypto (Some (exchange_47 no_print)) [] [78, 111]
     ([request_packet, success_packet], [])"

section \<open>Properties\<close>


lemma server_ran: "fst server_run = Inr (Some member)"
  by code_simp

lemma server_run_outcome:
  "accept 0 (scripted login_role_47 9) flat_crypto (Some (exchange_47 no_print)) (server True)
     ([start_packet, response_packet], []) = (Inr (Some member), fst (snd server_run), snd (snd server_run))"
  by (rule prod_eqI; simp add: server_run_def [symmetric] server_ran)


text \<open>
  C20: the order of a client's key exchange, whatever fails in it. If the server asked for it, the
  session server has accepted the join before anything else happens, and a refused join ends the
  exchange. The response is written only after the inbound cipher is in, and the outbound
  cipher goes in only after the response is out; nothing else is sent, and the exchange returns with
  the error of the outbound switch only.
\<close>

theorem key_exchange_order:
  assumes "negotiate_keys ev cr ex p (e, log) = (r, e', log')"
  shows "\<exists>joins acts. log' = log @ joins @ acts \<and> list_all is_join joins \<and>
    (acts \<noteq> [] \<longrightarrow> (\<exists>req secret response. le_read_request ex p = Inr req \<and> switching secret response acts \<and>
       (if er_authenticate req then \<exists>hash. joins = [Joined hash True] else joins = []))) \<and>
    (\<forall>lost. r = Inr lost \<longrightarrow> acts \<noteq> [] \<and> (\<exists>secret. last acts = Switched encryption_outbound secret (lost = None)))"
  using assms by (rule negotiate_keys_log)

definition keys_run :: "wire_error option result \<times> protocol_packet list \<times> login_event list" where
  "keys_run = negotiate_keys (scripted login_role_47 9) flat_crypto (exchange_47 no_print) request_packet ([], [])"

lemma keys_ran: "fst keys_run = Inr None"
  by code_simp

lemma keys_run_outcome:
  "negotiate_keys (scripted login_role_47 9) flat_crypto (exchange_47 no_print) request_packet ([], [])
     = (Inr None, fst (snd keys_run), snd (snd keys_run))"
  by (rule prod_eqI; simp add: keys_run_def [symmetric] keys_ran)

theorem key_exchange_order_witness:
  "\<exists>joins acts secret. snd (snd keys_run) = joins @ acts \<and> acts \<noteq> [] \<and>
     last acts = Switched encryption_outbound secret True"
  using key_exchange_order [OF keys_run_outcome] by auto

text \<open>
  C19: the two halves agree on the account in protocol 47. If a server accepted a login with a valid
  account, and every login success that a client read is one that this server wrote, as the
  session delivers it, then a client whose negotiation returns has the server's account.
\<close>

theorem login_agrees_47:
  assumes "accept fs evs crs (Some (exchange_47 ip)) a (es, []) = (Inr (Some pf), es', slog)"
    and "ev_roles evs = login_role_47"
    and "negotiate fc evc crc (Some (exchange_47 ip)) terminal name (ec, []) = (Inr (Some pf'), ec', clog)"
    and "ev_roles evc = login_role_47"
    and "delivered login_role_47 slog clog"
    and "proper pf"
  shows "pf' = pf"
  using login_47.halves_agree [OF assms] by (simp add: exchange_47_def no_step_def)

lemma client_ran: "fst client_run = Inr (Some member)"
  by code_simp

lemma client_run_outcome:
  "negotiate 3 (scripted login_role_47 9) flat_crypto (Some (exchange_47 no_print)) [] [78, 111]
     ([request_packet, success_packet], []) = (Inr (Some member), fst (snd client_run), snd (snd client_run))"
  by (rule prod_eqI; simp add: client_run_def [symmetric] client_ran)

lemma runs_delivered: "delivered login_role_47 (snd (snd server_run)) (snd (snd client_run))"
  by code_simp

lemma member_proper: "proper member"
  by code_simp

definition profile_of :: "profile option result \<Rightarrow> profile" where
  "profile_of r = (case r of Inr (Some pf) \<Rightarrow> pf | _ \<Rightarrow> zero_profile)"

lemma client_run_profile:
  "negotiate 3 (scripted login_role_47 9) flat_crypto (Some (exchange_47 no_print)) [] [78, 111]
     ([request_packet, success_packet], [])
     = (Inr (Some (profile_of (fst client_run))), fst (snd client_run), snd (snd client_run))"
  using client_run_outcome by (simp add: client_ran profile_of_def)

lemma scripted_roles: "ev_roles (scripted roles refused) = roles"
  by (simp add: scripted_def)

theorem login_agrees_47_witness: "profile_of (fst client_run) = member"
  by (rule login_agrees_47 [OF server_run_outcome scripted_roles client_run_profile scripted_roles
        runs_delivered member_proper])

text \<open>
  C37: a client whose outbound switch failed goes on reading, and a success that is already there
  outranks the failure: in a protocol that ends at success the negotiation returns the profile, with
  no error, although the last thing the key exchange did was the outbound switch that failed.
\<close>

theorem negotiate_unswitched:
  assumes "ev_read ev e0 = (Inr p, e)" "le_disconnect_reason ex p = None"
    and "role_of (ev_roles ev) p = Some EncryptionRequest"
    and "negotiate_keys ev cr ex p (e, log @ [Received p]) = (Inr (Some lost), e1, log1)"
    and "ev_read ev e1 = (Inr p', e2)" "le_disconnect_reason ex p' = None"
    and "confirmed_by (ev_roles ev) ex pf p'" "le_answer ex LoginAcknowledged = None"
  shows "(\<exists>secret. last log1 = Switched encryption_outbound secret False) \<and>
    negotiate_loop (Suc (Suc fuel)) ev cr ex terminal confirmed unswitched (e0, log)
      = (Inr (Some pf), e2, log1 @ [Received p'])"
proof
  from negotiate_keys_log [OF assms(4)] show "\<exists>secret. last log1 = Switched encryption_outbound secret False"
    by auto
  show "negotiate_loop (Suc (Suc fuel)) ev cr ex terminal confirmed unswitched (e0, log)
      = (Inr (Some pf), e2, log1 @ [Received p'])"
    using assms by (auto simp: do_read_def act_def bindL_def on_packet_def returnL_def on_success_def
        liftL_def confirmed_by_def)
qed

definition lost_run :: "wire_error option result \<times> protocol_packet list \<times> login_event list" where
  "lost_run = negotiate_keys (scripted login_role_47 encryption_outbound) flat_crypto (exchange_47 no_print)
     request_packet ([success_packet], [Received request_packet])"

lemma lost_ran: "fst lost_run = Inr (Some ErrCanceled)" "fst (snd lost_run) = [success_packet]"
  by code_simp+

lemma lost_run_outcome:
  "negotiate_keys (scripted login_role_47 encryption_outbound) flat_crypto (exchange_47 no_print)
     request_packet ([success_packet], [] @ [Received request_packet])
     = (Inr (Some ErrCanceled), [success_packet], snd (snd lost_run))"
  by (rule prod_eqI; (rule prod_eqI)?; simp add: lost_run_def [symmetric] lost_ran)

lemma success_confirms: "confirmed_by login_role_47 (exchange_47 no_print) member success_packet"
  unfolding confirmed_by_def
  by (intro conjI exI [of _ "\<lparr>li_username = [78, 111], li_uuid = uuid_string (replicate 16 3)\<rparr>"]; code_simp)

lemma scripted_packets:
  "role_of login_role_47 request_packet = Some EncryptionRequest"
  "le_disconnect_reason (exchange_47 no_print) request_packet = None"
  "le_disconnect_reason (exchange_47 no_print) success_packet = None"
  "le_answer (exchange_47 no_print) LoginAcknowledged = None"
  by code_simp+

theorem negotiate_unswitched_witness:
  "fst (negotiate_loop 2 (scripted login_role_47 encryption_outbound) flat_crypto (exchange_47 no_print) []
     zero_profile None ([request_packet, success_packet], [])) = Inr (Some member)"
  using negotiate_unswitched [of "scripted login_role_47 encryption_outbound" "[request_packet, success_packet]"
      request_packet "[success_packet]" "exchange_47 no_print" flat_crypto "[]" ErrCanceled "[success_packet]"
      "snd (snd lost_run)" success_packet "[]" member 0 "[]" zero_profile None, OF _ _ _ lost_run_outcome]
  by (simp add: scripted_packets success_confirms scripted_def numeral_2_eq_2)


lemma client_reads: "length (filter is_read (snd (snd client_run))) < 3"
  unfolding is_read_iff [abs_def] by code_simp



lemma server_threshold:
  "apply_acceptor_option (WithCompressionThreshold (2 ^ 32 - 1)) (server False)
     = Inr ((server False)\<lparr>ac_compress := True, ac_threshold := -1\<rparr>)"
  by (simp add: apply_acceptor_option_def)


end
