(* ===== verification/Replay_Player.thy ===== *)
theory Replay_Player
  imports Capture_Reader Session_V47 Session_V775
begin

text \<open>
  replay/player.go: a capture driven back through a session, or sent to a peer. The session is the interface of
  session.go, here the \<open>rs_\<close> functions of \<open>replay_env\<close>; both versions provide it. The clock, the
  context, SHA-256 and the transport's writer are the other functions of the record, over a state
  that the player does not look at. A float64 is its IEEE bits; only the product with a
  duration is a parameter.

  The functions recurse on the reader, which loses at least eight bytes of its source with every record.
\<close>

section \<open>The player\<close>

datatype replay_mode = ModeFast | ModeRecorded | ModeScaled | ModeStep | OtherMode gostring

text \<open>
  Errors keep the sequence number and the cause; \<open>PassedError\<close> is an error returned as it came, and
  \<open>NilSession\<close> stands for the panic of a player without a destination, which New never returns.
\<close>

datatype replay_error =
    ErrInvalidPlayer
  | ErrUnknownProtocol
  | ErrReplayLimits wire_error
  | ErrRedactedRecord i64
  | ErrReplayFailed i64 wire_error
  | PassedError wire_error
  | NilSession

record divergence =
  dv_sequence :: i64
  dv_recorded :: gostring
  dv_proposed :: gostring

record ('z, 'p, 't, 'w, 'e) replay_env =
  rs_inbound :: "'z \<Rightarrow> byte"
  rs_state :: "'z \<Rightarrow> gostring"
  rs_read :: "'z \<Rightarrow> bytes \<Rightarrow> bytes result"
  rs_decode :: "'z \<Rightarrow> bytes \<Rightarrow> 'p result"
  rs_propose :: "'z \<Rightarrow> 'p \<Rightarrow> 't option result"
  rs_validate :: "'z \<Rightarrow> 't \<Rightarrow> unit result"
  rs_apply :: "'t \<Rightarrow> 'z \<Rightarrow> 'z"
  rs_enter :: "gostring \<Rightarrow> 'z \<Rightarrow> 'z"
  rv_sha :: "bytes \<Rightarrow> bytes"
  rv_write :: "'w writer"
  rv_start :: "'e \<Rightarrow> 'e"
  rv_context :: "'e \<Rightarrow> wire_error option \<times> 'e"
  rv_since :: "'e \<Rightarrow> i64 \<times> 'e"
  rv_sleep :: "i64 \<Rightarrow> 'e \<Rightarrow> wire_error option \<times> 'e"
  rv_scaled :: "i64 \<Rightarrow> i64 \<Rightarrow> i64"

record ('z, 'w, 'e) player =
  py_reader :: capture_reader
  py_mode :: replay_mode
  py_scale :: i64
  py_session :: "'z option"
  py_transport :: "('w \<times> byte) option"
  py_digest :: bytes
  py_clock :: 'e
  py_started :: bool
  py_records :: int
  py_drift :: i64
  py_diverged :: "divergence list"
  py_primed :: bool
  py_exhausted :: bool

record replay_result =
  rr_records :: int
  rr_digest :: gostring
  rr_drift :: i64
  rr_diverged :: "divergence list"

section \<open>Building a player\<close>

text \<open>Comparisons of a float64 with zero, by its sign and magnitude; a NaN is neither.\<close>

definition float_zero :: "i64 \<Rightarrow> bool" where
  "float_zero x \<longleftrightarrow> x AND 0x7FFFFFFFFFFFFFFF = 0"

definition float_nan :: "i64 \<Rightarrow> bool" where
  "float_nan x \<longleftrightarrow> 0x7FF0000000000000 < x AND 0x7FFFFFFFFFFFFFFF"

definition float_negative :: "i64 \<Rightarrow> bool" where
  "float_negative x \<longleftrightarrow> x AND 0x8000000000000000 \<noteq> 0 \<and> \<not> float_zero x \<and> \<not> float_nan x"

definition float_one :: i64 where
  "float_one = 0x3FF0000000000000"

text \<open>A resolver is a lookup of session constructors; nil arguments are None.\<close>

type_synonym 'z resolver = "gostring \<Rightarrow> (byte \<Rightarrow> limits \<Rightarrow> 'z result) option"

datatype ('z, 'w) player_option =
    WithMode replay_mode
  | WithScale i64
  | WithSession "'z option"
  | WithResolver bool
  | WithTransport "'w option" byte
  | NilPlayerOption

fun apply_player_option ::
    "('z, 'w) player_option \<Rightarrow> ('z, 'w, 'e) player \<times> bool \<Rightarrow> replay_error + ('z, 'w, 'e) player \<times> bool" where
  "apply_player_option (WithMode m) (p, resolver) = (case m of
     OtherMode name \<Rightarrow> Inl ErrInvalidPlayer
   | _ \<Rightarrow> Inr (p\<lparr>py_mode := m\<rparr>, resolver))"
| "apply_player_option (WithScale x) (p, resolver) =
     (if float_negative x then Inl ErrInvalidPlayer else Inr (p\<lparr>py_scale := x\<rparr>, resolver))"
| "apply_player_option (WithSession z) (p, resolver) = (case z of
     None \<Rightarrow> Inl ErrInvalidPlayer
   | Some z' \<Rightarrow> Inr (p\<lparr>py_session := Some z'\<rparr>, resolver))"
| "apply_player_option (WithResolver given) (p, resolver) =
     (if \<not> given then Inl ErrInvalidPlayer else Inr (p, True))"
| "apply_player_option (WithTransport w dir) (p, resolver) = (case w of
     None \<Rightarrow> Inl ErrInvalidPlayer
   | Some w' \<Rightarrow> if dir \<noteq> clientbound \<and> dir \<noteq> serverbound then Inl ErrInvalidPlayer
       else Inr (p\<lparr>py_transport := Some (w', dir)\<rparr>, resolver))"
| "apply_player_option NilPlayerOption (p, resolver) = Inl ErrInvalidPlayer"

fun apply_player_options ::
    "('z, 'w) player_option list \<Rightarrow> ('z, 'w, 'e) player \<times> bool \<Rightarrow> replay_error + ('z, 'w, 'e) player \<times> bool" where
  "apply_player_options [] p = Inr p"
| "apply_player_options (x # xs) p = (case apply_player_option x p of
     Inl e \<Rightarrow> Inl e
   | Inr p' \<Rightarrow> apply_player_options xs p')"

text \<open>The bytes of server, and the offline destination made from the capture's header.\<close>

definition server_role :: gostring where
  "server_role = [115, 101, 114, 118, 101, 114]"

definition build_session :: "'z resolver option \<Rightarrow> capture_header \<Rightarrow> replay_error + 'z" where
  "build_session resolver h = (case resolver of
     None \<Rightarrow> Inl ErrInvalidPlayer
   | Some resolve \<Rightarrow> (case resolve (hd_protocol h) of
       None \<Rightarrow> Inl ErrUnknownProtocol
     | Some construct \<Rightarrow>
         (case new_limits [Some (max_frame_bytes (hd_frame_bytes h)),
             Some (max_decompressed_bytes (hd_decompressed_bytes h))] of
           Inl e \<Rightarrow> Inl (ErrReplayLimits e)
         | Inr lim \<Rightarrow> (case construct (if hd_role h = server_role then role_server else role_client) lim of
             Inl e \<Rightarrow> Inl (PassedError e)
           | Inr z \<Rightarrow> Inr z))))"

definition new_player ::
    "'z resolver \<Rightarrow> 'e \<Rightarrow> capture_reader option \<Rightarrow> ('z, 'w) player_option list \<Rightarrow>
      replay_error + ('z, 'w, 'e) player" where
  "new_player resolve clock reader opts = (case reader of
     None \<Rightarrow> Inl ErrInvalidPlayer
   | Some r \<Rightarrow>
       (case apply_player_options opts
           (\<lparr>py_reader = r, py_mode = ModeFast, py_scale = 0, py_session = None, py_transport = None,
             py_digest = new_digester, py_clock = clock, py_started = False, py_records = 0, py_drift = 0,
             py_diverged = [], py_primed = False, py_exhausted = False\<rparr>, False) of
         Inl e \<Rightarrow> Inl e
       | Inr (p, resolver) \<Rightarrow>
           if py_session p = None \<and> py_transport p = None then
             (case build_session (if resolver then Some resolve else None) (rd_header r) of
               Inl e \<Rightarrow> Inl e
             | Inr z \<Rightarrow> Inr (p\<lparr>py_session := Some z\<rparr>))
           else Inr p))"

section \<open>One record\<close>

definition wait_until :: "('z, 'p, 't, 'w, 'e) replay_env \<Rightarrow> i64 \<Rightarrow> capture_record \<Rightarrow>
    ('z, 'w, 'e) player \<Rightarrow> replay_error option \<times> ('z, 'w, 'e) player" where
  "wait_until ev x rec p =
     (let target = rv_scaled ev (cr_elapsed rec) x in
      case rv_since ev (py_clock p) of (since, c) \<Rightarrow>
        let behind = since - target;
            p' = p\<lparr>py_clock := c, py_drift := (if sint (py_drift p) < sint behind then behind else py_drift p)\<rparr>
        in if 0 \<le> sint behind then (None, p')
           else (case rv_sleep ev (- behind) c of
               (e, c') \<Rightarrow> (map_option PassedError e, p'\<lparr>py_clock := c'\<rparr>)))"

definition wait :: "('z, 'p, 't, 'w, 'e) replay_env \<Rightarrow> capture_record \<Rightarrow> ('z, 'w, 'e) player \<Rightarrow>
    replay_error option \<times> ('z, 'w, 'e) player" where
  "wait ev rec p = (case py_mode p of
     ModeFast \<Rightarrow> (None, p)
   | ModeStep \<Rightarrow> (None, p)
   | ModeRecorded \<Rightarrow> wait_until ev float_one rec p
   | ModeScaled \<Rightarrow> if float_zero (py_scale p) then (None, p) else wait_until ev (py_scale p) rec p
   | OtherMode _ \<Rightarrow> wait_until ev (py_scale p) rec p)"

definition prime :: "('z, 'p, 't, 'w, 'e) replay_env \<Rightarrow> capture_record \<Rightarrow> 'z \<Rightarrow> 'z" where
  "prime ev rec z = (if cr_before rec = [] \<or> rs_state ev z = cr_before rec then z
     else rs_enter ev (cr_before rec) z)"

definition follow :: "('z, 'p, 't, 'w, 'e) replay_env \<Rightarrow> capture_record \<Rightarrow> 'p \<Rightarrow> 'z \<Rightarrow> replay_error + 'z" where
  "follow ev rec q z = (case rs_propose ev z q of
     Inl e \<Rightarrow> Inl (ErrReplayFailed (cr_sequence rec) e)
   | Inr None \<Rightarrow> Inr z
   | Inr (Some t) \<Rightarrow> (case rs_validate ev z t of
       Inl e \<Rightarrow> Inl (ErrReplayFailed (cr_sequence rec) e)
     | Inr _ \<Rightarrow> Inr (rs_apply ev t z)))"

definition reconcile :: "('z, 'p, 't, 'w, 'e) replay_env \<Rightarrow> capture_record \<Rightarrow> 'z \<Rightarrow> 'z \<times> divergence list" where
  "reconcile ev rec z =
     (if cr_state rec = [] \<or> rs_state ev z = cr_state rec then (z, [])
      else (rs_enter ev (cr_state rec) z,
        if cr_direction rec = rs_inbound ev z
        then [\<lparr>dv_sequence = cr_sequence rec, dv_recorded = cr_state rec, dv_proposed = rs_state ev z\<rparr>]
        else []))"

text \<open>The frame of a raw record, through the session.\<close>

definition decode_raw :: "('z, 'p, 't, 'w, 'e) replay_env \<Rightarrow> capture_record \<Rightarrow> 'z \<Rightarrow> replay_error + 'z" where
  "decode_raw ev rec z =
     (if cr_kind rec \<noteq> KindRawFrame then Inr z
      else if cr_redacted rec then Inr z
      else if cr_direction rec \<noteq> rs_inbound ev z then Inr z
      else case rs_read ev z (cr_payload rec) of
        Inl e \<Rightarrow> Inl (ErrReplayFailed (cr_sequence rec) e)
      | Inr payload \<Rightarrow> (case rs_decode ev z payload of
          Inl e \<Rightarrow> Inl (ErrReplayFailed (cr_sequence rec) e)
        | Inr q \<Rightarrow> follow ev rec q z))"

definition replay_decode :: "('z, 'p, 't, 'w, 'e) replay_env \<Rightarrow> capture_record \<Rightarrow> ('z, 'w, 'e) player \<Rightarrow>
    replay_error option \<times> ('z, 'w, 'e) player" where
  "replay_decode ev rec p = (case py_session p of
     None \<Rightarrow> (Some NilSession, p)
   | Some z0 \<Rightarrow>
       let z = (if py_primed p then z0 else prime ev rec z0);
           p' = p\<lparr>py_primed := True, py_session := Some z\<rparr>
       in if cr_kind rec = KindPacket then
            (case reconcile ev rec z of (z', ds) \<Rightarrow>
              (None, p'\<lparr>py_session := Some z', py_diverged := py_diverged p @ ds\<rparr>))
          else (case decode_raw ev rec z of
              Inl e \<Rightarrow> (Some e, p')
            | Inr z' \<Rightarrow> (None, p'\<lparr>py_session := Some z'\<rparr>)))"

definition replay_send :: "('z, 'p, 't, 'w, 'e) replay_env \<Rightarrow> capture_record \<Rightarrow> 'w \<times> byte \<Rightarrow>
    ('z, 'w, 'e) player \<Rightarrow> replay_error option \<times> ('z, 'w, 'e) player" where
  "replay_send ev rec peer p = (case peer of (w, dir) \<Rightarrow>
     if cr_kind rec \<noteq> KindRawFrame \<or> cr_direction rec \<noteq> dir then (None, p)
     else if cr_redacted rec then (Some (ErrRedactedRecord (cr_sequence rec)), p)
     else (case rv_write ev w (cr_payload rec) of (n, e, w') \<Rightarrow>
       (map_option (ErrReplayFailed (cr_sequence rec)) e, p\<lparr>py_transport := Some (w', dir)\<rparr>)))"

definition replay_apply :: "('z, 'p, 't, 'w, 'e) replay_env \<Rightarrow> capture_record \<Rightarrow> ('z, 'w, 'e) player \<Rightarrow>
    replay_error option \<times> ('z, 'w, 'e) player" where
  "replay_apply ev rec p = (case py_transport p of
     Some peer \<Rightarrow> replay_send ev rec peer p
   | None \<Rightarrow> replay_decode ev rec p)"

definition count_record :: "('z, 'p, 't, 'w, 'e) replay_env \<Rightarrow> capture_record \<Rightarrow> ('z, 'w, 'e) player \<Rightarrow>
    ('z, 'w, 'e) player" where
  "count_record ev rec p = p\<lparr>py_digest := digest_add (rv_sha ev) (py_digest p) rec, py_records := py_records p + 1\<rparr>"

text \<open>What Next does with a replayable record: wait, apply, count.\<close>

definition take_record :: "('z, 'p, 't, 'w, 'e) replay_env \<Rightarrow> capture_record \<Rightarrow> ('z, 'w, 'e) player \<Rightarrow>
    (replay_error + capture_record) \<times> ('z, 'w, 'e) player" where
  "take_record ev rec p = (case wait ev rec p of
     (Some e, p') \<Rightarrow> (Inl e, p')
   | (None, p') \<Rightarrow> (case replay_apply ev rec p' of
       (Some e, p'') \<Rightarrow> (Inl e, p'')
     | (None, p'') \<Rightarrow> (Inr rec, count_record ev rec p'')))"

section \<open>Next and Run\<close>

text \<open>One turn of the loop of Next: None for a record that is skipped.\<close>

definition next_turn :: "('z, 'p, 't, 'w, 'e) replay_env \<Rightarrow> ('z, 'w, 'e) player \<Rightarrow>
    (replay_error + capture_record) option \<times> ('z, 'w, 'e) player" where
  "next_turn ev p = (case rv_context ev (py_clock p) of
     (Some e, c) \<Rightarrow> (Some (Inl (PassedError e)), p\<lparr>py_clock := c\<rparr>)
   | (None, c) \<Rightarrow> (case capture_next (py_reader p) of
       (Inl e, r) \<Rightarrow> (Some (Inl (PassedError e)),
         p\<lparr>py_clock := c, py_reader := r, py_exhausted := py_exhausted p \<or> e = ErrEndOfCapture\<rparr>)
     | (Inr rec, r) \<Rightarrow>
         let p' = p\<lparr>py_clock := c, py_reader := r\<rparr>
         in if \<not> replayable rec then (None, p')
            else (case take_record ev rec p' of (res, p'') \<Rightarrow> (Some res, p''))))"

lemma take_record_reader:
  "take_record ev rec p = (res, p') \<Longrightarrow> py_reader p' = py_reader p"
  by (auto simp: take_record_def wait_def wait_until_def replay_apply_def replay_send_def replay_decode_def
      count_record_def Let_def split: prod.splits option.splits replay_mode.splits if_splits sum.splits)

lemma next_turn_shorter:
  assumes "next_turn ev p = (res, p')" "res = None \<or> (\<exists>rec. res = Some (Inr rec))"
  shows "length (rd_source (py_reader p')) < length (rd_source (py_reader p))"
  using assms capture_next_delivers [of "py_reader p"]
  by (fastforce simp: next_turn_def Let_def dest: take_record_reader
      split: prod.splits option.splits sum.splits if_splits)

function next_record :: "('z, 'p, 't, 'w, 'e) replay_env \<Rightarrow> ('z, 'w, 'e) player \<Rightarrow>
    (replay_error + capture_record) \<times> ('z, 'w, 'e) player" where
  "next_record ev p = (case next_turn ev p of
     (None, p') \<Rightarrow> next_record ev p'
   | (Some res, p') \<Rightarrow> (res, p'))"
  by pat_completeness auto
termination
  by (relation "measure (\<lambda>(ev, p). length (rd_source (py_reader p)))") (auto intro!: next_turn_shorter [OF sym])

declare next_record.simps [simp del]

definition player_next :: "('z, 'p, 't, 'w, 'e) replay_env \<Rightarrow> ('z, 'w, 'e) player \<Rightarrow>
    (replay_error + capture_record) \<times> ('z, 'w, 'e) player" where
  "player_next ev p = next_record ev (if py_started p then p
     else p\<lparr>py_started := True, py_clock := rv_start ev (py_clock p)\<rparr>)"

definition player_result :: "('z, 'p, 't, 'w, 'e) replay_env \<Rightarrow> ('z, 'w, 'e) player \<Rightarrow> replay_result" where
  "player_result ev p = \<lparr>rr_records = py_records p, rr_digest = digest_sum (rv_sha ev) (py_digest p),
     rr_drift = py_drift p, rr_diverged = py_diverged p\<rparr>"

lemma next_record_shorter:
  "next_record ev p = (Inr rec, p') \<Longrightarrow> length (rd_source (py_reader p')) < length (rd_source (py_reader p))"
proof (induction ev p rule: next_record.induct)
  case (1 ev p)
  show ?case
  proof (cases "next_turn ev p")
    case (Pair res q)
    show ?thesis
    proof (cases res)
      case None
      with Pair "1.prems" have "next_record ev q = (Inr rec, p')" by (subst (asm) next_record.simps) simp
      with "1.IH" [OF Pair [symmetric] None] next_turn_shorter [OF Pair] None show ?thesis by auto
    next
      case (Some a)
      with Pair "1.prems" have "a = Inr rec \<and> q = p'" by (subst (asm) next_record.simps) simp
      with next_turn_shorter [OF Pair] Some show ?thesis by auto
    qed
  qed
qed

lemma player_next_shorter:
  "player_next ev p = (Inr rec, p') \<Longrightarrow> length (rd_source (py_reader p')) < length (rd_source (py_reader p))"
  by (auto simp: player_next_def dest!: next_record_shorter split: if_splits)

function player_run :: "('z, 'p, 't, 'w, 'e) replay_env \<Rightarrow> ('z, 'w, 'e) player \<Rightarrow>
    (replay_result \<times> replay_error option) \<times> ('z, 'w, 'e) player" where
  "player_run ev p = (case player_next ev p of
     (Inr rec, p') \<Rightarrow> player_run ev p'
   | (Inl e, p') \<Rightarrow> ((player_result ev p', if e = PassedError ErrEndOfCapture then None else Some e), p'))"
  by pat_completeness auto
termination
  by (relation "measure (\<lambda>(ev, p). length (rd_source (py_reader p)))") (auto intro!: player_next_shorter [OF sym])

declare player_run.simps [simp del]

end
