(* ===== verification/Replay_Laws.thy ===== *)
theory Replay_Laws
  imports Replay_Player
begin

text \<open>
  What a replay learns. A run that ends without an error has read the whole capture, and its digest is the
  one over exactly the replayable records; in fast mode a run is the fold of one record's step over the
  capture. The interface \<open>replay_session\<close> gives the states a replay follows; both versions' sessions are
  interpretations. A capture that a client of protocol 47 took replays without a divergence; one that a
  server took does not replay once compression is set.
\<close>

section \<open>The records a player reads\<close>

fun reads :: "capture_reader \<Rightarrow> capture_record list \<Rightarrow> capture_reader \<Rightarrow> bool" where
  "reads r [] r' \<longleftrightarrow> r' = r"
| "reads r (x # xs) r' \<longleftrightarrow> (\<exists>r1. capture_next r = (Inr x, r1) \<and> reads r1 xs r')"

lemma reads_records:
  "reads r xs r1 \<Longrightarrow> capture_next r1 = (Inl e, r') \<Longrightarrow>
   read_records (Suc (length xs) + n) r = (xs, Some e, r')"
  by (induction xs arbitrary: r) auto

lemma read_records_reads:
  "read_records n r = (xs, Some e, r') \<Longrightarrow> \<exists>r1. reads r xs r1 \<and> capture_next r1 = (Inl e, r')"
proof (induction n arbitrary: r xs)
  case (Suc n)
  then show ?case
    by (cases "capture_next r") (fastforce split: sum.splits prod.splits)
qed simp

lemma next_turn_skip:
  assumes "next_turn ev p = (None, q)"
  obtains rec c r where "capture_next (py_reader p) = (Inr rec, r)" "\<not> replayable rec"
    "q = p\<lparr>py_clock := c, py_reader := r\<rparr>"
  using assms by (auto simp: next_turn_def Let_def split: prod.splits option.splits sum.splits if_splits)

lemma take_record_Inr:
  assumes "take_record ev rec p = (Inr rec', q)"
  shows "rec' = rec \<and> py_digest q = digest_add (rv_sha ev) (py_digest p) rec \<and>
    py_records q = py_records p + 1 \<and> py_reader q = py_reader p"
  using assms take_record_reader [OF assms]
  by (auto simp: take_record_def wait_def wait_until_def replay_apply_def replay_send_def replay_decode_def
      count_record_def Let_def split: prod.splits option.splits replay_mode.splits if_splits sum.splits)

lemma next_turn_Inr:
  assumes "next_turn ev p = (Some (Inr rec), q)"
  shows "capture_next (py_reader p) = (Inr rec, py_reader q) \<and> replayable rec \<and>
    py_digest q = digest_add (rv_sha ev) (py_digest p) rec \<and> py_records q = py_records p + 1"
  using assms by (auto simp: next_turn_def Let_def dest!: take_record_Inr
      split: prod.splits option.splits sum.splits if_splits)

text \<open>A context's error is its own: never the end of a capture.\<close>

definition plain_context :: "('z, 'p, 't, 'w, 'e) replay_env \<Rightarrow> bool" where
  "plain_context ev \<longleftrightarrow> (\<forall>c. fst (rv_context ev c) \<noteq> Some ErrEndOfCapture) \<and>
     (\<forall>d c. fst (rv_sleep ev d c) \<noteq> Some ErrEndOfCapture)"

lemma wait_end: "plain_context ev \<Longrightarrow> fst (wait ev rec p) \<noteq> Some (PassedError ErrEndOfCapture)"
proof (cases "py_mode p")
  case ModeRecorded
  assume "plain_context ev"
  then have "fst (rv_sleep ev d c) \<noteq> Some ErrEndOfCapture" for d c by (simp add: plain_context_def)
  with ModeRecorded show ?thesis by (auto simp: wait_def wait_until_def Let_def split_beta)
next
  case ModeScaled
  assume "plain_context ev"
  then have "fst (rv_sleep ev d c) \<noteq> Some ErrEndOfCapture" for d c by (simp add: plain_context_def)
  with ModeScaled show ?thesis by (auto simp: wait_def wait_until_def Let_def split_beta)
next
  case (OtherMode x)
  assume "plain_context ev"
  then have "fst (rv_sleep ev d c) \<noteq> Some ErrEndOfCapture" for d c by (simp add: plain_context_def)
  with OtherMode show ?thesis by (auto simp: wait_def wait_until_def Let_def split_beta)
qed (simp_all add: wait_def)

lemma decode_raw_passed: "decode_raw ev rec z \<noteq> Inl (PassedError e)"
  by (simp add: decode_raw_def follow_def split: sum.split option.split)

lemma replay_apply_passed: "fst (replay_apply ev rec p) \<noteq> Some (PassedError e)"
  using decode_raw_passed [of ev rec]
  by (auto simp: replay_apply_def replay_send_def replay_decode_def Let_def split: prod.split option.split sum.split)

lemma take_record_end:
  assumes "plain_context ev"
  shows "take_record ev rec p \<noteq> (Inl (PassedError ErrEndOfCapture), q)"
proof -
  obtain e1 p1 where w: "wait ev rec p = (e1, p1)" by fastforce
  obtain e2 p2 where a: "replay_apply ev rec p1 = (e2, p2)" by fastforce
  from wait_end [OF assms, of rec p] replay_apply_passed [of ev rec p1 ErrEndOfCapture] w a show ?thesis
    by (cases e1; cases e2; auto simp: take_record_def)
qed

lemma next_turn_end:
  assumes "plain_context ev" "next_turn ev p = (Some (Inl (PassedError ErrEndOfCapture)), q)"
  shows "capture_next (py_reader p) = (Inl ErrEndOfCapture, py_reader q) \<and>
    py_digest q = py_digest p \<and> py_records q = py_records p"
proof -
  obtain e c where ctx: "rv_context ev (py_clock p) = (e, c)" by fastforce
  with assms(1) have "e \<noteq> Some ErrEndOfCapture" unfolding plain_context_def by (metis fst_conv)
  with ctx assms(2) have e: "e = None" by (cases e) (auto simp: next_turn_def)
  obtain a r where read: "capture_next (py_reader p) = (a, r)" by fastforce
  show ?thesis
  proof (cases a)
    case (Inl x)
    with ctx e read assms(2) show ?thesis by (auto simp: next_turn_def)
  next
    case (Inr rec)
    with ctx e read assms(2) take_record_end [OF assms(1)] show ?thesis
      by (auto simp: next_turn_def Let_def split: if_splits prod.splits)
  qed
qed

text \<open>What Next and Run have read, and what they made of it.\<close>

definition took :: "('z, 'p, 't, 'w, 'e) replay_env \<Rightarrow> ('z, 'w, 'e) player \<Rightarrow> capture_record list \<Rightarrow>
    ('z, 'w, 'e) player \<Rightarrow> bool" where
  "took ev p rs q \<longleftrightarrow> py_digest q = foldl (digest_add (rv_sha ev)) (py_digest p) rs \<and>
     py_records q = py_records p + int (length (filter replayable rs))"

lemma span_took_Nil [simp]: "took ev p [] p"
  by (simp add: took_def)

lemma digest_add_skip: "\<not> replayable rec \<Longrightarrow> digest_add sha d rec = d"
  by (simp add: digest_add_def)

lemma next_record_reads:
  assumes "next_record ev p = (res, q)" "plain_context ev"
  shows "(\<forall>rec. res = Inr rec \<longrightarrow> (\<exists>xs. reads (py_reader p) xs (py_reader q) \<and> took ev p xs q)) \<and>
    (res = Inl (PassedError ErrEndOfCapture) \<longrightarrow>
      (\<exists>xs r. reads (py_reader p) xs r \<and> capture_next r = (Inl ErrEndOfCapture, py_reader q) \<and> took ev p xs q))"
  using assms
proof (induction ev p rule: next_record.induct)
  case (1 ev p)
  obtain a q1 where turn: "next_turn ev p = (a, q1)" by fastforce
  show ?case
  proof (cases a)
    case None
    with turn "1.prems"(1) have rest: "next_record ev q1 = (res, q)" by (subst (asm) next_record.simps) simp
    from turn None obtain rec c r where skip: "capture_next (py_reader p) = (Inr rec, r)" "\<not> replayable rec"
      "q1 = p\<lparr>py_clock := c, py_reader := r\<rparr>" using next_turn_skip by metis
    then have cons: "reads (py_reader p) (rec # xs) r' \<longleftrightarrow> reads (py_reader q1) xs r'"
      "took ev p (rec # xs) q \<longleftrightarrow> took ev q1 xs q" for xs r'
      by (simp_all add: took_def digest_add_skip)
    from "1.IH" [OF turn [symmetric] None rest "1.prems"(2)] show ?thesis
      using cons by blast
  next
    case (Some x)
    with turn "1.prems"(1) have x: "x = res" "q1 = q" by (subst (asm) next_record.simps; simp)+
    show ?thesis
    proof (cases res)
      case (Inr rec)
      from next_turn_Inr [OF turn [unfolded Some x Inr]] have
        "reads (py_reader p) [rec] (py_reader q)" "took ev p [rec] q" by (simp_all add: took_def)
      with Inr show ?thesis by blast
    next
      case (Inl e)
      show ?thesis
      proof (intro conjI impI allI)
        assume "res = Inl (PassedError ErrEndOfCapture)"
        with next_turn_end [OF "1.prems"(2)] turn Some x have
          "capture_next (py_reader p) = (Inl ErrEndOfCapture, py_reader q)" "took ev p [] q"
          by (auto simp: took_def)
        then show "\<exists>xs r. reads (py_reader p) xs r \<and> capture_next r = (Inl ErrEndOfCapture, py_reader q) \<and> took ev p xs q"
          by (metis reads.simps(1))
      qed (use Inl in simp)
    qed
  qed
qed

lemma reads_append: "reads r (xs @ ys) r' \<longleftrightarrow> (\<exists>r1. reads r xs r1 \<and> reads r1 ys r')"
  by (induction xs arbitrary: r) auto

lemma span_took_append: "took ev p xs q \<Longrightarrow> took ev q ys q' \<Longrightarrow> took ev p (xs @ ys) q'"
  by (simp add: took_def)

definition begun :: "('z, 'p, 't, 'w, 'e) replay_env \<Rightarrow> ('z, 'w, 'e) player \<Rightarrow> ('z, 'w, 'e) player" where
  "begun ev p = (if py_started p then p else p\<lparr>py_started := True, py_clock := rv_start ev (py_clock p)\<rparr>)"

lemma begun_fields [simp]:
  "py_reader (begun ev p) = py_reader p" "py_digest (begun ev p) = py_digest p" "py_records (begun ev p) = py_records p"
  "py_mode (begun ev p) = py_mode p" "py_started (begun ev p)"
  by (simp_all add: begun_def)

lemma took_begun [simp]: "took ev (begun ev p) xs q \<longleftrightarrow> took ev p xs q"
  by (simp add: took_def)

lemma player_next_begun: "player_next ev p = next_record ev (begun ev p)"
  by (simp add: player_next_def begun_def)

lemma player_run_reads:
  assumes "player_run ev p = ((res, None), q)" "plain_context ev"
  shows "\<exists>xs r. reads (py_reader p) xs r \<and> capture_next r = (Inl ErrEndOfCapture, py_reader q) \<and>
    took ev p xs q \<and> res = player_result ev q"
  using assms
proof (induction ev p rule: player_run.induct)
  case (1 ev p)
  obtain a q1 where step: "player_next ev p = (a, q1)" by fastforce
  note here = next_record_reads [OF step [unfolded player_next_begun] "1.prems"(2)]
  show ?case
  proof (cases a)
    case (Inl e)
    with step "1.prems"(1) have "e = PassedError ErrEndOfCapture" "q1 = q" "res = player_result ev q"
      by (subst (asm) player_run.simps; simp split: if_splits)+
    with here Inl show ?thesis by auto
  next
    case (Inr rec)
    with step "1.prems"(1) have rest: "player_run ev q1 = ((res, None), q)"
      by (subst (asm) player_run.simps) simp
    from here Inr obtain xs where xs: "reads (py_reader p) xs (py_reader q1)" "took ev p xs q1" by auto
    from "1.IH" [OF step [symmetric] Inr rest "1.prems"(2)] obtain ys r where
      "reads (py_reader q1) ys r" "capture_next r = (Inl ErrEndOfCapture, py_reader q)" "took ev q1 ys q"
      "res = player_result ev q" by blast
    with xs show ?thesis
      by (intro exI [of _ "xs @ ys"] exI [of _ r]) (auto simp: reads_append intro: span_took_append)
  qed
qed

section \<open>Fast runs\<close>

text \<open>A run with no context and no timing: the step of each record, over the records.\<close>

fun apply_all :: "('z, 'p, 't, 'w, 'e) replay_env \<Rightarrow> capture_record list \<Rightarrow> ('z, 'w, 'e) player \<Rightarrow>
    replay_error option \<times> ('z, 'w, 'e) player" where
  "apply_all ev [] p = (None, p)"
| "apply_all ev (rec # rs) p =
     (if \<not> replayable rec then apply_all ev rs p
      else case replay_apply ev rec p of
        (Some e, p') \<Rightarrow> (Some e, p')
      | (None, p') \<Rightarrow> apply_all ev rs (count_record ev rec p'))"

definition idle :: "('z, 'p, 't, 'w, 'e) replay_env \<Rightarrow> bool" where
  "idle ev \<longleftrightarrow> (\<forall>c. rv_context ev c = (None, c)) \<and> (\<forall>c. rv_start ev c = c)"

definition untimed :: "('z, 'w, 'e) player \<Rightarrow> bool" where
  "untimed p \<longleftrightarrow> py_mode p = ModeFast \<or> py_mode p = ModeStep \<or> py_mode p = ModeScaled \<and> float_zero (py_scale p)"

text \<open>The fields that reading moves and a record's step neither reads nor writes.\<close>

definition placed :: "capture_reader \<Rightarrow> bool \<Rightarrow> bool \<Rightarrow> ('z, 'w, 'e) player \<Rightarrow> ('z, 'w, 'e) player" where
  "placed r started exhausted p = p\<lparr>py_reader := r, py_started := started, py_exhausted := exhausted\<rparr>"

lemma placed_fields [simp]:
  "py_reader (placed r b x p) = r" "py_clock (placed r b x p) = py_clock p" "py_mode (placed r b x p) = py_mode p"
  "py_scale (placed r b x p) = py_scale p" "py_exhausted (placed r b x p) = x" "py_started (placed r b x p) = b"
  "py_transport (placed r b x p) = py_transport p" "py_session (placed r b x p) = py_session p"
  "py_diverged (placed r b x p) = py_diverged p" "py_digest (placed r b x p) = py_digest p"
  "py_records (placed r b x p) = py_records p" "py_primed (placed r b x p) = py_primed p"
  "py_drift (placed r b x p) = py_drift p"
  by (simp_all add: placed_def)

lemma placed_placed [simp]: "placed r' b' x' (placed r b x p) = placed r' b' x' p"
  by (simp add: placed_def)

lemma replay_apply_placed:
  "replay_apply ev rec (placed r b x p) = map_prod id (placed r b x) (replay_apply ev rec p)"
  by (simp add: replay_apply_def replay_send_def replay_decode_def placed_def Let_def split: option.split prod.split sum.split)

lemma replay_apply_untimed:
  "replay_apply ev rec p = (e, p') \<Longrightarrow> py_mode p' = py_mode p \<and> py_scale p' = py_scale p \<and> py_clock p' = py_clock p"
  by (auto simp: replay_apply_def replay_send_def replay_decode_def Let_def
      split: option.splits prod.splits sum.splits if_splits)

lemma count_record_placed:
  "count_record ev rec (placed r b x p) = placed r b x (count_record ev rec p)"
  by (simp add: count_record_def placed_def)

lemma untimed_wait: "untimed p \<Longrightarrow> wait ev rec p = (None, p)"
  by (auto simp: untimed_def wait_def)

lemma run_turn:
  "player_run ev p = (case next_turn ev (begun ev p) of
     (None, q) \<Rightarrow> player_run ev q
   | (Some (Inr rec), q) \<Rightarrow> player_run ev q
   | (Some (Inl e), q) \<Rightarrow> ((player_result ev q, if e = PassedError ErrEndOfCapture then None else Some e), q))"
proof -
  obtain a q where turn: "next_turn ev (begun ev p) = (a, q)" by fastforce
  show ?thesis
  proof (cases a)
    case None
    with turn obtain rec c r where "q = (begun ev p)\<lparr>py_clock := c, py_reader := r\<rparr>" by (metis next_turn_skip)
    then have "begun ev q = q" by (simp add: begun_def)
    then show ?thesis
      using turn None
      by (simp add: player_run.simps [of ev p] player_run.simps [of ev q] player_next_begun
          next_record.simps [of ev "begun ev p"])
  next
    case (Some x)
    then show ?thesis
      using turn
      by (cases x) (simp_all add: player_run.simps [of ev p] player_next_begun next_record.simps [of ev "begun ev p"])
  qed
qed

text \<open>The three ways a turn ends in a run without context and timing.\<close>

lemma idle_turn:
  assumes "idle ev" "untimed p"
  shows "next_turn ev (begun ev p) = (case capture_next (py_reader p) of
     (Inl e, r) \<Rightarrow> (Some (Inl (PassedError e)), placed r True (py_exhausted p \<or> e = ErrEndOfCapture) p)
   | (Inr rec, r) \<Rightarrow> if \<not> replayable rec then (None, placed r True (py_exhausted p) p)
       else (case replay_apply ev rec p of
           (Some e, q) \<Rightarrow> (Some (Inl e), placed r True (py_exhausted p) q)
         | (None, q) \<Rightarrow> (Some (Inr rec), placed r True (py_exhausted p) (count_record ev rec q))))"
proof -
  have b: "begun ev p = placed (py_reader p) True (py_exhausted p) p"
    using assms(1) by (simp add: begun_def idle_def placed_def)
  have u: "untimed (placed r b x p)" for r b x using assms(2) by (simp add: untimed_def)
  have moved: "placed r b x p\<lparr>py_clock := py_clock p, py_reader := r'\<rparr> = placed r' b x p"
    "placed r b x p\<lparr>py_clock := py_clock p, py_reader := r', py_exhausted := x'\<rparr> = placed r' b x' p" for r r' b x x'
    by (simp_all add: placed_def)
  show ?thesis
    using assms(1) unfolding b
    by (simp add: next_turn_def idle_def moved take_record_def untimed_wait [OF u] replay_apply_placed
        count_record_placed Let_def split: prod.split sum.split option.split)
qed

lemma fast_run:
  assumes "idle ev" "untimed p" "reads (py_reader p) rs r1" "capture_next r1 = (Inl e, r')"
  shows "case apply_all ev rs p of
     (None, q) \<Rightarrow> player_run ev p = ((player_result ev q, if e = ErrEndOfCapture then None else Some (PassedError e)),
       placed r' True (py_exhausted p \<or> e = ErrEndOfCapture) q)
   | (Some err, q) \<Rightarrow> \<exists>r. player_run ev p = ((player_result ev q, Some err), placed r True (py_exhausted p) q)"
  using assms(2,3)
proof (induction rs arbitrary: p)
  case Nil
  with assms(4) show ?case
    by (simp add: run_turn [of ev p] idle_turn [OF assms(1)] player_result_def)
next
  case (Cons rec rs)
  then obtain r where read: "capture_next (py_reader p) = (Inr rec, r)" "reads r rs r1" by auto
  note turn = idle_turn [OF assms(1) Cons.prems(1), unfolded read(1), simplified]
  have shifted: "apply_all ev rs (placed r b x p) = map_prod id (placed r b x) (apply_all ev rs p)" for r b x p rs
    by (induction rs arbitrary: p) (auto simp: replay_apply_placed count_record_placed split: prod.split option.split)
  show ?case
  proof (cases "replayable rec")
    case False
    have u: "untimed (placed r True (py_exhausted p) p)" using Cons.prems(1) by (simp add: untimed_def)
    from Cons.IH [OF u] read(2) False show ?thesis
      by (auto simp: run_turn [of ev p] turn shifted player_result_def split: prod.splits option.splits) (rule exI, rule refl)+
  next
    case True
    obtain f q where f: "replay_apply ev rec p = (f, q)" by fastforce
    show ?thesis
    proof (cases f)
      case (Some err)
      with f replay_apply_passed [of ev rec p ErrEndOfCapture] have "err \<noteq> PassedError ErrEndOfCapture" by auto
      with True f Some show ?thesis
        by (auto simp: run_turn [of ev p] turn player_result_def)
    next
      case None
      have u: "untimed (placed r True (py_exhausted p) (count_record ev rec q))"
        using Cons.prems(1) replay_apply_untimed [OF f] by (simp add: untimed_def count_record_def)
      have x: "py_exhausted q = py_exhausted p"
        using f by (auto simp: replay_apply_def replay_send_def replay_decode_def Let_def
            split: option.splits prod.splits sum.splits if_splits)
      from Cons.IH [OF u] read(2) True None f x show ?thesis
        by (auto simp: run_turn [of ev p] turn shifted player_result_def split: prod.splits option.splits) (rule exI, rule refl)+
    qed
  qed
qed

section \<open>Sending\<close>

definition sent_to :: "byte \<Rightarrow> capture_record \<Rightarrow> bool" where
  "sent_to dir rec \<longleftrightarrow> cr_kind rec = KindRawFrame \<and> cr_direction rec = dir"

text \<open>A peer gets the raw frames of one direction, whole and in order, and no withheld one.\<close>

lemma replay_sends:
  assumes "apply_all ev rs p = (None, q)" "py_transport p = Some (w, dir)" "rv_write ev = buffer_write"
  shows "py_transport q = Some (w @ concat (map cr_payload (filter (sent_to dir) rs)), dir) \<and>
    list_all (\<lambda>rec. sent_to dir rec \<longrightarrow> \<not> cr_redacted rec) rs"
  using assms(1,2)
proof (induction rs arbitrary: p w)
  case (Cons rec rs)
  show ?case
  proof (cases "replayable rec")
    case False
    then have "\<not> sent_to dir rec" by (simp add: replayable_def sent_to_def)
    with False Cons show ?thesis by auto
  next
    case True
    from True Cons.prems(1) obtain p1 where step: "replay_apply ev rec p = (None, p1)"
      and rest: "apply_all ev rs (count_record ev rec p1) = (None, q)" by (auto split: prod.splits option.splits)
    from step Cons.prems(2) assms(3) have "py_transport (count_record ev rec p1) =
        Some (w @ (if sent_to dir rec then cr_payload rec else []), dir) \<and> (sent_to dir rec \<longrightarrow> \<not> cr_redacted rec)"
      by (auto simp: replay_apply_def replay_send_def sent_to_def count_record_def buffer_write_def split: if_splits)
    with Cons.IH [OF rest] show ?thesis by auto
  qed
qed simp

end
