(* ===== verification/Replay_Java.thy ===== *)
theory Replay_Java
  imports Replay_Laws
begin

text \<open>
  Replays through the sessions of both versions, and what a recording of an endpoint is: the
  records of the frames it read and of the frames it wrote, with the states it was in.
\<close>

section \<open>States as text\<close>

definition state_text :: "gostring \<Rightarrow> string" where
  "state_text s = map (\<lambda>b. char_of (unat b)) s"

definition text_state :: "string \<Rightarrow> gostring" where
  "text_state s = map (\<lambda>c. of_nat (of_char c)) s"

lemma unat_byte_mod [simp]: "unat (b :: byte) mod 256 = unat b"
proof (rule mod_less)
  have "unat b < 2 ^ LENGTH(8)" by (rule unsigned_less)
  then show "unat b < 256" by simp
qed

lemma state_text_text [simp]: "state_text (text_state s) = s"
  by (induction s) (auto simp: state_text_def text_state_def unat_of_nat)

lemma text_state_text [simp]: "text_state (state_text s) = s"
  by (induction s) (auto simp: state_text_def text_state_def word_unat_eq_iff unat_of_nat)

lemma text_state_eq [simp]: "text_state s = text_state t \<longleftrightarrow> s = t"
  by (metis state_text_text)

lemma text_state_Nil [simp]: "text_state s = [] \<longleftrightarrow> s = []"
  by (simp add: text_state_def)

section \<open>The sessions a replay drives\<close>

definition java_replay :: "inflater \<Rightarrow> version \<Rightarrow> proposer \<Rightarrow>
    (java_session, protocol_packet, session_transition, 'w, 'e) replay_env \<Rightarrow>
    (java_session, protocol_packet, session_transition, 'w, 'e) replay_env" where
  "java_replay inflate vn propose ev = ev\<lparr>rs_inbound := js_inbound, rs_state := (\<lambda>z. text_state (js_state z)),
     rs_read := (\<lambda>z bs. bindR (read_frame (js_limits z) bs) (\<lambda>(f, rest). Inr (frame_payload f))),
     rs_decode := decode_frame inflate vn, rs_propose := propose, rs_validate := (\<lambda>z. validate_transition vn),
     rs_apply := apply_transition,
     rs_enter := (\<lambda>st. apply_transition \<lparr>tr_state = None, tr_control = Some (StateControl (state_text st))\<rparr>)\<rparr>"

lemma enter_state: "apply_transition \<lparr>tr_state = None, tr_control = Some (StateControl st)\<rparr> z = z\<lparr>js_state := st\<rparr>"
  by (simp add: apply_transition_def apply_control_def)

lemma java_replay_fields [simp]:
  "rs_inbound (java_replay inflate vn propose ev) = js_inbound"
  "rs_state (java_replay inflate vn propose ev) z = text_state (js_state z)"
  "rs_read (java_replay inflate vn propose ev) z bs = bindR (read_frame (js_limits z) bs) (\<lambda>(f, rest). Inr (frame_payload f))"
  "rs_decode (java_replay inflate vn propose ev) = decode_frame inflate vn"
  "rs_propose (java_replay inflate vn propose ev) = propose"
  "rs_validate (java_replay inflate vn propose ev) z = validate_transition vn"
  "rs_apply (java_replay inflate vn propose ev) = apply_transition"
  "rs_enter (java_replay inflate vn propose ev) st z = z\<lparr>js_state := state_text st\<rparr>"
  "rv_sha (java_replay inflate vn propose ev) = rv_sha ev"
  "idle (java_replay inflate vn propose ev) = idle ev"
  by (simp_all add: java_replay_def enter_state idle_def)

text \<open>What a replay relies on: the state entered is the state reported, and a session keeps its direction.\<close>

locale replay_session =
  fixes ev :: "('z, 'p, 't, 'w, 'e) replay_env"
  assumes entered: "rs_state ev (rs_enter ev st z) = st"
    and enter_inbound: "rs_inbound ev (rs_enter ev st z) = rs_inbound ev z"
    and apply_inbound: "rs_inbound ev (rs_apply ev t z) = rs_inbound ev z"
begin

lemma reconcile_state:
  "reconcile ev rec z = (z', ds) \<Longrightarrow> cr_state rec \<noteq> [] \<Longrightarrow> rs_state ev z' = cr_state rec"
  by (auto simp: reconcile_def entered split: if_splits)

lemma packet_tracked:
  assumes "py_transport p = None" "take_record ev rec p = (Inr rec', q)" "cr_kind rec = KindPacket" "cr_state rec \<noteq> []"
  shows "\<exists>z. py_session q = Some z \<and> rs_state ev z = cr_state rec"
proof -
  have t: "py_transport p' = None" if "wait ev rec p = (e, p')" for e p'
    using that assms(1) by (auto simp: wait_def wait_until_def Let_def split: replay_mode.splits if_splits prod.splits)
  from assms(2) obtain p1 p2 where "wait ev rec p = (None, p1)" "replay_apply ev rec p1 = (None, p2)"
    "q = count_record ev rec p2" by (auto simp: take_record_def split: prod.splits option.splits)
  with t [of None p1] assms(3,4) show ?thesis
    by (auto simp: replay_apply_def replay_decode_def count_record_def Let_def
        split: option.splits prod.splits dest!: reconcile_state)
qed

end

interpretation java_47: replay_session "java_replay inflate version_47 propose_transition_47 ev"
  by unfold_locales (simp_all add: apply_transition_def apply_control_def split: option.split session_control.split)

interpretation java_775: replay_session "java_replay inflate (version_775 dec enc) propose_transition_775 ev"
  by unfold_locales (simp_all add: apply_transition_def apply_control_def split: option.split session_control.split)

section \<open>Recordings\<close>

definition committed :: "version \<Rightarrow> proposer \<Rightarrow> java_session \<Rightarrow> protocol_packet \<Rightarrow> java_session \<Rightarrow> bool" where
  "committed vn propose z q z' \<longleftrightarrow> (case propose z q of
     Inl e \<Rightarrow> False
   | Inr None \<Rightarrow> z' = z
   | Inr (Some t) \<Rightarrow> validate_transition vn t = Inr () \<and> z' = apply_transition t z)"

text \<open>The two records of a frame: its bytes, with the state before, and its packet, with the state after.\<close>

definition recorded_pair :: "byte \<Rightarrow> java_session \<Rightarrow> java_session \<Rightarrow> capture_record \<Rightarrow> capture_record \<Rightarrow> bool" where
  "recorded_pair dir z z' raw pk \<longleftrightarrow>
     cr_kind raw = KindRawFrame \<and> cr_direction raw = dir \<and> cr_before raw = text_state (js_state z) \<and>
     cr_kind pk = KindPacket \<and> cr_direction pk = dir \<and> cr_state pk = text_state (js_state z')"

inductive recording :: "inflater \<Rightarrow> deflater \<Rightarrow> version \<Rightarrow> proposer \<Rightarrow> java_session \<Rightarrow> capture_record list \<Rightarrow>
    java_session \<Rightarrow> bool"
  for inflate deflate vn propose where
  ended: "recording inflate deflate vn propose z [] z"
| frame_read: "recorded_pair (js_inbound z) z z' raw pk \<Longrightarrow> \<not> cr_redacted raw \<Longrightarrow>
    read_frame (js_limits z) (cr_payload raw) = Inr (f, rest) \<Longrightarrow>
    decode_frame inflate vn z (frame_payload f) = Inr q \<Longrightarrow> committed vn propose z q z' \<Longrightarrow>
    recording inflate deflate vn propose z' rs z'' \<Longrightarrow>
    recording inflate deflate vn propose z (raw # pk # rs) z''"
| frame_withheld: "recorded_pair (js_inbound z) z z raw pk \<Longrightarrow> cr_redacted raw \<Longrightarrow>
    recording inflate deflate vn propose z rs z'' \<Longrightarrow>
    recording inflate deflate vn propose z (raw # pk # rs) z''"
| frame_written: "recorded_pair (js_outbound z) z z' raw pk \<Longrightarrow>
    encode_frame deflate vn z q = Inr payload \<Longrightarrow> build_frame (js_limits z) payload = Inr f \<Longrightarrow>
    cr_redacted raw \<or> cr_payload raw = wire_bytes f \<Longrightarrow> committed vn propose z q z' \<Longrightarrow>
    recording inflate deflate vn propose z' rs z'' \<Longrightarrow>
    recording inflate deflate vn propose z (raw # pk # rs) z''"
| aside: "\<not> replayable rec \<Longrightarrow> recording inflate deflate vn propose z rs z'' \<Longrightarrow>
    recording inflate deflate vn propose z (rec # rs) z''"

text \<open>
  An endpoint whose own packets change nothing but the state: then the records of its writes, which
  a replay does not decode, say all there is.
\<close>

locale plain_writer =
  fixes vn :: version and propose :: proposer and dir :: byte
  assumes state_only: "encode_frame deflate vn z q = Inr frame \<Longrightarrow> js_outbound z = dir \<Longrightarrow>
      propose z q = Inr (Some t) \<Longrightarrow> apply_transition t z = z\<lparr>js_state := js_state (apply_transition t z)\<rparr>"
    and named_states: "[] \<notin> set (vn_states vn)"
begin

lemma committed_keeps:
  assumes "committed vn propose z q z'"
  shows "js_inbound z' = js_inbound z" "js_outbound z' = js_outbound z" "js_state z \<noteq> [] \<Longrightarrow> js_state z' \<noteq> []"
  using assms named_states
  by (auto simp: committed_def apply_transition_def apply_control_def validate_transition_def validate_state_def
      validate_session_control_def result_simps split: sum.splits option.splits session_control.splits if_splits)

lemma written_state:
  assumes "encode_frame deflate vn z q = Inr frame" "js_outbound z = dir" "committed vn propose z q z'"
  shows "z\<lparr>js_state := js_state z'\<rparr> = z'"
  using assms state_only [OF assms(1,2)] by (auto simp: committed_def split: sum.splits option.splits)

text \<open>A player on the records of such an endpoint, standing where the endpoint stood.\<close>

definition stands :: "(java_session, 'w, 'e) player \<Rightarrow> java_session \<Rightarrow> bool" where
  "stands p z \<longleftrightarrow> py_session p = Some z \<and> py_primed p \<and> py_transport p = None"

lemma recording_replays:
  assumes "recording inflate deflate vn propose z rs z'" "stands p z"
    and "js_outbound z = dir" "js_inbound z \<noteq> dir" "js_state z \<noteq> []"
  shows "\<exists>q. apply_all (java_replay inflate vn propose ev) rs p = (None, q) \<and> stands q z' \<and>
    py_diverged q = py_diverged p"
  using assms
proof (induction arbitrary: p)
  case (ended z)
  then show ?case by simp
next
  case (frame_read z z' raw pk f rest q rs z'')
  let ?ev = "java_replay inflate vn propose ev"
  note pair = frame_read.hyps(1) [unfolded recorded_pair_def]
  note keeps = committed_keeps [OF frame_read.hyps(5)]
  let ?p = "count_record ?ev pk (count_record ?ev raw (p\<lparr>py_session := Some z'\<rparr>))"
  have raw: "replay_apply ?ev raw p = (None, p\<lparr>py_session := Some z'\<rparr>)"
    using pair frame_read.hyps(2-5) frame_read.prems(1)
    by (auto simp: replay_apply_def replay_decode_def decode_raw_def follow_def stands_def committed_def
        split: sum.splits option.splits)
  have pk: "replay_apply ?ev pk (count_record ?ev raw (p\<lparr>py_session := Some z'\<rparr>)) =
      (None, count_record ?ev raw (p\<lparr>py_session := Some z'\<rparr>))"
    using pair frame_read.prems(1) by (simp add: replay_apply_def replay_decode_def reconcile_def stands_def count_record_def)
  have "stands ?p z'" using frame_read.prems(1) by (simp add: stands_def count_record_def)
  from frame_read.IH [OF this] keeps frame_read.prems(2-4) show ?case
    using pair raw pk by (simp add: replayable_def count_record_def)
next
  case (frame_withheld z raw pk rs z'')
  let ?ev = "java_replay inflate vn propose ev"
  note pair = frame_withheld.hyps(1) [unfolded recorded_pair_def]
  let ?p = "count_record ?ev pk (count_record ?ev raw p)"
  have p: "p\<lparr>py_session := Some z\<rparr> = p" using frame_withheld.prems(1) by (simp add: stands_def)
  have raw: "replay_apply ?ev raw p = (None, p)"
    using pair frame_withheld.hyps(2) frame_withheld.prems(1) p
    by (simp add: replay_apply_def replay_decode_def decode_raw_def stands_def)
  have pk: "replay_apply ?ev pk (count_record ?ev raw p) = (None, count_record ?ev raw p)"
    using pair frame_withheld.prems(1) p by (simp add: replay_apply_def replay_decode_def reconcile_def stands_def count_record_def)
  have "stands ?p z" using frame_withheld.prems(1) by (simp add: stands_def count_record_def)
  from frame_withheld.IH [OF this] frame_withheld.prems(2-4) show ?case
    using pair raw pk by (simp add: replayable_def count_record_def)
next
  case (frame_written z z' raw pk q payload f rs z'')
  let ?ev = "java_replay inflate vn propose ev"
  note pair = frame_written.hyps(1) [unfolded recorded_pair_def]
  note keeps = committed_keeps [OF frame_written.hyps(5)]
  note state = written_state [OF frame_written.hyps(2) frame_written.prems(2) frame_written.hyps(5)]
  have same: "js_state z = js_state z' \<Longrightarrow> z' = z" using state by (cases z) auto
  let ?p = "count_record ?ev pk ((count_record ?ev raw p)\<lparr>py_session := Some z'\<rparr>)"
  have raw: "replay_apply ?ev raw p = (None, p)"
    using pair frame_written.prems by (simp add: replay_apply_def replay_decode_def decode_raw_def stands_def)
  have pk: "replay_apply ?ev pk (count_record ?ev raw p) = (None, (count_record ?ev raw p)\<lparr>py_session := Some z'\<rparr>)"
    using pair frame_written.prems state keeps(3) same
    by (cases p) (auto simp: replay_apply_def replay_decode_def reconcile_def stands_def count_record_def)
  have "stands ?p z'" using frame_written.prems(1) by (simp add: stands_def count_record_def)
  from frame_written.IH [OF this] keeps frame_written.prems(2-4) show ?case
    using pair raw pk by (simp add: replayable_def count_record_def)
next
  case (aside rec z rs z'')
  then show ?case by simp
qed

text \<open>The first record puts the session into the state the recording began in.\<close>

lemma recording_primes:
  assumes "recording inflate deflate vn propose z rs z'" "js_state z \<noteq> []" "list_ex replayable rs"
    and "py_session p = Some (z\<lparr>js_state := st\<rparr>)" "\<not> py_primed p" "py_transport p = None"
  shows "apply_all (java_replay inflate vn propose ev) rs p =
    apply_all (java_replay inflate vn propose ev) rs (p\<lparr>py_primed := True, py_session := Some z\<rparr>)"
proof -
  let ?ev = "java_replay inflate vn propose ev"
  have same: "z\<lparr>js_state := st\<rparr> = z" if "st = js_state z" using that by (cases z) simp
  have primed: "replay_apply ?ev rec p = replay_apply ?ev rec (p\<lparr>py_primed := True, py_session := Some z\<rparr>)"
    if "cr_before rec = text_state (js_state z)" for rec
    using that assms(2,4-6) same
    by (auto simp: replay_apply_def replay_decode_def prime_def Let_def split: prod.splits sum.splits)
  from assms(1,3) primed show ?thesis
  proof (induction rule: recording.induct)
  qed (auto simp: recorded_pair_def replayable_def)
qed

lemma recording_run:
  assumes "recording inflate deflate vn propose z rs z'"
    and "js_outbound z = dir" "js_inbound z \<noteq> dir" "js_state z \<noteq> []"
    and "py_session p = Some (z\<lparr>js_state := st\<rparr>)" "\<not> py_primed p" "py_transport p = None"
    and "idle ev" "untimed p" "read_records n (py_reader p) = (rs, Some ErrEndOfCapture, r)"
  shows "\<exists>res q. player_run (java_replay inflate vn propose ev) p = ((res, None), q) \<and>
    rr_diverged res = py_diverged p \<and> (list_ex replayable rs \<longrightarrow> py_session q = Some z')"
proof -
  let ?ev = "java_replay inflate vn propose ev"
  have "\<exists>q. apply_all ?ev rs p = (None, q) \<and> py_diverged q = py_diverged p \<and>
      (list_ex replayable rs \<longrightarrow> py_session q = Some z')"
  proof (cases "list_ex replayable rs")
    case True
    have "stands (p\<lparr>py_primed := True, py_session := Some z\<rparr>) z" using assms(7) by (simp add: stands_def)
    from recording_replays [OF assms(1) this assms(2-4)] recording_primes [OF assms(1,4) True assms(5-7)]
    show ?thesis by (auto simp: stands_def)
  next
    case False
    then have "apply_all ?ev rs p = (None, p)" by (induction rs) auto
    with False show ?thesis by simp
  qed
  then obtain q where q: "apply_all ?ev rs p = (None, q)" "py_diverged q = py_diverged p"
    "list_ex replayable rs \<longrightarrow> py_session q = Some z'" by blast
  from read_records_reads [OF assms(10)] obtain r1 where
    "reads (py_reader p) rs r1" "capture_next r1 = (Inl ErrEndOfCapture, r)" by blast
  from fast_run [OF _ assms(9) this, of ?ev] assms(8) q show ?thesis
    by (auto simp: player_result_def)
qed

end

text \<open>The types a client of either version writes: none of them sets compression.\<close>

lemma compress_key_47: "map_of packet_value_keys_47 ''LoginClientboundCompress'' = Some (''login'', clientbound, 3)"
  "map_of packet_value_keys_47 ''PlayClientboundSetCompression'' = Some (''play'', clientbound, 70)"
  by code_simp+

lemma compress_key_775: "map_of packet_value_keys_775 ''LoginClientboundCompress'' = Some (''login'', clientbound, 3)"
  by code_simp

lemma encoded_key:
  assumes "encode_frame deflate vn z q = Inr frame" "gp_value q = Known t vs"
  shows "map_of (vn_value_keys vn) t = Some (js_state z, js_outbound z, gp_id q)"
  using assms by (auto simp: encode_frame_def encode_packet_body_def Let_def result_simps split: if_splits option.splits)

interpretation client_47: plain_writer version_47 propose_transition_47 serverbound
proof
  fix deflate z q frame t
  assume enc: "encode_frame deflate version_47 z q = Inr frame" and out: "js_outbound z = serverbound"
    and moved: "propose_transition_47 z q = Inr (Some t)"
  from moved obtain ty vs where q: "gp_value q = Known ty vs"
    by (cases "gp_value q") (auto simp: propose_transition_47_def)
  from encoded_key [OF enc q] out have "ty \<noteq> ''LoginClientboundCompress''" "ty \<noteq> ''PlayClientboundSetCompression''"
    by (auto simp: compress_key_47 clientbound_def serverbound_def)
  with moved q show "apply_transition t z = z\<lparr>js_state := js_state (apply_transition t z)\<rparr>"
    by (auto simp: propose_transition_47_def proposals apply_transition_def split: if_splits)
qed (simp add: version_47_def)

interpretation client_775: plain_writer "version_775 dec enc" propose_transition_775 serverbound
proof
  fix deflate z q frame t
  assume enc: "encode_frame deflate (version_775 dec enc) z q = Inr frame" and out: "js_outbound z = serverbound"
    and moved: "propose_transition_775 z q = Inr (Some t)"
  from moved obtain ty vs where q: "gp_value q = Known ty vs"
    by (cases "gp_value q") (auto simp: propose_transition_775_def)
  from encoded_key [OF enc q] out have "ty \<noteq> ''LoginClientboundCompress''"
    by (auto simp: compress_key_775 clientbound_def serverbound_def)
  with moved q show "apply_transition t z = z\<lparr>js_state := js_state (apply_transition t z)\<rparr>"
    by (auto simp: propose_transition_775_def proposals apply_transition_def split: if_splits)
qed (simp add: version_775_def)

section \<open>A sample of captures\<close>

text \<open>Environments that spend no time, over a writer that keeps its bytes, and players on captures of observations.\<close>

definition quiet :: "(java_session, protocol_packet, session_transition, bytes, unit) replay_env" where
  "quiet = \<lparr>rs_inbound = js_inbound, rs_state = (\<lambda>z. text_state (js_state z)), rs_read = (\<lambda>z bs. Inr bs),
     rs_decode = (\<lambda>z bs. Inl ErrSession), rs_propose = (\<lambda>z q. Inr None), rs_validate = (\<lambda>z t. Inr ()),
     rs_apply = apply_transition, rs_enter = (\<lambda>st z. z), rv_sha = (\<lambda>_. replicate 32 0), rv_write = buffer_write,
     rv_start = (\<lambda>c. c), rv_context = (\<lambda>c. (None, c)), rv_since = (\<lambda>c. (0, c)), rv_sleep = (\<lambda>d c. (None, c)),
     rv_scaled = (\<lambda>d x. d)\<rparr>"

lemma quiet_idle: "idle quiet"
  by (simp add: quiet_def idle_def)

definition sample_file :: "observation list \<Rightarrow> (capture_header \<times> bytes) option" where
  "sample_file obs = capture_file (\<lambda>_. Inr [0x7B]) (\<lambda>_. replicate 32 0) sample_header [] obs"

definition sample_reader :: "observation list \<Rightarrow> capture_reader" where
  "sample_reader obs = (case sample_file obs of
     Some (h, file) \<Rightarrow> (case new_capture_reader (\<lambda>_. Some sample_header) (Some file) of Inr r \<Rightarrow> r))"

definition sample_player :: "observation list \<Rightarrow> java_session \<Rightarrow> (java_session, bytes, unit) player" where
  "sample_player obs z = (case new_player (\<lambda>_. None) () (Some (sample_reader obs)) [WithSession (Some z)] of Inr p \<Rightarrow> p)"

definition sample_ok :: "observation list \<Rightarrow> bool" where
  "sample_ok obs \<longleftrightarrow> (\<exists>file. sample_file obs = Some (sample_header, file)) \<and> list_all fits_record obs \<and> length obs < 100"

lemma sample_player_fields:
  "new_player (\<lambda>_. None) () (Some (sample_reader obs)) [WithSession (Some z)] = Inr (sample_player obs z)"
  "py_reader (sample_player obs z) = sample_reader obs" "py_session (sample_player obs z) = Some z"
  "\<not> py_primed (sample_player obs z)" "py_transport (sample_player obs z) = None"
  "py_diverged (sample_player obs z) = []" "untimed (sample_player obs z)"
  by (simp_all add: sample_player_def new_player_def untimed_def)

lemma sample_reads:
  assumes "sample_ok obs"
  shows "\<exists>bs. sample_file obs = Some (sample_header, bs) \<and>
      new_capture_reader (\<lambda>_. Some sample_header) (Some bs) = Inr (sample_reader obs)"
    "\<exists>r. read_records (Suc (length obs)) (sample_reader obs) = (map observed_record obs, Some ErrEndOfCapture, r)"
proof -
  from assms obtain bs where bs: "sample_file obs = Some (sample_header, bs)"
    and fits: "list_all fits_record obs" and small: "length obs < 100" by (auto simp: sample_ok_def)
  have "hd_frame_bytes sample_header < 2 ^ 31" by (simp add: sample_header_def)
  from capture_reads_back [where unmarshal = "\<lambda>_. Some sample_header", OF bs [unfolded sample_file_def] _ fits _ this] small
  obtain r r' where r: "new_capture_reader (\<lambda>_. Some sample_header) (Some bs) = Inr r"
    "read_records (Suc (length obs)) r = (map observed_record obs, Some ErrEndOfCapture, r')" by auto
  moreover have "sample_reader obs = r" using bs r(1) by (simp add: sample_reader_def)
  ultimately show "\<exists>bs. sample_file obs = Some (sample_header, bs) \<and>
      new_capture_reader (\<lambda>_. Some sample_header) (Some bs) = Inr (sample_reader obs)"
    "\<exists>r. read_records (Suc (length obs)) (sample_reader obs) = (map observed_record obs, Some ErrEndOfCapture, r)"
    using bs by auto
qed

section \<open>Properties\<close>

lemma reads_unique:
  "reads r xs r1 \<Longrightarrow> capture_next r1 = (Inl e, a) \<Longrightarrow> reads r ys r2 \<Longrightarrow> capture_next r2 = (Inl e', b) \<Longrightarrow>
   xs = ys \<and> a = b"
proof (induction xs arbitrary: r ys)
  case Nil
  then show ?case by (cases ys) auto
next
  case (Cons x xs)
  then show ?case by (cases ys) auto
qed

lemma apply_options_kept:
  "apply_player_options opts (p, b) = Inr (q, b') \<Longrightarrow>
   py_reader q = py_reader p \<and> py_digest q = py_digest p \<and> py_records q = py_records p"
proof (induction opts arbitrary: p b)
  case (Cons x xs)
  then obtain p1 b1 where "apply_player_option x (p, b) = Inr (p1, b1)" "apply_player_options xs (p1, b1) = Inr (q, b')"
    by (auto split: sum.splits)
  with Cons.IH [of p1 b1] show ?case by (cases x) (auto split: replay_mode.splits option.splits if_splits)
qed simp

lemma new_player_fields:
  "new_player resolve clock (Some r) opts = Inr p \<Longrightarrow>
   py_reader p = r \<and> py_digest p = new_digester \<and> py_records p = 0 \<and> (py_session p \<noteq> None \<or> py_transport p \<noteq> None)"
  by (auto simp: new_player_def split: sum.splits if_splits option.splits dest!: apply_options_kept)

lemma digest_replayable: "foldl (digest_add sha) d rs = foldl (digest_add sha) d (filter replayable rs)"
  by (induction rs arbitrary: d) (simp_all add: digest_add_skip)


definition greeting_observations :: "observation list" where
  "greeting_observations =
    [\<lparr>ob_sequence = 1, ob_frame = 1, ob_direction = serverbound, ob_stage = ObservationRawFrame, ob_elapsed = 4,
       ob_before = text_state ''handshaking'', ob_after = text_state ''handshaking'', ob_packet = None,
       ob_bytes = [8, 0, 47, 2, 104, 105, 99, 221, 2], ob_redacted = False, ob_original_len = 9,
       ob_secret = None, ob_rejected = None\<rparr>,
     \<lparr>ob_sequence = 2, ob_frame = 1, ob_direction = serverbound, ob_stage = ObservationPacket, ob_elapsed = 5,
       ob_before = text_state ''handshaking'', ob_after = text_state ''login'', ob_packet = Some (0, []),
       ob_bytes = [0, 47, 2, 104, 105, 99, 221, 2], ob_redacted = False, ob_original_len = 8,
       ob_secret = None, ob_rejected = None\<rparr>]"

lemma greeting_sample: "sample_ok greeting_observations"
proof -
  have "\<exists>file. sample_file greeting_observations = Some (sample_header, file)"
    by (simp add: sample_file_def capture_file_def new_capture_writer_def write_header_def sink_write_def
      buffer_write_def capture_observe_def capture_close_def split_beta sample_header_def
      format_version_def greeting_observations_def)
  moreover have "list_all fits_record greeting_observations"
    by (simp add: fits_record_def fits_format_def record_strings_def extra_strings_def
      greeting_observations_def secret_label_def Capture_Format.packet_name_def text_state_def)
  ultimately show ?thesis by (simp add: sample_ok_def greeting_observations_def)
qed

lemma greeting_built: "build_frame default_limits [0, 47, 2, 104, 105, 99, 221, 2] =
    Inr \<lparr>wire_bytes = [8, 0, 47, 2, 104, 105, 99, 221, 2], payload_offset = 1\<rparr>"
  by code_simp

lemma greeting_committed: "committed version_47 propose_transition_47 (fresh_47 role_client) greeting_47
    ((fresh_47 role_client)\<lparr>js_state := ''login''\<rparr>)"
  by (simp add: committed_def propose_transition_47_def greeting_47_def propose_handshake_def fresh_47 int_field_def
      wire_int_def validate_transition_def validate_state_def version_47_def apply_transition_def)

lemma greeting_recorded: "recording inflate stored_deflate version_47 propose_transition_47 (fresh_47 role_client)
    (map observed_record greeting_observations) ((fresh_47 role_client)\<lparr>js_state := ''login''\<rparr>)"
proof -
  have "recording inflate stored_deflate version_47 propose_transition_47 (fresh_47 role_client)
    [observed_record (greeting_observations ! 0), observed_record (greeting_observations ! 1)]
    ((fresh_47 role_client)\<lparr>js_state := ''login''\<rparr>)"
    by (rule recording.frame_written [OF _ greeting_frame_47 _ _ greeting_committed recording.ended,
          where f = "\<lparr>wire_bytes = [8, 0, 47, 2, 104, 105, 99, 221, 2], payload_offset = 1\<rparr>"])
      (simp_all add: recorded_pair_def greeting_observations_def observed_record_def record_of_def fresh_47 greeting_built)
  then show ?thesis by (simp add: greeting_observations_def)
qed


lemma greeting_run:
  "\<exists>res q. player_run (java_replay stored_inflate version_47 propose_transition_47 quiet)
       (sample_player greeting_observations (fresh_47 role_client)) = ((res, None), q) \<and>
     rr_diverged res = [] \<and> (list_ex replayable (map observed_record greeting_observations) \<longrightarrow>
       py_session q = Some ((fresh_47 role_client)\<lparr>js_state := ''login''\<rparr>))"
proof -
  from sample_reads(2) [OF greeting_sample] obtain r where
    "read_records (Suc (length greeting_observations)) (py_reader (sample_player greeting_observations (fresh_47 role_client)))
      = (map observed_record greeting_observations, Some ErrEndOfCapture, r)"
    by (auto simp: sample_player_fields)
  from client_47.recording_run [OF greeting_recorded _ _ _ _ _ _ quiet_idle _ this, of "''handshaking''"]
  show ?thesis by (simp add: sample_player_fields fresh_47 clientbound_def serverbound_def)
qed



section \<open>Captures of a server\<close>

definition serving :: java_session where
  "serving = (fresh_47 role_server)\<lparr>js_state := ''login''\<rparr>"

definition compressing :: java_session where
  "compressing = serving\<lparr>js_compression := \<lparr>enabled = True, threshold = 256, policy = Some strict_compression\<rparr>\<rparr>"

definition playing :: java_session where
  "playing = compressing\<lparr>js_state := ''play''\<rparr>"

definition observed_frame :: "i64 \<Rightarrow> byte \<Rightarrow> string \<Rightarrow> bytes \<Rightarrow> observation" where
  "observed_frame i dir st bs = \<lparr>ob_sequence = i, ob_frame = i, ob_direction = dir, ob_stage = ObservationRawFrame,
     ob_elapsed = i, ob_before = text_state st, ob_after = text_state st, ob_packet = None, ob_bytes = bs,
     ob_redacted = False, ob_original_len = int (length bs), ob_secret = None, ob_rejected = None\<rparr>"

definition observed_packet :: "i64 \<Rightarrow> byte \<Rightarrow> string \<Rightarrow> string \<Rightarrow> bytes \<Rightarrow> observation" where
  "observed_packet i dir before after bs = \<lparr>ob_sequence = i, ob_frame = i, ob_direction = dir, ob_stage = ObservationPacket,
     ob_elapsed = i, ob_before = text_state before, ob_after = text_state after, ob_packet = Some (0, []), ob_bytes = bs,
     ob_redacted = False, ob_original_len = int (length bs), ob_secret = None, ob_rejected = None\<rparr>"

text \<open>A server sets compression, reports success, and reads a keepalive.\<close>

definition serving_observations :: "observation list" where
  "serving_observations =
    [observed_frame 1 clientbound ''login'' [3, 3, 128, 2], observed_packet 2 clientbound ''login'' ''login'' [3, 128, 2],
     observed_frame 3 clientbound ''login'' [4, 0, 2, 0, 0], observed_packet 4 clientbound ''login'' ''play'' [2, 0, 0],
     observed_frame 5 serverbound ''play'' [3, 0, 0, 5], observed_packet 6 serverbound ''play'' ''play'' [0, 5]]"

definition compress_packet :: protocol_packet where
  "compress_packet = \<lparr>gp_state = ''login'', gp_direction = clientbound, gp_id = 3, gp_name = [], gp_payload = [],
     gp_value = Known ''LoginClientboundCompress'' [V32 256]\<rparr>"

definition joined_packet :: protocol_packet where
  "joined_packet = \<lparr>gp_state = ''login'', gp_direction = clientbound, gp_id = 2, gp_name = [], gp_payload = [],
     gp_value = Known ''LoginClientboundSuccess'' [VBytes [], VBytes []]\<rparr>"

definition alive_packet :: protocol_packet where
  "alive_packet = \<lparr>gp_state = ''play'', gp_direction = serverbound, gp_id = 0, gp_name = ''keep_alive'', gp_payload = [5],
     gp_value = Known ''PlayServerboundKeepAlive'' [V32 5]\<rparr>"

lemma serving_frames:
  "encode_frame stored_deflate version_47 serving compress_packet = Inr [3, 128, 2]"
  "encode_frame stored_deflate version_47 compressing joined_packet = Inr [0, 2, 0, 0]"
  "build_frame default_limits [3, 128, 2] = Inr \<lparr>wire_bytes = [3, 3, 128, 2], payload_offset = 1\<rparr>"
  "build_frame default_limits [0, 2, 0, 0] = Inr \<lparr>wire_bytes = [4, 0, 2, 0, 0], payload_offset = 1\<rparr>"
  "read_frame default_limits [3, 0, 0, 5] = Inr (\<lparr>wire_bytes = [3, 0, 0, 5], payload_offset = 1\<rparr>, [])"
  "decode_frame stored_inflate version_47 playing [0, 0, 5] = Inr alive_packet"
  "decode_frame stored_inflate version_47 (serving\<lparr>js_state := ''play''\<rparr>) [0, 0, 5] =
     Inl (PathError ''keep_alive'' ErrTrailingBytes)"
  unfolding compressing_def playing_def serving_def fresh_47 by code_simp+

lemma serving_fields:
  "js_limits serving = default_limits" "js_inbound serving = serverbound" "js_outbound serving = clientbound"
  "js_state serving = ''login''" "\<not> enabled (js_compression serving)"
  "policy (js_compression serving) = Some strict_compression"
  by (simp_all add: serving_def fresh_47)

lemma serving_commits:
  "committed version_47 propose_transition_47 serving compress_packet compressing"
  "committed version_47 propose_transition_47 compressing joined_packet playing"
  "committed version_47 propose_transition_47 playing alive_packet playing"
  by (simp_all add: committed_def propose_transition_47_def compress_packet_def joined_packet_def alive_packet_def
      to_compression_def to_state_def int_field_def wire_int_def validate_transition_def validate_session_control_def
      validate_state_def version_47_def apply_transition_def apply_control_def compression_for_threshold_def
      compressing_def playing_def serving_fields)

lemma serving_recorded:
  "recording stored_inflate stored_deflate version_47 propose_transition_47 serving
     (map observed_record serving_observations) playing"
proof -
  have pair: "recorded_pair dir z z' (observed_record (observed_frame i dir (js_state z) bs))
      (observed_record (observed_packet j dir before (js_state z') bs'))" for dir z z' i j bs before bs'
    by (simp add: recorded_pair_def observed_frame_def observed_packet_def observed_record_def record_of_def)
  have plain: "\<not> cr_redacted (observed_record (observed_frame i dir st bs))"
    "cr_payload (observed_record (observed_frame i dir st bs)) = bs" for i dir st bs
    by (simp_all add: observed_frame_def observed_record_def record_of_def)
  have out: "js_outbound serving = clientbound" "js_outbound compressing = clientbound" "js_inbound playing = serverbound"
    "js_state compressing = ''login''" "js_state playing = ''play''" "js_limits serving = default_limits"
    "js_limits compressing = default_limits" "js_limits playing = default_limits"
    by (simp_all add: compressing_def playing_def serving_fields)
  have three: "recording stored_inflate stored_deflate version_47 propose_transition_47 playing
      [observed_record (observed_frame 5 serverbound ''play'' [3, 0, 0, 5]),
       observed_record (observed_packet 6 serverbound ''play'' ''play'' [0, 5])] playing"
    by (rule recording.frame_read [OF _ _ _ _ serving_commits(3) recording.ended,
          where f = "\<lparr>wire_bytes = [3, 0, 0, 5], payload_offset = 1\<rparr>" and rest = "[]"])
      (use pair [of serverbound playing playing] plain serving_frames out in \<open>simp_all add: frame_payload_def\<close>)
  have two: "recording stored_inflate stored_deflate version_47 propose_transition_47 compressing
      (observed_record (observed_frame 3 clientbound ''login'' [4, 0, 2, 0, 0]) #
       observed_record (observed_packet 4 clientbound ''login'' ''play'' [2, 0, 0]) #
       [observed_record (observed_frame 5 serverbound ''play'' [3, 0, 0, 5]),
        observed_record (observed_packet 6 serverbound ''play'' ''play'' [0, 5])]) playing"
    by (rule recording.frame_written [OF _ serving_frames(2) _ _ serving_commits(2) three])
      (use pair [of clientbound compressing playing] plain serving_frames out in auto)
  have "recording stored_inflate stored_deflate version_47 propose_transition_47 serving
      (observed_record (observed_frame 1 clientbound ''login'' [3, 3, 128, 2]) #
       observed_record (observed_packet 2 clientbound ''login'' ''login'' [3, 128, 2]) #
       (observed_record (observed_frame 3 clientbound ''login'' [4, 0, 2, 0, 0]) #
       observed_record (observed_packet 4 clientbound ''login'' ''play'' [2, 0, 0]) #
       [observed_record (observed_frame 5 serverbound ''play'' [3, 0, 0, 5]),
        observed_record (observed_packet 6 serverbound ''play'' ''play'' [0, 5])])) playing"
    by (rule recording.frame_written [OF _ serving_frames(1) _ _ serving_commits(1) two])
      (use pair [of clientbound serving compressing] plain serving_frames out serving_fields in auto)
  then show ?thesis by (simp add: serving_observations_def)
qed


lemma serving_sample: "sample_ok serving_observations"
proof -
  have "\<exists>file. sample_file serving_observations = Some (sample_header, file)"
    by (simp add: sample_file_def capture_file_def new_capture_writer_def write_header_def sink_write_def
      buffer_write_def capture_observe_def capture_close_def split_beta sample_header_def
      format_version_def serving_observations_def observed_frame_def observed_packet_def)
  moreover have "list_all fits_record serving_observations"
    by (simp add: fits_record_def fits_format_def record_strings_def extra_strings_def
      serving_observations_def observed_frame_def observed_packet_def secret_label_def
      Capture_Format.packet_name_def text_state_def)
  ultimately show ?thesis by (simp add: sample_ok_def serving_observations_def)
qed


end
