(* ===== verification/Stream_Delivery.thy ===== *)
theory Stream_Delivery
  imports Stream_Accounts Wire_Framer
begin

text \<open>
  Two streams and the bytes between them. One stream writes, its frames go into a channel, and the
  other stream's read pump cuts frames off the channel with the framer; everything else that either
  stream does, traffic in the other direction included, is free. While neither session changes, the packets that
  arrive are the ones that were sent, in order: the contract \<open>delivery\<close> says what one session must make of
  what the other encodes, and its lemma is about any interleaving.
\<close>

section \<open>The flow\<close>

inductive flow :: "('z, 'p, 't, 'c) session_ops \<Rightarrow> ('y, 'q, 'u, 'd) session_ops \<Rightarrow> limits \<Rightarrow> 'z \<Rightarrow> 'y \<Rightarrow>
    ('z, 'p, 't) stream \<Rightarrow> bytes \<Rightarrow> ('y, 'q, 'u) stream \<Rightarrow> bool"
  for ops_a ops_b lim za zb where
  opened: "flow ops_a ops_b lim za zb (new_stream lim za) [] (new_stream lim zb)"
| writes: "flow ops_a ops_b lim za zb a channel b \<Longrightarrow> stream_step ops_a a (Some a') \<Longrightarrow>
    sm_session a' = sm_session a \<Longrightarrow>
    flow ops_a ops_b lim za zb a' (channel @ concat (map snd (drop (length (sm_sent a)) (sm_sent a')))) b"
| proceeds: "flow ops_a ops_b lim za zb a channel b \<Longrightarrow> stream_step ops_b b (Some b') \<Longrightarrow>
    sm_session b' = sm_session b \<Longrightarrow> (\<And>f. sm_pump b = PumpFraming \<Longrightarrow> sm_pump b' \<noteq> PumpHanding f) \<Longrightarrow>
    flow ops_a ops_b lim za zb a channel b'"
| reads: "flow ops_a ops_b lim za zb a channel b \<Longrightarrow> sm_pump b = PumpFraming \<Longrightarrow>
    read_frame lim channel = Inr (f, rest) \<Longrightarrow>
    flow ops_a ops_b lim za zb a rest (b\<lparr>sm_pump := PumpHanding (frame_payload f)\<rparr>)"

lemma flow_quiet:
  assumes "flow ops_a ops_b lim za zb a channel b" "stream_step ops_a a (Some a')"
    and "sm_session a' = sm_session a" "sm_sent a' = sm_sent a"
  shows "flow ops_a ops_b lim za zb a' channel b"
  using flow.writes [OF assms(1-3)] assms(4) by simp

section \<open>What one step does to a reader\<close>

lemma pump_step:
  assumes "stream_step ops s (Some s')"
  shows "sm_arrived s' = sm_arrived s \<and> (sm_mode s = Finished \<longrightarrow> sm_mode s' = Finished) \<and>
      (sm_pump s' = sm_pump s \<or> sm_pump s' = PumpDone \<or> sm_pump s = PumpIdle \<and> sm_pump s' = PumpFraming \<or>
       sm_pump s = PumpFraming \<and> (\<exists>f. sm_pump s' = PumpHanding f)) \<or>
    (\<exists>f. sm_mode s = Selecting \<and> sm_pump s = PumpHanding f \<and> sm_pump s' = PumpIdle \<and>
      ((\<exists>p. sm_arrived s' = sm_arrived s @ [p] \<and> so_decode ops (sm_session s) f = Inr p) \<or>
       sm_arrived s' = sm_arrived s \<and> sm_mode s' = Finished))"
  using assms
proof (cases rule: stream_step.cases)
  case (frame_taken f)
  from frame_taken(1) [symmetric] frame_taken(2-) show ?thesis
    by (cases rule: take_frame_shape) (auto dest!: decode_inbound_shape)
next
  case (write_finished k d f outcome)
  then show ?thesis
    by (auto simp: finish_write_def bind_eq_Some_conv eq_commute [of "Some s'"]
        dest!: stream_shape split: option.splits)
qed (rule disjI1; auto simp: stream_defs eq_commute [of "Some s'"]
    dest!: stream_shape select_stopped_shape split: stream_splits)+

text \<open>A reader that has been handed payloads: what arrived is the decoding of the first of them.\<close>

definition in_order :: "('z \<Rightarrow> bytes \<Rightarrow> 'p result) \<Rightarrow> 'z \<Rightarrow> bytes list \<Rightarrow> 'p list \<Rightarrow> bool" where
  "in_order decode z fs ps \<longleftrightarrow> length ps \<le> length fs \<and> (\<forall>i<length ps. decode z (fs ! i) = Inr (ps ! i))"

definition caught_up :: "bytes list \<Rightarrow> ('z, 'p, 't) stream \<Rightarrow> bool" where
  "caught_up fs s \<longleftrightarrow> sm_mode s \<noteq> Finished \<longrightarrow> (case sm_pump s of
     PumpHanding f \<Rightarrow> length fs = Suc (length (sm_arrived s)) \<and> last fs = f
   | PumpDone \<Rightarrow> True
   | _ \<Rightarrow> length fs = length (sm_arrived s))"

definition consumed :: "('z \<Rightarrow> bytes \<Rightarrow> 'p result) \<Rightarrow> bytes list \<Rightarrow> ('z, 'p, 't) stream \<Rightarrow> bool" where
  "consumed decode fs s \<longleftrightarrow> in_order decode (sm_session s) fs (sm_arrived s) \<and> caught_up fs s"

lemma in_order_snoc: "in_order decode z fs ps \<Longrightarrow> in_order decode z (fs @ [f]) ps"
  by (auto simp: in_order_def nth_append)

lemma consumed_step:
  assumes "stream_step ops s (Some s')" "sm_session s' = sm_session s" "consumed (so_decode ops) fs s"
    and "\<And>f. sm_pump s = PumpFraming \<Longrightarrow> sm_pump s' \<noteq> PumpHanding f"
  shows "consumed (so_decode ops) fs s'"
  using pump_step [OF assms(1)]
proof (elim disjE conjE exE)
  fix f p
  assume m: "sm_mode s = Selecting" "sm_pump s = PumpHanding f" "sm_pump s' = PumpIdle"
    and p: "sm_arrived s' = sm_arrived s @ [p]" "so_decode ops (sm_session s) f = Inr p"
  with assms(3) have fs: "length fs = Suc (length (sm_arrived s))" "last fs = f"
    by (auto simp: consumed_def caught_up_def)
  then have "fs ! length (sm_arrived s) = f" by (metis diff_Suc_1 last_conv_nth list.size(3) nat.distinct(1))
  with assms(2,3) m p fs show ?thesis
    by (auto simp: consumed_def caught_up_def in_order_def nth_append less_Suc_eq)
qed (use assms(2-4) in \<open>auto simp: consumed_def caught_up_def split: pump.splits\<close>)

lemma consumed_read:
  assumes "consumed decode fs s" "sm_pump s = PumpFraming"
  shows "consumed decode (fs @ [f]) (s\<lparr>sm_pump := PumpHanding f\<rparr>)"
  using assms by (auto simp: consumed_def caught_up_def intro: in_order_snoc)

section \<open>What was sent\<close>

text \<open>A frame of a writer was encoded under the session; the other frames are disconnects.\<close>

definition sent_under :: "('z, 'p, 't, 'c) session_ops \<Rightarrow> 'z \<Rightarrow> ('z, 'p, 't) stream \<Rightarrow> bool" where
  "sent_under ops z s \<longleftrightarrow>
     (\<forall>k w. (Some k, w) \<in> set (sm_sent s) \<longrightarrow> k < length (sm_writers s) \<and>
       (\<exists>d. encode_write ops z (wr_packet (sm_writers s ! k)) = Inr (d, w))) \<and>
     (\<forall>w. (None, w) \<in> set (sm_sent s) \<or> sm_mode s = Disconnecting w \<longrightarrow>
       (\<exists>p. bindR (so_encode ops z p) (so_build ops) = Inr w))"

lemma disconnecting_step:
  assumes "stream_step ops s (Some s')" "sm_mode s' = Disconnecting w"
  shows "sm_mode s = Disconnecting w \<or> (\<exists>p. bindR (so_encode ops (sm_session s) p) (so_build ops) = Inr w)"
  using assms
proof (cases rule: stream_step.cases)
  case (frame_taken f)
  from frame_taken(1) [symmetric] frame_taken(2-) assms(2) show ?thesis
    by (cases rule: take_frame_shape) (auto dest!: decode_inbound_shape)
next
  case shutdown_taken
  with assms(2) show ?thesis
    by (auto simp: begin_shutdown_def Let_def shutdown_failed_def shutdown_succeeded_def split: sum.splits option.splits)
qed (use assms(2) in \<open>auto simp: stream_defs eq_commute [of "Some s'"] dest!: stream_shape select_stopped_shape split: stream_splits\<close>)

lemma hold_writer:
  assumes "stream_reachable ops lim z s" "sm_mode s = Writing k d f"
  shows "k < length (sm_writers s)"
  using writes_reachable [OF assms(1)] assms(2) by (metis hold.distinct(3) hold_simps(6) not_le writes_ok_def)

lemma sent_step:
  assumes "stream_reachable ops lim z0 s" "stream_step ops s (Some s')" "sm_session s = z" "sm_session s' = z"
    and "sent_under ops z s"
  shows "sent_under ops z s' \<and> (\<exists>new. sm_sent s' = sm_sent s @ new)"
proof -
  have later: "k < length (sm_writers s') \<and> (\<exists>d. encode_write ops z (wr_packet (sm_writers s' ! k)) = Inr (d, w))"
    if "(Some k, w) \<in> set (sm_sent s)" for k w
    using assms(5) that packet_stays [OF assms(2)] unfolding sent_under_def by metis
  have parting: "\<exists>p. bindR (so_encode ops z p) (so_build ops) = Inr w" if "sm_mode s' = Disconnecting w" for w
    using disconnecting_step [OF assms(2) that] assms(3,5) unfolding sent_under_def by auto
  from session_step [OF assms(2)] consider "sm_sent s' = sm_sent s"
    | k d f where "sm_mode s = Writing k d f" "sm_sent s' = sm_sent s @ [(Some k, f)]"
    | f where "sm_mode s = Disconnecting f" "sm_sent s' = sm_sent s @ [(None, f)]"
    by blast
  then show ?thesis
  proof cases
    case 1
    with later parting assms(5) show ?thesis unfolding sent_under_def by auto
  next
    case (2 k d f)
    from encoded_reachable [OF assms(1)] 2 assms(3) have "encode_write ops z (wr_packet (sm_writers s ! k)) = Inr (d, f)"
      by (simp add: encoded_ok_def)
    with hold_writer [OF assms(1) 2(1)] packet_stays [OF assms(2)] have
      "k < length (sm_writers s') \<and> (\<exists>d. encode_write ops z (wr_packet (sm_writers s' ! k)) = Inr (d, f))" by auto
    with 2 later parting assms(5) show ?thesis unfolding sent_under_def by auto
  next
    case (3 f)
    with later parting assms(5) show ?thesis unfolding sent_under_def by auto
  qed
qed

section \<open>The contract\<close>

definition body_of :: "limits \<Rightarrow> bytes \<Rightarrow> bytes" where
  "body_of lim w = (case read_frame lim w of Inr (f, rest) \<Rightarrow> frame_payload f | _ \<Rightarrow> [])"

locale delivery =
  fixes ops_a :: "('z, 'p, 't, 'c) session_ops" and ops_b :: "('y, 'q, 'u, 'd) session_ops"
    and lim :: limits and za :: 'z and zb :: 'y and sendable :: "'p \<Rightarrow> bool" and same :: "'p \<Rightarrow> 'q \<Rightarrow> bool"
  assumes framed: "so_build ops_a payload = Inr w \<Longrightarrow>
      \<exists>f. read_frame lim (w @ rest) = Inr (f, rest) \<and> frame_payload f = payload"
    and decoded: "so_encode ops_a za p = Inr payload \<Longrightarrow> sendable p \<Longrightarrow>
      \<exists>q. so_decode ops_b zb payload = Inr q \<and> same p q"
begin

lemma body_of_built: "so_build ops_a payload = Inr w \<Longrightarrow> body_of lim w = payload"
  using framed [of payload w "[]"] by (auto simp: body_of_def)

lemma cut_built:
  assumes "so_build ops_a payload = Inr w" "read_frame lim (w @ rest) = Inr (f, rest')"
  shows "rest' = rest \<and> frame_payload f = body_of lim w"
  using framed [OF assms(1), of rest] assms(2) body_of_built [OF assms(1)] by auto

lemma sent_built:
  assumes "sent_under ops_a za a" "(x, w) \<in> set (sm_sent a)"
  obtains p payload where "so_encode ops_a za p = Inr payload" "so_build ops_a payload = Inr w"
    "\<And>k. x = Some k \<Longrightarrow> k < length (sm_writers a) \<and> p = wr_packet (sm_writers a ! k)"
proof (cases x)
  case None
  with assms obtain p where "bindR (so_encode ops_a za p) (so_build ops_a) = Inr w"
    unfolding sent_under_def by blast
  with None that show thesis by (auto simp: result_simps)
next
  case (Some k)
  with assms obtain d where "k < length (sm_writers a)" "encode_write ops_a za (wr_packet (sm_writers a ! k)) = Inr (d, w)"
    unfolding sent_under_def by blast
  with Some that show thesis by (auto simp: encode_write_def result_simps)
qed

text \<open>The channel holds the frames that have not been read, and the reader was handed the others.\<close>

lemma flow_kept:
  assumes "flow ops_a ops_b lim za zb a channel b"
  shows "stream_reachable ops_a lim za a \<and> stream_reachable ops_b lim zb b \<and> sm_session a = za \<and> sm_session b = zb \<and>
    sent_under ops_a za a \<and> (\<exists>n \<le> length (sm_sent a). channel = concat (map snd (drop n (sm_sent a))) \<and>
      consumed (so_decode ops_b) (map (body_of lim \<circ> snd) (take n (sm_sent a))) b)"
  using assms
proof induction
  case opened
  show ?case
    using stream_reachable.start [of ops_a lim za] stream_reachable.start [of ops_b lim zb]
    by (auto simp: new_stream_def sent_under_def consumed_def in_order_def caught_up_def)
next
  case (writes a channel b a')
  then have session: "sm_session a' = za" by simp
  from writes sent_step [of ops_a lim za a a' za] obtain new where new: "sent_under ops_a za a'" "sm_sent a' = sm_sent a @ new"
    by auto
  from writes.IH obtain n where n: "n \<le> length (sm_sent a)" "channel = concat (map snd (drop n (sm_sent a)))"
    "consumed (so_decode ops_b) (map (body_of lim \<circ> snd) (take n (sm_sent a))) b" by blast
  have "channel @ concat (map snd (drop (length (sm_sent a)) (sm_sent a'))) = concat (map snd (drop n (sm_sent a')))"
    "take n (sm_sent a') = take n (sm_sent a)" using n new(2) by simp_all
  moreover have "stream_reachable ops_a lim za a'" "stream_reachable ops_b lim zb b" "sm_session b = zb"
    using writes by (blast intro: stream_reachable.step)+
  ultimately show ?case
    using n new session by (intro conjI exI [of _ n]) (simp_all add: comp_def)
next
  case (proceeds a channel b b')
  with consumed_step [OF proceeds.hyps(2,3) _ proceeds.hyps(4)] show ?case
    by (auto intro: stream_reachable.step)
next
  case (reads a channel b f rest)
  from reads.IH obtain n where n: "n \<le> length (sm_sent a)" "channel = concat (map snd (drop n (sm_sent a)))"
    "consumed (so_decode ops_b) (map (body_of lim \<circ> snd) (take n (sm_sent a))) b" by blast
  have "drop n (sm_sent a) \<noteq> []"
  proof
    assume "drop n (sm_sent a) = []"
    with n(2) reads.hyps(3) show False by (simp add: read_frame_def read_frame_length_def bindR_def)
  qed
  then obtain x w tail where cons: "drop n (sm_sent a) = (x, w) # tail" by (metis list.exhaust surj_pair)
  then have at: "n < length (sm_sent a)" "sm_sent a ! n = (x, w)"
    by (metis drop_eq_Nil not_le list.distinct(1)) (metis cons nth_via_drop)
  then have "(x, w) \<in> set (sm_sent a)" by (metis nth_mem)
  from reads.IH have "sent_under ops_a za a" by blast
  then obtain payload where built: "so_build ops_a payload = Inr w"
    using sent_built [of a x w thesis] \<open>(x, w) \<in> set (sm_sent a)\<close> by blast
  from cut_built [OF built, of "concat (map snd tail)"] reads.hyps(3) n(2) cons have
    cut: "rest = concat (map snd tail)" "frame_payload f = body_of lim w" by auto
  have "drop (Suc n) (sm_sent a) = tail" using cons by (metis list.sel(3) tl_drop drop_Suc)
  moreover have "consumed (so_decode ops_b) (map (body_of lim \<circ> snd) (take (Suc n) (sm_sent a)))
      (b\<lparr>sm_pump := PumpHanding (frame_payload f)\<rparr>)"
    using consumed_read [OF n(3) reads.hyps(2)] at cut(2) by (simp add: take_Suc_conv_app_nth)
  moreover have "stream_reachable ops_b lim zb (b\<lparr>sm_pump := PumpHanding (frame_payload f)\<rparr>)"
    using reads by (blast intro: stream_reachable.step stream_step.frame_read)
  moreover have "stream_reachable ops_a lim za a" "sm_session a = za" "sm_session b = zb" "sent_under ops_a za a"
    using reads.IH by blast+
  ultimately show ?case
    using at(1) cut(1) by (intro conjI exI [of _ "Suc n"]) (simp_all add: comp_def)
qed

lemma flow_delivers:
  assumes "flow ops_a ops_b lim za zb a channel b" "list_all (\<lambda>w. sendable (wr_packet w)) (sm_writers a)"
  shows "length (sm_arrived b) \<le> length (sm_sent a) \<and> subseq (sm_taken b) (sm_arrived b) \<and>
    (\<forall>i k. i < length (sm_arrived b) \<longrightarrow> fst (sm_sent a ! i) = Some k \<longrightarrow>
      k < length (sm_writers a) \<and> same (wr_packet (sm_writers a ! k)) (sm_arrived b ! i))"
proof -
  from flow_kept [OF assms(1)] obtain n where under: "sent_under ops_a za a" and n: "n \<le> length (sm_sent a)"
    and in_order: "in_order (so_decode ops_b) zb (map (body_of lim \<circ> snd) (take n (sm_sent a))) (sm_arrived b)"
    and b: "stream_reachable ops_b lim zb b"
    by (auto simp: consumed_def)
  have "k < length (sm_writers a) \<and> same (wr_packet (sm_writers a ! k)) (sm_arrived b ! i)"
    if i: "i < length (sm_arrived b)" "fst (sm_sent a ! i) = Some k" for i k
  proof -
    obtain w where w: "sm_sent a ! i = (Some k, w)" using i(2) by (metis prod.collapse)
    have "i < n" using i(1) in_order n by (simp add: in_order_def)
    then have "(Some k, w) \<in> set (sm_sent a)" using w n by (metis nth_mem order_less_le_trans)
    with under obtain payload where k: "k < length (sm_writers a)"
      "so_encode ops_a za (wr_packet (sm_writers a ! k)) = Inr payload" "so_build ops_a payload = Inr w"
      by (metis sent_built)
    have "so_decode ops_b zb payload = Inr (sm_arrived b ! i)"
      using in_order i(1) \<open>i < n\<close> n w body_of_built [OF k(3)] by (auto simp: in_order_def)
    with decoded [OF k(2)] k(1) assms(2) show ?thesis by (auto simp: list_all_length)
  qed
  moreover have "subseq (sm_taken b) (sm_arrived b)"
    using order_reachable [OF b] unfolding order_ok_def onward_def
    by (meson list_emb_append_mono subseq_order.order_trans list_emb_prefix subseq_order.order_refl)
  ultimately show ?thesis using in_order n by (auto simp: in_order_def)
qed

end

end
