(* ===== verification/Java_Stream.thy ===== *)
theory Java_Stream
  imports Stream_Delivery Session_V47 Session_V775
begin

text \<open>
  The sessions of both versions on streams: the interfaces that stream.go calls, provided by
  generated/java/v1_8/protocol.go, generated/java/v26_1/protocol.go and wire/java/framer.go, with the default
  transition policy. The contract of Stream_Delivery holds for two sessions that mirror each other.
\<close>

section \<open>The interfaces\<close>

definition java_ops :: "inflater \<Rightarrow> deflater \<Rightarrow> version \<Rightarrow> proposer \<Rightarrow>
    (java_session \<Rightarrow> protocol_packet option result) \<Rightarrow> limits \<Rightarrow>
    (java_session, protocol_packet, session_transition, session_control) session_ops" where
  "java_ops inflate deflate vn propose disconnect lim = \<lparr>
     so_decode = decode_frame inflate vn,
     so_encode = encode_frame deflate vn,
     so_build = (\<lambda>payload. bindR (build_frame lim payload) (\<lambda>f. Inr (wire_bytes f))),
     so_propose = propose,
     so_resolve = (\<lambda>z p inbound t. Inr (if tr_state t = None \<and> tr_control t = None then None else Some t)),
     so_validate = (\<lambda>z t. case validate_transition vn t of Inl e \<Rightarrow> Some e | Inr _ \<Rightarrow> None),
     so_apply = apply_transition,
     so_control = (\<lambda>c z. bindR (validate_session_control vn c) (\<lambda>_. Inr (apply_control c z))),
     so_disconnect = disconnect,
     so_length = (\<lambda>p. length (gp_payload p))\<rparr>"

text \<open>A packet as the other side gets it: the session fills in the name and the payload.\<close>

definition as_delivered :: "version \<Rightarrow> protocol_packet \<Rightarrow> protocol_packet \<Rightarrow> bool" where
  "as_delivered vn p q \<longleftrightarrow> (\<exists>name payload. packet_name vn (gp_state p) (gp_direction p) (gp_id p) = Some name \<and>
     q = p\<lparr>gp_name := name, gp_payload := payload\<rparr>)"

text \<open>A generated value that round-trips, and whose recursion stays within the limits.\<close>

definition plain_value :: "version \<Rightarrow> string list \<Rightarrow> java_session \<Rightarrow> protocol_packet \<Rightarrow> bool" where
  "plain_value vn exempt z p \<longleftrightarrow> (case gp_value p of
     Known t vs \<Rightarrow> t \<in> fst ` set (vn_schemas vn) \<and> t \<notin> set exempt \<and>
       list_all (within_levels (nat (recursion_depth (js_limits z)))) vs
   | _ \<Rightarrow> False)"

lemma built_frame:
  assumes "limits_ok lim" "so_build (java_ops inflate deflate vn propose disconnect lim) payload = Inr w"
  shows "\<exists>f. read_frame lim (w @ rest) = Inr (f, rest) \<and> frame_payload f = payload"
  using assms by (auto simp: java_ops_def result_simps intro: read_frame_build frame_payload_build)

section \<open>The contract, for both versions\<close>

text \<open>Two sessions that mirror each other under a codec that inflates what it deflates.\<close>

definition paired :: "inflater \<Rightarrow> deflater \<Rightarrow> java_session \<Rightarrow> java_session \<Rightarrow> bool" where
  "paired inflate deflate z z' \<longleftrightarrow> limits_ok (js_limits z) \<and> zlib_agrees inflate deflate \<and>
     own_policy (js_compression z) \<and> mirrors z z'"

definition sendable_packet :: "inflater \<Rightarrow> deflater \<Rightarrow> version \<Rightarrow> string list \<Rightarrow> limits \<Rightarrow>
    java_session \<Rightarrow> java_session \<Rightarrow> protocol_packet \<Rightarrow> bool" where
  "sendable_packet inflate deflate vn exempt lim z z' p \<longleftrightarrow>
     paired inflate deflate z z' \<and> js_limits z = lim \<and> plain_value vn exempt z p"

context packet_registry
begin

lemma arrives_decoded:
  assumes "so_encode (java_ops inflate deflate vn propose disconnect lim) z p = Inr payload"
    and "sendable_packet inflate deflate vn exempt lim z z' p"
  shows "\<exists>q. so_decode (java_ops inflate deflate vn propose' disconnect' lim) z' payload = Inr q \<and> as_delivered vn p q"
proof -
  from assms obtain t vs where "gp_value p = Known t vs" "t \<in> fst ` set (vn_schemas vn)" "t \<notin> set exempt"
    "list_all (within_levels (nat (recursion_depth (js_limits z)))) vs" "encode_frame deflate vn z p = Inr payload"
    and pair: "paired inflate deflate z z'"
    by (auto simp: sendable_packet_def plain_value_def java_ops_def split: packet_value.splits)
  with frame_known [of z inflate deflate z' p t vs payload] show ?thesis
    unfolding paired_def by (auto simp: java_ops_def as_delivered_def)
qed

end

interpretation streams_47: delivery
    "java_ops inflate deflate version_47 propose_transition_47 disconnect (limits_of l)"
    "java_ops inflate deflate version_47 propose_transition_47 disconnect' (limits_of l)" "limits_of l" z z'
    "sendable_packet inflate deflate version_47 metadata_packets_47 (limits_of l) z z'" "as_delivered version_47"
  for inflate deflate disconnect disconnect' l z z'
  by (unfold_locales, erule built_frame [OF limits_of_ok], erule (1) registry_47.arrives_decoded)

interpretation streams_775: delivery
    "java_ops inflate deflate (version_775 dec enc) propose_transition_775 disconnect (limits_of l)"
    "java_ops inflate deflate (version_775 dec enc) propose_transition_775 disconnect' (limits_of l)" "limits_of l" z z'
    "sendable_packet inflate deflate (version_775 dec enc) metadata_packets_775 (limits_of l) z z'"
    "as_delivered (version_775 dec enc)"
  for inflate deflate dec enc disconnect disconnect' l z z'
  by (unfold_locales, erule built_frame [OF limits_of_ok], erule (1) registry_775.arrives_decoded)

section \<open>A keepalive\<close>

text \<open>A Write that runs to its end on a fresh stream, and the packet's arrival on another.\<close>

definition written_writer :: "'p \<Rightarrow> 'p Stream_Coordinator.writer" where
  "written_writer p = \<lparr>wr_packet = p, wr_phase = Waiting, wr_state = WriteStarted, wr_result = Some None\<rparr>"

lemma first_write:
  fixes ops :: "('z, 'p, 't, 'c) session_ops" and ops' :: "('y, 'q, 'u, 'd) session_ops"
  assumes "0 < queue_items lim" "so_encode ops z p = Inr x" "so_propose ops z p = Inr None" "so_build ops x = Inr w"
  shows "\<exists>a. flow ops ops' lim z z' a w (new_stream lim z') \<and> sm_writers a = [written_writer p] \<and>
    sm_sent a = [(Some 0, w)]"
proof -
  let ?F = "flow ops ops' lim z z'" and ?b = "new_stream lim z'"
  define b1 where "b1 = (new_budget (queue_items lim) (queued_byte_capacity lim))
    \<lparr>used_items := 1, store := [0 \<mapsto> \<lparr>w_items = 1, w_bytes = 0, w_ready = True, w_granted = True, w_err = None\<rparr>], next_waiter := 1\<rparr>"
  define w0 where "w0 = \<lparr>wr_packet = p, wr_phase = Reserving 0, wr_state = WriteQueued, wr_result = None\<rparr>"
  define a0 :: "('z, 'p, 't) stream" where "a0 = (new_stream lim z)"
  define a1 where "a1 = a0\<lparr>sm_budget := b1, sm_writers := [w0]\<rparr>"
  define a2 where "a2 = a1\<lparr>sm_writers := [w0\<lparr>wr_phase := Offering\<rparr>]\<rparr>"
  define a3 where "a3 = a2\<lparr>sm_writers := [w0\<lparr>wr_phase := Waiting\<rparr>], sm_mode := Preparing 0\<rparr>"
  define a4 where "a4 = a3\<lparr>sm_frames := 1, sm_mode := Writing 0 None w,
    sm_writers := [w0\<lparr>wr_phase := Waiting, wr_state := WriteStarted\<rparr>]\<rparr>"
  define a5 where "a5 = a4\<lparr>sm_budget := b1\<lparr>used_items := 0\<rparr>, sm_writers := [written_writer p],
    sm_sent := [(Some 0, w)], sm_mode := Selecting\<rparr>"
  note states = a0_def a1_def a2_def a3_def a4_def a5_def w0_def
  have 1: "write_call p a0 = Some a1"
    using assms(1) by (simp add: states b1_def new_stream_def write_call_def writable_def reserve_def new_budget_def
        grant_locked_def Stream_Budget.fits_def close_ready_def Let_def)
  have 2: "write_answered 0 0 a1 = Some a2"
    by (simp add: states b1_def new_stream_def write_answered_def failure_def set_phase_def update_writer_def)
  have 3: "set_phase 0 Waiting (a2\<lparr>sm_mode := Preparing 0\<rparr>) = a3"
    by (simp add: states new_stream_def set_phase_def update_writer_def)
  have 4: "prepare_write ops 0 a3 = Some a4"
    using assms(2-4) by (simp add: states new_stream_def prepare_write_def encode_write_def resolve_transition_def
        begin_request_def update_writer_def bindR_def)
  have 5: "finish_write ops 0 None w None a4 = Some a5"
    by (simp add: states b1_def new_stream_def finish_write_def update_writer_def finish_request_def commit_def
        release_write_def release_def grant_locked_def new_budget_def written_writer_def)
  have fields: "sm_session a0 = z" "sm_session a1 = z" "sm_session a2 = z" "sm_session a3 = z" "sm_session a4 = z"
    "sm_session a5 = z" "sm_sent a0 = []" "sm_sent a1 = []" "sm_sent a2 = []" "sm_sent a3 = []" "sm_sent a4 = []"
    "sm_sent a5 = [(Some 0, w)]"
    by (simp_all add: states new_stream_def)
  have "?F a0 [] ?b" unfolding a0_def by (rule flow.opened)
  then have "?F a1 [] ?b"
    by (rule flow_quiet) (use stream_step.called [of ops a0 p] 1 fields in simp_all)
  then have "?F a2 [] ?b"
    by (rule flow_quiet) (use stream_step.answered [of a1 0 0 ops] 2 fields in
      \<open>simp_all add: phase_of_def waiter_ready_def states b1_def\<close>)
  then have "?F a3 [] ?b"
    by (rule flow_quiet) (use stream_step.write_taken [of a2 0 ops] 3 fields in
      \<open>simp_all add: phase_of_def states new_stream_def\<close>)
  then have "?F a4 [] ?b"
    by (rule flow_quiet) (use stream_step.write_prepared [of a3 0 ops] 4 fields in \<open>simp_all add: states\<close>)
  then have "?F a5 ([] @ concat (map snd (drop (length (sm_sent a4)) (sm_sent a5)))) ?b"
    by (rule flow.writes) (use stream_step.write_finished [of a4 0 None w ops None] 5 fields in \<open>simp_all add: states\<close>)
  then show ?thesis
    using fields by (intro exI [of _ a5]) (simp add: a5_def)
qed

lemma first_arrival:
  fixes ops :: "('z, 'p, 't, 'c) session_ops" and ops' :: "('y, 'q, 'u, 'd) session_ops"
  assumes "flow ops ops' lim z z' a w (new_stream lim z')" "read_frame lim w = Inr (f, [])"
    and "so_decode ops' z' (frame_payload f) = Inr q" "so_propose ops' z' q = Inr None"
    and "0 < queue_items lim" "int (so_length ops' q) \<le> queued_byte_capacity lim"
  shows "\<exists>b. flow ops ops' lim z z' a [] b \<and> sm_arrived b = [q]"
proof -
  let ?F = "flow ops ops' lim z z' a" and ?n = "int (so_length ops' q)"
  define b0 :: "('y, 'q, 'u) stream" where "b0 = (new_stream lim z')"
  define b1 where "b1 = b0\<lparr>sm_slot := False, sm_pump := PumpFraming\<rparr>"
  define b2 where "b2 = b1\<lparr>sm_pump := PumpHanding (frame_payload f)\<rparr>"
  define b3 where "b3 = b0\<lparr>sm_frames := 1, sm_arrived := [q], sm_pending := Some ((q, so_length ops' q), 0),
    sm_budget := (new_budget (queue_items lim) (queued_byte_capacity lim))\<lparr>used_items := 1, used_bytes := ?n,
      store := [0 \<mapsto> \<lparr>w_items = 1, w_bytes = ?n, w_ready = True, w_granted = True, w_err = None\<rparr>], next_waiter := 1\<rparr>\<rparr>"
  note states = b0_def b1_def b2_def b3_def
  have taken: "take_frame ops' (frame_payload f) b2 = Some b3"
    using assms(3-6) by (simp add: states new_stream_def take_frame_def decode_inbound_def release_processing_def
        resolve_transition_def commit_def reserve_def new_budget_def grant_locked_def Stream_Budget.fits_def close_ready_def
        bindR_def Let_def)
  have "?F w b0" unfolding b0_def by (rule assms(1))
  then have "?F w b1"
    by (rule flow.proceeds) (use stream_step.acquire_slot [of b0 ops'] in \<open>simp_all add: states new_stream_def\<close>)
  then have "?F [] b2"
    unfolding b2_def by (rule flow.reads) (use assms(2) in \<open>simp_all add: states\<close>)
  then have "?F [] b3"
    by (rule flow.proceeds) (use stream_step.frame_taken [of b2 "frame_payload f" ops'] taken in
      \<open>simp_all add: states new_stream_def\<close>)
  then show ?thesis by (intro exI [of _ b3]) (simp add: b3_def)
qed

definition clientward :: java_session where
  "clientward = (fresh_47 role_client)\<lparr>js_state := ''play''\<rparr>"

definition keep_alive_packet :: protocol_packet where
  "keep_alive_packet = \<lparr>gp_state = ''play'', gp_direction = clientbound, gp_id = 0, gp_name = [], gp_payload = [],
     gp_value = Known ''PlayClientboundKeepAlive'' [V32 5]\<rparr>"

lemma keep_alive_frames:
  "encode_frame stored_deflate version_47 played_47 keep_alive_packet = Inr [0, 5]"
  "decode_frame stored_inflate version_47 clientward [0, 5] =
     Inr (keep_alive_packet\<lparr>gp_name := ''keep_alive'', gp_payload := [5]\<rparr>)"
  "build_frame default_limits [0, 5] = Inr \<lparr>wire_bytes = [2, 0, 5], payload_offset = 1\<rparr>"
  "read_frame default_limits [2, 0, 5] = Inr (\<lparr>wire_bytes = [2, 0, 5], payload_offset = 1\<rparr>, [])"
  unfolding played_47_def clientward_def fresh_47 by code_simp+

lemma keep_alive_schema: "''PlayClientboundKeepAlive'' \<in> fst ` set packet_schemas_47"
  by code_simp

lemma keep_alive_stays:
  "propose_transition_47 z keep_alive_packet = Inr None"
  "propose_transition_47 z (keep_alive_packet\<lparr>gp_name := name, gp_payload := payload\<rparr>) = Inr None"
  by (simp_all add: propose_transition_47_def keep_alive_packet_def)

lemma keep_alive_paired: "paired stored_inflate stored_deflate played_47 clientward" "js_limits played_47 = default_limits"
  by (simp_all add: paired_def played_47_def clientward_def fresh_47 mirrors_def own_policy_def zlib_agrees_stored)

abbreviation ops_47 :: "(java_session, protocol_packet, session_transition, session_control) session_ops" where
  "ops_47 \<equiv> java_ops stored_inflate stored_deflate version_47 propose_transition_47 (\<lambda>_. Inr None) default_limits"

lemma keep_alive_flow:
  "\<exists>a b. flow ops_47 ops_47 default_limits played_47 clientward a [] b \<and>
     sm_writers a = [written_writer keep_alive_packet] \<and> sm_sent a = [(Some 0, [2, 0, 5])] \<and>
     sm_arrived b = [keep_alive_packet\<lparr>gp_name := ''keep_alive'', gp_payload := [5]\<rparr>]"
proof -
  have "\<exists>a. flow ops_47 ops_47 default_limits played_47 clientward a [2, 0, 5] (new_stream default_limits clientward) \<and>
      sm_writers a = [written_writer keep_alive_packet] \<and> sm_sent a = [(Some 0, [2, 0, 5])]"
    by (rule first_write [where x = "[0, 5]"])
      (simp_all add: java_ops_def keep_alive_frames keep_alive_stays bindR_def,
       simp add: default_limits_def)
  then obtain a where a: "flow ops_47 ops_47 default_limits played_47 clientward a [2, 0, 5] (new_stream default_limits clientward)"
    "sm_writers a = [written_writer keep_alive_packet]" "sm_sent a = [(Some 0, [2, 0, 5])]" by blast
  have "\<exists>b. flow ops_47 ops_47 default_limits played_47 clientward a [] b \<and>
      sm_arrived b = [keep_alive_packet\<lparr>gp_name := ''keep_alive'', gp_payload := [5]\<rparr>]"
    by (rule first_arrival [OF a(1) keep_alive_frames(4)])
      (simp_all add: java_ops_def keep_alive_frames keep_alive_stays frame_payload_def default_limits_def queued_byte_capacity_def)
  with a show ?thesis by blast
qed

section \<open>Properties\<close>



end
