(* ===== verification/Legacy_Ping.thy ===== *)
theory Legacy_Ping
  imports Modified_UTF8 Java_Session
begin

unbundle bit_operations_syntax

text \<open>
  wire/java/legacy_ping.go: the answer to the server list ping of clients before Java 1.7, which comes
  in front of any frame. The hook peeks at two bytes and either takes the connection over or leaves
  every byte to the framer. The reader is the list of the bytes to come; a Peek past its end fails.
\<close>

section \<open>The response\<close>

datatype legacy_error = ErrInvalidLegacyStatus | LegacyHandler wire_error | LegacyWrite wire_error

record legacy_status =
  ls_protocol :: i32
  ls_version :: bytes
  ls_motd :: bytes
  ls_online :: int
  ls_max :: int

text \<open>strconv's decimal numbers, as bytes; the marker is a section sign and a one.\<close>

definition number_text :: "int \<Rightarrow> bytes" where
  "number_text i = map (\<lambda>c. of_nat (of_char c)) (format_int i)"

definition legacy_marker :: bytes where
  "legacy_marker = [0xC2, 0xA7, 0x31]"

definition legacy_fields :: "legacy_status \<Rightarrow> bytes list" where
  "legacy_fields st = [legacy_marker, number_text (sint (ls_protocol st)), ls_version st, ls_motd st,
     number_text (ls_online st), number_text (ls_max st)]"

fun join_fields :: "bytes list \<Rightarrow> bytes" where
  "join_fields [] = []"
| "join_fields [f] = f"
| "join_fields (f # fs) = f @ 0 # join_fields fs"

text \<open>\<open>utf16.Encode\<close>, a rune at a time.\<close>

definition utf16_units :: "i32 \<Rightarrow> 16 word list" where
  "utf16_units r =
     (if 0 \<le> sint r \<and> sint r < 0xD800 \<or> 0xE000 \<le> sint r \<and> sint r < 0x10000 then [ucast r]
      else if 0x10000 \<le> sint r \<and> sint r \<le> 0x10FFFF then
        [0xD800 + ucast (drop_bit 10 (r - 0x10000) AND 0x3FF), 0xDC00 + ucast ((r - 0x10000) AND 0x3FF)]
      else [0xFFFD])"

definition utf16_encode :: "i32 list \<Rightarrow> 16 word list" where
  "utf16_encode rs = concat (map utf16_units rs)"

definition encode_legacy_status :: "legacy_status \<Rightarrow> legacy_error + bytes" where
  "encode_legacy_status st =
     (if list_ex (\<lambda>f. 0 \<in> set f) (legacy_fields st) then Inl ErrInvalidLegacyStatus
      else let units = utf16_encode (go_runes (join_fields (legacy_fields st))) in
        if 65535 < length units then Inl ErrInvalidLegacyStatus
        else Inr (0xFF # be_bytes 2 (of_nat (length units) :: 16 word) @ concat (map (be_bytes 2) units)))"

section \<open>The hook\<close>

definition is_legacy_ping :: "bytes \<Rightarrow> bool" where
  "is_legacy_ping pending \<longleftrightarrow> (case pending of a # b # _ \<Rightarrow> a = 0xFE \<and> b = 0x01 | _ \<Rightarrow> False)"

text \<open>Whether the hook claimed the connection, its error, the bytes left and the writer.\<close>

definition handle_pre_frame ::
    "legacy_status result \<Rightarrow> 'w writer \<Rightarrow> bytes \<Rightarrow> 'w \<Rightarrow> bool \<times> legacy_error option \<times> bytes \<times> 'w" where
  "handle_pre_frame handled wr pending w =
     (if \<not> is_legacy_ping pending then (False, None, pending, w)
      else let rest = drop 2 pending in
        case handled of
          Inl e \<Rightarrow> (True, Some (LegacyHandler e), rest, w)
        | Inr st \<Rightarrow> (case encode_legacy_status st of
            Inl e \<Rightarrow> (True, Some e, rest, w)
          | Inr response \<Rightarrow> (case write_full wr w response of
              (n, e, w') \<Rightarrow> (True, map_option LegacyWrite e, rest, w'))))"

definition run_pre_frame ::
    "wire_error option \<Rightarrow> bool \<Rightarrow> legacy_status result \<Rightarrow> 'w writer \<Rightarrow> bytes \<Rightarrow> 'w \<Rightarrow>
      (bool \<times> (wire_error + legacy_error) option \<times> bytes \<times> 'w)" where
  "run_pre_frame ctx given handled wr pending w =
     (if \<not> given then (False, None, pending, w)
      else case ctx of
        Some e \<Rightarrow> (False, Some (Inl e), pending, w)
      | None \<Rightarrow> (case handle_pre_frame handled wr pending w of
          (claimed, e, pending', w') \<Rightarrow> (claimed, map_option Inr e, pending', w')))"

section \<open>Runes of joined fields\<close>

lemma shifted_zero:
  assumes "(push_bit k (ucast (x :: byte)) :: i32) = 0" "k \<le> 24"
  shows "x = 0"
proof (rule bit_word_eqI)
  fix n assume "n < LENGTH(8)"
  with assms(2) have n: "n < 8" "k + n < 32" by simp_all
  have "\<not> bit (push_bit k (ucast x) :: i32) (k + n)" by (simp add: assms(1))
  with n show "bit x n = bit 0 n" by (simp add: bit_push_bit_iff bit_ucast_iff)
qed

lemma low_mod: "uint ((b :: byte) AND mask n) = uint b mod 2 ^ n"
  unfolding take_bit_eq_mask [symmetric] unsigned_take_bit_eq by (simp only: take_bit_eq_mod)

lemma lead_bytes:
  "in_bytes 0xC2 0xDF b \<Longrightarrow> (push_bit 6 (ucast (b AND 0x1F)) :: i32) \<noteq> 0"
  "in_bytes 0xE0 0xEF b \<Longrightarrow> b \<noteq> 0xE0 \<Longrightarrow> (push_bit 12 (ucast (b AND 0x0F)) :: i32) \<noteq> 0"
  "in_bytes 0xF0 0xF4 b \<Longrightarrow> b \<noteq> 0xF0 \<Longrightarrow> (push_bit 18 (ucast (b AND 0x07)) :: i32) \<noteq> 0"
  "in_bytes 0xA0 0xBF b \<Longrightarrow> (push_bit 6 (ucast (b AND 0x3F)) :: i32) \<noteq> 0"
  "in_bytes 0x90 0xBF b \<Longrightarrow> (push_bit 12 (ucast (b AND 0x3F)) :: i32) \<noteq> 0"
proof -
  have low: "(0x1F :: byte) = mask 5" "(0x0F :: byte) = mask 4" "(0x07 :: byte) = mask 3" "(0x3F :: byte) = mask 6"
    by (simp_all add: mask_eq_exp_minus_1)
  have none: "uint b mod 2 ^ n = 0" if "(push_bit k (ucast (b AND mask n)) :: i32) = 0" "k \<le> 24" for n k
    using shifted_zero [OF that] low_mod [of b n] by simp
  have range: "in_bytes lo hi b \<longleftrightarrow> uint lo \<le> uint b \<and> uint b \<le> uint hi" for lo hi
    by (simp add: in_bytes_def word_le_def)
  show "(push_bit 6 (ucast (b AND 0x1F)) :: i32) \<noteq> 0" if "in_bytes 0xC2 0xDF b"
  proof
    assume "(push_bit 6 (ucast (b AND 0x1F)) :: i32) = 0"
    then have "uint b mod 32 = 0" using none [of 6 5] low by simp
    with that show False unfolding range by simp presburger
  qed
  show "(push_bit 12 (ucast (b AND 0x0F)) :: i32) \<noteq> 0" if "in_bytes 0xE0 0xEF b" "b \<noteq> 0xE0"
  proof
    assume "(push_bit 12 (ucast (b AND 0x0F)) :: i32) = 0"
    then have "uint b mod 16 = 0" using none [of 12 4] low by simp
    moreover from that(2) have "uint b \<noteq> 0xE0" by (metis of_int_numeral word_of_int_uint)
    ultimately show False using that(1) unfolding range by simp presburger
  qed
  show "(push_bit 18 (ucast (b AND 0x07)) :: i32) \<noteq> 0" if "in_bytes 0xF0 0xF4 b" "b \<noteq> 0xF0"
  proof
    assume "(push_bit 18 (ucast (b AND 0x07)) :: i32) = 0"
    then have "uint b mod 8 = 0" using none [of 18 3] low by simp
    moreover from that(2) have "uint b \<noteq> 0xF0" by (metis of_int_numeral word_of_int_uint)
    ultimately show False using that(1) unfolding range by simp presburger
  qed
  show "(push_bit 6 (ucast (b AND 0x3F)) :: i32) \<noteq> 0" if "in_bytes 0xA0 0xBF b"
  proof
    assume "(push_bit 6 (ucast (b AND 0x3F)) :: i32) = 0"
    then have "uint b mod 64 = 0" using none [of 6 6] low by simp
    with that show False unfolding range by simp presburger
  qed
  show "(push_bit 12 (ucast (b AND 0x3F)) :: i32) \<noteq> 0" if "in_bytes 0x90 0xBF b"
  proof
    assume "(push_bit 12 (ucast (b AND 0x3F)) :: i32) = 0"
    then have "uint b mod 64 = 0" using none [of 12 6] low by simp
    with that show False unfolding range by simp presburger
  qed
qed

lemma not_zero [simp]: "\<not> in_bytes (if c then 0xA0 else 0x80) hi 0" "\<not> in_bytes (if c then 0x90 else 0x80) hi 0"
  "\<not> continuation 0"
  by (simp_all add: in_bytes_def continuation_def)

text \<open>The bytes that a rune may continue with do not include the separator.\<close>

lemma nth_joined: "(t @ 0 # ys) ! i = (if i < length t then t ! i else (0 # ys) ! (i - length t))"
  by (rule nth_append)

lemma first_rune_join:
  assumes "xs \<noteq> []"
  shows "first_rune (xs @ 0 # ys) = first_rune xs"
proof (cases xs)
  case (Cons b t)
  consider "length t = 0" | "length t = 1" | "length t = 2" | "3 \<le> length t" by linarith
  then show ?thesis
  proof cases
    case 1
    then show ?thesis by (simp add: first_rune_def Cons)
  next
    case 2
    have "(t @ 0 # ys) ! 0 = t ! 0" "(t @ 0 # ys) ! 1 = 0" unfolding nth_joined by (simp_all add: 2)
    then show ?thesis unfolding first_rune_def Cons append_Cons list.case by (simp only: 2 length_append not_zero) simp
  next
    case 3
    have "(t @ 0 # ys) ! 0 = t ! 0" "(t @ 0 # ys) ! 1 = t ! 1" "(t @ 0 # ys) ! 2 = 0"
      unfolding nth_joined by (simp_all add: 3)
    then show ?thesis unfolding first_rune_def Cons append_Cons list.case by (simp only: 3 length_append not_zero) simp
  next
    case 4
    then have "0 < length t" "1 < length t" "2 < length t" by linarith+
    then have "(t @ 0 # ys) ! 0 = t ! 0" "(t @ 0 # ys) ! 1 = t ! 1" "(t @ 0 # ys) ! 2 = t ! 2"
      unfolding nth_joined by (simp_all only: if_True)
    moreover have "1 \<le> length t" "2 \<le> length t" "1 \<le> length (t @ 0 # ys)" "2 \<le> length (t @ 0 # ys)" "3 \<le> length (t @ 0 # ys)"
      using 4 by simp_all
    ultimately show ?thesis unfolding first_rune_def Cons append_Cons list.case by (simp only: 4)
  qed
qed (use assms in simp)

lemma first_rune_width: "snd (first_rune xs) \<le> length xs" "xs \<noteq> [] \<Longrightarrow> 0 < snd (first_rune xs)"
  by (auto simp: first_rune_def split: list.splits if_splits)

lemma first_rune_zero: "s \<noteq> [] \<Longrightarrow> 0 \<notin> set s \<Longrightarrow> fst (first_rune s) \<noteq> 0"
proof (cases s)
  case (Cons b t)
  assume "0 \<notin> set s"
  with Cons have "b \<noteq> 0" by auto
  then have "(ucast b :: i32) \<noteq> 0" using shifted_zero [of 0 b] by auto
  then show ?thesis
    using lead_bytes [of b] lead_bytes(4,5) [of "t ! 0"]
    by (auto simp: first_rune_def Cons or_eq_0_iff split: if_splits)
qed simp

lemma go_runes_step: "s \<noteq> [] \<Longrightarrow> go_runes s = fst (first_rune s) # go_runes (drop (snd (first_rune s)) s)"
  by (subst go_runes.simps) (simp add: case_prod_beta)

lemma go_runes_separator: "go_runes (0 # ys) = 0 # go_runes ys"
  by (simp add: go_runes_step first_rune_def)

lemma go_runes_join: "go_runes (xs @ 0 # ys) = go_runes xs @ 0 # go_runes ys"
proof (induction "length xs" arbitrary: xs rule: less_induct)
  case less
  show ?case
  proof (cases "xs = []")
    case True
    then show ?thesis by (simp add: go_runes_separator go_runes.simps [of "[]"])
  next
    case False
    let ?k = "snd (first_rune xs)"
    from first_rune_width [of xs] False have "length (drop ?k xs) < length xs" by simp
    from less [OF this] False first_rune_width(1) [of xs] show ?thesis
      by (simp add: go_runes_step first_rune_join)
  qed
qed

lemma go_runes_no_separator: "0 \<notin> set s \<Longrightarrow> 0 \<notin> set (go_runes s)"
proof (induction "length s" arbitrary: s rule: less_induct)
  case less
  show ?case
  proof (cases "s = []")
    case False
    let ?t = "drop (snd (first_rune s)) s"
    from first_rune_width [of s] False have "length ?t < length s" by simp
    moreover from less.prems have "0 \<notin> set ?t" by (meson in_set_dropD)
    ultimately have "0 \<notin> set (go_runes ?t)" using less.hyps by blast
    with False first_rune_zero [OF False less.prems] show ?thesis by (simp add: go_runes_step)
  qed (simp add: go_runes.simps [of "[]"])
qed

section \<open>Code units\<close>

lemma utf16_units_zero [simp]: "utf16_units 0 = [0]"
  by (simp add: utf16_units_def)

lemma utf16_units_nonzero:
  assumes "r \<noteq> 0"
  shows "0 \<notin> set (utf16_units r)"
proof -
  have low: "uint (ucast (x AND 0x3FF) :: 16 word) < 1024" for x :: i32
  proof -
    have "(0x3FF :: i32) = mask 10" by (simp add: mask_eq_exp_minus_1)
    then have "uint (x AND 0x3FF) = take_bit 10 (uint x)"
      by (simp only: take_bit_eq_mask [symmetric] unsigned_take_bit_eq)
    then show ?thesis using take_bit_int_less_exp [of 10 "uint x"] by (simp add: unsigned_ucast_eq)
  qed
  have part: "c + ucast (x AND 0x3FF) \<noteq> 0" if "uint c < 64000" "0 < uint c" for c :: "16 word" and x :: i32
  proof
    assume "c + ucast (x AND 0x3FF) = 0"
    then have "uint (c + ucast (x AND 0x3FF)) = 0" by simp
    then have "(uint c + uint (ucast (x AND 0x3FF) :: 16 word)) mod 65536 = 0" by (simp add: uint_word_ariths)
    moreover have "0 \<le> uint (ucast (x AND 0x3FF) :: 16 word)" by simp
    ultimately show False using that low [of x] by simp
  qed
  have "(ucast r :: 16 word) \<noteq> 0" if "0 \<le> sint r" "sint r < 65536"
  proof
    assume "(ucast r :: 16 word) = 0"
    then have "uint (ucast r :: 16 word) = 0" by simp
    then have "take_bit 16 (uint r) = 0" by (simp add: unsigned_ucast_eq)
    moreover have "uint r = sint r" using that(1) by (rule sint_eq_uint_i32)
    ultimately have "uint r = 0" using that by (simp add: take_bit_eq_mod)
    with assms show False by (simp add: uint_0_iff)
  qed
  then show ?thesis by (auto simp: utf16_units_def part)
qed

section \<open>A client's reading\<close>

text \<open>
  What a client of the time does with the answer: the packet id, the count of code units, the
  units, and the fields between their zeros. It is a reference reading, not code of the repository.
\<close>

fun units_of :: "bytes \<Rightarrow> 16 word list" where
  "units_of (a # b # rest) = be_word [a, b] # units_of rest"
| "units_of _ = []"

fun split_units :: "16 word list \<Rightarrow> 16 word list list" where
  "split_units [] = [[]]"
| "split_units (u # us) = (if u = 0 then [] # split_units us
     else case split_units us of [] \<Rightarrow> [[u]] | f # fs \<Rightarrow> (u # f) # fs)"

definition client_fields :: "bytes \<Rightarrow> 16 word list list option" where
  "client_fields response = (case response of
     k # a # b # payload \<Rightarrow>
       if k = 0xFF \<and> 2 * unat (be_word [a, b] :: 16 word) = length payload then Some (split_units (units_of payload))
       else None
   | _ \<Rightarrow> None)"

lemma split_units_plain: "0 \<notin> set us \<Longrightarrow> split_units us = [us]"
  by (induction us) auto

lemma split_units_join: "0 \<notin> set us \<Longrightarrow> split_units (us @ 0 # vs) = us # split_units vs"
  by (induction us) auto

lemma units_of_bytes: "units_of (concat (map (be_bytes 2) us)) = us"
proof (induction us)
  case (Cons u us)
  obtain a b where ab: "be_bytes 2 u = [a, b]"
    using length_be_bytes [of 2 u] by (auto simp: numeral_2_eq_2 length_Suc_conv)
  have "be_word [a, b] = u" using be_word_be_bytes [of 2 u] ab by simp
  with Cons ab show ?case by simp
qed simp

lemma utf16_encode_join: "utf16_encode (xs @ 0 # ys) = utf16_encode xs @ 0 # utf16_encode ys"
  by (simp add: utf16_encode_def)

lemma utf16_encode_no_separator: "0 \<notin> set rs \<Longrightarrow> 0 \<notin> set (utf16_encode rs)"
  unfolding utf16_encode_def by (simp, metis utf16_units_nonzero)

lemma joined_fields_split:
  assumes "fs \<noteq> []" "\<And>f. f \<in> set fs \<Longrightarrow> 0 \<notin> set f"
  shows "split_units (utf16_encode (go_runes (join_fields fs))) = map (utf16_encode \<circ> go_runes) fs"
  using assms
proof (induction fs rule: join_fields.induct)
  case (3 f g fs)
  then have "0 \<notin> set (utf16_encode (go_runes f))"
    by (intro utf16_encode_no_separator go_runes_no_separator) simp
  with 3 show ?case by (simp add: go_runes_join utf16_encode_join split_units_join)
next
  case (2 f)
  then show ?case by (simp add: split_units_plain utf16_encode_no_separator go_runes_no_separator)
qed simp

section \<open>Properties\<close>

text \<open>
  C0: the answer to a legacy ping carries the fields the handler gave and nothing can shift them. When the
  hook is offered a connection that begins with FE 01, it takes exactly these two bytes and writes one
  answer, and a client that reads it gets the six fields of the status, each as the UTF-16 of its text,
  whatever bytes the version and the message contain; any other connection keeps every byte and gets none.
\<close>

theorem legacy_ping_answer:
  assumes "encode_legacy_status st = Inr response"
  shows "run_pre_frame None True (Inr st) buffer_write pending w =
      (if take 2 pending = [0xFE, 0x01] then (True, None, drop 2 pending, w @ response) else (False, None, pending, w)) \<and>
    client_fields response = Some (map (utf16_encode \<circ> go_runes) (legacy_fields st))"
proof
  have "is_legacy_ping pending \<longleftrightarrow> take 2 pending = [0xFE, 0x01]"
    by (auto simp: is_legacy_ping_def numeral_2_eq_2 split: list.splits)
  with assms show "run_pre_frame None True (Inr st) buffer_write pending w =
      (if take 2 pending = [0xFE, 0x01] then (True, None, drop 2 pending, w @ response) else (False, None, pending, w))"
    by (simp add: run_pre_frame_def handle_pre_frame_def)
next
  let ?us = "utf16_encode (go_runes (join_fields (legacy_fields st)))"
  from assms have clean: "\<And>f. f \<in> set (legacy_fields st) \<Longrightarrow> 0 \<notin> set f" and short: "length ?us \<le> 65535"
    and response: "response = 0xFF # be_bytes 2 (of_nat (length ?us) :: 16 word) @ concat (map (be_bytes 2) ?us)"
    by (auto simp: encode_legacy_status_def Let_def list_ex_iff split: if_splits)
  obtain a b where ab: "be_bytes 2 (of_nat (length ?us) :: 16 word) = [a, b]"
    using length_be_bytes [of 2 "of_nat (length ?us) :: 16 word"] by (auto simp: numeral_2_eq_2 length_Suc_conv)
  have "be_word [a, b] = (of_nat (length ?us) :: 16 word)"
    using be_word_be_bytes [of 2 "of_nat (length ?us) :: 16 word"] ab by simp
  then have "unat (be_word [a, b] :: 16 word) = length ?us"
    using short by (simp add: unat_of_nat)
  moreover have "length (concat (map (be_bytes 2) ?us)) = 2 * length ?us"
    by (simp add: length_concat comp_def sum_list_triv)
  ultimately have "client_fields response = Some (split_units ?us)"
    by (simp add: response ab client_fields_def units_of_bytes)
  also have "split_units ?us = map (utf16_encode \<circ> go_runes) (legacy_fields st)"
    by (rule joined_fields_split [OF _ clean]) (simp_all add: legacy_fields_def)
  finally show "client_fields response = Some (map (utf16_encode \<circ> go_runes) (legacy_fields st))" .
qed

definition sample_legacy :: legacy_status where
  "sample_legacy = \<lparr>ls_protocol = 47, ls_version = [49, 46, 56], ls_motd = [72, 0xC3, 0xA9], ls_online = 3, ls_max = 20\<rparr>"

lemma sample_legacy_text:
  "join_fields (legacy_fields sample_legacy) =
    [0xC2, 0xA7, 0x31, 0, 52, 55, 0, 49, 46, 56, 0, 72, 0xC3, 0xA9, 0, 51, 0, 50, 48]"
  "list_ex (\<lambda>f. 0 \<in> set f) (legacy_fields sample_legacy) = False"
  "go_runes [0xC2, 0xA7, 0x31, 0, 52, 55, 0, 49, 46, 56, 0, 72, 0xC3, 0xA9, 0, 51, 0, 50, 48] =
    [0xA7, 0x31, 0, 52, 55, 0, 49, 46, 56, 0, 72, 0xE9, 0, 51, 0, 50, 48]"
  by code_simp+

theorem legacy_ping_answer_witness:
  "\<exists>response. run_pre_frame None True (Inr sample_legacy) buffer_write [0xFE, 0x01, 7] [] = (True, None, [7], response) \<and>
    client_fields response = Some (map (utf16_encode \<circ> go_runes) (legacy_fields sample_legacy))"
proof -
  have "\<exists>response. encode_legacy_status sample_legacy = Inr response"
    unfolding encode_legacy_status_def sample_legacy_text Let_def by (simp add: utf16_encode_def utf16_units_def)
  then obtain response where "encode_legacy_status sample_legacy = Inr response" by blast
  from legacy_ping_answer [OF this, of "[0xFE, 0x01, 7]" "[]"] show ?thesis by simp
qed

end
