(* ===== verification/Spec2Isabelle.thy ===== *)
theory Spec2Isabelle
  imports Capture_Reader History_Ring Packet_Router Wire_Chunk Wire_Compression Stream_Conduit NBT_Lookup Stream_Accounts
    Login_Laws Replay_Java Java_Stream Legacy_Ping
begin

text \<open>
  A model of go-theft-craft/minecraft-protocol.
\<close>

end
